(* ===== verification/Prelude.thy ===== *)
theory Prelude
  imports Main "HOL-Library.List_Lexorder"
begin

text \<open>
  Shared vocabulary of the development: results (a raised exception is the left injection
  of a sum), PostgreSQL integer bounds, tables as lists of rows with the SQL statement
  shapes the repositories use (SELECT, UPDATE ... RETURNING, INSERT ... ON CONFLICT DO
  NOTHING), and the transition-system interface that every state machine of the
  development instantiates.
\<close>

section \<open>Collections of rewrite rules\<close>

named_theorems table_simps \<open>equations of the SQL statement shapes\<close>
named_theorems guard_defs \<open>definitions of guards, unfolded together\<close>

section \<open>Results\<close>

text \<open>
  A Python function that returns or raises is a function into \<open>'e + 'a\<close>; the left
  injection carries the exception. A database transaction maps a store to
  \<open>'e + ('a \<times> 'db)\<close>: when it raises, the transaction rolls back, so no store is returned.
\<close>

definition is_ok :: "'e + 'a \<Rightarrow> bool" where
  "is_ok r = (case r of Inl _ \<Rightarrow> False | Inr _ \<Rightarrow> True)"

lemma is_ok_simps [simp]: "is_ok (Inr x)" "\<not> is_ok (Inl e)"
  by (simp_all add: is_ok_def)

lemma is_okE: "is_ok r \<Longrightarrow> (\<And>x. r = Inr x \<Longrightarrow> P) \<Longrightarrow> P"
  by (cases r) auto

text \<open>
  Sequencing: the statement that follows runs only when the first one returned. An
  \<^verbatim>\<open>if not p: raise e\<close> is \<open>ensure p e\<close>.
\<close>

definition and_then :: "'e + 'a \<Rightarrow> ('a \<Rightarrow> 'e + 'b) \<Rightarrow> 'e + 'b" where
  "and_then m f = (case m of Inl e \<Rightarrow> Inl e | Inr x \<Rightarrow> f x)"

definition ensure :: "bool \<Rightarrow> 'e \<Rightarrow> 'e + unit" where
  "ensure p e = (if p then Inr () else Inl e)"

definition some_or :: "'e \<Rightarrow> 'a option \<Rightarrow> 'e + 'a" where
  "some_or e x = (case x of None \<Rightarrow> Inl e | Some y \<Rightarrow> Inr y)"

lemma and_then_simps [simp]: "and_then (Inl e) f = Inl e" "and_then (Inr x) f = f x"
  by (simp_all add: and_then_def)

lemma and_then_Inr: "and_then m f = Inr y \<longleftrightarrow> (\<exists>x. m = Inr x \<and> f x = Inr y)"
  by (cases m) auto

lemma and_then_Inl:
  "and_then m f = Inl e \<longleftrightarrow> m = Inl e \<or> (\<exists>x. m = Inr x \<and> f x = Inl e)"
  by (cases m) auto

lemma and_thenE:
  "and_then m f = Inr y \<Longrightarrow> (\<And>x. m = Inr x \<Longrightarrow> f x = Inr y \<Longrightarrow> P) \<Longrightarrow> P"
  by (auto simp: and_then_Inr)

text \<open>A constructor whose exception is translated.\<close>

lemma case_sum_Inr [simp]:
  "(case m of Inl e \<Rightarrow> Inl (f e) | Inr x \<Rightarrow> Inr (g x)) = Inr y \<longleftrightarrow> (\<exists>x. m = Inr x \<and> y = g x)"
  by (cases m) auto

lemma ensure_Inr [simp]: "ensure p e = Inr u \<longleftrightarrow> p"
  by (simp add: ensure_def)

lemma ensure_Inl [simp]: "ensure p e = Inl d \<longleftrightarrow> \<not> p \<and> d = e"
  by (auto simp: ensure_def)

lemma ensure_True [simp]: "ensure True e = Inr ()"
  by (simp add: ensure_def)

lemma some_or_Inr [simp]: "some_or e x = Inr y \<longleftrightarrow> x = Some y"
  by (cases x) (auto simp: some_or_def)

lemma some_or_Inl [simp]: "some_or e x = Inl d \<longleftrightarrow> x = None \<and> d = e"
  by (cases x) (auto simp: some_or_def)

lemma some_or_Some [simp]: "some_or e (Some y) = Inr y"
  by (simp add: some_or_def)

text \<open>Left-to-right traversal that stops at the first exception.\<close>

fun traverse :: "('a \<Rightarrow> 'e + 'b) \<Rightarrow> 'a list \<Rightarrow> 'e + 'b list" where
  "traverse f [] = Inr []"
| "traverse f (x # xs) =
     (case f x of
        Inl e \<Rightarrow> Inl e
      | Inr y \<Rightarrow> (case traverse f xs of Inl e \<Rightarrow> Inl e | Inr ys \<Rightarrow> Inr (y # ys)))"

lemma traverse_length: "traverse f xs = Inr ys \<Longrightarrow> length ys = length xs"
  by (induction xs arbitrary: ys) (auto split: sum.splits)

lemma traverse_set:
  "traverse f xs = Inr ys \<Longrightarrow> y \<in> set ys \<Longrightarrow> \<exists>x\<in>set xs. f x = Inr y"
  by (induction xs arbitrary: ys) (auto split: sum.splits)

section \<open>PostgreSQL integers\<close>

definition POSTGRES_BIGINT_MAX :: int where
  "POSTGRES_BIGINT_MAX = 2 ^ 63 - 1"

lemma bigint_max_pos [simp]:
  "0 < POSTGRES_BIGINT_MAX" "0 \<le> POSTGRES_BIGINT_MAX" "1 \<le> POSTGRES_BIGINT_MAX"
  by (simp_all add: POSTGRES_BIGINT_MAX_def)

lemma bigint_max_numeral [code]: "POSTGRES_BIGINT_MAX = 9223372036854775807"
  by (simp add: POSTGRES_BIGINT_MAX_def)

section \<open>Tables\<close>

text \<open>
  A table is the list of its rows. \<open>sql_update p f t\<close> is the table after
  \<^verbatim>\<open>UPDATE t SET f WHERE p\<close> and \<open>sql_returning p f t\<close> the rows its RETURNING clause
  yields; \<open>fetchone\<close> is the cursor's first row.
\<close>

definition sql_update :: "('r \<Rightarrow> bool) \<Rightarrow> ('r \<Rightarrow> 'r) \<Rightarrow> 'r list \<Rightarrow> 'r list" where
  "sql_update p f t = map (\<lambda>r. if p r then f r else r) t"

definition sql_returning :: "('r \<Rightarrow> bool) \<Rightarrow> ('r \<Rightarrow> 'r) \<Rightarrow> 'r list \<Rightarrow> 'r list" where
  "sql_returning p f t = map f (filter p t)"

fun fetchone :: "'r list \<Rightarrow> 'r option" where
  "fetchone [] = None"
| "fetchone (r # _) = Some r"

definition select_one :: "('r \<Rightarrow> bool) \<Rightarrow> 'r list \<Rightarrow> 'r option" where
  "select_one p t = fetchone (filter p t)"

lemma sql_update_Nil [table_simps, simp]: "sql_update p f [] = []"
  by (simp add: sql_update_def)

lemma sql_update_Cons [table_simps, simp]:
  "sql_update p f (r # t) = (if p r then f r else r) # sql_update p f t"
  by (simp add: sql_update_def)

lemma sql_update_length [simp]: "length (sql_update p f t) = length t"
  by (simp add: sql_update_def)

lemma set_sql_update: "set (sql_update p f t) = (\<lambda>r. if p r then f r else r) ` set t"
  by (simp add: sql_update_def)

lemma sql_update_in_set:
  "r' \<in> set (sql_update p f t) \<longleftrightarrow> (\<exists>r\<in>set t. r' = (if p r then f r else r))"
  by (auto simp: sql_update_def)

lemma sql_update_cases:
  assumes "r' \<in> set (sql_update p f t)"
  obtains "r' \<in> set t" "\<not> p r'" | r where "r \<in> set t" "p r" "r' = f r"
  using assms by (auto simp: sql_update_in_set split: if_splits)

lemma sql_update_no_match: "filter p t = [] \<Longrightarrow> sql_update p f t = t"
  by (induction t) (auto split: if_splits)

lemma sql_update_keeps_key:
  "(\<And>r. k (f r) = k r) \<Longrightarrow> map k (sql_update p f t) = map k t"
  by (induction t) auto

lemma fetchone_None [simp]: "fetchone xs = None \<longleftrightarrow> xs = []"
  by (cases xs) auto

lemma fetchone_SomeD: "fetchone xs = Some r \<Longrightarrow> r \<in> set xs"
  by (cases xs) auto

lemma fetchone_map: "fetchone (map f xs) = map_option f (fetchone xs)"
  by (cases xs) auto

lemma select_one_None: "select_one p t = None \<longleftrightarrow> (\<forall>r\<in>set t. \<not> p r)"
  by (auto simp: select_one_def filter_empty_conv)

lemma select_one_SomeD: "select_one p t = Some r \<Longrightarrow> r \<in> set t \<and> p r"
  by (auto simp: select_one_def dest!: fetchone_SomeD)

lemma select_one_Nil [table_simps, simp]: "select_one p [] = None"
  by (simp add: select_one_def)

lemma select_one_Cons [table_simps, simp]:
  "select_one p (r # t) = (if p r then Some r else select_one p t)"
  by (simp add: select_one_def)

lemma select_one_append:
  "select_one p (t @ u) = (case select_one p t of Some r \<Rightarrow> Some r | None \<Rightarrow> select_one p u)"
  by (induction t) auto

lemma select_one_unique:
  assumes "distinct (map k t)" "r \<in> set t" "p r" "\<And>r'. r' \<in> set t \<Longrightarrow> p r' \<Longrightarrow> k r' = k r"
  shows "select_one p t = Some r"
  using assms
proof (induction t)
  case (Cons a t)
  show ?case
  proof (cases "p a")
    case True
    have "k a = k r" by (rule Cons.prems(4)) (simp_all add: True)
    with Cons.prems(1,2) have "a = r"
      by (metis distinct.simps(2) imageI list.set_map list.simps(9) set_ConsD)
    with True show ?thesis by simp
  next
    case False
    have "select_one p t = Some r"
    proof (rule Cons.IH)
      show "distinct (map k t)" using Cons.prems(1) by simp
      show "r \<in> set t" using Cons.prems(2,3) False by (cases "r = a") simp_all
      show "p r" by (rule Cons.prems(3))
      show "k r' = k r" if "r' \<in> set t" "p r'" for r'
        by (rule Cons.prems(4)) (use that in simp_all)
    qed
    with False show ?thesis by simp
  qed
qed simp

text \<open>Reading one row back after an update that keeps its key.\<close>

lemma select_one_sql_update:
  assumes "\<And>r. r \<in> set t \<Longrightarrow> q (if p r then f r else r) = q r"
  shows "select_one q (sql_update p f t) =
    map_option (\<lambda>r. if p r then f r else r) (select_one q t)"
  using assms
proof (induction t)
  case (Cons a t)
  let ?a = "if p a then f a else a"
  have "q ?a = q a" by (rule Cons.prems) simp
  moreover have "select_one q (sql_update p f t) =
      map_option (\<lambda>r. if p r then f r else r) (select_one q t)"
    by (rule Cons.IH) (rule Cons.prems, simp)
  ultimately show ?case
    by (simp only: sql_update_Cons select_one_Cons) (cases "q a", simp_all)
qed simp

section \<open>Transition systems\<close>

text \<open>
  The interface every state machine of the development implements: a set of start
  states, one step relation, and an invariant that holds at the start and is kept by
  every step. The locale's lemmas lift it to runs of any length.
\<close>

inductive run :: "('s \<Rightarrow> 's \<Rightarrow> bool) \<Rightarrow> 's \<Rightarrow> 's \<Rightarrow> bool" for step where
  run_refl: "run step s s"
| run_step: "run step s t \<Longrightarrow> step t u \<Longrightarrow> run step s u"

declare run_refl [simp, intro]

lemma run_trans:
  assumes "run step t u" "run step s t"
  shows "run step s u"
  using assms by (induction rule: run.induct) (blast intro: run_step)+

locale invariant_system =
  fixes start :: "'s \<Rightarrow> bool"
    and step :: "'s \<Rightarrow> 's \<Rightarrow> bool"
    and invar :: "'s \<Rightarrow> bool"
  assumes start_invar: "start s \<Longrightarrow> invar s"
    and step_invar: "invar s \<Longrightarrow> step s t \<Longrightarrow> invar t"
begin

lemma run_keeps_invar: "run step s t \<Longrightarrow> invar s \<Longrightarrow> invar t"
proof (induction rule: run.induct)
  case (run_step s t u)
  then show ?case using step_invar by blast
qed simp

lemma reachable_invar: "start s \<Longrightarrow> run step s t \<Longrightarrow> invar t"
  using run_keeps_invar start_invar by blast

end

text \<open>
  A relation between the first and the last state of a run: reflexive, transitive, and
  established by every single step taken from a state that satisfies the invariant.
\<close>

locale monotone_system = invariant_system start step invar
  for start step and invar :: "'s \<Rightarrow> bool" +
  fixes grows :: "'s \<Rightarrow> 's \<Rightarrow> bool"
  assumes grows_refl: "grows s s"
    and grows_trans: "grows s t \<Longrightarrow> grows t u \<Longrightarrow> grows s u"
    and step_grows: "invar s \<Longrightarrow> step s t \<Longrightarrow> grows s t"
begin

lemma run_grows: "run step s t \<Longrightarrow> invar s \<Longrightarrow> grows s t"
proof (induction rule: run.induct)
  case (run_step s t u)
  then have "invar t" using run_keeps_invar by blast
  with run_step show ?case using grows_trans step_grows by blast
qed (simp add: grows_refl)

end

end
