(* ===== verification/PyText.thy ===== *)
theory PyText
  imports Prelude
begin

text \<open>
  Python text: a \<^verbatim>\<open>str\<close> is the list of its code points and a \<^verbatim>\<open>bytes\<close> the list of its
  byte values, so that \<open>length\<close> is Python's \<^verbatim>\<open>len\<close> and the order of \<open>List_Lexorder\<close> is
  Python's order on strings. Only the operations the program uses are here.
\<close>

type_synonym pystr = "nat list"
type_synonym pybytes = "nat list"

definition lit :: "string \<Rightarrow> pystr" where
  "lit s = map of_char s"

lemma lit_inject [simp]: "lit s = lit t \<longleftrightarrow> s = t"
proof
  assume "lit s = lit t"
  then show "s = t" unfolding lit_def
    by (rule map_injective) (auto intro!: injI)
qed simp

lemma lit_Nil_iff [simp]: "lit s = [] \<longleftrightarrow> s = []" "[] = lit s \<longleftrightarrow> s = []"
  by (auto simp: lit_def)

lemma length_lit [simp]: "length (lit s) = length s"
  by (simp add: lit_def)

section \<open>Whitespace, strip, substring\<close>

text \<open>\<^verbatim>\<open>str.isspace\<close> on one code point (the Unicode whitespace set of CPython).\<close>

definition py_isspace :: "nat \<Rightarrow> bool" where
  "py_isspace c = (9 \<le> c \<and> c \<le> 13 \<or> 28 \<le> c \<and> c \<le> 32 \<or> c = 133 \<or> c = 160 \<or> c = 5760
     \<or> 8192 \<le> c \<and> c \<le> 8202 \<or> c = 8232 \<or> c = 8233 \<or> c = 8239 \<or> c = 8287 \<or> c = 12288)"

definition lstrip :: "pystr \<Rightarrow> pystr" where
  "lstrip s = dropWhile py_isspace s"

definition strip :: "pystr \<Rightarrow> pystr" where
  "strip s = rev (lstrip (rev (lstrip s)))"

fun py_startswith :: "pystr \<Rightarrow> pystr \<Rightarrow> bool" where
  "py_startswith s [] = True"
| "py_startswith [] (_ # _) = False"
| "py_startswith (c # s) (d # p) = (c = d \<and> py_startswith s p)"

text \<open>\<^verbatim>\<open>needle in haystack\<close>.\<close>

fun py_contains :: "pystr \<Rightarrow> pystr \<Rightarrow> bool" where
  "py_contains needle [] = (needle = [])"
| "py_contains needle (c # s) = (py_startswith (c # s) needle \<or> py_contains needle s)"

lemma py_startswith_iff: "py_startswith s p \<longleftrightarrow> (\<exists>t. s = p @ t)"
  by (induction s p rule: py_startswith.induct) auto

lemma py_contains_iff: "py_contains n h \<longleftrightarrow> (\<exists>a b. h = a @ n @ b)"
proof (induction h)
  case Nil
  then show ?case by auto
next
  case (Cons c h)
  have "(\<exists>a b. c # h = a @ n @ b) \<longleftrightarrow> (\<exists>b. c # h = n @ b) \<or> (\<exists>a b. h = a @ n @ b)"
    (is "?l \<longleftrightarrow> ?r")
  proof
    assume ?l
    then obtain a b where "c # h = a @ n @ b" by blast
    then show ?r by (cases a) auto
  next
    assume ?r
    then show ?l by (metis append_Cons append_Nil)
  qed
  with Cons show ?case by (auto simp: py_startswith_iff)
qed

lemma dropWhile_idem: "dropWhile p (dropWhile p xs) = dropWhile p xs"
  by (induction xs) auto

lemma strip_no_lead: "strip s \<noteq> [] \<Longrightarrow> \<not> py_isspace (last (strip s))"
  by (auto simp: strip_def lstrip_def last_rev hd_dropWhile)

section \<open>Case mapping\<close>

text \<open>
  \<^verbatim>\<open>str.lower\<close> restricted to ASCII letters; other code points are kept. The code uses it
  on ASCII protocol tokens.
\<close>

definition ascii_lower1 :: "nat \<Rightarrow> nat" where
  "ascii_lower1 c = (if 65 \<le> c \<and> c \<le> 90 then c + 32 else c)"

definition ascii_lower :: "pystr \<Rightarrow> pystr" where
  "ascii_lower s = map ascii_lower1 s"

definition py_isascii :: "pystr \<Rightarrow> bool" where
  "py_isascii s = list_all (\<lambda>c. c < 128) s"

lemma ascii_lower_idem [simp]: "ascii_lower (ascii_lower s) = ascii_lower s"
  by (simp add: ascii_lower_def ascii_lower1_def)

section \<open>UTF-8\<close>

text \<open>
  The UTF-8 encoding; \<open>None\<close> is \<^verbatim>\<open>UnicodeEncodeError\<close>, raised for surrogate code points.
\<close>

definition is_surrogate :: "nat \<Rightarrow> bool" where
  "is_surrogate c = (55296 \<le> c \<and> c \<le> 57343)"

definition utf8_char :: "nat \<Rightarrow> pybytes" where
  "utf8_char c =
     (if c < 128 then [c]
      else if c < 2048 then [192 + c div 64, 128 + c mod 64]
      else if c < 65536 then [224 + c div 4096, 128 + c div 64 mod 64, 128 + c mod 64]
      else [240 + c div 262144, 128 + c div 4096 mod 64, 128 + c div 64 mod 64, 128 + c mod 64])"

definition utf8_ok :: "pystr \<Rightarrow> bool" where
  "utf8_ok s = list_all (\<lambda>c. \<not> is_surrogate c) s"

definition utf8 :: "pystr \<Rightarrow> pybytes" where
  "utf8 s = concat (map utf8_char s)"

definition utf8_encode :: "pystr \<Rightarrow> pybytes option" where
  "utf8_encode s = (if utf8_ok s then Some (utf8 s) else None)"

lemma utf8_ascii: "py_isascii s \<Longrightarrow> utf8 s = s"
  by (induction s) (auto simp: utf8_def py_isascii_def utf8_char_def)

lemma length_utf8_ge: "length s \<le> length (utf8 s)"
  by (induction s) (auto simp: utf8_def utf8_char_def)

section \<open>Decimal text\<close>

text \<open>\<^verbatim>\<open>str\<close> of an int.\<close>

fun dec_nat :: "nat \<Rightarrow> pystr" where
  "dec_nat n = (if n < 10 then [48 + n] else dec_nat (n div 10) @ [48 + n mod 10])"

declare dec_nat.simps [simp del]

definition dec_int :: "int \<Rightarrow> pystr" where
  "dec_int i = (if i < 0 then 45 # dec_nat (nat (- i)) else dec_nat (nat i))"

lemma dec_nat_digits: "c \<in> set (dec_nat n) \<Longrightarrow> 48 \<le> c \<and> c \<le> 57"
proof (induction n rule: dec_nat.induct)
  case (1 n)
  then show ?case by (subst (asm) dec_nat.simps) (auto split: if_splits)
qed

lemma dec_nat_nonempty [simp]: "dec_nat n \<noteq> []"
  by (subst dec_nat.simps) simp

fun dec_value :: "nat \<Rightarrow> pystr \<Rightarrow> nat" where
  "dec_value a [] = a"
| "dec_value a (c # cs) = dec_value (10 * a + (c - 48)) cs"

lemma dec_value_append: "dec_value a (xs @ ys) = dec_value (dec_value a xs) ys"
  by (induction xs arbitrary: a) auto

lemma dec_value_dec_nat: "dec_value 0 (dec_nat n) = n"
proof (induction n rule: dec_nat.induct)
  case (1 n)
  then show ?case
    by (cases "n < 10") (simp_all add: dec_nat.simps [of n] dec_value_append)
qed

lemma dec_nat_inject [simp]: "dec_nat m = dec_nat n \<longleftrightarrow> m = n"
  by (metis dec_value_dec_nat)

lemma dec_int_inject [simp]: "dec_int i = dec_int j \<longleftrightarrow> i = j"
proof
  assume eq: "dec_int i = dec_int j"
  have no_minus: "dec_nat n \<noteq> 45 # xs" for n xs
    using dec_nat_digits [of 45 n] by force
  from eq no_minus show "i = j"
    by (auto simp: dec_int_def split: if_splits dest: sym)
qed simp

lemma dec_int_chars: "c \<in> set (dec_int i) \<Longrightarrow> c \<noteq> 0"
  by (auto simp: dec_int_def split: if_splits dest: dec_nat_digits)

text \<open>Fields joined by NUL are recovered when no field contains NUL.\<close>

lemma nul_join_inject:
  assumes "0 \<notin> set a" "0 \<notin> set b"
  shows "a @ 0 # x = b @ 0 # y \<longleftrightarrow> a = b \<and> x = (y :: nat list)"
  using assms
proof (induction a arbitrary: b)
  case Nil
  then show ?case by (cases b) auto
next
  case (Cons c a)
  then show ?case by (cases b) auto
qed

section \<open>Hex digests\<close>

definition is_hex_lower :: "nat \<Rightarrow> bool" where
  "is_hex_lower c = (48 \<le> c \<and> c \<le> 57 \<or> 97 \<le> c \<and> c \<le> 102)"

text \<open>The pattern \<^verbatim>\<open>[0-9a-f]{64}\<close>, matched in full.\<close>

definition is_sha256_hex :: "pystr \<Rightarrow> bool" where
  "is_sha256_hex s = (length s = 64 \<and> list_all is_hex_lower s)"

text \<open>Text without surrounding whitespace, as most identifiers of the program must be.\<close>

definition is_control :: "nat \<Rightarrow> bool" where
  "is_control c = (c \<le> 31 \<or> 127 \<le> c \<and> c \<le> 159)"

end
