(* ===== verification/PyJson.thy ===== *)
theory PyJson
  imports PyText Complex_Main
begin

text \<open>
  JSON values as the program handles them (decoded by \<^verbatim>\<open>json.loads\<close>, stored as jsonb),
  the type-strict comparison \<^verbatim>\<open>_json_values_equal\<close> of the inbox repository, and the
  canonical \<^verbatim>\<open>json.dumps\<close> text that every digest of the program is computed from.
  A dict is its list of items; a finite float is the rational it denotes.
\<close>

datatype json =
    JNull
  | JBool bool
  | JInt int
  | JFloat rat
  | JStr pystr
  | JArr "json list"
  | JObj "(pystr \<times> json) list"

text \<open>A dict has each key once.\<close>

fun json_wf :: "json \<Rightarrow> bool" and json_wf_list :: "json list \<Rightarrow> bool"
  and json_wf_fields :: "(pystr \<times> json) list \<Rightarrow> bool" where
  "json_wf (JArr xs) = json_wf_list xs"
| "json_wf (JObj l) = (distinct (map fst l) \<and> json_wf_fields l)"
| "json_wf _ = True"
| "json_wf_list [] = True"
| "json_wf_list (x # xs) = (json_wf x \<and> json_wf_list xs)"
| "json_wf_fields [] = True"
| "json_wf_fields ((k, v) # l) = (json_wf v \<and> json_wf_fields l)"

section \<open>Type-strict comparison\<close>

fun json_values_equal :: "json \<Rightarrow> json \<Rightarrow> bool"
  and json_lists_equal :: "json list \<Rightarrow> json list \<Rightarrow> bool"
  and json_fields_equal :: "(pystr \<times> json) list \<Rightarrow> (pystr \<times> json) list \<Rightarrow> bool" where
  "json_values_equal JNull r = (r = JNull)"
| "json_values_equal (JBool b) r = (case r of JBool c \<Rightarrow> b = c | _ \<Rightarrow> False)"
| "json_values_equal (JInt i) r =
     (case r of JInt j \<Rightarrow> i = j | JFloat q \<Rightarrow> of_int i = q | _ \<Rightarrow> False)"
| "json_values_equal (JFloat p) r =
     (case r of JInt j \<Rightarrow> p = of_int j | JFloat q \<Rightarrow> p = q | _ \<Rightarrow> False)"
| "json_values_equal (JStr s) r = (case r of JStr t \<Rightarrow> s = t | _ \<Rightarrow> False)"
| "json_values_equal (JObj l) r =
     (case r of JObj m \<Rightarrow> set (map fst l) = set (map fst m) \<and> json_fields_equal l m
      | _ \<Rightarrow> False)"
| "json_values_equal (JArr xs) r =
     (case r of JArr ys \<Rightarrow> length xs = length ys \<and> json_lists_equal xs ys | _ \<Rightarrow> False)"
| "json_lists_equal [] ys = True"
| "json_lists_equal (x # xs) ys =
     (case ys of [] \<Rightarrow> True | y # ys' \<Rightarrow> json_values_equal x y \<and> json_lists_equal xs ys')"
| "json_fields_equal [] m = True"
| "json_fields_equal ((k, v) # l) m =
     ((case map_of m k of None \<Rightarrow> False | Some w \<Rightarrow> json_values_equal v w)
      \<and> json_fields_equal l m)"

lemma json_fields_equal_iff:
  "json_fields_equal l m \<longleftrightarrow>
     (\<forall>(k, v)\<in>set l. \<exists>w. map_of m k = Some w \<and> json_values_equal v w)"
  by (induction l) (auto split: option.splits)

lemma json_lists_equal_iff:
  "length xs = length ys \<Longrightarrow> json_lists_equal xs ys \<longleftrightarrow> list_all2 json_values_equal xs ys"
  by (induction xs ys rule: list_induct2) auto

lemma json_wf_fields_iff: "json_wf_fields l \<longleftrightarrow> (\<forall>(k, v)\<in>set l. json_wf v)"
  by (induction l) auto

lemma json_wf_list_iff: "json_wf_list xs \<longleftrightarrow> (\<forall>x\<in>set xs. json_wf x)"
  by (induction xs) auto

lemma json_values_equal_refl [simp]:
  "json_wf j \<Longrightarrow> json_values_equal j j"
  "json_wf_list xs \<Longrightarrow> json_lists_equal xs xs"
  "json_wf_fields l \<Longrightarrow> distinct (map fst m) \<Longrightarrow> set l \<subseteq> set m \<Longrightarrow> json_fields_equal l m"
  by (induction j and xs and l arbitrary: and and m rule: json_wf_json_wf_list_json_wf_fields.induct)
    (simp_all add: map_of_is_SomeI del: map_of_eq_Some_iff, (metis (mono_tags) map_of_is_SomeI option.simps(5))?)

section \<open>Canonical text\<close>

text \<open>
  \<^verbatim>\<open>json.dumps\<close> with \<^verbatim>\<open>sort_keys=True\<close>; \<open>float_text\<close> is CPython's shortest float
  representation, a parameter.
\<close>

record json_format =
  ensure_ascii :: bool
  item_separator :: pystr
  key_separator :: pystr
  float_text :: "rat \<Rightarrow> pystr"

definition hex_digit :: "nat \<Rightarrow> nat" where
  "hex_digit n = (if n < 10 then 48 + n else 87 + n)"

definition u_escape :: "nat \<Rightarrow> pystr" where
  "u_escape n = 92 # 117 # map hex_digit
     [n div 4096 mod 16, n div 256 mod 16, n div 16 mod 16, n mod 16]"

definition escape_char :: "bool \<Rightarrow> nat \<Rightarrow> pystr" where
  "escape_char ascii c =
     (if c = 34 then [92, 34]
      else if c = 92 then [92, 92]
      else if c = 10 then [92, 110]
      else if c = 13 then [92, 114]
      else if c = 9 then [92, 116]
      else if c = 12 then [92, 102]
      else if c = 8 then [92, 98]
      else if c < 32 then u_escape c
      else if \<not> ascii \<or> c \<le> 126 then [c]
      else if c < 65536 then u_escape c
      else u_escape (55296 + (c - 65536) div 1024) @ u_escape (56320 + (c - 65536) mod 1024))"

definition json_string :: "bool \<Rightarrow> pystr \<Rightarrow> pystr" where
  "json_string ascii s = 34 # concat (map (escape_char ascii) s) @ [34]"

fun join :: "pystr \<Rightarrow> pystr list \<Rightarrow> pystr" where
  "join sep [] = []"
| "join sep [x] = x"
| "join sep (x # y # ys) = x @ sep @ join sep (y # ys)"

fun json_dumps :: "json_format \<Rightarrow> json \<Rightarrow> pystr"
  and json_item_texts :: "json_format \<Rightarrow> json list \<Rightarrow> pystr list"
  and json_field_texts :: "json_format \<Rightarrow> (pystr \<times> json) list \<Rightarrow> (pystr \<times> pystr) list" where
  "json_dumps f JNull = lit ''null''"
| "json_dumps f (JBool b) = (if b then lit ''true'' else lit ''false'')"
| "json_dumps f (JInt i) = dec_int i"
| "json_dumps f (JFloat q) = float_text f q"
| "json_dumps f (JStr s) = json_string (ensure_ascii f) s"
| "json_dumps f (JArr xs) = 91 # join (item_separator f) (json_item_texts f xs) @ [93]"
| "json_dumps f (JObj l) =
     123 # join (item_separator f)
       (map (\<lambda>(k, t). json_string (ensure_ascii f) k @ key_separator f @ t)
         (sort_key fst (json_field_texts f l))) @ [125]"
| "json_item_texts f [] = []"
| "json_item_texts f (x # xs) = json_dumps f x # json_item_texts f xs"
| "json_field_texts f [] = []"
| "json_field_texts f ((k, v) # l) = (k, json_dumps f v) # json_field_texts f l"

definition compact_format :: "bool \<Rightarrow> (rat \<Rightarrow> pystr) \<Rightarrow> json_format" where
  "compact_format ascii ft = \<lparr>ensure_ascii = ascii, item_separator = [44],
     key_separator = [58], float_text = ft\<rparr>"

text \<open>Field access: \<^verbatim>\<open>d.get(k)\<close> and \<^verbatim>\<open>d[k]\<close> of a decoded object.\<close>

definition json_get :: "json \<Rightarrow> pystr \<Rightarrow> json option" where
  "json_get j k = (case j of JObj l \<Rightarrow> map_of l k | _ \<Rightarrow> None)"

lemma escape_char_nonempty [simp]: "escape_char a c \<noteq> []"
  by (simp add: escape_char_def u_escape_def)

end
