(* ===== verification/EmailEvents.thy ===== *)
theory EmailEvents
  imports Prelude
begin

text \<open>
  \<^verbatim>\<open>src/ingestion/email_events.py\<close>: the pure monotonic transitions of the durable email
  aggregate. The status vocabulary, the row-per-status transition manifest, the validated
  decision object, the manifest of legal application results, and
  \<^verbatim>\<open>decide_email_event\<close> itself, whose result is a sum because the decision's constructor
  may raise \<^verbatim>\<open>ValueError\<close>.
\<close>

section \<open>Vocabulary\<close>

datatype change_kind = CREATE | UPDATE | READ | DELETE

datatype email_status =
    ES_INGESTED | ES_PROCESSING | ES_RETRY_WAIT | ES_MANUAL_REVIEW | ES_WAITING_APPROVAL
  | ES_NOTIFIED_READONLY | ES_SEND_QUEUED | ES_SENDING | ES_ACCEPTED | ES_SENT
  | ES_SEND_FAILED | ES_DELIVERY_FAILED | ES_SEND_UNKNOWN | ES_NO_ACTION | ES_ARCHIVED
  | ES_REJECTED | ES_DRAFT_SAVED | ES_EXPIRED | ES_CANCELLED | ES_DEAD_LETTER

datatype email_event_reason =
    FIRST_CREATE | PROCESSING_RESUMED | PROCESSING_ATTEMPT_ALREADY_ELECTED | METADATA_EVENT
  | DUPLICATE_CREATE | SOURCE_TOMBSTONE | SOURCE_DELETE_CANCELLED | SOURCE_DELETE_RECORDED
  | SOURCE_DELETED_PRESERVED | STATUS_PRESERVED

datatype email_event_disposition =
    CREATOR_ELECTED | D_PROCESSING_RESUMED | PROCESSING_ALREADY_ELECTED
  | METADATA_SHELL_CREATED | TOMBSTONE_CREATED | AGGREGATE_UPDATED | AGGREGATE_NOOP

section \<open>The transition manifest\<close>

record email_status_transition =
  cancel_on_delete :: bool
  may_resume_processing :: bool

fun EMAIL_STATUS_TRANSITIONS :: "email_status \<Rightarrow> email_status_transition" where
  "EMAIL_STATUS_TRANSITIONS ES_INGESTED =
     \<lparr>cancel_on_delete = True, may_resume_processing = False\<rparr>"
| "EMAIL_STATUS_TRANSITIONS ES_PROCESSING =
     \<lparr>cancel_on_delete = True, may_resume_processing = True\<rparr>"
| "EMAIL_STATUS_TRANSITIONS ES_RETRY_WAIT =
     \<lparr>cancel_on_delete = True, may_resume_processing = True\<rparr>"
| "EMAIL_STATUS_TRANSITIONS ES_MANUAL_REVIEW =
     \<lparr>cancel_on_delete = True, may_resume_processing = False\<rparr>"
| "EMAIL_STATUS_TRANSITIONS ES_WAITING_APPROVAL =
     \<lparr>cancel_on_delete = True, may_resume_processing = False\<rparr>"
| "EMAIL_STATUS_TRANSITIONS ES_NOTIFIED_READONLY =
     \<lparr>cancel_on_delete = False, may_resume_processing = False\<rparr>"
| "EMAIL_STATUS_TRANSITIONS ES_SEND_QUEUED =
     \<lparr>cancel_on_delete = True, may_resume_processing = False\<rparr>"
| "EMAIL_STATUS_TRANSITIONS ES_SENDING =
     \<lparr>cancel_on_delete = False, may_resume_processing = False\<rparr>"
| "EMAIL_STATUS_TRANSITIONS ES_ACCEPTED =
     \<lparr>cancel_on_delete = False, may_resume_processing = False\<rparr>"
| "EMAIL_STATUS_TRANSITIONS ES_SENT =
     \<lparr>cancel_on_delete = False, may_resume_processing = False\<rparr>"
| "EMAIL_STATUS_TRANSITIONS ES_SEND_FAILED =
     \<lparr>cancel_on_delete = False, may_resume_processing = False\<rparr>"
| "EMAIL_STATUS_TRANSITIONS ES_DELIVERY_FAILED =
     \<lparr>cancel_on_delete = False, may_resume_processing = False\<rparr>"
| "EMAIL_STATUS_TRANSITIONS ES_SEND_UNKNOWN =
     \<lparr>cancel_on_delete = False, may_resume_processing = False\<rparr>"
| "EMAIL_STATUS_TRANSITIONS ES_NO_ACTION =
     \<lparr>cancel_on_delete = False, may_resume_processing = False\<rparr>"
| "EMAIL_STATUS_TRANSITIONS ES_ARCHIVED =
     \<lparr>cancel_on_delete = False, may_resume_processing = False\<rparr>"
| "EMAIL_STATUS_TRANSITIONS ES_REJECTED =
     \<lparr>cancel_on_delete = False, may_resume_processing = False\<rparr>"
| "EMAIL_STATUS_TRANSITIONS ES_DRAFT_SAVED =
     \<lparr>cancel_on_delete = False, may_resume_processing = False\<rparr>"
| "EMAIL_STATUS_TRANSITIONS ES_EXPIRED =
     \<lparr>cancel_on_delete = False, may_resume_processing = False\<rparr>"
| "EMAIL_STATUS_TRANSITIONS ES_CANCELLED =
     \<lparr>cancel_on_delete = False, may_resume_processing = False\<rparr>"
| "EMAIL_STATUS_TRANSITIONS ES_DEAD_LETTER =
     \<lparr>cancel_on_delete = False, may_resume_processing = False\<rparr>"

section \<open>Decisions\<close>

datatype value_error =
    ProcessAndCancel | EffectsWithoutCancel | ProcessWithoutProcessing
  | ProcessWithoutCreateSeen | CancelWithoutCancelled | PersistedStatusMismatch
  | ManifestInvariant

record email_event_decision =
  should_process :: bool
  should_cancel :: bool
  new_status :: email_status
  cancel_pending_side_effects :: bool
  create_seen :: bool
  reason :: email_event_reason

text \<open>\<^verbatim>\<open>EmailEventDecision.__post_init__\<close>: the constructor with its checks in order.\<close>

definition EmailEventDecision :: "email_event_decision \<Rightarrow> value_error + email_event_decision" where
  "EmailEventDecision d =
     (if should_process d \<and> should_cancel d then Inl ProcessAndCancel
      else if cancel_pending_side_effects d \<and> \<not> should_cancel d then Inl EffectsWithoutCancel
      else if should_process d \<and> new_status d \<noteq> ES_PROCESSING then Inl ProcessWithoutProcessing
      else if should_process d \<and> \<not> create_seen d then Inl ProcessWithoutCreateSeen
      else if should_cancel d \<and> new_status d \<noteq> ES_CANCELLED then Inl CancelWithoutCancelled
      else Inr d)"

definition mk_decision ::
  "bool \<Rightarrow> bool \<Rightarrow> email_status \<Rightarrow> bool \<Rightarrow> bool \<Rightarrow> email_event_reason
   \<Rightarrow> value_error + email_event_decision" where
  "mk_decision process cancel st effects seen r =
     EmailEventDecision \<lparr>should_process = process, should_cancel = cancel, new_status = st,
       cancel_pending_side_effects = effects, create_seen = seen, reason = r\<rparr>"

text \<open>
  \<^verbatim>\<open>decide_email_event\<close>. \<open>status = None\<close> is an aggregate that was inserted by this very
  event. The argument \<^verbatim>\<open>source_is_read\<close> is only type-checked by the code.
\<close>

definition decide_email_event ::
  "email_status option \<Rightarrow> bool \<Rightarrow> change_kind \<Rightarrow> bool option \<Rightarrow> bool \<Rightarrow> bool \<Rightarrow> bool
   \<Rightarrow> value_error + email_event_decision" where
  "decide_email_event current_status seen kind source_is_read processing_owner_matches
     external_effects_started source_deleted =
   (case current_status of
      None \<Rightarrow>
        (if kind = CREATE then mk_decision True False ES_PROCESSING False True FIRST_CREATE
         else if kind = UPDATE \<or> kind = READ then
           mk_decision False False ES_INGESTED False False METADATA_EVENT
         else mk_decision False True ES_CANCELLED False False SOURCE_TOMBSTONE)
    | Some status \<Rightarrow>
        (if source_deleted then
           mk_decision False False status False seen SOURCE_DELETED_PRESERVED
         else if kind = CREATE then
           (if status = ES_INGESTED \<and> \<not> seen then
              mk_decision True False ES_PROCESSING False True FIRST_CREATE
            else if may_resume_processing (EMAIL_STATUS_TRANSITIONS status) \<and> seen
                \<and> processing_owner_matches \<and> \<not> external_effects_started then
              mk_decision True False ES_PROCESSING False True PROCESSING_RESUMED
            else mk_decision False False status False seen DUPLICATE_CREATE)
         else if kind = UPDATE \<or> kind = READ then
           mk_decision False False status False seen METADATA_EVENT
         else if external_effects_started then
           mk_decision False False status False seen SOURCE_DELETE_RECORDED
         else if cancel_on_delete (EMAIL_STATUS_TRANSITIONS status) then
           mk_decision False True ES_CANCELLED (\<not> (status = ES_INGESTED \<and> \<not> seen)) seen
             SOURCE_DELETE_CANCELLED
         else mk_decision False False status False seen SOURCE_DELETE_RECORDED))"

section \<open>Application results\<close>

record application_manifest_row =
  m_disposition :: email_event_disposition
  m_reason :: email_event_reason
  m_persisted_statuses :: "email_status set"
  m_should_process :: bool
  m_should_cancel :: bool
  m_cancel_pending_side_effects :: bool
  m_create_seen :: bool
  m_may_complete_without_processing :: bool

definition manifest_row ::
  "email_event_disposition \<Rightarrow> email_event_reason \<Rightarrow> email_status set \<Rightarrow> bool \<Rightarrow> bool \<Rightarrow> bool
   \<Rightarrow> bool \<Rightarrow> bool \<Rightarrow> application_manifest_row" where
  "manifest_row d r ss p c e s m = \<lparr>m_disposition = d, m_reason = r, m_persisted_statuses = ss,
     m_should_process = p, m_should_cancel = c, m_cancel_pending_side_effects = e,
     m_create_seen = s, m_may_complete_without_processing = m\<rparr>"

definition EMAIL_EVENT_APPLICATION_MANIFEST :: "application_manifest_row list" where
  "EMAIL_EVENT_APPLICATION_MANIFEST =
   [manifest_row CREATOR_ELECTED FIRST_CREATE {ES_PROCESSING} True False False True False,
    manifest_row D_PROCESSING_RESUMED PROCESSING_RESUMED {ES_PROCESSING}
      True False False True False,
    manifest_row PROCESSING_ALREADY_ELECTED PROCESSING_ATTEMPT_ALREADY_ELECTED {ES_PROCESSING}
      False False False True False,
    manifest_row METADATA_SHELL_CREATED METADATA_EVENT {ES_INGESTED}
      False False False False True,
    manifest_row TOMBSTONE_CREATED SOURCE_TOMBSTONE {ES_CANCELLED} False True False False True,
    manifest_row AGGREGATE_UPDATED METADATA_EVENT UNIV False False False False True,
    manifest_row AGGREGATE_UPDATED METADATA_EVENT UNIV False False False True True,
    manifest_row AGGREGATE_UPDATED SOURCE_DELETE_CANCELLED {ES_CANCELLED}
      False True False False True,
    manifest_row AGGREGATE_UPDATED SOURCE_DELETE_CANCELLED {ES_CANCELLED}
      False True True False True,
    manifest_row AGGREGATE_UPDATED SOURCE_DELETE_CANCELLED {ES_CANCELLED}
      False True True True True,
    manifest_row AGGREGATE_UPDATED SOURCE_DELETE_RECORDED UNIV False False False False True,
    manifest_row AGGREGATE_UPDATED SOURCE_DELETE_RECORDED UNIV False False False True True,
    manifest_row AGGREGATE_UPDATED STATUS_PRESERVED UNIV False False False False True,
    manifest_row AGGREGATE_UPDATED STATUS_PRESERVED UNIV False False False True True,
    manifest_row AGGREGATE_NOOP DUPLICATE_CREATE (UNIV - {ES_INGESTED})
      False False False False True,
    manifest_row AGGREGATE_NOOP DUPLICATE_CREATE UNIV False False False True True,
    manifest_row AGGREGATE_NOOP SOURCE_DELETED_PRESERVED UNIV False False False False True,
    manifest_row AGGREGATE_NOOP SOURCE_DELETED_PRESERVED UNIV False False False True True,
    manifest_row AGGREGATE_NOOP STATUS_PRESERVED UNIV False False False False True,
    manifest_row AGGREGATE_NOOP STATUS_PRESERVED UNIV False False False True True,
    manifest_row AGGREGATE_NOOP METADATA_EVENT UNIV False False False False True,
    manifest_row AGGREGATE_NOOP METADATA_EVENT UNIV False False False True True]"

record email_event_application =
  ea_decision :: email_event_decision
  ea_email_id :: "nat list"
  ea_persisted_status :: email_status
  ea_version :: int
  ea_disposition :: email_event_disposition
  ea_may_complete_without_processing :: bool

definition manifest_row_matches ::
  "email_event_application \<Rightarrow> application_manifest_row \<Rightarrow> bool" where
  "manifest_row_matches a row =
     (m_disposition row = ea_disposition a
      \<and> m_reason row = reason (ea_decision a)
      \<and> ea_persisted_status a \<in> m_persisted_statuses row
      \<and> m_should_process row = should_process (ea_decision a)
      \<and> m_should_cancel row = should_cancel (ea_decision a)
      \<and> m_cancel_pending_side_effects row = cancel_pending_side_effects (ea_decision a)
      \<and> m_create_seen row = create_seen (ea_decision a)
      \<and> m_may_complete_without_processing row = ea_may_complete_without_processing a)"

text \<open>\<^verbatim>\<open>EmailEventApplication.__post_init__\<close>.\<close>

definition EmailEventApplication ::
  "email_event_application \<Rightarrow> value_error + email_event_application" where
  "EmailEventApplication a =
     (if ea_persisted_status a \<noteq> new_status (ea_decision a) then Inl PersistedStatusMismatch
      else if \<not> list_ex (manifest_row_matches a) EMAIL_EVENT_APPLICATION_MANIFEST then
        Inl ManifestInvariant
      else Inr a)"

end
