(* ===== verification/InboxModels.thy ===== *)
theory InboxModels
  imports PyJson EmailEvents
begin

text \<open>
  \<^verbatim>\<open>src/ingestion/models.py\<close>: the immutable values that cross the intake, repository and
  worker boundaries, each with the checks of its constructor in the order the code makes
  them. A constructor returns the validated value or the name of the first check that
  fails. Type checks (\<^verbatim>\<open>isinstance\<close>), the parsing of UUID text and time zones are carried
  by the HOL types: a UUID is its canonical text, a time is the number of microseconds
  since an epoch in UTC.
\<close>

type_synonym uuid = pystr
type_synonym time = int

datatype invalid_value = Invalid string

text \<open>The first failing check raises; otherwise the value is returned.\<close>

fun require :: "(string \<times> bool) list \<Rightarrow> 'a \<Rightarrow> invalid_value + 'a" where
  "require [] v = Inr v"
| "require ((name, ok) # checks) v = (if ok then require checks v else Inl (Invalid name))"

lemma require_Inr_iff: "require checks v = Inr w \<longleftrightarrow> w = v \<and> list_all snd checks"
  by (induction checks) (auto split: if_splits)

lemma require_outcome: "require checks v = Inr v \<or> (\<exists>n. require checks v = Inl (Invalid n))"
  by (induction checks) (auto split: if_splits)

section \<open>Vocabulary and bounds\<close>

definition MAX_INBOX_PAYLOAD_BYTES :: nat where
  "MAX_INBOX_PAYLOAD_BYTES = 256 * 1024"

definition MAX_SYNC_CHANGES_PER_BATCH :: nat where
  "MAX_SYNC_CHANGES_PER_BATCH = 500"

datatype ingress_source = SYNC
datatype processing_policy = FULL | ARCHIVE | METADATA_ONLY | IGNORED
datatype inbox_status =
  IS_PENDING | IS_RETRY_WAIT | IS_LEASED | IS_COMPLETED | IS_DEAD_LETTER | IS_MANUAL_REVIEW
datatype inbox_disposition_status = DS_RETRY_WAIT | DS_DEAD_LETTER | DS_MANUAL_REVIEW
datatype pipeline_generation_state = CURRENT_INGRESS | QUIESCING | DRAINING | RETIRED

text \<open>The stored text of a disposition status is the inbox status of the same name.\<close>

fun inbox_status_of :: "inbox_disposition_status \<Rightarrow> inbox_status" where
  "inbox_status_of DS_RETRY_WAIT = IS_RETRY_WAIT"
| "inbox_status_of DS_DEAD_LETTER = IS_DEAD_LETTER"
| "inbox_status_of DS_MANUAL_REVIEW = IS_MANUAL_REVIEW"

section \<open>Field checks\<close>

definition valid_int :: "int \<Rightarrow> int \<Rightarrow> bool" where
  "valid_int minimum v = (minimum \<le> v \<and> v \<le> POSTGRES_BIGINT_MAX)"

definition valid_text :: "nat \<Rightarrow> pystr \<Rightarrow> bool" where
  "valid_text max_length s =
     (strip s \<noteq> [] \<and> length s \<le> max_length \<and> 0 \<notin> set s \<and> 13 \<notin> set s \<and> 10 \<notin> set s
      \<and> utf8_ok s)"

definition valid_optional_text :: "nat \<Rightarrow> pystr option \<Rightarrow> bool" where
  "valid_optional_text max_length s =
     (case s of None \<Rightarrow> True | Some t \<Rightarrow> valid_text max_length t)"

definition safe_error_char :: "nat \<Rightarrow> bool" where
  "safe_error_char c = (97 \<le> c \<and> c \<le> 122 \<or> 48 \<le> c \<and> c \<le> 57)"

text \<open>\<^verbatim>\<open>[a-z0-9][a-z0-9_.-]{0,63}\<close>, matched in full.\<close>

definition is_safe_error_code :: "pystr \<Rightarrow> bool" where
  "is_safe_error_code s =
     (case s of
        [] \<Rightarrow> False
      | c # cs \<Rightarrow> safe_error_char c \<and> length cs \<le> 63
          \<and> list_all (\<lambda>d. safe_error_char d \<or> d = 95 \<or> d = 46 \<or> d = 45) cs)"

section \<open>JSON payloads\<close>

text \<open>
  \<^verbatim>\<open>_freeze_json_value\<close>: the only rejections left for a finite JSON tree are NUL characters
  in strings and keys.
\<close>

fun freeze_json_ok :: "json \<Rightarrow> bool" and freeze_json_ok_list :: "json list \<Rightarrow> bool"
  and freeze_json_ok_fields :: "(pystr \<times> json) list \<Rightarrow> bool" where
  "freeze_json_ok (JStr s) = (0 \<notin> set s)"
| "freeze_json_ok (JArr xs) = freeze_json_ok_list xs"
| "freeze_json_ok (JObj l) = freeze_json_ok_fields l"
| "freeze_json_ok JNull = True"
| "freeze_json_ok (JBool b) = True"
| "freeze_json_ok (JInt i) = True"
| "freeze_json_ok (JFloat q) = True"
| "freeze_json_ok_list [] = True"
| "freeze_json_ok_list (x # xs) = (freeze_json_ok x \<and> freeze_json_ok_list xs)"
| "freeze_json_ok_fields [] = True"
| "freeze_json_ok_fields ((k, v) # l) =
     (0 \<notin> set k \<and> freeze_json_ok v \<and> freeze_json_ok_fields l)"

text \<open>
  \<^verbatim>\<open>_postgres_jsonb_numeric_expansion_bytes\<close>: how much longer the fixed-point text of each
  float is than its Python text; both texts are parameters.
\<close>

fun numeric_expansion :: "(rat \<Rightarrow> pystr) \<Rightarrow> (rat \<Rightarrow> pystr) \<Rightarrow> json \<Rightarrow> nat"
  and numeric_expansion_list :: "(rat \<Rightarrow> pystr) \<Rightarrow> (rat \<Rightarrow> pystr) \<Rightarrow> json list \<Rightarrow> nat"
  and numeric_expansion_fields ::
    "(rat \<Rightarrow> pystr) \<Rightarrow> (rat \<Rightarrow> pystr) \<Rightarrow> (pystr \<times> json) list \<Rightarrow> nat" where
  "numeric_expansion py pg (JFloat q) = length (pg q) - length (py q)"
| "numeric_expansion py pg (JArr xs) = numeric_expansion_list py pg xs"
| "numeric_expansion py pg (JObj l) = numeric_expansion_fields py pg l"
| "numeric_expansion py pg JNull = 0"
| "numeric_expansion py pg (JBool b) = 0"
| "numeric_expansion py pg (JInt i) = 0"
| "numeric_expansion py pg (JStr s) = 0"
| "numeric_expansion_list py pg [] = 0"
| "numeric_expansion_list py pg (x # xs) =
     numeric_expansion py pg x + numeric_expansion_list py pg xs"
| "numeric_expansion_fields py pg [] = 0"
| "numeric_expansion_fields py pg ((k, v) # l) =
     numeric_expansion py pg v + numeric_expansion_fields py pg l"

record json_texts =
  python_float :: "rat \<Rightarrow> pystr"
  postgres_float :: "rat \<Rightarrow> pystr"

definition storage_format :: "json_texts \<Rightarrow> json_format" where
  "storage_format t = \<lparr>ensure_ascii = False, item_separator = [44, 32],
     key_separator = [58, 32], float_text = python_float t\<rparr>"

text \<open>\<^verbatim>\<open>_freeze_json_object\<close>.\<close>

definition freeze_json_object :: "json_texts \<Rightarrow> nat \<Rightarrow> json \<Rightarrow> bool" where
  "freeze_json_object t max_bytes j =
     (case j of
        JObj l \<Rightarrow>
          (freeze_json_ok j
           \<and> (case utf8_encode (json_dumps (storage_format t) j) of
                None \<Rightarrow> False
              | Some encoded \<Rightarrow>
                  length encoded + numeric_expansion (python_float t) (postgres_float t) j
                  \<le> max_bytes))
      | _ \<Rightarrow> False)"

section \<open>Events\<close>

record ingress_event =
  ev_account_id :: int
  ev_source :: ingress_source
  ev_raw_event_type :: pystr
  ev_kind :: change_kind
  ev_external_email_id :: pystr
  ev_folder :: pystr
  ev_source_version :: "pystr option"
  ev_dedupe_key :: pystr
  ev_payload :: json
  ev_processing_policy :: processing_policy
  ev_source_event_at :: "time option"

definition NormalizedIngressEvent ::
  "json_texts \<Rightarrow> ingress_event \<Rightarrow> invalid_value + ingress_event" where
  "NormalizedIngressEvent t e = require
     [(''account_id'', valid_int 1 (ev_account_id e)),
      (''raw_event_type'', valid_text 128 (ev_raw_event_type e)),
      (''external_email_id'', valid_text 1024 (ev_external_email_id e)),
      (''folder'', valid_text 512 (ev_folder e)),
      (''source_version'', valid_optional_text 512 (ev_source_version e)),
      (''dedupe_key'', is_sha256_hex (ev_dedupe_key e)),
      (''payload'', freeze_json_object t MAX_INBOX_PAYLOAD_BYTES (ev_payload e))] e"

record pipeline_generation =
  pg_account_id :: int
  pg_generation :: int
  pg_pipeline_name :: pystr
  pg_state :: pipeline_generation_state
  pg_fencing_token :: int

definition PipelineGeneration ::
  "pipeline_generation \<Rightarrow> invalid_value + pipeline_generation" where
  "PipelineGeneration g = require
     [(''account_id'', valid_int 1 (pg_account_id g)),
      (''generation'', valid_int 1 (pg_generation g)),
      (''pipeline_name'', valid_text 64 (pg_pipeline_name g)),
      (''fencing_token'', valid_int 1 (pg_fencing_token g))] g"

section \<open>Synchronization pages\<close>

record sync_change =
  ch_kind :: change_kind
  ch_external_email_id :: pystr
  ch_item :: "json option"
  ch_source_version :: "pystr option"

definition SyncChange :: "json_texts \<Rightarrow> sync_change \<Rightarrow> invalid_value + sync_change" where
  "SyncChange t c = require
     [(''external_email_id'', valid_text 1024 (ch_external_email_id c)),
      (''external_email_id'', \<not> list_ex is_control (ch_external_email_id c)),
      (''item'', case ch_item c of None \<Rightarrow> True
         | Some j \<Rightarrow> freeze_json_object t MAX_INBOX_PAYLOAD_BYTES j),
      (''source_version'', valid_optional_text 512 (ch_source_version c))] c"

record sync_batch =
  sb_contract_version :: pystr
  sb_cursor :: pystr
  sb_changes :: "sync_change list"
  sb_includes_last :: bool

definition SyncBatch :: "sync_batch \<Rightarrow> invalid_value + sync_batch" where
  "SyncBatch b = require
     [(''contract_version'', sb_contract_version b = lit ''exchange_sync_contract_v2''),
      (''cursor'', sb_cursor b \<noteq> [] \<and> length (sb_cursor b) \<le> 8192),
      (''cursor'', sb_cursor b = strip (sb_cursor b) \<and> \<not> list_ex is_control (sb_cursor b)),
      (''cursor'', utf8_ok (sb_cursor b)),
      (''changes'', length (sb_changes b) \<le> MAX_SYNC_CHANGES_PER_BATCH),
      (''changes'', distinct (map (\<lambda>c. (ch_kind c, ch_external_email_id c)) (sb_changes b)))] b"

section \<open>Leases, statistics, dispositions, receipts\<close>

record inbox_lease =
  l_id :: uuid
  l_account_id :: int
  l_pipeline_name :: pystr
  l_generation :: int
  l_fencing_token :: int
  l_execution_epoch :: int
  l_authority_epoch :: int
  l_capability_hash :: pystr
  l_lease_session_id :: uuid
  l_lease_owner :: pystr
  l_attempts :: int
  l_event :: ingress_event
  l_received_at :: time
  l_lease_until :: time

definition InboxLease :: "inbox_lease \<Rightarrow> invalid_value + inbox_lease" where
  "InboxLease l = require
     [(''account_id'', valid_int 1 (l_account_id l)),
      (''pipeline_name'', valid_text 64 (l_pipeline_name l)),
      (''pipeline_name'', l_pipeline_name l = strip (l_pipeline_name l)),
      (''generation'', valid_int 1 (l_generation l)),
      (''fencing_token'', valid_int 1 (l_fencing_token l)),
      (''execution_epoch'', valid_int 0 (l_execution_epoch l)),
      (''authority_epoch'', valid_int 1 (l_authority_epoch l)),
      (''capability_hash'', is_sha256_hex (l_capability_hash l)),
      (''lease_owner'', valid_text 128 (l_lease_owner l)),
      (''attempts'', valid_int 0 (l_attempts l)),
      (''event'', ev_account_id (l_event l) = l_account_id l),
      (''lease_until'', l_received_at l < l_lease_until l)] l"

record inbox_stats =
  st_pending :: int
  st_retry_wait :: int
  st_leased :: int
  st_dead_letter :: int
  st_manual_review :: int
  st_oldest_pending_seconds :: rat

definition InboxStats :: "inbox_stats \<Rightarrow> invalid_value + inbox_stats" where
  "InboxStats s = require
     [(''pending'', valid_int 0 (st_pending s)),
      (''retry_wait'', valid_int 0 (st_retry_wait s)),
      (''leased'', valid_int 0 (st_leased s)),
      (''dead_letter'', valid_int 0 (st_dead_letter s)),
      (''manual_review'', valid_int 0 (st_manual_review s)),
      (''oldest_pending_seconds'', 0 \<le> st_oldest_pending_seconds s)] s"

record inbox_disposition =
  d_status :: inbox_disposition_status
  d_attempts :: int
  d_available_at :: "time option"
  d_safe_error_code :: pystr

definition InboxDisposition :: "inbox_disposition \<Rightarrow> invalid_value + inbox_disposition" where
  "InboxDisposition d = require
     [(''attempts'', valid_int 0 (d_attempts d)),
      (''available_at'', d_status d = DS_RETRY_WAIT \<longrightarrow> d_available_at d \<noteq> None),
      (''available_at'', d_status d \<noteq> DS_RETRY_WAIT \<longrightarrow> d_available_at d = None),
      (''safe_error_code'', is_safe_error_code (d_safe_error_code d))] d"

record ingress_receipt =
  rc_inbox_id :: uuid
  rc_duplicate :: bool

lemma NormalizedIngressEvent_id: "NormalizedIngressEvent t e = Inr e' \<Longrightarrow> e' = e"
  by (simp add: NormalizedIngressEvent_def require_Inr_iff del: require.simps)

lemma InboxLease_id: "InboxLease l = Inr l' \<Longrightarrow> l' = l"
  by (simp add: InboxLease_def require_Inr_iff del: require.simps)

lemma InboxDisposition_id: "InboxDisposition d = Inr d' \<Longrightarrow> d' = d"
  by (simp add: InboxDisposition_def require_Inr_iff del: require.simps)

end
