(* ===== verification/InboxStore.thy ===== *)
theory InboxStore
  imports InboxModels
begin

text \<open>
  The store of \<^verbatim>\<open>src/ingestion/repository.py\<close>: the rows the inbox repository reads and
  writes, the errors it raises, what a transaction reads from its surroundings (clock,
  fresh identifiers, SHA-256, rows locked by others), the row readers, the lease fence every
  fenced statement shares, and the failure table. A statement of the code is one update of a
  table of \<open>db\<close>; a transaction that raises returns no store, as the rollback leaves none.
\<close>

section \<open>Errors\<close>

datatype error_kind =
    EK_VALIDATION | EK_AUTHENTICATION | EK_RATE_LIMITED | EK_TRANSIENT_DEPENDENCY
  | EK_PERMANENT_DEPENDENCY | EK_POLICY_REJECTED | EK_SEND_UNKNOWN | EK_INTERNAL_INVARIANT

datatype repo_error =
    StaleFence
  | ManualReviewRequired string
  | DatabaseOperationError string bool
  | AuditInvariantError
  | ProcessingCompletionRejected
  | ProcessingReceiptConflict
  | RepoValueError string

definition invariant_error :: repo_error where
  "invariant_error = DatabaseOperationError ''event_inbox_invariant'' False"

section \<open>Rows\<close>

record inbox_row =
  i_id :: uuid
  i_account_id :: int
  i_external_email_id :: pystr
  i_folder_key :: pystr
  i_source :: ingress_source
  i_raw_event_type :: pystr
  i_change_kind :: change_kind
  i_dedupe_key :: pystr
  i_source_version :: "pystr option"
  i_source_event_at :: "time option"
  i_payload :: json
  i_processing_policy :: processing_policy
  i_pipeline_name :: pystr
  i_generation :: int
  i_fencing_token :: int
  i_execution_epoch :: int
  i_authority_epoch :: int
  i_capability_hash :: pystr
  i_lease_session_id :: "uuid option"
  i_lease_owner :: "pystr option"
  i_lease_until :: "time option"
  i_attempts :: int
  i_received_at :: time
  i_status :: inbox_status
  i_available_at :: time
  i_processing_started_at :: "time option"
  i_effect_started_at :: "time option"
  i_safe_error_code :: "pystr option"
  i_safe_error_summary :: "pystr option"
  i_updated_at :: time

record email_row =
  e_id :: uuid
  e_account_id :: int
  e_external_email_id :: pystr
  e_source_folder_key :: pystr
  e_status :: email_status
  e_version :: int
  e_owner_generation :: int
  e_owner_fencing_token :: int
  e_owner_authority_epoch :: int
  e_owner_capability_hash :: pystr
  e_processing_inbox_id :: "uuid option"
  e_processing_execution_epoch :: "int option"
  e_create_seen_at :: "time option"
  e_processing_started_at :: "time option"
  e_source_deleted_at :: "time option"
  e_external_effects_started_at :: "time option"
  e_safe_error_code :: "pystr option"
  e_safe_error_summary :: "pystr option"
  e_is_read :: "bool option"
  e_is_read_refresh_required :: bool
  e_updated_at :: time

record ownership_row =
  o_account_id :: int
  o_generation :: int
  o_pipeline_name :: pystr
  o_state :: pipeline_generation_state
  o_fencing_token :: int

record runtime_row =
  r_session_id :: uuid
  r_account_id :: int
  r_generation :: int
  r_fencing_token :: int
  r_authority_epoch :: int
  r_capability_hash :: pystr
  r_instance_id :: pystr
  r_workload :: pystr
  r_lifecycle :: pystr
  r_lease_until :: time

record audit_row =
  a_id :: uuid
  a_event_key :: pystr
  a_account_id :: int
  a_email_id :: "uuid option"
  a_object_type :: pystr
  a_object_fingerprint :: pystr
  a_action :: pystr
  a_result :: pystr
  a_actor :: pystr
  a_reason :: pystr
  a_safe_metadata :: json

record intake_decision_row =
  n_inbox_id :: uuid
  n_execution_epoch :: int
  n_external_email_id :: pystr
  n_decision_json :: json
  n_decision_digest :: pystr
  n_disposition :: pystr
  n_reason_code :: pystr
  n_policy_version :: pystr
  n_snapshot_digest :: pystr

record intake_release_row =
  x_id :: uuid
  x_inbox_id :: uuid
  x_prior_execution_epoch :: int
  x_new_execution_epoch :: int
  x_actor :: pystr
  x_reason :: pystr

record db =
  inbox :: "inbox_row list"
  emails :: "email_row list"
  ownership :: "ownership_row list"
  runtimes :: "runtime_row list"
  audits :: "audit_row list"
  intake_decisions :: "intake_decision_row list"
  intake_releases :: "intake_release_row list"

text \<open>
  What one transaction reads from outside the store. \<open>clk k\<close> is its \<open>k\<close>-th reading of the
  database clock and \<open>uuid4 k\<close> its \<open>k\<close>-th fresh identifier; the two \<open>locked\<close> predicates are
  the rows other transactions hold, which \<^verbatim>\<open>SKIP LOCKED\<close> skips; \<open>runtime_columns\<close> are the
  values \<^verbatim>\<open>event_inbox\<close> supplies for the two columns the repository's INSERT leaves out (the
  baseline schema declares them NOT NULL without a default: \<open>None\<close>).
\<close>

record env =
  sha256 :: "pybytes \<Rightarrow> pystr"
  clk :: "nat \<Rightarrow> time"
  uuid4 :: "nat \<Rightarrow> uuid"
  isoformat :: "time \<Rightarrow> pystr"
  texts :: json_texts
  inbox_locked :: "uuid \<Rightarrow> bool"
  email_locked :: "uuid \<Rightarrow> bool"
  runtime_columns :: "(int \<times> pystr) option"

section \<open>Constants\<close>

definition MAX_BATCH :: int where "MAX_BATCH = 500"
definition MAX_LEASE_SECONDS :: int where "MAX_LEASE_SECONDS = 3600"
definition MAX_RETRIES :: int where "MAX_RETRIES = 5"
definition MAX_BACKOFF_SECONDS :: int where "MAX_BACKOFF_SECONDS = 900"
definition AUDIT_ACTOR :: pystr where "AUDIT_ACTOR = lit ''inbox_repository''"

definition seconds :: "int \<Rightarrow> time" where
  "seconds n = n * 1000000"

definition CLAIMABLE_POLICIES :: "processing_policy list" where
  "CLAIMABLE_POLICIES = [FULL, ARCHIVE, METADATA_ONLY]"

definition SUPPRESSED_POLICIES :: "processing_policy list" where
  "SUPPRESSED_POLICIES = [IGNORED]"

definition LEASE_OWNERSHIP_STATES :: "pipeline_generation_state list" where
  "LEASE_OWNERSHIP_STATES = [CURRENT_INGRESS, QUIESCING, DRAINING]"

definition CLAIM_OWNERSHIP_STATES :: "pipeline_generation_state list" where
  "CLAIM_OWNERSHIP_STATES = [CURRENT_INGRESS, DRAINING]"

definition RETIRED_BLOCKING_EMAIL_STATUSES :: "email_status list" where
  "RETIRED_BLOCKING_EMAIL_STATUSES =
     [ES_INGESTED, ES_PROCESSING, ES_RETRY_WAIT, ES_MANUAL_REVIEW, ES_WAITING_APPROVAL,
      ES_SEND_QUEUED, ES_SENDING, ES_ACCEPTED, ES_SEND_UNKNOWN, ES_DEAD_LETTER]"

section \<open>Stored text of the enumerations\<close>

fun change_kind_value :: "change_kind \<Rightarrow> pystr" where
  "change_kind_value CREATE = lit ''create''"
| "change_kind_value UPDATE = lit ''update''"
| "change_kind_value READ = lit ''read''"
| "change_kind_value DELETE = lit ''delete''"

fun processing_policy_value :: "processing_policy \<Rightarrow> pystr" where
  "processing_policy_value FULL = lit ''full''"
| "processing_policy_value ARCHIVE = lit ''archive''"
| "processing_policy_value METADATA_ONLY = lit ''metadata_only''"
| "processing_policy_value IGNORED = lit ''ignored''"

fun inbox_status_value :: "inbox_status \<Rightarrow> pystr" where
  "inbox_status_value IS_PENDING = lit ''pending''"
| "inbox_status_value IS_RETRY_WAIT = lit ''retry_wait''"
| "inbox_status_value IS_LEASED = lit ''leased''"
| "inbox_status_value IS_COMPLETED = lit ''completed''"
| "inbox_status_value IS_DEAD_LETTER = lit ''dead_letter''"
| "inbox_status_value IS_MANUAL_REVIEW = lit ''manual_review''"

fun email_status_value :: "email_status \<Rightarrow> pystr" where
  "email_status_value ES_INGESTED = lit ''ingested''"
| "email_status_value ES_PROCESSING = lit ''processing''"
| "email_status_value ES_RETRY_WAIT = lit ''retry_wait''"
| "email_status_value ES_MANUAL_REVIEW = lit ''manual_review''"
| "email_status_value ES_WAITING_APPROVAL = lit ''waiting_approval''"
| "email_status_value ES_NOTIFIED_READONLY = lit ''notified_readonly''"
| "email_status_value ES_SEND_QUEUED = lit ''send_queued''"
| "email_status_value ES_SENDING = lit ''sending''"
| "email_status_value ES_ACCEPTED = lit ''accepted''"
| "email_status_value ES_SENT = lit ''sent''"
| "email_status_value ES_SEND_FAILED = lit ''send_failed''"
| "email_status_value ES_DELIVERY_FAILED = lit ''delivery_failed''"
| "email_status_value ES_SEND_UNKNOWN = lit ''send_unknown''"
| "email_status_value ES_NO_ACTION = lit ''no_action''"
| "email_status_value ES_ARCHIVED = lit ''archived''"
| "email_status_value ES_REJECTED = lit ''rejected''"
| "email_status_value ES_DRAFT_SAVED = lit ''draft_saved''"
| "email_status_value ES_EXPIRED = lit ''expired''"
| "email_status_value ES_CANCELLED = lit ''cancelled''"
| "email_status_value ES_DEAD_LETTER = lit ''dead_letter''"

section \<open>Arguments\<close>

definition valid_bigint :: "int \<Rightarrow> bool" where
  "valid_bigint v = (0 < v \<and> v \<le> POSTGRES_BIGINT_MAX)"

definition valid_bounded_int :: "int \<Rightarrow> int \<Rightarrow> bool" where
  "valid_bounded_int maximum v = (0 < v \<and> v \<le> maximum)"

definition valid_exact_text :: "nat \<Rightarrow> pystr \<Rightarrow> bool" where
  "valid_exact_text max_length s =
     (s \<noteq> [] \<and> s = strip s \<and> length s \<le> max_length \<and> 0 \<notin> set s \<and> 13 \<notin> set s \<and> 10 \<notin> set s
      \<and> utf8_ok s)"

definition valid_email_version :: "int \<Rightarrow> bool" where
  "valid_email_version v = (0 \<le> v \<and> v \<le> POSTGRES_BIGINT_MAX)"

text \<open>\<^verbatim>\<open>_require_pipeline_names\<close>: between 1 and 64 exact names, duplicates dropped, sorted.\<close>

definition require_pipeline_names :: "pystr list \<Rightarrow> repo_error + pystr list" where
  "require_pipeline_names values =
     and_then (ensure (values \<noteq> [] \<and> length values \<le> 64) (RepoValueError ''pipeline_names''))
       (\<lambda>_. and_then (ensure (list_all (valid_exact_text 64) values)
                (RepoValueError ''pipeline_name''))
              (\<lambda>_. Inr (sort (remdups values))))"

section \<open>Reading rows\<close>

definition row_event :: "inbox_row \<Rightarrow> ingress_event" where
  "row_event r = \<lparr>ev_account_id = i_account_id r, ev_source = i_source r,
     ev_raw_event_type = i_raw_event_type r, ev_kind = i_change_kind r,
     ev_external_email_id = i_external_email_id r, ev_folder = i_folder_key r,
     ev_source_version = i_source_version r, ev_dedupe_key = i_dedupe_key r,
     ev_payload = i_payload r, ev_processing_policy = i_processing_policy r,
     ev_source_event_at = i_source_event_at r\<rparr>"

definition row_lease :: "inbox_row \<Rightarrow> uuid \<Rightarrow> pystr \<Rightarrow> time \<Rightarrow> inbox_lease" where
  "row_lease r session owner until = \<lparr>l_id = i_id r, l_account_id = i_account_id r,
     l_pipeline_name = i_pipeline_name r, l_generation = i_generation r,
     l_fencing_token = i_fencing_token r, l_execution_epoch = i_execution_epoch r,
     l_authority_epoch = i_authority_epoch r, l_capability_hash = i_capability_hash r,
     l_lease_session_id = session, l_lease_owner = owner, l_attempts = i_attempts r,
     l_event = row_event r, l_received_at = i_received_at r, l_lease_until = until\<rparr>"

text \<open>\<^verbatim>\<open>_lease_from_row\<close>: a missing lease column or a failing constructor is an invariant error.\<close>

definition lease_from_row :: "env \<Rightarrow> inbox_row \<Rightarrow> repo_error + inbox_lease" where
  "lease_from_row env r =
     (case (i_lease_session_id r, i_lease_owner r, i_lease_until r) of
        (Some session, Some owner, Some until) \<Rightarrow>
          (if is_ok (NormalizedIngressEvent (texts env) (row_event r))
              \<and> is_ok (InboxLease (row_lease r session owner until))
           then Inr (row_lease r session owner until) else Inl invariant_error)
      | _ \<Rightarrow> Inl invariant_error)"

definition expired_candidate_from_row :: "env \<Rightarrow> inbox_row \<Rightarrow> repo_error + inbox_lease" where
  "expired_candidate_from_row env r =
     (case (i_lease_session_id r, i_lease_owner r, i_lease_until r) of
        (Some session, Some owner, Some until) \<Rightarrow>
          (if is_ok (NormalizedIngressEvent (texts env) (row_event r))
              \<and> valid_bigint (i_account_id r) \<and> valid_exact_text 64 (i_pipeline_name r)
              \<and> valid_bigint (i_generation r) \<and> valid_bigint (i_fencing_token r)
              \<and> valid_bigint (i_authority_epoch r) \<and> valid_exact_text 128 owner
              \<and> valid_int 0 (i_attempts r) \<and> valid_int 0 (i_execution_epoch r)
              \<and> is_sha256_hex (i_capability_hash r)
           then Inr (row_lease r session owner until) else Inl invariant_error)
      | _ \<Rightarrow> Inl invariant_error)"

definition email_from_row :: "email_row \<Rightarrow> repo_error + email_row" where
  "email_from_row e =
     (if valid_int 0 (e_version e) \<and> valid_bigint (e_account_id e)
         \<and> valid_bigint (e_owner_generation e) \<and> valid_bigint (e_owner_fencing_token e)
         \<and> valid_bigint (e_owner_authority_epoch e) \<and> is_sha256_hex (e_owner_capability_hash e)
         \<and> (case e_processing_execution_epoch e of None \<Rightarrow> True | Some n \<Rightarrow> valid_int 0 n)
      then Inr e else Inl invariant_error)"

text \<open>\<^verbatim>\<open>_source_is_read\<close>.\<close>

definition source_is_read :: "ingress_event \<Rightarrow> bool option" where
  "source_is_read ev =
     (if ev_kind ev = READ then Some True
      else if ev_source ev = SYNC then
        (case json_get (ev_payload ev) (lit ''item'') of
           Some (JObj item) \<Rightarrow>
             (case map_of item (lit ''is_read'') of Some (JBool b) \<Rightarrow> Some b | _ \<Rightarrow> None)
         | _ \<Rightarrow> None)
      else None)"

section \<open>Comparing leases\<close>

definition events_equal :: "ingress_event \<Rightarrow> ingress_event \<Rightarrow> bool" where
  "events_equal p s =
     (ev_account_id p = ev_account_id s \<and> ev_source p = ev_source s
      \<and> ev_raw_event_type p = ev_raw_event_type s \<and> ev_kind p = ev_kind s
      \<and> ev_external_email_id p = ev_external_email_id s \<and> ev_folder p = ev_folder s
      \<and> ev_source_version p = ev_source_version s \<and> ev_dedupe_key p = ev_dedupe_key s
      \<and> ev_processing_policy p = ev_processing_policy s
      \<and> ev_source_event_at p = ev_source_event_at s
      \<and> json_values_equal (ev_payload p) (ev_payload s))"

definition leases_equal :: "inbox_lease \<Rightarrow> inbox_lease \<Rightarrow> bool" where
  "leases_equal p s =
     (l_id p = l_id s \<and> l_account_id p = l_account_id s
      \<and> l_pipeline_name p = l_pipeline_name s \<and> l_generation p = l_generation s
      \<and> l_fencing_token p = l_fencing_token s \<and> l_execution_epoch p = l_execution_epoch s
      \<and> l_authority_epoch p = l_authority_epoch s \<and> l_capability_hash p = l_capability_hash s
      \<and> l_lease_session_id p = l_lease_session_id s \<and> l_lease_owner p = l_lease_owner s
      \<and> l_attempts p = l_attempts s \<and> l_received_at p = l_received_at s
      \<and> l_lease_until p = l_lease_until s
      \<and> events_equal (l_event p) (l_event s))"

section \<open>Receipt keys\<close>

text \<open>Identifiers are ASCII, so \<^verbatim>\<open>encode("ascii")\<close> keeps their code points.\<close>

definition processing_attempt_event_key :: "env \<Rightarrow> uuid \<Rightarrow> int \<Rightarrow> int \<Rightarrow> pystr" where
  "processing_attempt_event_key env inbox_id epoch attempts =
     sha256 env (lit ''email-processing-attempt-v1'' @ 0 # inbox_id @ 0 # dec_int epoch
       @ 0 # dec_int attempts)"

definition processing_attempt_fingerprint :: "env \<Rightarrow> uuid \<Rightarrow> uuid \<Rightarrow> pystr" where
  "processing_attempt_fingerprint env email_id inbox_id =
     sha256 env (lit ''email-processing-attempt-object-v1'' @ 0 # email_id @ 0 # inbox_id)"

definition processing_result_event_key ::
  "env \<Rightarrow> uuid \<Rightarrow> int \<Rightarrow> int \<Rightarrow> pystr \<Rightarrow> pystr" where
  "processing_result_event_key env inbox_id epoch attempts operation =
     sha256 env (lit ''email-processing-result-v1'' @ 0 # inbox_id @ 0 # dec_int epoch
       @ 0 # dec_int attempts @ 0 # operation)"

definition processing_result_fingerprint :: "env \<Rightarrow> uuid \<Rightarrow> uuid \<Rightarrow> pystr" where
  "processing_result_fingerprint env email_id inbox_id =
     sha256 env (lit ''email-processing-result-object-v1'' @ 0 # email_id @ 0 # inbox_id)"

definition audit_event_key :: "env \<Rightarrow> uuid \<Rightarrow> pystr \<Rightarrow> int \<Rightarrow> pystr" where
  "audit_event_key env inbox_id action attempts =
     sha256 env (lit ''event_inbox'' @ 0 # inbox_id @ 0 # action @ 0 # dec_int attempts)"

definition object_fingerprint :: "env \<Rightarrow> uuid \<Rightarrow> pystr" where
  "object_fingerprint env inbox_id = sha256 env inbox_id"

definition json_text :: "pystr option \<Rightarrow> json" where
  "json_text t = (case t of None \<Rightarrow> JNull | Some s \<Rightarrow> JStr s)"

definition lease_token_hash :: "env \<Rightarrow> inbox_lease \<Rightarrow> pystr" where
  "lease_token_hash env l =
     (let ev = l_event l in
      sha256 env (utf8 (json_dumps (compact_format False (python_float (texts env))) (JObj
        [(lit ''id'', JStr (l_id l)),
         (lit ''account_id'', JInt (l_account_id l)),
         (lit ''pipeline_name'', JStr (l_pipeline_name l)),
         (lit ''generation'', JInt (l_generation l)),
         (lit ''fencing_token'', JInt (l_fencing_token l)),
         (lit ''execution_epoch'', JInt (l_execution_epoch l)),
         (lit ''authority_epoch'', JInt (l_authority_epoch l)),
         (lit ''capability_hash'', JStr (l_capability_hash l)),
         (lit ''lease_session_id'', JStr (l_lease_session_id l)),
         (lit ''lease_owner'', JStr (l_lease_owner l)),
         (lit ''attempts'', JInt (l_attempts l)),
         (lit ''received_at'', JStr (isoformat env (l_received_at l))),
         (lit ''lease_until'', JStr (isoformat env (l_lease_until l))),
         (lit ''event'', JObj
           [(lit ''account_id'', JInt (ev_account_id ev)),
            (lit ''source'', JStr (lit ''sync'')),
            (lit ''raw_event_type'', JStr (ev_raw_event_type ev)),
            (lit ''kind'', JStr (change_kind_value (ev_kind ev))),
            (lit ''external_email_id'', JStr (ev_external_email_id ev)),
            (lit ''folder'', JStr (ev_folder ev)),
            (lit ''source_version'', json_text (ev_source_version ev)),
            (lit ''dedupe_key'', JStr (ev_dedupe_key ev)),
            (lit ''payload'', ev_payload ev),
            (lit ''processing_policy'', JStr (processing_policy_value (ev_processing_policy ev))),
            (lit ''source_event_at'',
             json_text (map_option (isoformat env) (ev_source_event_at ev)))])]))))"

section \<open>The failure table\<close>

record failure_verdict =
  fd_status :: inbox_disposition_status
  fd_safe_code :: pystr
  fd_safe_summary :: pystr

definition failure :: "inbox_disposition_status \<Rightarrow> string \<Rightarrow> string \<Rightarrow> failure_verdict" where
  "failure st code summary =
     \<lparr>fd_status = st, fd_safe_code = lit code, fd_safe_summary = lit summary\<rparr>"

fun FAILURE_DECISIONS :: "error_kind \<Rightarrow> failure_verdict" where
  "FAILURE_DECISIONS EK_TRANSIENT_DEPENDENCY = failure DS_RETRY_WAIT
     ''inbox.transient_dependency'' ''Transient dependency failure''"
| "FAILURE_DECISIONS EK_RATE_LIMITED = failure DS_RETRY_WAIT
     ''inbox.rate_limited'' ''Dependency rate limit reached''"
| "FAILURE_DECISIONS EK_AUTHENTICATION = failure DS_DEAD_LETTER
     ''inbox.authentication_failure'' ''Dependency authentication failed''"
| "FAILURE_DECISIONS EK_VALIDATION = failure DS_DEAD_LETTER
     ''inbox.validation_failure'' ''Inbox event validation failed''"
| "FAILURE_DECISIONS EK_PERMANENT_DEPENDENCY = failure DS_DEAD_LETTER
     ''inbox.permanent_dependency_failure'' ''Permanent dependency failure''"
| "FAILURE_DECISIONS EK_POLICY_REJECTED = failure DS_DEAD_LETTER
     ''inbox.policy_rejected'' ''Inbox processing policy rejected''"
| "FAILURE_DECISIONS EK_INTERNAL_INVARIANT = failure DS_DEAD_LETTER
     ''inbox.internal_invariant'' ''Inbox processing invariant failed''"
| "FAILURE_DECISIONS EK_SEND_UNKNOWN = failure DS_MANUAL_REVIEW
     ''inbox.send_unknown'' ''Remote send outcome requires review''"

definition EFFECT_UNKNOWN :: failure_verdict where
  "EFFECT_UNKNOWN = failure DS_MANUAL_REVIEW
     ''inbox.effect_outcome_unknown'' ''Remote effect outcome requires review''"

definition MANUAL_REVIEW_DECISION :: failure_verdict where
  "MANUAL_REVIEW_DECISION = failure DS_MANUAL_REVIEW
     ''inbox.manual_review_required'' ''Inbox event requires manual review''"

definition DATABASE_TRANSIENT :: failure_verdict where
  "DATABASE_TRANSIENT = failure DS_RETRY_WAIT
     ''inbox.database_transient'' ''Transient database operation failure''"

definition DATABASE_FAILURE :: failure_verdict where
  "DATABASE_FAILURE = failure DS_DEAD_LETTER
     ''inbox.database_failure'' ''Database operation failed''"

definition UNKNOWN_FAILURE :: failure_verdict where
  "UNKNOWN_FAILURE = FAILURE_DECISIONS EK_INTERNAL_INVARIANT"

definition LEASE_EXPIRED :: failure_verdict where
  "LEASE_EXPIRED = failure DS_RETRY_WAIT ''inbox.lease_expired'' ''Inbox worker lease expired''"

definition STALE_OWNERSHIP :: failure_verdict where
  "STALE_OWNERSHIP = failure DS_MANUAL_REVIEW
     ''inbox.stale_ownership'' ''Inbox ownership requires review''"

text \<open>
  The exceptions a worker hands to the repository, by what the repository looks at: the two
  classes it tests for, the \<^verbatim>\<open>kind\<close> attribute, the exact replay-safe class with its retry
  hint, or nothing it recognises.
\<close>

datatype worker_error =
    WE_ManualReviewRequired
  | WE_DatabaseOperationError bool
  | WE_Kind error_kind
  | WE_ReplaySafe "int option"
  | WE_Other

fun failure_decision :: "worker_error \<Rightarrow> failure_verdict" where
  "failure_decision WE_ManualReviewRequired = MANUAL_REVIEW_DECISION"
| "failure_decision (WE_DatabaseOperationError retryable) =
     (if retryable then DATABASE_TRANSIENT else DATABASE_FAILURE)"
| "failure_decision (WE_Kind kind) = FAILURE_DECISIONS kind"
| "failure_decision (WE_ReplaySafe hint) = FAILURE_DECISIONS EK_TRANSIENT_DEPENDENCY"
| "failure_decision WE_Other = UNKNOWN_FAILURE"

fun trusted_replay_safe_retry_hint :: "worker_error \<Rightarrow> int option" where
  "trusted_replay_safe_retry_hint (WE_ReplaySafe (Some hint)) =
     (if 0 \<le> hint \<and> hint \<le> 3600 then Some hint else None)"
| "trusted_replay_safe_retry_hint _ = None"

definition next_attempts :: "int \<Rightarrow> int" where
  "next_attempts attempts = min (attempts + 1) POSTGRES_BIGINT_MAX"

text \<open>\<^verbatim>\<open>min(5 * (2**attempts), _MAX_BACKOFF_SECONDS)\<close>.\<close>

definition backoff_seconds :: "int \<Rightarrow> int" where
  "backoff_seconds attempts = min (5 * 2 ^ nat attempts) MAX_BACKOFF_SECONDS"

definition terminal_action :: "failure_verdict \<Rightarrow> pystr" where
  "terminal_action d =
     (if fd_safe_code d = fd_safe_code EFFECT_UNKNOWN then lit ''ingress.effect_unknown''
      else if fd_status d = DS_MANUAL_REVIEW then lit ''ingress.manual_review''
      else lit ''ingress.dead_letter'')"

text \<open>A retry that has used its attempts is dead-lettered with the same code.\<close>

definition demote :: "failure_verdict \<Rightarrow> failure_verdict" where
  "demote d = d\<lparr>fd_status := DS_DEAD_LETTER\<rparr>"

section \<open>Fences and joins\<close>

text \<open>
  \<^verbatim>\<open>_lease_params\<close> with the conditions it is bound to: the row is the leased row the token
  names. \<^verbatim>\<open>lease_until > clock_timestamp()\<close> is \<open>lease_live\<close>; the joins with
  \<^verbatim>\<open>pipeline_ownership\<close> and \<^verbatim>\<open>pipeline_runtime_instances\<close> are \<open>has_owner\<close> and \<open>has_runtime\<close>.
\<close>

definition lease_fence :: "inbox_lease \<Rightarrow> inbox_row \<Rightarrow> bool" where
  "lease_fence l r =
     (i_id r = l_id l \<and> i_account_id r = l_account_id l
      \<and> i_pipeline_name r = l_pipeline_name l \<and> i_generation r = l_generation l
      \<and> i_fencing_token r = l_fencing_token l
      \<and> i_lease_session_id r = Some (l_lease_session_id l)
      \<and> i_lease_owner r = Some (l_lease_owner l) \<and> i_attempts r = l_attempts l
      \<and> i_lease_until r = Some (l_lease_until l) \<and> i_status r = IS_LEASED)"

definition lease_live :: "time \<Rightarrow> inbox_row \<Rightarrow> bool" where
  "lease_live now r = (case i_lease_until r of None \<Rightarrow> False | Some until \<Rightarrow> now < until)"

definition owner_of :: "inbox_row \<Rightarrow> ownership_row \<Rightarrow> bool" where
  "owner_of r p =
     (o_account_id p = i_account_id r \<and> o_generation p = i_generation r
      \<and> o_fencing_token p = i_fencing_token r \<and> o_pipeline_name p = i_pipeline_name r)"

definition has_owner :: "pipeline_generation_state list \<Rightarrow> db \<Rightarrow> inbox_row \<Rightarrow> bool" where
  "has_owner states d r = list_ex (\<lambda>p. owner_of r p \<and> o_state p \<in> set states) (ownership d)"

definition runtime_of :: "time \<Rightarrow> inbox_row \<Rightarrow> runtime_row \<Rightarrow> bool" where
  "runtime_of now r t =
     (r_account_id t = i_account_id r \<and> r_generation t = i_generation r
      \<and> r_fencing_token t = i_fencing_token r \<and> r_authority_epoch t = i_authority_epoch r
      \<and> r_capability_hash t = i_capability_hash r
      \<and> r_workload t = lit ''web'' \<and> r_lifecycle t = lit ''active'' \<and> now < r_lease_until t)"

text \<open>The runtime that holds the row's lease.\<close>

definition has_runtime :: "time \<Rightarrow> db \<Rightarrow> inbox_row \<Rightarrow> bool" where
  "has_runtime now d r =
     list_ex (\<lambda>t. runtime_of now r t \<and> Some (r_session_id t) = i_lease_session_id r
       \<and> Some (r_instance_id t) = i_lease_owner r) (runtimes d)"

section \<open>Statements\<close>

definition update_inbox :: "(inbox_row \<Rightarrow> bool) \<Rightarrow> (inbox_row \<Rightarrow> inbox_row) \<Rightarrow> db \<Rightarrow> db" where
  "update_inbox p f d = d\<lparr>inbox := sql_update p f (inbox d)\<rparr>"

definition update_emails :: "(email_row \<Rightarrow> bool) \<Rightarrow> (email_row \<Rightarrow> email_row) \<Rightarrow> db \<Rightarrow> db" where
  "update_emails p f d = d\<lparr>emails := sql_update p f (emails d)\<rparr>"

text \<open>\<^verbatim>\<open>INSERT INTO audit_events ... ON CONFLICT (event_key) DO NOTHING\<close>.\<close>

definition audit_with_key :: "pystr \<Rightarrow> db \<Rightarrow> audit_row option" where
  "audit_with_key k d = select_one (\<lambda>a. a_event_key a = k) (audits d)"

definition insert_audit :: "audit_row \<Rightarrow> db \<Rightarrow> db" where
  "insert_audit a d =
     (case audit_with_key (a_event_key a) d of
        None \<Rightarrow> d\<lparr>audits := audits d @ [a]\<rparr>
      | Some _ \<Rightarrow> d)"

lemma update_inbox_simps [simp]:
  "emails (update_inbox p f d) = emails d" "ownership (update_inbox p f d) = ownership d"
  "runtimes (update_inbox p f d) = runtimes d" "audits (update_inbox p f d) = audits d"
  "intake_decisions (update_inbox p f d) = intake_decisions d"
  "intake_releases (update_inbox p f d) = intake_releases d"
  "inbox (update_inbox p f d) = sql_update p f (inbox d)"
  by (simp_all add: update_inbox_def)

lemma update_emails_simps [simp]:
  "inbox (update_emails p f d) = inbox d" "ownership (update_emails p f d) = ownership d"
  "runtimes (update_emails p f d) = runtimes d" "audits (update_emails p f d) = audits d"
  "intake_decisions (update_emails p f d) = intake_decisions d"
  "intake_releases (update_emails p f d) = intake_releases d"
  "emails (update_emails p f d) = sql_update p f (emails d)"
  by (simp_all add: update_emails_def)

lemma insert_audit_simps [simp]:
  "inbox (insert_audit a d) = inbox d" "emails (insert_audit a d) = emails d"
  "ownership (insert_audit a d) = ownership d" "runtimes (insert_audit a d) = runtimes d"
  "intake_decisions (insert_audit a d) = intake_decisions d"
  "intake_releases (insert_audit a d) = intake_releases d"
  by (simp_all add: insert_audit_def split: option.split)

lemma audit_with_key_cong: "audits d' = audits d \<Longrightarrow> audit_with_key k d' = audit_with_key k d"
  by (simp add: audit_with_key_def)

lemma audit_with_key_update [simp]:
  "audit_with_key k (update_inbox p f d) = audit_with_key k d"
  "audit_with_key k (update_emails q g d) = audit_with_key k d"
  by (simp_all add: audit_with_key_def)

text \<open>The first writer of a receipt key wins; a receipt once written is never replaced.\<close>

lemma audit_with_key_insert:
  "audit_with_key k (insert_audit a d) =
     (case audit_with_key k d of
        Some b \<Rightarrow> Some b
      | None \<Rightarrow> if a_event_key a = k then Some a else None)"
  by (auto simp: insert_audit_def audit_with_key_def select_one_append split: option.split)

end
