(* ===== verification/InboxGuards.thy ===== *)
theory InboxGuards
  imports InboxStore
begin

text \<open>
  What the database schema demands of the rows the repository writes, as predicates: the
  row triggers \<^verbatim>\<open>guard_event_inbox_runtime_identity\<close> and \<^verbatim>\<open>guard_emails_runtime_identity\<close>
  relate the row before an UPDATE to the row after it, and the CHECK constraints of
  \<^verbatim>\<open>event_inbox\<close> and \<^verbatim>\<open>emails\<close> over the columns the repository changes bound one row. The
  repository's transactions are proved never to be rejected by them; the model does not
  build them into the statements.
\<close>

section \<open>Relating a table to its successor\<close>

text \<open>Rows are updated in place or appended; none is removed or reordered.\<close>

definition rows_step :: "('r \<Rightarrow> 'r \<Rightarrow> bool) \<Rightarrow> 'r list \<Rightarrow> 'r list \<Rightarrow> bool" where
  "rows_step G t t' = (length t \<le> length t' \<and> list_all2 G t (take (length t) t'))"

lemma rows_step_refl [intro]: "(\<And>r. r \<in> set t \<Longrightarrow> G r r) \<Longrightarrow> rows_step G t t"
  by (auto simp: rows_step_def list_all2_conv_all_nth)

lemma rows_step_update:
  assumes "\<And>r. r \<in> set t \<Longrightarrow> p r \<Longrightarrow> G r (f r)" "\<And>r. r \<in> set t \<Longrightarrow> \<not> p r \<Longrightarrow> G r r"
  shows "rows_step G t (sql_update p f t)"
  using assms by (auto simp: rows_step_def list_all2_conv_all_nth sql_update_def)

lemma rows_step_update_append:
  assumes "\<And>r. r \<in> set (t @ new) \<Longrightarrow> p r \<Longrightarrow> G r (f r)" "\<And>r. G r r"
  shows "rows_step G t (sql_update p f (t @ new))"
  using rows_step_update [of t p G f] assms
  by (simp add: rows_step_def sql_update_def)

lemma rows_step_extend: "(\<And>r. G r r) \<Longrightarrow> rows_step G t (t @ new)"
  by (simp add: rows_step_def list_all2_conv_all_nth)

lemma rows_step_append: "rows_step G t u \<Longrightarrow> rows_step G t (u @ new)"
  by (simp add: rows_step_def)

lemma rows_step_trans:
  assumes "rows_step G t u" "rows_step G u v" "\<And>a b c. G a b \<Longrightarrow> G b c \<Longrightarrow> G a c"
  shows "rows_step G t v"
proof -
  have "list_all2 G (take (length t) u) (take (length t) v)"
    using assms(1,2) by (auto simp: rows_step_def list_all2_conv_all_nth)
  with assms(1) have "list_all2 G t (take (length t) v)"
    unfolding rows_step_def using list_all2_trans [of G G G] assms(3) by blast
  with assms(1,2) show ?thesis by (simp add: rows_step_def)
qed

lemma rows_step_mono:
  "rows_step G t u \<Longrightarrow> (\<And>a b. a \<in> set t \<Longrightarrow> G a b \<Longrightarrow> H a b) \<Longrightarrow> rows_step H t u"
  by (auto simp: rows_step_def list_all2_conv_all_nth)

lemma rows_step_in:
  assumes "rows_step G t u" "r \<in> set t"
  shows "\<exists>r'\<in>set u. G r r'"
proof -
  obtain k where "k < length t" "t ! k = r" using assms(2) by (auto simp: in_set_conv_nth)
  with assms(1) show ?thesis
    by (intro bexI [of _ "u ! k"]) (auto simp: rows_step_def list_all2_conv_all_nth)
qed

section \<open>The trigger on event_inbox\<close>

definition inbox_identity :: "inbox_row \<Rightarrow> inbox_row \<Rightarrow> bool" where
  "inbox_identity r s =
     (i_id s = i_id r \<and> i_account_id s = i_account_id r
      \<and> i_external_email_id s = i_external_email_id r \<and> i_folder_key s = i_folder_key r
      \<and> i_source s = i_source r \<and> i_raw_event_type s = i_raw_event_type r
      \<and> i_change_kind s = i_change_kind r \<and> i_dedupe_key s = i_dedupe_key r
      \<and> i_source_version s = i_source_version r \<and> i_source_event_at s = i_source_event_at r
      \<and> i_payload s = i_payload r \<and> i_processing_policy s = i_processing_policy r
      \<and> i_pipeline_name s = i_pipeline_name r \<and> i_generation s = i_generation r
      \<and> i_fencing_token s = i_fencing_token r \<and> i_authority_epoch s = i_authority_epoch r
      \<and> i_capability_hash s = i_capability_hash r \<and> i_received_at s = i_received_at r)"

text \<open>A new execution epoch: only work under review or dead-lettered, without effects, restarts.\<close>

definition requeue_transition :: "inbox_row \<Rightarrow> inbox_row \<Rightarrow> bool" where
  "requeue_transition r s =
     ((i_status r = IS_MANUAL_REVIEW \<or> i_status r = IS_DEAD_LETTER)
      \<and> i_effect_started_at r = None \<and> i_status s = IS_PENDING \<and> i_attempts s = 0
      \<and> i_lease_owner s = None \<and> i_lease_until s = None \<and> i_lease_session_id s = None
      \<and> i_processing_started_at s = None \<and> i_effect_started_at s = None
      \<and> i_safe_error_code s = None \<and> i_safe_error_summary s = None)"

definition within_epoch :: "inbox_row \<Rightarrow> inbox_row \<Rightarrow> bool" where
  "within_epoch r s =
     ((i_processing_started_at r \<noteq> None
        \<longrightarrow> i_processing_started_at s = i_processing_started_at r)
      \<and> (i_effect_started_at r \<noteq> None \<longrightarrow> i_effect_started_at s = i_effect_started_at r)
      \<and> i_attempts r \<le> i_attempts s)"

definition guard_event_inbox :: "inbox_row \<Rightarrow> inbox_row \<Rightarrow> bool" where
  "guard_event_inbox r s =
     (inbox_identity r s
      \<and> (if i_execution_epoch s = i_execution_epoch r + 1 then requeue_transition r s
         else i_execution_epoch s = i_execution_epoch r \<and> within_epoch r s))"

lemma guard_event_inbox_refl [simp]: "guard_event_inbox r r"
  by (simp add: guard_event_inbox_def inbox_identity_def within_epoch_def)

text \<open>
  The status machine of an inbox row: waiting work is leased, leased work is renewed or
  ends, and work under review is requeued under the next epoch. Nothing else moves.
\<close>

definition legal_status :: "inbox_row \<Rightarrow> inbox_row \<Rightarrow> bool" where
  "legal_status r s =
     (s = r
      \<or> (i_status r = IS_PENDING \<or> i_status r = IS_RETRY_WAIT) \<and> i_status s = IS_LEASED
      \<or> i_status r = IS_LEASED \<and> i_status s \<noteq> IS_PENDING
      \<or> i_status r = IS_MANUAL_REVIEW \<and> i_status s = IS_PENDING
         \<and> i_execution_epoch s = i_execution_epoch r + 1)"

definition inbox_move :: "inbox_row \<Rightarrow> inbox_row \<Rightarrow> bool" where
  "inbox_move r s = (guard_event_inbox r s \<and> legal_status r s)"

lemma inbox_move_leased:
  "i_status r = IS_LEASED \<Longrightarrow> i_status s \<noteq> IS_PENDING \<Longrightarrow> inbox_move r s \<longleftrightarrow> guard_event_inbox r s"
  by (simp add: inbox_move_def legal_status_def)

lemma inbox_move_claim:
  "i_status r = IS_PENDING \<or> i_status r = IS_RETRY_WAIT \<Longrightarrow> i_status s = IS_LEASED \<Longrightarrow>
     inbox_move r s \<longleftrightarrow> guard_event_inbox r s"
  by (simp add: inbox_move_def legal_status_def)

lemma inbox_move_requeue:
  "i_status r = IS_MANUAL_REVIEW \<Longrightarrow> i_status s = IS_PENDING \<Longrightarrow>
     i_execution_epoch s = i_execution_epoch r + 1 \<Longrightarrow> inbox_move r s \<longleftrightarrow> guard_event_inbox r s"
  by (simp add: inbox_move_def legal_status_def)

lemma inbox_move_refl [simp]: "inbox_move r r"
  by (simp add: inbox_move_def legal_status_def)

section \<open>The trigger on emails\<close>

definition epoch_advanced :: "email_row \<Rightarrow> email_row \<Rightarrow> bool" where
  "epoch_advanced r s =
     (case e_processing_execution_epoch r of
        None \<Rightarrow> False
      | Some n \<Rightarrow> e_processing_execution_epoch s = Some (n + 1)
          \<and> e_processing_inbox_id s = e_processing_inbox_id r)"

definition owner_cleared :: "email_row \<Rightarrow> email_row \<Rightarrow> bool" where
  "owner_cleared r s =
     (e_processing_inbox_id r \<noteq> None \<and> e_processing_inbox_id s = None
      \<and> e_processing_execution_epoch s = None)"

definition email_identity :: "email_row \<Rightarrow> email_row \<Rightarrow> bool" where
  "email_identity r s =
     (e_id s = e_id r \<and> e_account_id s = e_account_id r
      \<and> e_external_email_id s = e_external_email_id r
      \<and> e_owner_generation s = e_owner_generation r
      \<and> e_owner_fencing_token s = e_owner_fencing_token r
      \<and> e_owner_authority_epoch s = e_owner_authority_epoch r
      \<and> e_owner_capability_hash s = e_owner_capability_hash r)"

definition guard_emails :: "email_row \<Rightarrow> email_row \<Rightarrow> bool" where
  "guard_emails r s =
     (email_identity r s
      \<and> (e_processing_execution_epoch s \<noteq> e_processing_execution_epoch r \<longrightarrow>
           epoch_advanced r s \<or> owner_cleared r s
           \<or> (e_processing_execution_epoch r = None \<and> e_processing_execution_epoch s \<noteq> None
              \<and> e_processing_inbox_id s \<noteq> None))
      \<and> (e_status r \<noteq> ES_INGESTED \<and> e_status s = ES_INGESTED \<longrightarrow> epoch_advanced r s)
      \<and> (e_create_seen_at r \<noteq> None \<longrightarrow> e_create_seen_at s = e_create_seen_at r)
      \<and> (e_processing_started_at r \<noteq> None \<longrightarrow>
           e_processing_started_at s = e_processing_started_at r \<or> epoch_advanced r s)
      \<and> (e_source_deleted_at r \<noteq> None \<longrightarrow> e_source_deleted_at s = e_source_deleted_at r)
      \<and> (e_external_effects_started_at r \<noteq> None \<longrightarrow>
           e_external_effects_started_at s = e_external_effects_started_at r)
      \<and> (e_processing_inbox_id r \<noteq> None
           \<and> e_processing_inbox_id s \<noteq> e_processing_inbox_id r \<longrightarrow> owner_cleared r s)
      \<and> (e_processing_inbox_id r = None \<and> e_processing_inbox_id s \<noteq> None \<longrightarrow>
           e_status r = ES_INGESTED \<and> e_status s = ES_PROCESSING))"

lemma guard_emails_refl [simp]: "guard_emails r r"
  by (auto simp: guard_emails_def email_identity_def)

text \<open>
  What every writer of an email does beyond the trigger: the version never falls and rises
  with every change of status, and a deleted source never starts processing.
\<close>

definition email_move :: "email_row \<Rightarrow> email_row \<Rightarrow> bool" where
  "email_move r s =
     (guard_emails r s \<and> e_version r \<le> e_version s
      \<and> (e_status s \<noteq> e_status r \<longrightarrow> e_version r < e_version s)
      \<and> (e_source_deleted_at r \<noteq> None \<and> e_status s = ES_PROCESSING
           \<longrightarrow> e_status r = ES_PROCESSING))"

lemma email_move_refl [simp]: "email_move r r"
  by (simp add: email_move_def)

text \<open>\<^verbatim>\<open>owner_is_create\<close>: the owner of an email in processing is an exact create epoch.\<close>

definition owner_row :: "email_row \<Rightarrow> inbox_row \<Rightarrow> bool" where
  "owner_row e r =
     (Some (i_id r) = e_processing_inbox_id e \<and> i_account_id r = e_account_id e
      \<and> i_external_email_id r = e_external_email_id e
      \<and> i_generation r = e_owner_generation e \<and> i_fencing_token r = e_owner_fencing_token e
      \<and> Some (i_execution_epoch r) = e_processing_execution_epoch e
      \<and> i_authority_epoch r = e_owner_authority_epoch e
      \<and> i_capability_hash r = e_owner_capability_hash e
      \<and> i_change_kind r = CREATE)"

definition owner_is_create :: "db \<Rightarrow> email_row \<Rightarrow> bool" where
  "owner_is_create d e =
     (e_processing_inbox_id e \<noteq> None \<longrightarrow> list_ex (owner_row e) (inbox d))"

lemma owner_row_identity:
  "owner_row e r \<Longrightarrow> inbox_identity r s \<Longrightarrow> i_execution_epoch s = i_execution_epoch r
   \<Longrightarrow> owner_row e s"
  by (simp add: owner_row_def inbox_identity_def)

section \<open>CHECK constraints\<close>

text \<open>\<^verbatim>\<open>btrim(x) <> ''\<close>: some character is not a space.\<close>

definition pg_not_blank :: "pystr \<Rightarrow> bool" where
  "pg_not_blank s = list_ex (\<lambda>c. c \<noteq> 32) s"

definition ck_error_columns :: "pystr option \<Rightarrow> pystr option \<Rightarrow> bool" where
  "ck_error_columns code summary =
     ((case code of None \<Rightarrow> False | Some c \<Rightarrow> pg_not_blank c \<and> length c \<le> 64)
      \<and> (case summary of None \<Rightarrow> True | Some s \<Rightarrow> pg_not_blank s \<and> length s \<le> 256))"

definition ck_event_inbox_effect_order :: "inbox_row \<Rightarrow> bool" where
  "ck_event_inbox_effect_order r =
     (case i_effect_started_at r of
        None \<Rightarrow> True
      | Some effect \<Rightarrow>
          (case i_processing_started_at r of None \<Rightarrow> False | Some started \<Rightarrow> started \<le> effect)
          \<and> (i_status r = IS_LEASED \<or> i_status r = IS_COMPLETED \<or> i_status r = IS_MANUAL_REVIEW))"

definition ck_event_inbox_error_state :: "inbox_row \<Rightarrow> bool" where
  "ck_event_inbox_error_state r =
     (if i_status r = IS_RETRY_WAIT \<or> i_status r = IS_DEAD_LETTER \<or> i_status r = IS_MANUAL_REVIEW
      then ck_error_columns (i_safe_error_code r) (i_safe_error_summary r)
      else i_safe_error_code r = None \<and> i_safe_error_summary r = None)"

definition ck_event_inbox_lease :: "inbox_row \<Rightarrow> bool" where
  "ck_event_inbox_lease r =
     (if i_status r = IS_LEASED
      then i_lease_until r \<noteq> None \<and> i_lease_session_id r \<noteq> None
        \<and> (case i_lease_owner r of None \<Rightarrow> False
           | Some owner \<Rightarrow> pg_not_blank owner \<and> length owner \<le> 128)
      else i_lease_owner r = None \<and> i_lease_until r = None \<and> i_lease_session_id r = None)"

definition ck_event_inbox :: "inbox_row \<Rightarrow> bool" where
  "ck_event_inbox r =
     (0 \<le> i_attempts r \<and> ck_event_inbox_effect_order r \<and> ck_event_inbox_error_state r
      \<and> ck_event_inbox_lease r
      \<and> 0 \<le> i_execution_epoch r \<and> i_execution_epoch r < POSTGRES_BIGINT_MAX)"

definition ck_emails_processing_state :: "email_row \<Rightarrow> bool" where
  "ck_emails_processing_state e =
     (if e_status e = ES_PROCESSING then
        e_processing_inbox_id e \<noteq> None \<and> e_safe_error_code e = None
        \<and> e_safe_error_summary e = None
      else if e_status e = ES_RETRY_WAIT \<or> e_status e = ES_MANUAL_REVIEW
          \<or> e_status e = ES_DEAD_LETTER then
        e_processing_inbox_id e \<noteq> None
        \<and> ck_error_columns (e_safe_error_code e) (e_safe_error_summary e)
      else e_processing_inbox_id e = None \<and> e_safe_error_code e = None
        \<and> e_safe_error_summary e = None)"

definition ck_emails :: "email_row \<Rightarrow> bool" where
  "ck_emails e =
     (0 \<le> e_version e \<and> ck_emails_processing_state e
      \<and> (e_is_read e = None \<longrightarrow> e_is_read_refresh_required e)
      \<and> (case e_processing_execution_epoch e of
           None \<Rightarrow> e_processing_inbox_id e = None
         | Some n \<Rightarrow> e_processing_inbox_id e \<noteq> None \<and> 0 \<le> n \<and> n < POSTGRES_BIGINT_MAX))"

lemmas inbox_check_defs = ck_event_inbox_def ck_event_inbox_effect_order_def
  ck_event_inbox_error_state_def ck_event_inbox_lease_def

lemmas inbox_guard_defs = inbox_move_leased inbox_move_claim inbox_move_requeue
  guard_event_inbox_def inbox_identity_def within_epoch_def
  requeue_transition_def

end
