(* ===== verification/InboxLeases.thy ===== *)
theory InboxLeases
  imports InboxGuards "HOL-Library.Product_Lexorder"
begin

text \<open>
  The lease operations of \<^verbatim>\<open>InboxRepository\<close>: admission of an event, claiming, renewal, the
  effect marker, completion and failure of a leased row, and the statistics. Each is one
  transaction from a store to its result and the next store. The advisory account locks and
  the \<^verbatim>\<open>SET LOCAL\<close> timeouts of the code order and bound transactions; transactions are atomic
  here, so they leave no trace.
\<close>

section \<open>Append and compare an audit record\<close>

definition append_audit ::
  "env \<Rightarrow> uuid \<Rightarrow> uuid \<Rightarrow> int \<Rightarrow> pystr \<Rightarrow> pystr \<Rightarrow> pystr \<Rightarrow> int \<Rightarrow> json \<Rightarrow> db \<Rightarrow> repo_error + db" where
  "append_audit env fresh inbox_id account_id action result why attempts metadata d =
     (let row = \<lparr>a_id = fresh, a_event_key = audit_event_key env inbox_id action attempts,
            a_account_id = account_id, a_email_id = None,
            a_object_type = lit ''event_inbox'',
            a_object_fingerprint = object_fingerprint env inbox_id,
            a_action = action, a_result = result, a_actor = AUDIT_ACTOR, a_reason = why,
            a_safe_metadata = metadata\<rparr>;
          d' = insert_audit row d
      in case audit_with_key (a_event_key row) d' of
           None \<Rightarrow> Inl AuditInvariantError
         | Some stored \<Rightarrow>
             if stored\<lparr>a_id := fresh\<rparr> = row then Inr d' else Inl AuditInvariantError)"

lemma append_audit_store:
  "append_audit env fresh i acc act res rea att m d = Inr d' \<Longrightarrow>
     inbox d' = inbox d \<and> emails d' = emails d \<and> ownership d' = ownership d
     \<and> runtimes d' = runtimes d \<and> intake_decisions d' = intake_decisions d
     \<and> intake_releases d' = intake_releases d"
  by (auto simp: append_audit_def Let_def split: option.splits if_splits)

section \<open>Admission\<close>

definition row_receipt :: "ingress_event \<Rightarrow> inbox_row \<Rightarrow> repo_error + ingress_receipt" where
  "row_receipt ev r =
     (if \<not> (i_account_id r = ev_account_id ev \<and> i_source r = ev_source ev
           \<and> i_raw_event_type r = ev_raw_event_type ev \<and> i_change_kind r = ev_kind ev
           \<and> i_external_email_id r = ev_external_email_id ev \<and> i_folder_key r = ev_folder ev
           \<and> i_source_version r = ev_source_version ev)
      then Inl (DatabaseOperationError ''insert_event_inbox'' False)
      else if ev_source_version ev = None \<and> i_source_event_at r \<noteq> ev_source_event_at ev
      then Inl (DatabaseOperationError ''insert_event_inbox'' False)
      else Inr \<lparr>rc_inbox_id = i_id r, rc_duplicate = True\<rparr>)"

definition duplicate_receipt :: "ingress_event \<Rightarrow> db \<Rightarrow> repo_error + ingress_receipt option" where
  "duplicate_receipt ev d =
     (case select_one (\<lambda>r. i_dedupe_key r = ev_dedupe_key ev) (inbox d) of
        None \<Rightarrow> Inr None
      | Some r \<Rightarrow> and_then (row_receipt ev r) (\<lambda>receipt. Inr (Some receipt)))"

text \<open>
  The row the INSERT writes. The columns it leaves out take their table values: the
  execution epoch zero, no lease, and the two runtime columns of the environment.
\<close>

definition fresh_inbox_row ::
  "env \<Rightarrow> ingress_event \<Rightarrow> pystr \<Rightarrow> int \<Rightarrow> int \<Rightarrow> inbox_status \<Rightarrow> int \<times> pystr \<Rightarrow> inbox_row" where
  "fresh_inbox_row env ev pipeline generation fencing_token status columns =
     \<lparr>i_id = uuid4 env 0, i_account_id = ev_account_id ev,
      i_external_email_id = ev_external_email_id ev, i_folder_key = ev_folder ev,
      i_source = ev_source ev, i_raw_event_type = ev_raw_event_type ev,
      i_change_kind = ev_kind ev, i_dedupe_key = ev_dedupe_key ev,
      i_source_version = ev_source_version ev, i_source_event_at = ev_source_event_at ev,
      i_payload = ev_payload ev, i_processing_policy = ev_processing_policy ev,
      i_pipeline_name = pipeline, i_generation = generation, i_fencing_token = fencing_token,
      i_execution_epoch = 0, i_authority_epoch = fst columns,
      i_capability_hash = snd columns, i_lease_session_id = None, i_lease_owner = None,
      i_lease_until = None, i_attempts = 0, i_received_at = clk env 0, i_status = status,
      i_available_at = clk env 0, i_processing_started_at = None, i_effect_started_at = None,
      i_safe_error_code = None, i_safe_error_summary = None, i_updated_at = clk env 0\<rparr>"

text \<open>
  The second half of \<^verbatim>\<open>EmailEventTransaction.insert\<close>, for an event that is no duplicate. Its
  duplicate look-up and its INSERT see the same store, so the conflict branch of the INSERT
  is the look-up's.
\<close>

definition admit_event ::
  "env \<Rightarrow> ingress_event \<Rightarrow> pystr \<Rightarrow> int \<Rightarrow> int \<Rightarrow> db \<Rightarrow> repo_error + (ingress_receipt \<times> db)" where
  "admit_event env ev pipeline generation fencing_token d =
     (let suppressed = ev_processing_policy ev \<in> set SUPPRESSED_POLICIES;
          status = (if suppressed then IS_COMPLETED else IS_PENDING);
          inbox_id = uuid4 env 0
      in and_then (some_or (DatabaseOperationError ''insert_event_inbox'' False)
           (runtime_columns env)) (\<lambda>columns.
      let d1 = d\<lparr>inbox := inbox d @ [fresh_inbox_row env ev pipeline generation fencing_token
             status columns]\<rparr>
      in and_then
           (if suppressed then
              append_audit env (uuid4 env 1) inbox_id (ev_account_id ev)
                (lit ''ingress.policy_suppressed'') (inbox_status_value status)
                (lit ''inbox.policy_suppressed'') 0
                (JObj [(lit ''attempts'', JInt 0),
                       (lit ''processing_policy'',
                        JStr (processing_policy_value (ev_processing_policy ev))),
                       (lit ''status'', JStr (inbox_status_value status))]) d1
            else Inr d1)
           (\<lambda>d2. Inr (\<lparr>rc_inbox_id = inbox_id, rc_duplicate = False\<rparr>, d2))))"

definition insert_event ::
  "env \<Rightarrow> ingress_event \<Rightarrow> int \<Rightarrow> int \<Rightarrow> db \<Rightarrow> repo_error + (ingress_receipt \<times> db)" where
  "insert_event env ev generation fencing_token d =
     and_then (ensure (valid_bigint generation) (RepoValueError ''generation'')) (\<lambda>_.
     and_then (ensure (valid_bigint fencing_token) (RepoValueError ''fencing_token'')) (\<lambda>_.
     and_then (some_or StaleFence (select_one (\<lambda>p. o_account_id p = ev_account_id ev
         \<and> o_generation p = generation \<and> o_fencing_token p = fencing_token
         \<and> o_state p = CURRENT_INGRESS) (ownership d))) (\<lambda>owner.
     and_then (duplicate_receipt ev d) (\<lambda>duplicate.
       case duplicate of
         Some receipt \<Rightarrow> Inr (receipt, d)
       | None \<Rightarrow> admit_event env ev (o_pipeline_name owner) generation fencing_token d))))"

section \<open>Claiming\<close>

definition claim_ready :: "time \<Rightarrow> pystr list \<Rightarrow> db \<Rightarrow> inbox_row \<Rightarrow> bool" where
  "claim_ready now pipelines d r =
     ((i_status r = IS_PENDING \<or> i_status r = IS_RETRY_WAIT) \<and> i_available_at r \<le> now
      \<and> i_processing_policy r \<in> set CLAIMABLE_POLICIES \<and> i_pipeline_name r \<in> set pipelines
      \<and> has_owner CLAIM_OWNERSHIP_STATES d r)"

definition claim_order :: "inbox_row \<Rightarrow> time \<times> uuid" where
  "claim_order r = (i_received_at r, i_id r)"

text \<open>The accounts of the oldest ready rows; the code locks them in this order.\<close>

definition claim_accounts :: "env \<Rightarrow> pystr list \<Rightarrow> nat \<Rightarrow> db \<Rightarrow> int list" where
  "claim_accounts env pipelines window d =
     sort (remdups (map i_account_id
       (take window (sort_key claim_order (filter (claim_ready (clk env 0) pipelines d) (inbox d))))))"

definition session_runtime :: "time \<Rightarrow> uuid \<Rightarrow> pystr \<Rightarrow> db \<Rightarrow> inbox_row \<Rightarrow> bool" where
  "session_runtime now session worker d r =
     list_ex (\<lambda>t. runtime_of now r t \<and> r_session_id t = session \<and> r_instance_id t = worker)
       (runtimes d)"

text \<open>\<^verbatim>\<open>FOR UPDATE OF e SKIP LOCKED LIMIT n\<close>: rows locked by others do not count.\<close>

definition claimable ::
  "env \<Rightarrow> uuid \<Rightarrow> pystr \<Rightarrow> pystr list \<Rightarrow> int list \<Rightarrow> nat \<Rightarrow> db \<Rightarrow> uuid list" where
  "claimable env session worker pipelines accounts limit d =
     map i_id (take limit (filter (\<lambda>r. \<not> inbox_locked env (i_id r))
       (sort_key claim_order (filter (\<lambda>r. claim_ready (clk env 1) pipelines d r
          \<and> session_runtime (clk env 1) session worker d r
          \<and> i_account_id r \<in> set accounts) (inbox d)))))"

definition lease_row ::
  "env \<Rightarrow> uuid \<Rightarrow> pystr \<Rightarrow> int \<Rightarrow> inbox_row \<Rightarrow> inbox_row" where
  "lease_row env session worker lease_seconds r =
     r\<lparr>i_status := IS_LEASED, i_lease_owner := Some worker, i_lease_session_id := Some session,
       i_lease_until := Some (clk env 1 + seconds lease_seconds),
       i_processing_started_at := (case i_processing_started_at r of
          None \<Rightarrow> Some (clk env 1) | Some t \<Rightarrow> Some t),
       i_safe_error_code := None, i_safe_error_summary := None, i_updated_at := clk env 1\<rparr>"

definition claim_batch ::
  "env \<Rightarrow> pystr \<Rightarrow> uuid \<Rightarrow> pystr list \<Rightarrow> int \<Rightarrow> int \<Rightarrow> db \<Rightarrow> repo_error + (inbox_lease list \<times> db)" where
  "claim_batch env worker session pipeline_names limit lease_seconds d =
     and_then (ensure (valid_exact_text 128 worker) (RepoValueError ''worker_id'')) (\<lambda>_.
     and_then (require_pipeline_names pipeline_names) (\<lambda>pipelines.
     and_then (ensure (valid_bounded_int MAX_BATCH limit) (RepoValueError ''limit'')) (\<lambda>_.
     and_then (ensure (valid_bounded_int MAX_LEASE_SECONDS lease_seconds)
       (RepoValueError ''lease_seconds'')) (\<lambda>_.
       let window = nat (min MAX_BATCH (max limit (limit * 4)));
           accounts = claim_accounts env pipelines window d
       in if \<not> list_all valid_bigint accounts then Inl (RepoValueError ''account_id'')
          else if accounts = [] then Inr ([], d)
          else
            let ids = claimable env session worker pipelines accounts (nat limit) d;
                p = (\<lambda>r. i_id r \<in> set ids);
                f = lease_row env session worker lease_seconds
            in and_then (traverse (lease_from_row env) (sql_returning p f (inbox d))) (\<lambda>leases.
                 Inr (sort_key (\<lambda>l. (l_received_at l, l_id l)) leases, update_inbox p f d))))))"

section \<open>Renewal, effect marker, completion\<close>

definition renew ::
  "env \<Rightarrow> inbox_lease \<Rightarrow> int \<Rightarrow> db \<Rightarrow> repo_error + (inbox_lease option \<times> db)" where
  "renew env l lease_seconds d =
     and_then (ensure (valid_bounded_int MAX_LEASE_SECONDS lease_seconds)
       (RepoValueError ''lease_seconds'')) (\<lambda>_.
       let p = (\<lambda>r. lease_fence l r \<and> lease_live (clk env 0) r
                  \<and> has_owner LEASE_OWNERSHIP_STATES d r \<and> has_runtime (clk env 1) d r);
           f = (\<lambda>r. r\<lparr>i_lease_until := map_option (\<lambda>until. max (until + 1)
                         (clk env 2 + seconds lease_seconds)) (i_lease_until r),
                     i_updated_at := clk env 3\<rparr>)
       in case fetchone (sql_returning p f (inbox d)) of
            None \<Rightarrow> Inr (None, update_inbox p f d)
          | Some r \<Rightarrow> and_then (lease_from_row env r) (\<lambda>renewed.
              Inr (Some renewed, update_inbox p f d)))"

definition begin_effect :: "env \<Rightarrow> inbox_lease \<Rightarrow> db \<Rightarrow> repo_error + (bool \<times> db)" where
  "begin_effect env l d =
     (let p = (\<lambda>r. lease_fence l r \<and> lease_live (clk env 0) r
                 \<and> has_owner LEASE_OWNERSHIP_STATES d r);
          f = (\<lambda>r. r\<lparr>i_effect_started_at := (case i_effect_started_at r of
                        None \<Rightarrow> Some (clk env 1) | Some t \<Rightarrow> Some t),
                    i_updated_at := clk env 2\<rparr>)
      in Inr (fetchone (sql_returning p f (inbox d)) \<noteq> None, update_inbox p f d))"

definition complete :: "env \<Rightarrow> inbox_lease \<Rightarrow> db \<Rightarrow> repo_error + (bool \<times> db)" where
  "complete env l d =
     (let p = (\<lambda>r. lease_fence l r \<and> lease_live (clk env 0) r
                 \<and> has_owner LEASE_OWNERSHIP_STATES d r);
          f = (\<lambda>r. r\<lparr>i_status := IS_COMPLETED, i_lease_owner := None, i_lease_until := None,
                    i_lease_session_id := None, i_safe_error_code := None,
                    i_safe_error_summary := None, i_updated_at := clk env 1\<rparr>)
      in case fetchone (sql_returning p f (inbox d)) of
           None \<Rightarrow> Inr (False, update_inbox p f d)
         | Some r \<Rightarrow>
             and_then (append_audit env (uuid4 env 0) (l_id l) (i_account_id r)
               (lit ''ingress.completed'') (lit ''completed'') (lit ''inbox.completed'')
               (i_attempts r)
               (JObj [(lit ''attempts'', JInt (i_attempts r)),
                      (lit ''status'', JStr (lit ''completed''))])
               (update_inbox p f d)) (\<lambda>d'. Inr (True, d')))"

section \<open>Failure of a leased row\<close>

text \<open>
  The columns a failure, a lost lease or a recovery writes: the lease goes, the attempts and
  the error are recorded, and only a retry moves \<^verbatim>\<open>available_at\<close>.
\<close>

definition fail_row ::
  "inbox_status \<Rightarrow> int \<Rightarrow> int \<Rightarrow> pystr option \<Rightarrow> pystr option \<Rightarrow> time \<Rightarrow> time
   \<Rightarrow> inbox_row \<Rightarrow> inbox_row" where
  "fail_row status attempts backoff code summary available_now updated_now r =
     r\<lparr>i_status := status, i_lease_owner := None, i_lease_until := None,
       i_lease_session_id := None, i_attempts := attempts,
       i_available_at := (if status = IS_RETRY_WAIT then available_now + seconds backoff
                          else i_available_at r),
       i_safe_error_code := code, i_safe_error_summary := summary,
       i_updated_at := updated_now\<rparr>"

definition failure_audit_metadata :: "int \<Rightarrow> failure_verdict \<Rightarrow> json" where
  "failure_audit_metadata attempts v =
     JObj [(lit ''attempts'', JInt attempts),
           (lit ''safe_error_code'', JStr (fd_safe_code v)),
           (lit ''status'', JStr (inbox_status_value (inbox_status_of (fd_status v))))]"

text \<open>The verdict of \<^verbatim>\<open>fail\<close> on a row with the given effect marker and attempts.\<close>

definition fail_verdict :: "worker_error \<Rightarrow> time option \<Rightarrow> int \<Rightarrow> failure_verdict" where
  "fail_verdict error effect attempts =
     (let v = (if effect \<noteq> None then EFFECT_UNKNOWN else failure_decision error)
      in if fd_status v = DS_RETRY_WAIT \<and> next_attempts attempts > MAX_RETRIES
         then demote v else v)"

definition fail ::
  "env \<Rightarrow> inbox_lease \<Rightarrow> worker_error \<Rightarrow> db \<Rightarrow> repo_error + (inbox_disposition \<times> db)" where
  "fail env l error d =
     and_then (some_or StaleFence (select_one (\<lambda>r. lease_fence l r \<and> lease_live (clk env 0) r
         \<and> has_owner LEASE_OWNERSHIP_STATES d r) (inbox d))) (\<lambda>selected.
       let new_attempts = next_attempts (i_attempts selected);
           v = fail_verdict error (i_effect_started_at selected) (i_attempts selected);
           backoff = (if fd_status v = DS_RETRY_WAIT then backoff_seconds (i_attempts selected)
                      else 0);
           p = (\<lambda>r. lease_fence l r \<and> i_effect_started_at r = i_effect_started_at selected
                  \<and> lease_live (clk env 1) r \<and> has_owner LEASE_OWNERSHIP_STATES d r);
           f = fail_row (inbox_status_of (fd_status v)) new_attempts backoff
                 (Some (fd_safe_code v)) (Some (fd_safe_summary v)) (clk env 2) (clk env 3)
       in and_then (some_or StaleFence (fetchone (sql_returning p f (inbox d)))) (\<lambda>updated.
          and_then
            (if fd_status v \<noteq> DS_RETRY_WAIT then
               append_audit env (uuid4 env 0) (l_id l) (l_account_id l) (terminal_action v)
                 (inbox_status_value (inbox_status_of (fd_status v))) (fd_safe_code v)
                 new_attempts (failure_audit_metadata new_attempts v) (update_inbox p f d)
             else Inr (update_inbox p f d)) (\<lambda>d'.
          case InboxDisposition \<lparr>d_status = fd_status v, d_attempts = i_attempts updated,
                 d_available_at = (if fd_status v = DS_RETRY_WAIT
                    then Some (i_available_at updated) else None),
                 d_safe_error_code = fd_safe_code v\<rparr> of
            Inl e \<Rightarrow> Inl (RepoValueError ''InboxDisposition'')
          | Inr disposition \<Rightarrow> Inr (disposition, d'))))"

section \<open>Statistics\<close>

definition count_status :: "inbox_status \<Rightarrow> db \<Rightarrow> int" where
  "count_status st d = int (length (filter (\<lambda>r. i_status r = st) (inbox d)))"

text \<open>\<^verbatim>\<open>COALESCE(GREATEST(EXTRACT(epoch FROM now - min(received_at)), 0), 0)\<close>.\<close>

definition oldest_pending_seconds :: "time \<Rightarrow> db \<Rightarrow> rat" where
  "oldest_pending_seconds now d =
     (case map i_received_at (filter (\<lambda>r. i_status r = IS_PENDING \<or> i_status r = IS_RETRY_WAIT)
             (inbox d)) of
        [] \<Rightarrow> 0
      | t # ts \<Rightarrow> max 0 (of_int (now - fold min ts t) / 1000000))"

definition stats :: "env \<Rightarrow> db \<Rightarrow> repo_error + (inbox_stats \<times> db)" where
  "stats env d =
     (case InboxStats \<lparr>st_pending = count_status IS_PENDING d,
             st_retry_wait = count_status IS_RETRY_WAIT d,
             st_leased = count_status IS_LEASED d,
             st_dead_letter = count_status IS_DEAD_LETTER d,
             st_manual_review = count_status IS_MANUAL_REVIEW d,
             st_oldest_pending_seconds = oldest_pending_seconds (clk env 0) d\<rparr> of
        Inl e \<Rightarrow> Inl (RepoValueError ''InboxStats'')
      | Inr s \<Rightarrow> Inr (s, d))"

end
