(* ===== verification/IntakeGuard.thy ===== *)
theory IntakeGuard
  imports InboxModels
begin

text \<open>
  \<^verbatim>\<open>src/intake_guard/policy.py\<close>: the conservative decision made on an email before any
  content, index or model effect. The email is its JSON value. What the module takes from
  the library is a parameter: SHA-256, the text of a float, \<^verbatim>\<open>str.lower\<close>, and the
  representative of a code point's case class under \<^verbatim>\<open>re.IGNORECASE\<close>.
\<close>

datatype intake_disposition = PASS | SUPPRESS | QUARANTINE

fun intake_disposition_value :: "intake_disposition \<Rightarrow> pystr" where
  "intake_disposition_value PASS = lit ''pass''"
| "intake_disposition_value SUPPRESS = lit ''suppress''"
| "intake_disposition_value QUARANTINE = lit ''quarantine''"

definition POLICY_VERSION :: pystr where
  "POLICY_VERSION = lit ''intake-guard-v1''"

record intake_decision =
  id_policy_version :: pystr
  id_reason_code :: pystr
  id_snapshot_digest :: pystr
  id_disposition :: intake_disposition
  id_mark_read :: bool
  id_index_in_qdrant :: bool

text \<open>\<^verbatim>\<open>[a-z][a-z0-9_]{0,63}\<close>, matched in full.\<close>

definition is_reason_code :: "pystr \<Rightarrow> bool" where
  "is_reason_code s =
     (case s of
        [] \<Rightarrow> False
      | c # cs \<Rightarrow> 97 \<le> c \<and> c \<le> 122 \<and> length cs \<le> 63
          \<and> list_all (\<lambda>d. 97 \<le> d \<and> d \<le> 122 \<or> 48 \<le> d \<and> d \<le> 57 \<or> d = 95) cs)"

definition IntakeDecision :: "intake_decision \<Rightarrow> invalid_value + intake_decision" where
  "IntakeDecision d = require
     [(''policy_version'', id_policy_version d = POLICY_VERSION),
      (''reason_code'', is_reason_code (id_reason_code d)),
      (''message_snapshot_digest'', is_sha256_hex (id_snapshot_digest d)),
      (''index_in_qdrant'', \<not> (id_disposition d \<noteq> PASS \<and> id_index_in_qdrant d))] d"

definition audit_metadata :: "intake_decision \<Rightarrow> json" where
  "audit_metadata d = JObj
     [(lit ''policy_version'', JStr (id_policy_version d)),
      (lit ''reason_code'', JStr (id_reason_code d)),
      (lit ''message_snapshot_digest'', JStr (id_snapshot_digest d)),
      (lit ''disposition'', JStr (intake_disposition_value (id_disposition d))),
      (lit ''mark_read'', JBool (id_mark_read d)),
      (lit ''index_in_qdrant'', JBool (id_index_in_qdrant d))]"

section \<open>The snapshot digest\<close>

record guard_env =
  g_sha256 :: "pybytes \<Rightarrow> pystr"
  g_float_text :: "rat \<Rightarrow> pystr"
  g_lower :: "pystr \<Rightarrow> pystr"
  g_ignore_case :: "nat \<Rightarrow> nat"

text \<open>
  \<^verbatim>\<open>_snapshot_digest\<close>: text that UTF-8 cannot encode is replaced by the name of the
  snapshot's type.
\<close>

fun json_type_name :: "json \<Rightarrow> pystr" where
  "json_type_name JNull = lit ''NoneType''"
| "json_type_name (JBool b) = lit ''bool''"
| "json_type_name (JInt i) = lit ''int''"
| "json_type_name (JFloat q) = lit ''float''"
| "json_type_name (JStr s) = lit ''str''"
| "json_type_name (JArr xs) = lit ''list''"
| "json_type_name (JObj l) = lit ''dict''"

definition snapshot_digest :: "guard_env \<Rightarrow> json \<Rightarrow> pystr" where
  "snapshot_digest g j =
     g_sha256 g (case utf8_encode (json_dumps (compact_format False (g_float_text g)) j) of
        Some encoded \<Rightarrow> encoded
      | None \<Rightarrow> json_dumps (compact_format True (g_float_text g))
          (JObj [(lit ''invalid_snapshot_type'', JStr (json_type_name j))]))"

section \<open>The subject patterns\<close>

text \<open>
  The two patterns are alternations of literals; \<^verbatim>\<open>auto(?:matic)?[- ]?reply\<close> is the six
  literals it stands for. A search ignores case.
\<close>

definition AUTO_REPLY :: "pystr list" where
  "AUTO_REPLY =
     [lit ''automatic reply'', lit ''autoreply'', lit ''auto-reply'', lit ''auto reply'',
      lit ''automaticreply'', lit ''automatic-reply'', lit ''out of office'',
      lit ''vacation reply'', [33258, 21160, 22238, 22797], [22806, 20986],
      [19981, 22312, 21150, 20844, 23460]]"

definition NDR :: "pystr list" where
  "NDR =
     [lit ''delivery status notification'', lit ''delivery has failed'', lit ''undeliverable'',
      lit ''mail delivery failed'', lit ''returned mail'', [26080, 27861, 36865, 36798],
      [25237, 36882, 22833, 36133]]"

definition pattern_search :: "guard_env \<Rightarrow> pystr list \<Rightarrow> pystr \<Rightarrow> bool" where
  "pattern_search g literals s =
     list_ex (\<lambda>p. py_contains (map (g_ignore_case g) p) (map (g_ignore_case g) s)) literals"

section \<open>Evaluation\<close>

definition guard_text :: "json \<Rightarrow> pystr option" where
  "guard_text j = (case j of JStr s \<Rightarrow> if 0 \<in> set s then None else Some s | _ \<Rightarrow> None)"

fun header_items :: "guard_env \<Rightarrow> (pystr \<times> json) list \<Rightarrow> (pystr \<times> pystr) list option" where
  "header_items g [] = Some []"
| "header_items g ((k, v) # l) =
     (case guard_text v of
        None \<Rightarrow> None
      | Some t \<Rightarrow> map_option (\<lambda>r. (g_lower g k, t) # r) (header_items g l))"

definition guard_headers :: "guard_env \<Rightarrow> json option \<Rightarrow> (pystr \<times> pystr) list option" where
  "guard_headers g j =
     (case j of
        None \<Rightarrow> Some []
      | Some JNull \<Rightarrow> Some []
      | Some (JObj l) \<Rightarrow> header_items g l
      | _ \<Rightarrow> None)"

text \<open>\<^verbatim>\<open>headers.get(name, "")\<close>: a header repeated in another case is the last one.\<close>

definition header :: "(pystr \<times> pystr) list \<Rightarrow> string \<Rightarrow> pystr" where
  "header hs name = (case map_of (rev hs) (lit name) of None \<Rightarrow> [] | Some v \<Rightarrow> v)"

definition decision :: "string \<Rightarrow> pystr \<Rightarrow> intake_disposition \<Rightarrow> intake_decision" where
  "decision why digest d = \<lparr>id_policy_version = POLICY_VERSION, id_reason_code = lit why,
     id_snapshot_digest = digest, id_disposition = d, id_mark_read = False,
     id_index_in_qdrant = (d = PASS)\<rparr>"

definition parse_email ::
  "guard_env \<Rightarrow> (pystr \<times> json) list \<Rightarrow> (pystr \<times> pystr \<times> (pystr \<times> pystr) list) option" where
  "parse_email g l =
     (let field = (\<lambda>k. case map_of l (lit k) of None \<Rightarrow> JStr [] | Some v \<Rightarrow> v) in
      case guard_text (field ''subject'') of
        None \<Rightarrow> None
      | Some subject \<Rightarrow>
          (case guard_text (field ''sender'') of
             None \<Rightarrow> None
           | Some sender \<Rightarrow>
               map_option (\<lambda>hs. (subject, sender, hs))
                 (guard_headers g (map_of l (lit ''headers'')))))"

definition classify ::
  "guard_env \<Rightarrow> pystr \<Rightarrow> pystr \<Rightarrow> pystr \<Rightarrow> (pystr \<times> pystr) list \<Rightarrow> intake_decision" where
  "classify g digest subject sender hs =
     (let lowered = (\<lambda>name. g_lower g (strip (header hs name)));
          sensitivity = lowered ''sensitivity'';
          auto_submitted = lowered ''auto-submitted'';
          precedence = lowered ''precedence''
      in if sensitivity \<noteq> [] \<and> sensitivity \<notin> {lit ''normal'', lit ''none''} then
           decision ''sensitive_message'' digest QUARANTINE
         else if strip (header hs ''x-ms-exchange-organization-confidentiality'') \<noteq> [] then
           decision ''confidential_message'' digest QUARANTINE
         else if pattern_search g NDR subject
             \<or> g_lower g sender \<in> {lit ''mailer-daemon'', lit ''postmaster''} then
           decision ''ndr_detected'' digest QUARANTINE
         else if (auto_submitted \<notin> {[], lit ''no''}
               \<and> (py_contains (lit ''auto-replied'') auto_submitted
                  \<or> pattern_search g AUTO_REPLY subject))
             \<or> pattern_search g AUTO_REPLY subject then
           decision ''automatic_reply'' digest SUPPRESS
         else if strip (header hs ''x-loop'') \<noteq> []
             \<or> lowered ''x-autoreply'' \<in> {lit ''yes'', lit ''true''}
             \<or> precedence \<in> {lit ''auto_reply'', lit ''autoreply''} then
           decision ''mail_loop'' digest SUPPRESS
         else decision ''accepted'' digest PASS)"

definition evaluate :: "guard_env \<Rightarrow> json \<Rightarrow> intake_decision" where
  "evaluate g email =
     (let digest = snapshot_digest g email in
      case email of
        JObj l \<Rightarrow>
          (case parse_email g l of
             None \<Rightarrow> decision ''detail_parse_error'' digest QUARANTINE
           | Some (subject, sender, hs) \<Rightarrow> classify g digest subject sender hs)
      | _ \<Rightarrow> decision ''detail_parse_error'' digest QUARANTINE)"

definition parsing_failure :: "guard_env \<Rightarrow> json \<Rightarrow> intake_decision" where
  "parsing_failure g snapshot =
     decision ''detail_parse_error'' (snapshot_digest g snapshot) QUARANTINE"

text \<open>\<^verbatim>\<open>release_quarantine\<close>: the digest a new attempt is requested for.\<close>

definition release_quarantine :: "intake_decision \<Rightarrow> invalid_value + pystr" where
  "release_quarantine d = require
     [(''disposition'', id_disposition d = QUARANTINE),
      (''source_decision_digest'', is_sha256_hex (id_snapshot_digest d))] (id_snapshot_digest d)"

section \<open>Correctness\<close>

lemma decision_accepted:
  assumes "is_sha256_hex digest" "is_reason_code (lit why)"
  shows "IntakeDecision (decision why digest d) = Inr (decision why digest d)"
  using assms by (simp add: IntakeDecision_def decision_def)

lemma reason_codes [simp]:
  "is_reason_code (lit ''detail_parse_error'')" "is_reason_code (lit ''sensitive_message'')"
  "is_reason_code (lit ''confidential_message'')" "is_reason_code (lit ''ndr_detected'')"
  "is_reason_code (lit ''automatic_reply'')" "is_reason_code (lit ''mail_loop'')"
  "is_reason_code (lit ''accepted'')"
  by (simp_all add: is_reason_code_def lit_def)

lemma decision_fields [simp]:
  "id_mark_read (decision why digest d) = False"
  "id_index_in_qdrant (decision why digest d) \<longleftrightarrow> d = PASS"
  "id_disposition (decision why digest d) = d"
  "id_snapshot_digest (decision why digest d) = digest"
  "id_reason_code (decision why digest d) = lit why"
  by (simp_all add: decision_def)

definition proper :: "pystr \<Rightarrow> intake_decision \<Rightarrow> bool" where
  "proper digest r = (\<exists>why d. r = decision why digest d \<and> is_reason_code (lit why))"

lemma proper_decision [intro]: "is_reason_code (lit why) \<Longrightarrow> proper digest (decision why digest d)"
  by (auto simp: proper_def)

lemma proper_if [intro]: "proper digest a \<Longrightarrow> proper digest b \<Longrightarrow> proper digest (if c then a else b)"
  by simp

lemma proper_classify [intro]: "proper digest (classify g digest subject sender hs)"
  unfolding classify_def Let_def by (intro proper_if proper_decision reason_codes)

lemma proper_evaluate: "proper (snapshot_digest g email) (evaluate g email)"
  by (auto simp: evaluate_def Let_def split: json.split option.split)

text \<open>The conditions under which an email may enter processing.\<close>

definition acceptable :: "guard_env \<Rightarrow> pystr \<Rightarrow> pystr \<Rightarrow> (pystr \<times> pystr) list \<Rightarrow> bool" where
  "acceptable g subject sender hs =
     (g_lower g (strip (header hs ''sensitivity'')) \<in> {[], lit ''normal'', lit ''none''}
      \<and> strip (header hs ''x-ms-exchange-organization-confidentiality'') = []
      \<and> \<not> pattern_search g NDR subject
      \<and> g_lower g sender \<notin> {lit ''mailer-daemon'', lit ''postmaster''}
      \<and> \<not> pattern_search g AUTO_REPLY subject
      \<and> (g_lower g (strip (header hs ''auto-submitted'')) \<in> {[], lit ''no''}
         \<or> \<not> py_contains (lit ''auto-replied'') (g_lower g (strip (header hs ''auto-submitted''))))
      \<and> strip (header hs ''x-loop'') = []
      \<and> g_lower g (strip (header hs ''x-autoreply'')) \<notin> {lit ''yes'', lit ''true''}
      \<and> g_lower g (strip (header hs ''precedence'')) \<notin> {lit ''auto_reply'', lit ''autoreply''})"

lemma classify_pass_iff:
  "id_disposition (classify g digest subject sender hs) = PASS \<longleftrightarrow> acceptable g subject sender hs"
  unfolding classify_def acceptable_def Let_def by (simp split: if_splits) blast

end
