(* ===== verification/Processing.thy ===== *)
theory Processing
  imports InboxStore IntakeGuard
begin

text \<open>
  \<^verbatim>\<open>src/ingestion/processing.py\<close>: the completion an adapter returns and the result the
  repository answers with, each restricted to the legal pairs; the scope every external
  effect is authorised under and the hash that names one effect; and the selector that hands
  a stamped lease to the one production adapter.
\<close>

datatype processing_outcome =
  PO_PROCESSED | PO_FAILED | PO_DUPLICATE | PO_ARCHIVED | PO_MANUAL_REVIEW

fun processing_outcome_value :: "processing_outcome \<Rightarrow> pystr" where
  "processing_outcome_value PO_PROCESSED = lit ''processed''"
| "processing_outcome_value PO_FAILED = lit ''failed''"
| "processing_outcome_value PO_DUPLICATE = lit ''duplicate''"
| "processing_outcome_value PO_ARCHIVED = lit ''archived''"
| "processing_outcome_value PO_MANUAL_REVIEW = lit ''manual_review''"

datatype external_effect_kind =
  EE_DETAIL | EE_CONTENT | EE_MODEL | EE_FEISHU | EE_EXCHANGE_MUTATION | EE_QDRANT

fun external_effect_kind_value :: "external_effect_kind \<Rightarrow> pystr" where
  "external_effect_kind_value EE_DETAIL = lit ''detail''"
| "external_effect_kind_value EE_CONTENT = lit ''content''"
| "external_effect_kind_value EE_MODEL = lit ''model''"
| "external_effect_kind_value EE_FEISHU = lit ''feishu''"
| "external_effect_kind_value EE_EXCHANGE_MUTATION = lit ''exchange_mutation''"
| "external_effect_kind_value EE_QDRANT = lit ''qdrant''"

definition GREENFIELD_PIPELINE_NAME :: pystr where
  "GREENFIELD_PIPELINE_NAME = lit ''durable_v1''"

definition EXECUTABLE_STATES :: "pipeline_generation_state list" where
  "EXECUTABLE_STATES = [CURRENT_INGRESS, QUIESCING, DRAINING]"

definition SUCCESS_PAIRS :: "(email_status \<times> processing_outcome) list" where
  "SUCCESS_PAIRS =
     [(ES_WAITING_APPROVAL, PO_PROCESSED), (ES_NOTIFIED_READONLY, PO_PROCESSED),
      (ES_NO_ACTION, PO_PROCESSED), (ES_ARCHIVED, PO_ARCHIVED),
      (ES_MANUAL_REVIEW, PO_MANUAL_REVIEW)]"

definition FINISH_PAIRS :: "(email_status \<times> inbox_status) list" where
  "FINISH_PAIRS =
     [(ES_WAITING_APPROVAL, IS_COMPLETED), (ES_NOTIFIED_READONLY, IS_COMPLETED),
      (ES_NO_ACTION, IS_COMPLETED), (ES_ARCHIVED, IS_COMPLETED),
      (ES_RETRY_WAIT, IS_RETRY_WAIT), (ES_MANUAL_REVIEW, IS_MANUAL_REVIEW),
      (ES_DEAD_LETTER, IS_DEAD_LETTER)]"

section \<open>Completions\<close>

record processing_completion =
  pc_target_status :: email_status
  pc_processing_outcome :: processing_outcome
  pc_safe_error_code :: "pystr option"
  pc_safe_error_summary :: "pystr option"
  pc_intake_decision :: "intake_decision option"

definition valid_some_text :: "nat \<Rightarrow> pystr option \<Rightarrow> bool" where
  "valid_some_text max_length t =
     (case t of None \<Rightarrow> False | Some s \<Rightarrow> valid_exact_text max_length s)"

definition ProcessingCompletion ::
  "processing_completion \<Rightarrow> invalid_value + processing_completion" where
  "ProcessingCompletion c = require
     [(''outcome mapping'',
       (pc_target_status c, pc_processing_outcome c) \<in> set SUCCESS_PAIRS),
      (''safe_error_code'', pc_target_status c = ES_MANUAL_REVIEW
         \<longrightarrow> valid_some_text 128 (pc_safe_error_code c)),
      (''safe_error_summary'', pc_target_status c = ES_MANUAL_REVIEW
         \<longrightarrow> valid_some_text 256 (pc_safe_error_summary c)),
      (''error'', pc_target_status c \<noteq> ES_MANUAL_REVIEW
         \<longrightarrow> pc_safe_error_code c = None \<and> pc_safe_error_summary c = None)] c"

definition success_completion ::
  "email_status \<Rightarrow> processing_outcome \<Rightarrow> intake_decision option \<Rightarrow> processing_completion" where
  "success_completion st outcome i = \<lparr>pc_target_status = st, pc_processing_outcome = outcome,
     pc_safe_error_code = None, pc_safe_error_summary = None, pc_intake_decision = i\<rparr>"

definition waiting_approval_completion :: processing_completion where
  "waiting_approval_completion = success_completion ES_WAITING_APPROVAL PO_PROCESSED None"

definition notified_readonly_completion :: processing_completion where
  "notified_readonly_completion = success_completion ES_NOTIFIED_READONLY PO_PROCESSED None"

definition no_action_completion :: "intake_decision option \<Rightarrow> processing_completion" where
  "no_action_completion i = success_completion ES_NO_ACTION PO_PROCESSED i"

definition archived_completion :: processing_completion where
  "archived_completion = success_completion ES_ARCHIVED PO_ARCHIVED None"

definition manual_review_completion :: "intake_decision option \<Rightarrow> processing_completion" where
  "manual_review_completion i =
     \<lparr>pc_target_status = ES_MANUAL_REVIEW, pc_processing_outcome = PO_MANUAL_REVIEW,
      pc_safe_error_code = Some (lit ''processing.manual_review''),
      pc_safe_error_summary = Some (lit ''Processing requires manual review''),
      pc_intake_decision = i\<rparr>"

record processing_finish_result =
  pf_email_status :: email_status
  pf_inbox_status :: inbox_status
  pf_replayed :: bool

definition ProcessingFinishResult ::
  "processing_finish_result \<Rightarrow> invalid_value + processing_finish_result" where
  "ProcessingFinishResult r = require
     [(''atomic pairing'', (pf_email_status r, pf_inbox_status r) \<in> set FINISH_PAIRS)] r"

section \<open>Effect scopes\<close>

record processing_effect_scope =
  ps_account_id :: int
  ps_inbox_id :: uuid
  ps_generation :: int
  ps_fencing_token :: int
  ps_attempts :: int
  ps_email_id :: uuid
  ps_expected_email_version :: int
  ps_event_dedupe_key :: pystr
  ps_external_email_id :: pystr
  ps_execution_epoch :: int
  ps_authority_epoch :: int
  ps_capability_hash :: pystr
  ps_lease_session_id :: uuid
  ps_lease_owner :: pystr

definition ProcessingEffectScope ::
  "processing_effect_scope \<Rightarrow> invalid_value + processing_effect_scope" where
  "ProcessingEffectScope s = require
     [(''account_id'', valid_int 1 (ps_account_id s)),
      (''generation'', valid_int 1 (ps_generation s)),
      (''fencing_token'', valid_int 1 (ps_fencing_token s)),
      (''attempts'', valid_int 0 (ps_attempts s)),
      (''expected_email_version'', valid_int 0 (ps_expected_email_version s)),
      (''event_dedupe_key'', is_sha256_hex (ps_event_dedupe_key s)),
      (''external_email_id'', valid_exact_text 1024 (ps_external_email_id s)),
      (''execution_epoch'', valid_int 0 (ps_execution_epoch s)),
      (''authority_epoch'', valid_int 1 (ps_authority_epoch s)),
      (''capability_hash'', is_sha256_hex (ps_capability_hash s)),
      (''lease_owner'', valid_exact_text 128 (ps_lease_owner s))] s"

definition scope_from_processing ::
  "inbox_lease \<Rightarrow> email_event_application \<Rightarrow> invalid_value + processing_effect_scope" where
  "scope_from_processing l a = ProcessingEffectScope
     \<lparr>ps_account_id = l_account_id l, ps_inbox_id = l_id l, ps_generation = l_generation l,
      ps_fencing_token = l_fencing_token l, ps_attempts = l_attempts l,
      ps_email_id = ea_email_id a, ps_expected_email_version = ea_version a,
      ps_event_dedupe_key = ev_dedupe_key (l_event l),
      ps_external_email_id = ev_external_email_id (l_event l),
      ps_execution_epoch = l_execution_epoch l, ps_authority_epoch = l_authority_epoch l,
      ps_capability_hash = l_capability_hash l, ps_lease_session_id = l_lease_session_id l,
      ps_lease_owner = l_lease_owner l\<rparr>"

definition effect_target_json ::
  "processing_effect_scope \<Rightarrow> external_effect_kind \<Rightarrow> int \<Rightarrow> json \<Rightarrow> json" where
  "effect_target_json s kind ordinal target = JObj
     [(lit ''schema_version'', JInt 1),
      (lit ''account_id'', JInt (ps_account_id s)),
      (lit ''inbox_id'', JStr (ps_inbox_id s)),
      (lit ''generation'', JInt (ps_generation s)),
      (lit ''fencing_token'', JInt (ps_fencing_token s)),
      (lit ''attempts'', JInt (ps_attempts s)),
      (lit ''email_id'', JStr (ps_email_id s)),
      (lit ''expected_email_version'', JInt (ps_expected_email_version s)),
      (lit ''event_dedupe_key'', JStr (ps_event_dedupe_key s)),
      (lit ''external_email_id'', JStr (ps_external_email_id s)),
      (lit ''execution_epoch'', JInt (ps_execution_epoch s)),
      (lit ''authority_epoch'', JInt (ps_authority_epoch s)),
      (lit ''capability_hash'', JStr (ps_capability_hash s)),
      (lit ''lease_session_id'', JStr (ps_lease_session_id s)),
      (lit ''lease_owner'', JStr (ps_lease_owner s)),
      (lit ''kind'', JStr (external_effect_kind_value kind)),
      (lit ''ordinal'', JInt ordinal),
      (lit ''target'', target)]"

definition target_hash ::
  "env \<Rightarrow> processing_effect_scope \<Rightarrow> external_effect_kind \<Rightarrow> int \<Rightarrow> json
   \<Rightarrow> invalid_value + pystr" where
  "target_hash env s kind ordinal target =
     (if \<not> valid_int 0 ordinal then Inl (Invalid ''ordinal'')
      else case utf8_encode (json_dumps (compact_format False (python_float (texts env)))
             (effect_target_json s kind ordinal target)) of
        None \<Rightarrow> Inl (Invalid ''target'')
      | Some encoded \<Rightarrow> Inr (sha256 env encoded))"

section \<open>Adapter selection\<close>

text \<open>
  The registry holds exactly the production pipeline's adapter; \<open>None\<close> is
  \<^verbatim>\<open>ProcessingAdapterUnavailable\<close>.
\<close>

definition select_adapter :: "'a \<Rightarrow> inbox_lease \<Rightarrow> pipeline_generation \<Rightarrow> 'a option" where
  "select_adapter adapter l authority =
     (let exact = pg_account_id authority = l_account_id l
            \<and> pg_generation authority = l_generation l
            \<and> pg_pipeline_name authority = l_pipeline_name l
            \<and> pg_fencing_token authority = l_fencing_token l
            \<and> pg_state authority \<in> set EXECUTABLE_STATES
      in if \<not> exact \<or> l_pipeline_name l \<noteq> GREENFIELD_PIPELINE_NAME then None
         else Some adapter)"

lemma classmethod_completions [simp]:
  "ProcessingCompletion waiting_approval_completion = Inr waiting_approval_completion"
  "ProcessingCompletion notified_readonly_completion = Inr notified_readonly_completion"
  "ProcessingCompletion (no_action_completion i) = Inr (no_action_completion i)"
  "ProcessingCompletion archived_completion = Inr archived_completion"
  by (simp_all add: ProcessingCompletion_def waiting_approval_completion_def SUCCESS_PAIRS_def
    notified_readonly_completion_def no_action_completion_def archived_completion_def
    success_completion_def)

lemma manual_review_completion_valid [simp]:
  "ProcessingCompletion (manual_review_completion i) = Inr (manual_review_completion i)"
  by (simp add: ProcessingCompletion_def manual_review_completion_def SUCCESS_PAIRS_def
    valid_some_text_def valid_exact_text_def lit_def strip_def lstrip_def py_isspace_def
    utf8_ok_def is_surrogate_def)

end
