(* ===== verification/InboxProcessing.thy ===== *)
theory InboxProcessing
  imports InboxLeases Processing
begin

text \<open>
  The processing half of \<^verbatim>\<open>src/ingestion/repository.py\<close>: applying one leased event to its
  email aggregate (\<^verbatim>\<open>EmailEventTransaction.apply_email_event\<close> with the statements it is made
  of), authorising an external effect, and the two ways a processing attempt ends.
\<close>

section \<open>Locking and loading\<close>

definition lock_processing_email ::
  "inbox_lease \<Rightarrow> uuid \<Rightarrow> db \<Rightarrow> repo_error + email_row option" where
  "lock_processing_email l email_id d =
     (case select_one (\<lambda>e. e_account_id e = l_account_id l \<and> e_id e = email_id) (emails d) of
        None \<Rightarrow> Inr None
      | Some row \<Rightarrow> and_then (email_from_row row) (\<lambda>email.
          and_then (ensure (e_external_email_id email = ev_external_email_id (l_event l))
            ProcessingCompletionRejected) (\<lambda>_. Inr (Some email))))"

text \<open>\<^verbatim>\<open>(account_id, generation)\<close> is the primary key of \<^verbatim>\<open>pipeline_ownership\<close>.\<close>

definition ownership_generation :: "int \<Rightarrow> int \<Rightarrow> db \<Rightarrow> ownership_row option" where
  "ownership_generation account_id generation d =
     select_one (\<lambda>p. o_account_id p = account_id \<and> o_generation p = generation) (ownership d)"

definition incoming_matches :: "inbox_lease \<Rightarrow> ownership_row \<Rightarrow> bool" where
  "incoming_matches l p =
     (o_account_id p = l_account_id l \<and> o_pipeline_name p = l_pipeline_name l
      \<and> o_fencing_token p = l_fencing_token l)"

definition sticky_matches :: "email_row \<Rightarrow> ownership_row \<Rightarrow> bool" where
  "sticky_matches e p =
     (o_account_id p = e_account_id e \<and> o_fencing_token p = e_owner_fencing_token e)"

definition lock_processing_ownership ::
  "email_row option \<Rightarrow> inbox_lease \<Rightarrow> bool \<Rightarrow> db \<Rightarrow> repo_error + pipeline_generation_state" where
  "lock_processing_ownership email l require_executable d =
     and_then (some_or ProcessingCompletionRejected
       (ownership_generation (l_account_id l) (l_generation l) d)) (\<lambda>incoming.
     and_then (case email of
         None \<Rightarrow> Inr incoming
       | Some e \<Rightarrow> some_or ProcessingCompletionRejected
           (ownership_generation (l_account_id l) (e_owner_generation e) d)) (\<lambda>sticky.
     and_then (ensure (incoming_matches l incoming
         \<and> (require_executable \<longrightarrow> o_state incoming \<in> set LEASE_OWNERSHIP_STATES))
       ProcessingCompletionRejected) (\<lambda>_.
     and_then (ensure (case email of None \<Rightarrow> True | Some e \<Rightarrow> sticky_matches e sticky)
       ProcessingCompletionRejected) (\<lambda>_.
     Inr (o_state incoming)))))"

record processing_inbox_row =
  pi_status :: inbox_status
  pi_lease :: "inbox_lease option"
  pi_effect_started_at :: "time option"
  pi_attempts :: int
  pi_account_id :: int
  pi_external_email_id :: pystr
  pi_generation :: int
  pi_fencing_token :: int
  pi_lease_active :: bool
  pi_safe_error_code :: "pystr option"
  pi_safe_error_summary :: "pystr option"

text \<open>
  The row both lock statements build; they differ in how the lease of a leased row is read
  and in the check on attempts.
\<close>

definition processing_inbox_row ::
  "time \<Rightarrow> inbox_row \<Rightarrow> inbox_lease option \<Rightarrow> processing_inbox_row" where
  "processing_inbox_row now r lease = \<lparr>pi_status = i_status r, pi_lease = lease,
     pi_effect_started_at = i_effect_started_at r, pi_attempts = i_attempts r,
     pi_account_id = i_account_id r, pi_external_email_id = i_external_email_id r,
     pi_generation = i_generation r, pi_fencing_token = i_fencing_token r,
     pi_lease_active = lease_live now r, pi_safe_error_code = i_safe_error_code r,
     pi_safe_error_summary = i_safe_error_summary r\<rparr>"

definition lock_processing_inbox ::
  "env \<Rightarrow> time \<Rightarrow> inbox_lease \<Rightarrow> db \<Rightarrow> repo_error + processing_inbox_row option" where
  "lock_processing_inbox env now l d =
     (case select_one (\<lambda>r. i_id r = l_id l) (inbox d) of
        None \<Rightarrow> Inr None
      | Some r \<Rightarrow>
          and_then (ensure (0 \<le> i_attempts r) invariant_error) (\<lambda>_.
          if i_status r = IS_LEASED
          then and_then (lease_from_row env r) (\<lambda>persisted.
                 Inr (Some (processing_inbox_row now r (Some persisted))))
          else Inr (Some (processing_inbox_row now r None))))"

definition lock_expired_inbox ::
  "env \<Rightarrow> time \<Rightarrow> inbox_lease \<Rightarrow> db \<Rightarrow> repo_error + processing_inbox_row option" where
  "lock_expired_inbox env now l d =
     (case select_one (\<lambda>r. i_id r = l_id l \<and> \<not> inbox_locked env (i_id r)) (inbox d) of
        None \<Rightarrow> Inr None
      | Some r \<Rightarrow>
          if i_status r = IS_LEASED
          then and_then (expired_candidate_from_row env r) (\<lambda>persisted.
                 Inr (Some (processing_inbox_row now r (Some persisted))))
          else Inr (Some (processing_inbox_row now r None)))"

section \<open>The processing attempt receipt\<close>

definition attempt_metadata :: "inbox_lease \<Rightarrow> json" where
  "attempt_metadata l = JObj
     [(lit ''execution_epoch'', JInt (l_execution_epoch l)),
      (lit ''authority_epoch'', JInt (l_authority_epoch l)),
      (lit ''capability_hash'', JStr (l_capability_hash l)),
      (lit ''lease_session_id'', JStr (l_lease_session_id l)),
      (lit ''attempts'', JInt (l_attempts l)),
      (lit ''generation'', JInt (l_generation l)),
      (lit ''fencing_token'', JInt (l_fencing_token l))]"

definition attempt_receipt :: "env \<Rightarrow> uuid \<Rightarrow> email_row \<Rightarrow> inbox_lease \<Rightarrow> audit_row" where
  "attempt_receipt env fresh e l =
     \<lparr>a_id = fresh,
      a_event_key = processing_attempt_event_key env (l_id l) (l_execution_epoch l) (l_attempts l),
      a_account_id = e_account_id e, a_email_id = Some (e_id e),
      a_object_type = lit ''email_processing_attempt'',
      a_object_fingerprint = processing_attempt_fingerprint env (e_id e) (l_id l),
      a_action = lit ''email.processing_attempt'', a_result = lit ''authorized'',
      a_actor = AUDIT_ACTOR, a_reason = lit ''email.processing_attempt_authorized'',
      a_safe_metadata = attempt_metadata l\<rparr>"

text \<open>A stored receipt agrees with the expected one: columns exactly, metadata by JSON value.\<close>

definition receipt_agrees :: "audit_row \<Rightarrow> audit_row \<Rightarrow> bool" where
  "receipt_agrees stored expected =
     (a_event_key stored = a_event_key expected \<and> a_account_id stored = a_account_id expected
      \<and> a_email_id stored = a_email_id expected \<and> a_object_type stored = a_object_type expected
      \<and> a_object_fingerprint stored = a_object_fingerprint expected
      \<and> a_action stored = a_action expected \<and> a_result stored = a_result expected
      \<and> a_actor stored = a_actor expected \<and> a_reason stored = a_reason expected
      \<and> json_values_equal (a_safe_metadata stored) (a_safe_metadata expected))"

definition load_processing_attempt ::
  "env \<Rightarrow> email_row \<Rightarrow> inbox_lease \<Rightarrow> db \<Rightarrow> repo_error + bool" where
  "load_processing_attempt env e l d =
     (let expected = attempt_receipt env [] e l in
      case audit_with_key (a_event_key expected) d of
        None \<Rightarrow> Inr False
      | Some stored \<Rightarrow>
          and_then (ensure (receipt_agrees stored expected) invariant_error) (\<lambda>_. Inr True))"

definition elect_processing_attempt ::
  "env \<Rightarrow> uuid \<Rightarrow> email_row \<Rightarrow> inbox_lease \<Rightarrow> db \<Rightarrow> repo_error + (bool \<times> db)" where
  "elect_processing_attempt env fresh_id e l d =
     (let row = attempt_receipt env fresh_id e l;
          fresh = audit_with_key (a_event_key row) d = None;
          d' = insert_audit row d
      in and_then (load_processing_attempt env e l d') (\<lambda>present.
         and_then (ensure present invariant_error) (\<lambda>_. Inr (fresh, d'))))"

section \<open>The email aggregate\<close>

definition neutral_shell :: "env \<Rightarrow> inbox_lease \<Rightarrow> email_row" where
  "neutral_shell env l =
     \<lparr>e_id = uuid4 env 0, e_account_id = l_account_id l,
      e_external_email_id = ev_external_email_id (l_event l),
      e_source_folder_key = ev_folder (l_event l), e_status = ES_INGESTED, e_version = 0,
      e_owner_generation = l_generation l, e_owner_fencing_token = l_fencing_token l,
      e_owner_authority_epoch = l_authority_epoch l,
      e_owner_capability_hash = l_capability_hash l, e_processing_inbox_id = None,
      e_processing_execution_epoch = None, e_create_seen_at = None,
      e_processing_started_at = None, e_source_deleted_at = None,
      e_external_effects_started_at = None, e_safe_error_code = None,
      e_safe_error_summary = None, e_is_read = source_is_read (l_event l),
      e_is_read_refresh_required = (source_is_read (l_event l) = None),
      e_updated_at = clk env 0\<rparr>"

text \<open>
  \<^verbatim>\<open>_insert_neutral_shell\<close>: a conflict on (account, external id) inserts nothing; a row whose
  owner is not in \<^verbatim>\<open>pipeline_ownership\<close> violates \<^verbatim>\<open>fk_emails_pipeline_ownership\<close>.
\<close>

definition same_email :: "inbox_lease \<Rightarrow> email_row \<Rightarrow> bool" where
  "same_email l e =
     (e_account_id e = l_account_id l
      \<and> e_external_email_id e = ev_external_email_id (l_event l))"

definition insert_neutral_shell :: "env \<Rightarrow> inbox_lease \<Rightarrow> db \<Rightarrow> repo_error + (bool \<times> db)" where
  "insert_neutral_shell env l d =
     (if list_ex (same_email l) (emails d) then Inr (False, d)
      else and_then (ensure (list_ex (\<lambda>p. o_account_id p = l_account_id l
               \<and> o_generation p = l_generation l \<and> o_fencing_token p = l_fencing_token l)
             (ownership d)) StaleFence)
           (\<lambda>_. Inr (True, d\<lparr>emails := emails d @ [neutral_shell env l]\<rparr>)))"

definition lock_email :: "inbox_lease \<Rightarrow> db \<Rightarrow> repo_error + email_row" where
  "lock_email l d = and_then (some_or invariant_error (select_one (same_email l) (emails d)))
     email_from_row"

definition lock_ownership ::
  "email_row \<Rightarrow> inbox_lease \<Rightarrow> db \<Rightarrow> repo_error + pipeline_generation_state" where
  "lock_ownership e l d =
     and_then (some_or StaleFence (ownership_generation (l_account_id l) (l_generation l) d))
       (\<lambda>incoming.
     and_then (some_or StaleFence
       (ownership_generation (l_account_id l) (e_owner_generation e) d)) (\<lambda>sticky.
     and_then (ensure (incoming_matches l incoming
         \<and> o_state incoming \<in> set LEASE_OWNERSHIP_STATES) StaleFence) (\<lambda>_.
     and_then (ensure (sticky_matches e sticky) StaleFence) (\<lambda>_.
     Inr (o_state sticky)))))"

definition lock_exact_lease :: "env \<Rightarrow> time \<Rightarrow> inbox_lease \<Rightarrow> db \<Rightarrow> repo_error + unit" where
  "lock_exact_lease env now l d =
     and_then (some_or StaleFence (select_one (\<lambda>r. i_id r = l_id l) (inbox d))) (\<lambda>r.
     and_then (ensure (i_status r = IS_LEASED \<and> lease_live now r) StaleFence) (\<lambda>_.
     and_then (lease_from_row env r) (\<lambda>persisted.
     ensure (leases_equal persisted l) StaleFence)))"

text \<open>\<^verbatim>\<open>UPDATE emails AS e ... WHERE e.id = %s AND e.version = %s AND e.version < %s\<close>.\<close>

definition email_cas :: "email_row \<Rightarrow> email_row \<Rightarrow> bool" where
  "email_cas e r = (e_id r = e_id e \<and> e_version r = e_version e \<and> e_version r < POSTGRES_BIGINT_MAX)"

definition cas_update ::
  "(email_row \<Rightarrow> bool) \<Rightarrow> (email_row \<Rightarrow> email_row) \<Rightarrow> db \<Rightarrow> repo_error + (email_row \<times> db)" where
  "cas_update p f d =
     and_then (some_or invariant_error (fetchone (sql_returning p f (emails d)))) (\<lambda>row.
     and_then (email_from_row row) (\<lambda>e. Inr (e, update_emails p f d)))"

text \<open>The read projection a processing event leaves: it never overwrites, it asks for a refresh.\<close>

definition enter_read_projection ::
  "email_row \<Rightarrow> ingress_event \<Rightarrow> bool \<Rightarrow> bool option \<times> bool" where
  "enter_read_projection e ev inserted =
     (if inserted then (e_is_read e, e_is_read_refresh_required e)
      else
        let incoming = source_is_read ev;
            refresh = (if ev_folder ev \<noteq> e_source_folder_key e then True
                       else e_is_read_refresh_required e)
        in if incoming = None then (e_is_read e, True)
           else if e_is_read e = None then (incoming, refresh)
           else if incoming \<noteq> e_is_read e then (e_is_read e, True)
           else (e_is_read e, refresh))"

definition processing_row ::
  "env \<Rightarrow> inbox_lease \<Rightarrow> pystr \<Rightarrow> bool option \<times> bool \<Rightarrow> email_row \<Rightarrow> email_row" where
  "processing_row env l folder projection r =
     r\<lparr>e_status := ES_PROCESSING, e_version := e_version r + 1,
       e_processing_inbox_id := (case e_processing_inbox_id r of
          None \<Rightarrow> Some (l_id l) | Some i \<Rightarrow> Some i),
       e_processing_execution_epoch := (case e_processing_execution_epoch r of
          None \<Rightarrow> Some (l_execution_epoch l) | Some n \<Rightarrow> Some n),
       e_create_seen_at := (case e_create_seen_at r of
          None \<Rightarrow> Some (clk env 2) | Some t \<Rightarrow> Some t),
       e_processing_started_at := (case e_processing_started_at r of
          None \<Rightarrow> Some (clk env 3) | Some t \<Rightarrow> Some t),
       e_safe_error_code := None, e_safe_error_summary := None,
       e_source_folder_key := folder, e_is_read := fst projection,
       e_is_read_refresh_required := snd projection, e_updated_at := clk env 4\<rparr>"

definition enter_processing ::
  "env \<Rightarrow> email_row \<Rightarrow> inbox_lease \<Rightarrow> bool \<Rightarrow> db \<Rightarrow> repo_error + (email_row \<times> db)" where
  "enter_processing env e l inserted d =
     cas_update (email_cas e)
       (processing_row env l (e_source_folder_key e)
          (enter_read_projection e (l_event l) inserted)) d"

definition deleted_row :: "env \<Rightarrow> email_event_decision \<Rightarrow> email_row \<Rightarrow> email_row" where
  "deleted_row env dec r =
     (let clears = (new_status dec = ES_CANCELLED) in
      r\<lparr>e_status := new_status dec, e_version := e_version r + 1,
        e_source_deleted_at := (case e_source_deleted_at r of
           None \<Rightarrow> Some (clk env 2) | Some t \<Rightarrow> Some t),
        e_processing_inbox_id := (if clears then None else e_processing_inbox_id r),
        e_processing_execution_epoch := (if clears then None else e_processing_execution_epoch r),
        e_safe_error_code := (if clears then None else e_safe_error_code r),
        e_safe_error_summary := (if clears then None else e_safe_error_summary r),
        e_updated_at := clk env 3\<rparr>)"

definition record_source_delete ::
  "env \<Rightarrow> email_row \<Rightarrow> email_event_decision \<Rightarrow> db \<Rightarrow> repo_error + (email_row \<times> db)" where
  "record_source_delete env e dec d =
     and_then (ensure (e_version e < POSTGRES_BIGINT_MAX)
       (DatabaseOperationError ''email.version_exhausted'' False)) (\<lambda>_.
     cas_update (email_cas e) (deleted_row env dec) d)"

definition metadata_projection :: "email_row \<Rightarrow> ingress_event \<Rightarrow> bool option \<times> bool" where
  "metadata_projection e ev =
     (case source_is_read ev of
        None \<Rightarrow> (e_is_read e, True)
      | Some True \<Rightarrow> (Some True, e_is_read_refresh_required e)
      | Some False \<Rightarrow> (if e_is_read e = Some True then (Some True, True)
                       else (Some False, e_is_read_refresh_required e)))"

definition apply_metadata_projection ::
  "env \<Rightarrow> email_row \<Rightarrow> ingress_event \<Rightarrow> db \<Rightarrow> repo_error + ((email_row \<times> bool) \<times> db)" where
  "apply_metadata_projection env e ev d =
     (let projection = metadata_projection e ev;
          changed = ev_folder ev \<noteq> e_source_folder_key e \<or> fst projection \<noteq> e_is_read e
            \<or> snd projection \<noteq> e_is_read_refresh_required e
      in if \<not> changed then Inr ((e, False), d)
         else and_then (cas_update (\<lambda>r. e_id r = e_id e \<and> e_version r = e_version e)
                (\<lambda>r. r\<lparr>e_source_folder_key := ev_folder ev, e_is_read := fst projection,
                       e_is_read_refresh_required := snd projection,
                       e_updated_at := clk env 2\<rparr>) d)
              (\<lambda>(e', d'). Inr ((e', True), d')))"

section \<open>Applying an event\<close>

definition event_application ::
  "email_event_decision \<Rightarrow> email_row \<Rightarrow> email_event_disposition \<Rightarrow> bool
   \<Rightarrow> repo_error + email_event_application" where
  "event_application dec e disposition may_complete =
     (case EmailEventApplication \<lparr>ea_decision = dec, ea_email_id = e_id e,
             ea_persisted_status = e_status e, ea_version = e_version e,
             ea_disposition = disposition,
             ea_may_complete_without_processing = may_complete\<rparr> of
        Inl err \<Rightarrow> Inl (RepoValueError ''EmailEventApplication'')
      | Inr a \<Rightarrow> Inr a)"

definition event_decision ::
  "value_error + email_event_decision \<Rightarrow> repo_error + email_event_decision" where
  "event_decision r =
     (case r of Inl err \<Rightarrow> Inl (RepoValueError ''EmailEventDecision'') | Inr dec \<Rightarrow> Inr dec)"

definition already_elected :: "email_row \<Rightarrow> db \<Rightarrow> repo_error + (email_event_application \<times> db)" where
  "already_elected e d =
     and_then (event_decision (mk_decision False False ES_PROCESSING False True
       PROCESSING_ATTEMPT_ALREADY_ELECTED)) (\<lambda>dec.
     and_then (event_application dec e PROCESSING_ALREADY_ELECTED False) (\<lambda>a. Inr (a, d)))"

definition cross_generation :: "email_row \<Rightarrow> inbox_lease \<Rightarrow> bool" where
  "cross_generation e l =
     (e_owner_generation e \<noteq> l_generation l \<or> e_owner_fencing_token e \<noteq> l_fencing_token l
      \<or> e_owner_authority_epoch e \<noteq> l_authority_epoch l
      \<or> e_owner_capability_hash e \<noteq> l_capability_hash l)"

text \<open>The two ownership conflicts that need a human.\<close>

definition ownership_review ::
  "email_row \<Rightarrow> inbox_lease \<Rightarrow> pipeline_generation_state \<Rightarrow> repo_error + unit" where
  "ownership_review e l sticky_state =
     (if cross_generation e l \<and> ev_kind (l_event l) = CREATE \<and> e_create_seen_at e = None
         \<and> e_source_deleted_at e = None
         \<and> e_status e \<in> set RETIRED_BLOCKING_EMAIL_STATUSES
      then Inl (ManualReviewRequired ''email.sticky_owner_mismatch'')
      else if cross_generation e l \<and> ev_kind (l_event l) = DELETE \<and> sticky_state = RETIRED
         \<and> e_status e \<in> set RETIRED_BLOCKING_EMAIL_STATUSES
      then Inl (ManualReviewRequired ''email.retired_owner_unresolved'')
      else Inr ())"

definition decide_for ::
  "email_row \<Rightarrow> inbox_lease \<Rightarrow> bool \<Rightarrow> value_error + email_event_decision" where
  "decide_for e l inserted =
     decide_email_event (if inserted then None else Some (e_status e))
       (if inserted then False else e_create_seen_at e \<noteq> None) (ev_kind (l_event l))
       (source_is_read (l_event l))
       (\<not> inserted \<and> e_processing_inbox_id e = Some (l_id l)
          \<and> e_processing_execution_epoch e = Some (l_execution_epoch l))
       (\<not> inserted \<and> e_external_effects_started_at e \<noteq> None)
       (\<not> inserted \<and> e_source_deleted_at e \<noteq> None)"

text \<open>The branch that starts or resumes processing.\<close>

definition start_processing ::
  "env \<Rightarrow> email_row \<Rightarrow> inbox_lease \<Rightarrow> bool \<Rightarrow> email_event_decision \<Rightarrow> db
   \<Rightarrow> repo_error + (email_event_application \<times> db)" where
  "start_processing env e l inserted dec d =
     and_then (ensure (e_version e \<le> POSTGRES_BIGINT_MAX - 2)
       (DatabaseOperationError ''email.processing_version_exhausted'' False)) (\<lambda>_.
     and_then (elect_processing_attempt env (uuid4 env 1) e l d) (\<lambda>(fresh, d1).
     if \<not> fresh then
       and_then (ensure (e_status e = ES_PROCESSING) invariant_error) (\<lambda>_. already_elected e d1)
     else
       and_then (enter_processing env e l inserted d1) (\<lambda>(e', d2).
       and_then (event_application dec e'
         (if reason dec = FIRST_CREATE then CREATOR_ELECTED else D_PROCESSING_RESUMED) False)
         (\<lambda>a. Inr (a, d2)))))"

text \<open>The branch of a deletion.\<close>

definition apply_delete ::
  "env \<Rightarrow> email_row \<Rightarrow> bool \<Rightarrow> email_event_decision \<Rightarrow> db
   \<Rightarrow> repo_error + (email_event_application \<times> db)" where
  "apply_delete env e inserted dec d =
     (if e_source_deleted_at e = None then
        and_then (record_source_delete env e dec d) (\<lambda>(e', d').
        and_then (event_application dec e'
          (if inserted then TOMBSTONE_CREATED else AGGREGATE_UPDATED) True) (\<lambda>a. Inr (a, d')))
      else and_then (event_application dec e AGGREGATE_NOOP True) (\<lambda>a. Inr (a, d)))"

definition metadata_kind :: "change_kind \<Rightarrow> bool" where
  "metadata_kind k = (k = UPDATE \<or> k = READ)"

text \<open>What the event does to the locked aggregate once its decision is made.\<close>

definition perform_event ::
  "env \<Rightarrow> email_row \<Rightarrow> inbox_lease \<Rightarrow> bool \<Rightarrow> email_event_decision \<Rightarrow> db
   \<Rightarrow> repo_error + (email_event_application \<times> db)" where
  "perform_event env e l inserted dec d =
     (if should_process dec then start_processing env e l inserted dec d
      else if ev_kind (l_event l) = DELETE then apply_delete env e inserted dec d
      else if \<not> inserted \<and> metadata_kind (ev_kind (l_event l)) \<and> e_source_deleted_at e = None
      then
        and_then (apply_metadata_projection env e (l_event l) d) (\<lambda>((e', changed), d').
        and_then (event_application dec e'
          (if changed then AGGREGATE_UPDATED else AGGREGATE_NOOP) True) (\<lambda>a. Inr (a, d')))
      else
        and_then (event_application dec e
          (if inserted then
             (if metadata_kind (ev_kind (l_event l)) then METADATA_SHELL_CREATED
              else TOMBSTONE_CREATED)
           else AGGREGATE_NOOP) True) (\<lambda>a. Inr (a, d)))"

text \<open>A repeated CREATE of an attempt already elected is answered from its receipt.\<close>

definition dispatch_event ::
  "env \<Rightarrow> email_row \<Rightarrow> inbox_lease \<Rightarrow> bool \<Rightarrow> db \<Rightarrow> repo_error + (email_event_application \<times> db)" where
  "dispatch_event env e l inserted d =
     and_then (if \<not> inserted \<and> ev_kind (l_event l) = CREATE
               then load_processing_attempt env e l d else Inr False) (\<lambda>receipt_exists.
     if receipt_exists then
       and_then (ensure (e_status e = ES_PROCESSING \<and> e_processing_inbox_id e = Some (l_id l)
           \<and> e_processing_execution_epoch e = Some (l_execution_epoch l)) invariant_error)
         (\<lambda>_. already_elected e d)
     else
       and_then (event_decision (decide_for e l inserted)) (\<lambda>dec.
       perform_event env e l inserted dec d))"

definition apply_email_event ::
  "env \<Rightarrow> inbox_lease \<Rightarrow> db \<Rightarrow> repo_error + (email_event_application \<times> db)" where
  "apply_email_event env l d =
     and_then (insert_neutral_shell env l d) (\<lambda>(inserted, d0).
     and_then (lock_email l d0) (\<lambda>e.
     and_then (lock_ownership e l d0) (\<lambda>sticky_state.
     and_then (lock_exact_lease env (clk env 1) l d0) (\<lambda>_.
     and_then (ownership_review e l sticky_state) (\<lambda>_.
     dispatch_event env e l inserted d0)))))"

end
