(* ===== verification/InboxFinish.thy ===== *)
theory InboxFinish
  imports InboxProcessing
begin

text \<open>
  The guarded effect of a processing attempt and its two endings, from
  \<^verbatim>\<open>src/ingestion/repository.py\<close>: \<^verbatim>\<open>begin_processing_effect\<close>, \<^verbatim>\<open>finish_email_processing\<close>,
  \<^verbatim>\<open>finish_email_processing_failure\<close>, the immutable result receipt that makes an ending
  replayable, and the intake decision stored with it.
\<close>

section \<open>Resolutions\<close>

record processing_resolution =
  rs_email_status :: email_status
  rs_inbox_status :: inbox_status
  rs_safe_code :: "pystr option"
  rs_safe_summary :: "pystr option"
  rs_attempts :: int
  rs_available_in_seconds :: int

fun email_status_of :: "inbox_disposition_status \<Rightarrow> email_status" where
  "email_status_of DS_RETRY_WAIT = ES_RETRY_WAIT"
| "email_status_of DS_DEAD_LETTER = ES_DEAD_LETTER"
| "email_status_of DS_MANUAL_REVIEW = ES_MANUAL_REVIEW"

definition resolution_for_failure_decision ::
  "failure_verdict \<Rightarrow> inbox_lease \<Rightarrow> int \<Rightarrow> int option \<Rightarrow> processing_resolution" where
  "resolution_for_failure_decision v l expected_version hint =
     (let attempts = next_attempts (l_attempts l);
          capacity = attempts \<le> MAX_RETRIES \<and> expected_version + 1 \<le> POSTGRES_BIGINT_MAX - 2;
          w = (if fd_status v = DS_RETRY_WAIT \<and> \<not> capacity then demote v else v)
      in \<lparr>rs_email_status = email_status_of (fd_status w),
          rs_inbox_status = inbox_status_of (fd_status w),
          rs_safe_code = Some (fd_safe_code w), rs_safe_summary = Some (fd_safe_summary w),
          rs_attempts = attempts,
          rs_available_in_seconds =
            (if fd_status w = DS_RETRY_WAIT then
               (case hint of Some n \<Rightarrow> n | None \<Rightarrow> backoff_seconds (l_attempts l))
             else 0)\<rparr>)"

definition failure_resolution ::
  "worker_error \<Rightarrow> inbox_lease \<Rightarrow> email_row \<Rightarrow> processing_inbox_row \<Rightarrow> int
   \<Rightarrow> processing_resolution" where
  "failure_resolution error l e row expected_version =
     (let effect_started = pi_effect_started_at row \<noteq> None
            \<or> e_external_effects_started_at e \<noteq> None
      in resolution_for_failure_decision
           (if effect_started then EFFECT_UNKNOWN else failure_decision error) l expected_version
           (if effect_started then None else trusted_replay_safe_retry_hint error))"

text \<open>The resolution of \<^verbatim>\<open>finish_email_processing\<close>.\<close>

definition completion_resolution ::
  "inbox_lease \<Rightarrow> processing_completion \<Rightarrow> bool \<Rightarrow> int \<Rightarrow> processing_resolution" where
  "completion_resolution l c effect_started expected_version =
     (if pc_target_status c = ES_WAITING_APPROVAL \<and> expected_version \<ge> POSTGRES_BIGINT_MAX - 1
      then
        (if effect_started then
           \<lparr>rs_email_status = ES_MANUAL_REVIEW, rs_inbox_status = IS_MANUAL_REVIEW,
            rs_safe_code = Some (fd_safe_code EFFECT_UNKNOWN),
            rs_safe_summary = Some (fd_safe_summary EFFECT_UNKNOWN),
            rs_attempts = l_attempts l, rs_available_in_seconds = 0\<rparr>
         else
           \<lparr>rs_email_status = ES_DEAD_LETTER, rs_inbox_status = IS_DEAD_LETTER,
            rs_safe_code = Some (lit ''email.version_exhausted_before_nonterminal_completion''),
            rs_safe_summary = Some (lit ''Email processing version is exhausted''),
            rs_attempts = l_attempts l, rs_available_in_seconds = 0\<rparr>)
      else if pc_target_status c = ES_MANUAL_REVIEW then
        \<lparr>rs_email_status = ES_MANUAL_REVIEW, rs_inbox_status = IS_MANUAL_REVIEW,
         rs_safe_code = pc_safe_error_code c, rs_safe_summary = pc_safe_error_summary c,
         rs_attempts = l_attempts l, rs_available_in_seconds = 0\<rparr>
      else
        \<lparr>rs_email_status = pc_target_status c, rs_inbox_status = IS_COMPLETED,
         rs_safe_code = None, rs_safe_summary = None,
         rs_attempts = l_attempts l, rs_available_in_seconds = 0\<rparr>)"

section \<open>The result receipt\<close>

definition receipt_metadata ::
  "env \<Rightarrow> inbox_lease \<Rightarrow> int \<Rightarrow> pystr \<Rightarrow> processing_resolution \<Rightarrow> processing_completion option
   \<Rightarrow> json" where
  "receipt_metadata env l expected_version operation rs completion = JObj
     ([(lit ''execution_epoch'', JInt (l_execution_epoch l)),
       (lit ''authority_epoch'', JInt (l_authority_epoch l)),
       (lit ''capability_hash'', JStr (l_capability_hash l)),
       (lit ''lease_session_id'', JStr (l_lease_session_id l)),
       (lit ''attempts'', JInt (l_attempts l)),
       (lit ''generation'', JInt (l_generation l)),
       (lit ''fencing_token'', JInt (l_fencing_token l)),
       (lit ''lease_token_hash'', JStr (lease_token_hash env l)),
       (lit ''expected_email_version'', JInt expected_version),
       (lit ''operation'', JStr operation),
       (lit ''email_status'', JStr (email_status_value (rs_email_status rs))),
       (lit ''inbox_status'', JStr (inbox_status_value (rs_inbox_status rs))),
       (lit ''email_version'', JInt (min (expected_version + 1) POSTGRES_BIGINT_MAX)),
       (lit ''safe_error_code'', json_text (rs_safe_code rs))]
      @ (case completion of
           None \<Rightarrow> []
         | Some c \<Rightarrow>
             [(lit ''requested_email_status'', JStr (email_status_value (pc_target_status c))),
              (lit ''processing_outcome'',
               JStr (processing_outcome_value (pc_processing_outcome c))),
              (lit ''completion_safe_error_code'', json_text (pc_safe_error_code c)),
              (lit ''completion_safe_error_summary'', json_text (pc_safe_error_summary c))]))"

definition SUCCESS_OPERATION :: pystr where "SUCCESS_OPERATION = lit ''success''"
definition FAILURE_OPERATION :: pystr where "FAILURE_OPERATION = lit ''failure''"

definition result_receipt ::
  "env \<Rightarrow> uuid \<Rightarrow> inbox_lease \<Rightarrow> uuid \<Rightarrow> int \<Rightarrow> pystr \<Rightarrow> processing_resolution
   \<Rightarrow> processing_completion option \<Rightarrow> audit_row" where
  "result_receipt env fresh l email_id expected_version operation rs completion =
     \<lparr>a_id = fresh,
      a_event_key = processing_result_event_key env (l_id l) (l_execution_epoch l)
        (l_attempts l) operation,
      a_account_id = l_account_id l, a_email_id = Some email_id,
      a_object_type = lit ''email_processing_result'',
      a_object_fingerprint = processing_result_fingerprint env email_id (l_id l),
      a_action = (if operation = SUCCESS_OPERATION then lit ''email.processing_completed''
                  else lit ''email.processing_failed''),
      a_result = email_status_value (rs_email_status rs), a_actor = AUDIT_ACTOR,
      a_reason = (case rs_safe_code rs of
         Some code \<Rightarrow> if code = [] then lit ''email.processing_completed'' else code
       | None \<Rightarrow> lit ''email.processing_completed''),
      a_safe_metadata = receipt_metadata env l expected_version operation rs completion\<rparr>"

definition load_result_receipt ::
  "audit_row \<Rightarrow> db \<Rightarrow> repo_error + bool" where
  "load_result_receipt expected d =
     (case audit_with_key (a_event_key expected) d of
        None \<Rightarrow> Inr False
      | Some stored \<Rightarrow>
          and_then (ensure (receipt_agrees stored expected) ProcessingReceiptConflict)
            (\<lambda>_. Inr True))"

definition append_result_receipt :: "audit_row \<Rightarrow> db \<Rightarrow> repo_error + db" where
  "append_result_receipt row d =
     (let d' = insert_audit row d in
      and_then (load_result_receipt row d') (\<lambda>present.
      and_then (ensure present ProcessingReceiptConflict) (\<lambda>_. Inr d')))"

text \<open>\<^verbatim>\<open>_assert_processing_replay_state\<close>.\<close>

definition assert_replay_state ::
  "inbox_lease \<Rightarrow> email_row \<Rightarrow> processing_inbox_row \<Rightarrow> int \<Rightarrow> pystr \<Rightarrow> processing_resolution
   \<Rightarrow> repo_error + unit" where
  "assert_replay_state l e row expected_version operation rs =
     (let completed = rs_inbox_status rs = IS_COMPLETED in
      ensure
        (e_status e = rs_email_status rs \<and> e_version e = expected_version + 1
         \<and> e_processing_inbox_id e = (if completed then None else Some (l_id l))
         \<and> e_processing_execution_epoch e =
             (if completed then None else Some (l_execution_epoch l))
         \<and> e_safe_error_code e = rs_safe_code rs \<and> e_safe_error_summary e = rs_safe_summary rs
         \<and> pi_status row = rs_inbox_status rs \<and> pi_lease row = None
         \<and> pi_attempts row =
             (if operation = FAILURE_OPERATION then rs_attempts rs else l_attempts l)
         \<and> pi_safe_error_code row = rs_safe_code rs
         \<and> pi_safe_error_summary row = rs_safe_summary rs)
        ProcessingReceiptConflict)"

section \<open>Authorization\<close>

definition require_authorized_processing_attempt ::
  "env \<Rightarrow> inbox_lease \<Rightarrow> email_row \<Rightarrow> processing_inbox_row \<Rightarrow> int \<Rightarrow> pipeline_generation_state
   \<Rightarrow> bool \<Rightarrow> db \<Rightarrow> repo_error + unit" where
  "require_authorized_processing_attempt env l e row expected_version state unexpired d =
     and_then (ensure
       (state \<in> set LEASE_OWNERSHIP_STATES \<and> e_status e = ES_PROCESSING
        \<and> e_version e = expected_version \<and> e_processing_inbox_id e = Some (l_id l)
        \<and> e_source_deleted_at e = None \<and> e_owner_generation e = l_generation l
        \<and> e_owner_fencing_token e = l_fencing_token l
        \<and> e_owner_authority_epoch e = l_authority_epoch l
        \<and> e_owner_capability_hash e = l_capability_hash l
        \<and> e_processing_execution_epoch e = Some (l_execution_epoch l)
        \<and> pi_status row = IS_LEASED
        \<and> (case pi_lease row of None \<Rightarrow> False | Some p \<Rightarrow> leases_equal p l)
        \<and> (unexpired \<longrightarrow> pi_lease_active row)
        \<and> pi_account_id row = l_account_id l
        \<and> pi_external_email_id row = ev_external_email_id (l_event l)
        \<and> pi_generation row = l_generation l \<and> pi_fencing_token row = l_fencing_token l)
       ProcessingCompletionRejected) (\<lambda>_.
     and_then (load_processing_attempt env e l d) (\<lambda>present.
     ensure present ProcessingCompletionRejected))"

text \<open>The three locks every processing transaction opens with.\<close>

definition lock_attempt ::
  "env \<Rightarrow> time \<Rightarrow> inbox_lease \<Rightarrow> uuid \<Rightarrow> bool \<Rightarrow> db
   \<Rightarrow> repo_error + (email_row \<times> pipeline_generation_state \<times> processing_inbox_row)" where
  "lock_attempt env now l email_id require_executable d =
     and_then (lock_processing_email l email_id d) (\<lambda>locked.
     and_then (some_or ProcessingCompletionRejected locked) (\<lambda>e.
     and_then (lock_processing_ownership (Some e) l require_executable d) (\<lambda>state.
     and_then (lock_processing_inbox env now l d) (\<lambda>found.
     and_then (some_or ProcessingCompletionRejected found) (\<lambda>row.
     Inr (e, state, row))))))"

section \<open>Beginning an effect\<close>

text \<open>The attempt's email row, as the three updates of an attempt name it.\<close>

definition attempt_email :: "inbox_lease \<Rightarrow> uuid \<Rightarrow> int \<Rightarrow> email_row \<Rightarrow> bool" where
  "attempt_email l email_id expected_version r =
     (e_id r = email_id \<and> e_account_id r = l_account_id l \<and> e_status r = ES_PROCESSING
      \<and> e_version r = expected_version \<and> e_processing_inbox_id r = Some (l_id l)
      \<and> e_source_deleted_at r = None)"

definition runtime_alive :: "time \<Rightarrow> inbox_lease \<Rightarrow> db \<Rightarrow> bool" where
  "runtime_alive now l d =
     list_ex (\<lambda>t. r_session_id t = l_lease_session_id l \<and> r_account_id t = l_account_id l
       \<and> r_generation t = l_generation l \<and> r_fencing_token t = l_fencing_token l
       \<and> r_authority_epoch t = l_authority_epoch l \<and> r_capability_hash t = l_capability_hash l
       \<and> r_instance_id t = l_lease_owner l \<and> r_workload t = lit ''web''
       \<and> r_lifecycle t = lit ''active'' \<and> now < r_lease_until t) (runtimes d)"

definition begin_processing_effect_transaction ::
  "env \<Rightarrow> inbox_lease \<Rightarrow> uuid \<Rightarrow> int \<Rightarrow> external_effect_kind \<Rightarrow> db \<Rightarrow> repo_error + db" where
  "begin_processing_effect_transaction env l email_id expected_version kind d =
     and_then (lock_attempt env (clk env 0) l email_id True d) (\<lambda>(e, state, row).
     and_then (require_authorized_processing_attempt env l e row expected_version state True d)
       (\<lambda>_.
     and_then (ensure (runtime_alive (clk env 1) l d) ProcessingCompletionRejected) (\<lambda>_.
     let email_marked = e_external_effects_started_at e \<noteq> None;
         inbox_marked = pi_effect_started_at row \<noteq> None
     in
     and_then (ensure (email_marked = inbox_marked) ProcessingCompletionRejected) (\<lambda>_.
     if kind = EE_DETAIL then Inr d
     else if email_marked then Inr d
     else
       let started = clk env 2;
           pe = (\<lambda>r. attempt_email l email_id expected_version r
                   \<and> e_owner_generation r = l_generation l
                   \<and> e_owner_fencing_token r = l_fencing_token l);
           fe = (\<lambda>r. r\<lparr>e_external_effects_started_at :=
                       (case e_external_effects_started_at r of
                          None \<Rightarrow> Some started | Some t \<Rightarrow> Some t),
                      e_updated_at := started\<rparr>);
           pr = (\<lambda>r. lease_fence l r \<and> lease_live (clk env 3) r \<and> has_runtime (clk env 4) d r);
           fr = (\<lambda>r. r\<lparr>i_effect_started_at := (case i_effect_started_at r of
                          None \<Rightarrow> Some started | Some t \<Rightarrow> Some t),
                      i_updated_at := started\<rparr>)
       in and_then (ensure (fetchone (sql_returning pe fe (emails d)) \<noteq> None)
            ProcessingCompletionRejected) (\<lambda>_.
          and_then (ensure (fetchone (sql_returning pr fr (inbox d)) \<noteq> None)
            ProcessingCompletionRejected) (\<lambda>_.
          Inr (update_inbox pr fr (update_emails pe fe d))))))))"

text \<open>A rejection rolls the transaction back and is answered with False.\<close>

definition begin_processing_effect ::
  "env \<Rightarrow> inbox_lease \<Rightarrow> uuid \<Rightarrow> int \<Rightarrow> external_effect_kind \<Rightarrow> db \<Rightarrow> repo_error + (bool \<times> db)" where
  "begin_processing_effect env l email_id expected_version kind d =
     and_then (ensure (valid_email_version expected_version)
       (RepoValueError ''expected_email_version'')) (\<lambda>_.
     case begin_processing_effect_transaction env l email_id expected_version kind d of
       Inr d' \<Rightarrow> Inr (True, d')
     | Inl ProcessingCompletionRejected \<Rightarrow> Inr (False, d)
     | Inl err \<Rightarrow> Inl err)"

section \<open>The intake decision\<close>

definition intake_target_ok :: "intake_decision \<Rightarrow> email_status \<Rightarrow> bool" where
  "intake_target_ok dec target =
     (case id_disposition dec of
        SUPPRESS \<Rightarrow> target = ES_NO_ACTION
      | QUARANTINE \<Rightarrow> target = ES_MANUAL_REVIEW
      | PASS \<Rightarrow> True)"

definition intake_row :: "env \<Rightarrow> inbox_lease \<Rightarrow> intake_decision \<Rightarrow> intake_decision_row" where
  "intake_row env l dec =
     \<lparr>n_inbox_id = l_id l, n_execution_epoch = l_execution_epoch l,
      n_external_email_id = ev_external_email_id (l_event l),
      n_decision_json = audit_metadata dec,
      n_decision_digest = sha256 env (utf8 (json_dumps
        (compact_format False (python_float (texts env))) (audit_metadata dec))),
      n_disposition = intake_disposition_value (id_disposition dec),
      n_reason_code = id_reason_code dec, n_policy_version = id_policy_version dec,
      n_snapshot_digest = id_snapshot_digest dec\<rparr>"

definition intake_key :: "uuid \<Rightarrow> int \<Rightarrow> intake_decision_row \<Rightarrow> bool" where
  "intake_key inbox_id epoch n = (n_inbox_id n = inbox_id \<and> n_execution_epoch n = epoch)"

definition append_intake_decision ::
  "env \<Rightarrow> inbox_lease \<Rightarrow> intake_decision option \<Rightarrow> email_status \<Rightarrow> db \<Rightarrow> repo_error + db" where
  "append_intake_decision env l intake target d =
     (case intake of
        None \<Rightarrow> Inr d
      | Some dec \<Rightarrow>
          and_then (ensure (intake_target_ok dec target) ProcessingCompletionRejected) (\<lambda>_.
          let row = intake_row env l dec;
              key = intake_key (l_id l) (l_execution_epoch l);
              d' = (if list_ex key (intake_decisions d) then d
                    else d\<lparr>intake_decisions := intake_decisions d @ [row]\<rparr>)
          in case select_one key (intake_decisions d') of
               None \<Rightarrow> Inl ProcessingCompletionRejected
             | Some stored \<Rightarrow>
                 and_then (ensure (n_decision_digest stored = n_decision_digest row
                     \<and> n_disposition stored = n_disposition row
                     \<and> n_external_email_id stored = n_external_email_id row)
                   ProcessingCompletionRejected) (\<lambda>_. Inr d')))"

section \<open>Ending an attempt\<close>

definition finish_result ::
  "processing_resolution \<Rightarrow> bool \<Rightarrow> repo_error + processing_finish_result" where
  "finish_result rs replayed =
     (case ProcessingFinishResult \<lparr>pf_email_status = rs_email_status rs,
             pf_inbox_status = rs_inbox_status rs, pf_replayed = replayed\<rparr> of
        Inl err \<Rightarrow> Inl (RepoValueError ''ProcessingFinishResult'')
      | Inr r \<Rightarrow> Inr r)"

text \<open>
  The end both operations share: answer a replay from the stored receipt, otherwise demand
  an authorised attempt, move both rows and store the receipt. The two operations differ in
  the rows they write (\<open>fe\<close>, \<open>fr\<close>).
\<close>

definition settle_fresh ::
  "env \<Rightarrow> inbox_lease \<Rightarrow> uuid \<Rightarrow> int \<Rightarrow> audit_row \<Rightarrow> processing_resolution \<Rightarrow> email_row
   \<Rightarrow> pipeline_generation_state \<Rightarrow> processing_inbox_row \<Rightarrow> (email_row \<Rightarrow> email_row)
   \<Rightarrow> (inbox_row \<Rightarrow> inbox_row) \<Rightarrow> db \<Rightarrow> repo_error + (processing_finish_result \<times> db)" where
  "settle_fresh env l email_id expected_version receipt rs e state row fe fr d =
     (let pe = (\<lambda>r. attempt_email l email_id expected_version r
                  \<and> e_version r < POSTGRES_BIGINT_MAX);
          pr = lease_fence l
      in
      and_then (ensure (expected_version < POSTGRES_BIGINT_MAX) ProcessingCompletionRejected)
        (\<lambda>_.
      and_then (require_authorized_processing_attempt env l e row expected_version state True d)
        (\<lambda>_.
      and_then (ensure (fetchone (sql_returning pe fe (emails d)) \<noteq> None)
        ProcessingCompletionRejected) (\<lambda>_.
      and_then (ensure (fetchone (sql_returning pr fr (inbox d)) \<noteq> None)
        ProcessingCompletionRejected) (\<lambda>_.
      and_then (append_result_receipt receipt (update_inbox pr fr (update_emails pe fe d)))
        (\<lambda>d'.
      and_then (finish_result rs False) (\<lambda>r. Inr (r, d'))))))))"

definition settle ::
  "env \<Rightarrow> inbox_lease \<Rightarrow> uuid \<Rightarrow> int \<Rightarrow> pystr \<Rightarrow> processing_resolution
   \<Rightarrow> processing_completion option \<Rightarrow> email_row \<Rightarrow> pipeline_generation_state
   \<Rightarrow> processing_inbox_row \<Rightarrow> (email_row \<Rightarrow> email_row) \<Rightarrow> (inbox_row \<Rightarrow> inbox_row) \<Rightarrow> db
   \<Rightarrow> repo_error + (processing_finish_result \<times> db)" where
  "settle env l email_id expected_version operation rs completion e state row fe fr d =
     (let receipt = result_receipt env (uuid4 env 0) l email_id expected_version operation rs
            completion
      in and_then (load_result_receipt receipt d) (\<lambda>replayed.
      if replayed then
        and_then (assert_replay_state l e row expected_version operation rs) (\<lambda>_.
        and_then (finish_result rs True) (\<lambda>r. Inr (r, d)))
      else settle_fresh env l email_id expected_version receipt rs e state row fe fr d))"

definition finished_email ::
  "env \<Rightarrow> processing_resolution \<Rightarrow> email_row \<Rightarrow> email_row" where
  "finished_email env rs r =
     (let terminal_failure = rs_inbox_status rs \<noteq> IS_COMPLETED in
      r\<lparr>e_status := rs_email_status rs, e_version := e_version r + 1,
        e_processing_inbox_id := (if terminal_failure then e_processing_inbox_id r else None),
        e_processing_execution_epoch :=
          (if terminal_failure then e_processing_execution_epoch r else None),
        e_safe_error_code := rs_safe_code rs, e_safe_error_summary := rs_safe_summary rs,
        e_updated_at := clk env 1\<rparr>)"

definition finished_inbox :: "env \<Rightarrow> processing_resolution \<Rightarrow> inbox_row \<Rightarrow> inbox_row" where
  "finished_inbox env rs r =
     r\<lparr>i_status := rs_inbox_status rs, i_lease_owner := None, i_lease_until := None,
       i_lease_session_id := None, i_safe_error_code := rs_safe_code rs,
       i_safe_error_summary := rs_safe_summary rs, i_updated_at := clk env 2\<rparr>"

definition failed_email :: "env \<Rightarrow> processing_resolution \<Rightarrow> email_row \<Rightarrow> email_row" where
  "failed_email env rs r =
     r\<lparr>e_status := rs_email_status rs, e_version := e_version r + 1,
       e_safe_error_code := rs_safe_code rs, e_safe_error_summary := rs_safe_summary rs,
       e_updated_at := clk env 1\<rparr>"

definition failed_inbox :: "env \<Rightarrow> processing_resolution \<Rightarrow> inbox_row \<Rightarrow> inbox_row" where
  "failed_inbox env rs =
     fail_row (rs_inbox_status rs) (rs_attempts rs) (rs_available_in_seconds rs)
       (rs_safe_code rs) (rs_safe_summary rs) (clk env 2) (clk env 3)"

definition finish_email_processing ::
  "env \<Rightarrow> inbox_lease \<Rightarrow> uuid \<Rightarrow> int \<Rightarrow> processing_completion \<Rightarrow> db
   \<Rightarrow> repo_error + (processing_finish_result \<times> db)" where
  "finish_email_processing env l email_id expected_version c d =
     and_then (ensure (valid_email_version expected_version)
       (RepoValueError ''expected_email_version'')) (\<lambda>_.
     and_then (lock_attempt env (clk env 0) l email_id False d) (\<lambda>(e, state, row).
     and_then (append_intake_decision env l (pc_intake_decision c) (pc_target_status c) d) (\<lambda>d1.
     let effect_started = pi_effect_started_at row \<noteq> None
           \<or> e_external_effects_started_at e \<noteq> None;
         rs = completion_resolution l c effect_started expected_version
     in settle env l email_id expected_version SUCCESS_OPERATION rs (Some c) e state row
          (finished_email env rs) (finished_inbox env rs) d1)))"

definition finish_email_processing_failure ::
  "env \<Rightarrow> inbox_lease \<Rightarrow> uuid \<Rightarrow> int \<Rightarrow> worker_error \<Rightarrow> db
   \<Rightarrow> repo_error + (processing_finish_result \<times> db)" where
  "finish_email_processing_failure env l email_id expected_version error d =
     and_then (ensure (valid_email_version expected_version)
       (RepoValueError ''expected_email_version'')) (\<lambda>_.
     and_then (lock_attempt env (clk env 0) l email_id False d) (\<lambda>(e, state, row).
     let rs = failure_resolution error l e row expected_version
     in settle env l email_id expected_version FAILURE_OPERATION rs None e state row
          (failed_email env rs) (failed_inbox env rs) d))"

end
