(* ===== verification/InboxRecovery.thy ===== *)
theory InboxRecovery
  imports InboxFinish
begin

text \<open>
  Recovery in \<^verbatim>\<open>src/ingestion/repository.py\<close>: leases whose time ran out are taken back, with
  the email aggregate they were processing (linked) or without one (unlinked), and a
  quarantined event is released by an operator under a fresh execution epoch.
\<close>

section \<open>Expired leases\<close>

definition find_email_relation :: "inbox_lease \<Rightarrow> db \<Rightarrow> (uuid \<times> uuid option) option" where
  "find_email_relation l d =
     map_option (\<lambda>e. (e_id e, e_processing_inbox_id e)) (select_one (same_email l) (emails d))"

text \<open>The leased row of the token, whose lease is over.\<close>

definition expired_fence :: "time \<Rightarrow> inbox_lease \<Rightarrow> inbox_row \<Rightarrow> bool" where
  "expired_fence now l r = (lease_fence l r \<and> \<not> lease_live now r)"

definition still_expired :: "inbox_lease \<Rightarrow> processing_inbox_row option \<Rightarrow> bool" where
  "still_expired l found =
     (case found of
        None \<Rightarrow> False
      | Some row \<Rightarrow> pi_status row = IS_LEASED
          \<and> (case pi_lease row of None \<Rightarrow> False | Some p \<Rightarrow> leases_equal p l)
          \<and> \<not> pi_lease_active row)"

definition linked_verdict ::
  "inbox_lease \<Rightarrow> email_row \<Rightarrow> pipeline_generation_state \<Rightarrow> bool \<Rightarrow> bool \<Rightarrow> failure_verdict" where
  "linked_verdict l e state attempt_exists effect_started =
     (let valid_attempt = (e_status e = ES_PROCESSING \<and> attempt_exists)
            \<or> (e_status e = ES_RETRY_WAIT \<and> \<not> attempt_exists)
      in if effect_started then EFFECT_UNKNOWN
         else if state \<notin> set LEASE_OWNERSHIP_STATES \<or> \<not> valid_attempt
             \<or> e_source_deleted_at e \<noteq> None \<or> e_owner_generation e \<noteq> l_generation l
             \<or> e_owner_fencing_token e \<noteq> l_fencing_token l then STALE_OWNERSHIP
         else LEASE_EXPIRED)"

text \<open>\<^verbatim>\<open>_lock_processing_email(..., skip_locked=True)\<close>.\<close>

definition lock_unlocked_email ::
  "env \<Rightarrow> inbox_lease \<Rightarrow> uuid \<Rightarrow> db \<Rightarrow> repo_error + email_row option" where
  "lock_unlocked_email env l email_id d =
     (if email_locked env email_id then Inr None else lock_processing_email l email_id d)"

text \<open>The writes of the linked path: both rows and the failure receipt.\<close>

definition fail_linked ::
  "env \<Rightarrow> inbox_lease \<Rightarrow> email_row \<Rightarrow> audit_row \<Rightarrow> processing_resolution \<Rightarrow> db
   \<Rightarrow> repo_error + (bool \<times> db)" where
  "fail_linked env l e receipt rs d =
     (let pe = (\<lambda>r. e_id r = e_id e \<and> e_account_id r = l_account_id l
                  \<and> e_version r = e_version e \<and> e_processing_inbox_id r = Some (l_id l)
                  \<and> e_version r < POSTGRES_BIGINT_MAX);
          fe = failed_email env rs;
          pr = expired_fence (clk env 4) l;
          fr = failed_inbox env rs
      in
      and_then (ensure (fetchone (sql_returning pe fe (emails d)) \<noteq> None)
        ProcessingCompletionRejected) (\<lambda>_.
      and_then (ensure (fetchone (sql_returning pr fr (inbox d)) \<noteq> None)
        ProcessingCompletionRejected) (\<lambda>_.
      and_then (append_result_receipt receipt (update_inbox pr fr (update_emails pe fe d)))
        (\<lambda>d'. Inr (True, d')))))"

text \<open>The linked path once the candidate is known to be expired still.\<close>

definition recover_linked_row ::
  "env \<Rightarrow> inbox_lease \<Rightarrow> email_row \<Rightarrow> pipeline_generation_state \<Rightarrow> processing_inbox_row \<Rightarrow> db
   \<Rightarrow> repo_error + (bool \<times> db)" where
  "recover_linked_row env l e state row d =
     and_then (ensure (e_version e < POSTGRES_BIGINT_MAX) invariant_error) (\<lambda>_.
     and_then (load_processing_attempt env e l d) (\<lambda>attempt_exists.
     let effect_started = pi_effect_started_at row \<noteq> None
           \<or> e_external_effects_started_at e \<noteq> None;
         rs = resolution_for_failure_decision
           (linked_verdict l e state attempt_exists effect_started) l (e_version e) None;
         receipt = result_receipt env (uuid4 env 0) l (e_id e) (e_version e)
           FAILURE_OPERATION rs None
     in
     and_then (load_result_receipt receipt d) (\<lambda>replayed.
     if replayed then
       and_then (assert_replay_state l e row (e_version e) FAILURE_OPERATION rs)
         (\<lambda>_. Inr (False, d))
     else fail_linked env l e receipt rs d)))"

definition recover_linked_expired_lease ::
  "env \<Rightarrow> inbox_lease \<Rightarrow> uuid \<Rightarrow> db \<Rightarrow> repo_error + (bool \<times> db)" where
  "recover_linked_expired_lease env l email_id d =
     and_then (lock_unlocked_email env l email_id d) (\<lambda>locked.
     case locked of
       None \<Rightarrow> Inr (False, d)
     | Some e \<Rightarrow>
         and_then (lock_processing_ownership (Some e) l False d) (\<lambda>state.
         and_then (lock_expired_inbox env (clk env 1) l d) (\<lambda>found.
         if \<not> still_expired l found \<or> e_processing_inbox_id e \<noteq> Some (l_id l)
         then Inr (False, d)
         else recover_linked_row env l e state (the found) d)))"

definition unlinked_verdict ::
  "inbox_lease \<Rightarrow> processing_inbox_row \<Rightarrow> pipeline_generation_state \<Rightarrow> failure_verdict" where
  "unlinked_verdict l row state =
     (if state \<notin> set LEASE_OWNERSHIP_STATES then STALE_OWNERSHIP
      else if pi_effect_started_at row \<noteq> None then EFFECT_UNKNOWN
      else if next_attempts (l_attempts l) \<le> MAX_RETRIES then LEASE_EXPIRED
      else demote LEASE_EXPIRED)"

definition fail_unlinked ::
  "env \<Rightarrow> inbox_lease \<Rightarrow> failure_verdict \<Rightarrow> db \<Rightarrow> repo_error + (bool \<times> db)" where
  "fail_unlinked env l v d =
     (let attempts = next_attempts (l_attempts l);
          backoff = (if fd_status v = DS_RETRY_WAIT then backoff_seconds (l_attempts l) else 0);
          pr = expired_fence (clk env 4) l;
          fr = fail_row (inbox_status_of (fd_status v)) attempts backoff
            (Some (fd_safe_code v)) (Some (fd_safe_summary v)) (clk env 2) (clk env 3)
      in if fetchone (sql_returning pr fr (inbox d)) = None then Inr (False, d)
         else and_then
           (if fd_status v \<noteq> DS_RETRY_WAIT then
              append_audit env (uuid4 env 0) (l_id l) (l_account_id l) (terminal_action v)
                (inbox_status_value (inbox_status_of (fd_status v))) (fd_safe_code v)
                attempts (failure_audit_metadata attempts v) (update_inbox pr fr d)
            else Inr (update_inbox pr fr d)) (\<lambda>d'. Inr (True, d')))"

definition recover_unlinked_expired_lease ::
  "env \<Rightarrow> inbox_lease \<Rightarrow> db \<Rightarrow> repo_error + (bool \<times> db)" where
  "recover_unlinked_expired_lease env l d =
     and_then (lock_processing_ownership None l False d) (\<lambda>state.
     and_then (lock_expired_inbox env (clk env 1) l d) (\<lambda>found.
     if \<not> still_expired l found then Inr (False, d)
     else if (case find_email_relation l d of
                None \<Rightarrow> False | Some (email_id, owner) \<Rightarrow> owner = Some (l_id l))
     then Inr (False, d)
     else fail_unlinked env l (unlinked_verdict l (the found) state) d))"

text \<open>
  One candidate runs in a savepoint of its own: it looks up the email the lease may be
  processing and takes the linked or the unlinked path.
\<close>

definition recover_candidate :: "env \<Rightarrow> inbox_lease \<Rightarrow> db \<Rightarrow> repo_error + (bool \<times> db)" where
  "recover_candidate env l d =
     (case find_email_relation l d of
        Some (email_id, owner) \<Rightarrow>
          (if owner = Some (l_id l) then recover_linked_expired_lease env l email_id d
           else recover_unlinked_expired_lease env l d)
      | None \<Rightarrow> recover_unlinked_expired_lease env l d)"

definition savepoint_error :: "repo_error \<Rightarrow> bool" where
  "savepoint_error err =
     (err = AuditInvariantError \<or> err = ProcessingReceiptConflict
      \<or> err = ProcessingCompletionRejected)"

text \<open>
  The loop over the candidates: it stops at the limit, a candidate that fails with one of
  the three private errors is rolled back to its savepoint and remembered, any other error
  rolls the whole transaction back. Candidate \<open>k\<close> reads its own part of the environment.
\<close>

fun recover_loop ::
  "(nat \<Rightarrow> env) \<Rightarrow> int \<Rightarrow> nat \<Rightarrow> inbox_lease list \<Rightarrow> int \<Rightarrow> repo_error option \<Rightarrow> db
   \<Rightarrow> repo_error + (int \<times> repo_error option \<times> db)" where
  "recover_loop envs limit k [] recovered failed d = Inr (recovered, failed, d)"
| "recover_loop envs limit k (l # ls) recovered failed d =
     (if recovered \<ge> limit then Inr (recovered, failed, d)
      else case recover_candidate (envs k) l d of
        Inr (updated, d') \<Rightarrow>
          recover_loop envs limit (Suc k) ls (if updated then recovered + 1 else recovered)
            failed d'
      | Inl err \<Rightarrow>
          (if savepoint_error err then
             recover_loop envs limit (Suc k) ls recovered
               (case failed of None \<Rightarrow> Some err | Some first \<Rightarrow> Some first) d
           else Inl err))"

definition lease_until_order :: "inbox_row \<Rightarrow> time \<times> uuid" where
  "lease_until_order r = (case i_lease_until r of None \<Rightarrow> 0 | Some u \<Rightarrow> u, i_id r)"

definition expired_candidates :: "env \<Rightarrow> db \<Rightarrow> inbox_row list" where
  "expired_candidates env d =
     take (nat MAX_BATCH) (sort_key lease_until_order
       (filter (\<lambda>r. i_status r = IS_LEASED
          \<and> (case i_lease_until r of None \<Rightarrow> False | Some u \<Rightarrow> u \<le> clk env 0)) (inbox d)))"

text \<open>
  The committed store comes back even when a remembered error is raised after the commit:
  the first component is the number recovered or that error.
\<close>

definition recover_expired_leases ::
  "env \<Rightarrow> (nat \<Rightarrow> env) \<Rightarrow> int \<Rightarrow> db \<Rightarrow> repo_error + ((repo_error + int) \<times> db)" where
  "recover_expired_leases env envs limit d =
     and_then (ensure (valid_bounded_int MAX_BATCH limit) (RepoValueError ''limit'')) (\<lambda>_.
     and_then (traverse (expired_candidate_from_row env) (expired_candidates env d))
       (\<lambda>candidates.
     and_then (recover_loop envs limit 0 candidates 0 None d) (\<lambda>(recovered, failed, d').
     Inr (case failed of None \<Rightarrow> Inr recovered | Some err \<Rightarrow> Inl err, d'))))"

section \<open>Releasing a quarantined event\<close>

definition release_conflict :: repo_error where
  "release_conflict = DatabaseOperationError ''release_intake_quarantine'' False"

text \<open>
  \<^verbatim>\<open>release_intake_quarantine\<close>: the stored quarantine decision names the email, which goes
  back to a retry under the next epoch together with the inbox row.
\<close>

definition released_email :: "env \<Rightarrow> int \<Rightarrow> email_row \<Rightarrow> email_row" where
  "released_email env new_epoch r =
     r\<lparr>e_status := ES_RETRY_WAIT, e_version := e_version r + 1,
       e_processing_execution_epoch := Some new_epoch, e_processing_started_at := None,
       e_safe_error_code := Some (lit ''intake.quarantine_released''),
       e_safe_error_summary := None, e_updated_at := clk env 0\<rparr>"

definition released_inbox :: "env \<Rightarrow> int \<Rightarrow> inbox_row \<Rightarrow> inbox_row" where
  "released_inbox env new_epoch r =
     r\<lparr>i_status := IS_PENDING, i_execution_epoch := new_epoch, i_attempts := 0,
       i_lease_owner := None, i_lease_until := None, i_lease_session_id := None,
       i_processing_started_at := None, i_effect_started_at := None,
       i_safe_error_code := None, i_safe_error_summary := None,
       i_available_at := clk env 1, i_updated_at := clk env 2\<rparr>"

text \<open>The email the stored decision names, and the row under review.\<close>

definition quarantined_email :: "uuid \<Rightarrow> int \<Rightarrow> intake_decision_row \<Rightarrow> db \<Rightarrow> email_row \<Rightarrow> bool" where
  "quarantined_email inbox_id epoch stored d e =
     (list_ex (\<lambda>q. i_id q = inbox_id \<and> i_account_id q = e_account_id e) (inbox d)
      \<and> e_external_email_id e = n_external_email_id stored
      \<and> e_status e = ES_MANUAL_REVIEW \<and> e_processing_inbox_id e = Some inbox_id
      \<and> e_processing_execution_epoch e = Some epoch)"

definition quarantined_row :: "uuid \<Rightarrow> int \<Rightarrow> inbox_row \<Rightarrow> bool" where
  "quarantined_row inbox_id epoch r =
     (i_id r = inbox_id \<and> i_status r = IS_MANUAL_REVIEW \<and> i_execution_epoch r = epoch)"

definition release_rows ::
  "env \<Rightarrow> uuid \<Rightarrow> int \<Rightarrow> intake_decision_row \<Rightarrow> pystr \<Rightarrow> pystr \<Rightarrow> db \<Rightarrow> repo_error + (int \<times> db)" where
  "release_rows env inbox_id expected_epoch stored actor why d =
     (let new_epoch = expected_epoch + 1;
          pe = quarantined_email inbox_id expected_epoch stored d;
          fe = released_email env new_epoch;
          pr = quarantined_row inbox_id expected_epoch;
          fr = released_inbox env new_epoch;
          d1 = update_inbox pr fr (update_emails pe fe d)
      in
      and_then (ensure (fetchone (sql_returning pe fe (emails d)) \<noteq> None) release_conflict)
        (\<lambda>_.
      and_then (some_or release_conflict (fetchone (sql_returning pr fr (inbox d))))
        (\<lambda>updated.
      and_then (ensure (i_execution_epoch updated = new_epoch) release_conflict) (\<lambda>_.
      Inr (new_epoch, d1\<lparr>intake_releases := intake_releases d1 @
        [\<lparr>x_id = uuid4 env 0, x_inbox_id = inbox_id, x_prior_execution_epoch = expected_epoch,
          x_new_execution_epoch = new_epoch, x_actor = actor, x_reason = why\<rparr>]\<rparr>)))))"

definition release_intake_quarantine ::
  "env \<Rightarrow> uuid \<Rightarrow> int \<Rightarrow> pystr \<Rightarrow> pystr \<Rightarrow> db \<Rightarrow> repo_error + (int \<times> db)" where
  "release_intake_quarantine env inbox_id expected_epoch actor why d =
     and_then (ensure (0 \<le> expected_epoch \<and> expected_epoch \<le> POSTGRES_BIGINT_MAX - 1)
       (RepoValueError ''expected_execution_epoch'')) (\<lambda>_.
     and_then (ensure (valid_exact_text 512 actor) (RepoValueError ''actor'')) (\<lambda>_.
     and_then (ensure (valid_exact_text 1024 why) (RepoValueError ''reason'')) (\<lambda>_.
     and_then (some_or release_conflict (select_one (\<lambda>n. intake_key inbox_id expected_epoch n
         \<and> n_disposition n = intake_disposition_value QUARANTINE
         \<and> list_ex (\<lambda>r. i_id r = n_inbox_id n \<and> i_status r = IS_MANUAL_REVIEW) (inbox d))
       (intake_decisions d))) (\<lambda>stored.
     release_rows env inbox_id expected_epoch stored actor why d))))"

end
