(* ===== verification/InboxInvariants.thy ===== *)
theory InboxInvariants
  imports InboxRecovery
begin

text \<open>
  The invariant of the inbox store and the statement lemmas that keep it. \<open>store_ok now d\<close>
  holds the CHECK constraints of both tables, the unique keys, the deferred foreign key from
  an email in processing to its inbox row, and that no time recorded so far is later than
  \<open>now\<close>. One UPDATE keeps it when every row it touches is allowed by the row trigger and
  stays within the CHECK constraints; the operations below are compositions of those.
\<close>

section \<open>The invariant\<close>

text \<open>Work that is waiting or leased has retries left.\<close>

definition retry_budget :: "inbox_row \<Rightarrow> bool" where
  "retry_budget r =
     (i_status r = IS_PENDING \<or> i_status r = IS_RETRY_WAIT \<or> i_status r = IS_LEASED
        \<longrightarrow> i_attempts r \<le> MAX_RETRIES)"

definition row_ok :: "time \<Rightarrow> inbox_row \<Rightarrow> bool" where
  "row_ok now r =
     (ck_event_inbox r \<and> i_attempts r \<le> POSTGRES_BIGINT_MAX \<and> retry_budget r
      \<and> (case i_processing_started_at r of None \<Rightarrow> i_status r \<noteq> IS_LEASED | Some t \<Rightarrow> t \<le> now))"

definition email_key :: "email_row \<Rightarrow> int \<times> pystr" where
  "email_key e = (e_account_id e, e_external_email_id e)"

definition store_ok :: "time \<Rightarrow> db \<Rightarrow> bool" where
  "store_ok now d =
     (distinct (map i_id (inbox d)) \<and> distinct (map i_dedupe_key (inbox d))
      \<and> distinct (map e_id (emails d)) \<and> distinct (map email_key (emails d))
      \<and> list_all (row_ok now) (inbox d)
      \<and> list_all (\<lambda>e. ck_emails e \<and> owner_is_create d e) (emails d))"

text \<open>Both tables move as their triggers allow.\<close>

definition guarded :: "db \<Rightarrow> db \<Rightarrow> bool" where
  "guarded d d' =
     (rows_step inbox_move (inbox d) (inbox d')
      \<and> rows_step email_move (emails d) (emails d'))"

text \<open>
  The environment of a transaction that runs between \<open>now\<close> and \<open>now'\<close>: the clock stays in
  that interval and the fresh identifiers are unused.
\<close>

definition env_ok :: "time \<Rightarrow> env \<Rightarrow> time \<Rightarrow> db \<Rightarrow> bool" where
  "env_ok now env now' d =
     (now \<le> now' \<and> (\<forall>k. now \<le> clk env k \<and> clk env k \<le> now')
      \<and> (\<forall>k. uuid4 env k \<notin> set (map i_id (inbox d))
           \<and> uuid4 env k \<notin> set (map e_id (emails d))))"

lemma env_okD:
  "env_ok now env now' d \<Longrightarrow> now \<le> now'"
  "env_ok now env now' d \<Longrightarrow> now \<le> clk env k"
  "env_ok now env now' d \<Longrightarrow> clk env k \<le> now'"
  by (simp_all add: env_ok_def)

lemma guarded_refl [simp, intro]: "guarded d d"
  by (auto simp: guarded_def)

lemma distinct_key_unique:
  "distinct (map k t) \<Longrightarrow> r \<in> set t \<Longrightarrow> s \<in> set t \<Longrightarrow> k r = k s \<Longrightarrow> r = s"
  by (induction t) (auto simp: image_iff)

lemma row_ok_mono: "row_ok now r \<Longrightarrow> now \<le> now' \<Longrightarrow> row_ok now' r"
  by (auto simp: row_ok_def split: option.splits)

lemma row_ok_later:
  "store_ok now d \<Longrightarrow> r \<in> set (inbox d) \<Longrightarrow> now \<le> now' \<Longrightarrow> row_ok now' r"
  by (auto simp: store_ok_def list_all_iff intro: row_ok_mono)

lemma store_okD:
  "store_ok now d \<Longrightarrow> r \<in> set (inbox d) \<Longrightarrow> row_ok now r"
  "store_ok now d \<Longrightarrow> e \<in> set (emails d) \<Longrightarrow> ck_emails e"
  "store_ok now d \<Longrightarrow> e \<in> set (emails d) \<Longrightarrow> owner_is_create d e"
  "store_ok now d \<Longrightarrow> distinct (map i_id (inbox d))"
  "store_ok now d \<Longrightarrow> distinct (map e_id (emails d))"
  "store_ok now d \<Longrightarrow> distinct (map email_key (emails d))"
  by (auto simp: store_ok_def list_all_iff)

lemma inbox_row_unique:
  "store_ok now d \<Longrightarrow> r \<in> set (inbox d) \<Longrightarrow> s \<in> set (inbox d) \<Longrightarrow> i_id r = i_id s \<Longrightarrow> r = s"
  by (meson distinct_key_unique store_okD(4))

lemma email_row_unique:
  "store_ok now d \<Longrightarrow> r \<in> set (emails d) \<Longrightarrow> s \<in> set (emails d) \<Longrightarrow> e_id r = e_id s \<Longrightarrow> r = s"
  by (meson distinct_key_unique store_okD(5))

lemma email_key_unique:
  "store_ok now d \<Longrightarrow> r \<in> set (emails d) \<Longrightarrow> s \<in> set (emails d)
   \<Longrightarrow> email_key r = email_key s \<Longrightarrow> r = s"
  by (meson distinct_key_unique store_okD(6))

lemma store_ok_mono: "store_ok now d \<Longrightarrow> now \<le> now' \<Longrightarrow> store_ok now' d"
  by (auto simp: store_ok_def list_all_iff intro: row_ok_mono)

text \<open>The other tables do not matter.\<close>

lemma owner_is_create_cong: "inbox d' = inbox d \<Longrightarrow> owner_is_create d' e = owner_is_create d e"
  by (simp add: owner_is_create_def)

lemma store_ok_cong:
  "inbox d' = inbox d \<Longrightarrow> emails d' = emails d \<Longrightarrow> store_ok now d' = store_ok now d"
  by (simp add: store_ok_def owner_is_create_cong [of d' d])

lemma guarded_cong:
  "inbox d' = inbox d1 \<Longrightarrow> emails d' = emails d1 \<Longrightarrow> guarded d d' = guarded d d1"
  by (simp add: guarded_def)

section \<open>One statement\<close>

lemma owner_is_create_update:
  assumes "owner_is_create d e"
    "\<And>r. r \<in> set (inbox d) \<Longrightarrow> p r \<Longrightarrow> inbox_identity r (f r) \<and> i_execution_epoch (f r) = i_execution_epoch r"
  shows "owner_is_create (update_inbox p f d) e"
  unfolding owner_is_create_def
proof
  assume "e_processing_inbox_id e \<noteq> None"
  with assms(1) obtain r where r: "r \<in> set (inbox d)" "owner_row e r"
    by (auto simp: owner_is_create_def list_ex_iff)
  let ?s = "if p r then f r else r"
  have "?s \<in> set (inbox (update_inbox p f d))"
    using r(1) by (auto simp: sql_update_in_set)
  moreover have "owner_row e ?s"
    using assms(2) [OF r(1)] r(2) by (auto intro: owner_row_identity)
  ultimately show "list_ex (owner_row e) (inbox (update_inbox p f d))"
    by (auto simp: list_ex_iff)
qed

lemma inbox_statement:
  assumes "store_ok now d" "now \<le> now'"
    and rows: "\<And>r. r \<in> set (inbox d) \<Longrightarrow> p r \<Longrightarrow>
      inbox_move r (f r) \<and> i_execution_epoch (f r) = i_execution_epoch r \<and> row_ok now' (f r)"
  shows "store_ok now' (update_inbox p f d)"
    and "rows_step inbox_move (inbox d) (inbox (update_inbox p f d))"
proof -
  have id: "map i_id (sql_update p f (inbox d)) = map i_id (inbox d)"
    "map i_dedupe_key (sql_update p f (inbox d)) = map i_dedupe_key (inbox d)"
    using rows by (auto simp: sql_update_def inbox_move_def guard_event_inbox_def inbox_identity_def)
  have "list_all (row_ok now') (sql_update p f (inbox d))"
    using rows row_ok_later [OF assms(1) _ assms(2)] by (auto simp: list_all_iff sql_update_in_set)
  moreover have "owner_is_create (update_inbox p f d) e" if "e \<in> set (emails d)" for e
    by (rule owner_is_create_update)
      (use that assms(1) rows in \<open>auto simp: inbox_move_def guard_event_inbox_def store_okD(3)\<close>)
  ultimately show "store_ok now' (update_inbox p f d)"
    using assms(1) by (auto simp: store_ok_def id list_all_iff)
  show "rows_step inbox_move (inbox d) (inbox (update_inbox p f d))"
    using rows by (auto intro: rows_step_update)
qed

lemma email_statement:
  assumes "store_ok now d" "now \<le> now'"
    and rows: "\<And>e. e \<in> set (emails d) \<Longrightarrow> p e \<Longrightarrow>
      email_move e (f e) \<and> ck_emails (f e) \<and> owner_is_create d (f e)"
  shows "store_ok now' (update_emails p f d)"
    and "rows_step email_move (emails d) (emails (update_emails p f d))"
proof -
  have id: "map e_id (sql_update p f (emails d)) = map e_id (emails d)"
    "map email_key (sql_update p f (emails d)) = map email_key (emails d)"
    using rows by (auto simp: sql_update_def email_move_def guard_emails_def email_identity_def email_key_def)
  have "owner_is_create (update_emails p f d) e = owner_is_create d e" for e
    by (rule owner_is_create_cong) simp
  then show "store_ok now' (update_emails p f d)"
    using assms(1,2) rows
    by (auto simp: store_ok_def id list_all_iff sql_update_in_set intro: row_ok_mono)
  show "rows_step email_move (emails d) (emails (update_emails p f d))"
    using rows by (auto intro: rows_step_update)
qed

text \<open>What every operation establishes.\<close>

definition kept :: "time \<Rightarrow> db \<Rightarrow> db \<Rightarrow> bool" where
  "kept now' d d' = (store_ok now' d' \<and> guarded d d')"

lemma kept_refl: "store_ok now d \<Longrightarrow> now \<le> now' \<Longrightarrow> kept now' d d"
  by (simp add: kept_def store_ok_mono)

lemma kept_cong: "kept now' d d1 \<Longrightarrow> inbox d' = inbox d1 \<Longrightarrow> emails d' = emails d1 \<Longrightarrow> kept now' d d'"
  by (simp add: kept_def guarded_def store_ok_cong [of d' d1])

lemma kept_inbox:
  assumes "store_ok now d" "now \<le> now'"
    "\<And>r. r \<in> set (inbox d) \<Longrightarrow> p r \<Longrightarrow> row_ok now r \<Longrightarrow>
      inbox_move r (f r) \<and> i_execution_epoch (f r) = i_execution_epoch r \<and> row_ok now' (f r)"
  shows "kept now' d (update_inbox p f d)"
  using inbox_statement [OF assms(1,2), of p f] assms(1,3)
  by (auto simp: kept_def guarded_def store_okD(1))

lemma kept_emails:
  assumes "store_ok now d" "now \<le> now'"
    "\<And>e. e \<in> set (emails d) \<Longrightarrow> p e \<Longrightarrow> ck_emails e \<Longrightarrow> owner_is_create d e \<Longrightarrow>
      email_move e (f e) \<and> ck_emails (f e) \<and> owner_is_create d (f e)"
  shows "kept now' d (update_emails p f d)"
  using email_statement [OF assms(1,2), of p f] assms(1,3)
  by (auto simp: kept_def guarded_def store_okD(2,3))

text \<open>An email statement followed by an inbox statement.\<close>

lemma kept_both:
  assumes "kept now' d d1" "inbox d1 = inbox d" "kept now' d1 d2" "emails d2 = emails d1"
  shows "kept now' d d2"
  using assms by (simp add: kept_def guarded_def)

section \<open>Rows under a fence\<close>

text \<open>
  A fenced row is leased; a change that keeps its identity, its epoch and its lease, and
  only sets the effect marker if it was unset, is allowed.
\<close>

lemmas row_defs = row_ok_def retry_budget_def inbox_guard_defs inbox_check_defs

lemma fenced_lease_change:
  assumes "row_ok now r" "lease_fence l r" "now \<le> now'"
    and "i_effect_started_at r = None \<Longrightarrow>
      effect = None \<or> (\<exists>t. effect = Some t \<and> now \<le> t \<and> t \<le> now')"
    and "i_effect_started_at r \<noteq> None \<Longrightarrow> effect = i_effect_started_at r"
  shows "inbox_move r (r\<lparr>i_effect_started_at := effect, i_updated_at := u\<rparr>)
    \<and> row_ok now' (r\<lparr>i_effect_started_at := effect, i_updated_at := u\<rparr>)"
  using assms by (cases "i_effect_started_at r")
    (auto simp: row_defs lease_fence_def split: option.splits)

text \<open>The lease of a row ends with status \<open>st\<close> and the given error columns.\<close>

definition end_ok :: "inbox_status \<Rightarrow> pystr option \<Rightarrow> pystr option \<Rightarrow> time option \<Rightarrow> bool" where
  "end_ok st code summary effect =
     (st \<noteq> IS_LEASED \<and> st \<noteq> IS_PENDING
      \<and> (if st = IS_RETRY_WAIT \<or> st = IS_DEAD_LETTER \<or> st = IS_MANUAL_REVIEW
         then ck_error_columns code summary else code = None \<and> summary = None)
      \<and> (effect \<noteq> None \<longrightarrow> st = IS_COMPLETED \<or> st = IS_MANUAL_REVIEW))"

lemma fail_row_kept:
  assumes "row_ok now r" "lease_fence l r" "now \<le> now'"
    "end_ok st code summary (i_effect_started_at r)"
    "i_attempts r \<le> attempts" "attempts \<le> POSTGRES_BIGINT_MAX"
    "st = IS_RETRY_WAIT \<Longrightarrow> attempts \<le> MAX_RETRIES"
  shows "inbox_move r (fail_row st attempts b code summary t u r)
    \<and> row_ok now' (fail_row st attempts b code summary t u r)"
  using assms
  by (auto simp: row_defs lease_fence_def fail_row_def end_ok_def split: option.splits if_splits)

lemma end_lease_kept:
  assumes "row_ok now r" "lease_fence l r" "now \<le> now'"
    "end_ok st code summary (i_effect_started_at r)"
  shows "inbox_move r (r\<lparr>i_status := st, i_lease_owner := None, i_lease_until := None,
       i_lease_session_id := None, i_safe_error_code := code, i_safe_error_summary := summary,
       i_updated_at := u\<rparr>)
    \<and> row_ok now' (r\<lparr>i_status := st, i_lease_owner := None, i_lease_until := None,
       i_lease_session_id := None, i_safe_error_code := code, i_safe_error_summary := summary,
       i_updated_at := u\<rparr>)"
  using assms by (auto simp: row_defs lease_fence_def end_ok_def split: option.splits if_splits)

lemma next_attempts_bounds:
  "0 \<le> a \<Longrightarrow> a \<le> POSTGRES_BIGINT_MAX \<Longrightarrow>
     a \<le> next_attempts a \<and> next_attempts a \<le> POSTGRES_BIGINT_MAX"
  by (simp add: next_attempts_def)

section \<open>The failure table fits the columns\<close>

definition verdict_ok :: "failure_verdict \<Rightarrow> bool" where
  "verdict_ok v = ck_error_columns (Some (fd_safe_code v)) (Some (fd_safe_summary v))"

lemma verdict_ok_failure:
  "verdict_ok (failure st code summary) \<longleftrightarrow>
     list_ex (\<lambda>c. c \<noteq> 32) (lit code) \<and> length code \<le> 64
     \<and> list_ex (\<lambda>c. c \<noteq> 32) (lit summary) \<and> length summary \<le> 256"
  by (simp add: verdict_ok_def ck_error_columns_def pg_not_blank_def failure_def)

lemma verdict_ok_constants [simp]:
  "verdict_ok EFFECT_UNKNOWN" "verdict_ok MANUAL_REVIEW_DECISION" "verdict_ok DATABASE_TRANSIENT"
  "verdict_ok DATABASE_FAILURE" "verdict_ok LEASE_EXPIRED" "verdict_ok STALE_OWNERSHIP"
  by (simp_all add: verdict_ok_failure EFFECT_UNKNOWN_def MANUAL_REVIEW_DECISION_def
    DATABASE_TRANSIENT_def DATABASE_FAILURE_def LEASE_EXPIRED_def STALE_OWNERSHIP_def lit_def)

lemma verdict_ok_table [simp]: "verdict_ok (FAILURE_DECISIONS k)"
  by (cases k) (simp_all add: verdict_ok_failure lit_def)

lemma verdict_ok_demote [simp]: "verdict_ok (demote v) = verdict_ok v"
  by (simp add: verdict_ok_def demote_def)

lemma verdict_ok_failure_decision [simp]: "verdict_ok (failure_decision err)"
  by (cases err) (simp_all add: UNKNOWN_FAILURE_def del: FAILURE_DECISIONS.simps)

lemma effect_unknown_status [simp]: "fd_status EFFECT_UNKNOWN = DS_MANUAL_REVIEW"
  by (simp add: EFFECT_UNKNOWN_def failure_def)

lemma stale_ownership_status [simp]: "fd_status STALE_OWNERSHIP = DS_MANUAL_REVIEW"
  by (simp add: STALE_OWNERSHIP_def failure_def)

lemma lease_expired_status [simp]: "fd_status LEASE_EXPIRED = DS_RETRY_WAIT"
  by (simp add: LEASE_EXPIRED_def failure_def)

lemma demote_status [simp]: "fd_status (demote v) = DS_DEAD_LETTER"
  by (simp add: demote_def)

lemma inbox_status_of_failed [simp]:
  "inbox_status_of s \<noteq> IS_LEASED" "inbox_status_of s \<noteq> IS_COMPLETED"
  "inbox_status_of s \<noteq> IS_PENDING"
  "inbox_status_of s = IS_MANUAL_REVIEW \<longleftrightarrow> s = DS_MANUAL_REVIEW"
  "inbox_status_of s = IS_RETRY_WAIT \<longleftrightarrow> s = DS_RETRY_WAIT"
  by (cases s; simp)+

lemma end_ok_verdict:
  "verdict_ok v \<Longrightarrow> (effect \<noteq> None \<Longrightarrow> fd_status v = DS_MANUAL_REVIEW) \<Longrightarrow>
     end_ok (inbox_status_of (fd_status v)) (Some (fd_safe_code v)) (Some (fd_safe_summary v)) effect"
  by (cases "fd_status v"; cases effect) (auto simp: end_ok_def verdict_ok_def)

end
