(* ===== verification/InboxSteps.thy ===== *)
theory InboxSteps
  imports InboxInvariants
begin

text \<open>
  Every transaction of the inbox repository keeps the store's invariant and moves both
  tables only as their triggers allow; one lemma per transaction, in the order of the code.
\<close>

section \<open>Lease operations\<close>

lemma not_blank_stripped:
  assumes "s \<noteq> []" "s = strip s"
  shows "pg_not_blank s"
proof (rule ccontr)
  assume "\<not> pg_not_blank s"
  then have "dropWhile py_isspace s = []"
    by (auto simp: pg_not_blank_def list_ex_iff dropWhile_eq_Nil_conv py_isspace_def)
  then have "strip s = []"
    unfolding strip_def lstrip_def by (metis dropWhile.simps(1) rev.simps(1))
  with assms show False by simp
qed

lemma renew_kept:
  assumes "renew env l n d = Inr (x, d')" "store_ok now d" "env_ok now env now' d"
  shows "kept now' d d'"
proof -
  let ?p = "\<lambda>r. lease_fence l r \<and> lease_live (clk env 0) r
    \<and> has_owner LEASE_OWNERSHIP_STATES d r \<and> has_runtime (clk env 1) d r"
  let ?f = "\<lambda>r. r\<lparr>i_lease_until := map_option (\<lambda>until. max (until + 1)
    (clk env 2 + seconds n)) (i_lease_until r), i_updated_at := clk env 3\<rparr>"
  have "d' = update_inbox ?p ?f d"
    using assms(1) by (auto simp: renew_def Let_def and_then_Inr split: option.splits)
  moreover have "kept now' d (update_inbox ?p ?f d)"
    by (rule kept_inbox [OF assms(2) env_okD(1) [OF assms(3)]])
      (use env_okD(1) [OF assms(3)] in
        \<open>auto simp: row_defs lease_fence_def split: option.splits\<close>)
  ultimately show ?thesis by simp
qed

lemma begin_effect_kept:
  assumes "begin_effect env l d = Inr (x, d')" "store_ok now d" "env_ok now env now' d"
  shows "kept now' d d'"
proof -
  let ?p = "\<lambda>r. lease_fence l r \<and> lease_live (clk env 0) r
    \<and> has_owner LEASE_OWNERSHIP_STATES d r"
  let ?f = "\<lambda>r. r\<lparr>i_effect_started_at := (case i_effect_started_at r of
    None \<Rightarrow> Some (clk env 1) | Some t \<Rightarrow> Some t), i_updated_at := clk env 2\<rparr>"
  have "d' = update_inbox ?p ?f d"
    using assms(1) by (simp add: begin_effect_def Let_def)
  moreover have "kept now' d (update_inbox ?p ?f d)"
    by (rule kept_inbox [OF assms(2) env_okD(1) [OF assms(3)]])
      (use fenced_lease_change [of now _ l now'] env_okD [OF assms(3)] in
        \<open>simp split: option.split\<close>)
  ultimately show ?thesis by simp
qed

lemma complete_kept:
  assumes "complete env l d = Inr (x, d')" "store_ok now d" "env_ok now env now' d"
  shows "kept now' d d'"
proof -
  let ?p = "\<lambda>r. lease_fence l r \<and> lease_live (clk env 0) r
    \<and> has_owner LEASE_OWNERSHIP_STATES d r"
  let ?f = "\<lambda>r. r\<lparr>i_status := IS_COMPLETED, i_lease_owner := None, i_lease_until := None,
    i_lease_session_id := None, i_safe_error_code := None, i_safe_error_summary := None,
    i_updated_at := clk env 1\<rparr>"
  have "kept now' d (update_inbox ?p ?f d)"
    by (rule kept_inbox [OF assms(2) env_okD(1) [OF assms(3)]])
      (use end_lease_kept [of now _ l now' IS_COMPLETED None None] env_okD(1) [OF assms(3)] in
        \<open>simp add: end_ok_def\<close>)
  moreover have "inbox d' = inbox (update_inbox ?p ?f d) \<and> emails d' = emails (update_inbox ?p ?f d)"
    using assms(1)
    by (auto simp: complete_def Let_def and_then_Inr split: option.splits dest!: append_audit_store)
  ultimately show ?thesis by (blast intro: kept_cong)
qed

lemma claimable_row:
  assumes "i_id r \<in> set (claimable env session worker ps accounts n d)" "r \<in> set (inbox d)"
    "store_ok now d"
  shows "claim_ready (clk env 1) ps d r" "session_runtime (clk env 1) session worker d r"
    "i_account_id r \<in> set accounts" "\<not> inbox_locked env (i_id r)"
proof -
  obtain s where s: "s \<in> set (inbox d)" "i_id s = i_id r" "claim_ready (clk env 1) ps d s"
    "session_runtime (clk env 1) session worker d s" "i_account_id s \<in> set accounts"
    "\<not> inbox_locked env (i_id s)"
    using assms(1) by (auto simp: claimable_def dest!: in_set_takeD)
  with inbox_row_unique [OF assms(3) s(1) assms(2)] show "claim_ready (clk env 1) ps d r"
    "session_runtime (clk env 1) session worker d r"
    "i_account_id r \<in> set accounts" "\<not> inbox_locked env (i_id r)" by simp_all
qed

lemma lease_row_kept:
  assumes "row_ok now r" "i_status r = IS_PENDING \<or> i_status r = IS_RETRY_WAIT"
    "valid_exact_text 128 worker" "now \<le> now'" "clk env 1 \<le> now'"
  shows "inbox_move r (lease_row env session worker n r)
    \<and> row_ok now' (lease_row env session worker n r)"
  using assms not_blank_stripped [of worker]
  by (auto simp: row_defs lease_row_def valid_exact_text_def split: option.splits)

lemma claim_batch_store:
  assumes "claim_batch env worker session names limit n d = Inr (ls, d')"
  obtains "d' = d"
  | ps accounts where "d' = update_inbox
        (\<lambda>r. i_id r \<in> set (claimable env session worker ps accounts (nat limit) d))
        (lease_row env session worker n) d"
      "valid_exact_text 128 worker"
  using assms by (auto simp: claim_batch_def Let_def and_then_Inr split: if_splits)

lemma claim_batch_kept:
  assumes "claim_batch env worker session names limit n d = Inr (ls, d')"
    "store_ok now d" "env_ok now env now' d"
  shows "kept now' d d'"
  using assms(1)
proof (cases rule: claim_batch_store)
  case 1
  with assms(2,3) show ?thesis by (simp add: kept_refl env_okD(1))
next
  case (2 ps accounts)
  have "kept now' d (update_inbox
      (\<lambda>r. i_id r \<in> set (claimable env session worker ps accounts (nat limit) d))
      (lease_row env session worker n) d)"
  proof (rule kept_inbox [OF assms(2) env_okD(1) [OF assms(3)]])
    fix r assume r: "r \<in> set (inbox d)" "row_ok now r"
      "i_id r \<in> set (claimable env session worker ps accounts (nat limit) d)"
    have "i_status r = IS_PENDING \<or> i_status r = IS_RETRY_WAIT"
      using claimable_row(1) [OF r(3,1) assms(2)] by (auto simp: claim_ready_def)
    from lease_row_kept [OF r(2) this 2(2) env_okD(1) [OF assms(3)] env_okD(3) [OF assms(3)]]
    show "inbox_move r (lease_row env session worker n r)
        \<and> i_execution_epoch (lease_row env session worker n r) = i_execution_epoch r
        \<and> row_ok now' (lease_row env session worker n r)"
      by (simp add: lease_row_def)
  qed
  with 2(1) show ?thesis by simp
qed

lemma fail_verdict_ok [simp]: "verdict_ok (fail_verdict err effect a)"
  by (simp add: fail_verdict_def Let_def)

lemma fail_verdict_effect:
  "effect \<noteq> None \<Longrightarrow> fd_status (fail_verdict err effect a) = DS_MANUAL_REVIEW"
  by (simp add: fail_verdict_def)

lemma fail_verdict_retry:
  "fd_status (fail_verdict err effect a) = DS_RETRY_WAIT \<Longrightarrow> next_attempts a \<le> MAX_RETRIES"
  by (auto simp: fail_verdict_def Let_def split: if_splits)

lemma fenced_bounds:
  "row_ok now r \<Longrightarrow> lease_fence l r \<Longrightarrow>
     i_attempts r \<le> next_attempts (l_attempts l) \<and> next_attempts (l_attempts l) \<le> POSTGRES_BIGINT_MAX"
  using next_attempts_bounds [of "i_attempts r"]
  by (auto simp: row_ok_def ck_event_inbox_def lease_fence_def)

lemma fail_store:
  assumes "fail env l err d = Inr (x, d')"
  obtains selected p where "selected \<in> set (inbox d)" "lease_fence l selected"
    "\<And>r. p r \<Longrightarrow> lease_fence l r \<and> i_effect_started_at r = i_effect_started_at selected"
    "let v = fail_verdict err (i_effect_started_at selected) (i_attempts selected);
         d1 = update_inbox p (fail_row (inbox_status_of (fd_status v))
           (next_attempts (i_attempts selected))
           (if fd_status v = DS_RETRY_WAIT then backoff_seconds (i_attempts selected) else 0)
           (Some (fd_safe_code v)) (Some (fd_safe_summary v)) (clk env 2) (clk env 3)) d
     in inbox d' = inbox d1 \<and> emails d' = emails d1"
proof -
  from assms obtain selected where sel:
    "select_one (\<lambda>r. lease_fence l r \<and> lease_live (clk env 0) r
         \<and> has_owner LEASE_OWNERSHIP_STATES d r) (inbox d) = Some selected"
    by (auto simp: fail_def and_then_Inr)
  have in_set: "selected \<in> set (inbox d)" "lease_fence l selected"
    using select_one_SomeD [OF sel] by auto
  show thesis
    by (rule that [of selected "\<lambda>r. lease_fence l r
        \<and> i_effect_started_at r = i_effect_started_at selected
        \<and> lease_live (clk env 1) r \<and> has_owner LEASE_OWNERSHIP_STATES d r"])
      (use assms in_set in \<open>auto simp: fail_def sel Let_def and_then_Inr
          split: if_splits dest!: append_audit_store\<close>)
qed

lemma fail_kept:
  assumes "fail env l err d = Inr (x, d')" "store_ok now d" "env_ok now env now' d"
  shows "kept now' d d'"
  using assms(1)
proof (cases rule: fail_store)
  case (1 selected p)
  let ?v = "fail_verdict err (i_effect_started_at selected) (i_attempts selected)"
  let ?f = "fail_row (inbox_status_of (fd_status ?v)) (next_attempts (i_attempts selected))
    (if fd_status ?v = DS_RETRY_WAIT then backoff_seconds (i_attempts selected) else 0)
    (Some (fd_safe_code ?v)) (Some (fd_safe_summary ?v)) (clk env 2) (clk env 3)"
  have a: "i_attempts selected = l_attempts l" using 1(2) by (simp add: lease_fence_def)
  have "kept now' d (update_inbox p ?f d)"
  proof (rule kept_inbox [OF assms(2) env_okD(1) [OF assms(3)]])
    fix r assume r: "r \<in> set (inbox d)" "p r" "row_ok now r"
    have fence: "lease_fence l r" "i_effect_started_at r = i_effect_started_at selected"
      using 1(3) [OF r(2)] by auto
    have "end_ok (inbox_status_of (fd_status ?v)) (Some (fd_safe_code ?v))
        (Some (fd_safe_summary ?v)) (i_effect_started_at r)"
      by (rule end_ok_verdict) (auto simp: fence(2) fail_verdict_effect)
    from fail_row_kept [OF r(3) fence(1) env_okD(1) [OF assms(3)] this,
        of "next_attempts (l_attempts l)"] fenced_bounds [OF r(3) fence(1)] fail_verdict_retry
    show "inbox_move r (?f r) \<and> i_execution_epoch (?f r) = i_execution_epoch r
        \<and> row_ok now' (?f r)"
      by (simp add: a fail_row_def)
  qed
  with 1(4) show ?thesis unfolding Let_def by (blast intro: kept_cong)
qed

section \<open>Admission\<close>

lemma owner_is_create_grow:
  "owner_is_create d e \<Longrightarrow> set (inbox d) \<subseteq> set (inbox d') \<Longrightarrow> owner_is_create d' e"
  by (auto simp: owner_is_create_def list_ex_iff)

lemma kept_insert_inbox:
  assumes "store_ok now d" "now \<le> now'" "row_ok now' r" "i_id r \<notin> set (map i_id (inbox d))"
    "i_dedupe_key r \<notin> set (map i_dedupe_key (inbox d))"
  shows "kept now' d (d\<lparr>inbox := inbox d @ [r]\<rparr>)"
proof -
  have "owner_is_create (d\<lparr>inbox := inbox d @ [r]\<rparr>) e" if "e \<in> set (emails d)" for e
    using store_okD(3) [OF assms(1) that] by (rule owner_is_create_grow) auto
  with assms have "store_ok now' (d\<lparr>inbox := inbox d @ [r]\<rparr>)"
    by (auto simp: store_ok_def list_all_iff intro: row_ok_mono)
  then show ?thesis by (auto simp: kept_def guarded_def intro: rows_step_extend)
qed

lemma duplicate_receipt_None:
  "duplicate_receipt ev d = Inr None \<Longrightarrow> ev_dedupe_key ev \<notin> set (map i_dedupe_key (inbox d))"
  by (auto simp: duplicate_receipt_def select_one_None and_then_Inr split: option.splits)

lemma fresh_row_ok:
  "st = IS_COMPLETED \<or> st = IS_PENDING \<Longrightarrow> row_ok now (fresh_inbox_row env ev p g f st c)"
  by (auto simp: row_defs fresh_inbox_row_def MAX_RETRIES_def)

lemma admit_event_store:
  assumes "admit_event env ev p g f d = Inr (x, d')"
  shows "\<exists>st c. (st = IS_COMPLETED \<or> st = IS_PENDING)
    \<and> inbox d' = inbox d @ [fresh_inbox_row env ev p g f st c] \<and> emails d' = emails d"
  using assms
  by (auto simp: admit_event_def and_then_Inr Let_def split: if_splits dest!: append_audit_store)
    blast+

lemma insert_event_cases:
  assumes "insert_event env ev g f d = Inr (x, d')"
  obtains (duplicate) "duplicate_receipt ev d = Inr (Some x)" "d' = d"
  | (fresh) p where "duplicate_receipt ev d = Inr None" "admit_event env ev p g f d = Inr (x, d')"
proof -
  from assms obtain dup and owner :: ownership_row
    where dup: "duplicate_receipt ev d = Inr dup"
    and rest: "(case dup of Some receipt \<Rightarrow> Inr (receipt, d)
      | None \<Rightarrow> admit_event env ev (o_pipeline_name owner) g f d) = Inr (x, d')"
    unfolding insert_event_def by (elim and_thenE) (erule (1) that)
  show thesis
  proof (cases dup)
    case None
    with dup rest show thesis by (intro fresh) simp_all
  next
    case (Some receipt)
    with dup rest show thesis by (intro duplicate) simp_all
  qed
qed

lemma insert_event_kept:
  assumes "insert_event env ev g f d = Inr (x, d')" "store_ok now d" "env_ok now env now' d"
  shows "kept now' d d'"
  using assms(1)
proof (cases rule: insert_event_cases)
  case duplicate
  with assms(2,3) show ?thesis by (simp add: kept_refl env_okD(1))
next
  case (fresh p)
  from admit_event_store [OF fresh(2)] obtain st c where
    st: "st = IS_COMPLETED \<or> st = IS_PENDING" and
    d': "inbox d' = inbox d @ [fresh_inbox_row env ev p g f st c]" "emails d' = emails d"
    by blast
  let ?r = "fresh_inbox_row env ev p g f st c"
  have "kept now' d (d\<lparr>inbox := inbox d @ [?r]\<rparr>)"
  proof (rule kept_insert_inbox [OF assms(2) env_okD(1) [OF assms(3)]])
    show "row_ok now' ?r" using st by (rule fresh_row_ok)
    show "i_id ?r \<notin> set (map i_id (inbox d))"
      using assms(3) by (simp add: env_ok_def fresh_inbox_row_def)
    show "i_dedupe_key ?r \<notin> set (map i_dedupe_key (inbox d))"
      using duplicate_receipt_None [OF fresh(1)] by (simp add: fresh_inbox_row_def)
  qed
  then show ?thesis by (rule kept_cong) (simp_all add: d')
qed

section \<open>Beginning an effect\<close>

lemma owner_is_create_same:
  assumes "email_identity r s" "e_processing_inbox_id s = e_processing_inbox_id r"
    "e_processing_execution_epoch s = e_processing_execution_epoch r"
  shows "owner_is_create d s = owner_is_create d r"
proof -
  have "owner_row s = owner_row r"
    using assms by (intro ext) (simp add: owner_row_def email_identity_def)
  with assms(2) show ?thesis by (simp add: owner_is_create_def)
qed

lemma owner_is_create_free: "e_processing_inbox_id e = None \<Longrightarrow> owner_is_create d e"
  by (simp add: owner_is_create_def)

lemmas email_defs = email_move_def guard_emails_def email_identity_def ck_emails_def ck_emails_processing_state_def
  epoch_advanced_def owner_cleared_def

lemma mark_email_kept:
  assumes "ck_emails e" "owner_is_create d e" "e_status e = ES_PROCESSING"
  shows "let s = e\<lparr>e_external_effects_started_at := (case e_external_effects_started_at e of
           None \<Rightarrow> Some t | Some u \<Rightarrow> Some u), e_updated_at := v\<rparr>
    in email_move e s \<and> ck_emails s \<and> owner_is_create d s"
proof -
  let ?s = "e\<lparr>e_external_effects_started_at := (case e_external_effects_started_at e of
      None \<Rightarrow> Some t | Some u \<Rightarrow> Some u), e_updated_at := v\<rparr>"
  have "owner_is_create d ?s"
    using assms(2) owner_is_create_same [of e ?s d] by (simp add: email_identity_def)
  moreover have "email_move e ?s \<and> ck_emails ?s"
    using assms(1,3) by (auto simp: email_defs split: option.splits)
  ultimately show ?thesis by (simp add: Let_def)
qed

lemma mark_row_kept:
  assumes "row_ok now r" "lease_fence l r" "now \<le> t" "t \<le> now'"
  shows "inbox_move r (r\<lparr>i_effect_started_at := (case i_effect_started_at r of
      None \<Rightarrow> Some t | Some u \<Rightarrow> Some u), i_updated_at := v\<rparr>)
    \<and> row_ok now' (r\<lparr>i_effect_started_at := (case i_effect_started_at r of
      None \<Rightarrow> Some t | Some u \<Rightarrow> Some u), i_updated_at := v\<rparr>)"
  by (rule fenced_lease_change [OF assms(1,2)]) (use assms in \<open>auto split: option.split\<close>)

lemma begin_processing_effect_store:
  assumes "begin_processing_effect_transaction env l email_id v kind d = Inr d'"
  obtains "d' = d"
  | pe pr where "\<And>e. pe e \<Longrightarrow> attempt_email l email_id v e" "\<And>r. pr r \<Longrightarrow> lease_fence l r"
     "d' = update_inbox pr (\<lambda>r. r\<lparr>i_effect_started_at := (case i_effect_started_at r of
             None \<Rightarrow> Some (clk env 2) | Some t \<Rightarrow> Some t), i_updated_at := clk env 2\<rparr>)
           (update_emails pe (\<lambda>r. r\<lparr>e_external_effects_started_at :=
             (case e_external_effects_started_at r of
                None \<Rightarrow> Some (clk env 2) | Some t \<Rightarrow> Some t), e_updated_at := clk env 2\<rparr>) d)"
proof -
  let ?pe = "\<lambda>r. attempt_email l email_id v r \<and> e_owner_generation r = l_generation l
    \<and> e_owner_fencing_token r = l_fencing_token l"
  let ?pr = "\<lambda>r. lease_fence l r \<and> lease_live (clk env 3) r \<and> has_runtime (clk env 4) d r"
  have "d' = d \<or> d' = update_inbox ?pr (\<lambda>r. r\<lparr>i_effect_started_at := (case i_effect_started_at r of
             None \<Rightarrow> Some (clk env 2) | Some t \<Rightarrow> Some t), i_updated_at := clk env 2\<rparr>)
           (update_emails ?pe (\<lambda>r. r\<lparr>e_external_effects_started_at :=
             (case e_external_effects_started_at r of
                None \<Rightarrow> Some (clk env 2) | Some t \<Rightarrow> Some t), e_updated_at := clk env 2\<rparr>) d)"
    using assms unfolding begin_processing_effect_transaction_def Let_def
    by (auto simp only: and_then_Inr split: prod.splits if_splits)
  then show thesis
  proof
    assume "d' = d" then show thesis by (rule that(1))
  qed (rule that(2) [of ?pe ?pr], simp_all)
qed

lemma begin_processing_effect_kept:
  assumes "begin_processing_effect env l email_id v kind d = Inr (x, d')"
    "store_ok now d" "env_ok now env now' d"
  shows "kept now' d d'"
proof -
  have trans: "kept now' d d1"
    if "begin_processing_effect_transaction env l email_id v kind d = Inr d1" for d1
    using that
  proof (cases rule: begin_processing_effect_store)
    case 1
    with assms(2,3) show ?thesis by (simp add: kept_refl env_okD(1))
  next
    case (2 pe pr)
    let ?fe = "\<lambda>r. r\<lparr>e_external_effects_started_at := (case e_external_effects_started_at r of
      None \<Rightarrow> Some (clk env 2) | Some t \<Rightarrow> Some t), e_updated_at := clk env 2\<rparr>"
    let ?fr = "\<lambda>r. r\<lparr>i_effect_started_at := (case i_effect_started_at r of
      None \<Rightarrow> Some (clk env 2) | Some t \<Rightarrow> Some t), i_updated_at := clk env 2\<rparr>"
    have emails_kept: "kept now d (update_emails pe ?fe d)"
      by (rule kept_emails [OF assms(2) order_refl])
        (use mark_email_kept in \<open>auto simp: Let_def attempt_email_def dest!: 2(1)\<close>)
    moreover have "kept now' (update_emails pe ?fe d) (update_inbox pr ?fr (update_emails pe ?fe d))"
      by (rule kept_inbox)
        (use emails_kept mark_row_kept [OF _ 2(2) env_okD(2,3) [OF assms(3)]]
            env_okD(1) [OF assms(3)] in \<open>auto simp: kept_def\<close>)
    moreover have "kept now' d (update_emails pe ?fe d)"
      using emails_kept env_okD(1) [OF assms(3)] by (auto simp: kept_def intro: store_ok_mono)
    ultimately show ?thesis using 2(3) by (auto intro: kept_both)
  qed
  from assms(1) consider
      "begin_processing_effect_transaction env l email_id v kind d = Inr d'" | "d' = d"
    by (auto simp: begin_processing_effect_def and_then_Inr
        split: sum.splits repo_error.splits)
  then show ?thesis
    using trans assms(2,3) by cases (auto simp: kept_refl env_okD(1))
qed

section \<open>Ending an attempt\<close>

definition resolution_ok :: "time option \<Rightarrow> processing_resolution \<Rightarrow> bool" where
  "resolution_ok effect rs =
     ((rs_email_status rs, rs_inbox_status rs) \<in> set FINISH_PAIRS
      \<and> end_ok (rs_inbox_status rs) (rs_safe_code rs) (rs_safe_summary rs) effect
      \<and> (rs_inbox_status rs = IS_RETRY_WAIT \<longrightarrow> rs_attempts rs \<le> MAX_RETRIES))"

lemma ended_email_kept:
  assumes "ck_emails e" "owner_is_create d e" "e_processing_inbox_id e \<noteq> None"
    "e_status e \<noteq> ES_INGESTED" "resolution_ok effect rs"
  shows "email_move e (finished_email env rs e) \<and> ck_emails (finished_email env rs e)
      \<and> owner_is_create d (finished_email env rs e)"
    and "rs_inbox_status rs \<noteq> IS_COMPLETED \<Longrightarrow>
      email_move e (failed_email env rs e) \<and> ck_emails (failed_email env rs e)
      \<and> owner_is_create d (failed_email env rs e)"
proof -
  have "owner_is_create d (failed_email env rs e)"
    using assms(2) owner_is_create_same [of e "failed_email env rs e" d]
    by (simp add: failed_email_def email_identity_def)
  moreover have "email_move e (failed_email env rs e) \<and> ck_emails (failed_email env rs e)"
    if "rs_inbox_status rs \<noteq> IS_COMPLETED"
    using assms(1,3,4,5) that
    by (auto simp: email_defs failed_email_def resolution_ok_def FINISH_PAIRS_def end_ok_def
        split: option.splits if_splits)
  ultimately show failed: "rs_inbox_status rs \<noteq> IS_COMPLETED \<Longrightarrow>
      email_move e (failed_email env rs e) \<and> ck_emails (failed_email env rs e)
      \<and> owner_is_create d (failed_email env rs e)" by blast
  show "email_move e (finished_email env rs e) \<and> ck_emails (finished_email env rs e)
      \<and> owner_is_create d (finished_email env rs e)"
  proof (cases "rs_inbox_status rs = IS_COMPLETED")
    case True
    then have "owner_is_create d (finished_email env rs e)"
      by (intro owner_is_create_free) (simp add: finished_email_def)
    moreover have "email_move e (finished_email env rs e) \<and> ck_emails (finished_email env rs e)"
      using assms(1,3,4,5) True
      by (auto simp: email_defs finished_email_def resolution_ok_def FINISH_PAIRS_def end_ok_def
          split: option.splits if_splits)
    ultimately show ?thesis by blast
  next
    case False
    then have "finished_email env rs e = failed_email env rs e"
      by (simp add: finished_email_def failed_email_def)
    with failed [OF False] show ?thesis by simp
  qed
qed

lemma append_result_receipt_store:
  "append_result_receipt row d = Inr d' \<Longrightarrow> inbox d' = inbox d \<and> emails d' = emails d"
  by (auto simp: append_result_receipt_def Let_def and_then_Inr)

lemma settle_cases:
  assumes "settle env l email_id v operation rs c e state row fe fr d = Inr (x, d')"
  obtains (replay) "d' = d" "assert_replay_state l e row v operation rs = Inr ()"
      "finish_result rs True = Inr x"
      "load_result_receipt (result_receipt env (uuid4 env 0) l email_id v operation rs c) d = Inr True"
  | (fresh) "settle_fresh env l email_id v
      (result_receipt env (uuid4 env 0) l email_id v operation rs c) rs e state row fe fr d
      = Inr (x, d')"
      "load_result_receipt (result_receipt env (uuid4 env 0) l email_id v operation rs c) d = Inr False"
proof (cases "load_result_receipt (result_receipt env (uuid4 env 0) l email_id v operation rs c) d")
  case (Inr replayed)
  with assms that show thesis
    by (cases replayed) (auto simp: settle_def and_then_Inr)
qed (use assms in \<open>simp add: settle_def\<close>)

lemma settle_fresh_store:
  assumes "settle_fresh env l email_id v receipt rs e state row fe fr d = Inr (x, d')"
  obtains pe :: "email_row \<Rightarrow> bool" and d1 where "\<And>r. pe r \<Longrightarrow> attempt_email l email_id v r"
    "d1 = update_inbox (lease_fence l) fr (update_emails pe fe d)"
    "append_result_receipt receipt d1 = Inr d'" "finish_result rs False = Inr x"
    "require_authorized_processing_attempt env l e row v state True d = Inr ()"
  using assms unfolding settle_fresh_def Let_def
  by (elim and_thenE) (rule that [of "\<lambda>r. attempt_email l email_id v r \<and> e_version r < POSTGRES_BIGINT_MAX",
      OF _ refl], simp_all)

lemma settle_kept:
  assumes "settle env l email_id v operation rs c e state row fe fr d = Inr (x, d')"
    "store_ok now d" "now \<le> now'"
    and email: "\<And>s. ck_emails s \<Longrightarrow> owner_is_create d s \<Longrightarrow> attempt_email l email_id v s \<Longrightarrow>
      email_move s (fe s) \<and> ck_emails (fe s) \<and> owner_is_create d (fe s)"
    and row: "\<And>r. r \<in> set (inbox d) \<Longrightarrow> lease_fence l r \<Longrightarrow> row_ok now r \<Longrightarrow>
      inbox_move r (fr r) \<and> i_execution_epoch (fr r) = i_execution_epoch r \<and> row_ok now' (fr r)"
  shows "kept now' d d'"
proof -
  from assms(1) show ?thesis
  proof (cases rule: settle_cases)
    case replay
    with assms(2,3) show ?thesis by (simp add: kept_refl)
  next
    case fresh
    from fresh(1) obtain pe :: "email_row \<Rightarrow> bool" and d1
      where pe: "\<And>r. pe r \<Longrightarrow> attempt_email l email_id v r"
      and d1: "d1 = update_inbox (lease_fence l) fr (update_emails pe fe d)"
        "append_result_receipt (result_receipt env (uuid4 env 0) l email_id v operation rs c) d1
          = Inr d'"
      by (rule settle_fresh_store) (rule that)
    have "kept now d (update_emails pe fe d)"
      by (rule kept_emails [OF assms(2) order_refl]) (use email pe in blast)
    then have emails_kept: "store_ok now (update_emails pe fe d)"
      "kept now' d (update_emails pe fe d)"
      using assms(3) by (auto simp: kept_def intro: store_ok_mono)
    have "kept now' (update_emails pe fe d) (update_inbox (lease_fence l) fr (update_emails pe fe d))"
      by (rule kept_inbox [OF emails_kept(1) assms(3)]) (use row in auto)
    with emails_kept(2) have "kept now' d (update_inbox (lease_fence l) fr (update_emails pe fe d))"
      by (auto intro: kept_both)
    then show ?thesis
      by (rule kept_cong) (use append_result_receipt_store [OF d1(2)] d1(1) in auto)
  qed
qed

lemma lock_processing_inboxD:
  assumes "lock_processing_inbox env now l d = Inr (Some row)"
  shows "\<exists>r\<in>set (inbox d). i_id r = l_id l \<and> pi_effect_started_at row = i_effect_started_at r
    \<and> pi_status row = i_status r \<and> pi_attempts row = i_attempts r
    \<and> pi_lease_active row = lease_live now r"
  using assms
  by (auto simp: lock_processing_inbox_def and_then_Inr processing_inbox_row_def
      split: option.splits if_splits dest!: select_one_SomeD)

lemma email_from_row_id: "email_from_row r = Inr e \<Longrightarrow> e = r"
  by (simp add: email_from_row_def split: if_splits)

lemma lock_processing_emailD:
  assumes "lock_processing_email l email_id d = Inr (Some e)"
  shows "e \<in> set (emails d) \<and> e_id e = email_id \<and> e_account_id e = l_account_id l
    \<and> e_external_email_id e = ev_external_email_id (l_event l)"
  using assms
  by (auto simp: lock_processing_email_def and_then_Inr split: option.splits
      dest!: select_one_SomeD email_from_row_id)

lemma lock_attemptD:
  assumes "lock_attempt env now l email_id ex d = Inr (e, state, row)"
  shows "lock_processing_email l email_id d = Inr (Some e)"
    and "lock_processing_inbox env now l d = Inr (Some row)"
    and "lock_processing_ownership (Some e) l ex d = Inr state"
  using assms by (auto simp: lock_attempt_def and_then_Inr)

lemma locked_effect:
  assumes "lock_processing_inbox env t l d = Inr (Some row)" "store_ok now d"
    "r \<in> set (inbox d)" "lease_fence l r"
  shows "i_effect_started_at r = pi_effect_started_at row"
proof -
  obtain s where "s \<in> set (inbox d)" "i_id s = l_id l"
    "pi_effect_started_at row = i_effect_started_at s"
    using lock_processing_inboxD [OF assms(1)] by blast
  moreover have "i_id r = l_id l" using assms(4) by (simp add: lease_fence_def)
  ultimately show ?thesis using inbox_row_unique [OF assms(2)] assms(3) by metis
qed

lemma append_intake_decision_store:
  "append_intake_decision env l dec st d = Inr d' \<Longrightarrow> inbox d' = inbox d \<and> emails d' = emails d"
  by (auto simp: append_intake_decision_def Let_def and_then_Inr split: option.splits if_splits)

text \<open>
  A completion whose error columns fit the tables: every completion the program builds.
\<close>

definition completion_ok :: "processing_completion \<Rightarrow> bool" where
  "completion_ok c =
     (is_ok (ProcessingCompletion c)
      \<and> (pc_target_status c = ES_MANUAL_REVIEW \<longrightarrow>
           ck_error_columns (pc_safe_error_code c) (pc_safe_error_summary c)))"

lemma completion_ok_classmethods [simp]:
  "completion_ok waiting_approval_completion" "completion_ok notified_readonly_completion"
  "completion_ok (no_action_completion i)" "completion_ok archived_completion"
  "completion_ok (manual_review_completion i)"
proof -
  show "completion_ok (manual_review_completion i)"
    unfolding completion_ok_def manual_review_completion_valid
    by (simp add: manual_review_completion_def ck_error_columns_def pg_not_blank_def lit_def)
qed (simp_all add: completion_ok_def, simp_all add: waiting_approval_completion_def
  notified_readonly_completion_def no_action_completion_def archived_completion_def
  success_completion_def)

lemma completion_targets:
  "is_ok (ProcessingCompletion c) \<Longrightarrow>
     (pc_target_status c, pc_processing_outcome c) \<in> set SUCCESS_PAIRS
     \<and> (pc_target_status c \<noteq> ES_MANUAL_REVIEW \<longrightarrow>
          pc_safe_error_code c = None \<and> pc_safe_error_summary c = None)"
  by (auto simp: ProcessingCompletion_def is_ok_def require_Inr_iff split: sum.splits if_splits)

lemma completion_resolution_ok:
  assumes "completion_ok c" "effect \<noteq> None \<Longrightarrow> started"
  shows "resolution_ok effect (completion_resolution l c started v)"
proof -
  have "(pc_target_status c, pc_processing_outcome c) \<in> set SUCCESS_PAIRS"
    using assms(1) completion_targets by (simp add: completion_ok_def)
  moreover have "ck_error_columns (Some (fd_safe_code EFFECT_UNKNOWN))
      (Some (fd_safe_summary EFFECT_UNKNOWN))"
    using verdict_ok_constants(1) by (simp add: verdict_ok_def)
  moreover have "ck_error_columns
      (Some (lit ''email.version_exhausted_before_nonterminal_completion''))
      (Some (lit ''Email processing version is exhausted''))"
    by (simp add: ck_error_columns_def pg_not_blank_def lit_def)
  ultimately show ?thesis
    using assms unfolding completion_ok_def
    by (cases effect) (auto simp: resolution_ok_def completion_resolution_def SUCCESS_PAIRS_def
        FINISH_PAIRS_def end_ok_def)
qed

lemma finish_email_processing_kept:
  assumes "finish_email_processing env l email_id v c d = Inr (x, d')"
    "store_ok now d" "env_ok now env now' d" "completion_ok c"
  shows "kept now' d d'"
proof -
  from assms(1) obtain e state row d1 where
    locked: "lock_attempt env (clk env 0) l email_id False d = Inr (e, state, row)"
    and intake: "append_intake_decision env l (pc_intake_decision c) (pc_target_status c) d = Inr d1"
    and settled: "settle env l email_id v SUCCESS_OPERATION
      (completion_resolution l c (pi_effect_started_at row \<noteq> None
         \<or> e_external_effects_started_at e \<noteq> None) v) (Some c) e state row
      (finished_email env (completion_resolution l c (pi_effect_started_at row \<noteq> None
         \<or> e_external_effects_started_at e \<noteq> None) v))
      (finished_inbox env (completion_resolution l c (pi_effect_started_at row \<noteq> None
         \<or> e_external_effects_started_at e \<noteq> None) v)) d1 = Inr (x, d')"
    by (auto simp: finish_email_processing_def and_then_Inr Let_def)
  let ?rs = "completion_resolution l c (pi_effect_started_at row \<noteq> None
    \<or> e_external_effects_started_at e \<noteq> None) v"
  note same = append_intake_decision_store [OF intake]
  have ok: "resolution_ok effect ?rs" if "effect = pi_effect_started_at row" for effect
    by (rule completion_resolution_ok [OF assms(4)]) (use that in simp)
  have "kept now' d1 d'"
  proof (rule settle_kept [OF settled])
    show "store_ok now d1" using same assms(2) by (simp add: store_ok_cong [of d1 d])
    show "now \<le> now'" by (rule env_okD(1) [OF assms(3)])
    show "email_move s (finished_email env ?rs s) \<and> ck_emails (finished_email env ?rs s)
        \<and> owner_is_create d1 (finished_email env ?rs s)"
      if "ck_emails s" "owner_is_create d1 s" "attempt_email l email_id v s" for s
      by (rule ended_email_kept(1)) (use that ok in \<open>auto simp: attempt_email_def\<close>)
    show "inbox_move r (finished_inbox env ?rs r)
        \<and> i_execution_epoch (finished_inbox env ?rs r) = i_execution_epoch r
        \<and> row_ok now' (finished_inbox env ?rs r)"
      if "r \<in> set (inbox d1)" "lease_fence l r" "row_ok now r" for r
      using end_lease_kept [OF that(3,2) env_okD(1) [OF assms(3)]]
        ok [OF locked_effect [OF lock_attemptD(2) [OF locked] assms(2) _ that(2)]] that(1) same
      by (simp add: finished_inbox_def resolution_ok_def)
  qed
  with same show ?thesis by (simp add: kept_def guarded_def)
qed

lemma failure_resolution_fields:
  "rs_inbox_status (resolution_for_failure_decision v l n hint) \<noteq> IS_COMPLETED"
  "rs_attempts (resolution_for_failure_decision v l n hint) = next_attempts (l_attempts l)"
  by (simp_all add: resolution_for_failure_decision_def Let_def)

lemma failure_resolution_ok:
  assumes "verdict_ok v" "effect \<noteq> None \<Longrightarrow> fd_status v = DS_MANUAL_REVIEW"
  shows "resolution_ok effect (resolution_for_failure_decision v l n hint)"
proof -
  let ?w = "if fd_status v = DS_RETRY_WAIT \<and> \<not> (next_attempts (l_attempts l) \<le> MAX_RETRIES
    \<and> n + 1 \<le> POSTGRES_BIGINT_MAX - 2) then demote v else v"
  have "end_ok (inbox_status_of (fd_status ?w)) (Some (fd_safe_code ?w))
      (Some (fd_safe_summary ?w)) effect"
    by (rule end_ok_verdict) (use assms in auto)
  moreover have "(email_status_of s, inbox_status_of s) \<in> set FINISH_PAIRS" for s
    by (cases s) (simp_all add: FINISH_PAIRS_def)
  ultimately show ?thesis
    by (simp add: resolution_ok_def resolution_for_failure_decision_def Let_def)
qed

lemma failed_inbox_kept:
  assumes "row_ok now r" "lease_fence l r" "now \<le> now'"
    "resolution_ok (i_effect_started_at r) rs" "rs_attempts rs = next_attempts (l_attempts l)"
  shows "inbox_move r (failed_inbox env rs r)
    \<and> i_execution_epoch (failed_inbox env rs r) = i_execution_epoch r
    \<and> row_ok now' (failed_inbox env rs r)"
proof -
  have "end_ok (rs_inbox_status rs) (rs_safe_code rs) (rs_safe_summary rs) (i_effect_started_at r)"
    "rs_inbox_status rs = IS_RETRY_WAIT \<Longrightarrow> next_attempts (l_attempts l) \<le> MAX_RETRIES"
    using assms(4,5) by (simp_all add: resolution_ok_def)
  from fail_row_kept [OF assms(1-3) this(1) _ _ this(2)] fenced_bounds [OF assms(1,2)]
  show ?thesis by (simp add: failed_inbox_def assms(5)) (simp add: fail_row_def)
qed

lemma finish_email_processing_failure_kept:
  assumes "finish_email_processing_failure env l email_id v err d = Inr (x, d')"
    "store_ok now d" "env_ok now env now' d"
  shows "kept now' d d'"
proof -
  from assms(1) obtain e state row where
    locked: "lock_attempt env (clk env 0) l email_id False d = Inr (e, state, row)"
    and settled: "settle env l email_id v FAILURE_OPERATION (failure_resolution err l e row v)
      None e state row (failed_email env (failure_resolution err l e row v))
      (failed_inbox env (failure_resolution err l e row v)) d = Inr (x, d')"
    by (auto simp: finish_email_processing_failure_def and_then_Inr Let_def)
  let ?rs = "failure_resolution err l e row v"
  have ok: "resolution_ok effect ?rs" if "effect = pi_effect_started_at row" for effect
    unfolding failure_resolution_def Let_def
    by (rule failure_resolution_ok) (use that in \<open>auto split: if_splits\<close>)
  have fields: "rs_inbox_status ?rs \<noteq> IS_COMPLETED" "rs_attempts ?rs = next_attempts (l_attempts l)"
    by (simp_all add: failure_resolution_def Let_def failure_resolution_fields)
  show ?thesis
  proof (rule settle_kept [OF settled assms(2) env_okD(1) [OF assms(3)]])
    show "email_move s (failed_email env ?rs s) \<and> ck_emails (failed_email env ?rs s)
        \<and> owner_is_create d (failed_email env ?rs s)"
      if "ck_emails s" "owner_is_create d s" "attempt_email l email_id v s" for s
      by (rule ended_email_kept(2)) (use that ok fields in \<open>auto simp: attempt_email_def\<close>)
    show "inbox_move r (failed_inbox env ?rs r)
        \<and> i_execution_epoch (failed_inbox env ?rs r) = i_execution_epoch r
        \<and> row_ok now' (failed_inbox env ?rs r)"
      if "r \<in> set (inbox d)" "lease_fence l r" "row_ok now r" for r
      by (rule failed_inbox_kept [OF that(3,2) env_okD(1) [OF assms(3)]])
        (simp_all add: ok locked_effect [OF lock_attemptD(2) [OF locked] assms(2) that(1,2)] fields)
  qed
qed

section \<open>Recovery\<close>

lemma lock_expired_inboxD:
  assumes "lock_expired_inbox env now l d = Inr (Some row)"
  shows "\<exists>r\<in>set (inbox d). i_id r = l_id l \<and> pi_effect_started_at row = i_effect_started_at r
    \<and> pi_status row = i_status r \<and> \<not> inbox_locked env (i_id r)
    \<and> pi_lease_active row = lease_live now r"
  using assms
  by (auto simp: lock_expired_inbox_def and_then_Inr processing_inbox_row_def
      split: option.splits if_splits dest!: select_one_SomeD)

lemma expired_effect:
  assumes "lock_expired_inbox env t l d = Inr (Some row)" "store_ok now d"
    "r \<in> set (inbox d)" "lease_fence l r"
  shows "i_effect_started_at r = pi_effect_started_at row"
proof -
  obtain s where "s \<in> set (inbox d)" "i_id s = l_id l"
    "pi_effect_started_at row = i_effect_started_at s"
    using lock_expired_inboxD [OF assms(1)] by blast
  moreover have "i_id r = l_id l" using assms(4) by (simp add: lease_fence_def)
  ultimately show ?thesis using inbox_row_unique [OF assms(2)] assms(3) by metis
qed

lemma unlinked_verdict_ok [simp]: "verdict_ok (unlinked_verdict l row state)"
  by (simp add: unlinked_verdict_def)

lemma unlinked_verdict_effect:
  "pi_effect_started_at row \<noteq> None \<Longrightarrow> fd_status (unlinked_verdict l row state) = DS_MANUAL_REVIEW"
  by (simp add: unlinked_verdict_def)

lemma unlinked_verdict_retry:
  "fd_status (unlinked_verdict l row state) = DS_RETRY_WAIT \<Longrightarrow>
     next_attempts (l_attempts l) \<le> MAX_RETRIES"
  by (auto simp: unlinked_verdict_def split: if_splits)

lemma still_expiredE:
  "still_expired l found \<Longrightarrow>
     (\<And>row p. found = Some row \<Longrightarrow> pi_status row = IS_LEASED \<Longrightarrow> pi_lease row = Some p
        \<Longrightarrow> leases_equal p l \<Longrightarrow> \<not> pi_lease_active row \<Longrightarrow> thesis) \<Longrightarrow> thesis"
  by (auto simp: still_expired_def split: option.splits)

lemma fail_unlinked_kept:
  assumes "fail_unlinked env l v d = Inr (x, d')" "store_ok now d" "now \<le> now'" "verdict_ok v"
    and effect: "\<And>r. r \<in> set (inbox d) \<Longrightarrow> lease_fence l r \<Longrightarrow> i_effect_started_at r \<noteq> None
      \<Longrightarrow> fd_status v = DS_MANUAL_REVIEW"
    and retry: "fd_status v = DS_RETRY_WAIT \<Longrightarrow> next_attempts (l_attempts l) \<le> MAX_RETRIES"
  shows "kept now' d d'"
proof -
  let ?fr = "fail_row (inbox_status_of (fd_status v)) (next_attempts (l_attempts l))
    (if fd_status v = DS_RETRY_WAIT then backoff_seconds (l_attempts l) else 0)
    (Some (fd_safe_code v)) (Some (fd_safe_summary v)) (clk env 2) (clk env 3)"
  let ?d1 = "update_inbox (expired_fence (clk env 4) l) ?fr d"
  have "kept now' d ?d1"
  proof (rule kept_inbox [OF assms(2,3)])
    fix r assume r: "r \<in> set (inbox d)" "expired_fence (clk env 4) l r" "row_ok now r"
    have fence: "lease_fence l r" using r(2) by (simp add: expired_fence_def)
    have "end_ok (inbox_status_of (fd_status v)) (Some (fd_safe_code v))
        (Some (fd_safe_summary v)) (i_effect_started_at r)"
      by (rule end_ok_verdict [OF assms(4)]) (rule effect [OF r(1) fence])
    from fail_row_kept [OF r(3) fence assms(3) this, of "next_attempts (l_attempts l)"]
      fenced_bounds [OF r(3) fence] retry
    show "inbox_move r (?fr r) \<and> i_execution_epoch (?fr r) = i_execution_epoch r
        \<and> row_ok now' (?fr r)"
      by (simp add: fail_row_def)
  qed
  moreover have "d' = d \<or> inbox d' = inbox ?d1 \<and> emails d' = emails ?d1"
    using assms(1) unfolding fail_unlinked_def Let_def
    by (auto simp: and_then_Inr split: if_split_asm dest!: append_audit_store)
  ultimately show ?thesis
    using kept_refl [OF assms(2,3)] by (blast intro: kept_cong)
qed

lemma recover_unlinked_kept:
  assumes "recover_unlinked_expired_lease env l d = Inr (x, d')" "store_ok now d"
  shows "kept now d d'"
proof -
  from assms(1) obtain state found where
    st: "lock_processing_ownership None l False d = Inr state"
      "lock_expired_inbox env (clk env 1) l d = Inr found"
    by (auto simp: recover_unlinked_expired_lease_def and_then_Inr)
  show ?thesis
  proof (cases "d' = d")
    case True
    with assms(2) show ?thesis by (simp add: kept_refl)
  next
    case False
    with assms(1) st have "still_expired l found"
      and fail: "fail_unlinked env l (unlinked_verdict l (the found) state) d = Inr (x, d')"
      by (simp_all add: recover_unlinked_expired_lease_def split: if_split_asm)
    from this(1) obtain row where row: "found = Some row" by (rule still_expiredE)
    show ?thesis
    proof (rule fail_unlinked_kept [OF fail assms(2) order_refl])
      show "fd_status (unlinked_verdict l (the found) state) = DS_MANUAL_REVIEW"
        if "r \<in> set (inbox d)" "lease_fence l r" "i_effect_started_at r \<noteq> None" for r
        using expired_effect [OF st(2) [unfolded row] assms(2) that(1,2)] that(3) row
        by (simp add: unlinked_verdict_effect)
    qed (simp_all add: unlinked_verdict_retry)
  qed
qed

lemma linked_verdict_ok [simp]: "verdict_ok (linked_verdict l e state a s)"
  by (simp add: linked_verdict_def Let_def)

lemma linked_verdict_effect: "fd_status (linked_verdict l e state a True) = DS_MANUAL_REVIEW"
  by (simp add: linked_verdict_def)

lemma fail_linked_kept:
  assumes "fail_linked env l e receipt rs d = Inr (x, d')" "store_ok now d" "now \<le> now'"
    "e \<in> set (emails d)" "e_status e \<noteq> ES_INGESTED"
    and rs: "rs_inbox_status rs \<noteq> IS_COMPLETED" "rs_attempts rs = next_attempts (l_attempts l)"
    and effect: "\<And>r. r \<in> set (inbox d) \<Longrightarrow> lease_fence l r \<Longrightarrow> resolution_ok (i_effect_started_at r) rs"
    and pairs: "resolution_ok None rs"
  shows "kept now' d d'"
proof -
  let ?pe = "\<lambda>r. e_id r = e_id e \<and> e_account_id r = l_account_id l
    \<and> e_version r = e_version e \<and> e_processing_inbox_id r = Some (l_id l)
    \<and> e_version r < POSTGRES_BIGINT_MAX"
  let ?d1 = "update_emails ?pe (failed_email env rs) d"
  let ?d2 = "update_inbox (expired_fence (clk env 4) l) (failed_inbox env rs) ?d1"
  have "kept now d ?d1"
  proof (rule kept_emails [OF assms(2) order_refl])
    fix s assume s: "s \<in> set (emails d)" "?pe s" "ck_emails s" "owner_is_create d s"
    have "s = e" using email_row_unique [OF assms(2) s(1) assms(4)] s(2) by simp
    with s assms(5) show "email_move s (failed_email env rs s)
        \<and> ck_emails (failed_email env rs s) \<and> owner_is_create d (failed_email env rs s)"
      by (intro ended_email_kept(2) [OF _ _ _ _ pairs rs(1)]) auto
  qed
  then have emails_kept: "store_ok now ?d1" "kept now' d ?d1"
    using assms(3) by (auto simp: kept_def intro: store_ok_mono)
  have "kept now' ?d1 ?d2"
  proof (rule kept_inbox [OF emails_kept(1) assms(3)])
    fix r assume r: "r \<in> set (inbox ?d1)" "expired_fence (clk env 4) l r" "row_ok now r"
    have fence: "lease_fence l r" using r(2) by (simp add: expired_fence_def)
    show "inbox_move r (failed_inbox env rs r)
        \<and> i_execution_epoch (failed_inbox env rs r) = i_execution_epoch r
        \<and> row_ok now' (failed_inbox env rs r)"
      by (rule failed_inbox_kept [OF r(3) fence assms(3) effect rs(2)]) (use r fence in simp_all)
  qed
  with emails_kept(2) have "kept now' d ?d2" by (auto intro: kept_both)
  moreover have "append_result_receipt receipt ?d2 = Inr d'"
    using assms(1) unfolding fail_linked_def Let_def by (auto simp: and_then_Inr)
  ultimately show ?thesis
    using append_result_receipt_store by (blast intro: kept_cong)
qed

lemma owned_email_not_ingested:
  "ck_emails e \<Longrightarrow> e_processing_inbox_id e \<noteq> None \<Longrightarrow> e_status e \<noteq> ES_INGESTED"
  by (auto simp: ck_emails_def ck_emails_processing_state_def split: if_splits)

lemma recover_linked_row_kept:
  assumes "recover_linked_row env l e state row d = Inr (x, d')" "store_ok now d"
    "e \<in> set (emails d)" "e_processing_inbox_id e \<noteq> None"
    "lock_expired_inbox env t l d = Inr (Some row)"
  shows "kept now d d'"
proof -
  from assms(1) obtain a where "load_processing_attempt env e l d = Inr a"
    by (auto simp: recover_linked_row_def and_then_Inr)
  define v where "v = linked_verdict l e state a (pi_effect_started_at row \<noteq> None
    \<or> e_external_effects_started_at e \<noteq> None)"
  define rs where "rs = resolution_for_failure_decision v l (e_version e) None"
  have v: "verdict_ok v" "pi_effect_started_at row \<noteq> None \<Longrightarrow> fd_status v = DS_MANUAL_REVIEW"
    by (auto simp: v_def linked_verdict_effect)
  from assms(1) have "d' = d \<or> (\<exists>receipt y. fail_linked env l e receipt rs d = Inr (y, d'))"
    unfolding recover_linked_row_def
    by (auto simp: and_then_Inr Let_def \<open>load_processing_attempt env e l d = Inr a\<close> rs_def v_def
        split: if_split_asm)
  then show ?thesis
  proof
    assume "d' = d" with assms(2) show ?thesis by (simp add: kept_refl)
  next
    assume "\<exists>receipt y. fail_linked env l e receipt rs d = Inr (y, d')"
    then obtain receipt y where fail: "fail_linked env l e receipt rs d = Inr (y, d')" by blast
    show ?thesis
    proof (rule fail_linked_kept [OF fail assms(2) order_refl assms(3)])
      show "e_status e \<noteq> ES_INGESTED"
        using owned_email_not_ingested assms(2-4) store_okD(2) by blast
      show "resolution_ok (i_effect_started_at r) rs"
        if "r \<in> set (inbox d)" "lease_fence l r" for r
        unfolding rs_def
        by (rule failure_resolution_ok [OF v(1)])
          (use expired_effect [OF assms(5,2) that] v(2) in simp)
      show "resolution_ok None rs"
        unfolding rs_def by (rule failure_resolution_ok [OF v(1)]) simp
    qed (simp_all add: rs_def failure_resolution_fields)
  qed
qed

lemma recover_linked_kept:
  assumes "recover_linked_expired_lease env l email_id d = Inr (x, d')" "store_ok now d"
  shows "kept now d d'"
proof (cases "d' = d")
  case True
  with assms(2) show ?thesis by (simp add: kept_refl)
next
  case False
  with assms(1) obtain e state found where
    locked: "lock_unlocked_email env l email_id d = Inr (Some e)"
    and found: "lock_expired_inbox env (clk env 1) l d = Inr found"
    and linked: "still_expired l found" "e_processing_inbox_id e = Some (l_id l)"
    and row: "recover_linked_row env l e state (the found) d = Inr (x, d')"
    unfolding recover_linked_expired_lease_def
    by (auto simp: and_then_Inr split: option.splits if_split_asm)
  from linked(1) obtain r where r: "found = Some r" by (rule still_expiredE)
  have "e \<in> set (emails d)"
    using locked lock_processing_emailD by (auto simp: lock_unlocked_email_def split: if_split_asm)
  then show ?thesis
    using recover_linked_row_kept row assms(2) linked(2) found r by (metis option.sel option.discI)
qed

lemma recover_candidate_kept:
  assumes "recover_candidate env l d = Inr (x, d')" "store_ok now d"
  shows "kept now d d'"
  using assms recover_linked_kept recover_unlinked_kept
  by (auto simp: recover_candidate_def split: option.splits if_split_asm)

section \<open>Applying an event\<close>

lemma neutral_shell_ok: "ck_emails (neutral_shell env l)" "owner_is_create d (neutral_shell env l)"
  by (simp_all add: neutral_shell_def ck_emails_def ck_emails_processing_state_def
      owner_is_create_def)

lemma insert_neutral_shell_cases:
  assumes "insert_neutral_shell env l d = Inr (inserted, d0)"
  obtains "\<not> inserted" "d0 = d"
  | "inserted" "d0 = d\<lparr>emails := emails d @ [neutral_shell env l]\<rparr>"
     "\<And>e. e \<in> set (emails d) \<Longrightarrow> \<not> same_email l e"
  using assms
  by (auto simp: insert_neutral_shell_def and_then_Inr list_ex_iff split: if_split_asm)

lemma insert_neutral_shell_ok:
  assumes "insert_neutral_shell env l d = Inr (inserted, d0)" "store_ok now d" "env_ok now env now' d"
  shows "store_ok now d0" "inbox d0 = inbox d" "\<exists>new. emails d0 = emails d @ new"
  using assms(1)
proof (atomize (full), cases rule: insert_neutral_shell_cases)
  case 1
  with assms(2) show "store_ok now d0 \<and> inbox d0 = inbox d \<and> (\<exists>new. emails d0 = emails d @ new)"
    by simp
next
  case 2
  have key: "email_key (neutral_shell env l) \<notin> set (map email_key (emails d))"
    using 2(3) by (fastforce simp: email_key_def neutral_shell_def same_email_def)
  have id: "e_id (neutral_shell env l) \<notin> set (map e_id (emails d))"
    using assms(3) by (simp add: neutral_shell_def env_ok_def)
  have "owner_is_create d0 e = owner_is_create d e" for e
    by (rule owner_is_create_cong) (simp add: 2(2))
  with key id assms(2) 2(2) show "store_ok now d0 \<and> inbox d0 = inbox d
      \<and> (\<exists>new. emails d0 = emails d @ new)"
    by (auto simp: store_ok_def neutral_shell_ok)
qed

lemma lock_emailD:
  "lock_email l d = Inr e \<Longrightarrow> e \<in> set (emails d) \<and> same_email l e"
  by (auto simp: lock_email_def and_then_Inr dest!: select_one_SomeD email_from_row_id)

lemma inserted_email_is_shell:
  assumes "insert_neutral_shell env l d = Inr (True, d0)" "store_ok now d0" "lock_email l d0 = Inr e"
  shows "e = neutral_shell env l"
  using assms(1)
proof (cases rule: insert_neutral_shell_cases)
  case 2
  then show ?thesis using lock_emailD [OF assms(3)] by auto
qed simp

lemma lease_from_rowD:
  "lease_from_row env r = Inr p \<Longrightarrow> \<exists>s w u. p = row_lease r s w u"
  by (auto simp: lease_from_row_def split: option.splits if_split_asm)

text \<open>The exact lease: its columns are the columns of a leased row.\<close>

lemma lock_exact_leaseD:
  assumes "lock_exact_lease env now l d = Inr u"
  shows "\<exists>r\<in>set (inbox d). i_id r = l_id l \<and> i_account_id r = l_account_id l
    \<and> i_generation r = l_generation l \<and> i_fencing_token r = l_fencing_token l
    \<and> i_execution_epoch r = l_execution_epoch l \<and> i_authority_epoch r = l_authority_epoch l
    \<and> i_capability_hash r = l_capability_hash l
    \<and> i_external_email_id r = ev_external_email_id (l_event l)
    \<and> i_change_kind r = ev_kind (l_event l) \<and> i_status r = IS_LEASED"
proof -
  from assms obtain r p where r: "select_one (\<lambda>r. i_id r = l_id l) (inbox d) = Some r"
    "i_status r = IS_LEASED" "lease_from_row env r = Inr p" "leases_equal p l"
    by (auto simp: lock_exact_lease_def and_then_Inr)
  from lease_from_rowD [OF r(3)] obtain s w u' where "p = row_lease r s w u'" by blast
  with r select_one_SomeD [OF r(1)] show ?thesis
    by (intro bexI [of _ r])
      (auto simp: leases_equal_def events_equal_def row_lease_def row_event_def)
qed

lemma kept_emails_grown:
  assumes "store_ok now d0" "now \<le> now'" "inbox d0 = inbox d" "emails d0 = emails d @ new"
    "\<And>e. e \<in> set (emails d0) \<Longrightarrow> p e \<Longrightarrow>
      email_move e (f e) \<and> ck_emails (f e) \<and> owner_is_create d0 (f e)"
  shows "kept now' d (update_emails p f d0)"
proof -
  have "store_ok now' (update_emails p f d0)"
    by (rule email_statement(1) [OF assms(1,2,5)])
  moreover have "rows_step email_move (emails d) (sql_update p f (emails d @ new))"
    by (rule rows_step_update_append) (use assms(4,5) in auto)
  ultimately show ?thesis
    using assms(3,4) by (auto simp: kept_def guarded_def)
qed

lemma kept_grown:
  assumes "store_ok now d0" "now \<le> now'" "inbox d0 = inbox d" "emails d0 = emails d @ new"
  shows "kept now' d d0"
  using assms by (auto simp: kept_def guarded_def intro: store_ok_mono rows_step_extend)

lemma cas_updateD:
  "cas_update p f d = Inr (e', d') \<Longrightarrow> d' = update_emails p f d"
  by (auto simp: cas_update_def and_then_Inr)

lemma decide_should_process:
  assumes "decide_email_event cur seen kind read owner effects deleted = Inr dec" "should_process dec"
  shows "kind = CREATE \<and> (case cur of None \<Rightarrow> True
    | Some st \<Rightarrow> \<not> deleted \<and> (st = ES_INGESTED \<and> \<not> seen
        \<or> (st = ES_PROCESSING \<or> st = ES_RETRY_WAIT) \<and> seen \<and> owner \<and> \<not> effects))"
proof -
  have resume: "may_resume_processing (EMAIL_STATUS_TRANSITIONS st) \<longleftrightarrow>
      st = ES_PROCESSING \<or> st = ES_RETRY_WAIT" for st
    by (cases st) simp_all
  from assms show ?thesis
    by (auto simp: decide_email_event_def mk_decision_def EmailEventDecision_def resume
        split: option.splits if_split_asm)
qed

lemma decide_not_process_status:
  assumes "decide_email_event cur seen kind read owner effects deleted = Inr dec"
    "\<not> should_process dec" "cur = Some st"
  shows "new_status dec = st \<or> new_status dec = ES_CANCELLED"
  using assms
  by (auto simp: decide_email_event_def mk_decision_def EmailEventDecision_def
      split: if_split_asm)

lemma read_projection_ok:
  assumes "ck_emails e"
  shows "fst (enter_read_projection e ev ins) = None \<Longrightarrow> snd (enter_read_projection e ev ins)"
    and "fst (metadata_projection e ev) = None \<Longrightarrow> snd (metadata_projection e ev)"
  using assms
  by (auto simp: enter_read_projection_def metadata_projection_def ck_emails_def Let_def
      split: option.splits bool.splits if_split_asm)

text \<open>The email an event elects for processing.\<close>

lemma processing_row_kept:
  assumes ck: "ck_emails e" "owner_is_create d e"
    and start: "e_status e = ES_INGESTED \<and> e_create_seen_at e = None
      \<or> e_processing_inbox_id e = Some (l_id l) \<and> e_status e \<noteq> ES_INGESTED"
      "e_source_deleted_at e = None"
    and owner: "e_status e = ES_INGESTED \<Longrightarrow>
      \<exists>r\<in>set (inbox d). owner_row (e\<lparr>e_processing_inbox_id := Some (l_id l),
        e_processing_execution_epoch := Some (l_execution_epoch l)\<rparr>) r"
    and epoch: "0 \<le> l_execution_epoch l" "l_execution_epoch l < POSTGRES_BIGINT_MAX"
    and read: "fst projection = None \<Longrightarrow> snd projection"
  shows "email_move e (processing_row env l folder projection e)
    \<and> ck_emails (processing_row env l folder projection e)
    \<and> owner_is_create d (processing_row env l folder projection e)"
proof (cases "e_status e = ES_INGESTED")
  case True
  then have none: "e_processing_inbox_id e = None" "e_processing_execution_epoch e = None"
    using ck(1) by (auto simp: ck_emails_def ck_emails_processing_state_def split: option.splits)
  have same: "owner_row (processing_row env l folder projection e) =
      owner_row (e\<lparr>e_processing_inbox_id := Some (l_id l),
        e_processing_execution_epoch := Some (l_execution_epoch l)\<rparr>)"
    by (intro ext) (simp add: owner_row_def processing_row_def none)
  have "owner_is_create d (processing_row env l folder projection e)"
    using owner [OF True] by (auto simp: owner_is_create_def same list_ex_iff)
  moreover have "email_move e (processing_row env l folder projection e)
      \<and> ck_emails (processing_row env l folder projection e)"
    using ck(1) start True none epoch read
    by (auto simp: email_defs processing_row_def split: option.splits)
  ultimately show ?thesis by blast
next
  case False
  with start have own: "e_processing_inbox_id e = Some (l_id l)" by blast
  then obtain n where n: "e_processing_execution_epoch e = Some n"
    using ck(1) by (auto simp: ck_emails_def split: option.splits)
  have "owner_is_create d (processing_row env l folder projection e)"
    using ck(2) owner_is_create_same [of e "processing_row env l folder projection e" d]
    by (simp add: email_identity_def processing_row_def own n)
  moreover have "email_move e (processing_row env l folder projection e)
      \<and> ck_emails (processing_row env l folder projection e)"
    using ck(1) False own n read start(2)
    by (auto simp: email_defs processing_row_def split: option.splits)
  ultimately show ?thesis by blast
qed

lemma deleted_row_kept:
  assumes "ck_emails e" "owner_is_create d e"
    "new_status dec = e_status e \<or> new_status dec = ES_CANCELLED"
  shows "email_move e (deleted_row env dec e) \<and> ck_emails (deleted_row env dec e)
    \<and> owner_is_create d (deleted_row env dec e)"
proof -
  have "owner_is_create d (deleted_row env dec e)"
  proof (cases "new_status dec = ES_CANCELLED")
    case True
    then show ?thesis by (intro owner_is_create_free) (simp add: deleted_row_def Let_def)
  next
    case False
    with assms(2) owner_is_create_same [of e "deleted_row env dec e" d] show ?thesis
      by (simp add: deleted_row_def Let_def email_identity_def)
  qed
  moreover have "email_move e (deleted_row env dec e) \<and> ck_emails (deleted_row env dec e)"
    using assms(1,3)
    by (auto simp: email_defs deleted_row_def Let_def split: option.splits if_splits)
  ultimately show ?thesis by blast
qed

lemma projected_row_kept:
  assumes "ck_emails e" "owner_is_create d e" "fst projection = None \<Longrightarrow> snd projection"
  shows "let s = e\<lparr>e_source_folder_key := folder, e_is_read := fst projection,
      e_is_read_refresh_required := snd projection, e_updated_at := u\<rparr>
    in email_move e s \<and> ck_emails s \<and> owner_is_create d s"
proof -
  let ?s = "e\<lparr>e_source_folder_key := folder, e_is_read := fst projection,
      e_is_read_refresh_required := snd projection, e_updated_at := u\<rparr>"
  have "owner_is_create d ?s"
    using assms(2) owner_is_create_same [of e ?s d] by (simp add: email_identity_def)
  moreover have "email_move e ?s \<and> ck_emails ?s"
    using assms(1,3) by (auto simp: email_defs split: option.splits)
  ultimately show ?thesis by (simp add: Let_def)
qed

lemma already_electedD: "already_elected e d = Inr (a, d') \<Longrightarrow> d' = d"
  by (auto simp: already_elected_def and_then_Inr)

lemma elect_processing_attempt_store:
  "elect_processing_attempt env fresh e l d = Inr (b, d') \<Longrightarrow>
     inbox d' = inbox d \<and> emails d' = emails d"
  by (auto simp: elect_processing_attempt_def Let_def and_then_Inr)

lemma start_processing_cases:
  assumes "start_processing env e l inserted dec d = Inr (a, d')"
  obtains d1 where "inbox d1 = inbox d" "emails d1 = emails d"
    "d' = d1 \<or> (\<exists>e'. enter_processing env e l inserted d1 = Inr (e', d'))"
proof -
  from assms obtain fresh d1 where
    d1: "elect_processing_attempt env (uuid4 env 1) e l d = Inr (fresh, d1)"
    and rest: "(if \<not> fresh then and_then (ensure (e_status e = ES_PROCESSING) invariant_error)
        (\<lambda>_. already_elected e d1)
      else and_then (enter_processing env e l inserted d1) (\<lambda>(e', d2).
        and_then (event_application dec e'
         (if reason dec = FIRST_CREATE then CREATOR_ELECTED else D_PROCESSING_RESUMED) False)
         (\<lambda>a. Inr (a, d2)))) = Inr (a, d')"
    by (auto simp: start_processing_def and_then_Inr)
  note same = elect_processing_attempt_store [OF d1]
  from rest have "d' = d1 \<or> (\<exists>e'. enter_processing env e l inserted d1 = Inr (e', d'))"
    by (cases fresh) (auto simp: and_then_Inr dest: already_electedD)
  with same that show thesis by blast
qed

lemma apply_delete_cases:
  assumes "apply_delete env e inserted dec d = Inr (a, d')"
  obtains "d' = d" | e' where "record_source_delete env e dec d = Inr (e', d')"
  using assms by (auto simp: apply_delete_def and_then_Inr split: if_split_asm)

lemma apply_metadata_projection_cases:
  assumes "apply_metadata_projection env e ev d = Inr (x, d')"
  obtains "d' = d"
  | "d' = update_emails (\<lambda>r. e_id r = e_id e \<and> e_version r = e_version e)
      (\<lambda>r. r\<lparr>e_source_folder_key := ev_folder ev, e_is_read := fst (metadata_projection e ev),
        e_is_read_refresh_required := snd (metadata_projection e ev),
        e_updated_at := clk env 2\<rparr>) d"
  using assms
  by (auto simp: apply_metadata_projection_def Let_def and_then_Inr split: if_split_asm
      dest!: cas_updateD)

text \<open>
  The event on the locked aggregate \<open>e\<close> of the grown store \<open>d0\<close>; the leased row \<open>r\<close> is the
  one the token names.
\<close>

lemma perform_event_kept:
  assumes "perform_event env e l inserted dec d0 = Inr (a, d')"
    "decide_for e l inserted = Inr dec"
    and store: "store_ok now d0" "now \<le> now'" "inbox d0 = inbox d" "emails d0 = emails d @ new"
    and e: "e \<in> set (emails d0)" "inserted \<Longrightarrow> e = neutral_shell env l"
    and owner: "e_status e = ES_INGESTED \<Longrightarrow> e_create_seen_at e = None
      \<Longrightarrow> e_source_deleted_at e = None \<Longrightarrow> ev_kind (l_event l) = CREATE \<Longrightarrow>
      \<exists>r\<in>set (inbox d0). owner_row (e\<lparr>e_processing_inbox_id := Some (l_id l),
        e_processing_execution_epoch := Some (l_execution_epoch l)\<rparr>) r"
    and epoch: "0 \<le> l_execution_epoch l" "l_execution_epoch l < POSTGRES_BIGINT_MAX"
  shows "kept now' d d'"
proof -
  have ck: "ck_emails e" "owner_is_create d0 e"
    using store_okD(2,3) store(1) e(1) by blast+
  have unique: "s = e" if "s \<in> set (emails d0)" "e_id s = e_id e" for s
    using email_row_unique [OF store(1) that(1) e(1) that(2)] .
  have same_store: "kept now' d d2" if "inbox d2 = inbox d0" "emails d2 = emails d0" for d2
    using kept_cong [OF kept_grown [OF store] that] .
  show ?thesis
  proof (cases "should_process dec")
    case True
    from decide_should_process [OF assms(2) [unfolded decide_for_def] True] e(2)
    have kind: "ev_kind (l_event l) = CREATE"
      and start: "e_status e = ES_INGESTED \<and> e_create_seen_at e = None
        \<or> e_processing_inbox_id e = Some (l_id l) \<and> e_status e \<noteq> ES_INGESTED"
        "e_source_deleted_at e = None"
      by (auto simp: neutral_shell_def split: if_split_asm)
    from assms(1) True have "start_processing env e l inserted dec d0 = Inr (a, d')"
      by (simp add: perform_event_def)
    then obtain d1 where d1: "inbox d1 = inbox d0" "emails d1 = emails d0"
      and out: "d' = d1 \<or> (\<exists>e'. enter_processing env e l inserted d1 = Inr (e', d'))"
      by (rule start_processing_cases)
    from out show ?thesis
    proof
      assume "d' = d1" with same_store d1 show ?thesis by blast
    next
      assume "\<exists>e'. enter_processing env e l inserted d1 = Inr (e', d')"
      then obtain e' where "enter_processing env e l inserted d1 = Inr (e', d')" by blast
      then have d': "d' = update_emails (email_cas e) (processing_row env l (e_source_folder_key e)
          (enter_read_projection e (l_event l) inserted)) d1"
        unfolding enter_processing_def by (rule cas_updateD)
      show ?thesis
        unfolding d'
      proof (rule kept_emails_grown [of now _ _ _ new])
        show "store_ok now d1" using store(1) d1 by (simp add: store_ok_cong [of d1 d0])
        fix s assume s: "s \<in> set (emails d1)" "email_cas e s"
        have "s = e" using s d1 by (intro unique) (auto simp: email_cas_def)
        moreover have "email_move e (processing_row env l (e_source_folder_key e)
              (enter_read_projection e (l_event l) inserted) e)
            \<and> ck_emails (processing_row env l (e_source_folder_key e)
              (enter_read_projection e (l_event l) inserted) e)
            \<and> owner_is_create d0 (processing_row env l (e_source_folder_key e)
              (enter_read_projection e (l_event l) inserted) e)"
          by (rule processing_row_kept [OF ck])
            (use start owner kind epoch read_projection_ok(1) [OF ck(1)] in auto)
        ultimately show "email_move s (processing_row env l (e_source_folder_key e)
              (enter_read_projection e (l_event l) inserted) s)
            \<and> ck_emails (processing_row env l (e_source_folder_key e)
              (enter_read_projection e (l_event l) inserted) s)
            \<and> owner_is_create d1 (processing_row env l (e_source_folder_key e)
              (enter_read_projection e (l_event l) inserted) s)"
          by (simp add: owner_is_create_cong [of d1 d0] d1)
      qed (use store d1 in simp_all)
    qed
  next
    case False
    have status: "new_status dec = e_status e \<or> new_status dec = ES_CANCELLED"
      if "ev_kind (l_event l) = DELETE"
    proof (cases inserted)
      case True
      with assms(2) that show ?thesis
        by (auto simp: decide_for_def decide_email_event_def mk_decision_def
            EmailEventDecision_def split: if_split_asm)
    next
      case ins: False
      from decide_not_process_status [OF assms(2) [unfolded decide_for_def] False] ins
      show ?thesis by simp
    qed
    consider (del) "ev_kind (l_event l) = DELETE" "apply_delete env e inserted dec d0 = Inr (a, d')"
      | (meta) x where "apply_metadata_projection env e (l_event l) d0 = Inr (x, d')"
      | (none) "d' = d0"
      using assms(1) False
      by (auto simp: perform_event_def and_then_Inr split: if_split_asm)
    then show ?thesis
    proof cases
      case del
      from del(2) show ?thesis
      proof (cases rule: apply_delete_cases)
        case 1
        with same_store show ?thesis by blast
      next
        case (2 e')
        then have d': "d' = update_emails (email_cas e) (deleted_row env dec) d0"
          by (auto simp: record_source_delete_def and_then_Inr dest!: cas_updateD)
        show ?thesis
          unfolding d'
          by (rule kept_emails_grown [OF store])
            (use deleted_row_kept [OF ck status [OF del(1)]] unique in
              \<open>auto simp: email_cas_def\<close>)
      qed
    next
      case meta
      from meta show ?thesis
      proof (cases rule: apply_metadata_projection_cases)
        case 1
        with same_store show ?thesis by blast
      next
        case 2
        show ?thesis
          unfolding 2
          by (rule kept_emails_grown [OF store])
            (use projected_row_kept [OF ck read_projection_ok(2) [OF ck(1)]] unique in
              \<open>auto simp: Let_def\<close>)
      qed
    next
      case none
      with same_store show ?thesis by blast
    qed
  qed
qed

lemma ownership_reviewD:
  assumes "ownership_review e l st = Inr ()" "ev_kind (l_event l) = CREATE"
    "e_create_seen_at e = None" "e_source_deleted_at e = None" "e_status e = ES_INGESTED"
  shows "\<not> cross_generation e l"
  using assms by (auto simp: ownership_review_def RETIRED_BLOCKING_EMAIL_STATUSES_def
      split: if_split_asm)

lemma apply_email_event_locks:
  assumes "apply_email_event env l d = Inr (a, d')"
  obtains inserted d0 e sticky where
    "insert_neutral_shell env l d = Inr (inserted, d0)" "lock_email l d0 = Inr e"
    "lock_ownership e l d0 = Inr sticky" "lock_exact_lease env (clk env 1) l d0 = Inr ()"
    "ownership_review e l sticky = Inr ()" "dispatch_event env e l inserted d0 = Inr (a, d')"
  using assms by (auto simp: apply_email_event_def and_then_Inr)

lemma dispatch_event_cases:
  assumes "dispatch_event env e l inserted d0 = Inr (a, d')"
  obtains (elected) "already_elected e d0 = Inr (a, d')" "e_status e = ES_PROCESSING"
      "e_processing_inbox_id e = Some (l_id l)"
      "e_processing_execution_epoch e = Some (l_execution_epoch l)"
  | (performed) dec where "decide_for e l inserted = Inr dec"
      "perform_event env e l inserted dec d0 = Inr (a, d')"
  using assms
  by (auto simp: dispatch_event_def and_then_Inr event_decision_def split: if_split_asm)

lemma apply_email_event_kept:
  assumes "apply_email_event env l d = Inr (a, d')" "store_ok now d" "env_ok now env now' d"
  shows "kept now' d d'"
  using assms(1)
proof (rule apply_email_event_locks)
  fix inserted d0 e sticky
  assume shell: "insert_neutral_shell env l d = Inr (inserted, d0)"
    and e: "lock_email l d0 = Inr e"
    and lease: "lock_exact_lease env (clk env 1) l d0 = Inr ()"
    and review: "ownership_review e l sticky = Inr ()"
    and dispatch: "dispatch_event env e l inserted d0 = Inr (a, d')"
  obtain new where d0: "store_ok now d0" "inbox d0 = inbox d" "emails d0 = emails d @ new"
    using insert_neutral_shell_ok [OF shell assms(2,3)] by blast
  obtain r where r: "r \<in> set (inbox d0)" "i_id r = l_id l" "i_account_id r = l_account_id l"
    "i_generation r = l_generation l" "i_fencing_token r = l_fencing_token l"
    "i_execution_epoch r = l_execution_epoch l" "i_authority_epoch r = l_authority_epoch l"
    "i_capability_hash r = l_capability_hash l"
    "i_external_email_id r = ev_external_email_id (l_event l)"
    "i_change_kind r = ev_kind (l_event l)"
    using lock_exact_leaseD [OF lease] by blast
  have epoch: "0 \<le> l_execution_epoch l" "l_execution_epoch l < POSTGRES_BIGINT_MAX"
    using store_okD(1) [OF d0(1) r(1)] r(6) by (auto simp: row_ok_def ck_event_inbox_def)
  from dispatch show "kept now' d d'"
  proof (cases rule: dispatch_event_cases)
    case elected
    then show ?thesis
      using already_electedD kept_grown [OF d0(1) env_okD(1) [OF assms(3)] d0(2,3)] by blast
  next
    case (performed dec)
    show ?thesis
    proof (rule perform_event_kept [OF performed(2,1) d0(1) env_okD(1) [OF assms(3)] d0(2,3)])
      show "e \<in> set (emails d0)" using lock_emailD [OF e] by blast
      show "e = neutral_shell env l" if inserted
        using inserted_email_is_shell [OF _ d0(1) e] shell that by simp
      show "\<exists>r\<in>set (inbox d0). owner_row (e\<lparr>e_processing_inbox_id := Some (l_id l),
          e_processing_execution_epoch := Some (l_execution_epoch l)\<rparr>) r"
        if "e_status e = ES_INGESTED" "e_create_seen_at e = None" "e_source_deleted_at e = None"
          "ev_kind (l_event l) = CREATE"
      proof (intro bexI [of _ r])
        have "\<not> cross_generation e l" using ownership_reviewD [OF review] that by blast
        moreover have "same_email l e" using lock_emailD [OF e] by blast
        ultimately show "owner_row (e\<lparr>e_processing_inbox_id := Some (l_id l),
            e_processing_execution_epoch := Some (l_execution_epoch l)\<rparr>) r"
          using r that(4) by (simp add: owner_row_def cross_generation_def same_email_def)
      qed (rule r(1))
    qed (rule epoch)+
  qed
qed

section \<open>Releasing a quarantined event\<close>

text \<open>
  A release is allowed by the trigger exactly when the effect marker of the row is unset;
  the epoch after it must stay below the column's bound.
\<close>

lemma fetchone_returning: "fetchone (sql_returning p f t) \<noteq> None \<longleftrightarrow> (\<exists>r\<in>set t. p r)"
  by (auto simp: sql_returning_def filter_empty_conv)

lemma release_rows_store:
  assumes "release_rows env i n stored actor why d = Inr (x, d')"
  shows "x = n + 1" "\<exists>e\<in>set (emails d). quarantined_email i n stored d e"
    "\<exists>r\<in>set (inbox d). quarantined_row i n r"
    "inbox d' = sql_update (quarantined_row i n) (released_inbox env (n + 1)) (inbox d)"
    "emails d' = sql_update (quarantined_email i n stored d) (released_email env (n + 1)) (emails d)"
proof -
  from assms obtain u where *: "x = n + 1"
    "fetchone (sql_returning (quarantined_email i n stored d) (released_email env (n + 1)) (emails d)) \<noteq> None"
    "fetchone (sql_returning (quarantined_row i n) (released_inbox env (n + 1)) (inbox d)) = Some u"
    "inbox d' = sql_update (quarantined_row i n) (released_inbox env (n + 1)) (inbox d)"
    "emails d' = sql_update (quarantined_email i n stored d) (released_email env (n + 1)) (emails d)"
    by (auto simp: release_rows_def Let_def and_then_Inr)
  then show "x = n + 1"
    "inbox d' = sql_update (quarantined_row i n) (released_inbox env (n + 1)) (inbox d)"
    "emails d' = sql_update (quarantined_email i n stored d) (released_email env (n + 1)) (emails d)"
    by simp_all
  show "\<exists>e\<in>set (emails d). quarantined_email i n stored d e"
    using *(2) unfolding fetchone_returning .
  show "\<exists>r\<in>set (inbox d). quarantined_row i n r"
    using *(3) fetchone_returning [of "quarantined_row i n" "released_inbox env (n + 1)" "inbox d"]
    by simp
qed

lemma release_cases:
  assumes "release_intake_quarantine env i n actor why d = Inr (x, d')"
  obtains stored where "stored \<in> set (intake_decisions d)" "intake_key i n stored"
    "n_disposition stored = intake_disposition_value QUARANTINE" "0 \<le> n"
    "release_rows env i n stored actor why d = Inr (x, d')"
  using assms
  by (auto simp: release_intake_quarantine_def and_then_Inr dest!: select_one_SomeD)

lemma released_inbox_kept:
  assumes "row_ok now r" "quarantined_row i n r" "i_effect_started_at r = None"
    "n + 1 < POSTGRES_BIGINT_MAX"
  shows "inbox_move r (released_inbox env (n + 1) r)
    \<and> row_ok now' (released_inbox env (n + 1) r)"
  using assms by (auto simp: row_defs quarantined_row_def released_inbox_def MAX_RETRIES_def)

lemma released_email_kept:
  assumes "ck_emails e" "quarantined_email i n stored d e" "n + 1 < POSTGRES_BIGINT_MAX"
  shows "email_move e (released_email env (n + 1) e) \<and> ck_emails (released_email env (n + 1) e)"
  using assms
  by (auto simp: email_defs quarantined_email_def released_email_def ck_error_columns_def
      pg_not_blank_def lit_def)

text \<open>The released row and the released email still name each other.\<close>

lemma owner_row_exists:
  assumes "store_ok now d" "e \<in> set (emails d)" "e_processing_inbox_id e = Some i"
  obtains q where "q \<in> set (inbox d)" "owner_row e q" "i_id q = i"
proof -
  have "owner_is_create d e" by (rule store_okD(3) [OF assms(1,2)])
  then have "\<exists>q\<in>set (inbox d). owner_row e q"
    using assms(3) by (simp add: owner_is_create_def list_ex_iff)
  with that assms(3) show thesis by (auto simp: owner_row_def)
qed

lemma released_owner_row:
  "owner_row e r \<Longrightarrow> owner_row (released_email env m e) (released_inbox env m r)"
  by (simp add: owner_row_def released_email_def released_inbox_def)

lemma quarantined_rowD: "quarantined_row i n r \<Longrightarrow> i_id r = i"
  by (simp add: quarantined_row_def)

lemma quarantined_emailD: "quarantined_email i n stored d e \<Longrightarrow> e_processing_inbox_id e = Some i"
  by (simp add: quarantined_email_def)

lemma owner_row_key:
  "owner_row e q \<Longrightarrow> owner_row s q \<Longrightarrow> email_key s = email_key e"
  by (simp add: owner_row_def email_key_def)

lemma owner_is_createI:
  "q \<in> set (inbox d) \<Longrightarrow> owner_row e q \<Longrightarrow> owner_is_create d e"
  by (auto simp: owner_is_create_def list_ex_iff)

lemma released_owner:
  assumes "store_ok now d" "e \<in> set (emails d)" "quarantined_row i n r" "r \<in> set (inbox d)"
    and found: "\<exists>s\<in>set (emails d). quarantined_email i n stored d s"
    and d': "inbox d' = sql_update (quarantined_row i n) (released_inbox env (n + 1)) (inbox d)"
  shows "owner_is_create d' (if quarantined_email i n stored d e
    then released_email env (n + 1) e else e)"
proof (cases "e_processing_inbox_id e = Some i")
  case True
  have only: "owner_row s r" if mem: "s \<in> set (emails d)" "e_processing_inbox_id s = Some i" for s
  proof -
    obtain q where q: "q \<in> set (inbox d)" "owner_row s q" "i_id q = i"
      by (rule owner_row_exists [OF assms(1) mem])
    have "q = r"
      by (rule inbox_row_unique [OF assms(1) q(1) assms(4)])
        (simp add: q(3) quarantined_rowD [OF assms(3)])
    with q(2) show ?thesis by simp
  qed
  from found obtain s where s: "s \<in> set (emails d)" "quarantined_email i n stored d s" by blast
  have "s = e"
    by (rule email_key_unique [OF assms(1) s(1) assms(2)
          owner_row_key [OF only [OF assms(2) True] only [OF s(1) quarantined_emailD [OF s(2)]]]])
  have in_d': "released_inbox env (n + 1) r \<in> set (inbox d')"
    unfolding d' sql_update_in_set using assms(3,4) by (intro bexI [of _ r]) simp_all
  show ?thesis
    using owner_is_createI [OF in_d' released_owner_row [OF only [OF assms(2) True]]]
      s(2) \<open>s = e\<close> by simp
next
  case False
  have "owner_is_create d' e"
  proof (cases "e_processing_inbox_id e")
    case (Some m)
    obtain q where q: "q \<in> set (inbox d)" "owner_row e q" "i_id q = m"
      by (rule owner_row_exists [OF assms(1,2) Some])
    have "\<not> quarantined_row i n q" using q(3) False Some by (auto dest: quarantined_rowD)
    then have "q \<in> set (inbox d')"
      unfolding d' sql_update_in_set using q(1) by (intro bexI [of _ q]) simp_all
    then show ?thesis using q(2) by (rule owner_is_createI)
  qed (rule owner_is_create_free)
  moreover have "\<not> quarantined_email i n stored d e" using False by (auto dest: quarantined_emailD)
  ultimately show ?thesis by simp
qed

lemma release_kept:
  assumes "release_intake_quarantine env i n actor why d = Inr (x, d')" "store_ok now d"
    "n + 1 < POSTGRES_BIGINT_MAX"
    "\<And>r. r \<in> set (inbox d) \<Longrightarrow> i_id r = i \<Longrightarrow> i_effect_started_at r = None"
  shows "kept now d d'"
  using assms(1)
proof (rule release_cases)
  fix stored assume rows: "release_rows env i n stored actor why d = Inr (x, d')"
  note st = release_rows_store [OF rows]
  from st(3) obtain r where r: "r \<in> set (inbox d)" "quarantined_row i n r" by blast
  have row: "inbox_move q (released_inbox env (n + 1) q)
      \<and> row_ok now (released_inbox env (n + 1) q)"
    if "q \<in> set (inbox d)" "quarantined_row i n q" for q
    by (rule released_inbox_kept [OF store_okD(1) [OF assms(2) that(1)] that(2) assms(4) assms(3)])
      (use that in \<open>simp_all add: quarantined_row_def\<close>)
  have email: "email_move e (released_email env (n + 1) e) \<and> ck_emails (released_email env (n + 1) e)"
    if "e \<in> set (emails d)" "quarantined_email i n stored d e" for e
    using released_email_kept store_okD(2) assms(2,3) that by blast
  have owner: "owner_is_create d' e" if "e \<in> set (emails d')" for e
    using that released_owner [OF assms(2) _ r(2,1) st(2,4)]
    unfolding st(5) by (auto simp: sql_update_in_set)
  have ids: "map i_id (inbox d') = map i_id (inbox d)"
    "map i_dedupe_key (inbox d') = map i_dedupe_key (inbox d)"
    "map e_id (emails d') = map e_id (emails d)" "map email_key (emails d') = map email_key (emails d)"
    unfolding st(4,5)
    by (rule sql_update_keeps_key, simp add: released_inbox_def released_email_def email_key_def)+
  have "store_ok now d'"
    unfolding store_ok_def ids
    using assms(2) owner row email
    by (auto simp: store_ok_def list_all_iff st(4,5) sql_update_in_set)
  moreover have "guarded d d'"
    unfolding guarded_def st(4,5) using row email by (auto intro: rows_step_update)
  ultimately show ?thesis by (simp add: kept_def)
qed

end
