(* ===== verification/InboxReceipts.thy ===== *)
theory InboxReceipts
  imports InboxRecovery "HOL-Library.Sublist"
begin

text \<open>
  The two logs of the inbox, \<^verbatim>\<open>audit_events\<close> and \<^verbatim>\<open>intake_decisions\<close>. The schema forbids
  UPDATE and DELETE on both; here every operation is proved to append only, so a receipt that
  a transaction wrote is what every later transaction reads, and receipt keys are shown to
  name their attempt and operation.
\<close>

section \<open>Appending only\<close>

definition log_grows :: "db \<Rightarrow> db \<Rightarrow> bool" where
  "log_grows d d' =
     (prefix (audits d) (audits d') \<and> prefix (intake_decisions d) (intake_decisions d'))"

lemma log_grows_refl [simp, intro]: "log_grows d d"
  by (simp add: log_grows_def)

lemma log_grows_trans: "log_grows d e \<Longrightarrow> log_grows e f \<Longrightarrow> log_grows d f"
  unfolding log_grows_def by (elim conjE, intro conjI; erule prefix_order.trans; assumption)

lemma log_grows_same:
  "audits d' = audits d \<Longrightarrow> intake_decisions d' = intake_decisions d \<Longrightarrow> log_grows d d'"
  by (simp add: log_grows_def)

lemma log_grows_statement [simp]:
  "log_grows d (update_inbox p f e) = log_grows d e"
  "log_grows d (update_emails q g e) = log_grows d e"
  "log_grows (update_inbox p f d) e = log_grows d e"
  "log_grows (update_emails q g d) e = log_grows d e"
  by (simp_all add: log_grows_def)

lemma log_grows_other [simp]:
  "log_grows d (e\<lparr>inbox := a\<rparr>) = log_grows d e"
  "log_grows d (e\<lparr>emails := b\<rparr>) = log_grows d e"
  "log_grows d (e\<lparr>ownership := c\<rparr>) = log_grows d e"
  "log_grows d (e\<lparr>runtimes := t\<rparr>) = log_grows d e"
  "log_grows d (e\<lparr>intake_releases := x\<rparr>) = log_grows d e"
  "log_grows (e\<lparr>inbox := a\<rparr>) d = log_grows e d"
  "log_grows (e\<lparr>emails := b\<rparr>) d = log_grows e d"
  by (simp_all add: log_grows_def)

lemma select_one_prefix: "prefix t u \<Longrightarrow> select_one p t = Some r \<Longrightarrow> select_one p u = Some r"
  by (auto simp: prefix_def select_one_append)

lemma log_grows_lookup:
  "log_grows d d' \<Longrightarrow> audit_with_key k d = Some a \<Longrightarrow> audit_with_key k d' = Some a"
  by (auto simp: log_grows_def audit_with_key_def intro: select_one_prefix)

lemma log_grows_intake:
  "log_grows d d' \<Longrightarrow> select_one p (intake_decisions d) = Some n
   \<Longrightarrow> select_one p (intake_decisions d') = Some n"
  by (auto simp: log_grows_def intro: select_one_prefix)

section \<open>The statements that write a log\<close>

lemma insert_audit_log [simp]: "log_grows d (insert_audit a d)"
  by (auto simp: log_grows_def insert_audit_def split: option.split)

lemma append_audit_log:
  "append_audit env fresh i acc act res rea att m d = Inr d' \<Longrightarrow> log_grows d d'"
  by (auto simp: append_audit_def Let_def split: option.splits if_splits)

lemma elect_log: "elect_processing_attempt env fresh e l d = Inr (b, d') \<Longrightarrow> log_grows d d'"
  by (auto simp: elect_processing_attempt_def Let_def and_then_Inr)

lemma append_result_receipt_log: "append_result_receipt a d = Inr d' \<Longrightarrow> log_grows d d'"
  by (auto simp: append_result_receipt_def Let_def and_then_Inr)

lemma append_intake_decision_log:
  "append_intake_decision env l i target d = Inr d' \<Longrightarrow> log_grows d d'"
  by (auto simp: append_intake_decision_def and_then_Inr Let_def log_grows_def
      split: option.splits if_splits)

lemma cas_update_log: "cas_update p f d = Inr (e, d') \<Longrightarrow> log_grows d d'"
  by (auto simp: cas_update_def and_then_Inr)

section \<open>The operations\<close>

named_theorems log_rules \<open>every operation appends only\<close>

lemma insert_event_log [log_rules]:
  "insert_event env ev g f d = Inr (x, d') \<Longrightarrow> log_grows d d'"
  by (auto simp: insert_event_def admit_event_def and_then_Inr Let_def
      split: option.splits if_splits dest: append_audit_log)

lemma claim_batch_log [log_rules]:
  "claim_batch env w s ps n secs d = Inr (x, d') \<Longrightarrow> log_grows d d'"
  by (auto simp: claim_batch_def and_then_Inr Let_def split: if_splits)

lemma renew_log [log_rules]: "renew env l secs d = Inr (x, d') \<Longrightarrow> log_grows d d'"
  by (auto simp: renew_def and_then_Inr Let_def split: option.splits)

lemma begin_effect_log [log_rules]: "begin_effect env l d = Inr (x, d') \<Longrightarrow> log_grows d d'"
  by (auto simp: begin_effect_def Let_def)

lemma complete_log [log_rules]: "complete env l d = Inr (x, d') \<Longrightarrow> log_grows d d'"
  by (auto simp: complete_def and_then_Inr Let_def split: option.splits dest: append_audit_log)

lemma fail_log [log_rules]: "fail env l err d = Inr (x, d') \<Longrightarrow> log_grows d d'"
  by (auto simp: fail_def and_then_Inr Let_def split: if_splits dest: append_audit_log)

lemma begin_processing_effect_log [log_rules]:
  "begin_processing_effect env l i v k d = Inr (x, d') \<Longrightarrow> log_grows d d'"
  by (auto simp: begin_processing_effect_def begin_processing_effect_transaction_def and_then_Inr
      Let_def split: sum.splits repo_error.splits if_splits)

lemma settle_log: "settle env l i v op rs c e st row fe fr d = Inr (x, d') \<Longrightarrow> log_grows d d'"
  by (auto simp: settle_def settle_fresh_def and_then_Inr Let_def split: if_splits
      dest: append_result_receipt_log)

lemma finish_email_processing_log [log_rules]:
  "finish_email_processing env l i v c d = Inr (x, d') \<Longrightarrow> log_grows d d'"
  by (auto simp: finish_email_processing_def and_then_Inr Let_def
      intro: log_grows_trans dest!: append_intake_decision_log settle_log)

lemma finish_email_processing_failure_log [log_rules]:
  "finish_email_processing_failure env l i v err d = Inr (x, d') \<Longrightarrow> log_grows d d'"
  by (auto simp: finish_email_processing_failure_def and_then_Inr Let_def dest!: settle_log)

lemma fail_linked_log: "fail_linked env l e receipt rs d = Inr (x, d') \<Longrightarrow> log_grows d d'"
  by (auto simp: fail_linked_def and_then_Inr Let_def dest: append_result_receipt_log)

lemma fail_unlinked_log: "fail_unlinked env l v d = Inr (x, d') \<Longrightarrow> log_grows d d'"
  by (auto simp: fail_unlinked_def and_then_Inr Let_def split: if_splits dest: append_audit_log)

lemma recover_linked_row_log:
  assumes "recover_linked_row env l e state row d = Inr (x, d')"
  shows "log_grows d d'"
  using assms unfolding recover_linked_row_def Let_def
  by (elim and_thenE) (auto simp: and_then_Inr split: if_split_asm dest: fail_linked_log)

lemma recover_candidate_log [log_rules]:
  "recover_candidate env l d = Inr (x, d') \<Longrightarrow> log_grows d d'"
  by (auto simp: recover_candidate_def recover_linked_expired_lease_def
      recover_unlinked_expired_lease_def and_then_Inr
      split: option.splits if_splits dest!: recover_linked_row_log fail_unlinked_log)

lemma release_log [log_rules]:
  "release_intake_quarantine env i n actor why d = Inr (x, d') \<Longrightarrow> log_grows d d'"
  by (auto simp: release_intake_quarantine_def release_rows_def and_then_Inr Let_def)

lemma perform_event_log: "perform_event env e l ins dec d = Inr (x, d') \<Longrightarrow> log_grows d d'"
  by (auto simp: perform_event_def start_processing_def apply_delete_def enter_processing_def
      record_source_delete_def apply_metadata_projection_def already_elected_def and_then_Inr
      Let_def split: if_splits dest!: elect_log cas_update_log intro: log_grows_trans)

lemma apply_email_event_log [log_rules]:
  "apply_email_event env l d = Inr (x, d') \<Longrightarrow> log_grows d d'"
  by (auto simp: apply_email_event_def insert_neutral_shell_def dispatch_event_def
      already_elected_def and_then_Inr split: if_splits dest!: perform_event_log)

section \<open>Receipt keys\<close>

text \<open>
  Each key hashes NUL-separated fields that hold no NUL, so under an injective hash a key
  determines its fields, and the three kinds of keys never meet.
\<close>

lemma dec_int_no_nul: "0 \<notin> set (dec_int i)"
  using dec_int_chars by blast

lemma attempt_key_inject:
  assumes "inj (sha256 env)" "0 \<notin> set i" "0 \<notin> set j"
  shows "processing_attempt_event_key env i e a = processing_attempt_event_key env j f b
    \<longleftrightarrow> i = j \<and> e = f \<and> a = b"
  using assms
  by (auto simp: processing_attempt_event_key_def inj_eq nul_join_inject
      dec_int_no_nul)

lemma result_key_inject:
  assumes "inj (sha256 env)" "0 \<notin> set i" "0 \<notin> set j"
  shows "processing_result_event_key env i e a op1 = processing_result_event_key env j f b op2
    \<longleftrightarrow> i = j \<and> e = f \<and> a = b \<and> op1 = op2"
  using assms
  by (auto simp: processing_result_event_key_def inj_eq nul_join_inject
      dec_int_no_nul)

lemma attempt_key_not_result_key:
  assumes "inj (sha256 env)"
  shows "processing_attempt_event_key env i e a \<noteq> processing_result_event_key env j f b op"
  using assms
  by (simp add: processing_attempt_event_key_def processing_result_event_key_def inj_eq lit_def)

end
