(* ===== verification/InboxMachine.thy ===== *)
theory InboxMachine
  imports InboxSteps InboxReceipts
begin

text \<open>
  The inbox as a transition system: a state is the current time and the store, a step is one
  transaction of the repository, the passing of time, a change of the ownership and runtime
  tables by the components that own them, or a change of emails by their other writers. The
  rest of the program's transactions interleave with these in any order.
\<close>

section \<open>Steps\<close>

type_synonym inbox_state = "time \<times> db"

text \<open>
  \<open>release\<close> is the transaction the database accepts: the row trigger refuses to restart work
  whose effect marker is set, and the CHECK constraint the last epoch. \<open>elsewhere\<close> are the
  other writers of \<^verbatim>\<open>emails\<close> and of the two append-only logs, which the same triggers and
  constraints bind.
\<close>

inductive inbox_step :: "inbox_state \<Rightarrow> inbox_state \<Rightarrow> bool" where
  tick: "now \<le> now' \<Longrightarrow> inbox_step (now, d) (now', d)"
| authority: "inbox_step (now, d) (now, d\<lparr>ownership := os, runtimes := rts\<rparr>)"
| elsewhere: "kept now d d' \<Longrightarrow> inbox d' = inbox d \<Longrightarrow> log_grows d d' \<Longrightarrow>
    inbox_step (now, d) (now, d')"
| admit: "env_ok now env now' d \<Longrightarrow> insert_event env ev g f d = Inr (receipt, d') \<Longrightarrow>
    inbox_step (now, d) (now', d')"
| claim: "env_ok now env now' d \<Longrightarrow>
    claim_batch env worker session names limit secs d = Inr (leases, d') \<Longrightarrow>
    inbox_step (now, d) (now', d')"
| renewal: "env_ok now env now' d \<Longrightarrow> renew env l secs d = Inr (renewed, d') \<Longrightarrow>
    inbox_step (now, d) (now', d')"
| effect: "env_ok now env now' d \<Longrightarrow> begin_effect env l d = Inr (marked, d') \<Longrightarrow>
    inbox_step (now, d) (now', d')"
| apply_event: "env_ok now env now' d \<Longrightarrow> apply_email_event env l d = Inr (application, d') \<Longrightarrow>
    inbox_step (now, d) (now', d')"
| processing_effect: "env_ok now env now' d \<Longrightarrow>
    begin_processing_effect env l email_id v kind d = Inr (authorized, d') \<Longrightarrow>
    inbox_step (now, d) (now', d')"
| finish: "env_ok now env now' d \<Longrightarrow> completion_ok c \<Longrightarrow>
    finish_email_processing env l email_id v c d = Inr (result, d') \<Longrightarrow>
    inbox_step (now, d) (now', d')"
| finish_failure: "env_ok now env now' d \<Longrightarrow>
    finish_email_processing_failure env l email_id v err d = Inr (result, d') \<Longrightarrow>
    inbox_step (now, d) (now', d')"
| completion: "env_ok now env now' d \<Longrightarrow> complete env l d = Inr (done, d') \<Longrightarrow>
    inbox_step (now, d) (now', d')"
| failing: "env_ok now env now' d \<Longrightarrow> fail env l err d = Inr (disposition, d') \<Longrightarrow>
    inbox_step (now, d) (now', d')"
| recovery: "recover_candidate env l d = Inr (updated, d') \<Longrightarrow> inbox_step (now, d) (now, d')"
| release: "release_intake_quarantine env i n actor why d = Inr (epoch, d') \<Longrightarrow>
    n + 1 < POSTGRES_BIGINT_MAX \<Longrightarrow>
    (\<And>r. r \<in> set (inbox d) \<Longrightarrow> i_id r = i \<Longrightarrow> i_effect_started_at r = None) \<Longrightarrow>
    inbox_step (now, d) (now, d')"

inductive_cases inbox_stepE: "inbox_step s t"

definition inbox_start :: "inbox_state \<Rightarrow> bool" where
  "inbox_start s = (inbox (snd s) = [] \<and> emails (snd s) = [])"

definition state_ok :: "inbox_state \<Rightarrow> bool" where
  "state_ok s = store_ok (fst s) (snd s)"

lemma kept_same:
  "store_ok now d \<Longrightarrow> now \<le> now' \<Longrightarrow> inbox d' = inbox d \<Longrightarrow> emails d' = emails d \<Longrightarrow> kept now' d d'"
  by (rule kept_cong [OF kept_refl])

text \<open>Every step keeps the invariant and moves rows only as the status machines allow.\<close>

lemma inbox_step_kept:
  assumes "inbox_step s t" "state_ok s"
  shows "kept (fst t) (snd s) (snd t) \<and> fst s \<le> fst t"
  using assms(1)
proof (cases rule: inbox_step.cases)
  case (release env i n actor why d epoch d' now)
  with assms(2) show ?thesis by (auto simp: state_ok_def intro!: release_kept)
qed (use assms(2) in \<open>auto simp: state_ok_def env_okD(1)
  intro: kept_refl kept_same insert_event_kept claim_batch_kept renew_kept begin_effect_kept
    apply_email_event_kept begin_processing_effect_kept finish_email_processing_kept
    finish_email_processing_failure_kept complete_kept fail_kept recover_candidate_kept\<close>)

text \<open>No step rewrites a log.\<close>

lemma inbox_step_log: "inbox_step s t \<Longrightarrow> log_grows (snd s) (snd t)"
  by (cases rule: inbox_step.cases, assumption) (auto intro: log_rules)

section \<open>What never changes back\<close>

definition inbox_grows :: "inbox_row \<Rightarrow> inbox_row \<Rightarrow> bool" where
  "inbox_grows r s =
     (inbox_identity r s \<and> i_execution_epoch r \<le> i_execution_epoch s
      \<and> (i_execution_epoch s = i_execution_epoch r \<longrightarrow> within_epoch r s)
      \<and> (i_effect_started_at r \<noteq> None \<longrightarrow> i_execution_epoch s = i_execution_epoch r)
      \<and> (i_status r = IS_COMPLETED \<or> i_status r = IS_DEAD_LETTER \<longrightarrow>
           i_status s = i_status r \<and> i_execution_epoch s = i_execution_epoch r))"

definition email_grows :: "email_row \<Rightarrow> email_row \<Rightarrow> bool" where
  "email_grows e s =
     (email_identity e s \<and> e_version e \<le> e_version s
      \<and> (e_create_seen_at e \<noteq> None \<longrightarrow> e_create_seen_at s = e_create_seen_at e)
      \<and> (e_source_deleted_at e \<noteq> None \<longrightarrow> e_source_deleted_at s = e_source_deleted_at e
           \<and> (e_status e \<noteq> ES_PROCESSING \<longrightarrow> e_status s \<noteq> ES_PROCESSING))
      \<and> (e_external_effects_started_at e \<noteq> None \<longrightarrow>
           e_external_effects_started_at s = e_external_effects_started_at e))"

lemma inbox_move_grows: "inbox_move r s \<Longrightarrow> inbox_grows r s"
  by (auto simp: inbox_move_def legal_status_def guard_event_inbox_def inbox_grows_def
      requeue_transition_def inbox_identity_def within_epoch_def split: if_splits)

lemma inbox_identity_trans: "inbox_identity r s \<Longrightarrow> inbox_identity s t \<Longrightarrow> inbox_identity r t"
  by (simp add: inbox_identity_def)

lemma within_epoch_trans: "within_epoch r s \<Longrightarrow> within_epoch s t \<Longrightarrow> within_epoch r t"
  unfolding within_epoch_def by (elim conjE, intro conjI impI) simp_all

lemma inbox_growsD:
  assumes "inbox_grows r s"
  shows "inbox_identity r s" "i_execution_epoch r \<le> i_execution_epoch s"
    "i_execution_epoch s = i_execution_epoch r \<Longrightarrow> within_epoch r s"
    "i_effect_started_at r \<noteq> None \<Longrightarrow> i_execution_epoch s = i_execution_epoch r"
    "i_effect_started_at r \<noteq> None \<Longrightarrow> i_effect_started_at s = i_effect_started_at r"
    "i_status r = IS_COMPLETED \<or> i_status r = IS_DEAD_LETTER \<Longrightarrow> i_status s = i_status r"
    "i_status r = IS_COMPLETED \<or> i_status r = IS_DEAD_LETTER \<Longrightarrow>
       i_execution_epoch s = i_execution_epoch r"
  using assms by (simp_all add: inbox_grows_def within_epoch_def)

lemma inbox_grows_trans:
  assumes "inbox_grows r s" "inbox_grows s t"
  shows "inbox_grows r t"
proof -
  note rs = inbox_growsD [OF assms(1)] and st = inbox_growsD [OF assms(2)]
  have "within_epoch r t" if "i_execution_epoch t = i_execution_epoch r"
  proof (rule within_epoch_trans)
    from that rs(2) st(2) have "i_execution_epoch s = i_execution_epoch r" by simp
    then show "within_epoch r s" by (rule rs(3))
    from that rs(2) st(2) show "within_epoch s t" by (intro st(3)) simp
  qed
  moreover have "i_execution_epoch t = i_execution_epoch r" if "i_effect_started_at r \<noteq> None"
    using rs(4,5) st(4) that by simp
  moreover have "i_status t = i_status r \<and> i_execution_epoch t = i_execution_epoch r"
    if "i_status r = IS_COMPLETED \<or> i_status r = IS_DEAD_LETTER"
    using rs(6,7) [OF that] st(6,7) that by simp
  ultimately show ?thesis
    unfolding inbox_grows_def
    using inbox_identity_trans [OF rs(1) st(1)] order_trans [OF rs(2) st(2)] by blast
qed

lemma email_moveD:
  assumes "email_move r s"
  shows "email_identity r s" "e_version r \<le> e_version s"
    "e_create_seen_at r \<noteq> None \<Longrightarrow> e_create_seen_at s = e_create_seen_at r"
    "e_source_deleted_at r \<noteq> None \<Longrightarrow> e_source_deleted_at s = e_source_deleted_at r"
    "e_external_effects_started_at r \<noteq> None \<Longrightarrow>
       e_external_effects_started_at s = e_external_effects_started_at r"
    "e_source_deleted_at r \<noteq> None \<Longrightarrow> e_status r \<noteq> ES_PROCESSING \<Longrightarrow> e_status s \<noteq> ES_PROCESSING"
proof -
  note m = assms [unfolded email_move_def]
  note g = m [THEN conjunct1, unfolded guard_emails_def]
  note facts = g [THEN conjunct2, THEN conjunct2, THEN conjunct2]
  show "email_identity r s" by (rule g [THEN conjunct1])
  show "e_version r \<le> e_version s" by (rule m [THEN conjunct2, THEN conjunct1])
  show "e_create_seen_at r \<noteq> None \<Longrightarrow> e_create_seen_at s = e_create_seen_at r"
    by (rule facts [THEN conjunct1, THEN mp])
  show "e_source_deleted_at r \<noteq> None \<Longrightarrow> e_source_deleted_at s = e_source_deleted_at r"
    by (rule facts [THEN conjunct2, THEN conjunct2, THEN conjunct1, THEN mp])
  show "e_external_effects_started_at r \<noteq> None \<Longrightarrow>
      e_external_effects_started_at s = e_external_effects_started_at r"
    by (rule facts [THEN conjunct2, THEN conjunct2, THEN conjunct2, THEN conjunct1, THEN mp])
  show "e_status s \<noteq> ES_PROCESSING" if "e_source_deleted_at r \<noteq> None" "e_status r \<noteq> ES_PROCESSING"
    using that m [THEN conjunct2, THEN conjunct2, THEN conjunct2] by blast
qed

lemma email_move_grows: "email_move r s \<Longrightarrow> email_grows r s"
  unfolding email_grows_def
  by (intro conjI impI; (erule email_moveD; assumption | erule email_moveD))

lemma email_identity_trans: "email_identity r s \<Longrightarrow> email_identity s t \<Longrightarrow> email_identity r t"
  by (simp add: email_identity_def)

lemma email_grows_trans: "email_grows r s \<Longrightarrow> email_grows s t \<Longrightarrow> email_grows r t"
  unfolding email_grows_def
  by (elim conjE, intro conjI impI) (simp_all add: email_identity_trans)

definition state_grows :: "inbox_state \<Rightarrow> inbox_state \<Rightarrow> bool" where
  "state_grows s t =
     (fst s \<le> fst t \<and> rows_step inbox_grows (inbox (snd s)) (inbox (snd t))
      \<and> rows_step email_grows (emails (snd s)) (emails (snd t)) \<and> log_grows (snd s) (snd t))"

lemma step_state_grows:
  assumes "state_ok s" "inbox_step s t"
  shows "state_grows s t"
  using inbox_step_kept [OF assms(2,1)] inbox_step_log [OF assms(2)]
  by (auto simp: state_grows_def kept_def guarded_def
      intro: rows_step_mono [OF _ inbox_move_grows] rows_step_mono [OF _ email_move_grows])

interpretation inbox_machine: monotone_system inbox_start inbox_step state_ok state_grows
proof
  show "state_ok s" if "inbox_start s" for s
    using that by (simp add: inbox_start_def state_ok_def store_ok_def)
  show "state_ok t" if "state_ok s" "inbox_step s t" for s t
    using inbox_step_kept [OF that(2,1)] by (simp add: kept_def state_ok_def)
  show "state_grows s s" for s
    by (auto simp: state_grows_def intro!: rows_step_refl inbox_move_grows email_move_grows)
  show "state_grows s u" if "state_grows s t" "state_grows t u" for s t u
    using that unfolding state_grows_def
    by (meson inbox_grows_trans email_grows_trans rows_step_trans order_trans log_grows_trans)
  show "state_grows s t" if "state_ok s" "inbox_step s t" for s t
    using that by (rule step_state_grows)
qed

definition reachable :: "inbox_state \<Rightarrow> bool" where
  "reachable t = (\<exists>s. inbox_start s \<and> run inbox_step s t)"

lemma reachable_step: "reachable s \<Longrightarrow> inbox_step s t \<Longrightarrow> reachable t"
  unfolding reachable_def by (meson run_step)

lemma reachable_run: "reachable s \<Longrightarrow> run inbox_step s t \<Longrightarrow> reachable t"
  unfolding reachable_def by (meson run_trans)

lemma reachable_ok: "reachable s \<Longrightarrow> state_ok s"
  unfolding reachable_def using inbox_machine.reachable_invar by blast

lemma reachable_grows: "reachable s \<Longrightarrow> run inbox_step s t \<Longrightarrow> state_grows s t"
  by (rule inbox_machine.run_grows [OF _ reachable_ok])

text \<open>A whole recovery transaction is a run of candidate recoveries.\<close>

lemma recover_loop_run:
  "recover_loop envs limit k ls n failed d = Inr (m, failed', d') \<Longrightarrow>
     run inbox_step (now, d) (now, d')"
proof (induction envs limit k ls n failed d rule: recover_loop.induct)
  case (2 envs limit k l ls recovered failed d)
  show ?case
  proof (cases "recovered \<ge> limit")
    case True
    with "2.prems" show ?thesis by simp
  next
    case False
    show ?thesis
    proof (cases "recover_candidate (envs k) l d")
      case (Inl err)
      with False "2.prems" have "savepoint_error err"
        and "recover_loop envs limit (Suc k) ls recovered
          (case failed of None \<Rightarrow> Some err | Some first \<Rightarrow> Some first) d = Inr (m, failed', d')"
        by (auto split: if_split_asm)
      with "2.IH"(1) False Inl show ?thesis by blast
    next
      case (Inr p)
      obtain updated d1 where p: "p = (updated, d1)" by (cases p)
      from Inr p have "inbox_step (now, d) (now, d1)" by (auto intro: inbox_step.recovery)
      moreover have "run inbox_step (now, d1) (now, d')"
        using False "2.prems" "2.IH"(2) Inr p by simp
      ultimately show ?thesis by (meson run_refl run_step run_trans)
    qed
  qed
qed simp

lemma recover_expired_leases_run:
  assumes "recover_expired_leases env envs limit d = Inr (x, d')"
  shows "run inbox_step (now, d) (now, d')"
  using assms by (auto simp: recover_expired_leases_def and_then_Inr intro: recover_loop_run)

end
