(* ===== verification/InboxScenario.thy ===== *)
theory InboxScenario
  imports InboxMachine "HOL-Library.Code_Target_Nat"
begin

text \<open>
  One event on its way through the inbox, evaluated: a CREATE is admitted, claimed, applied to
  its email, marked with an external effect and finished. The properties of the development
  are instantiated along this run. The hash is the identity (injective), a uuid is a pair of
  code points, and transaction \<open>p\<close> runs at one instant.
\<close>

section \<open>Surroundings\<close>

definition sample_env :: "nat \<Rightarrow> time \<Rightarrow> env" where
  "sample_env p t = \<lparr>sha256 = (\<lambda>b. b), clk = (\<lambda>k. t), uuid4 = (\<lambda>k. [p, 65 + k]),
     isoformat = dec_int, texts = \<lparr>python_float = (\<lambda>q. [48]), postgres_float = (\<lambda>q. [48])\<rparr>,
     inbox_locked = (\<lambda>i. False), email_locked = (\<lambda>i. False),
     runtime_columns = Some (1, replicate 64 98)\<rparr>"

definition sample_event :: ingress_event where
  "sample_event = \<lparr>ev_account_id = 7, ev_source = SYNC, ev_raw_event_type = lit ''create'',
     ev_kind = CREATE, ev_external_email_id = lit ''m1'', ev_folder = lit ''inbox'',
     ev_source_version = None, ev_dedupe_key = replicate 64 97,
     ev_payload = JObj [(lit ''item'', JObj [(lit ''is_read'', JBool False)])],
     ev_processing_policy = FULL, ev_source_event_at = None\<rparr>"

definition sample_session :: uuid where "sample_session = lit ''s1''"
definition sample_worker :: pystr where "sample_worker = lit ''w1''"

definition empty_store :: db where
  "empty_store = \<lparr>inbox = [], emails = [],
     ownership = [\<lparr>o_account_id = 7, o_generation = 1,
       o_pipeline_name = GREENFIELD_PIPELINE_NAME, o_state = CURRENT_INGRESS,
       o_fencing_token = 1\<rparr>],
     runtimes = [\<lparr>r_session_id = sample_session, r_account_id = 7, r_generation = 1,
       r_fencing_token = 1, r_authority_epoch = 1, r_capability_hash = replicate 64 98,
       r_instance_id = sample_worker, r_workload = lit ''web'', r_lifecycle = lit ''active'',
       r_lease_until = seconds 1000\<rparr>],
     audits = [], intake_decisions = [], intake_releases = []\<rparr>"

section \<open>The run\<close>

definition sample_row :: inbox_row where
  "sample_row = fresh_inbox_row (sample_env 1 (seconds 10)) sample_event
     GREENFIELD_PIPELINE_NAME 1 1 IS_PENDING (1, replicate 64 98)"

definition admitted_store :: db where
  "admitted_store = empty_store\<lparr>inbox := [sample_row]\<rparr>"

definition leased_row :: inbox_row where
  "leased_row = lease_row (sample_env 2 (seconds 20)) sample_session sample_worker 60 sample_row"

definition claimed_store :: db where
  "claimed_store = empty_store\<lparr>inbox := [leased_row]\<rparr>"

definition sample_lease :: inbox_lease where
  "sample_lease = row_lease leased_row sample_session sample_worker (seconds 80)"

definition sample_shell :: email_row where
  "sample_shell = neutral_shell (sample_env 3 (seconds 30)) sample_lease"

definition processing_email :: email_row where
  "processing_email = processing_row (sample_env 3 (seconds 30)) sample_lease (lit ''inbox'')
     (Some False, False) sample_shell"

definition applied_store :: db where
  "applied_store = claimed_store\<lparr>emails := [processing_email],
     audits := [attempt_receipt (sample_env 3 (seconds 30)) [3, 66] sample_shell sample_lease]\<rparr>"

definition effect_store :: db where
  "effect_store = applied_store\<lparr>
     inbox := [leased_row\<lparr>i_effect_started_at := Some (seconds 40), i_updated_at := seconds 40\<rparr>],
     emails := [processing_email\<lparr>e_external_effects_started_at := Some (seconds 40),
       e_updated_at := seconds 40\<rparr>]\<rparr>"

definition sample_resolution :: processing_resolution where
  "sample_resolution = completion_resolution sample_lease waiting_approval_completion True 1"

definition finished_store :: db where
  "finished_store = effect_store\<lparr>
     inbox := map (finished_inbox (sample_env 5 (seconds 50)) sample_resolution) (inbox effect_store),
     emails := map (finished_email (sample_env 5 (seconds 50)) sample_resolution) (emails effect_store),
     audits := audits effect_store @ [result_receipt (sample_env 5 (seconds 50)) [5, 65] sample_lease
       [3, 65] 1 SUCCESS_OPERATION sample_resolution (Some waiting_approval_completion)]\<rparr>"

definition sample_application :: email_event_application where
  "sample_application = \<lparr>ea_decision = \<lparr>should_process = True, should_cancel = False,
       new_status = ES_PROCESSING, cancel_pending_side_effects = False, create_seen = True,
       reason = FIRST_CREATE\<rparr>,
     ea_email_id = [3, 65], ea_persisted_status = ES_PROCESSING, ea_version = 1,
     ea_disposition = CREATOR_ELECTED, ea_may_complete_without_processing = False\<rparr>"

definition claim_sample :: "db \<Rightarrow> repo_error + (inbox_lease list \<times> db)" where
  "claim_sample = claim_batch (sample_env 2 (seconds 20)) sample_worker sample_session
     [GREENFIELD_PIPELINE_NAME] 10 60"

definition finish_sample :: "db \<Rightarrow> repo_error + (processing_finish_result \<times> db)" where
  "finish_sample = finish_email_processing (sample_env 5 (seconds 50)) sample_lease [3, 65] 1
     waiting_approval_completion"

lemma admitted:
  "insert_event (sample_env 1 (seconds 10)) sample_event 1 1 empty_store
     = Inr (\<lparr>rc_inbox_id = [1, 65], rc_duplicate = False\<rparr>, admitted_store)"
  by code_simp

lemma claimed: "claim_sample admitted_store = Inr ([sample_lease], claimed_store)"
  by code_simp

lemma applied:
  "apply_email_event (sample_env 3 (seconds 30)) sample_lease claimed_store
     = Inr (sample_application, applied_store)"
  by code_simp

lemma effect_begun:
  "begin_processing_effect (sample_env 4 (seconds 40)) sample_lease [3, 65] 1 EE_MODEL applied_store
     = Inr (True, effect_store)"
  by code_simp

lemma finished:
  "finish_sample effect_store = Inr (\<lparr>pf_email_status = ES_WAITING_APPROVAL,
     pf_inbox_status = IS_COMPLETED, pf_replayed = False\<rparr>, finished_store)"
  by code_simp

section \<open>The run is a run of the transition system\<close>

lemma sample_env_ok:
  assumes "now \<le> t" "list_all (\<lambda>r. hd (i_id r) \<noteq> p) (inbox d) \<and> list_all (\<lambda>e. hd (e_id e) \<noteq> p) (emails d)"
  shows "env_ok now (sample_env p t) t d"
proof -
  have "i_id r \<noteq> [p, 65 + k]" if "r \<in> set (inbox d)" for r k
    using assms(2) that by (auto simp: list_all_iff)
  moreover have "e_id e \<noteq> [p, 65 + k]" if "e \<in> set (emails d)" for e k
    using assms(2) that by (auto simp: list_all_iff)
  ultimately show ?thesis
    using assms(1) by (auto simp: env_ok_def sample_env_def dest: sym)
qed

lemma admitted_reachable: "reachable (seconds 10, admitted_store)"
proof (rule reachable_step)
  show "reachable (0, empty_store)"
    unfolding reachable_def
    by (rule exI [of _ "(0, empty_store)"]) (simp add: inbox_start_def empty_store_def)
  show "inbox_step (0, empty_store) (seconds 10, admitted_store)"
    by (rule inbox_step.admit [OF sample_env_ok admitted]) code_simp+
qed

lemma claimed_reachable: "reachable (seconds 20, claimed_store)"
  by (rule reachable_step [OF admitted_reachable],
      rule inbox_step.claim [OF sample_env_ok claimed [unfolded claim_sample_def]]) code_simp+

lemma applied_reachable: "reachable (seconds 30, applied_store)"
  by (rule reachable_step [OF claimed_reachable],
      rule inbox_step.apply_event [OF sample_env_ok applied]) code_simp+

lemma effect_step: "inbox_step (seconds 30, applied_store) (seconds 40, effect_store)"
  by (rule inbox_step.processing_effect [OF sample_env_ok effect_begun]) code_simp+

lemma effect_reachable: "reachable (seconds 40, effect_store)"
  by (rule reachable_step [OF applied_reachable effect_step])

lemma finish_step: "inbox_step (seconds 40, effect_store) (seconds 50, finished_store)"
  by (rule inbox_step.finish [OF sample_env_ok _ finished [unfolded finish_sample_def]])
    (code_simp | simp)+

end
