(* ===== verification/InboxTombstone.thy ===== *)
theory InboxTombstone
  imports InboxScenario
begin

text \<open>
  A second evaluated run: the CREATE of \<open>InboxScenario\<close> and the DELETE of another message wait
  side by side, both are claimed, and the DELETE leaves a tombstone.
\<close>

definition delete_event :: ingress_event where
  "delete_event = sample_event\<lparr>ev_kind := DELETE, ev_external_email_id := lit ''m2'',
     ev_raw_event_type := lit ''delete'', ev_dedupe_key := replicate 64 99\<rparr>"

definition delete_row :: inbox_row where
  "delete_row = fresh_inbox_row (sample_env 6 (seconds 12)) delete_event
     GREENFIELD_PIPELINE_NAME 1 1 IS_PENDING (1, replicate 64 98)"

definition both_store :: db where
  "both_store = empty_store\<lparr>inbox := [sample_row, delete_row]\<rparr>"

definition deleting_row :: inbox_row where
  "deleting_row = lease_row (sample_env 2 (seconds 20)) sample_session sample_worker 60 delete_row"

definition delete_lease :: inbox_lease where
  "delete_lease = row_lease deleting_row sample_session sample_worker (seconds 80)"

definition both_claimed_store :: db where
  "both_claimed_store = empty_store\<lparr>inbox := [leased_row, deleting_row]\<rparr>"

definition tombstone_decision :: email_event_decision where
  "tombstone_decision = \<lparr>should_process = False, should_cancel = True, new_status = ES_CANCELLED,
     cancel_pending_side_effects = False, create_seen = False, reason = SOURCE_TOMBSTONE\<rparr>"

definition tombstone :: email_row where
  "tombstone = deleted_row (sample_env 3 (seconds 30)) tombstone_decision
     (neutral_shell (sample_env 3 (seconds 30)) delete_lease)"

definition tombstone_store :: db where
  "tombstone_store = both_claimed_store\<lparr>emails := [tombstone]\<rparr>"

lemma delete_admitted:
  "insert_event (sample_env 6 (seconds 12)) delete_event 1 1 admitted_store
     = Inr (\<lparr>rc_inbox_id = [6, 65], rc_duplicate = False\<rparr>, both_store)"
  by code_simp

lemma both_reachable: "reachable (seconds 12, both_store)"
  by (rule reachable_step [OF admitted_reachable],
      rule inbox_step.admit [OF sample_env_ok delete_admitted]) code_simp+

lemma both_claimed: "claim_sample both_store = Inr ([sample_lease, delete_lease], both_claimed_store)"
  by code_simp

lemma oldest_claimed:
  "claim_batch (sample_env 2 (seconds 20)) sample_worker sample_session
     [GREENFIELD_PIPELINE_NAME] 1 60 both_store
     = Inr ([sample_lease], empty_store\<lparr>inbox := [leased_row, delete_row]\<rparr>)"
  by code_simp

lemma both_claimed_reachable: "reachable (seconds 20, both_claimed_store)"
  by (rule reachable_step [OF both_reachable],
      rule inbox_step.claim [OF sample_env_ok both_claimed [unfolded claim_sample_def]]) code_simp+

lemma deleted:
  "apply_email_event (sample_env 3 (seconds 30)) delete_lease both_claimed_store
     = Inr (\<lparr>ea_decision = tombstone_decision, ea_email_id = [3, 65],
         ea_persisted_status = ES_CANCELLED, ea_version = 1, ea_disposition = TOMBSTONE_CREATED,
         ea_may_complete_without_processing = True\<rparr>, tombstone_store)"
  by code_simp

lemma tombstone_reachable: "reachable (seconds 30, tombstone_store)"
  by (rule reachable_step [OF both_claimed_reachable],
      rule inbox_step.apply_event [OF sample_env_ok deleted]) code_simp+

section \<open>Work that arrives after an effect\<close>

definition late_row :: inbox_row where
  "late_row = fresh_inbox_row (sample_env 6 (seconds 45)) delete_event
     GREENFIELD_PIPELINE_NAME 1 1 IS_PENDING (1, replicate 64 98)"

definition late_store :: db where
  "late_store = effect_store\<lparr>inbox := inbox effect_store @ [late_row]\<rparr>"

definition late_leased_row :: inbox_row where
  "late_leased_row = lease_row (sample_env 7 (seconds 46)) sample_session sample_worker 60 late_row"

definition late_lease :: inbox_lease where
  "late_lease = row_lease late_leased_row sample_session sample_worker (seconds 106)"

lemma late_admitted:
  "insert_event (sample_env 6 (seconds 45)) delete_event 1 1 effect_store
     = Inr (\<lparr>rc_inbox_id = [6, 65], rc_duplicate = False\<rparr>, late_store)"
  by code_simp

lemma late_step: "inbox_step (seconds 40, effect_store) (seconds 45, late_store)"
  by (rule inbox_step.admit [OF sample_env_ok late_admitted]) code_simp+

lemma late_claimed:
  "claim_batch (sample_env 7 (seconds 46)) sample_worker sample_session
     [GREENFIELD_PIPELINE_NAME] 10 60 late_store
     = Inr ([late_lease], late_store\<lparr>inbox := inbox effect_store @ [late_leased_row]\<rparr>)"
  by code_simp

end
