(* ===== verification/InboxClaims.thy ===== *)
theory InboxClaims
  imports InboxTombstone
begin

text \<open>
  What the lease operations of \<open>InboxLeases\<close> promise a worker: claiming hands out ready,
  unlocked rows of a live runtime, oldest first and within the limit; a renewed lease replaces
  the old one; a stale lease changes nothing; and a failure is classified within its bounds.
\<close>

section \<open>Lists\<close>

lemma filter_keys_length:
  assumes "distinct (map k t)"
  shows "length (filter (\<lambda>r. k r \<in> set ids) t) \<le> length ids"
proof -
  have "distinct (map k (filter (\<lambda>r. k r \<in> set ids) t))"
    using assms by (rule distinct_map_filter)
  moreover have "set (map k (filter (\<lambda>r. k r \<in> set ids) t)) \<subseteq> set ids" by auto
  ultimately show ?thesis
    by (metis card_length card_mono distinct_card length_map List.finite_set order_trans)
qed

lemma sorted_take_le:
  assumes "sorted (map k xs)" "x \<in> set (take n xs)" "y \<in> set (drop n xs)"
  shows "k x \<le> k y"
proof -
  have "sorted (map k (take n xs) @ map k (drop n xs))"
    using assms(1) by (metis append_take_drop_id map_append)
  with assms(2,3) show ?thesis by (auto simp: sorted_append)
qed

lemma traverse_nth_map:
  "traverse f xs = Inr ys \<Longrightarrow> (\<And>x y. x \<in> set xs \<Longrightarrow> f x = Inr y \<Longrightarrow> g y = h x) \<Longrightarrow> map g ys = map h xs"
  by (induction xs arbitrary: ys) (auto split: sum.splits)

lemma traverse_image:
  "traverse f xs = Inr ys \<Longrightarrow> x \<in> set xs \<Longrightarrow> \<exists>y\<in>set ys. f x = Inr y"
  by (induction xs arbitrary: ys) (auto split: sum.splits)

section \<open>Claiming\<close>

abbreviation claim_window :: "int \<Rightarrow> nat" where
  "claim_window limit \<equiv> nat (min MAX_BATCH (max limit (limit * 4)))"

text \<open>The rows one claim chooses.\<close>

definition chosen_ids :: "env \<Rightarrow> pystr \<Rightarrow> uuid \<Rightarrow> pystr list \<Rightarrow> int \<Rightarrow> db \<Rightarrow> uuid list" where
  "chosen_ids env worker session pipelines limit d =
     claimable env session worker pipelines
       (claim_accounts env pipelines (claim_window limit) d) (nat limit) d"

lemma claim_batch_cases:
  assumes "claim_batch env worker session names limit n d = Inr (ls, d')"
  obtains (empty) "ls = []" "d' = d"
  | (leased) ps leases where "require_pipeline_names names = Inr ps"
      "0 < limit" "0 < n" "valid_exact_text 128 worker"
      "traverse (lease_from_row env) (sql_returning
         (\<lambda>r. i_id r \<in> set (chosen_ids env worker session ps limit d))
         (lease_row env session worker n) (inbox d)) = Inr leases"
      "ls = sort_key (\<lambda>l. (l_received_at l, l_id l)) leases"
      "d' = update_inbox (\<lambda>r. i_id r \<in> set (chosen_ids env worker session ps limit d))
         (lease_row env session worker n) d"
proof -
  from assms obtain ps where args: "require_pipeline_names names = Inr ps"
      "valid_exact_text 128 worker" "0 < limit" "0 < n"
    and body: "(if \<not> list_all valid_bigint (claim_accounts env ps (claim_window limit) d)
        then Inl (RepoValueError ''account_id'')
        else if claim_accounts env ps (claim_window limit) d = [] then Inr ([], d)
        else and_then (traverse (lease_from_row env) (sql_returning
            (\<lambda>r. i_id r \<in> set (chosen_ids env worker session ps limit d))
            (lease_row env session worker n) (inbox d))) (\<lambda>leases.
          Inr (sort_key (\<lambda>l. (l_received_at l, l_id l)) leases,
            update_inbox (\<lambda>r. i_id r \<in> set (chosen_ids env worker session ps limit d))
              (lease_row env session worker n) d))) = Inr (ls, d')"
    unfolding claim_batch_def Let_def chosen_ids_def
    by (elim and_thenE) (simp add: valid_bounded_int_def)
  show thesis
  proof (cases "claim_accounts env ps (claim_window limit) d = []")
    case True
    with body empty show thesis by (simp split: if_split_asm)
  next
    case False
    with body obtain leases where "traverse (lease_from_row env) (sql_returning
         (\<lambda>r. i_id r \<in> set (chosen_ids env worker session ps limit d))
         (lease_row env session worker n) (inbox d)) = Inr leases"
      "ls = sort_key (\<lambda>l. (l_received_at l, l_id l)) leases"
      "d' = update_inbox (\<lambda>r. i_id r \<in> set (chosen_ids env worker session ps limit d))
         (lease_row env session worker n) d"
      by (auto simp: and_then_Inr split: if_split_asm)
    then show thesis by (rule leased [OF args(1,3,4,2)])
  qed
qed

lemma lease_from_row_lease:
  "lease_from_row env (lease_row env session worker n r) = Inr l \<Longrightarrow>
     l = row_lease (lease_row env session worker n r) session worker (clk env 1 + seconds n)"
  by (auto simp: lease_from_row_def lease_row_def split: if_splits)

lemma lease_row_fence:
  "lease_fence (row_lease (lease_row env session worker n r) session worker (clk env 1 + seconds n))
     (lease_row env session worker n r)"
  by (simp add: lease_fence_def row_lease_def lease_row_def)

lemma lease_row_id [simp]: "i_id (lease_row env session worker n r) = i_id r"
  by (simp add: lease_row_def)

lemma claimed_lease:
  assumes "traverse (lease_from_row env) (sql_returning p (lease_row env session worker n) t) = Inr leases"
    "l \<in> set leases"
  shows "\<exists>r\<in>set t. p r \<and> l = row_lease (lease_row env session worker n r) session worker
    (clk env 1 + seconds n)"
  using traverse_set [OF assms] by (auto simp: sql_returning_def dest!: lease_from_row_lease)

lemma claimed_ids:
  assumes "traverse (lease_from_row env) (sql_returning p (lease_row env session worker n) t) = Inr leases"
  shows "map l_id leases = map i_id (filter p t)"
proof -
  have "map l_id leases = map i_id (map (lease_row env session worker n) (filter p t))"
    by (rule traverse_nth_map [OF assms [unfolded sql_returning_def]])
      (auto dest!: lease_from_row_lease simp: row_lease_def)
  then show ?thesis by (simp add: comp_def)
qed

text \<open>
  What a worker may rely on for one lease it was handed: the row was ready and free, its
  pipeline's runtime is the worker's own, and the stored row is now leased under the lease.
\<close>

definition lease_granted ::
  "env \<Rightarrow> pystr \<Rightarrow> uuid \<Rightarrow> pystr list \<Rightarrow> int \<Rightarrow> db \<Rightarrow> db \<Rightarrow> inbox_lease \<Rightarrow> bool" where
  "lease_granted env worker session names n d d' l =
     (l_lease_until l = clk env 1 + seconds n \<and> l_pipeline_name l \<in> set names
      \<and> list_ex (\<lambda>r. i_id r = l_id l \<and> claim_ready (clk env 1) names d r
          \<and> session_runtime (clk env 1) session worker d r \<and> \<not> inbox_locked env (i_id r)) (inbox d)
      \<and> list_ex (lease_fence l) (inbox d'))"

lemma claim_batch_grants:
  assumes "claim_batch env worker session names limit n d = Inr (ls, d')" "store_ok now d"
  shows "length ls \<le> nat limit" "distinct (map l_id ls)"
    "\<And>l. l \<in> set ls \<Longrightarrow> lease_granted env worker session names n d d' l"
    "\<And>r. r \<in> set (inbox d) \<Longrightarrow> i_id r \<notin> l_id ` set ls \<Longrightarrow> r \<in> set (inbox d')"
proof -
  have "length ls \<le> nat limit \<and> distinct (map l_id ls)
    \<and> (\<forall>l\<in>set ls. lease_granted env worker session names n d d' l)
    \<and> (\<forall>r\<in>set (inbox d). i_id r \<notin> l_id ` set ls \<longrightarrow> r \<in> set (inbox d'))"
    using assms(1)
  proof (cases rule: claim_batch_cases)
    case empty
    then show ?thesis by simp
  next
    case (leased ps leases)
    let ?ids = "chosen_ids env worker session ps limit d"
    let ?p = "\<lambda>r. i_id r \<in> set ?ids" and ?f = "lease_row env session worker n"
    have ids: "map l_id leases = map i_id (filter ?p (inbox d))"
      using claimed_ids [OF leased(5)] .
    have names: "set ps \<subseteq> set names"
      using leased(1) by (auto simp: require_pipeline_names_def and_then_Inr)
    have "length leases = length (filter ?p (inbox d))" using ids by (metis length_map)
    also have "\<dots> \<le> length ?ids" by (rule filter_keys_length [OF store_okD(4) [OF assms(2)]])
    also have "\<dots> \<le> nat limit" by (simp add: chosen_ids_def claimable_def)
    finally have len: "length ls \<le> nat limit" unfolding leased(6) by simp
    have "distinct (map l_id leases)"
      unfolding ids by (rule distinct_map_filter [OF store_okD(4) [OF assms(2)]])
    then have dist: "distinct (map l_id ls)"
      unfolding leased(6) by (simp add: distinct_map)
    have granted: "lease_granted env worker session names n d d' l" if l: "l \<in> set ls" for l
    proof -
      obtain r where r: "r \<in> set (inbox d)" "?p r"
        "l = row_lease (?f r) session worker (clk env 1 + seconds n)"
        using claimed_lease [OF leased(5), of l] l leased(6) by auto
      have c: "claim_ready (clk env 1) ps d r" "session_runtime (clk env 1) session worker d r"
        "\<not> inbox_locked env (i_id r)"
        using claimable_row [OF r(2) [unfolded chosen_ids_def] r(1) assms(2)] by auto
      have "?f r \<in> set (inbox d')" using r(1,2) leased(7) by (auto simp: sql_update_in_set)
      then have "list_ex (lease_fence l) (inbox d')"
        unfolding list_ex_iff r(3) by (intro bexI [of _ "?f r"] lease_row_fence)
      moreover have "claim_ready (clk env 1) names d r" "i_pipeline_name r \<in> set names"
        using c(1) names by (auto simp: claim_ready_def)
      moreover have "l_id l = i_id r" "l_pipeline_name l = i_pipeline_name r"
        "l_lease_until l = clk env 1 + seconds n"
        using r(3) by (simp_all add: row_lease_def lease_row_def)
      ultimately show ?thesis
        using c(2,3) r(1) by (auto simp: lease_granted_def list_ex_iff)
    qed
    have "r \<in> set (inbox d')" if "r \<in> set (inbox d)" "i_id r \<notin> l_id ` set ls" for r
    proof -
      have "set (map l_id leases) = set (map i_id (filter ?p (inbox d)))" unfolding ids by (rule refl)
      moreover have "l_id ` set ls = set (map l_id leases)" by (simp add: leased(6))
      ultimately have "\<not> ?p r" using that by auto
      with that(1) leased(7) show ?thesis by (auto simp: sql_update_in_set)
    qed
    with len dist granted show ?thesis by (intro conjI ballI impI)
  qed
  then show "length ls \<le> nat limit" "distinct (map l_id ls)"
    "\<And>l. l \<in> set ls \<Longrightarrow> lease_granted env worker session names n d d' l"
    "\<And>r. r \<in> set (inbox d) \<Longrightarrow> i_id r \<notin> l_id ` set ls \<Longrightarrow> r \<in> set (inbox d')"
    by simp_all
qed

lemma claim_batch_leased:
  assumes "claim_batch env worker session names limit n d = Inr (ls, d')" "store_ok now d" "l \<in> set ls"
  shows "\<exists>r\<in>set (inbox d). i_id r = l_id l \<and> claim_ready (clk env 1) names d r"
  using claim_batch_grants(3) [OF assms(1,2,3)] by (auto simp: lease_granted_def list_ex_iff)



section \<open>Oldest first\<close>

definition eligible ::
  "env \<Rightarrow> pystr \<Rightarrow> uuid \<Rightarrow> pystr list \<Rightarrow> int \<Rightarrow> db \<Rightarrow> inbox_row \<Rightarrow> bool" where
  "eligible env worker session ps limit d r =
     (claim_ready (clk env 1) ps d r \<and> session_runtime (clk env 1) session worker d r
      \<and> i_account_id r \<in> set (claim_accounts env ps (claim_window limit) d)
      \<and> \<not> inbox_locked env (i_id r))"

lemma chosen_ids_oldest:
  assumes "r \<in> set (inbox d)" "eligible env worker session ps limit d r"
    "i_id r \<notin> set (chosen_ids env worker session ps limit d)"
    "s \<in> set (inbox d)" "i_id s \<in> set (chosen_ids env worker session ps limit d)" "store_ok now d"
  shows "claim_order s \<le> claim_order r"
proof -
  define xs where "xs = filter (\<lambda>r. \<not> inbox_locked env (i_id r)) (sort_key claim_order
    (filter (\<lambda>r. claim_ready (clk env 1) ps d r \<and> session_runtime (clk env 1) session worker d r
      \<and> i_account_id r \<in> set (claim_accounts env ps (claim_window limit) d)) (inbox d)))"
  define m where "m = nat limit"
  have ids: "chosen_ids env worker session ps limit d = map i_id (take m xs)"
    by (simp add: chosen_ids_def claimable_def xs_def m_def)
  have "r \<in> set xs" using assms(1,2) by (simp add: eligible_def xs_def)
  then have "r \<in> set (take m xs) \<or> r \<in> set (drop m xs)"
    by (metis Un_iff append_take_drop_id set_append)
  moreover have "r \<notin> set (take m xs)" using assms(3) by (auto simp: ids)
  ultimately have r: "r \<in> set (drop m xs)" by blast
  obtain s' where s': "s' \<in> set (take m xs)" "i_id s' = i_id s"
    using assms(5) by (auto simp: ids)
  then have "s' \<in> set (inbox d)" by (auto simp: xs_def dest!: in_set_takeD)
  with s'(2) have "s' = s" by (intro inbox_row_unique [OF assms(6) _ assms(4)])
  with s'(1) have s: "s \<in> set (take m xs)" by simp
  have "sorted (map claim_order xs)" by (simp add: xs_def sorted_filter)
  from sorted_take_le [OF this s r] show ?thesis .
qed

text \<open>
  Claiming is oldest first: a row that was eligible for this claim but was left behind was
  received no earlier than any row that was handed out.
\<close>

theorem claim_oldest_first:
  assumes "reachable (now, d)"
    "claim_batch env worker session names limit secs d = Inr (leases, d')"
    "require_pipeline_names names = Inr ps" "l \<in> set leases"
    "r \<in> set (inbox d)" "eligible env worker session ps limit d r" "i_id r \<notin> l_id ` set leases"
  shows "(l_received_at l, l_id l) \<le> claim_order r"
  using assms(2)
proof (cases rule: claim_batch_cases)
  case empty
  with assms(4) show ?thesis by simp
next
  case (leased ps' ls)
  have ok: "store_ok now d" using reachable_ok [OF assms(1)] by (simp add: state_ok_def)
  have "ps' = ps" using leased(1) assms(3) by simp
  obtain s where s: "s \<in> set (inbox d)" "i_id s \<in> set (chosen_ids env worker session ps limit d)"
    "l = row_lease (lease_row env session worker secs s) session worker (clk env 1 + seconds secs)"
    using claimed_lease [OF leased(5), of l] assms(4) unfolding leased(6) \<open>ps' = ps\<close> set_sort by blast
  have "set (map l_id ls) = set (map i_id (filter (\<lambda>r. i_id r \<in> set (chosen_ids env worker session
      ps limit d)) (inbox d)))"
    unfolding claimed_ids [OF leased(5)] \<open>ps' = ps\<close> by (rule refl)
  moreover have "l_id ` set leases = set (map l_id ls)" by (simp add: leased(6))
  ultimately have "i_id r \<notin> set (chosen_ids env worker session ps limit d)" using assms(5,7) by auto
  from chosen_ids_oldest [OF assms(5,6) this s(1,2) ok] s(3)
  show ?thesis by (simp add: claim_order_def row_lease_def lease_row_def)
qed

theorem claim_oldest_first_witness:
  "(l_received_at sample_lease, l_id sample_lease) \<le> claim_order delete_row"
  by (rule claim_oldest_first [OF both_reachable oldest_claimed,
        of "[GREENFIELD_PIPELINE_NAME]"])
    (code_simp | simp add: both_store_def)+

end
