(* ===== verification/InboxFencing.thy ===== *)
theory InboxFencing
  imports InboxScenario
begin

text \<open>
  Fencing: a lease that no stored row carries any more is powerless in every operation of the
  repository, a renewal supersedes the lease it renews, and a failure is recorded within the
  retry budget and the back-off bounds.
\<close>

section \<open>A stale lease\<close>

definition stale :: "db \<Rightarrow> inbox_lease \<Rightarrow> bool" where
  "stale d l = list_all (\<lambda>r. \<not> lease_fence l r) (inbox d)"

text \<open>Every fenced statement tests the fence first, so it matches no row.\<close>

named_theorems stale_simps \<open>fenced statements under a stale lease\<close>

lemma stale_filter [stale_simps]:
  "stale d l \<Longrightarrow> filter (\<lambda>r. lease_fence l r \<and> p r) (inbox d) = []"
  by (auto simp: stale_def list_all_iff filter_empty_conv)

lemma stale_update [stale_simps]:
  "stale d l \<Longrightarrow> update_inbox (\<lambda>r. lease_fence l r \<and> p r) f d = d"
  using sql_update_no_match [OF stale_filter, of d l p f] by (simp add: update_inbox_def)

lemma stale_returning [stale_simps]:
  "stale d l \<Longrightarrow> sql_returning (\<lambda>r. lease_fence l r \<and> p r) f (inbox d) = []"
  by (simp add: sql_returning_def stale_filter)

lemma stale_renew: "stale d l \<Longrightarrow> renew env l secs d = Inr x \<Longrightarrow> x = (None, d)"
  by (auto simp: renew_def Let_def and_then_Inr stale_simps)

lemma stale_begin_effect: "stale d l \<Longrightarrow> begin_effect env l d = Inr (False, d)"
  by (simp add: begin_effect_def Let_def stale_simps)

lemma stale_complete: "stale d l \<Longrightarrow> complete env l d = Inr (False, d)"
  by (simp add: complete_def Let_def stale_simps)

lemma stale_fail: "stale d l \<Longrightarrow> fail env l err d = Inl StaleFence"
  by (simp add: fail_def some_or_def select_one_def stale_simps)

text \<open>A row that is found leased with the caller's lease carries that lease.\<close>

lemma lease_from_row_fence:
  assumes "lease_from_row env r = Inr p" "leases_equal p l" "i_status r = IS_LEASED"
  shows "lease_fence l r"
  using assms
  by (auto simp: lease_from_row_def leases_equal_def row_lease_def lease_fence_def
      split: option.splits if_splits)

lemma lock_processing_inbox_fence:
  assumes "lock_processing_inbox env now l d = Inr (Some row)" "pi_status row = IS_LEASED"
    "pi_lease row = Some p" "leases_equal p l"
  shows "\<exists>r\<in>set (inbox d). lease_fence l r"
proof -
  from assms obtain r where r: "select_one (\<lambda>r. i_id r = l_id l) (inbox d) = Some r"
    "i_status r = IS_LEASED" "lease_from_row env r = Inr p"
    by (auto simp: lock_processing_inbox_def and_then_Inr processing_inbox_row_def
        split: option.splits if_splits)
  then have "lease_fence l r" by (intro lease_from_row_fence [OF _ assms(4)])
  then show ?thesis by (rule bexI) (use select_one_SomeD [OF r(1)] in simp)
qed

lemma stale_not_authorized:
  assumes "stale d l" "lock_processing_inbox env now l d = Inr (Some row)"
  shows "require_authorized_processing_attempt env' l e row v state unexpired d' \<noteq> Inr u"
proof
  assume "require_authorized_processing_attempt env' l e row v state unexpired d' = Inr u"
  then obtain p where "pi_status row = IS_LEASED" "pi_lease row = Some p" "leases_equal p l"
    by (auto simp: require_authorized_processing_attempt_def and_then_Inr split: option.splits)
  with lock_processing_inbox_fence [OF assms(2)] assms(1) show False
    by (auto simp: stale_def list_all_iff)
qed

lemma lock_attempt_inbox:
  "lock_attempt env now l i b d = Inr (e, state, row) \<Longrightarrow>
     lock_processing_inbox env now l d = Inr (Some row)"
  by (auto simp: lock_attempt_def and_then_Inr)

lemma stale_begin_processing_effect:
  assumes "stale d l" "begin_processing_effect env l i v k d = Inr (ok, d')"
  shows "\<not> ok \<and> d' = d"
proof -
  have "begin_processing_effect_transaction env l i v k d \<noteq> Inr x" for x
  proof
    assume "begin_processing_effect_transaction env l i v k d = Inr x"
    then obtain e state row u where "lock_attempt env (clk env 0) l i True d = Inr (e, state, row)"
      "require_authorized_processing_attempt env l e row v state True d = Inr u"
      by (auto simp: begin_processing_effect_transaction_def and_then_Inr)
    with stale_not_authorized [OF assms(1) lock_attempt_inbox] show False by blast
  qed
  with assms(2) show ?thesis
    by (auto simp: begin_processing_effect_def and_then_Inr split: sum.splits repo_error.splits)
qed

lemma stale_settle:
  assumes "stale d l" "lock_processing_inbox env now l d = Inr (Some row)" "inbox d1 = inbox d"
    "settle env l i v op rs c e st row fe fr d1 = Inr (x, d')"
  shows "pf_replayed x \<and> d' = d1"
  using assms stale_not_authorized [OF assms(1,2)]
  by (auto simp: settle_def settle_fresh_def and_then_Inr Let_def finish_result_def
      ProcessingFinishResult_def split: if_splits sum.splits)

lemma finish_settles:
  assumes "finish_email_processing env l i v c d = Inr (x, d')"
  shows "\<exists>e state row d1 rs fe fr. lock_attempt env (clk env 0) l i False d = Inr (e, state, row)
    \<and> append_intake_decision env l (pc_intake_decision c) (pc_target_status c) d = Inr d1
    \<and> settle env l i v SUCCESS_OPERATION rs (Some c) e state row fe fr d1 = Inr (x, d')"
  using assms unfolding finish_email_processing_def Let_def
  by (elim and_thenE) (clarsimp elim!: and_thenE, blast)

lemma finish_failure_settles:
  assumes "finish_email_processing_failure env l i v err d = Inr (x, d')"
  shows "\<exists>e state row rs fe fr. lock_attempt env (clk env 0) l i False d = Inr (e, state, row)
    \<and> settle env l i v FAILURE_OPERATION rs None e state row fe fr d = Inr (x, d')"
  using assms unfolding finish_email_processing_failure_def Let_def
  by (elim and_thenE) (clarsimp, blast)

lemma stale_finish:
  assumes "stale d l" "finish_email_processing env l i v c d = Inr (x, d')"
  shows "pf_replayed x \<and> inbox d' = inbox d \<and> emails d' = emails d"
proof -
  obtain e state row d1 rs fe fr where
    lock: "lock_attempt env (clk env 0) l i False d = Inr (e, state, row)"
    and d1: "append_intake_decision env l (pc_intake_decision c) (pc_target_status c) d = Inr d1"
    and s: "settle env l i v SUCCESS_OPERATION rs (Some c) e state row fe fr d1 = Inr (x, d')"
    using finish_settles [OF assms(2)] by blast
  have "inbox d1 = inbox d \<and> emails d1 = emails d"
    using append_intake_decision_store [OF d1] by simp
  with stale_settle [OF assms(1) lock_attempt_inbox [OF lock] _ s] show ?thesis by simp
qed

lemma stale_finish_failure:
  assumes "stale d l" "finish_email_processing_failure env l i v err d = Inr (x, d')"
  shows "pf_replayed x \<and> d' = d"
proof -
  obtain e state row rs fe fr where
    lock: "lock_attempt env (clk env 0) l i False d = Inr (e, state, row)"
    and s: "settle env l i v FAILURE_OPERATION rs None e state row fe fr d = Inr (x, d')"
    using finish_failure_settles [OF assms(2)] by blast
  from stale_settle [OF assms(1) lock_attempt_inbox [OF lock] refl s] show ?thesis .
qed

text \<open>
  C5. A worker whose lease is no longer the stored one can change neither a row of the inbox
  nor an email: renewal and completion report that nothing matched, failing raises the stale
  fence, an effect is not authorised, and an ending is only ever answered from a receipt.
\<close>

theorem stale_lease_powerless:
  assumes "stale d l"
  shows "(\<forall>x. renew env l secs d = Inr x \<longrightarrow> x = (None, d))
    \<and> begin_effect env l d = Inr (False, d) \<and> complete env l d = Inr (False, d)
    \<and> fail env l err d = Inl StaleFence
    \<and> (\<forall>ok d'. begin_processing_effect env l i v k d = Inr (ok, d') \<longrightarrow> \<not> ok \<and> d' = d)
    \<and> (\<forall>x d'. finish_email_processing env l i v c d = Inr (x, d') \<longrightarrow>
         pf_replayed x \<and> inbox d' = inbox d \<and> emails d' = emails d)
    \<and> (\<forall>x d'. finish_email_processing_failure env l i v err d = Inr (x, d') \<longrightarrow>
         pf_replayed x \<and> d' = d)"
proof (intro conjI)
  show "\<forall>x. renew env l secs d = Inr x \<longrightarrow> x = (None, d)"
    using stale_renew [OF assms] by blast
  show "\<forall>ok d'. begin_processing_effect env l i v k d = Inr (ok, d') \<longrightarrow> \<not> ok \<and> d' = d"
    using stale_begin_processing_effect [OF assms] by blast
  show "\<forall>x d'. finish_email_processing env l i v c d = Inr (x, d') \<longrightarrow>
      pf_replayed x \<and> inbox d' = inbox d \<and> emails d' = emails d"
    using stale_finish [OF assms] by blast
  show "\<forall>x d'. finish_email_processing_failure env l i v err d = Inr (x, d') \<longrightarrow> pf_replayed x \<and> d' = d"
    using stale_finish_failure [OF assms] by blast
qed (rule stale_begin_effect [OF assms] stale_complete [OF assms] stale_fail [OF assms])+

theorem stale_lease_powerless_witness:
  "fail (sample_env 4 (seconds 40)) (sample_lease\<lparr>l_lease_until := seconds 79\<rparr>) WE_Other applied_store
     = Inl StaleFence"
proof -
  have "stale applied_store (sample_lease\<lparr>l_lease_until := seconds 79\<rparr>)" by code_simp
  from stale_lease_powerless [OF this] show ?thesis by blast
qed

section \<open>Renewal\<close>

definition renewal_matches :: "env \<Rightarrow> inbox_lease \<Rightarrow> db \<Rightarrow> inbox_row \<Rightarrow> bool" where
  "renewal_matches env l d r =
     (lease_fence l r \<and> lease_live (clk env 0) r
      \<and> has_owner LEASE_OWNERSHIP_STATES d r \<and> has_runtime (clk env 1) d r)"

definition renewed_row :: "env \<Rightarrow> int \<Rightarrow> inbox_row \<Rightarrow> inbox_row" where
  "renewed_row env secs r =
     r\<lparr>i_lease_until := map_option (\<lambda>until. max (until + 1) (clk env 2 + seconds secs)) (i_lease_until r),
       i_updated_at := clk env 3\<rparr>"

lemma renew_Some:
  assumes "renew env l secs d = Inr (Some l', d')"
  obtains r where "r \<in> set (inbox d)" "renewal_matches env l d r"
    "lease_from_row env (renewed_row env secs r) = Inr l'"
    "d' = update_inbox (renewal_matches env l d) (renewed_row env secs) d"
proof -
  let ?p = "renewal_matches env l d" and ?f = "renewed_row env secs"
  have step: "(case fetchone (sql_returning ?p ?f (inbox d)) of
      None \<Rightarrow> Inr (None, update_inbox ?p ?f d)
    | Some r \<Rightarrow> and_then (lease_from_row env r) (\<lambda>renewed. Inr (Some renewed, update_inbox ?p ?f d)))
    = (Inr (Some l', d') :: repo_error + (inbox_lease option \<times> db))"
    using assms unfolding renew_def renewal_matches_def renewed_row_def Let_def
    by (auto simp: and_then_Inr)
  then obtain q where q: "fetchone (sql_returning ?p ?f (inbox d)) = Some q"
    "lease_from_row env q = Inr l'" "d' = update_inbox ?p ?f d"
    by (auto simp: and_then_Inr split: option.splits)
  from fetchone_SomeD [OF q(1)] obtain r where "r \<in> set (inbox d)" "?p r" "q = ?f r"
    by (auto simp: sql_returning_def)
  with q that show thesis by blast
qed

text \<open>
  A successful renewal returns a lease on the same row, attempt and session whose end is
  strictly later; the stored row carries the new lease, and the old one is stale from then on.
\<close>

theorem renew_supersedes:
  assumes "reachable (now, d)" "renew env l secs d = Inr (Some l', d')"
  shows "l_id l' = l_id l \<and> l_attempts l' = l_attempts l
    \<and> l_lease_session_id l' = l_lease_session_id l \<and> l_lease_until l < l_lease_until l'
    \<and> list_ex (lease_fence l') (inbox d') \<and> stale d' l"
  using assms(2)
proof (cases rule: renew_Some)
  case (1 r)
  have ok: "store_ok now d" using reachable_ok [OF assms(1)] by (simp add: state_ok_def)
  let ?s = "renewed_row env secs r"
  have fence: "lease_fence l r" using 1(2) by (simp add: renewal_matches_def)
  have l': "l' = row_lease ?s (l_lease_session_id l) (l_lease_owner l)
      (max (l_lease_until l + 1) (clk env 2 + seconds secs))"
    using 1(3) fence by (auto simp: lease_from_row_def renewed_row_def lease_fence_def split: if_splits)
  have "?s \<in> set (inbox d')" using 1(1,2,4) by (auto simp: sql_update_in_set)
  moreover have "lease_fence l' ?s"
    using l' fence by (simp add: lease_fence_def renewed_row_def row_lease_def)
  moreover have "\<not> lease_fence l s" if in_d': "s \<in> set (inbox d')" for s
  proof
    assume s: "lease_fence l s"
    obtain q where q: "q \<in> set (inbox d)"
      "s = (if renewal_matches env l d q then renewed_row env secs q else q)"
      using in_d' 1(4) by (auto simp: sql_update_in_set)
    have "i_id q = i_id r" using s q(2) fence
      by (auto simp: lease_fence_def renewed_row_def split: if_splits)
    then have "q = r" using inbox_row_unique [OF ok q(1) 1(1)] by simp
    with q(2) 1(2) s fence show False by (auto simp: lease_fence_def renewed_row_def)
  qed
  ultimately have "list_ex (lease_fence l') (inbox d')" "stale d' l"
    by (auto simp: list_ex_iff stale_def list_all_iff)
  then show ?thesis
    using l' fence by (simp add: row_lease_def renewed_row_def lease_fence_def)
qed

theorem renew_supersedes_witness:
  "\<exists>l' d'. renew (sample_env 4 (seconds 40)) sample_lease 60 applied_store = Inr (Some l', d')
     \<and> l_lease_until sample_lease < l_lease_until l' \<and> stale d' sample_lease"
proof -
  have "case renew (sample_env 4 (seconds 40)) sample_lease 60 applied_store of
      Inr (Some l', d') \<Rightarrow> True | _ \<Rightarrow> False"
    by code_simp
  then obtain l' d' where r: "renew (sample_env 4 (seconds 40)) sample_lease 60 applied_store = Inr (Some l', d')"
    by (auto split: sum.splits option.splits)
  with renew_supersedes [OF applied_reachable r] show ?thesis by blast
qed

end
