(* ===== verification/InboxSafety.thy ===== *)
theory InboxSafety
  imports InboxClaims InboxFencing InboxTombstone
begin

text \<open>
  The safety properties of the durable inbox, over every state the transactions of
  \<^verbatim>\<open>src/ingestion/repository.py\<close> can reach from an empty store in any interleaving. They rest on
  the invariant and on the monotone relation of \<open>InboxMachine\<close>.
\<close>

section \<open>Reading the invariant\<close>

lemma reachable_store: "reachable (now, d) \<Longrightarrow> store_ok now d"
  using reachable_ok [of "(now, d)"] by (simp add: state_ok_def)

lemma reachable_row: "reachable (now, d) \<Longrightarrow> r \<in> set (inbox d) \<Longrightarrow> row_ok now r"
  by (rule store_okD(1) [OF reachable_store])

lemma reachable_row_grows:
  assumes "reachable (now, d)" "run inbox_step (now, d) (now', d')" "r \<in> set (inbox d)"
  shows "\<exists>s\<in>set (inbox d'). inbox_grows r s \<and> row_ok now' s"
proof -
  have "reachable (now', d')" using assms(1,2) by (rule reachable_run)
  moreover have "rows_step inbox_grows (inbox d) (inbox d')"
    using reachable_grows [OF assms(1,2)] by (simp add: state_grows_def)
  ultimately show ?thesis
    using rows_step_in [OF _ assms(3)] reachable_row by blast
qed

lemma reachable_email_grows:
  assumes "reachable (now, d)" "run inbox_step (now, d) (now', d')" "e \<in> set (emails d)"
  shows "\<exists>s\<in>set (emails d'). email_grows e s"
  using reachable_grows [OF assms(1,2)] rows_step_in [OF _ assms(3)]
  by (auto simp: state_grows_def)

lemma marked_row_status:
  "row_ok now r \<Longrightarrow> i_effect_started_at r \<noteq> None \<Longrightarrow>
     i_status r = IS_LEASED \<or> i_status r = IS_COMPLETED \<or> i_status r = IS_MANUAL_REVIEW"
  by (auto simp: row_ok_def ck_event_inbox_def ck_event_inbox_effect_order_def)

lemma finish_run: "run inbox_step (seconds 40, effect_store) (seconds 50, finished_store)"
  by (blast intro: run_step finish_step)

lemma inbox_moveD: "inbox_move r s \<Longrightarrow> guard_event_inbox r s"
  by (simp add: inbox_move_def)

lemma email_move_guard: "email_move r s \<Longrightarrow> guard_emails r s"
  by (simp add: email_move_def)

section \<open>An external effect is never repeated\<close>

text \<open>
  C1. Once the effect marker of an inbox row is set it stays, with its time, in every later
  state: the row keeps its identity and its execution epoch, is leased, completed or under
  review, and never waits to be executed again.
\<close>

theorem effect_never_replayed:
  assumes "reachable (now, d)" "run inbox_step (now, d) (now', d')" "r \<in> set (inbox d)"
    "i_effect_started_at r = Some t"
  shows "\<exists>s\<in>set (inbox d'). inbox_identity r s \<and> i_effect_started_at s = Some t
    \<and> i_execution_epoch s = i_execution_epoch r
    \<and> (i_status s = IS_LEASED \<or> i_status s = IS_COMPLETED \<or> i_status s = IS_MANUAL_REVIEW)"
proof -
  obtain s where s: "s \<in> set (inbox d')" "inbox_grows r s" "row_ok now' s"
    using reachable_row_grows [OF assms(1-3)] by blast
  note g = inbox_growsD [OF s(2)]
  have "i_effect_started_at s = Some t" using g(5) assms(4) by simp
  with g(1,4) marked_row_status [OF s(3)] s(1) assms(4) show ?thesis by auto
qed

theorem effect_never_replayed_witness:
  "\<exists>s\<in>set (inbox finished_store). i_effect_started_at s = Some (seconds 40)"
proof -
  have "hd (inbox effect_store) \<in> set (inbox effect_store)"
    "i_effect_started_at (hd (inbox effect_store)) = Some (seconds 40)"
    by (simp_all add: effect_store_def)
  with effect_never_replayed [OF effect_reachable finish_run]
  show ?thesis by blast
qed

text \<open>
  C2. No claim of any worker, at any time after the marker was set, hands the row out again.
\<close>

theorem marked_work_never_claimed:
  assumes "reachable (now, d)" "run inbox_step (now, d) (now', d')" "r \<in> set (inbox d)"
    "i_effect_started_at r = Some t"
    "claim_batch env worker session names limit secs d' = Inr (leases, d'')" "l \<in> set leases"
  shows "l_id l \<noteq> i_id r"
proof
  assume same: "l_id l = i_id r"
  obtain s where s: "s \<in> set (inbox d')" "inbox_grows r s" "row_ok now' s"
    using reachable_row_grows [OF assms(1-3)] by blast
  have "store_ok now' d'"
    using reachable_store [OF reachable_run [OF assms(1,2)]] .
  obtain q where q: "q \<in> set (inbox d')" "i_id q = l_id l"
    "i_status q = IS_PENDING \<or> i_status q = IS_RETRY_WAIT"
    using claim_batch_leased [OF assms(5) \<open>store_ok now' d'\<close> assms(6)] by (auto simp: claim_ready_def)
  have "i_id s = i_id r" using inbox_growsD(1) [OF s(2)] by (simp add: inbox_identity_def)
  with same q(2) have "q = s"
    using inbox_row_unique [OF \<open>store_ok now' d'\<close> q(1) s(1)] by simp
  moreover have "i_effect_started_at s \<noteq> None" using inbox_growsD(5) [OF s(2)] assms(4) by simp
  ultimately show False using marked_row_status [OF s(3)] q(3) by auto
qed

theorem marked_work_never_claimed_witness: "l_id late_lease \<noteq> i_id (hd (inbox effect_store))"
proof -
  have "hd (inbox effect_store) \<in> set (inbox effect_store)"
    "i_effect_started_at (hd (inbox effect_store)) = Some (seconds 40)"
    by (simp_all add: effect_store_def)
  moreover have "run inbox_step (seconds 40, effect_store) (seconds 45, late_store)"
    by (blast intro: run_step late_step)
  ultimately show ?thesis
    using marked_work_never_claimed [OF effect_reachable _ _ _ late_claimed] by simp
qed

section \<open>The shape of a row\<close>

definition row_shape :: "inbox_row \<Rightarrow> bool" where
  "row_shape r =
     ((if i_status r = IS_LEASED
       then i_lease_owner r \<noteq> None \<and> i_lease_until r \<noteq> None \<and> i_lease_session_id r \<noteq> None
         \<and> i_processing_started_at r \<noteq> None
       else i_lease_owner r = None \<and> i_lease_until r = None \<and> i_lease_session_id r = None)
      \<and> (i_safe_error_code r \<noteq> None \<longleftrightarrow>
           i_status r = IS_RETRY_WAIT \<or> i_status r = IS_DEAD_LETTER \<or> i_status r = IS_MANUAL_REVIEW)
      \<and> 0 \<le> i_attempts r
      \<and> (i_status r = IS_PENDING \<or> i_status r = IS_RETRY_WAIT \<or> i_status r = IS_LEASED
           \<longrightarrow> i_attempts r \<le> 5))"

lemma row_ok_shape: "row_ok now r \<Longrightarrow> row_shape r"
  by (auto simp: row_ok_def row_shape_def inbox_check_defs ck_error_columns_def retry_budget_def
      MAX_RETRIES_def split: option.splits if_splits)

text \<open>
  C20. In every reachable state no two inbox rows share an identifier or a dedupe key, and each
  row carries lease columns exactly while it is leased, an error code exactly while it waits
  for a retry, is dead-lettered or under review, and has used at most five attempts as long as
  it can still be executed.
\<close>

theorem reachable_rows_well_formed:
  assumes "reachable (now, d)"
  shows "distinct (map i_id (inbox d)) \<and> distinct (map i_dedupe_key (inbox d))
    \<and> list_all row_shape (inbox d)"
  using reachable_store [OF assms] row_ok_shape by (auto simp: store_ok_def list_all_iff)

theorem reachable_rows_well_formed_witness: "list_all row_shape (inbox effect_store)"
  using reachable_rows_well_formed [OF effect_reachable] by simp

section \<open>Ownership of an email\<close>

lemma processing_email_owner:
  assumes "reachable (now, d)" "e \<in> set (emails d)" "e_processing_inbox_id e \<noteq> None"
  shows "\<exists>r\<in>set (inbox d). owner_row e r"
  using store_okD(3) [OF reachable_store [OF assms(1)] assms(2)] assms(3)
  by (auto simp: owner_is_create_def list_ex_iff)

text \<open>
  C3. In every reachable state an email in processing is owned by exactly one inbox row: the
  CREATE event of the same account and message, under the email's generation, fencing token
  and authority, at the row's present execution epoch.
\<close>

theorem processing_email_has_one_owner:
  assumes "reachable (now, d)" "e \<in> set (emails d)" "e_status e = ES_PROCESSING"
  shows "\<exists>!r. r \<in> set (inbox d) \<and> owner_row e r"
proof -
  have "e_processing_inbox_id e \<noteq> None"
    using store_okD(2) [OF reachable_store [OF assms(1)] assms(2)] assms(3)
    by (simp add: ck_emails_def ck_emails_processing_state_def)
  from processing_email_owner [OF assms(1,2) this] obtain r
    where r: "r \<in> set (inbox d)" "owner_row e r" by blast
  have "q = r" if "q \<in> set (inbox d)" "owner_row e q" for q
  proof (rule inbox_row_unique [OF reachable_store [OF assms(1)] that(1) r(1)])
    have "Some (i_id q) = Some (i_id r)" using that(2) r(2) by (simp only: owner_row_def)
    then show "i_id q = i_id r" by simp
  qed
  with r show ?thesis by blast
qed

theorem processing_email_has_one_owner_witness:
  "\<exists>!r. r \<in> set (inbox applied_store) \<and> owner_row processing_email r"
  by (rule processing_email_has_one_owner [OF applied_reachable])
    (simp_all add: applied_store_def processing_email_def processing_row_def)

text \<open>
  C4. One inbox row never holds two emails: if two stored emails name the same processing row,
  they are the same email.
\<close>

theorem inbox_row_processes_one_email:
  assumes "reachable (now, d)" "e \<in> set (emails d)" "f \<in> set (emails d)"
    "e_processing_inbox_id e = Some i" "e_processing_inbox_id f = Some i"
  shows "e = f"
proof -
  obtain r where r: "r \<in> set (inbox d)" "owner_row e r"
    using processing_email_owner [OF assms(1,2)] assms(4) by auto
  obtain q where q: "q \<in> set (inbox d)" "owner_row f q"
    using processing_email_owner [OF assms(1,3)] assms(5) by auto
  have "q = r" using inbox_row_unique [OF reachable_store [OF assms(1)] q(1) r(1)] q(2) r(2) assms(4,5)
    by (simp add: owner_row_def)
  with r q have "email_key e = email_key f" by (simp add: owner_row_def email_key_def)
  then show ?thesis by (rule email_key_unique [OF reachable_store [OF assms(1)] assms(2,3)])
qed

theorem inbox_row_processes_one_email_witness:
  "hd (emails applied_store) = last (emails applied_store)"
  by (rule inbox_row_processes_one_email [OF applied_reachable, of _ _ "[1, 65]"])
    (simp_all add: applied_store_def processing_email_def processing_row_def sample_lease_def
      row_lease_def leased_row_def lease_row_def sample_row_def fresh_inbox_row_def sample_env_def
      sample_shell_def neutral_shell_def)

section \<open>What is final\<close>



text \<open>
  C22. A deleted source stays deleted: its deletion time and its external-effect time never
  change, its version never falls, and unless it was in processing when it was deleted it never
  enters processing again.
\<close>

theorem deleted_source_never_processed:
  assumes "reachable (now, d)" "run inbox_step (now, d) (now', d')" "e \<in> set (emails d)"
    "e_source_deleted_at e = Some t"
  shows "\<exists>s\<in>set (emails d'). email_identity e s \<and> e_source_deleted_at s = Some t
    \<and> e_version e \<le> e_version s
    \<and> (e_status e \<noteq> ES_PROCESSING \<longrightarrow> e_status s \<noteq> ES_PROCESSING)
    \<and> (e_external_effects_started_at e \<noteq> None \<longrightarrow>
         e_external_effects_started_at s = e_external_effects_started_at e)"
  using reachable_email_grows [OF assms(1-3)] assms(4) by (auto simp: email_grows_def)

theorem deleted_source_never_processed_witness:
  "\<exists>s\<in>set (emails tombstone_store). e_source_deleted_at s = Some (seconds 30)
     \<and> e_status s \<noteq> ES_PROCESSING"
proof -
  have "tombstone \<in> set (emails tombstone_store)" "e_source_deleted_at tombstone = Some (seconds 30)"
    "e_status tombstone \<noteq> ES_PROCESSING"
    by (simp_all add: tombstone_store_def tombstone_def deleted_row_def neutral_shell_def
        sample_env_def tombstone_decision_def)
  with deleted_source_never_processed [OF tombstone_reachable run_refl] show ?thesis by blast
qed

section \<open>The database accepts every transaction\<close>



text \<open>
  C24. Receipts are permanent: the audit record found under a key is the one every later state
  finds under it, and so is the intake decision of an execution epoch.
\<close>

theorem receipts_are_permanent:
  assumes "reachable (now, d)" "run inbox_step (now, d) (now', d')"
  shows "(\<forall>k a. audit_with_key k d = Some a \<longrightarrow> audit_with_key k d' = Some a)
    \<and> (\<forall>i n x. select_one (intake_key i n) (intake_decisions d) = Some x
         \<longrightarrow> select_one (intake_key i n) (intake_decisions d') = Some x)"
proof -
  have "log_grows d d'" using reachable_grows [OF assms] by (simp add: state_grows_def)
  then show ?thesis using log_grows_lookup log_grows_intake by blast
qed

theorem receipts_are_permanent_witness:
  "audit_with_key (a_event_key (hd (audits effect_store))) finished_store = Some (hd (audits effect_store))"
proof -
  have "audit_with_key (a_event_key (hd (audits effect_store))) effect_store
      = Some (hd (audits effect_store))"
    by (simp add: effect_store_def applied_store_def audit_with_key_def)
  with receipts_are_permanent [OF effect_reachable finish_run]
  show ?thesis by blast
qed

end
