(* ===== verification/RouterSchema.thy ===== *)
theory RouterSchema
  imports PyJson
begin

text \<open>
  \<^verbatim>\<open>src/router/tier1/schema.py\<close>: the strict rule manifest of the tier-1 registry. A pydantic
  model is a record, its \<^verbatim>\<open>Literal\<close> annotations are constructors, and its validators are a
  function into \<open>schema_error + unit\<close> that runs them in the order of the code; the first
  error stands for the \<^verbatim>\<open>ValidationError\<close>. A model is checked after the models it contains.
\<close>

section \<open>Vocabulary\<close>

datatype rule_status = PROPOSED | ENABLED | RULE_RETIRED

datatype criticality = P0 | P1 | P2 | P3

datatype canonical_route =
  ROUTE_REPLY | ROUTE_FORWARD | ROUTE_READ_ONLY | ROUTE_NO_ACTION | ROUTE_MANUAL_REVIEW

fun canonical_route_value :: "canonical_route \<Rightarrow> pystr" where
  "canonical_route_value ROUTE_REPLY = lit ''reply''"
| "canonical_route_value ROUTE_FORWARD = lit ''forward''"
| "canonical_route_value ROUTE_READ_ONLY = lit ''read_only''"
| "canonical_route_value ROUTE_NO_ACTION = lit ''no_action''"
| "canonical_route_value ROUTE_MANUAL_REVIEW = lit ''manual_review''"

lemma canonical_route_value_inject [simp]:
  "canonical_route_value a = canonical_route_value b \<longleftrightarrow> a = b"
  by (cases a; cases b) simp_all

datatype reply_mode = SENDER_ONLY | SENDER_AND_ORIGINAL_CC

fun reply_mode_value :: "reply_mode \<Rightarrow> pystr" where
  "reply_mode_value SENDER_ONLY = lit ''sender_only''"
| "reply_mode_value SENDER_AND_ORIGINAL_CC = lit ''sender_and_original_cc''"

lemma reply_mode_value_inject [simp]: "reply_mode_value a = reply_mode_value b \<longleftrightarrow> a = b"
  by (cases a; cases b) simp_all

text \<open>The fields and operators of conditions.\<close>

datatype match_field =
  SENDER_ADDRESS | TO_ADDRESSES | CC_ADDRESSES | SUBJECT | BODY_CURRENT_TEXT | BODY_FULL_TEXT

fun match_field_value :: "match_field \<Rightarrow> pystr" where
  "match_field_value SENDER_ADDRESS = lit ''sender.address''"
| "match_field_value TO_ADDRESSES = lit ''to.addresses''"
| "match_field_value CC_ADDRESSES = lit ''cc.addresses''"
| "match_field_value SUBJECT = lit ''subject''"
| "match_field_value BODY_CURRENT_TEXT = lit ''body.current_text''"
| "match_field_value BODY_FULL_TEXT = lit ''body.full_text''"

datatype match_op =
  OP_EQ | OP_IN | OP_CONTAINS | OP_CONTAINS_ANY | OP_REGEX | OP_HAS_ANY | OP_HAS_ALL

fun match_op_value :: "match_op \<Rightarrow> pystr" where
  "match_op_value OP_EQ = lit ''eq''"
| "match_op_value OP_IN = lit ''in''"
| "match_op_value OP_CONTAINS = lit ''contains''"
| "match_op_value OP_CONTAINS_ANY = lit ''contains_any''"
| "match_op_value OP_REGEX = lit ''regex''"
| "match_op_value OP_HAS_ANY = lit ''has_any''"
| "match_op_value OP_HAS_ALL = lit ''has_all''"

definition SET_FIELDS :: "match_field list" where
  "SET_FIELDS = [TO_ADDRESSES, CC_ADDRESSES]"

definition SET_ONLY_OPERATORS :: "match_op list" where
  "SET_ONLY_OPERATORS = [OP_HAS_ANY, OP_HAS_ALL]"

definition SCALAR_SINGLE_VALUE_OPERATORS :: "match_op list" where
  "SCALAR_SINGLE_VALUE_OPERATORS = [OP_EQ, OP_CONTAINS, OP_REGEX]"

text \<open>
  Every way a manifest is refused. \<open>UnknownProfile\<close> is a \<^verbatim>\<open>KeyError\<close>, which is not a
  validation error: pydantic lets it through.
\<close>

datatype schema_error =
    LiteralMismatch
  | OperatorFieldMismatch
  | ValueRequired
  | ValuesRequired
  | ValuesEntryEmpty
  | AnchorCombinators
  | AnchorEmpty
  | ConditionShape
  | ConditionOpMissing
  | ConditionGroupEmpty
  | BareNot
  | ProfilePattern
  | UnknownProfile
  | ParamsInvalid canonical_route
  | RuleVersion
  | RuleId
  | NoActionGovernance
  | FixtureMinimum
  | FullTextAcknowledgement

section \<open>Leaves, anchors, conditions\<close>

definition blank :: "pystr \<Rightarrow> bool" where
  "blank s = (strip s = [])"

definition validate_leaf_shape ::
  "match_field \<Rightarrow> match_op \<Rightarrow> pystr option \<Rightarrow> pystr list option \<Rightarrow> schema_error + unit" where
  "validate_leaf_shape f ope value values =
     (if (f \<in> set SET_FIELDS) \<noteq> (ope \<in> set SET_ONLY_OPERATORS) then Inl OperatorFieldMismatch
      else if ope \<in> set SCALAR_SINGLE_VALUE_OPERATORS then
        (case value of
           None \<Rightarrow> Inl ValueRequired
         | Some v \<Rightarrow> ensure (\<not> blank v \<and> values = None) ValueRequired)
      else
        (case values of
           None \<Rightarrow> Inl ValuesRequired
         | Some vs \<Rightarrow>
             if vs = [] \<or> value \<noteq> None then Inl ValuesRequired
             else ensure (\<not> list_ex blank vs) ValuesEntryEmpty))"

record anchor_condition =
  ac_field :: match_field
  ac_op :: match_op
  ac_value :: "pystr option"
  ac_values :: "pystr list option"

text \<open>An anchor names addresses only, and compares them exactly.\<close>

definition ANCHOR_FIELDS :: "match_field list" where
  "ANCHOR_FIELDS = [SENDER_ADDRESS, TO_ADDRESSES, CC_ADDRESSES]"

definition ANCHOR_OPS :: "match_op list" where
  "ANCHOR_OPS = [OP_EQ, OP_IN, OP_HAS_ANY, OP_HAS_ALL]"

definition validate_anchor_condition :: "anchor_condition \<Rightarrow> schema_error + unit" where
  "validate_anchor_condition c =
     and_then (ensure (ac_field c \<in> set ANCHOR_FIELDS \<and> ac_op c \<in> set ANCHOR_OPS) LiteralMismatch)
       (\<lambda>_. validate_leaf_shape (ac_field c) (ac_op c) (ac_value c) (ac_values c))"

record anchor_group =
  ag_any :: "anchor_condition list option"
  ag_all :: "anchor_condition list option"

definition validate_children :: "('a \<Rightarrow> schema_error + unit) \<Rightarrow> 'a list option \<Rightarrow> schema_error + unit"
  where
  "validate_children check cs =
     (case cs of None \<Rightarrow> Inr () | Some xs \<Rightarrow> and_then (traverse check xs) (\<lambda>_. Inr ()))"

definition validate_anchor_group :: "anchor_group \<Rightarrow> schema_error + unit" where
  "validate_anchor_group a =
     and_then (validate_children validate_anchor_condition (ag_any a)) (\<lambda>_.
     and_then (validate_children validate_anchor_condition (ag_all a)) (\<lambda>_.
       case (ag_any a, ag_all a) of
         (Some xs, None) \<Rightarrow> ensure (xs \<noteq> []) AnchorEmpty
       | (None, Some xs) \<Rightarrow> ensure (xs \<noteq> []) AnchorEmpty
       | _ \<Rightarrow> Inl AnchorCombinators))"

text \<open>\<^verbatim>\<open>conditions = anchor.any if anchor.any is not None else anchor.all\<close>.\<close>

definition anchor_conditions :: "anchor_group \<Rightarrow> anchor_condition list option" where
  "anchor_conditions a = (if ag_any a \<noteq> None then ag_any a else ag_all a)"

datatype condition_node = ConditionNode
  (cn_all: "condition_node list option")
  (cn_any: "condition_node list option")
  (cn_not: "condition_node option")
  (cn_field: "match_field option")
  (cn_op: "match_op option")
  (cn_value: "pystr option")
  (cn_values: "pystr list option")

definition condition_shapes :: "condition_node \<Rightarrow> nat" where
  "condition_shapes c =
     of_bool (cn_all c \<noteq> None) + of_bool (cn_any c \<noteq> None) + of_bool (cn_not c \<noteq> None)
     + of_bool (cn_field c \<noteq> None)"

text \<open>\<^verbatim>\<open>_exactly_one_shape\<close>, the node's own validator.\<close>

definition exactly_one_shape :: "condition_node \<Rightarrow> schema_error + unit" where
  "exactly_one_shape c =
     (if condition_shapes c \<noteq> 1 then Inl ConditionShape
      else
        (case cn_field c of
           Some f \<Rightarrow>
             (case cn_op c of
                None \<Rightarrow> Inl ConditionOpMissing
              | Some ope \<Rightarrow> validate_leaf_shape f ope (cn_value c) (cn_values c))
         | None \<Rightarrow>
             (case (if cn_all c \<noteq> None then cn_all c else cn_any c) of
                Some [] \<Rightarrow> Inl ConditionGroupEmpty
              | _ \<Rightarrow> Inr ())))"

fun validate_condition :: "condition_node \<Rightarrow> schema_error + unit"
  and validate_conditions :: "condition_node list \<Rightarrow> schema_error + unit" where
  "validate_condition (ConditionNode a b n f ope v vs) =
     and_then (case a of None \<Rightarrow> Inr () | Some xs \<Rightarrow> validate_conditions xs) (\<lambda>_.
     and_then (case b of None \<Rightarrow> Inr () | Some xs \<Rightarrow> validate_conditions xs) (\<lambda>_.
     and_then (case n of None \<Rightarrow> Inr () | Some x \<Rightarrow> validate_condition x) (\<lambda>_.
       exactly_one_shape (ConditionNode a b n f ope v vs))))"
| "validate_conditions [] = Inr ()"
| "validate_conditions (x # xs) =
     and_then (validate_condition x) (\<lambda>_. validate_conditions xs)"

text \<open>Every leaf below a node, left to right.\<close>

fun condition_leaves :: "condition_node \<Rightarrow> condition_node list"
  and conditions_leaves :: "condition_node list \<Rightarrow> condition_node list" where
  "condition_leaves (ConditionNode a b n f ope v vs) =
     (if f \<noteq> None then [ConditionNode a b n f ope v vs]
      else (case a of None \<Rightarrow> [] | Some xs \<Rightarrow> conditions_leaves xs)
         @ (case b of None \<Rightarrow> [] | Some xs \<Rightarrow> conditions_leaves xs)
         @ (case n of None \<Rightarrow> [] | Some x \<Rightarrow> condition_leaves x))"
| "conditions_leaves [] = []"
| "conditions_leaves (x # xs) = condition_leaves x @ conditions_leaves xs"

definition iter_condition_leaves :: "condition_node option \<Rightarrow> condition_node list" where
  "iter_condition_leaves c = (case c of None \<Rightarrow> [] | Some x \<Rightarrow> condition_leaves x)"

record rule_match =
  m_anchor :: anchor_group
  m_conditions :: "condition_node option"

definition validate_match :: "rule_match \<Rightarrow> schema_error + unit" where
  "validate_match m =
     and_then (validate_anchor_group (m_anchor m)) (\<lambda>_.
       case m_conditions m of
         None \<Rightarrow> Inr ()
       | Some c \<Rightarrow> and_then (validate_condition c) (\<lambda>_. ensure (cn_not c = None) BareNot))"

definition match_has_content_condition :: "rule_match \<Rightarrow> bool" where
  "match_has_content_condition m = (m_conditions m \<noteq> None)"

definition match_uses_full_text :: "rule_match \<Rightarrow> bool" where
  "match_uses_full_text m =
     list_ex (\<lambda>c. cn_field c = Some BODY_FULL_TEXT) (iter_condition_leaves (m_conditions m))"

section \<open>What the router takes from the library\<close>

text \<open>
  Case folding, the regular-expression engine (\<^verbatim>\<open>re.compile\<close> succeeds, \<^verbatim>\<open>search\<close> finds a
  match, both under \<^verbatim>\<open>IGNORECASE\<close>), SHA-256, the text of a float, pydantic's reading of a
  \<^verbatim>\<open>bool\<close> field, and \<^verbatim>\<open>datetime.fromisoformat\<close>: local microseconds and the offset, if any.
\<close>

record router_env =
  casefold :: "pystr \<Rightarrow> pystr"
  re_compiles :: "pystr \<Rightarrow> bool"
  re_search :: "pystr \<Rightarrow> pystr \<Rightarrow> bool"
  r_sha256 :: "pybytes \<Rightarrow> pystr"
  r_float_text :: "rat \<Rightarrow> pystr"
  lax_bool :: "json \<Rightarrow> bool option"
  fromisoformat :: "pystr \<Rightarrow> (int \<times> int option) option"

text \<open>\<^verbatim>\<open>value.strip().casefold()\<close>.\<close>

definition normalize_text :: "router_env \<Rightarrow> pystr \<Rightarrow> pystr" where
  "normalize_text env s = casefold env (strip s)"

text \<open>The set of a list of strings in order: \<^verbatim>\<open>sorted({...})\<close>.\<close>

definition sorted_set :: "pystr list \<Rightarrow> pystr list" where
  "sorted_set xs = sort (remdups xs)"

lemma set_sorted_set [simp]: "set (sorted_set xs) = set xs"
  by (simp add: sorted_set_def)

lemma sorted_set_cong: "set xs = set ys \<Longrightarrow> sorted_set xs = sorted_set ys"
  by (simp add: sorted_set_def sorted_distinct_set_unique)

section \<open>The signature of a match\<close>

text \<open>\<^verbatim>\<open>json.dumps(..., sort_keys=True)\<close> with the default separators.\<close>

definition default_format :: "router_env \<Rightarrow> json_format" where
  "default_format env = \<lparr>ensure_ascii = True, item_separator = [44, 32],
     key_separator = [58, 32], float_text = r_float_text env\<rparr>"

definition normalize_leaf_dump ::
  "router_env \<Rightarrow> match_field \<Rightarrow> match_op option \<Rightarrow> pystr option \<Rightarrow> pystr list option \<Rightarrow> json" where
  "normalize_leaf_dump env f ope value values = JObj
     ([(lit ''field'', JStr (match_field_value f))]
      @ (case ope of None \<Rightarrow> [] | Some ope \<Rightarrow> [(lit ''op'', JStr (match_op_value ope))])
      @ (case value of None \<Rightarrow> [] | Some v \<Rightarrow> [(lit ''value'', JStr (normalize_text env v))])
      @ (case values of None \<Rightarrow> []
         | Some vs \<Rightarrow> [(lit ''values'', JArr (map JStr (sort (map (normalize_text env) vs))))]))"

fun normalize_condition_dump :: "router_env \<Rightarrow> condition_node \<Rightarrow> json"
  and normalize_condition_texts :: "router_env \<Rightarrow> condition_node list \<Rightarrow> pystr list" where
  "normalize_condition_dump env (ConditionNode a b n f ope v vs) =
     (case f of
        Some f \<Rightarrow> normalize_leaf_dump env f ope v vs
      | None \<Rightarrow> JObj
          ((case a of None \<Rightarrow> []
            | Some xs \<Rightarrow> [(lit ''all'', JArr (map JStr (sort (normalize_condition_texts env xs))))])
           @ (case b of None \<Rightarrow> []
              | Some xs \<Rightarrow> [(lit ''any'', JArr (map JStr (sort (normalize_condition_texts env xs))))])
           @ (case n of None \<Rightarrow> []
              | Some x \<Rightarrow>
                  [(lit ''not'', JStr (json_dumps (default_format env) (normalize_condition_dump env x)))])))"
| "normalize_condition_texts env [] = []"
| "normalize_condition_texts env (x # xs) =
     json_dumps (default_format env) (normalize_condition_dump env x)
     # normalize_condition_texts env xs"

lemma normalize_condition_texts_map:
  "normalize_condition_texts env xs =
     map (\<lambda>x. json_dumps (default_format env) (normalize_condition_dump env x)) xs"
  by (induction xs) simp_all

definition anchor_leaf_texts :: "router_env \<Rightarrow> anchor_condition list \<Rightarrow> pystr list" where
  "anchor_leaf_texts env cs = sort (map (\<lambda>c. json_dumps (default_format env)
     (normalize_leaf_dump env (ac_field c) (Some (ac_op c)) (ac_value c) (ac_values c))) cs)"

definition canonical_match_signature :: "router_env \<Rightarrow> rule_match \<Rightarrow> pystr" where
  "canonical_match_signature env m =
     json_dumps (compact_format True (r_float_text env)) (JObj
       [(lit ''anchor'', JObj
          ((case ag_any (m_anchor m) of None \<Rightarrow> []
            | Some cs \<Rightarrow> [(lit ''any'', JArr (map JStr (anchor_leaf_texts env cs)))])
           @ (case ag_all (m_anchor m) of None \<Rightarrow> []
              | Some cs \<Rightarrow> [(lit ''all'', JArr (map JStr (anchor_leaf_texts env cs)))]))),
        (lit ''conditions'',
          case m_conditions m of None \<Rightarrow> JNull | Some c \<Rightarrow> normalize_condition_dump env c)])"

section \<open>Decisions\<close>

datatype typed_params =
    ReplyParams "reply_mode option"
  | ForwardParams (fp_recipients: "pystr list") (fp_cc: "pystr list") (fp_edit: bool)
      (fp_attachments: bool)
  | ReadOnlyParams
  | NoActionParams pystr
  | ManualReviewParams pystr

definition json_str :: "json \<Rightarrow> pystr option" where
  "json_str j = (case j of JStr s \<Rightarrow> Some s | _ \<Rightarrow> None)"

fun json_strs :: "json list \<Rightarrow> pystr list option" where
  "json_strs [] = Some []"
| "json_strs (JStr s # js) = map_option ((#) s) (json_strs js)"
| "json_strs (_ # js) = None"

definition json_str_list :: "json \<Rightarrow> pystr list option" where
  "json_str_list j = (case j of JArr js \<Rightarrow> json_strs js | _ \<Rightarrow> None)"

text \<open>\<^verbatim>\<open>extra="forbid"\<close>.\<close>

definition only_keys :: "string list \<Rightarrow> (pystr \<times> json) list \<Rightarrow> bool" where
  "only_keys ks l = list_all (\<lambda>(k, _). k \<in> lit ` set ks) l"

text \<open>A field with a default: absent, or read by its type.\<close>

definition field_or :: "'a \<Rightarrow> (json \<Rightarrow> 'a option) \<Rightarrow> string \<Rightarrow> (pystr \<times> json) list \<Rightarrow> 'a option"
  where
  "field_or dflt read k l = (case map_of l (lit k) of None \<Rightarrow> Some dflt | Some j \<Rightarrow> read j)"

definition reply_mode_of :: "json \<Rightarrow> reply_mode option option" where
  "reply_mode_of j =
     (if j = JNull then Some None
      else if j = JStr (lit ''sender_only'') then Some (Some SENDER_ONLY)
      else if j = JStr (lit ''sender_and_original_cc'') then Some (Some SENDER_AND_ORIGINAL_CC)
      else None)"

definition reply_params :: "(pystr \<times> json) list \<Rightarrow> typed_params option" where
  "reply_params l =
     (if only_keys [''reply_mode''] l
      then map_option ReplyParams (field_or None reply_mode_of ''reply_mode'' l) else None)"

definition exact_address :: "pystr \<Rightarrow> bool" where
  "exact_address a = (64 \<in> set a \<and> 42 \<notin> set a \<and> 63 \<notin> set a)"

definition forward_params :: "router_env \<Rightarrow> (pystr \<times> json) list \<Rightarrow> typed_params option" where
  "forward_params env l =
     (if \<not> only_keys [''fixed_recipients'', ''cc'', ''allow_recipient_edit'', ''include_attachments''] l
      then None
      else
        (case (Option.bind (map_of l (lit ''fixed_recipients'')) json_str_list,
               field_or [] json_str_list ''cc'' l,
               field_or True (lax_bool env) ''allow_recipient_edit'' l,
               field_or False (lax_bool env) ''include_attachments'' l) of
           (Some recipients, Some cc, Some edit, Some attachments) \<Rightarrow>
             if recipients \<noteq> [] \<and> list_all exact_address (recipients @ cc)
             then Some (ForwardParams recipients cc edit attachments) else None
         | _ \<Rightarrow> None))"

definition reason_params :: "(pystr \<Rightarrow> typed_params) \<Rightarrow> (pystr \<times> json) list \<Rightarrow> typed_params option" where
  "reason_params mk l =
     (if only_keys [''reason_code''] l
      then map_option mk (Option.bind (map_of l (lit ''reason_code'')) json_str) else None)"

text \<open>\<^verbatim>\<open>_PARAMS_BY_ROUTE[route].model_validate(params)\<close>.\<close>

fun params_for_route ::
  "router_env \<Rightarrow> canonical_route \<Rightarrow> (pystr \<times> json) list \<Rightarrow> typed_params option" where
  "params_for_route env ROUTE_REPLY l = reply_params l"
| "params_for_route env ROUTE_FORWARD l = forward_params env l"
| "params_for_route env ROUTE_READ_ONLY l = (if l = [] then Some ReadOnlyParams else None)"
| "params_for_route env ROUTE_NO_ACTION l = reason_params NoActionParams l"
| "params_for_route env ROUTE_MANUAL_REVIEW l = reason_params ManualReviewParams l"

text \<open>
  The pattern \<^verbatim>\<open>^[a-z][a-z0-9_]*_v[1-9][0-9]*$\<close>: the digits at the end are the version, and
  what precedes them ends in \<^verbatim>\<open>_v\<close>.
\<close>

definition is_digit :: "nat \<Rightarrow> bool" where
  "is_digit c = (48 \<le> c \<and> c \<le> 57)"

definition is_lower :: "nat \<Rightarrow> bool" where
  "is_lower c = (97 \<le> c \<and> c \<le> 122)"

definition is_profile_id :: "pystr \<Rightarrow> bool" where
  "is_profile_id s =
     (let version = rev (takeWhile is_digit (rev s));
          stem = dropWhile is_digit (rev s);
          name = rev (drop 2 stem)
      in version \<noteq> [] \<and> hd version \<noteq> 48 \<and> take 2 stem = [118, 95]
         \<and> name \<noteq> [] \<and> is_lower (hd name)
         \<and> list_all (\<lambda>c. is_lower c \<or> is_digit c \<or> c = 95) name)"

text \<open>The names of \<^verbatim>\<open>PROFILE_REGISTRY\<close> (\<^verbatim>\<open>src/handoff/profiles.py\<close>).\<close>

definition PROFILE_REGISTRY :: "pystr list" where
  "PROFILE_REGISTRY =
     [lit ''generic_reply_v1'', lit ''generic_forward_v1'', lit ''vip_direct_reply_v1'']"

definition get_handoff_profile :: "pystr \<Rightarrow> schema_error + pystr" where
  "get_handoff_profile p = (if p \<in> set PROFILE_REGISTRY then Inr p else Inl UnknownProfile)"

text \<open>A decision: its parameters as written, and as \<^verbatim>\<open>_typed_params\<close>.\<close>

record rule_decision =
  d_route :: canonical_route
  d_business_flow_id :: "pystr option"
  d_handoff_profile_id :: "pystr option"
  d_params :: "(pystr \<times> json) list"
  d_typed :: typed_params

fun default_profile :: "canonical_route \<Rightarrow> pystr option" where
  "default_profile ROUTE_REPLY = Some (lit ''generic_reply_v1'')"
| "default_profile ROUTE_FORWARD = Some (lit ''generic_forward_v1'')"
| "default_profile _ = None"

definition Decision :: "router_env \<Rightarrow> canonical_route \<Rightarrow> pystr option \<Rightarrow> pystr option
    \<Rightarrow> (pystr \<times> json) list \<Rightarrow> schema_error + rule_decision" where
  "Decision env route flow profile params =
     and_then (ensure (case profile of None \<Rightarrow> True | Some p \<Rightarrow> is_profile_id p) ProfilePattern) (\<lambda>_.
       let profile = (case profile of None \<Rightarrow> default_profile route | Some p \<Rightarrow> Some p)
       in and_then (case profile of None \<Rightarrow> Inr [] | Some p \<Rightarrow> get_handoff_profile p) (\<lambda>_.
          and_then (some_or (ParamsInvalid route) (params_for_route env route params)) (\<lambda>typed.
            Inr \<lparr>d_route = route, d_business_flow_id = flow, d_handoff_profile_id = profile,
                 d_params = params, d_typed = typed\<rparr>)))"

section \<open>The manifest\<close>

record fixture_case =
  fc_case_id :: pystr
  fc_email :: "(pystr \<times> json) list"

record governance =
  g_criticality :: "criticality option"
  g_risk_notes :: "pystr option"
  g_positive_cases :: "fixture_case list"
  g_negative_cases :: "fixture_case list"
  g_external_recipient_acknowledged :: bool
  g_full_text_match_acknowledged :: bool
  g_owner_reviewed_at :: "pystr option"

record validity =
  effective_from :: "pystr option"
  expires_at :: "pystr option"

record rule_manifest =
  rule_id :: pystr
  rule_version :: int
  rm_status :: rule_status
  rm_owner :: "pystr option"
  rm_purpose :: "pystr option"
  rm_validity :: validity
  rm_match :: rule_match
  rm_decision :: rule_decision
  rm_governance :: governance

text \<open>
  \<^verbatim>\<open>_RULE_ID_RE.match\<close>: \<^verbatim>\<open>$\<close> also matches before a newline that ends the text.
\<close>

definition is_alnum_ascii :: "nat \<Rightarrow> bool" where
  "is_alnum_ascii c = (is_digit c \<or> is_lower c \<or> 65 \<le> c \<and> c \<le> 90)"

definition rule_id_text :: "pystr \<Rightarrow> bool" where
  "rule_id_text s =
     (case s of
        [] \<Rightarrow> False
      | c # cs \<Rightarrow> is_alnum_ascii c \<and> 1 \<le> length cs \<and> length cs \<le> 63
          \<and> list_all (\<lambda>d. is_alnum_ascii d \<or> d = 95 \<or> d = 45) cs)"

definition is_rule_id :: "pystr \<Rightarrow> bool" where
  "is_rule_id s = (rule_id_text s \<or> s \<noteq> [] \<and> last s = 10 \<and> rule_id_text (butlast s))"

definition validate_no_action_governance :: "rule_manifest \<Rightarrow> bool" where
  "validate_no_action_governance r =
     (d_route (rm_decision r) = ROUTE_NO_ACTION \<longrightarrow>
        (rm_owner r \<noteq> None \<and> rm_owner r \<noteq> Some [] \<and> expires_at (rm_validity r) \<noteq> None
         \<and> 1 \<le> length (g_positive_cases (rm_governance r))
         \<and> 2 \<le> length (g_negative_cases (rm_governance r))))"

definition validate_fixture_minimums :: "rule_manifest \<Rightarrow> bool" where
  "validate_fixture_minimums r =
     (1 \<le> length (g_positive_cases (rm_governance r))
      \<and> (match_has_content_condition (rm_match r) \<longrightarrow>
           1 \<le> length (g_negative_cases (rm_governance r))))"

definition validate_full_text_ack :: "rule_manifest \<Rightarrow> bool" where
  "validate_full_text_ack r =
     (match_uses_full_text (rm_match r) \<longrightarrow> g_full_text_match_acknowledged (rm_governance r))"

text \<open>
  The validators of a whole manifest. The decision was built by \<open>Decision\<close>; that it is what
  that constructor returns is part of the manifest's validity. The \<^verbatim>\<open>KeyError\<close> of an unknown
  profile leaves the validation of the fields at once, whatever else is wrong with them.
\<close>

definition manifest_decision :: "router_env \<Rightarrow> rule_manifest \<Rightarrow> schema_error + rule_decision" where
  "manifest_decision env r =
     Decision env (d_route (rm_decision r)) (d_business_flow_id (rm_decision r))
        (d_handoff_profile_id (rm_decision r)) (d_params (rm_decision r))"

definition validate_manifest :: "router_env \<Rightarrow> rule_manifest \<Rightarrow> schema_error + rule_manifest" where
  "validate_manifest env r =
     and_then (ensure (manifest_decision env r \<noteq> Inl UnknownProfile) UnknownProfile) (\<lambda>_.
     and_then (ensure (1 \<le> rule_version r) RuleVersion) (\<lambda>_.
     and_then (validate_match (rm_match r)) (\<lambda>_.
     and_then (manifest_decision env r) (\<lambda>decision.
     and_then (ensure (is_rule_id (rule_id r)) RuleId) (\<lambda>_.
     and_then (ensure (validate_no_action_governance r) NoActionGovernance) (\<lambda>_.
     and_then (ensure (validate_fixture_minimums r) FixtureMinimum) (\<lambda>_.
     and_then (ensure (validate_full_text_ack r) FullTextAcknowledgement) (\<lambda>_.
       Inr (r\<lparr>rm_decision := decision\<rparr>)))))))))"

text \<open>Validation is idempotent: what it returns, it accepts unchanged.\<close>

lemma default_profiles [simp]:
  "default_profile route = Some p \<Longrightarrow> is_profile_id p"
  "default_profile route = Some p \<Longrightarrow> get_handoff_profile p = Inr p"
  by (cases route; auto simp: is_profile_id_def lit_def is_digit_def is_lower_def get_handoff_profile_def
      PROFILE_REGISTRY_def Let_def)+

lemma default_profile_registered: "default_profile route = Some p \<Longrightarrow> p \<in> set PROFILE_REGISTRY"
  by (cases route) (auto simp: PROFILE_REGISTRY_def)

lemma Decision_Inr:
  "Decision env route flow profile params = Inr d \<longleftrightarrow>
     (case profile of None \<Rightarrow> True | Some p \<Rightarrow> is_profile_id p \<and> p \<in> set PROFILE_REGISTRY)
     \<and> (\<exists>typed. params_for_route env route params = Some typed
        \<and> d = \<lparr>d_route = route, d_business_flow_id = flow,
             d_handoff_profile_id = (case profile of None \<Rightarrow> default_profile route | Some p \<Rightarrow> Some p),
             d_params = params, d_typed = typed\<rparr>)"
  by (cases profile; cases "default_profile route")
    (auto simp: Decision_def and_then_Inr Let_def get_handoff_profile_def dest: default_profiles(2)
      split: if_splits)

lemma Decision_idem:
  assumes "Decision env route flow profile params = Inr d"
  shows "Decision env (d_route d) (d_business_flow_id d) (d_handoff_profile_id d) (d_params d) = Inr d"
proof (cases profile)
  case None
  with assms show ?thesis
    by (cases "default_profile route")
      (auto simp: Decision_Inr dest: default_profile_registered)
next
  case (Some p)
  with assms show ?thesis by (auto simp: Decision_Inr)
qed

lemma validate_manifest_idem:
  assumes "validate_manifest env r = Inr s"
  shows "validate_manifest env s = Inr s"
proof -
  from assms obtain d where d: "manifest_decision env r = Inr d" and s: "s = r\<lparr>rm_decision := d\<rparr>"
    by (auto simp: validate_manifest_def and_then_Inr)
  from d have "manifest_decision env s = Inr d"
    unfolding manifest_decision_def s by (simp add: Decision_idem)
  moreover have "d_route d = d_route (rm_decision r)"
    using d by (auto simp: manifest_decision_def Decision_Inr)
  then have "validate_no_action_governance s = validate_no_action_governance r"
    "validate_fixture_minimums s = validate_fixture_minimums r"
    "validate_full_text_ack s = validate_full_text_ack r"
    by (simp_all add: s validate_no_action_governance_def validate_fixture_minimums_def
        validate_full_text_ack_def)
  ultimately show ?thesis
    using assms unfolding validate_manifest_def and_then_Inr ensure_Inr d
    by (simp add: s)
qed

end
