(* ===== verification/RouterDsl.thy ===== *)
theory RouterDsl
  imports RouterSchema
begin

text \<open>
  \<^verbatim>\<open>src/router/tier1/dsl.py\<close>: the three-valued matcher. A field that could not be resolved is
  \<open>Unknown\<close>; an absent one is empty. What the code raises is \<open>dsl_error\<close>: \<open>UnsafeRegex\<close>, or
  \<open>IllTyped\<close> where the operator, its operand and the field do not fit together, which a
  validated rule excludes (\<open>evaluate_match_total\<close>).
\<close>

datatype tri_state = TRI_TRUE | TRI_FALSE | TRI_UNKNOWN

datatype 'a view_field = Known 'a | Unknown

record email_view =
  sender_address :: "pystr view_field"
  to_addresses :: "pystr list view_field"
  cc_addresses :: "pystr list view_field"
  v_subject :: "pystr view_field"
  body_current_text :: "pystr view_field"
  body_full_text :: "pystr view_field"

datatype dsl_error = UnsafeRegex | IllTyped

datatype resolved = Scalar pystr | AddressSet "pystr list" | Unresolved

definition of_scalar :: "pystr view_field \<Rightarrow> resolved" where
  "of_scalar x = (case x of Known s \<Rightarrow> Scalar s | Unknown \<Rightarrow> Unresolved)"

definition of_set :: "pystr list view_field \<Rightarrow> resolved" where
  "of_set x = (case x of Known s \<Rightarrow> AddressSet s | Unknown \<Rightarrow> Unresolved)"

fun resolve :: "email_view \<Rightarrow> match_field \<Rightarrow> resolved" where
  "resolve v SENDER_ADDRESS = of_scalar (sender_address v)"
| "resolve v TO_ADDRESSES = of_set (to_addresses v)"
| "resolve v CC_ADDRESSES = of_set (cc_addresses v)"
| "resolve v SUBJECT = of_scalar (v_subject v)"
| "resolve v BODY_CURRENT_TEXT = of_scalar (body_current_text v)"
| "resolve v BODY_FULL_TEXT = of_scalar (body_full_text v)"

section \<open>The placeholder for the mailbox owner\<close>

definition ME_PLACEHOLDER :: pystr where
  "ME_PLACEHOLDER = lit ''$ME''"

text \<open>\<^verbatim>\<open>me_email if me_email else UNKNOWN\<close>: an empty address counts as missing.\<close>

definition me_known :: "pystr option \<Rightarrow> pystr option" where
  "me_known me = (if me = Some [] then None else me)"

definition resolve_me_value :: "pystr option \<Rightarrow> pystr \<Rightarrow> pystr option" where
  "resolve_me_value me v = (if v \<noteq> ME_PLACEHOLDER then Some v else me_known me)"

fun resolve_me_values :: "pystr option \<Rightarrow> pystr list \<Rightarrow> pystr list option" where
  "resolve_me_values me [] = Some []"
| "resolve_me_values me (v # vs) =
     (case resolve_me_value me v of
        None \<Rightarrow> None
      | Some w \<Rightarrow> map_option ((#) w) (resolve_me_values me vs))"

section \<open>Safe regular expressions\<close>

definition MAX_REGEX_PATTERN_LENGTH :: nat where
  "MAX_REGEX_PATTERN_LENGTH = 200"

definition MAX_REGEX_INPUT_LENGTH :: nat where
  "MAX_REGEX_INPUT_LENGTH = 20000"

text \<open>
  The three alternatives of \<^verbatim>\<open>_UNSAFE_REGEX_RE\<close> at one position: \<^verbatim>\<open>(?\<close> and one of \<^verbatim>\<open><=!\<close>; a
  backslash and a digit \<^verbatim>\<open>1-9\<close>; a group without \<^verbatim>\<open>)\<close> that ends in a quantifier and is
  quantified.
\<close>

definition unsafe_here :: "pystr \<Rightarrow> bool" where
  "unsafe_here s =
     (take 2 s = [40, 63] \<and> take 1 (drop 2 s) \<in> {[60], [61], [33]}
      \<or> take 1 s = [92] \<and> take 1 (drop 1 s) \<in> (\<lambda>d. [48 + d]) ` {1..9}
      \<or> take 1 s = [40]
        \<and> (let group = takeWhile (\<lambda>c. c \<noteq> 41) (drop 1 s);
               rest = dropWhile (\<lambda>c. c \<noteq> 41) (drop 1 s)
           in group \<noteq> [] \<and> last group \<in> {43, 42} \<and> take 1 (drop 1 rest) \<in> {[43], [42]}))"

fun unsafe_regex :: "pystr \<Rightarrow> bool" where
  "unsafe_regex [] = False"
| "unsafe_regex (c # s) = (unsafe_here (c # s) \<or> unsafe_regex s)"

definition compile_safe_regex :: "router_env \<Rightarrow> pystr \<Rightarrow> dsl_error + unit" where
  "compile_safe_regex env p =
     ensure (length p \<le> MAX_REGEX_PATTERN_LENGTH \<and> \<not> unsafe_regex p \<and> re_compiles env p)
       UnsafeRegex"

section \<open>Operators\<close>

definition tri :: "bool \<Rightarrow> tri_state" where
  "tri b = (if b then TRI_TRUE else TRI_FALSE)"

text \<open>
  One operator on a resolved field. \<open>value\<close> and \<open>values\<close> are the operands after the
  placeholder was resolved; the operator reads the one its schema demands.
\<close>

definition scalar_op ::
  "resolved \<Rightarrow> (pystr \<Rightarrow> dsl_error + tri_state) \<Rightarrow> dsl_error + tri_state" where
  "scalar_op r f =
     (case r of Unresolved \<Rightarrow> Inr TRI_UNKNOWN | Scalar s \<Rightarrow> f s | AddressSet _ \<Rightarrow> Inl IllTyped)"

definition set_op ::
  "resolved \<Rightarrow> (pystr list \<Rightarrow> dsl_error + tri_state) \<Rightarrow> dsl_error + tri_state" where
  "set_op r f =
     (case r of Unresolved \<Rightarrow> Inr TRI_UNKNOWN | AddressSet s \<Rightarrow> f s | Scalar _ \<Rightarrow> Inl IllTyped)"

definition scalar_eq :: "router_env \<Rightarrow> resolved \<Rightarrow> pystr \<Rightarrow> dsl_error + tri_state" where
  "scalar_eq env r v = scalar_op r (\<lambda>s. Inr (tri (normalize_text env s = normalize_text env v)))"

definition scalar_in :: "router_env \<Rightarrow> resolved \<Rightarrow> pystr list \<Rightarrow> dsl_error + tri_state" where
  "scalar_in env r vs =
     scalar_op r (\<lambda>s. Inr (tri (normalize_text env s \<in> normalize_text env ` set vs)))"

definition scalar_contains :: "router_env \<Rightarrow> resolved \<Rightarrow> pystr \<Rightarrow> dsl_error + tri_state" where
  "scalar_contains env r v =
     scalar_op r (\<lambda>s. Inr (tri (py_contains (casefold env v) (casefold env s))))"

definition scalar_contains_any :: "router_env \<Rightarrow> resolved \<Rightarrow> pystr list \<Rightarrow> dsl_error + tri_state" where
  "scalar_contains_any env r vs =
     scalar_op r (\<lambda>s. Inr (tri (list_ex (\<lambda>v. py_contains (casefold env v) (casefold env s)) vs)))"

definition scalar_regex :: "router_env \<Rightarrow> resolved \<Rightarrow> pystr \<Rightarrow> dsl_error + tri_state" where
  "scalar_regex env r p =
     scalar_op r (\<lambda>s.
       if MAX_REGEX_INPUT_LENGTH < length s then Inr TRI_UNKNOWN
       else and_then (compile_safe_regex env p) (\<lambda>_. Inr (tri (re_search env p s))))"

definition set_has_any :: "router_env \<Rightarrow> resolved \<Rightarrow> pystr list \<Rightarrow> dsl_error + tri_state" where
  "set_has_any env r vs = set_op r (\<lambda>items.
     Inr (tri (normalize_text env ` set vs \<inter> normalize_text env ` set items \<noteq> {})))"

definition set_has_all :: "router_env \<Rightarrow> resolved \<Rightarrow> pystr list \<Rightarrow> dsl_error + tri_state" where
  "set_has_all env r vs = set_op r (\<lambda>items.
     Inr (tri (normalize_text env ` set vs \<subseteq> normalize_text env ` set items)))"

definition apply_operator :: "router_env \<Rightarrow> match_op option \<Rightarrow> resolved \<Rightarrow> pystr option
    \<Rightarrow> pystr list option \<Rightarrow> dsl_error + tri_state" where
  "apply_operator env ope r value values =
     (case (ope, value, values) of
        (Some OP_EQ, Some v, _) \<Rightarrow> scalar_eq env r v
      | (Some OP_IN, _, Some vs) \<Rightarrow> scalar_in env r vs
      | (Some OP_CONTAINS, Some v, _) \<Rightarrow> scalar_contains env r v
      | (Some OP_CONTAINS_ANY, _, Some vs) \<Rightarrow> scalar_contains_any env r vs
      | (Some OP_REGEX, Some v, _) \<Rightarrow> scalar_regex env r v
      | (Some OP_HAS_ANY, _, Some vs) \<Rightarrow> set_has_any env r vs
      | (Some OP_HAS_ALL, _, Some vs) \<Rightarrow> set_has_all env r vs
      | _ \<Rightarrow> Inl IllTyped)"

text \<open>Operands are resolved before the operator runs; one that is unknown decides.\<close>

definition evaluate_leaf :: "router_env \<Rightarrow> pystr option \<Rightarrow> email_view \<Rightarrow> match_field
    \<Rightarrow> match_op option \<Rightarrow> pystr option \<Rightarrow> pystr list option \<Rightarrow> dsl_error + tri_state" where
  "evaluate_leaf env me view f ope value values =
     (let r = resolve view f;
          v = map_option (resolve_me_value me) value;
          vs = map_option (resolve_me_values me) values
      in if v = Some None \<or> vs = Some None then Inr TRI_UNKNOWN
         else apply_operator env ope r (Option.bind v (\<lambda>x. x)) (Option.bind vs (\<lambda>x. x)))"

section \<open>Combinators\<close>

fun tri_not :: "tri_state \<Rightarrow> tri_state" where
  "tri_not TRI_UNKNOWN = TRI_UNKNOWN"
| "tri_not TRI_TRUE = TRI_FALSE"
| "tri_not TRI_FALSE = TRI_TRUE"

definition tri_all :: "tri_state list \<Rightarrow> tri_state" where
  "tri_all xs =
     (if TRI_FALSE \<in> set xs then TRI_FALSE
      else if list_all (\<lambda>x. x = TRI_TRUE) xs then TRI_TRUE else TRI_UNKNOWN)"

definition tri_any :: "tri_state list \<Rightarrow> tri_state" where
  "tri_any xs =
     (if TRI_TRUE \<in> set xs then TRI_TRUE
      else if list_all (\<lambda>x. x = TRI_FALSE) xs then TRI_FALSE else TRI_UNKNOWN)"

fun evaluate_node :: "router_env \<Rightarrow> pystr option \<Rightarrow> email_view \<Rightarrow> condition_node
    \<Rightarrow> dsl_error + tri_state"
  and evaluate_nodes :: "router_env \<Rightarrow> pystr option \<Rightarrow> email_view \<Rightarrow> condition_node list
    \<Rightarrow> dsl_error + tri_state list" where
  "evaluate_node env me view (ConditionNode a b n f ope v vs) =
     (case f of
        Some f \<Rightarrow> evaluate_leaf env me view f ope v vs
      | None \<Rightarrow>
          (case a of
             Some xs \<Rightarrow> and_then (evaluate_nodes env me view xs) (\<lambda>ts. Inr (tri_all ts))
           | None \<Rightarrow>
               (case b of
                  Some xs \<Rightarrow> and_then (evaluate_nodes env me view xs) (\<lambda>ts. Inr (tri_any ts))
                | None \<Rightarrow>
                    (case n of
                       Some x \<Rightarrow> and_then (evaluate_node env me view x) (\<lambda>t. Inr (tri_not t))
                     | None \<Rightarrow> Inl IllTyped))))"
| "evaluate_nodes env me view [] = Inr []"
| "evaluate_nodes env me view (x # xs) =
     and_then (evaluate_node env me view x) (\<lambda>t.
     and_then (evaluate_nodes env me view xs) (\<lambda>ts. Inr (t # ts)))"

definition evaluate_condition_node ::
  "router_env \<Rightarrow> pystr option \<Rightarrow> email_view \<Rightarrow> condition_node option \<Rightarrow> dsl_error + tri_state" where
  "evaluate_condition_node env me view c =
     (case c of None \<Rightarrow> Inr TRI_TRUE | Some x \<Rightarrow> evaluate_node env me view x)"

definition evaluate_anchor_condition ::
  "router_env \<Rightarrow> pystr option \<Rightarrow> email_view \<Rightarrow> anchor_condition \<Rightarrow> dsl_error + tri_state" where
  "evaluate_anchor_condition env me view c =
     evaluate_leaf env me view (ac_field c) (Some (ac_op c)) (ac_value c) (ac_values c)"

definition evaluate_anchor ::
  "router_env \<Rightarrow> pystr option \<Rightarrow> email_view \<Rightarrow> anchor_group \<Rightarrow> dsl_error + tri_state" where
  "evaluate_anchor env me view a =
     and_then (some_or IllTyped (anchor_conditions a)) (\<lambda>cs.
     and_then (traverse (evaluate_anchor_condition env me view) cs) (\<lambda>ts.
       Inr (if ag_any a \<noteq> None then tri_any ts else tri_all ts)))"

section \<open>One rule\<close>

datatype rule_eval_status = RULE_MATCHED | RULE_NOT_MATCHED | RULE_INDETERMINATE

definition evaluate_match ::
  "router_env \<Rightarrow> pystr option \<Rightarrow> email_view \<Rightarrow> rule_match \<Rightarrow> dsl_error + rule_eval_status" where
  "evaluate_match env me view m =
     and_then (evaluate_anchor env me view (m_anchor m)) (\<lambda>anchor_result.
       case anchor_result of
         TRI_FALSE \<Rightarrow> Inr RULE_NOT_MATCHED
       | TRI_UNKNOWN \<Rightarrow> Inr RULE_INDETERMINATE
       | TRI_TRUE \<Rightarrow>
           and_then (evaluate_condition_node env me view (m_conditions m)) (\<lambda>condition_result.
             Inr (case condition_result of
                    TRI_TRUE \<Rightarrow> RULE_MATCHED
                  | TRI_FALSE \<Rightarrow> RULE_NOT_MATCHED
                  | TRI_UNKNOWN \<Rightarrow> RULE_INDETERMINATE)))"

end
