(* ===== verification/RouterTier1.thy ===== *)
theory RouterTier1
  imports RouterDsl
begin

text \<open>
  The aggregation of the rules into one tier-1 decision: \<^verbatim>\<open>fingerprint.py\<close>, \<^verbatim>\<open>validity.py\<close> and
  \<^verbatim>\<open>decision.py\<close> of \<^verbatim>\<open>src/router/tier1\<close>. A time is a number of microseconds since 1970 in UTC.
\<close>

section \<open>Action fingerprints\<close>

datatype fingerprint_error = ParamsTypeMismatch | ProfileRequired | UnsupportedVersion

fun canonicalize_params ::
  "router_env \<Rightarrow> canonical_route \<Rightarrow> typed_params \<Rightarrow> fingerprint_error + json" where
  "canonicalize_params env ROUTE_REPLY (ReplyParams mode) = Inr (JObj
     [(lit ''reply_mode'', JStr (reply_mode_value
        (case mode of None \<Rightarrow> SENDER_AND_ORIGINAL_CC | Some m \<Rightarrow> m)))])"
| "canonicalize_params env ROUTE_FORWARD (ForwardParams recipients cc edit attachments) = Inr (JObj
     [(lit ''fixed_recipients'', JArr (map JStr (sorted_set (map (normalize_text env) recipients)))),
      (lit ''cc'', JArr (map JStr (sorted_set (map (normalize_text env) cc)))),
      (lit ''allow_recipient_edit'', JBool edit),
      (lit ''include_attachments'', JBool attachments)])"
| "canonicalize_params env ROUTE_READ_ONLY _ = Inr (JObj [])"
| "canonicalize_params env ROUTE_NO_ACTION (NoActionParams reason) =
     Inr (JObj [(lit ''reason_code'', JStr reason)])"
| "canonicalize_params env ROUTE_MANUAL_REVIEW (ManualReviewParams reason) =
     Inr (JObj [(lit ''reason_code'', JStr reason)])"
| "canonicalize_params env _ _ = Inl ParamsTypeMismatch"

text \<open>Python's \<^verbatim>\<open>or\<close> on optional text: an empty text is false.\<close>

definition truthy :: "pystr option \<Rightarrow> pystr option" where
  "truthy x = (if x = Some [] then None else x)"

definition or_text :: "pystr option \<Rightarrow> pystr option \<Rightarrow> pystr option" where
  "or_text a b = (case truthy a of None \<Rightarrow> b | Some s \<Rightarrow> Some s)"

definition fingerprint_payload :: "canonical_route \<Rightarrow> json \<Rightarrow> pystr option \<Rightarrow> json" where
  "fingerprint_payload route params profile = JObj
     ([(lit ''route'', JStr (canonical_route_value route)), (lit ''params'', params)]
      @ (case profile of None \<Rightarrow> [] | Some p \<Rightarrow> [(lit ''handoff_profile_id'', JStr p)]))"

definition fingerprint_text :: "router_env \<Rightarrow> pystr \<Rightarrow> json \<Rightarrow> pystr" where
  "fingerprint_text env prefix payload =
     prefix @ r_sha256 env (utf8 (json_dumps (compact_format True (r_float_text env)) payload))"

text \<open>A version of 0 is false in \<^verbatim>\<open>fingerprint_version or (...)\<close>.\<close>

definition compute_action_fingerprint ::
  "router_env \<Rightarrow> rule_decision \<Rightarrow> pystr option \<Rightarrow> int option \<Rightarrow> fingerprint_error + pystr" where
  "compute_action_fingerprint env d profile version =
     and_then (canonicalize_params env (d_route d) (d_typed d)) (\<lambda>params.
       let profile_id = truthy (or_text profile (d_handoff_profile_id d));
           chosen = (case version of
              None \<Rightarrow> if profile_id \<noteq> None then 2 else 1
            | Some v \<Rightarrow> if v = 0 then (if profile_id \<noteq> None then 2 else 1) else v)
       in if chosen = 2 then
            (case profile_id of
               None \<Rightarrow> Inl ProfileRequired
             | Some p \<Rightarrow> Inr (fingerprint_text env (lit ''sha256:v2:'')
                 (fingerprint_payload (d_route d) params (Some p))))
          else if chosen = 1 then
            Inr (fingerprint_text env (lit ''sha256:'') (fingerprint_payload (d_route d) params None))
          else Inl UnsupportedVersion)"

definition action_fingerprint :: "router_env \<Rightarrow> rule_decision \<Rightarrow> fingerprint_error + pystr" where
  "action_fingerprint env d = compute_action_fingerprint env d None None"

section \<open>Validity windows\<close>

text \<open>
  The range of \<^verbatim>\<open>datetime\<close>, years 1 to 9999; moving a time outside of it raises
  \<^verbatim>\<open>OverflowError\<close>, which is not the \<^verbatim>\<open>ValueError\<close> the callers handle.
\<close>

datatype timestamp_error = TimestampInvalid | TimestampOverflow

definition DATETIME_MIN :: int where
  "DATETIME_MIN = - 62135596800000000"

definition DATETIME_MAX :: int where
  "DATETIME_MAX = 253402300799999999"

definition zulu_offset :: "pystr \<Rightarrow> pystr" where
  "zulu_offset s = concat (map (\<lambda>c. if c = 90 then lit ''+00:00'' else [c]) s)"

definition parse_validity_timestamp ::
  "router_env \<Rightarrow> pystr option \<Rightarrow> timestamp_error + int option" where
  "parse_validity_timestamp env value =
     (case value of
        None \<Rightarrow> Inr None
      | Some s \<Rightarrow>
          and_then (some_or TimestampInvalid (fromisoformat env (zulu_offset s))) (\<lambda>(local, offset).
            let utc = local - (case offset of None \<Rightarrow> 0 | Some o' \<Rightarrow> o')
            in if DATETIME_MIN \<le> utc \<and> utc \<le> DATETIME_MAX then Inr (Some utc)
               else Inl TimestampOverflow))"

definition window_holds :: "int option \<Rightarrow> int option \<Rightarrow> int \<Rightarrow> bool" where
  "window_holds from until current =
     ((case from of None \<Rightarrow> True | Some f \<Rightarrow> f \<le> current)
      \<and> (case until of None \<Rightarrow> True | Some u \<Rightarrow> current < u))"

definition is_rule_active :: "router_env \<Rightarrow> rule_manifest \<Rightarrow> int \<Rightarrow> timestamp_error + bool" where
  "is_rule_active env r current =
     (case and_then (parse_validity_timestamp env (effective_from (rm_validity r))) (\<lambda>from.
           and_then (parse_validity_timestamp env (expires_at (rm_validity r))) (\<lambda>until.
             Inr (window_holds from until current))) of
        Inl TimestampInvalid \<Rightarrow> Inr False
      | x \<Rightarrow> x)"

section \<open>The tier-1 decision\<close>

datatype evaluation_outcome = OUT_MATCHED | OUT_ABSTAIN | OUT_CONFLICT | OUT_ERROR

datatype decision_origin =
  RULE_DECLARED | RUNTIME_CONFLICT | RUNTIME_INDETERMINATE | RUNTIME_ERROR

record candidate_action =
  ca_fingerprint :: pystr
  ca_rule_ids :: "pystr list"
  ca_route :: canonical_route

record tier1_decision =
  t_outcome :: evaluation_outcome
  t_route :: "canonical_route option"
  t_origin :: "decision_origin option"
  t_matched_rules :: "(pystr \<times> int) list"
  t_candidate_actions :: "candidate_action list"
  t_selected :: "pystr option"
  t_business_flow_ids :: "pystr list"
  t_reason_codes :: "pystr list"

text \<open>What escapes \<^verbatim>\<open>build_tier1_decision\<close>.\<close>

datatype tier1_error = MatchRaised dsl_error | TimeRaised timestamp_error | FingerprintRaised fingerprint_error

definition lift_error :: "('e \<Rightarrow> 'f) \<Rightarrow> 'e + 'a \<Rightarrow> 'f + 'a" where
  "lift_error h m = (case m of Inl e \<Rightarrow> Inl (h e) | Inr x \<Rightarrow> Inr x)"

definition rule_ref :: "rule_manifest \<Rightarrow> pystr \<times> int" where
  "rule_ref r = (rule_id r, rule_version r)"

text \<open>The loop over the rules: the matched and the indeterminate ones, in order.\<close>

fun classify_rules :: "router_env \<Rightarrow> pystr option \<Rightarrow> email_view \<Rightarrow> int \<Rightarrow> rule_manifest list
    \<Rightarrow> tier1_error + (rule_manifest list \<times> rule_manifest list)" where
  "classify_rules env me view now [] = Inr ([], [])"
| "classify_rules env me view now (r # rs) =
     and_then (lift_error TimeRaised (is_rule_active env r now)) (\<lambda>active.
     and_then (if active then lift_error MatchRaised (evaluate_match env me view (rm_match r))
               else Inr RULE_NOT_MATCHED) (\<lambda>status.
     and_then (classify_rules env me view now rs) (\<lambda>(matched, indeterminate).
       Inr (if status = RULE_MATCHED then (r # matched, indeterminate)
            else if status = RULE_INDETERMINATE then (matched, r # indeterminate)
            else (matched, indeterminate)))))"

text \<open>\<^verbatim>\<open>groups.setdefault(fingerprint, []).append(rule)\<close>, in insertion order.\<close>

fun group_add :: "pystr \<Rightarrow> rule_manifest \<Rightarrow> (pystr \<times> rule_manifest list) list
    \<Rightarrow> (pystr \<times> rule_manifest list) list" where
  "group_add fp r [] = [(fp, [r])]"
| "group_add fp r ((k, rs) # g) = (if k = fp then (k, rs @ [r]) # g else (k, rs) # group_add fp r g)"

definition group_rules :: "(pystr \<times> rule_manifest) list \<Rightarrow> (pystr \<times> rule_manifest list) list" where
  "group_rules pairs = fold (\<lambda>(fp, r) g. group_add fp r g) pairs []"

definition candidate :: "pystr \<times> rule_manifest list \<Rightarrow> candidate_action" where
  "candidate g = \<lparr>ca_fingerprint = fst g, ca_rule_ids = sort (map rule_id (snd g)),
     ca_route = d_route (rm_decision (hd (snd g)))\<rparr>"

definition reason_code_of :: "typed_params \<Rightarrow> pystr option" where
  "reason_code_of p = (case p of NoActionParams r \<Rightarrow> Some r | ManualReviewParams r \<Rightarrow> Some r | _ \<Rightarrow> None)"

definition business_flows :: "rule_manifest list \<Rightarrow> pystr list" where
  "business_flows rs = sorted_set (List.map_filter (\<lambda>r. truthy (d_business_flow_id (rm_decision r))) rs)"

definition reason_codes :: "rule_manifest list \<Rightarrow> pystr list" where
  "reason_codes rs = sorted_set (List.map_filter (\<lambda>r. reason_code_of (d_typed (rm_decision r))) rs)"

definition aggregate :: "rule_manifest list \<Rightarrow> rule_manifest list \<Rightarrow> (pystr \<times> rule_manifest) list
    \<Rightarrow> tier1_decision" where
  "aggregate matched indeterminate pairs =
     (if indeterminate \<noteq> [] then
        \<lparr>t_outcome = OUT_ERROR, t_route = Some ROUTE_MANUAL_REVIEW,
         t_origin = Some RUNTIME_INDETERMINATE, t_matched_rules = map rule_ref indeterminate,
         t_candidate_actions = [], t_selected = None, t_business_flow_ids = [], t_reason_codes = []\<rparr>
      else if matched = [] then
        \<lparr>t_outcome = OUT_ABSTAIN, t_route = None, t_origin = None, t_matched_rules = [],
         t_candidate_actions = [], t_selected = None, t_business_flow_ids = [], t_reason_codes = []\<rparr>
      else
        (case group_rules pairs of
           [g] \<Rightarrow>
             \<lparr>t_outcome = OUT_MATCHED, t_route = Some (ca_route (candidate g)),
              t_origin = Some RULE_DECLARED, t_matched_rules = map rule_ref matched,
              t_candidate_actions = [candidate g], t_selected = Some (fst g),
              t_business_flow_ids = business_flows matched, t_reason_codes = reason_codes matched\<rparr>
         | gs \<Rightarrow>
             \<lparr>t_outcome = OUT_CONFLICT, t_route = Some ROUTE_MANUAL_REVIEW,
              t_origin = Some RUNTIME_CONFLICT, t_matched_rules = map rule_ref matched,
              t_candidate_actions = sort_key ca_fingerprint (map candidate gs), t_selected = None,
              t_business_flow_ids = business_flows matched, t_reason_codes = reason_codes matched\<rparr>))"

definition fingerprint_pair :: "router_env \<Rightarrow> rule_manifest \<Rightarrow> tier1_error + (pystr \<times> rule_manifest)" where
  "fingerprint_pair env r =
     and_then (lift_error FingerprintRaised (action_fingerprint env (rm_decision r))) (\<lambda>fp. Inr (fp, r))"

definition build_tier1_decision :: "router_env \<Rightarrow> pystr option \<Rightarrow> email_view \<Rightarrow> int
    \<Rightarrow> rule_manifest list \<Rightarrow> tier1_error + tier1_decision" where
  "build_tier1_decision env me view now rules =
     and_then (classify_rules env me view now rules) (\<lambda>(matched, indeterminate).
       if indeterminate \<noteq> [] \<or> matched = [] then Inr (aggregate matched indeterminate [])
       else and_then (traverse (fingerprint_pair env) matched) (\<lambda>pairs.
          Inr (aggregate matched indeterminate pairs)))"

end
