(* ===== verification/RouterCompiler.thy ===== *)
theory RouterCompiler
  imports RouterTier1
begin

text \<open>
  \<^verbatim>\<open>src/router/tier1/compiler.py\<close>: the registry is compiled as one unit into an artifact named
  by its digest. A rule file is what reading its YAML gave; an artifact directory maps file names
  to the JSON value they decode to, if they do. What the library does is a parameter: \<open>dump\<close> is
  pydantic's \<^verbatim>\<open>model_dump\<close> of a manifest and \<open>parse\<close> its reading of the fields' types, before the
  validators run; \<open>str_of\<close> is Python's \<^verbatim>\<open>str\<close> of a value that is not text.
\<close>

record compiler_env = router_env +
  dump :: "rule_manifest \<Rightarrow> json"
  parse :: "json \<Rightarrow> rule_manifest option"
  str_of :: "json \<Rightarrow> pystr"

definition router :: "compiler_env \<Rightarrow> router_env" where
  "router env = router_env.truncate env"

section \<open>Issues\<close>

datatype issue_code =
    YAML_PARSE_ERROR | YAML_NOT_A_MAPPING | SCHEMA_INVALID | SCHEMA_INVALID_NON_ENABLED
  | EFFECTIVE_FROM_INVALID | EXPIRES_AT_INVALID | VALIDITY_WINDOW_INVALID | RULE_EXPIRED
  | RULE_EXPIRES_SOON | UNSAFE_REGEX | EXTERNAL_RECIPIENT_NOT_ACKNOWLEDGED
  | FIXTURE_POSITIVE_FAILED | FIXTURE_NEGATIVE_FAILED | DUPLICATE_RULE_ID
  | DUPLICATE_MATCH_DIVERGENT_ACTION | POSSIBLE_ANCHOR_OVERLAP

type_synonym compile_issue = "pystr option \<times> issue_code"

text \<open>
  What escapes the compiler instead of becoming an issue: the \<^verbatim>\<open>KeyError\<close> of an unknown profile,
  the \<^verbatim>\<open>OverflowError\<close> of a timestamp, what evaluating a fixture raises, and a fixture whose
  addresses are no list.
\<close>

datatype compile_raised =
    ProfileKeyError | TimestampRaised | FixtureMatchRaised dsl_error | FixtureAddresses
  | FingerprintFailed fingerprint_error

section \<open>Validity at compile time\<close>

definition DAYS_30 :: int where
  "DAYS_30 = 30 * 24 * 60 * 60 * 1000000"

definition timestamp_issue :: "issue_code \<Rightarrow> timestamp_error + 'a \<Rightarrow> compile_raised + (issue_code + 'a)" where
  "timestamp_issue code x =
     (case x of
        Inl TimestampInvalid \<Rightarrow> Inr (Inl code)
      | Inl TimestampOverflow \<Rightarrow> Inl TimestampRaised
      | Inr t \<Rightarrow> Inr (Inr t))"

definition window_issues :: "int option \<Rightarrow> int option \<Rightarrow> int \<Rightarrow> issue_code list \<times> issue_code list" where
  "window_issues from until now =
     ((case (from, until) of
         (Some f, Some u) \<Rightarrow> if u \<le> f then [VALIDITY_WINDOW_INVALID] else []
       | _ \<Rightarrow> [])
      @ (case until of Some u \<Rightarrow> if u \<le> now then [RULE_EXPIRED] else [] | None \<Rightarrow> []),
      case until of
        Some u \<Rightarrow> if now < u \<and> u - now \<le> DAYS_30 then [RULE_EXPIRES_SOON] else []
      | None \<Rightarrow> [])"

definition check_validity :: "router_env \<Rightarrow> int \<Rightarrow> rule_manifest
    \<Rightarrow> compile_raised + (issue_code list \<times> issue_code list)" where
  "check_validity env now r =
     and_then (timestamp_issue EXPIRES_AT_INVALID
        (parse_validity_timestamp env (expires_at (rm_validity r)))) (\<lambda>until.
       case until of
         Inl code \<Rightarrow> Inr ([code], [])
       | Inr until \<Rightarrow>
           and_then (timestamp_issue EFFECTIVE_FROM_INVALID
              (parse_validity_timestamp env (effective_from (rm_validity r)))) (\<lambda>from.
             case from of
               Inl code \<Rightarrow> Inr ([code], [])
             | Inr from \<Rightarrow> Inr (window_issues from until now)))"

section \<open>Fixtures\<close>

text \<open>Python's truth of a decoded value.\<close>

fun json_truthy :: "json \<Rightarrow> bool" where
  "json_truthy JNull = False"
| "json_truthy (JBool b) = b"
| "json_truthy (JInt i) = (i \<noteq> 0)"
| "json_truthy (JFloat q) = (q \<noteq> 0)"
| "json_truthy (JStr s) = (s \<noteq> [])"
| "json_truthy (JArr xs) = (xs \<noteq> [])"
| "json_truthy (JObj l) = (l \<noteq> [])"

definition py_str :: "compiler_env \<Rightarrow> json \<Rightarrow> pystr" where
  "py_str env j = (case j of JStr s \<Rightarrow> s | _ \<Rightarrow> str_of env j)"

definition get_or :: "json \<Rightarrow> string \<Rightarrow> (pystr \<times> json) list \<Rightarrow> json" where
  "get_or dflt k l = (case map_of l (lit k) of None \<Rightarrow> dflt | Some v \<Rightarrow> v)"

text \<open>\<^verbatim>\<open>list(value)\<close>, whose items must be text: of a text its characters, of a dict its keys.\<close>

definition list_of_text :: "json \<Rightarrow> pystr list option" where
  "list_of_text j =
     (case j of
        JArr xs \<Rightarrow> json_strs xs
      | JStr s \<Rightarrow> Some (map (\<lambda>c. [c]) s)
      | JObj l \<Rightarrow> Some (map fst l)
      | _ \<Rightarrow> None)"

definition fixture_addresses :: "json \<Rightarrow> pystr list option" where
  "fixture_addresses j =
     (case j of
        JObj l \<Rightarrow> list_of_text (get_or (JArr []) ''addresses'' l)
      | JArr xs \<Rightarrow> json_strs xs
      | _ \<Rightarrow> Some [])"

definition fixture_to_view :: "compiler_env \<Rightarrow> (pystr \<times> json) list \<Rightarrow> email_view option" where
  "fixture_to_view env raw =
     (let sender = (let v = get_or JNull ''sender'' raw in if json_truthy v then v else JObj []);
          body = (let v = get_or JNull ''body'' raw in if json_truthy v then v else JObj []);
          text_or = (\<lambda>v k dflt. case v of JObj l \<Rightarrow> get_or dflt k l | _ \<Rightarrow> dflt);
          sender_address = (case sender of JObj l \<Rightarrow> get_or (JStr []) ''address'' l
             | v \<Rightarrow> JStr (py_str env v));
          current = (case body of JObj l \<Rightarrow> get_or (JStr []) ''current_text'' l
             | v \<Rightarrow> JStr (py_str env v));
          full = text_or body ''full_text'' current
      in case (fixture_addresses (get_or JNull ''to'' raw), fixture_addresses (get_or JNull ''cc'' raw)) of
           (Some to, Some cc) \<Rightarrow>
             Some \<lparr>sender_address = Known (py_str env sender_address), to_addresses = Known to,
               cc_addresses = Known cc, v_subject = Known (py_str env (get_or (JStr []) ''subject'' raw)),
               body_current_text = Known (py_str env current),
               body_full_text = Known (py_str env full)\<rparr>
         | _ \<Rightarrow> None)"

definition fixture_status :: "compiler_env \<Rightarrow> pystr option \<Rightarrow> rule_manifest \<Rightarrow> fixture_case
    \<Rightarrow> compile_raised + rule_eval_status" where
  "fixture_status env me r c =
     and_then (some_or FixtureAddresses (fixture_to_view env (fc_email c))) (\<lambda>view.
       lift_error FixtureMatchRaised (evaluate_match (router env) me view (rm_match r)))"

definition run_fixtures :: "compiler_env \<Rightarrow> pystr option \<Rightarrow> rule_manifest
    \<Rightarrow> compile_raised + issue_code list" where
  "run_fixtures env me r =
     and_then (traverse (fixture_status env me r) (g_positive_cases (rm_governance r))) (\<lambda>pos.
     and_then (traverse (fixture_status env me r) (g_negative_cases (rm_governance r))) (\<lambda>neg.
       Inr (map (\<lambda>_. FIXTURE_POSITIVE_FAILED) (filter (\<lambda>s. s \<noteq> RULE_MATCHED) pos)
          @ map (\<lambda>_. FIXTURE_NEGATIVE_FAILED) (filter (\<lambda>s. s \<noteq> RULE_NOT_MATCHED) neg))))"

section \<open>The other checks of one rule\<close>

definition check_regex_safety :: "router_env \<Rightarrow> rule_manifest \<Rightarrow> issue_code list" where
  "check_regex_safety env r =
     map (\<lambda>_. UNSAFE_REGEX)
       (filter (\<lambda>c. cn_op c = Some OP_REGEX
           \<and> \<not> (case cn_value c of None \<Rightarrow> False | Some p \<Rightarrow> is_ok (compile_safe_regex env p)))
         (iter_condition_leaves (m_conditions (rm_match r))))"

text \<open>\<^verbatim>\<open>addr.rsplit("@", 1)[1]\<close>.\<close>

definition after_last_at :: "pystr \<Rightarrow> pystr" where
  "after_last_at a = rev (takeWhile (\<lambda>c. c \<noteq> 64) (rev a))"

definition internal_domains :: "router_env \<Rightarrow> pystr list \<Rightarrow> pystr list" where
  "internal_domains env ds = map (normalize_text env) (filter (\<lambda>d. strip d \<noteq> []) ds)"

definition external_addresses :: "router_env \<Rightarrow> pystr list \<Rightarrow> pystr list \<Rightarrow> pystr list" where
  "external_addresses env ds addrs =
     filter (\<lambda>a. 64 \<in> set a \<and> normalize_text env (after_last_at a) \<notin> set (internal_domains env ds)) addrs"

definition check_external_recipients ::
  "router_env \<Rightarrow> pystr list \<Rightarrow> rule_manifest \<Rightarrow> issue_code list" where
  "check_external_recipients env ds r =
     (case d_typed (rm_decision r) of
        ForwardParams recipients cc edit attachments \<Rightarrow>
          if d_route (rm_decision r) = ROUTE_FORWARD \<and> external_addresses env ds (recipients @ cc) \<noteq> []
             \<and> \<not> g_external_recipient_acknowledged (rm_governance r)
          then [EXTERNAL_RECIPIENT_NOT_ACKNOWLEDGED] else []
      | _ \<Rightarrow> [])"

text \<open>The checks of the loop, in its order; an unsafe pattern skips the fixtures.\<close>

definition check_rule :: "compiler_env \<Rightarrow> pystr option \<Rightarrow> pystr list \<Rightarrow> int \<Rightarrow> rule_manifest
    \<Rightarrow> compile_raised + (compile_issue list \<times> compile_issue list)" where
  "check_rule env me domains now r =
     and_then (check_validity (router env) now r) (\<lambda>(errors, warnings).
       let regex = check_regex_safety (router env) r;
           external = check_external_recipients (router env) domains r
       in and_then (if regex \<noteq> [] then Inr [] else run_fixtures env me r) (\<lambda>fixtures.
          Inr (map (Pair (Some (rule_id r))) (errors @ regex @ external @ fixtures),
               map (Pair (Some (rule_id r))) warnings)))"

fun check_rules :: "compiler_env \<Rightarrow> pystr option \<Rightarrow> pystr list \<Rightarrow> int \<Rightarrow> rule_manifest list
    \<Rightarrow> compile_raised + (compile_issue list \<times> compile_issue list)" where
  "check_rules env me domains now [] = Inr ([], [])"
| "check_rules env me domains now (r # rs) =
     and_then (check_rule env me domains now r) (\<lambda>(e, w).
     and_then (check_rules env me domains now rs) (\<lambda>(es, ws). Inr (e @ es, w @ ws)))"

fun check_duplicate_ids :: "pystr list \<Rightarrow> rule_manifest list \<Rightarrow> compile_issue list" where
  "check_duplicate_ids seen [] = []"
| "check_duplicate_ids seen (r # rs) =
     (if rule_id r \<in> set seen then (Some (rule_id r), DUPLICATE_RULE_ID) # check_duplicate_ids seen rs
      else check_duplicate_ids (rule_id r # seen) rs)"

section \<open>Rule files\<close>

text \<open>
  A rule file: YAML that does not parse, a value that is no mapping, or a mapping with its
  \<^verbatim>\<open>status\<close> and \<^verbatim>\<open>rule_id\<close> where they are text, the stem of its name, and the manifest its fields
  gave (\<open>None\<close> where pydantic refused their types).
\<close>

record mapping_file =
  mf_status :: "pystr option"
  mf_rule_id :: "pystr option"
  mf_stem :: pystr
  mf_manifest :: "rule_manifest option"

datatype rule_file = YamlError | NotAMapping | RuleMapping mapping_file

definition parse_one_file ::
  "router_env \<Rightarrow> rule_file \<Rightarrow> compile_raised + (rule_manifest option \<times> compile_issue list)" where
  "parse_one_file env f =
     (case f of
        YamlError \<Rightarrow> Inr (None, [(None, YAML_PARSE_ERROR)])
      | NotAMapping \<Rightarrow> Inr (None, [(None, YAML_NOT_A_MAPPING)])
      | RuleMapping m \<Rightarrow>
          let hint = (case mf_rule_id m of None \<Rightarrow> Some (mf_stem m) | Some i \<Rightarrow> Some i);
              code = (if mf_status m = Some (lit ''proposed'') \<or> mf_status m = Some (lit ''retired'')
                      then SCHEMA_INVALID_NON_ENABLED else SCHEMA_INVALID)
          in (case mf_manifest m of
                None \<Rightarrow> Inr (None, [(hint, code)])
              | Some raw \<Rightarrow>
                  (case validate_manifest env raw of
                     Inr r \<Rightarrow> Inr (Some r, [])
                   | Inl UnknownProfile \<Rightarrow> Inl ProfileKeyError
                   | Inl _ \<Rightarrow> Inr (None, [(hint, code)]))))"

text \<open>The manifests and issues of all files, in order; non-enabled schema failures only warn.\<close>

fun parse_files :: "router_env \<Rightarrow> rule_file list
    \<Rightarrow> compile_raised + (rule_manifest list \<times> compile_issue list \<times> compile_issue list)" where
  "parse_files env [] = Inr ([], [], [])"
| "parse_files env (f # fs) =
     and_then (parse_one_file env f) (\<lambda>(manifest, issues).
     and_then (parse_files env fs) (\<lambda>(rules, errors, warnings).
       Inr ((case manifest of
               Some r \<Rightarrow> if rm_status r = ENABLED then r # rules else rules
             | None \<Rightarrow> rules),
            filter (\<lambda>i. snd i \<noteq> SCHEMA_INVALID_NON_ENABLED) issues @ errors,
            filter (\<lambda>i. snd i = SCHEMA_INVALID_NON_ENABLED) issues @ warnings)))"

section \<open>Static overlap\<close>

type_synonym compiled_rule = "rule_manifest \<times> pystr"

definition literal_anchor_addresses :: "router_env \<Rightarrow> anchor_group \<Rightarrow> pystr list" where
  "literal_anchor_addresses env a =
     (case anchor_conditions a of
        None \<Rightarrow> []
      | Some cs \<Rightarrow> concat (map (\<lambda>c.
            (case ac_value c of None \<Rightarrow> [] | Some v \<Rightarrow> [normalize_text env v])
            @ (case ac_values c of None \<Rightarrow> [] | Some vs \<Rightarrow> map (normalize_text env) vs)) cs))"

definition signature_of :: "router_env \<Rightarrow> compiled_rule \<Rightarrow> pystr" where
  "signature_of env c = canonical_match_signature env (rm_match (fst c))"

fun distinct_firsts :: "'a list \<Rightarrow> 'a list \<Rightarrow> 'a list" where
  "distinct_firsts seen [] = []"
| "distinct_firsts seen (x # xs) =
     (if x \<in> set seen then distinct_firsts seen xs else x # distinct_firsts (x # seen) xs)"

text \<open>One error for each signature that rules with different actions share.\<close>

definition overlap_errors :: "router_env \<Rightarrow> compiled_rule list \<Rightarrow> compile_issue list" where
  "overlap_errors env cs =
     map (\<lambda>_. (None, DUPLICATE_MATCH_DIVERGENT_ACTION))
       (filter (\<lambda>sig. 2 \<le> length (remdups (map snd (filter (\<lambda>c. signature_of env c = sig) cs))))
         (distinct_firsts [] (map (signature_of env) cs)))"

text \<open>One warning for each pair of rules, in order of their ids, that share an anchor address.\<close>

fun overlap_pairs :: "router_env \<Rightarrow> compiled_rule list \<Rightarrow> (compiled_rule \<times> compiled_rule) list" where
  "overlap_pairs env [] = []"
| "overlap_pairs env (c # cs) =
     map (Pair c) (filter (\<lambda>d.
        set (literal_anchor_addresses env (m_anchor (rm_match (fst c))))
          \<inter> set (literal_anchor_addresses env (m_anchor (rm_match (fst d)))) \<noteq> {}
        \<and> snd c \<noteq> snd d) cs)
     @ overlap_pairs env cs"

definition overlap_warnings :: "router_env \<Rightarrow> compiled_rule list \<Rightarrow> compile_issue list" where
  "overlap_warnings env cs =
     map (\<lambda>_. (None, POSSIBLE_ANCHOR_OVERLAP))
       (overlap_pairs env (sort_key (\<lambda>c. rule_id (fst c)) cs))"

section \<open>The artifact\<close>

definition SCHEMA_VERSION :: int where
  "SCHEMA_VERSION = 1"

definition FINGERPRINT_VERSION :: int where
  "FINGERPRINT_VERSION = 2"

record compiled_artifact =
  art_schema_version :: int
  art_fingerprint_version :: int
  art_digest :: pystr
  art_rules :: "compiled_rule list"
  art_warnings :: "compile_issue list"

datatype compilation =
    Compiled compiled_artifact
  | CompilationFailure (cf_errors: "compile_issue list") (cf_warnings: "compile_issue list")

definition executable_json :: "int \<Rightarrow> int \<Rightarrow> json list \<Rightarrow> json" where
  "executable_json sv fv rules = JObj
     [(lit ''schema_version'', JInt sv), (lit ''fingerprint_version'', JInt fv),
      (lit ''rules'', JArr rules)]"

definition rule_json :: "compiler_env \<Rightarrow> compiled_rule \<Rightarrow> json" where
  "rule_json env c = JObj [(lit ''manifest'', dump env (fst c)),
     (lit ''action_fingerprint'', JStr (snd c))]"

definition executable_payload :: "compiler_env \<Rightarrow> compiled_artifact \<Rightarrow> json" where
  "executable_payload env a = executable_json (art_schema_version a) (art_fingerprint_version a)
     (map (rule_json env) (art_rules a))"

text \<open>\<^verbatim>\<open>hashlib.sha256(_canonical_json(payload).encode("utf-8")).hexdigest()\<close>.\<close>

definition payload_digest :: "router_env \<Rightarrow> json \<Rightarrow> pystr" where
  "payload_digest env j = r_sha256 env (utf8 (json_dumps (compact_format True (r_float_text env)) j))"

definition artifact_json :: "compiler_env \<Rightarrow> compiled_artifact \<Rightarrow> json" where
  "artifact_json env a = JObj
     [(lit ''schema_version'', JInt (art_schema_version a)),
      (lit ''fingerprint_version'', JInt (art_fingerprint_version a)),
      (lit ''rules'', JArr (map (rule_json env) (art_rules a))),
      (lit ''digest'', JStr (art_digest a))]"

definition compile_rule_fp :: "router_env \<Rightarrow> rule_manifest \<Rightarrow> compile_raised + compiled_rule" where
  "compile_rule_fp env r =
     and_then (lift_error FingerprintFailed (action_fingerprint env (rm_decision r))) (\<lambda>fp. Inr (r, fp))"

definition compile_registry :: "compiler_env \<Rightarrow> pystr option \<Rightarrow> pystr list \<Rightarrow> int \<Rightarrow> rule_file list
    \<Rightarrow> compile_raised + compilation" where
  "compile_registry env me domains now files =
     and_then (parse_files (router env) files) (\<lambda>(enabled, errors, warnings).
       if errors \<noteq> [] then Inr (CompilationFailure errors warnings)
       else and_then (check_rules env me domains now enabled) (\<lambda>(rule_errors, rule_warnings).
         let errors = check_duplicate_ids [] enabled @ rule_errors;
             warnings = warnings @ rule_warnings
         in if errors \<noteq> [] then Inr (CompilationFailure errors warnings)
            else and_then (traverse (compile_rule_fp (router env)) (sort_key rule_id enabled)) (\<lambda>compiled.
              let overlap = overlap_errors (router env) compiled;
                  warnings = warnings @ overlap_warnings (router env) compiled
              in if overlap \<noteq> [] then Inr (CompilationFailure overlap warnings)
                 else Inr (Compiled
                   \<lparr>art_schema_version = SCHEMA_VERSION, art_fingerprint_version = FINGERPRINT_VERSION,
                    art_digest = payload_digest (router env) (executable_json SCHEMA_VERSION
                      FINGERPRINT_VERSION (map (rule_json env) compiled)),
                    art_rules = compiled, art_warnings = warnings\<rparr>))))"

section \<open>Publishing and loading\<close>

text \<open>
  The directory: the value each file decodes to, \<open>Some None\<close> for a file that is no JSON. Both
  writes of \<^verbatim>\<open>write_artifact\<close> replace a file atomically.
\<close>

type_synonym artifact_dir = "pystr \<Rightarrow> json option option"

definition artifact_name :: "pystr \<Rightarrow> pystr" where
  "artifact_name digest = digest @ lit ''.json''"

definition POINTER_NAME :: pystr where
  "POINTER_NAME = lit ''current.json''"

definition pointer_json :: "pystr \<Rightarrow> json" where
  "pointer_json digest = JObj [(lit ''digest'', JStr digest), (lit ''path'', JStr (artifact_name digest))]"

definition write_payload :: "compiler_env \<Rightarrow> compiled_artifact \<Rightarrow> artifact_dir \<Rightarrow> artifact_dir" where
  "write_payload env a dir = dir(artifact_name (art_digest a) := Some (Some (artifact_json env a)))"

definition switch_pointer :: "compiled_artifact \<Rightarrow> artifact_dir \<Rightarrow> artifact_dir" where
  "switch_pointer a dir = dir(POINTER_NAME := Some (Some (pointer_json (art_digest a))))"

definition write_artifact :: "compiler_env \<Rightarrow> compiled_artifact \<Rightarrow> artifact_dir \<Rightarrow> artifact_dir" where
  "write_artifact env a dir = switch_pointer a (write_payload env a dir)"

datatype load_error =
    DigestInvalid | PointerInvalid | PointerMismatch | PayloadInvalid | DigestMismatch
  | VersionUnsupported | ManifestInvalid | LoadValidity issue_code | FingerprintMismatch
  | LoadRaised compile_raised

text \<open>\<^verbatim>\<open>set(raw) == {...}\<close> of a dict.\<close>

definition has_keys :: "string list \<Rightarrow> (pystr \<times> json) list \<Rightarrow> bool" where
  "has_keys ks l = (set (map fst l) = lit ` set ks)"

definition load_rule :: "compiler_env \<Rightarrow> int \<Rightarrow> json \<Rightarrow> load_error + compiled_rule" where
  "load_rule env now j =
     (case j of
        JObj l \<Rightarrow>
          if \<not> has_keys [''manifest'', ''action_fingerprint''] l then Inl PayloadInvalid
          else
            (case Option.bind (map_of l (lit ''manifest'')) (parse env) of
               None \<Rightarrow> Inl ManifestInvalid
             | Some raw \<Rightarrow>
                 (case validate_manifest (router env) raw of
                    Inl UnknownProfile \<Rightarrow> Inl (LoadRaised ProfileKeyError)
                  | Inl _ \<Rightarrow> Inl ManifestInvalid
                  | Inr r \<Rightarrow>
                      if rm_status r \<noteq> ENABLED then Inl ManifestInvalid
                      else and_then (lift_error LoadRaised (check_validity (router env) now r)) (\<lambda>(errors, _).
                        case errors of
                          code # _ \<Rightarrow> Inl (LoadValidity code)
                        | [] \<Rightarrow>
                            and_then (lift_error LoadRaised (compile_rule_fp (router env) r)) (\<lambda>c.
                              if map_of l (lit ''action_fingerprint'') = Some (JStr (snd c)) then Inr c
                              else Inl FingerprintMismatch))))
      | _ \<Rightarrow> Inl PayloadInvalid)"

text \<open>\<^verbatim>\<open>value == n\<close> in Python, where a truth value is a number.\<close>

definition equals_int :: "json \<Rightarrow> int \<Rightarrow> bool" where
  "equals_int j n =
     (case j of
        JInt i \<Rightarrow> i = n
      | JFloat q \<Rightarrow> q = of_int n
      | JBool b \<Rightarrow> of_bool b = n
      | _ \<Rightarrow> False)"

definition load_artifact :: "compiler_env \<Rightarrow> int \<Rightarrow> pystr \<Rightarrow> artifact_dir \<Rightarrow> load_error + compiled_artifact"
  where
  "load_artifact env now digest dir =
     and_then (ensure (length digest = 64) DigestInvalid) (\<lambda>_.
     and_then (some_or PointerInvalid (Option.bind (dir POINTER_NAME) (\<lambda>x. x))) (\<lambda>pointer.
     and_then (ensure (json_values_equal pointer (pointer_json digest)) PointerMismatch) (\<lambda>_.
     and_then (some_or PayloadInvalid (Option.bind (dir (artifact_name digest)) (\<lambda>x. x))) (\<lambda>raw.
       case raw of
         JObj l \<Rightarrow>
           and_then (ensure (has_keys [''schema_version'', ''fingerprint_version'', ''rules'', ''digest''] l)
              PayloadInvalid) (\<lambda>_.
           and_then (ensure (map_of l (lit ''digest'') = Some (JStr digest)) DigestMismatch) (\<lambda>_.
             let field = (\<lambda>k. the (map_of l (lit k)));
                 executable = JObj [(lit ''schema_version'', field ''schema_version''),
                   (lit ''fingerprint_version'', field ''fingerprint_version''),
                   (lit ''rules'', field ''rules'')]
             in and_then (ensure (payload_digest (router env) executable = digest) DigestMismatch) (\<lambda>_.
                and_then (ensure (equals_int (field ''schema_version'') SCHEMA_VERSION
                    \<and> equals_int (field ''fingerprint_version'') FINGERPRINT_VERSION)
                  VersionUnsupported) (\<lambda>_.
                  case field ''rules'' of
                    JArr items \<Rightarrow>
                      and_then (traverse (load_rule env now) items) (\<lambda>rules.
                        Inr \<lparr>art_schema_version = SCHEMA_VERSION,
                          art_fingerprint_version = FINGERPRINT_VERSION, art_digest = digest,
                          art_rules = rules, art_warnings = []\<rparr>)
                  | _ \<Rightarrow> Inl PayloadInvalid))))
       | _ \<Rightarrow> Inl PayloadInvalid))))"

end
