(* ===== verification/RouterDecision.thy ===== *)
theory RouterDecision
  imports RouterCompiler
begin

text \<open>
  \<^verbatim>\<open>src/router/decision.py\<close>: the decision every tier returns. A constructor checks the field
  constraints and runs the validators; \<open>read_decision\<close> is \<^verbatim>\<open>RouteDecision.model_validate\<close> of a JSON
  value and \<open>dump_decision\<close> its \<^verbatim>\<open>model_dump(mode="json")\<close>. The reading of a \<^verbatim>\<open>float\<close> field is
  pydantic's, a parameter.
\<close>

section \<open>Vocabulary\<close>

datatype decision_outcome = DEC_MATCHED | DEC_ABSTAIN | DEC_CONFLICT | DEC_ERROR

fun decision_outcome_value :: "decision_outcome \<Rightarrow> pystr" where
  "decision_outcome_value DEC_MATCHED = lit ''matched''"
| "decision_outcome_value DEC_ABSTAIN = lit ''abstain''"
| "decision_outcome_value DEC_CONFLICT = lit ''conflict''"
| "decision_outcome_value DEC_ERROR = lit ''error''"

datatype route_tier = TIER1 | TIER2 | TIER3 | TIER_SYSTEM

fun route_tier_value :: "route_tier \<Rightarrow> pystr" where
  "route_tier_value TIER1 = lit ''tier1''"
| "route_tier_value TIER2 = lit ''tier2''"
| "route_tier_value TIER3 = lit ''tier3''"
| "route_tier_value TIER_SYSTEM = lit ''system''"

text \<open>A string enumeration read from JSON: the member with that value.\<close>

definition enum_of :: "('a \<Rightarrow> pystr) \<Rightarrow> 'a list \<Rightarrow> json \<Rightarrow> 'a option" where
  "enum_of val members j = (case j of JStr s \<Rightarrow> List.find (\<lambda>m. val m = s) members | _ \<Rightarrow> None)"

definition decision_outcome_of :: "json \<Rightarrow> decision_outcome option" where
  "decision_outcome_of = enum_of decision_outcome_value [DEC_MATCHED, DEC_ABSTAIN, DEC_CONFLICT, DEC_ERROR]"

definition route_tier_of :: "json \<Rightarrow> route_tier option" where
  "route_tier_of = enum_of route_tier_value [TIER1, TIER2, TIER3, TIER_SYSTEM]"

definition canonical_route_of :: "json \<Rightarrow> canonical_route option" where
  "canonical_route_of = enum_of canonical_route_value
     [ROUTE_REPLY, ROUTE_FORWARD, ROUTE_READ_ONLY, ROUTE_NO_ACTION, ROUTE_MANUAL_REVIEW]"

lemma decision_outcome_round_trip [simp]:
  "decision_outcome_of (JStr (decision_outcome_value x)) = Some x"
  by (cases x) (simp_all add: decision_outcome_of_def enum_of_def)

lemma route_tier_round_trip [simp]: "route_tier_of (JStr (route_tier_value x)) = Some x"
  by (cases x) (simp_all add: route_tier_of_def enum_of_def)

lemma canonical_route_round_trip [simp]:
  "canonical_route_of (JStr (canonical_route_value x)) = Some x"
  by (cases x) (simp_all add: canonical_route_of_def enum_of_def)

section \<open>Provenance\<close>

datatype route_error =
    FieldsInvalid
  | SourceVersionInvalid | ArtifactDigestPattern | TooManyRuleIds | TooManyEvidenceIds
  | ConfidenceRange | Tier1RequiresArtifact | OnlyTier1HasArtifact
  | ReasonTooLong | SelectedPattern | HandoffProfilePattern | TooManyCandidates
  | AbstainNotFinal | RouteRequired | RouteParams schema_error
  | RequiresManualReview | RequiresReason | ProfileOnNonWriting

record route_provenance =
  rp_tier :: route_tier
  rp_source_version :: pystr
  rp_artifact_digest :: "pystr option"
  rp_rule_ids :: "pystr list"
  rp_evidence_ids :: "pystr list"
  rp_confidence :: "rat option"

text \<open>A \<^verbatim>\<open>str\<close> field with a length bound; pydantic refuses surrogates in it.\<close>

definition bounded_text :: "nat \<Rightarrow> nat \<Rightarrow> pystr \<Rightarrow> bool" where
  "bounded_text lo hi s = (utf8_ok s \<and> lo \<le> length s \<and> length s \<le> hi)"

definition RouteProvenance :: "route_provenance \<Rightarrow> route_error + route_provenance" where
  "RouteProvenance p =
     and_then (ensure (bounded_text 1 128 (rp_source_version p)) SourceVersionInvalid) (\<lambda>_.
     and_then (ensure (case rp_artifact_digest p of None \<Rightarrow> True | Some d \<Rightarrow> is_sha256_hex d)
        ArtifactDigestPattern) (\<lambda>_.
     and_then (ensure (length (rp_rule_ids p) \<le> 32) TooManyRuleIds) (\<lambda>_.
     and_then (ensure (length (rp_evidence_ids p) \<le> 16) TooManyEvidenceIds) (\<lambda>_.
     and_then (ensure (case rp_confidence p of None \<Rightarrow> True | Some c \<Rightarrow> 0 \<le> c \<and> c \<le> 1)
        ConfidenceRange) (\<lambda>_.
     and_then (ensure (\<not> (rp_tier p = TIER1 \<and> rp_artifact_digest p = None)) Tier1RequiresArtifact) (\<lambda>_.
     and_then (ensure (\<not> (rp_tier p \<noteq> TIER1 \<and> rp_artifact_digest p \<noteq> None)) OnlyTier1HasArtifact) (\<lambda>_.
       Inr p)))))))"

section \<open>The decision\<close>

record route_decision =
  rd_outcome :: decision_outcome
  rd_route :: "canonical_route option"
  rd_params :: "(pystr \<times> json) list"
  rd_provenance :: route_provenance
  rd_reason_code :: "pystr option"
  rd_selected :: "pystr option"
  rd_handoff_profile_id :: "pystr option"
  rd_candidate_actions :: "(pystr \<times> json) list list"

text \<open>The pattern \<^verbatim>\<open>^sha256:(?:v2:)?[0-9a-f]{64}$\<close>.\<close>

definition is_fingerprint_text :: "pystr \<Rightarrow> bool" where
  "is_fingerprint_text s =
     (py_startswith s (lit ''sha256:'')
      \<and> (let rest = drop 7 s
         in is_sha256_hex rest \<or> py_startswith rest (lit ''v2:'') \<and> is_sha256_hex (drop 3 rest)))"

definition is_writing :: "canonical_route \<Rightarrow> bool" where
  "is_writing r = (r = ROUTE_REPLY \<or> r = ROUTE_FORWARD)"

definition validate_route_and_params :: "router_env \<Rightarrow> route_decision \<Rightarrow> route_error + unit" where
  "validate_route_and_params env d =
     and_then (ensure (rd_outcome d \<noteq> DEC_ABSTAIN) AbstainNotFinal) (\<lambda>_.
     and_then (some_or RouteRequired (rd_route d)) (\<lambda>route.
     and_then (lift_error RouteParams (Decision env route None None (rd_params d))) (\<lambda>_.
     and_then
       (if rd_outcome d = DEC_CONFLICT \<or> rd_outcome d = DEC_ERROR
        then and_then (ensure (route = ROUTE_MANUAL_REVIEW) RequiresManualReview) (\<lambda>_.
             ensure (truthy (rd_reason_code d) \<noteq> None) RequiresReason)
        else Inr ()) (\<lambda>_.
       ensure (is_writing route \<or> rd_handoff_profile_id d = None) ProfileOnNonWriting))))"

text \<open>The constructor, given a provenance that was constructed.\<close>

definition RouteDecision :: "router_env \<Rightarrow> route_decision \<Rightarrow> route_error + route_decision" where
  "RouteDecision env d =
     and_then (ensure (case rd_reason_code d of None \<Rightarrow> True | Some r \<Rightarrow> bounded_text 0 128 r)
        ReasonTooLong) (\<lambda>_.
     and_then (ensure (case rd_selected d of None \<Rightarrow> True | Some f \<Rightarrow> is_fingerprint_text f)
        SelectedPattern) (\<lambda>_.
     and_then (ensure (case rd_handoff_profile_id d of None \<Rightarrow> True | Some p \<Rightarrow> is_profile_id p)
        HandoffProfilePattern) (\<lambda>_.
     and_then (ensure (length (rd_candidate_actions d) \<le> 16) TooManyCandidates) (\<lambda>_.
     and_then (validate_route_and_params env d) (\<lambda>_.
       Inr d)))))"

definition final_decision :: "router_env \<Rightarrow> route_decision \<Rightarrow> bool" where
  "final_decision env d =
     (RouteProvenance (rd_provenance d) = Inr (rd_provenance d) \<and> RouteDecision env d = Inr d)"

section \<open>JSON\<close>

definition json_opt :: "('a \<Rightarrow> json) \<Rightarrow> 'a option \<Rightarrow> json" where
  "json_opt f x = (case x of None \<Rightarrow> JNull | Some y \<Rightarrow> f y)"

definition json_texts :: "pystr list \<Rightarrow> json" where
  "json_texts xs = JArr (map JStr xs)"

definition dump_provenance :: "route_provenance \<Rightarrow> json" where
  "dump_provenance p = JObj
     [(lit ''tier'', JStr (route_tier_value (rp_tier p))),
      (lit ''source_version'', JStr (rp_source_version p)),
      (lit ''artifact_digest'', json_opt JStr (rp_artifact_digest p)),
      (lit ''rule_ids'', json_texts (rp_rule_ids p)),
      (lit ''evidence_ids'', json_texts (rp_evidence_ids p)),
      (lit ''confidence'', json_opt JFloat (rp_confidence p))]"

definition dump_decision :: "route_decision \<Rightarrow> json" where
  "dump_decision d = JObj
     [(lit ''outcome'', JStr (decision_outcome_value (rd_outcome d))),
      (lit ''route'', json_opt (JStr \<circ> canonical_route_value) (rd_route d)),
      (lit ''params'', JObj (rd_params d)),
      (lit ''provenance'', dump_provenance (rd_provenance d)),
      (lit ''reason_code'', json_opt JStr (rd_reason_code d)),
      (lit ''selected_action_fingerprint'', json_opt JStr (rd_selected d)),
      (lit ''handoff_profile_id'', json_opt JStr (rd_handoff_profile_id d)),
      (lit ''candidate_actions'', JArr (map JObj (rd_candidate_actions d)))]"

definition canonical_digest :: "router_env \<Rightarrow> route_decision \<Rightarrow> pystr" where
  "canonical_digest env d = payload_digest env (dump_decision d)"

text \<open>Readers of field types; a required field is \<open>need\<close>.\<close>

definition opt_of :: "(json \<Rightarrow> 'a option) \<Rightarrow> json \<Rightarrow> 'a option option" where
  "opt_of read j = (if j = JNull then Some None else map_option Some (read j))"

definition json_obj :: "json \<Rightarrow> (pystr \<times> json) list option" where
  "json_obj j = (case j of JObj l \<Rightarrow> Some l | _ \<Rightarrow> None)"

definition json_obj_list :: "json \<Rightarrow> (pystr \<times> json) list list option" where
  "json_obj_list j = (case j of JArr xs \<Rightarrow> those (map json_obj xs) | _ \<Rightarrow> None)"

definition need :: "(json \<Rightarrow> 'a option) \<Rightarrow> string \<Rightarrow> (pystr \<times> json) list \<Rightarrow> 'a option" where
  "need read k l = Option.bind (map_of l (lit k)) read"

definition read_provenance :: "(json \<Rightarrow> rat option) \<Rightarrow> json \<Rightarrow> route_error + route_provenance" where
  "read_provenance lax_float j =
     and_then (some_or FieldsInvalid (json_obj j)) (\<lambda>l.
     and_then (ensure (only_keys [''tier'', ''source_version'', ''artifact_digest'', ''rule_ids'',
        ''evidence_ids'', ''confidence''] l) FieldsInvalid) (\<lambda>_.
     and_then (some_or FieldsInvalid (need route_tier_of ''tier'' l)) (\<lambda>tier.
     and_then (some_or FieldsInvalid (need json_str ''source_version'' l)) (\<lambda>source.
     and_then (some_or FieldsInvalid (field_or None (opt_of json_str) ''artifact_digest'' l)) (\<lambda>digest.
     and_then (some_or FieldsInvalid (field_or [] json_str_list ''rule_ids'' l)) (\<lambda>rules.
     and_then (some_or FieldsInvalid (field_or [] json_str_list ''evidence_ids'' l)) (\<lambda>evidence.
     and_then (some_or FieldsInvalid (field_or None (opt_of lax_float) ''confidence'' l)) (\<lambda>confidence.
       RouteProvenance \<lparr>rp_tier = tier, rp_source_version = source, rp_artifact_digest = digest,
         rp_rule_ids = rules, rp_evidence_ids = evidence, rp_confidence = confidence\<rparr>))))))))"

definition read_decision ::
  "router_env \<Rightarrow> (json \<Rightarrow> rat option) \<Rightarrow> json \<Rightarrow> route_error + route_decision" where
  "read_decision env lax_float j =
     and_then (some_or FieldsInvalid (json_obj j)) (\<lambda>l.
     and_then (ensure (only_keys [''outcome'', ''route'', ''params'', ''provenance'', ''reason_code'',
        ''selected_action_fingerprint'', ''handoff_profile_id'', ''candidate_actions''] l)
        FieldsInvalid) (\<lambda>_.
     and_then (some_or FieldsInvalid (need decision_outcome_of ''outcome'' l)) (\<lambda>outcome.
     and_then (some_or FieldsInvalid (need (opt_of canonical_route_of) ''route'' l)) (\<lambda>route.
     and_then (some_or FieldsInvalid (field_or [] json_obj ''params'' l)) (\<lambda>params.
     and_then (some_or FieldsInvalid (map_of l (lit ''provenance''))) (\<lambda>p.
     and_then (read_provenance lax_float p) (\<lambda>provenance.
     and_then (some_or FieldsInvalid (field_or None (opt_of json_str) ''reason_code'' l)) (\<lambda>reason.
     and_then (some_or FieldsInvalid
        (field_or None (opt_of json_str) ''selected_action_fingerprint'' l)) (\<lambda>selected.
     and_then (some_or FieldsInvalid (field_or None (opt_of json_str) ''handoff_profile_id'' l)) (\<lambda>profile.
     and_then (some_or FieldsInvalid (field_or [] json_obj_list ''candidate_actions'' l)) (\<lambda>candidates.
       RouteDecision env \<lparr>rd_outcome = outcome, rd_route = route, rd_params = params,
         rd_provenance = provenance, rd_reason_code = reason, rd_selected = selected,
         rd_handoff_profile_id = profile, rd_candidate_actions = candidates\<rparr>)))))))))))"

section \<open>What a decision guarantees\<close>

lemma json_opt_round_trip [simp]:
  "opt_of json_str (json_opt JStr x) = Some x"
  "opt_of canonical_route_of (json_opt (JStr \<circ> canonical_route_value) r) = Some r"
  by (cases x; simp add: opt_of_def json_opt_def json_str_def)
    (cases r; simp add: opt_of_def json_opt_def)

lemma opt_of_float [simp]:
  "(\<And>q. lax_float (JFloat q) = Some q) \<Longrightarrow> opt_of lax_float (json_opt JFloat x) = Some x"
  by (cases x) (simp_all add: opt_of_def json_opt_def)

lemma json_strs_map [simp]: "json_strs (map JStr xs) = Some xs"
  by (induction xs) simp_all

lemma json_lists_round_trip [simp]:
  "json_str_list (json_texts xs) = Some xs"
  "json_obj_list (JArr (map JObj ls)) = Some ls"
proof -
  show "json_str_list (json_texts xs) = Some xs" by (simp add: json_texts_def json_str_list_def)
  have "those (map json_obj (map JObj ls)) = Some ls"
    by (induction ls) (simp_all add: json_obj_def)
  then show "json_obj_list (JArr (map JObj ls)) = Some ls" by (simp add: json_obj_list_def)
qed

lemma RouteProvenance_same: "RouteProvenance p = Inr q \<Longrightarrow> q = p"
  by (auto simp: RouteProvenance_def and_then_Inr)

lemma RouteDecision_same: "RouteDecision env d = Inr e \<Longrightarrow> e = d"
  by (auto simp: RouteDecision_def and_then_Inr)

lemma read_dump_provenance:
  assumes "\<And>q. lax_float (JFloat q) = Some q"
  shows "read_provenance lax_float (dump_provenance p) = RouteProvenance p"
  by (cases p) (simp add: read_provenance_def dump_provenance_def json_obj_def only_keys_def need_def
      field_or_def json_str_def assms)

lemma read_decision_final:
  assumes "read_decision env lax_float j = Inr d"
  shows "final_decision env d"
proof -
  from assms obtain p prov outcome route params reason selected profile candidates where
    p: "read_provenance lax_float p = Inr prov" and
    d: "RouteDecision env \<lparr>rd_outcome = outcome, rd_route = route, rd_params = params,
         rd_provenance = prov, rd_reason_code = reason, rd_selected = selected,
         rd_handoff_profile_id = profile, rd_candidate_actions = candidates\<rparr> = Inr d"
    unfolding read_decision_def by (elim and_thenE) metis
  from p obtain p' where "RouteProvenance p' = Inr prov"
    unfolding read_provenance_def by (elim and_thenE) metis
  then have "RouteProvenance prov = Inr prov" using RouteProvenance_same by blast
  with d RouteDecision_same [OF d] show ?thesis by (auto simp: final_decision_def)
qed

lemma final_decision_route:
  assumes "final_decision env d"
  obtains route where "rd_route d = Some route" "rd_outcome d \<noteq> DEC_ABSTAIN"
    "\<exists>typed. params_for_route env route (rd_params d) = Some typed"
    "rd_outcome d = DEC_CONFLICT \<or> rd_outcome d = DEC_ERROR \<Longrightarrow> route = ROUTE_MANUAL_REVIEW"
    "\<not> is_writing route \<Longrightarrow> rd_handoff_profile_id d = None"
proof -
  from assms have v: "validate_route_and_params env d = Inr ()"
    by (auto simp: final_decision_def RouteDecision_def and_then_Inr)
  then obtain route where r: "rd_route d = Some route" "rd_outcome d \<noteq> DEC_ABSTAIN"
    "is_ok (Decision env route None None (rd_params d))"
    "rd_outcome d = DEC_CONFLICT \<or> rd_outcome d = DEC_ERROR \<longrightarrow> route = ROUTE_MANUAL_REVIEW"
    "is_writing route \<or> rd_handoff_profile_id d = None"
    unfolding validate_route_and_params_def
    by (auto simp: and_then_Inr lift_error_def split: sum.splits if_splits)
  show ?thesis
    using r by (intro that [of route]) (auto simp: Decision_Inr elim!: is_okE)
qed

lemma read_dump_decision:
  assumes "final_decision env d" "\<And>q. lax_float (JFloat q) = Some q"
  shows "read_decision env lax_float (dump_decision d) = Inr d"
proof -
  have p: "read_provenance lax_float (dump_provenance (rd_provenance d)) = Inr (rd_provenance d)"
    using assms(1) by (simp add: read_dump_provenance assms(2) final_decision_def)
  show ?thesis
    using assms(1) p
    by (cases d) (simp add: read_decision_def dump_decision_def json_obj_def only_keys_def need_def
        field_or_def final_decision_def)
qed

text \<open>
  Storing a decision and reading it back changes nothing: \<^verbatim>\<open>model_validate\<close> of the JSON dump of
  a decision that was constructed is that decision, with its outcome, route, parameters,
  provenance, fingerprint, profile and candidates. The decision taken by a tier is dumped into
  the graph state and validated again before it is used.
\<close>

theorem decision_dump_roundtrip:
  assumes "final_decision env d" "\<And>q. lax_float (JFloat q) = Some q"
  shows "read_decision env lax_float (dump_decision d) = Inr d"
  using assms by (rule read_dump_decision)

end
