(* ===== verification/RouterHistory.thy ===== *)
theory RouterHistory
  imports RouterDecision "HOL-Library.AList" "HOL-Library.Product_Lexorder"
begin

text \<open>
  \<^verbatim>\<open>src/handoff/history.py\<close>, the second tier: historical emails vote with the decision they were
  given. A hit is the dict the retriever returned. A Python dict is an association list in
  insertion order; \<^verbatim>\<open>d[k] = v\<close> is \<open>AList.update\<close>. The quotient of two counts, a \<^verbatim>\<open>float\<close> in the
  code, is exact here: rounding to the nearest double crosses no threshold of few digits at the
  sizes of these lists.
\<close>

section \<open>One hit\<close>

type_synonym hit = "(pystr \<times> json) list"
type_synonym action_key = "int \<times> pystr"

datatype history_error =
    EvidenceEncoding | ActionRefused schema_error | ActionFingerprint fingerprint_error
  | ConsensusRefused route_error

text \<open>\<^verbatim>\<open>hit.get(a) or hit.get(b)\<close>.\<close>

definition get_or_get :: "string \<Rightarrow> string \<Rightarrow> hit \<Rightarrow> json" where
  "get_or_get a b h = (let v = get_or JNull a h in if json_truthy v then v else get_or JNull b h)"

text \<open>The identity of a hit, if it has a usable one; encoding a surrogate raises.\<close>

definition evidence_id :: "hit \<Rightarrow> history_error + pystr option" where
  "evidence_id h =
     (case get_or_get ''id'' ''email_id'' h of
        JStr s \<Rightarrow>
          if strip s = [] then Inr None
          else (case utf8_encode s of
                  None \<Rightarrow> Inl EvidenceEncoding
                | Some b \<Rightarrow> Inr (if 512 < length b then None else Some s))
      | _ \<Rightarrow> Inr None)"

definition raw_label :: "hit \<Rightarrow> json" where
  "raw_label h =
     (let raw = get_or JNull ''route_decision'' h
      in if raw \<noteq> JNull then raw
         else (case get_or JNull ''payload'' h of
                 JObj p \<Rightarrow> get_or JNull ''route_decision'' p
               | _ \<Rightarrow> JNull))"

text \<open>A label counts when it is a valid decision that matched.\<close>

definition historical_label ::
  "router_env \<Rightarrow> (json \<Rightarrow> rat option) \<Rightarrow> hit \<Rightarrow> route_decision option" where
  "historical_label env lax_float h =
     (case read_decision env lax_float (raw_label h) of
        Inl _ \<Rightarrow> None
      | Inr d \<Rightarrow> if rd_outcome d \<noteq> DEC_MATCHED \<or> rd_route d = None then None else Some d)"

definition action_key :: "router_env \<Rightarrow> route_decision \<Rightarrow> history_error + action_key" where
  "action_key env d =
     (let profile = rd_handoff_profile_id d;
          version = (if truthy profile \<noteq> None then 2 else 1)
      in and_then (lift_error ActionRefused
            (Decision env (the (rd_route d)) None profile (rd_params d))) (\<lambda>action.
         and_then (lift_error ActionFingerprint
            (compute_action_fingerprint env action profile (Some version))) (\<lambda>fp.
           Inr (version, fp))))"

section \<open>The votes\<close>

record tally =
  t_votes :: "(pystr \<times> (action_key \<times> route_decision) list) list"
  t_order :: "pystr list"
  t_unidentified :: nat

definition no_votes :: tally where
  "no_votes = \<lparr>t_votes = [], t_order = [], t_unidentified = 0\<rparr>"

definition votes_of :: "tally \<Rightarrow> pystr \<Rightarrow> (action_key \<times> route_decision) list" where
  "votes_of t i = (case map_of (t_votes t) i of None \<Rightarrow> [] | Some v \<Rightarrow> v)"

definition see_evidence :: "pystr \<Rightarrow> tally \<Rightarrow> tally" where
  "see_evidence i t = (if i \<in> set (t_order t) then t else t\<lparr>t_order := t_order t @ [i]\<rparr>)"

definition cast_vote :: "pystr \<Rightarrow> action_key \<Rightarrow> route_decision \<Rightarrow> tally \<Rightarrow> tally" where
  "cast_vote i k d t = t\<lparr>t_votes := AList.update i (AList.update k d (votes_of t i)) (t_votes t)\<rparr>"

definition record_hit ::
  "router_env \<Rightarrow> (json \<Rightarrow> rat option) \<Rightarrow> tally \<Rightarrow> hit \<Rightarrow> history_error + tally" where
  "record_hit env lax_float t h =
     and_then (evidence_id h) (\<lambda>i.
       case i of
         None \<Rightarrow> Inr (t\<lparr>t_unidentified := t_unidentified t + 1\<rparr>)
       | Some i \<Rightarrow>
           (case historical_label env lax_float h of
              None \<Rightarrow> Inr (see_evidence i t)
            | Some d \<Rightarrow> and_then (action_key env d) (\<lambda>k. Inr (cast_vote i k d (see_evidence i t)))))"

fun tally_hits ::
  "router_env \<Rightarrow> (json \<Rightarrow> rat option) \<Rightarrow> tally \<Rightarrow> hit list \<Rightarrow> history_error + tally" where
  "tally_hits env lax_float t [] = Inr t"
| "tally_hits env lax_float t (h # hs) =
     and_then (record_hit env lax_float t h) (\<lambda>t. tally_hits env lax_float t hs)"

section \<open>The verdict\<close>

definition SOURCE_VERSION :: pystr where
  "SOURCE_VERSION = lit ''historical-route-consensus-v1''"

definition tier2_provenance :: "pystr list \<Rightarrow> rat option \<Rightarrow> route_provenance" where
  "tier2_provenance evidence confidence =
     \<lparr>rp_tier = TIER2, rp_source_version = SOURCE_VERSION, rp_artifact_digest = None,
      rp_rule_ids = [], rp_evidence_ids = take 16 evidence, rp_confidence = confidence\<rparr>"

definition construct :: "router_env \<Rightarrow> route_decision \<Rightarrow> route_error + route_decision" where
  "construct env d = and_then (RouteProvenance (rd_provenance d)) (\<lambda>_. RouteDecision env d)"

definition vote_candidate :: "pystr \<Rightarrow> pystr list \<Rightarrow> (pystr \<times> json) list" where
  "vote_candidate fp evidence =
     [(lit ''fingerprint'', JStr fp), (lit ''evidence_ids'', json_texts evidence)]"

definition conflict_decision ::
  "pystr list \<Rightarrow> (pystr \<times> json) list list \<Rightarrow> route_decision" where
  "conflict_decision evidence candidates =
     \<lparr>rd_outcome = DEC_CONFLICT, rd_route = Some ROUTE_MANUAL_REVIEW,
      rd_params = [(lit ''reason_code'', JStr (lit ''tier2_conflict''))],
      rd_provenance = tier2_provenance evidence None, rd_reason_code = Some (lit ''tier2_conflict''),
      rd_selected = None, rd_handoff_profile_id = None, rd_candidate_actions = take 16 candidates\<rparr>"

definition corrupt_evidence :: "tally \<Rightarrow> pystr list" where
  "corrupt_evidence t = filter (\<lambda>i. 1 < length (votes_of t i)) (t_order t)"

definition corrupt_candidates :: "tally \<Rightarrow> (pystr \<times> json) list list" where
  "corrupt_candidates t = concat (map (\<lambda>i.
     map (\<lambda>(_, fp). vote_candidate fp [i]) (sort (map fst (votes_of t i)))) (corrupt_evidence t))"

text \<open>\<^verbatim>\<open>groups[key].append(row)\<close> on a \<^verbatim>\<open>defaultdict(list)\<close>.\<close>

definition multi_add :: "'k \<Rightarrow> 'v \<Rightarrow> ('k \<times> 'v list) list \<Rightarrow> ('k \<times> 'v list) list" where
  "multi_add k v g = AList.update k ((case map_of g k of None \<Rightarrow> [] | Some vs \<Rightarrow> vs) @ [v]) g"

definition group_pairs :: "('k \<times> 'v) list \<Rightarrow> ('k \<times> 'v list) list" where
  "group_pairs xs = fold (\<lambda>(k, v). multi_add k v) xs []"

text \<open>An email whose label is unambiguous is one vote.\<close>

definition single_votes :: "tally \<Rightarrow> (action_key \<times> (pystr \<times> route_decision)) list" where
  "single_votes t = List.map_filter
     (\<lambda>i. case votes_of t i of [(k, d)] \<Rightarrow> Some (k, (i, d)) | _ \<Rightarrow> None) (t_order t)"

definition denominator :: "tally \<Rightarrow> nat" where
  "denominator t = max 1 (length (t_order t) + t_unidentified t)"

definition is_eligible :: "nat \<Rightarrow> rat \<Rightarrow> nat \<Rightarrow> nat \<Rightarrow> bool" where
  "is_eligible min_hits min_ratio all_hits n =
     (min_hits \<le> n \<and> min_ratio \<le> rat_of_nat n / rat_of_nat all_hits)"

definition eligible_groups ::
  "nat \<Rightarrow> rat \<Rightarrow> tally \<Rightarrow> (action_key \<times> (pystr \<times> route_decision) list) list" where
  "eligible_groups min_hits min_ratio t =
     filter (\<lambda>(_, rows). is_eligible min_hits min_ratio (denominator t) (length rows))
       (group_pairs (single_votes t))"

definition consensus_decision :: "tally \<Rightarrow> action_key \<Rightarrow> (pystr \<times> route_decision) list \<Rightarrow> route_decision" where
  "consensus_decision t k rows =
     (let historical = snd (hd rows)
      in \<lparr>rd_outcome = DEC_MATCHED, rd_route = rd_route historical, rd_params = rd_params historical,
          rd_provenance = tier2_provenance (map fst rows)
            (Some (rat_of_nat (length rows) / rat_of_nat (denominator t))),
          rd_reason_code = Some (lit ''historical_consensus''), rd_selected = Some (snd k),
          rd_handoff_profile_id = rd_handoff_profile_id historical, rd_candidate_actions = []\<rparr>)"

definition tally_verdict :: "nat \<Rightarrow> rat \<Rightarrow> tally \<Rightarrow> route_decision option" where
  "tally_verdict min_hits min_ratio t =
     (if corrupt_evidence t \<noteq> [] then
        Some (conflict_decision (corrupt_evidence t) (corrupt_candidates t))
      else
        (case eligible_groups min_hits min_ratio t of
           [] \<Rightarrow> None
         | [(k, rows)] \<Rightarrow> Some (consensus_decision t k rows)
         | gs \<Rightarrow> Some (conflict_decision (distinct_firsts [] (concat (map (map fst \<circ> snd) gs)))
              (map (\<lambda>((_, fp), rows). vote_candidate fp (map fst (take 16 rows))) gs))))"

definition decide_history :: "router_env \<Rightarrow> (json \<Rightarrow> rat option) \<Rightarrow> nat \<Rightarrow> rat \<Rightarrow> hit list
    \<Rightarrow> history_error + route_decision option" where
  "decide_history env lax_float min_hits min_ratio hits =
     and_then (tally_hits env lax_float no_votes hits) (\<lambda>t.
       case tally_verdict min_hits min_ratio t of
         None \<Rightarrow> Inr None
       | Some d \<Rightarrow> and_then (lift_error ConsensusRefused (construct env d)) (\<lambda>d. Inr (Some d)))"

end
