(* ===== verification/ModelBudget.thy ===== *)
theory ModelBudget
  imports PyJson
begin

text \<open>
  \<^verbatim>\<open>src/safety/model_budget.py\<close>: the input budget every model call is checked against. A setting
  is the JSON value the settings object holds, if it has the attribute.
\<close>

record token_budget =
  max_input_tokens :: int
  max_output_tokens :: int
  max_total_tokens :: int

datatype budget_error = BudgetEncoding | ModelInputTooLarge pystr

definition conservative_token_upper_bound :: "pystr \<Rightarrow> int option" where
  "conservative_token_upper_bound s = map_option (int \<circ> length) (utf8_encode s)"

definition enforce_model_input_budget :: "pystr \<Rightarrow> pystr \<Rightarrow> token_budget \<Rightarrow> budget_error + unit" where
  "enforce_model_input_budget role s budget =
     and_then (some_or BudgetEncoding (conservative_token_upper_bound s)) (\<lambda>actual.
       ensure (\<not> (max_input_tokens budget < actual
           \<or> max_total_tokens budget < actual + max_output_tokens budget)) (ModelInputTooLarge role))"

text \<open>A truth value is no integer here, as the code excludes it.\<close>

definition positive_integer_setting :: "(pystr \<Rightarrow> json option) \<Rightarrow> string \<Rightarrow> int \<Rightarrow> int" where
  "positive_integer_setting settings name dflt =
     (case settings (lit name) of Some (JInt i) \<Rightarrow> if 0 < i then i else dflt | _ \<Rightarrow> dflt)"

definition token_budget_from_settings :: "(pystr \<Rightarrow> json option) \<Rightarrow> token_budget" where
  "token_budget_from_settings settings =
     \<lparr>max_input_tokens = positive_integer_setting settings ''LLM_MAX_INPUT_TOKENS'' 122880,
      max_output_tokens = positive_integer_setting settings ''LLM_MAX_OUTPUT_TOKENS'' 8192,
      max_total_tokens = positive_integer_setting settings ''LLM_MAX_TOTAL_TOKENS'' 131072\<rparr>"

lemma enforce_budget_ok:
  "is_ok (enforce_model_input_budget role s b) \<longleftrightarrow>
     utf8_ok s \<and> int (length (utf8 s)) \<le> max_input_tokens b
     \<and> int (length (utf8 s)) + max_output_tokens b \<le> max_total_tokens b"
  by (auto simp: enforce_model_input_budget_def conservative_token_upper_bound_def utf8_encode_def
      some_or_def ensure_def)

lemma budget_settings_positive:
  "0 < max_input_tokens (token_budget_from_settings s)"
  "0 < max_output_tokens (token_budget_from_settings s)"
  "0 < max_total_tokens (token_budget_from_settings s)"
  by (auto simp: token_budget_from_settings_def positive_integer_setting_def
      split: option.split json.split)

end
