(* ===== verification/RouterEngine.thy ===== *)
theory RouterEngine
  imports RouterHistory ModelBudget
begin

text \<open>
  \<^verbatim>\<open>src/router/engine.py\<close>: the cascade of the three tiers. The model's answer to a prompt is a
  parameter: the decoded JSON of its text, \<open>None\<close> when the call or the decoding raised. Of the
  agent state only what the engine reads or writes is kept.
\<close>

record engine_env =
  ee_compiler :: compiler_env
  ee_lax_float :: "json \<Rightarrow> rat option"
  ee_settings :: "pystr \<Rightarrow> json option"
  ask_model :: "pystr \<Rightarrow> json option"

definition rules_env :: "engine_env \<Rightarrow> router_env" where
  "rules_env env = router (ee_compiler env)"

abbreviation validated :: "engine_env \<Rightarrow> json \<Rightarrow> route_error + route_decision" where
  "validated env \<equiv> read_decision (rules_env env) (ee_lax_float env)"

section \<open>The view of an email\<close>

text \<open>
  \<^verbatim>\<open>email_address='([^']+)'\<close> under \<^verbatim>\<open>IGNORECASE\<close>, which for text also lets the dotless and the
  dotted capital I match an i and the long s match an s.
\<close>

definition fold_case :: "nat \<Rightarrow> nat" where
  "fold_case c = (if c = 304 \<or> c = 305 then 105 else if c = 383 then 115 else ascii_lower1 c)"

definition MAILBOX_PREFIX :: pystr where
  "MAILBOX_PREFIX = lit ''email_address='' @ [39]"

definition mailbox_here :: "pystr \<Rightarrow> pystr option" where
  "mailbox_here s =
     (let n = length MAILBOX_PREFIX;
          group = takeWhile (\<lambda>c. c \<noteq> 39) (drop n s)
      in if map fold_case (take n s) = MAILBOX_PREFIX \<and> group \<noteq> [] \<and> length group < length (drop n s)
         then Some group else None)"

fun mailbox_search :: "pystr \<Rightarrow> pystr option" where
  "mailbox_search [] = None"
| "mailbox_search (c # s) = (case mailbox_here (c # s) of Some g \<Rightarrow> Some g | None \<Rightarrow> mailbox_search s)"

text \<open>\<^verbatim>\<open>str(value or "")\<close>.\<close>

definition or_blank :: "compiler_env \<Rightarrow> json \<Rightarrow> pystr" where
  "or_blank env j = (if json_truthy j then py_str env j else [])"

definition address :: "compiler_env \<Rightarrow> json \<Rightarrow> pystr" where
  "address env j =
     (let s = strip (or_blank env j)
      in strip (case mailbox_search s of Some g \<Rightarrow> g | None \<Rightarrow> s))"

definition addresses :: "compiler_env \<Rightarrow> json \<Rightarrow> pystr list" where
  "addresses env j =
     (case j of
        JStr s \<Rightarrow> if s \<noteq> [] then [address env j] else []
      | JArr xs \<Rightarrow> map (address env) (filter (\<lambda>x. strip (or_blank env x) \<noteq> []) xs)
      | _ \<Rightarrow> [])"

definition email_view_of :: "compiler_env \<Rightarrow> (pystr \<times> json) list \<Rightarrow> email_view" where
  "email_view_of env email =
     (let body = or_blank env (get_or JNull ''body'' email)
      in \<lparr>sender_address = Known (address env (get_or JNull ''sender'' email)),
          to_addresses = Known (addresses env (get_or JNull ''to'' email)),
          cc_addresses = Known (addresses env (get_or JNull ''cc'' email)),
          v_subject = Known (or_blank env (get_or JNull ''subject'' email)),
          body_current_text = Known body, body_full_text = Known body\<rparr>)"

section \<open>State deltas\<close>

definition classification_for_route :: "canonical_route \<Rightarrow> bool \<times> pystr" where
  "classification_for_route r = (is_writing r, canonical_route_value r)"

record route_delta =
  dl_route_decision :: json
  dl_stage :: pystr
  dl_log :: "pystr list"
  dl_classification :: "(bool \<times> pystr) option"
  dl_draft :: "(pystr list \<times> pystr list) option"
  dl_manual_review :: "pystr option option"

text \<open>
  The delta of a decision; it raises when a forward has no recipients in its parameters. The
  manual review carries the reason code as its safe error summary.
\<close>

definition decision_delta :: "route_decision \<Rightarrow> route_delta option" where
  "decision_delta d =
     (let stage = route_tier_value (rp_tier (rd_provenance d));
          route = (case rd_route d of None \<Rightarrow> lit ''abstain'' | Some r \<Rightarrow> canonical_route_value r);
          draft = (if rd_route d \<noteq> Some ROUTE_FORWARD then Some None
             else (case (need json_str_list ''fixed_recipients'' (rd_params d),
                         field_or [] json_str_list ''cc'' (rd_params d)) of
                     (Some to, Some cc) \<Rightarrow> Some (Some (to, cc))
                   | _ \<Rightarrow> None))
      in map_option (\<lambda>draft.
           \<lparr>dl_route_decision = dump_decision d, dl_stage = stage,
            dl_log = [stage @ lit '' route='' @ route],
            dl_classification = map_option classification_for_route (rd_route d), dl_draft = draft,
            dl_manual_review = (if rd_route d = Some ROUTE_MANUAL_REVIEW then Some (rd_reason_code d)
              else None)\<rparr>) draft)"

section \<open>Tier 1\<close>

datatype engine_error =
    Tier1Raised tier1_error | DecisionRaised route_error | NoSelectedRule | DeltaRaised
  | HistoryRaised history_error

record agent_state =
  as_email :: "(pystr \<times> json) list"
  as_log :: "pystr list"
  as_route_decision :: json

text \<open>\<^verbatim>\<open>typed_params.model_dump(mode="json", exclude_none=True)\<close>.\<close>

fun typed_dump :: "typed_params \<Rightarrow> (pystr \<times> json) list" where
  "typed_dump (ReplyParams mode) =
     (case mode of None \<Rightarrow> [] | Some m \<Rightarrow> [(lit ''reply_mode'', JStr (reply_mode_value m))])"
| "typed_dump (ForwardParams recipients cc edit attachments) =
     [(lit ''fixed_recipients'', json_texts recipients), (lit ''cc'', json_texts cc),
      (lit ''allow_recipient_edit'', JBool edit), (lit ''include_attachments'', JBool attachments)]"
| "typed_dump ReadOnlyParams = []"
| "typed_dump (NoActionParams reason) = [(lit ''reason_code'', JStr reason)]"
| "typed_dump (ManualReviewParams reason) = [(lit ''reason_code'', JStr reason)]"

definition tier1_provenance :: "pystr \<Rightarrow> tier1_decision \<Rightarrow> route_provenance" where
  "tier1_provenance digest t =
     \<lparr>rp_tier = TIER1, rp_source_version = lit ''tier1-artifact-v1'', rp_artifact_digest = Some digest,
      rp_rule_ids = map fst (t_matched_rules t), rp_evidence_ids = [],
      rp_confidence = (if t_outcome t = OUT_MATCHED then Some 1 else None)\<rparr>"

definition action_candidate :: "candidate_action \<Rightarrow> (pystr \<times> json) list" where
  "action_candidate c =
     [(lit ''fingerprint'', JStr (ca_fingerprint c)), (lit ''rule_ids'', json_texts (ca_rule_ids c)),
      (lit ''route'', JStr (canonical_route_value (ca_route c)))]"

definition matched_decision :: "pystr \<Rightarrow> tier1_decision \<Rightarrow> rule_manifest \<Rightarrow> route_decision" where
  "matched_decision digest t r =
     (let typed = d_typed (rm_decision r)
      in \<lparr>rd_outcome = DEC_MATCHED, rd_route = Some (d_route (rm_decision r)),
          rd_params = typed_dump typed, rd_provenance = tier1_provenance digest t,
          rd_reason_code = or_text (or_text (reason_code_of typed) (d_business_flow_id (rm_decision r)))
            (Some (rule_id r)),
          rd_selected = t_selected t, rd_handoff_profile_id = d_handoff_profile_id (rm_decision r),
          rd_candidate_actions = map action_candidate (t_candidate_actions t)\<rparr>)"

definition review_decision :: "pystr \<Rightarrow> tier1_decision \<Rightarrow> route_decision" where
  "review_decision digest t =
     (let reason = (if t_outcome t = OUT_CONFLICT then lit ''tier1_conflict'' else lit ''tier1_indeterminate'')
      in \<lparr>rd_outcome = (if t_outcome t = OUT_CONFLICT then DEC_CONFLICT else DEC_ERROR),
          rd_route = Some ROUTE_MANUAL_REVIEW, rd_params = [(lit ''reason_code'', JStr reason)],
          rd_provenance = tier1_provenance digest t, rd_reason_code = Some reason,
          rd_selected = t_selected t, rd_handoff_profile_id = None,
          rd_candidate_actions = map action_candidate (t_candidate_actions t)\<rparr>)"

definition tier1_route_decision ::
  "compiled_artifact \<Rightarrow> tier1_decision \<Rightarrow> engine_error + route_decision" where
  "tier1_route_decision a t =
     (if t_outcome t = OUT_MATCHED
      then (case List.find (\<lambda>c. Some (snd c) = t_selected t) (art_rules a) of
              None \<Rightarrow> Inl NoSelectedRule
            | Some c \<Rightarrow> Inr (matched_decision (art_digest a) t (fst c)))
      else Inr (review_decision (art_digest a) t))"

record router_state =
  rs_route_decision :: json
  rs_log :: "pystr list"
  rs_stage :: pystr
  rs_delta :: "route_delta option"

definition evaluate_rules :: "engine_env \<Rightarrow> compiled_artifact \<Rightarrow> pystr \<Rightarrow> int \<Rightarrow> (pystr \<times> json) list
    \<Rightarrow> engine_error + tier1_decision" where
  "evaluate_rules env a me now email =
     lift_error Tier1Raised (build_tier1_decision (rules_env env) (truthy (Some me))
       (email_view_of (ee_compiler env) email) now (map fst (art_rules a)))"

definition execute_router :: "engine_env \<Rightarrow> compiled_artifact \<Rightarrow> pystr \<Rightarrow> int \<Rightarrow> agent_state
    \<Rightarrow> engine_error + router_state" where
  "execute_router env a me now s =
     and_then (evaluate_rules env a me now (as_email s)) (\<lambda>t.
     and_then (lift_error DecisionRaised (RouteProvenance (tier1_provenance (art_digest a) t))) (\<lambda>_.
       if t_outcome t = OUT_ABSTAIN then
         Inr \<lparr>rs_route_decision = as_route_decision s, rs_log = as_log s @ [lit ''tier1 route=abstain''],
              rs_stage = lit ''pending'', rs_delta = None\<rparr>
       else
         and_then (tier1_route_decision a t) (\<lambda>d.
         and_then (lift_error DecisionRaised (RouteDecision (rules_env env) d)) (\<lambda>d.
         and_then (some_or DeltaRaised (decision_delta d)) (\<lambda>delta.
           Inr \<lparr>rs_route_decision = dl_route_decision delta, rs_log = as_log s @ dl_log delta,
                rs_stage = dl_stage delta, rs_delta = Some delta\<rparr>)))))"

section \<open>Tier 2\<close>

definition TIER2_MIN_HITS :: nat where
  "TIER2_MIN_HITS = 2"

definition TIER2_MIN_RATIO :: rat where
  "TIER2_MIN_RATIO = 1 / 2"

definition apply_tier2_hits :: "engine_env \<Rightarrow> hit list \<Rightarrow> engine_error + route_delta option" where
  "apply_tier2_hits env hits =
     and_then (lift_error HistoryRaised (decide_history (rules_env env) (ee_lax_float env)
        TIER2_MIN_HITS TIER2_MIN_RATIO hits)) (\<lambda>r.
       case r of
         None \<Rightarrow> Inr None
       | Some d \<Rightarrow> and_then (some_or DeltaRaised (decision_delta d)) (\<lambda>delta. Inr (Some delta)))"

section \<open>Tier 3\<close>

definition tier3_prompt :: "compiler_env \<Rightarrow> (pystr \<times> json) list \<Rightarrow> pystr" where
  "tier3_prompt env email =
     lit ''Classify this email into exactly one route. Return strict JSON with keys ''
     @ lit ''route, params, confidence, reason_code. Routes: reply, forward, read_only, ''
     @ lit ''no_action, manual_review. Forward params require fixed_recipients. ''
     @ lit ''Subject: '' @ take 500 (or_blank env (get_or JNull ''subject'' email)) @ [10]
     @ lit ''Sender: '' @ take 320 (address env (get_or JNull ''sender'' email)) @ [10]
     @ lit ''Body: '' @ take 2000 (or_blank env (get_or JNull ''body'' email))"

record tier3_result =
  t3_route :: canonical_route
  t3_params :: "(pystr \<times> json) list"
  t3_confidence :: rat
  t3_reason_code :: pystr

definition read_tier3 :: "(json \<Rightarrow> rat option) \<Rightarrow> json \<Rightarrow> tier3_result option" where
  "read_tier3 lax_float j =
     (case json_obj j of
        None \<Rightarrow> None
      | Some l \<Rightarrow>
          if \<not> only_keys [''route'', ''params'', ''confidence'', ''reason_code''] l then None
          else
            (case (need canonical_route_of ''route'' l, field_or [] json_obj ''params'' l,
                   need lax_float ''confidence'' l, need json_str ''reason_code'' l) of
               (Some route, Some params, Some confidence, Some reason) \<Rightarrow>
                 if 0 \<le> confidence \<and> confidence \<le> 1 \<and> bounded_text 1 128 reason
                 then Some \<lparr>t3_route = route, t3_params = params, t3_confidence = confidence,
                   t3_reason_code = reason\<rparr> else None
             | _ \<Rightarrow> None))"

definition tier3_provenance :: "rat option \<Rightarrow> route_provenance" where
  "tier3_provenance confidence =
     \<lparr>rp_tier = TIER3, rp_source_version = lit ''router-model-v1'', rp_artifact_digest = None,
      rp_rule_ids = [], rp_evidence_ids = [], rp_confidence = confidence\<rparr>"

definition model_decision :: "tier3_result \<Rightarrow> route_decision" where
  "model_decision p =
     \<lparr>rd_outcome = DEC_MATCHED, rd_route = Some (t3_route p), rd_params = t3_params p,
      rd_provenance = tier3_provenance (Some (t3_confidence p)),
      rd_reason_code = Some (t3_reason_code p), rd_selected = None,
      rd_handoff_profile_id = default_profile (t3_route p), rd_candidate_actions = []\<rparr>"

definition model_failed_decision :: route_decision where
  "model_failed_decision =
     \<lparr>rd_outcome = DEC_ERROR, rd_route = Some ROUTE_MANUAL_REVIEW,
      rd_params = [(lit ''reason_code'', JStr (lit ''router_model_failed''))],
      rd_provenance = tier3_provenance None, rd_reason_code = Some (lit ''router_model_failed''),
      rd_selected = None, rd_handoff_profile_id = None, rd_candidate_actions = []\<rparr>"

text \<open>The body of the \<^verbatim>\<open>try\<close>; \<open>None\<close> is any exception of it.\<close>

definition ask_tier3 :: "engine_env \<Rightarrow> (pystr \<times> json) list \<Rightarrow> route_decision option" where
  "ask_tier3 env email =
     (let prompt = tier3_prompt (ee_compiler env) email
      in if \<not> is_ok (enforce_model_input_budget (lit ''router'') prompt
               (token_budget_from_settings (ee_settings env))) then None
         else
           (case Option.bind (ask_model env prompt) (read_tier3 (ee_lax_float env)) of
              None \<Rightarrow> None
            | Some p \<Rightarrow>
                (case and_then (lift_error RouteParams
                          (Decision (rules_env env) (t3_route p) None None (t3_params p)))
                        (\<lambda>_. construct (rules_env env) (model_decision p)) of
                   Inl _ \<Rightarrow> None
                 | Inr d \<Rightarrow> Some d)))"

definition apply_tier3_fallback :: "engine_env \<Rightarrow> (pystr \<times> json) list \<Rightarrow> engine_error + route_delta" where
  "apply_tier3_fallback env email =
     and_then (case ask_tier3 env email of
        Some d \<Rightarrow> Inr d
      | None \<Rightarrow> lift_error DecisionRaised (construct (rules_env env) model_failed_decision)) (\<lambda>d.
       some_or DeltaRaised (decision_delta d))"

section \<open>The cascade\<close>

definition with_default_handoff_profile :: "route_decision \<Rightarrow> route_decision" where
  "with_default_handoff_profile d =
     (if rd_handoff_profile_id d \<noteq> None then d
      else (case Option.bind (rd_route d) default_profile of
              None \<Rightarrow> d
            | Some p \<Rightarrow> d\<lparr>rd_handoff_profile_id := Some p\<rparr>))"

definition finish_route :: "engine_env \<Rightarrow> json \<Rightarrow> engine_error + route_decision" where
  "finish_route env raw =
     and_then (lift_error DecisionRaised (validated env raw)) (\<lambda>d.
       Inr (with_default_handoff_profile d))"

definition resolve_route :: "engine_env \<Rightarrow> compiled_artifact \<Rightarrow> pystr \<Rightarrow> int \<Rightarrow> agent_state \<Rightarrow> hit list
    \<Rightarrow> engine_error + route_decision" where
  "resolve_route env a me now s hits =
     and_then (execute_router env a me now s) (\<lambda>tier1.
       if rs_route_decision tier1 \<noteq> JNull then finish_route env (rs_route_decision tier1)
       else
         and_then (apply_tier2_hits env hits) (\<lambda>tier2.
           case tier2 of
             Some delta \<Rightarrow> finish_route env (dl_route_decision delta)
           | None \<Rightarrow>
               and_then (apply_tier3_fallback env (as_email s)) (\<lambda>delta.
                 finish_route env (dl_route_decision delta))))"

definition dry_run :: "engine_env \<Rightarrow> compiled_artifact \<Rightarrow> pystr \<Rightarrow> int \<Rightarrow> pystr \<Rightarrow> pystr \<Rightarrow> pystr
    \<Rightarrow> engine_error + (pystr \<times> evaluation_outcome \<times> canonical_route option \<times> pystr list)" where
  "dry_run env a me now subject sender body =
     and_then (evaluate_rules env a me now
        [(lit ''subject'', JStr subject), (lit ''sender'', JStr sender), (lit ''body'', JStr body)]) (\<lambda>t.
       Inr (art_digest a, t_outcome t, t_route t, map fst (t_matched_rules t)))"

end
