(* ===== verification/RouterConsensus.thy ===== *)
theory RouterConsensus
  imports RouterHistory
begin

text \<open>
  Correctness of the second tier: what the votes are in terms of the hits alone, when a consensus
  exists, and that the verdict can always be constructed.
\<close>

section \<open>The electorate, from the hits\<close>

definition hit_vote :: "router_env \<Rightarrow> (json \<Rightarrow> rat option) \<Rightarrow> hit \<Rightarrow> action_key option" where
  "hit_vote env lax_float h =
     (case historical_label env lax_float h of
        None \<Rightarrow> None
      | Some d \<Rightarrow> (case action_key env d of Inl _ \<Rightarrow> None | Inr k \<Rightarrow> Some k))"

definition identified :: "hit list \<Rightarrow> pystr set" where
  "identified hits = {i. \<exists>h\<in>set hits. evidence_id h = Inr (Some i)}"

definition vote_total :: "hit list \<Rightarrow> nat" where
  "vote_total hits = max 1 (card (identified hits) + length (filter (\<lambda>h. evidence_id h = Inr None) hits))"

text \<open>The actions an email was labelled with, and the emails that all their labels give to an action.\<close>

definition labels :: "router_env \<Rightarrow> (json \<Rightarrow> rat option) \<Rightarrow> hit list \<Rightarrow> pystr \<Rightarrow> action_key set" where
  "labels env lax_float hits i =
     {k. \<exists>h\<in>set hits. evidence_id h = Inr (Some i) \<and> hit_vote env lax_float h = Some k}"

definition support :: "router_env \<Rightarrow> (json \<Rightarrow> rat option) \<Rightarrow> hit list \<Rightarrow> action_key \<Rightarrow> pystr set" where
  "support env lax_float hits k = {i. labels env lax_float hits i = {k}}"

definition ambiguous :: "router_env \<Rightarrow> (json \<Rightarrow> rat option) \<Rightarrow> hit list \<Rightarrow> bool" where
  "ambiguous env lax_float hits =
     (\<exists>i k l. k \<noteq> l \<and> k \<in> labels env lax_float hits i \<and> l \<in> labels env lax_float hits i)"

definition carries :: "router_env \<Rightarrow> (json \<Rightarrow> rat option) \<Rightarrow> nat \<Rightarrow> rat \<Rightarrow> hit list \<Rightarrow> action_key \<Rightarrow> bool"
  where
  "carries env lax_float min_hits min_ratio hits k =
     is_eligible min_hits min_ratio (vote_total hits) (card (support env lax_float hits k))"

section \<open>The tally\<close>

lemma votes_of_see [simp]: "votes_of (see_evidence i t) = votes_of t"
  by (simp add: see_evidence_def votes_of_def fun_eq_iff)

lemma votes_of_unidentified [simp]: "votes_of (t_unidentified_update f t) = votes_of t"
  by (simp add: votes_of_def fun_eq_iff)

lemma votes_of_cast:
  "votes_of (cast_vote i k d t) j = (if j = i then AList.update k d (votes_of t i) else votes_of t j)"
  by (simp add: cast_vote_def votes_of_def update_conv')

lemma order_simps [simp]:
  "t_order (cast_vote i k d t) = t_order t" "t_unidentified (cast_vote i k d t) = t_unidentified t"
  "t_unidentified (see_evidence i t) = t_unidentified t"
  "set (t_order (see_evidence i t)) = insert i (set (t_order t))"
  "distinct (t_order (see_evidence i t)) = distinct (t_order t)"
  by (auto simp: cast_vote_def see_evidence_def)

lemma tally_hits_snoc:
  "tally_hits env lf t (hs @ [h]) = and_then (tally_hits env lf t hs) (\<lambda>t. record_hit env lf t h)"
  by (induction hs arbitrary: t) (auto simp: and_then_def split: sum.splits)

text \<open>The tally of a list of hits.\<close>

definition tallies :: "router_env \<Rightarrow> (json \<Rightarrow> rat option) \<Rightarrow> hit list \<Rightarrow> tally \<Rightarrow> bool" where
  "tallies env lf hits t \<longleftrightarrow>
     distinct (t_order t) \<and> set (t_order t) = identified hits
     \<and> t_unidentified t = length (filter (\<lambda>h. evidence_id h = Inr None) hits)
     \<and> (\<forall>i. distinct (map fst (votes_of t i)) \<and> fst ` set (votes_of t i) = labels env lf hits i)
     \<and> (\<forall>i k d. (k, d) \<in> set (votes_of t i) \<longrightarrow>
          (\<exists>h\<in>set hits. historical_label env lf h = Some d) \<and> action_key env d = Inr k)"

lemma identified_snoc:
  "identified (hs @ [h]) =
     (case evidence_id h of Inr (Some i) \<Rightarrow> insert i (identified hs) | _ \<Rightarrow> identified hs)"
  by (auto simp: identified_def split: sum.splits option.splits)

lemma labels_snoc:
  "labels env lf (hs @ [h]) j =
     (if evidence_id h = Inr (Some j)
      then set_option (hit_vote env lf h) \<union> labels env lf hs j else labels env lf hs j)"
  by (auto simp: labels_def)

lemma set_update:
  assumes "distinct (map fst l)" "(a, b) \<in> set (AList.update k d l)"
  shows "a = k \<and> b = d \<or> (a, b) \<in> set l"
proof -
  have "map_of (AList.update k d l) a = Some b"
    using assms by (intro map_of_is_SomeI) (simp_all add: distinct_update)
  then show ?thesis by (auto simp: update_conv' split: if_splits dest: map_of_SomeD)
qed

lemma record_hit_tallies:
  assumes t: "tallies env lf hs t" and step: "record_hit env lf t h = Inr t'"
  shows "tallies env lf (hs @ [h]) t'"
proof -
  from step obtain x where x: "evidence_id h = Inr x" by (auto simp: record_hit_def and_then_Inr)
  consider (none) "x = None" | (unlabelled) i where "x = Some i" "historical_label env lf h = None"
    | (voted) i d where "x = Some i" "historical_label env lf h = Some d"
    by (cases x; cases "historical_label env lf h") auto
  then show ?thesis
  proof cases
    case none
    with step x have "t' = t\<lparr>t_unidentified := t_unidentified t + 1\<rparr>" by (simp add: record_hit_def)
    with t x none show ?thesis by (simp add: tallies_def identified_snoc labels_snoc)
  next
    case unlabelled
    with step x have t': "t' = see_evidence i t" by (simp add: record_hit_def)
    have "hit_vote env lf h = None" using unlabelled by (simp add: hit_vote_def)
    with t t' x unlabelled show ?thesis by (simp add: tallies_def identified_snoc labels_snoc)
  next
    case voted
    with step x obtain k where k: "action_key env d = Inr k" and t': "t' = cast_vote i k d (see_evidence i t)"
      by (auto simp: record_hit_def and_then_Inr)
    have v: "hit_vote env lf h = Some k" using voted k by (simp add: hit_vote_def)
    have d: "distinct (map fst (votes_of t j))" "fst ` set (votes_of t j) = labels env lf hs j" for j
      using t by (simp_all add: tallies_def)
    have old: "(\<exists>h\<in>set hs. historical_label env lf h = Some e) \<and> action_key env e = Inr l"
      if "(l, e) \<in> set (votes_of t j)" for j l e
      using t that unfolding tallies_def by blast
    have "distinct (map fst (votes_of t' j)) \<and> fst ` set (votes_of t' j) = labels env lf (hs @ [h]) j" for j
      using d by (simp add: t' votes_of_cast distinct_update dom_update labels_snoc x voted v)
    moreover have "(\<exists>h\<in>set (hs @ [h]). historical_label env lf h = Some e) \<and> action_key env e = Inr l"
      if "(l, e) \<in> set (votes_of t' j)" for j l e
    proof (cases "j = i")
      case True
      with that have "l = k \<and> e = d \<or> (l, e) \<in> set (votes_of t i)"
        by (intro set_update [OF d(1)]) (simp add: t' votes_of_cast)
      with voted k old [of l e i] show ?thesis by (elim disjE conjE) auto
    next
      case False
      with that have "(l, e) \<in> set (votes_of t j)" by (simp add: t' votes_of_cast)
      from old [OF this] show ?thesis by auto
    qed
    ultimately show ?thesis
      using t by (simp add: tallies_def t' identified_snoc x voted)
  qed
qed

lemma tally_hits_tallies:
  assumes "tally_hits env lf no_votes hits = Inr t"
  shows "tallies env lf hits t"
  using assms
proof (induction hits arbitrary: t rule: rev_induct)
  case Nil
  then show ?case
    by (auto simp: tallies_def no_votes_def identified_def labels_def votes_of_def)
next
  case (snoc h hs)
  then show ?case unfolding tally_hits_snoc by (elim and_thenE) (rule record_hit_tallies)
qed

section \<open>Groups\<close>

lemma map_of_multi_add:
  "map_of (multi_add k v g) l =
     (if l = k then Some ((case map_of g k of None \<Rightarrow> [] | Some vs \<Rightarrow> vs) @ [v]) else map_of g l)"
  by (simp add: multi_add_def update_conv')

lemma group_pairs_snoc: "group_pairs (xs @ [(k, v)]) = multi_add k v (group_pairs xs)"
  by (simp add: group_pairs_def)

lemma group_pairs_keys: "distinct (map fst (group_pairs xs))"
  by (induction xs rule: rev_induct)
    (auto simp: group_pairs_snoc multi_add_def distinct_update, simp add: group_pairs_def)

definition pairs_with :: "'k \<Rightarrow> ('k \<times> 'v) list \<Rightarrow> 'v list" where
  "pairs_with k xs = map snd (filter (\<lambda>p. fst p = k) xs)"

lemma map_of_group_pairs:
  "map_of (group_pairs xs) k = (if pairs_with k xs = [] then None else Some (pairs_with k xs))"
proof (induction xs rule: rev_induct)
  case Nil
  then show ?case by (simp add: group_pairs_def pairs_with_def)
next
  case (snoc p xs)
  obtain l v where "p = (l, v)" by (cases p)
  with snoc show ?case by (auto simp: group_pairs_snoc map_of_multi_add pairs_with_def)
qed

lemma group_pairs_iff:
  "(k, rows) \<in> set (group_pairs xs) \<longleftrightarrow> rows = pairs_with k xs \<and> rows \<noteq> []"
  using map_of_group_pairs [of xs k] group_pairs_keys [of xs]
  by (metis map_of_eq_Some_iff option.distinct(1) option.inject)

section \<open>Who votes for what\<close>

lemma singleton_keys:
  assumes "distinct (map fst l)"
  shows "fst ` set l = {k} \<longleftrightarrow> (\<exists>d. l = [(k, d)])"
proof
  assume k: "fst ` set l = {k}"
  from assms have "length l = card (fst ` set l)" by (metis distinct_card length_map set_map)
  with k have "length l = 1" by simp
  then obtain x where "l = [x]" by (auto simp: length_Suc_conv)
  with k show "\<exists>d. l = [(k, d)]" by (cases x) auto
qed auto

lemma map_filter_fst:
  "map fst (pairs_with k (List.map_filter
      (\<lambda>i. case v i of [(k, d)] \<Rightarrow> Some (k, (i, d)) | _ \<Rightarrow> None) is))
    = filter (\<lambda>i. \<exists>d. v i = [(k, d)]) is"
  by (induction "is")
    (auto simp: map_filter_simps pairs_with_def split: list.splits option.splits)

lemma voters:
  assumes "tallies env lf hits t"
  shows "map fst (pairs_with k (single_votes t)) = filter (\<lambda>i. i \<in> support env lf hits k) (t_order t)"
proof -
  have "i \<in> support env lf hits k \<longleftrightarrow> (\<exists>d. votes_of t i = [(k, d)])" for i
    using assms singleton_keys [of "votes_of t i" k] by (auto simp: tallies_def support_def)
  then show ?thesis by (simp add: single_votes_def map_filter_fst)
qed

lemma support_identified: "support env lf hits k \<subseteq> identified hits"
  by (fastforce simp: support_def labels_def identified_def)

lemma voter_count:
  assumes "tallies env lf hits t"
  shows "length (pairs_with k (single_votes t)) = card (support env lf hits k)"
proof -
  have "length (pairs_with k (single_votes t)) = card (set (filter (\<lambda>i. i \<in> support env lf hits k) (t_order t)))"
    using assms unfolding voters [OF assms, symmetric]
    by (simp only: tallies_def distinct_card distinct_filter voters [OF assms] length_map
        flip: length_map [of fst "pairs_with k (single_votes t)"])
  also have "set (filter (\<lambda>i. i \<in> support env lf hits k) (t_order t)) = support env lf hits k"
    using assms support_identified [of env lf hits k] by (auto simp: tallies_def)
  finally show ?thesis .
qed

lemma denominator_total: "tallies env lf hits t \<Longrightarrow> denominator t = vote_total hits"
  by (auto simp: tallies_def denominator_def vote_total_def dest: distinct_card)

lemma corrupt_iff:
  assumes "tallies env lf hits t"
  shows "corrupt_evidence t \<noteq> [] \<longleftrightarrow> ambiguous env lf hits"
proof -
  have two: "1 < length l \<longleftrightarrow> (\<exists>k m. k \<noteq> m \<and> k \<in> fst ` set l \<and> m \<in> fst ` set l)"
    if "distinct (map fst l)" for l :: "(action_key \<times> route_decision) list"
  proof -
    from that have "length l = card (fst ` set l)" by (metis distinct_card length_map set_map)
    then show ?thesis
      by (metis One_nat_def card_le_Suc0_iff_eq finite_imageI finite_set not_less)
  qed
  have "1 < length (votes_of t i) \<Longrightarrow> i \<in> identified hits" for i
  proof -
    assume "1 < length (votes_of t i)"
    then have "fst ` set (votes_of t i) \<noteq> {}" by auto
    with assms show ?thesis by (auto simp: tallies_def labels_def identified_def)
  qed
  then show ?thesis
    using assms two unfolding tallies_def ambiguous_def corrupt_evidence_def filter_empty_conv
    by (metis (no_types, lifting))
qed

section \<open>Eligible actions\<close>

lemma eligible_group:
  assumes t: "tallies env lf hits t" and m: "1 \<le> m"
  shows "k \<in> fst ` set (eligible_groups m q t) \<longleftrightarrow> carries env lf m q hits k"
proof -
  have "k \<in> fst ` set (eligible_groups m q t) \<longleftrightarrow>
      (\<exists>rows. (k, rows) \<in> set (group_pairs (single_votes t))
        \<and> is_eligible m q (denominator t) (length rows))"
    by (force simp: eligible_groups_def)
  also have "\<dots> \<longleftrightarrow> pairs_with k (single_votes t) \<noteq> []
      \<and> is_eligible m q (vote_total hits) (card (support env lf hits k))"
    by (auto simp: group_pairs_iff denominator_total [OF t] voter_count [OF t])
  also have "\<dots> \<longleftrightarrow> carries env lf m q hits k"
    using m voter_count [OF t, of k] by (auto simp: carries_def is_eligible_def)
  finally show ?thesis .
qed

lemma eligible_keys: "distinct (map fst (eligible_groups m q t))"
  unfolding eligible_groups_def by (rule distinct_map_filter [OF group_pairs_keys])

lemma eligible_rows:
  "(k, rows) \<in> set (eligible_groups m q t) \<Longrightarrow> rows = pairs_with k (single_votes t) \<and> rows \<noteq> []"
  by (auto simp: eligible_groups_def group_pairs_iff)

lemma in_map_filter: "y \<in> set (List.map_filter f xs) \<longleftrightarrow> (\<exists>x\<in>set xs. f x = Some y)"
  by (induction xs) (auto simp: map_filter_simps split: option.splits)

lemma single_vote_label:
  assumes t: "tallies env lf hits t" and row: "(i, d) \<in> set (pairs_with k (single_votes t))"
  shows "\<exists>h\<in>set hits. historical_label env lf h = Some d" "action_key env d = Inr k"
proof -
  from row obtain j where
    "(case votes_of t j of [(k, d)] \<Rightarrow> Some (k, (j, d)) | _ \<Rightarrow> None) = Some (k, (i, d))"
    by (auto simp: pairs_with_def single_votes_def in_map_filter)
  then have "votes_of t i = [(k, d)]" by (auto split: list.splits)
  then have "(k, d) \<in> set (votes_of t i)" by simp
  with t show "\<exists>h\<in>set hits. historical_label env lf h = Some d" "action_key env d = Inr k"
    unfolding tallies_def by blast+
qed

section \<open>The verdict is a decision\<close>

lemma historical_label_final:
  "historical_label env lf h = Some d \<Longrightarrow>
     final_decision env d \<and> rd_outcome d = DEC_MATCHED"
  by (auto simp: historical_label_def read_decision_final split: sum.splits if_splits)

lemma tier2_provenance_ok:
  "(case c of None \<Rightarrow> True | Some x \<Rightarrow> 0 \<le> x \<and> x \<le> 1) \<Longrightarrow>
     RouteProvenance (tier2_provenance evidence c) = Inr (tier2_provenance evidence c)"
  by (simp add: RouteProvenance_def tier2_provenance_def bounded_text_def SOURCE_VERSION_def
      utf8_ok_def lit_def is_surrogate_def)

lemma conflict_final: "final_decision env (conflict_decision evidence candidates)"
proof -
  have "truthy (Some (lit ''tier2_conflict'')) = Some (lit ''tier2_conflict'')"
    by (simp add: truthy_def)
  then have "RouteDecision env (conflict_decision evidence candidates)
    = Inr (conflict_decision evidence candidates)"
    by (simp add: RouteDecision_def conflict_decision_def bounded_text_def utf8_ok_def lit_def
        is_surrogate_def validate_route_and_params_def Decision_def reason_params_def only_keys_def
        json_str_def lift_error_def)
  then show ?thesis
    by (simp add: final_decision_def tier2_provenance_ok) (simp add: conflict_decision_def tier2_provenance_ok)
qed

lemma fingerprint_text_pattern:
  assumes "is_sha256_hex h"
  shows "is_fingerprint_text (lit ''sha256:v2:'' @ h)" "is_fingerprint_text (lit ''sha256:'' @ h)"
  using assms by (simp_all add: is_fingerprint_text_def lit_def)

lemma action_key_pattern:
  assumes "action_key env d = Inr k" "\<And>b. is_sha256_hex (r_sha256 env b)"
  shows "is_fingerprint_text (snd k)"
  using assms fingerprint_text_pattern
  by (auto simp: action_key_def Let_def and_then_Inr lift_error_def compute_action_fingerprint_def
      fingerprint_text_def split: sum.splits if_splits option.splits)

lemma consensus_final:
  assumes t: "tallies env lf hits t" and rows: "rows = pairs_with k (single_votes t)" "rows \<noteq> []"
    and hex: "\<And>b. is_sha256_hex (r_sha256 env b)"
  shows "final_decision env (consensus_decision t k rows)"
    "action_key env (consensus_decision t k rows) = Inr k"
proof -
  let ?d = "snd (hd rows)" and ?c = "consensus_decision t k rows"
  have "(fst (hd rows), ?d) \<in> set (pairs_with k (single_votes t))"
    using rows by simp
  note label = single_vote_label [OF t this]
  then have d: "RouteDecision env ?d = Inr ?d" "rd_outcome ?d = DEC_MATCHED"
    using historical_label_final by (auto simp: final_decision_def)
  have "length rows \<le> denominator t"
  proof -
    have "length rows \<le> length (t_order t)"
      using voters [OF t, of k] rows(1) by (metis length_filter_le length_map)
    then show ?thesis by (simp add: denominator_def)
  qed
  moreover have "0 < denominator t" by (simp add: denominator_def)
  ultimately have ratio: "0 \<le> rat_of_nat (length rows) / rat_of_nat (denominator t)"
    "rat_of_nat (length rows) / rat_of_nat (denominator t) \<le> 1"
    by (simp_all add: divide_le_eq_1)
  from d have "validate_route_and_params env ?c = Inr ()"
    by (auto simp: RouteDecision_def and_then_Inr validate_route_and_params_def consensus_decision_def Let_def)
  moreover from d have "case rd_handoff_profile_id ?c of None \<Rightarrow> True | Some p \<Rightarrow> is_profile_id p"
    by (auto simp: RouteDecision_def and_then_Inr consensus_decision_def Let_def)
  moreover have "is_fingerprint_text (snd k)" by (rule action_key_pattern [OF label(2) hex])
  ultimately have "RouteDecision env ?c = Inr ?c"
    by (simp add: RouteDecision_def)
      (simp add: consensus_decision_def Let_def bounded_text_def utf8_ok_def lit_def is_surrogate_def)
  then show "final_decision env ?c"
    using ratio by (simp add: final_decision_def)
      (simp add: consensus_decision_def Let_def tier2_provenance_ok)
  show "action_key env ?c = Inr k"
    using label(2) by (simp add: action_key_def consensus_decision_def Let_def)
qed

section \<open>The consensus\<close>

text \<open>What the second tier must answer, from the hits alone.\<close>

definition consensus_spec :: "router_env \<Rightarrow> (json \<Rightarrow> rat option) \<Rightarrow> nat \<Rightarrow> rat \<Rightarrow> hit list
    \<Rightarrow> route_decision option \<Rightarrow> bool" where
  "consensus_spec env lf m q hits r =
     (case r of
        None \<Rightarrow> \<not> ambiguous env lf hits \<and> (\<forall>k. \<not> carries env lf m q hits k)
      | Some d \<Rightarrow> final_decision env d \<and>
          (if rd_outcome d = DEC_MATCHED
           then \<not> ambiguous env lf hits
             \<and> (\<exists>k. (\<forall>l. carries env lf m q hits l \<longleftrightarrow> l = k) \<and> action_key env d = Inr k
                  \<and> rd_selected d = Some (snd k)
                  \<and> rp_confidence (rd_provenance d)
                    = Some (of_nat (card (support env lf hits k)) / of_nat (vote_total hits)))
           else rd_outcome d = DEC_CONFLICT \<and> rd_route d = Some ROUTE_MANUAL_REVIEW \<and> rd_selected d = None
             \<and> (ambiguous env lf hits
                \<or> (\<exists>k l. k \<noteq> l \<and> carries env lf m q hits k \<and> carries env lf m q hits l))))"

lemma conflict_spec:
  assumes "ambiguous env lf hits
    \<or> (\<exists>k l. k \<noteq> l \<and> carries env lf m q hits k \<and> carries env lf m q hits l)"
  shows "consensus_spec env lf m q hits (Some (conflict_decision evidence candidates))"
  using assms conflict_final [of env evidence candidates]
  by (simp add: consensus_spec_def) (simp add: conflict_decision_def)

lemma consensus_matched:
  "rd_outcome (consensus_decision t k rows) = DEC_MATCHED"
  "rd_selected (consensus_decision t k rows) = Some (snd k)"
  "rp_confidence (rd_provenance (consensus_decision t k rows))
     = Some (of_nat (length rows) / of_nat (denominator t))"
  by (simp_all add: consensus_decision_def Let_def tier2_provenance_def)

lemma tally_verdict_spec:
  assumes t: "tallies env lf hits t" and m: "1 \<le> m" and hex: "\<And>b. is_sha256_hex (r_sha256 env b)"
  shows "consensus_spec env lf m q hits (tally_verdict m q t)"
proof (cases "corrupt_evidence t = []")
  case False
  with corrupt_iff [OF t] have "ambiguous env lf hits" by blast
  then show ?thesis using False by (simp add: tally_verdict_def conflict_spec)
next
  case True
  with corrupt_iff [OF t] have unambiguous: "\<not> ambiguous env lf hits" by blast
  note carry = eligible_group [OF t m, where q = q, symmetric]
  consider (none) "eligible_groups m q t = []"
    | (one) k rows where "eligible_groups m q t = [(k, rows)]"
    | (many) a b gs where "eligible_groups m q t = a # b # gs"
    by (cases "eligible_groups m q t" rule: remdups_adj.cases) auto
  then show ?thesis
  proof cases
    case none
    with carry have "\<not> carries env lf m q hits k" for k by simp
    with unambiguous none True show ?thesis
      by (simp add: tally_verdict_def consensus_spec_def)
  next
    case one
    then have "(k, rows) \<in> set (eligible_groups m q t)" by simp
    from eligible_rows [OF this] have rows: "rows = pairs_with k (single_votes t)" "rows \<noteq> []"
      by blast+
    have "carries env lf m q hits l \<longleftrightarrow> l = k" for l
      using carry [of l] one by auto
    moreover have "length rows = card (support env lf hits k)"
      using voter_count [OF t] rows by simp
    ultimately have "\<exists>k'. (\<forall>l. carries env lf m q hits l \<longleftrightarrow> l = k')
        \<and> action_key env (consensus_decision t k rows) = Inr k'
        \<and> rd_selected (consensus_decision t k rows) = Some (snd k')
        \<and> rp_confidence (rd_provenance (consensus_decision t k rows))
          = Some (of_nat (card (support env lf hits k')) / of_nat (vote_total hits))"
      by (intro exI [of _ k] conjI allI)
        (simp_all only: consensus_final [OF t rows hex] consensus_matched denominator_total [OF t])
    then have "consensus_spec env lf m q hits (Some (consensus_decision t k rows))"
      using consensus_final(1) [OF t rows hex] unambiguous
      by (simp add: consensus_spec_def consensus_matched(1) del: split_paired_All split_paired_Ex)
    with one True show ?thesis by (simp add: tally_verdict_def)
  next
    case many
    have "fst a \<noteq> fst b" using eligible_keys [of m q t] many by auto
    moreover have "carries env lf m q hits (fst a)" "carries env lf m q hits (fst b)"
      using carry many by simp_all
    ultimately show ?thesis
      using many True
      by (cases a) (auto simp: tally_verdict_def simp del: split_paired_Ex intro!: conflict_spec)
  qed
qed

lemma decide_history_spec:
  assumes "decide_history env lf m q hits = Inr r" "1 \<le> m" "\<And>b. is_sha256_hex (r_sha256 env b)"
  shows "consensus_spec env lf m q hits r"
proof -
  from assms(1) obtain t where t: "tally_hits env lf no_votes hits = Inr t" and
    r: "(case tally_verdict m q t of
         None \<Rightarrow> Inr None
       | Some d \<Rightarrow> and_then (lift_error ConsensusRefused (construct env d)) (\<lambda>d. Inr (Some d))) = Inr r"
    by (auto simp: decide_history_def and_then_Inr)
  from r have "r = tally_verdict m q t"
    by (auto simp: and_then_Inr lift_error_def construct_def dest: RouteDecision_same
        split: option.splits sum.splits)
  with tally_verdict_spec [OF tally_hits_tallies [OF t] assms(2,3)] show ?thesis by simp
qed

section \<open>When the tier raises\<close>

definition countable_hit :: "router_env \<Rightarrow> (json \<Rightarrow> rat option) \<Rightarrow> hit \<Rightarrow> bool" where
  "countable_hit env lf h =
     (case evidence_id h of
        Inl _ \<Rightarrow> False
      | Inr None \<Rightarrow> True
      | Inr (Some i) \<Rightarrow>
          (case historical_label env lf h of
             None \<Rightarrow> True
           | Some d \<Rightarrow> (case rd_handoff_profile_id d of None \<Rightarrow> True | Some p \<Rightarrow> p \<in> set PROFILE_REGISTRY)))"

lemma canonicalize_typed:
  assumes "params_for_route env route l = Some typed"
  shows "is_ok (canonicalize_params env route typed)"
  using assms
  by (cases route)
    (auto simp: reply_params_def forward_params_def reason_params_def is_ok_def
      split: if_splits option.splits)

lemma registered_truthy: "p \<in> set PROFILE_REGISTRY \<Longrightarrow> truthy (Some p) = Some p"
  by (auto simp: PROFILE_REGISTRY_def truthy_def)

lemma action_key_ok:
  assumes "final_decision env d"
  shows "is_ok (action_key env d)
    \<longleftrightarrow> (case rd_handoff_profile_id d of None \<Rightarrow> True | Some p \<Rightarrow> p \<in> set PROFILE_REGISTRY)"
proof -
  from assms obtain route typed where r: "rd_route d = Some route"
    "params_for_route env route (rd_params d) = Some typed"
    by (rule final_decision_route) blast
  have pattern: "case rd_handoff_profile_id d of None \<Rightarrow> True | Some p \<Rightarrow> is_profile_id p"
    using assms by (auto simp: final_decision_def RouteDecision_def and_then_Inr)
  obtain canon where c: "canonicalize_params env route typed = Inr canon"
    using canonicalize_typed [OF r(2)] by (rule is_okE)
  show ?thesis
  proof (cases "rd_handoff_profile_id d")
    case None
    obtain a where "Decision env route None None (rd_params d) = Inr a" "d_typed a = typed" "d_route a = route"
      using r(2) by (auto simp: Decision_Inr)
    with None r c show ?thesis
      by (simp add: action_key_def lift_error_def truthy_def compute_action_fingerprint_def Let_def)
  next
    case (Some p)
    show ?thesis
    proof (cases "p \<in> set PROFILE_REGISTRY")
      case True
      obtain a where "Decision env route None (Some p) (rd_params d) = Inr a" "d_typed a = typed"
        "d_route a = route"
        using r(2) True pattern Some by (auto simp: Decision_Inr)
      with Some r c True show ?thesis
        by (simp add: action_key_def lift_error_def compute_action_fingerprint_def Let_def
            registered_truthy or_text_def)
    next
      case False
      then have "\<not> is_ok (Decision env route None (Some p) (rd_params d))"
        by (auto simp: is_ok_def Decision_Inr split: sum.splits)
      with Some False r show ?thesis
        by (auto simp: action_key_def and_then_def is_ok_def lift_error_def split: sum.splits)
    qed
  qed
qed

lemma record_hit_ok: "is_ok (record_hit env lf t h) \<longleftrightarrow> countable_hit env lf h"
proof (cases "evidence_id h")
  case (Inr i)
  show ?thesis
  proof (cases "i = None \<or> historical_label env lf h = None")
    case False
    then obtain j d where j: "i = Some j" "historical_label env lf h = Some d" by auto
    have "is_ok (action_key env d)
      \<longleftrightarrow> (case rd_handoff_profile_id d of None \<Rightarrow> True | Some p \<Rightarrow> p \<in> set PROFILE_REGISTRY)"
      using historical_label_final [OF j(2)] by (intro action_key_ok) simp
    moreover have "is_ok (record_hit env lf t h) \<longleftrightarrow> is_ok (action_key env d)"
      by (simp add: record_hit_def Inr j is_ok_def and_then_def split: sum.splits)
    ultimately show ?thesis by (simp add: countable_hit_def Inr j)
  qed (auto simp: record_hit_def countable_hit_def Inr split: option.splits)
qed (simp add: record_hit_def countable_hit_def)

lemma tally_hits_ok: "is_ok (tally_hits env lf t hs) \<longleftrightarrow> list_all (countable_hit env lf) hs"
proof (induction hs arbitrary: t)
  case (Cons h hs)
  show ?case
    using record_hit_ok [of env lf t h] Cons.IH
    by (cases "record_hit env lf t h") simp_all
qed simp

lemma decide_history_ok:
  assumes m: "1 \<le> m" and hex: "\<And>b. is_sha256_hex (r_sha256 env b)"
  shows "is_ok (decide_history env lf m q hits) \<longleftrightarrow> list_all (countable_hit env lf) hits"
proof (cases "tally_hits env lf no_votes hits")
  case (Inl e)
  with tally_hits_ok [of env lf no_votes hits] show ?thesis by (simp add: decide_history_def)
next
  case (Inr t)
  have "consensus_spec env lf m q hits (tally_verdict m q t)"
    by (rule tally_verdict_spec [OF tally_hits_tallies [OF Inr] m hex])
  then have "construct env d = Inr d" if "tally_verdict m q t = Some d" for d
    using that by (simp add: consensus_spec_def construct_def final_decision_def)
  then have "is_ok (decide_history env lf m q hits)"
    by (auto simp: decide_history_def Inr lift_error_def split: option.split)
  with Inr tally_hits_ok [of env lf no_votes hits] show ?thesis by simp
qed


text \<open>
  C39. The second tier raises exactly when some hit has an identity that no UTF-8 text can hold, or
  has a usable identity and a valid matched label whose handoff profile is not registered; the
  decision it builds, consensus or conflict, is always accepted by the constructor.
\<close>

theorem history_raises_exactly:
  assumes "1 \<le> m" "\<And>b. is_sha256_hex (r_sha256 env b)"
  shows "(\<exists>e. decide_history env lf m q hits = Inl e) \<longleftrightarrow> (\<exists>h\<in>set hits. \<not> countable_hit env lf h)"
  using decide_history_ok [OF assms, of lf q hits]
  by (cases "decide_history env lf m q hits") (auto simp: list_all_iff)

end
