(* ===== verification/RouterMatching.thy ===== *)
theory RouterMatching
  imports RouterDsl "HOL-Library.Code_Target_Nat"
begin

text \<open>
  Correctness of the matcher: the combinators are minimum and maximum of the order
  \<open>FALSE < UNKNOWN < TRUE\<close>, a validated rule with safe patterns always evaluates, an email whose
  fields are all resolved is decided as in two-valued logic, and resolving further fields never
  revises a verdict.
\<close>

section \<open>The Kleene order\<close>

fun tri_rank :: "tri_state \<Rightarrow> nat" where
  "tri_rank TRI_FALSE = 0"
| "tri_rank TRI_UNKNOWN = 1"
| "tri_rank TRI_TRUE = 2"

lemma tri_rank_inject: "tri_rank a = tri_rank b \<Longrightarrow> a = b"
  by (cases a; cases b) simp_all

instantiation tri_state :: linorder
begin

definition less_eq_tri_state :: "tri_state \<Rightarrow> tri_state \<Rightarrow> bool" where
  "less_eq_tri_state a b = (tri_rank a \<le> tri_rank b)"

definition less_tri_state :: "tri_state \<Rightarrow> tri_state \<Rightarrow> bool" where
  "less_tri_state a b = (tri_rank a < tri_rank b)"

instance
  by standard (auto simp: less_eq_tri_state_def less_tri_state_def dest: tri_rank_inject)

end

lemma tri_order [simp]:
  "TRI_FALSE \<le> t" "t \<le> TRI_TRUE" "t \<le> TRI_FALSE \<longleftrightarrow> t = TRI_FALSE" "TRI_TRUE \<le> t \<longleftrightarrow> t = TRI_TRUE"
  by (cases t; simp add: less_eq_tri_state_def)+

lemma tri_all_min: "tri_all ts = foldr min ts TRI_TRUE"
proof (induction ts)
  case (Cons t ts)
  then show ?case
    by (cases t) (auto simp: tri_all_def min_def less_eq_tri_state_def split: if_splits)
qed (simp add: tri_all_def)

lemma tri_any_max: "tri_any ts = foldr max ts TRI_FALSE"
proof (induction ts)
  case (Cons t ts)
  then show ?case
    by (cases t) (auto simp: tri_any_def max_def less_eq_tri_state_def split: if_splits)
qed (simp add: tri_any_def)

lemma tri_not_antitone: "tri_not a \<le> tri_not b \<longleftrightarrow> b \<le> a"
  by (cases a; cases b) (simp_all add: less_eq_tri_state_def)

lemma tri_not_all: "tri_not (tri_all ts) = tri_any (map tri_not ts)"
proof -
  have neg: "TRI_TRUE = tri_not t \<longleftrightarrow> t = TRI_FALSE" "tri_not t = TRI_FALSE \<longleftrightarrow> t = TRI_TRUE" for t
    by (cases t; simp)+
  have "TRI_TRUE \<in> tri_not ` set ts \<longleftrightarrow> TRI_FALSE \<in> set ts"
    by (auto simp: image_iff neg)
  moreover have "list_all (\<lambda>x. x = TRI_FALSE) (map tri_not ts) \<longleftrightarrow> list_all (\<lambda>x. x = TRI_TRUE) ts"
    by (simp add: list_all_iff neg)
  ultimately show ?thesis by (simp add: tri_all_def tri_any_def)
qed

section \<open>Validated rules always evaluate\<close>

text \<open>The patterns of a rule, checked at compile time.\<close>

definition leaf_regex_safe :: "router_env \<Rightarrow> condition_node \<Rightarrow> bool" where
  "leaf_regex_safe env c =
     (cn_op c = Some OP_REGEX \<longrightarrow>
        (case cn_value c of None \<Rightarrow> False | Some p \<Rightarrow> is_ok (compile_safe_regex env p)))"

lemma resolve_me_values_Some:
  "resolve_me_values me vs = Some ws \<Longrightarrow> length ws = length vs"
  by (induction vs arbitrary: ws) (auto split: option.splits)

text \<open>Operands that were not replaced by the placeholder are themselves.\<close>

lemma resolve_me_value_cases:
  "resolve_me_value me v = Some w \<Longrightarrow> w = v \<or> v = ME_PLACEHOLDER"
  by (auto simp: resolve_me_value_def split: if_splits)

definition shaped :: "match_field \<Rightarrow> match_op \<Rightarrow> pystr option \<Rightarrow> pystr list option \<Rightarrow> bool" where
  "shaped f ope value values \<longleftrightarrow>
     ((f \<in> set SET_FIELDS) = (ope \<in> set SET_ONLY_OPERATORS))
     \<and> (if ope \<in> set SCALAR_SINGLE_VALUE_OPERATORS then value \<noteq> None \<and> values = None
        else values \<noteq> None \<and> value = None)"

lemma validate_leaf_shaped:
  "validate_leaf_shape f ope value values = Inr u \<Longrightarrow> shaped f ope value values"
  by (auto simp: validate_leaf_shape_def shaped_def split: option.splits if_splits)

lemma resolve_kind:
  "f \<in> set SET_FIELDS \<Longrightarrow> resolve view f \<noteq> Scalar s"
  "f \<notin> set SET_FIELDS \<Longrightarrow> resolve view f \<noteq> AddressSet xs"
  by (cases f; simp add: SET_FIELDS_def of_set_def of_scalar_def split: view_field.splits)+

lemmas operator_defs = scalar_eq_def scalar_in_def scalar_contains_def scalar_contains_any_def
  scalar_regex_def set_has_any_def set_has_all_def scalar_op_def set_op_def

lemma apply_operator_total:
  assumes "shaped f ope value values"
    "ope = OP_REGEX \<Longrightarrow> (\<exists>p. value = Some p \<and> is_ok (compile_safe_regex env p))"
  shows "is_ok (apply_operator env (Some ope) (resolve view f) value values)"
proof (cases "resolve view f")
  case Unresolved
  then show ?thesis using assms(1)
    by (cases ope)
      (auto simp: apply_operator_def operator_defs shaped_def SCALAR_SINGLE_VALUE_OPERATORS_def)
next
  case (Scalar s)
  then have "f \<notin> set SET_FIELDS" using resolve_kind(1) by metis
  with Scalar assms show ?thesis
    by (cases ope)
      (auto simp: apply_operator_def operator_defs shaped_def SCALAR_SINGLE_VALUE_OPERATORS_def
        SET_ONLY_OPERATORS_def elim!: is_okE)
next
  case (AddressSet s)
  then have "f \<in> set SET_FIELDS" using resolve_kind(2) by metis
  with AddressSet assms show ?thesis
    by (cases ope)
      (auto simp: apply_operator_def operator_defs shaped_def SCALAR_SINGLE_VALUE_OPERATORS_def
        SET_ONLY_OPERATORS_def)
qed

text \<open>
  What the compiler checked of a pattern says nothing about the mailbox address that replaces
  the placeholder, so that address is a condition of its own.
\<close>

definition me_safe :: "router_env \<Rightarrow> pystr option \<Rightarrow> bool" where
  "me_safe env me = (case me_known me of None \<Rightarrow> True | Some a \<Rightarrow> is_ok (compile_safe_regex env a))"

lemma resolved_operand_shaped:
  assumes "shaped f ope value values" "map_option (resolve_me_value me) value \<noteq> Some None"
    "map_option (resolve_me_values me) values \<noteq> Some None"
  shows "shaped f ope (Option.bind (map_option (resolve_me_value me) value) (\<lambda>x. x))
    (Option.bind (map_option (resolve_me_values me) values) (\<lambda>x. x))"
  using assms by (cases "value"; cases "values") (auto simp: shaped_def split: if_splits)

lemma evaluate_leaf_total:
  assumes shape: "shaped f ope value values" and me: "me_safe env me"
    and safe: "ope = OP_REGEX \<Longrightarrow> (\<exists>p. value = Some p \<and> is_ok (compile_safe_regex env p))"
  shows "is_ok (evaluate_leaf env me view f (Some ope) value values)"
proof (cases "map_option (resolve_me_value me) value = Some None
    \<or> map_option (resolve_me_values me) values = Some None")
  case True
  then show ?thesis by (simp add: evaluate_leaf_def)
next
  case False
  let ?v = "Option.bind (map_option (resolve_me_value me) value) (\<lambda>x. x)"
  let ?vs = "Option.bind (map_option (resolve_me_values me) values) (\<lambda>x. x)"
  have "is_ok (apply_operator env (Some ope) (resolve view f) ?v ?vs)"
  proof (rule apply_operator_total)
    show "shaped f ope ?v ?vs" using shape False by (intro resolved_operand_shaped) auto
    assume "ope = OP_REGEX"
    with safe obtain p where p: "value = Some p" "is_ok (compile_safe_regex env p)" by blast
    with False obtain w where w: "resolve_me_value me p = Some w" by auto
    have "is_ok (compile_safe_regex env w)"
      using p w me by (auto simp: resolve_me_value_def me_safe_def split: if_splits)
    with p(1) w show "\<exists>p. ?v = Some p \<and> is_ok (compile_safe_regex env p)" by simp
  qed
  with False show ?thesis by (simp add: evaluate_leaf_def Let_def)
qed

lemma leaf_node_total:
  assumes "exactly_one_shape (ConditionNode a b n (Some f) ope v vs) = Inr ()" "me_safe env me"
    "leaf_regex_safe env (ConditionNode a b n (Some f) ope v vs)"
  shows "is_ok (evaluate_leaf env me view f ope v vs)"
proof -
  from assms(1) obtain ope' where "ope = Some ope'" "validate_leaf_shape f ope' v vs = Inr ()"
    by (auto simp: exactly_one_shape_def split: if_splits option.splits)
  with assms(2,3) validate_leaf_shaped show ?thesis
    by (auto simp: leaf_regex_safe_def split: option.splits intro!: evaluate_leaf_total)
qed

text \<open>A node that is not a leaf has exactly one of its three groups.\<close>

lemma group_shape:
  assumes "exactly_one_shape (ConditionNode a b n None ope v vs) = Inr ()"
  shows "(\<exists>xs. a = Some xs \<and> b = None \<and> n = None) \<or> (\<exists>xs. a = None \<and> b = Some xs \<and> n = None)
    \<or> (\<exists>x. a = None \<and> b = None \<and> n = Some x)"
  using assms
  by (cases a; cases b; cases n) (auto simp: exactly_one_shape_def condition_shapes_def split: if_splits)

lemma evaluate_node_total:
  "validate_condition c = Inr () \<Longrightarrow> list_all (leaf_regex_safe env) (condition_leaves c)
    \<Longrightarrow> me_safe env me \<Longrightarrow> is_ok (evaluate_node env me view c)"
  "validate_conditions cs = Inr () \<Longrightarrow> list_all (leaf_regex_safe env) (conditions_leaves cs)
    \<Longrightarrow> me_safe env me \<Longrightarrow> is_ok (evaluate_nodes env me view cs)"
proof (induction c and cs rule: validate_condition_validate_conditions.induct)
  case (1 a b n f ope v vs)
  from "1.prems"(1) have shape: "exactly_one_shape (ConditionNode a b n f ope v vs) = Inr ()"
    by (auto simp: and_then_Inr)
  show ?case
  proof (cases f)
    case (Some f')
    with "1.prems"(2) have "leaf_regex_safe env (ConditionNode a b n (Some f') ope v vs)" by simp
    with leaf_node_total [OF shape [unfolded Some] "1.prems"(3)] Some show ?thesis by simp
  next
    case None
    from group_shape [OF shape [unfolded None]] show ?thesis
    proof (elim disjE exE conjE)
      fix xs assume "a = Some xs" "b = None" "n = None"
      with None "1.prems" "1.IH"(1) show ?thesis by (auto simp: and_then_Inr elim!: is_okE)
    next
      fix xs assume "a = None" "b = Some xs" "n = None"
      with None "1.prems" "1.IH"(2) show ?thesis by (auto simp: and_then_Inr elim!: is_okE)
    next
      fix x assume "a = None" "b = None" "n = Some x"
      with None "1.prems" "1.IH"(3) show ?thesis by (auto simp: and_then_Inr elim!: is_okE)
    qed
  qed
qed (auto simp: and_then_Inr elim!: is_okE)

lemma validate_children_set:
  "validate_children check (Some xs) = Inr u \<Longrightarrow> x \<in> set xs \<Longrightarrow> check x = Inr ()"
proof (induction xs arbitrary: u)
  case (Cons y xs)
  then show ?case by (auto simp: validate_children_def and_then_Inr split: sum.splits)
qed simp

lemma traverse_total: "(\<And>x. x \<in> set xs \<Longrightarrow> is_ok (f x)) \<Longrightarrow> is_ok (traverse f xs)"
proof (induction xs)
  case (Cons x xs)
  then have "is_ok (f x)" "is_ok (traverse f xs)" by simp_all
  then show ?case by (auto elim!: is_okE)
qed simp

lemma evaluate_anchor_condition_total:
  assumes "validate_anchor_condition c = Inr ()" "me_safe env me"
  shows "is_ok (evaluate_anchor_condition env me view c)"
proof -
  from assms(1) have "shaped (ac_field c) (ac_op c) (ac_value c) (ac_values c)" "ac_op c \<noteq> OP_REGEX"
    by (auto simp: validate_anchor_condition_def and_then_Inr ANCHOR_OPS_def
        dest: validate_leaf_shaped)
  with assms(2) show ?thesis
    unfolding evaluate_anchor_condition_def by (intro evaluate_leaf_total) auto
qed

lemma evaluate_anchor_total:
  assumes "validate_anchor_group a = Inr u" "me_safe env me"
  shows "is_ok (evaluate_anchor env me view a)"
proof -
  from assms(1) obtain cs where cs: "anchor_conditions a = Some cs"
    "\<And>c. c \<in> set cs \<Longrightarrow> validate_anchor_condition c = Inr ()"
    by (auto simp: validate_anchor_group_def and_then_Inr anchor_conditions_def
        split: option.splits dest: validate_children_set)
  have "is_ok (traverse (evaluate_anchor_condition env me view) cs)"
    by (rule traverse_total) (rule evaluate_anchor_condition_total [OF cs(2) assms(2)])
  then show ?thesis unfolding evaluate_anchor_def cs(1) by (auto elim!: is_okE)
qed

lemma evaluate_match_total:
  assumes "validate_match m = Inr ()" "list_all (leaf_regex_safe env) (iter_condition_leaves (m_conditions m))"
    "me_safe env me"
  shows "is_ok (evaluate_match env me view m)"
proof -
  from assms(1) have "is_ok (evaluate_anchor env me view (m_anchor m))"
    by (auto simp: validate_match_def and_then_Inr intro: evaluate_anchor_total [OF _ assms(3)])
  moreover have "is_ok (evaluate_condition_node env me view (m_conditions m))"
  proof (cases "m_conditions m")
    case (Some c)
    with assms(1) have "validate_condition c = Inr ()" by (auto simp: validate_match_def and_then_Inr)
    with Some assms(2,3) show ?thesis
      by (simp add: evaluate_condition_node_def iter_condition_leaves_def evaluate_node_total)
  qed (simp add: evaluate_condition_node_def)
  ultimately show ?thesis
    by (auto simp: evaluate_match_def split: tri_state.split elim!: is_okE)
qed

section \<open>More information never revises a verdict\<close>

definition field_le :: "'a view_field \<Rightarrow> 'a view_field \<Rightarrow> bool" where
  "field_le x y = (x = Unknown \<or> x = y)"

definition view_le :: "email_view \<Rightarrow> email_view \<Rightarrow> bool" where
  "view_le v w \<longleftrightarrow>
     field_le (sender_address v) (sender_address w) \<and> field_le (to_addresses v) (to_addresses w)
     \<and> field_le (cc_addresses v) (cc_addresses w) \<and> field_le (v_subject v) (v_subject w)
     \<and> field_le (body_current_text v) (body_current_text w)
     \<and> field_le (body_full_text v) (body_full_text w)"

definition me_le :: "pystr option \<Rightarrow> pystr option \<Rightarrow> bool" where
  "me_le a b = (me_known a = None \<or> me_known a = me_known b)"

definition tri_le :: "tri_state \<Rightarrow> tri_state \<Rightarrow> bool" where
  "tri_le s t = (s = TRI_UNKNOWN \<or> s = t)"

lemma resolve_le:
  assumes "view_le v w"
  shows "resolve v f = Unresolved \<or> resolve v f = resolve w f"
  using assms by (cases f) (auto simp: view_le_def field_le_def of_scalar_def of_set_def)

lemma resolve_me_value_le:
  "me_le me me' \<Longrightarrow> resolve_me_value me v = None \<or> resolve_me_value me v = resolve_me_value me' v"
  by (auto simp: me_le_def resolve_me_value_def)

lemma resolve_me_values_le:
  assumes "me_le me me'"
  shows "resolve_me_values me vs = None \<or> resolve_me_values me vs = resolve_me_values me' vs"
proof (induction vs)
  case (Cons v vs)
  with resolve_me_value_le [OF assms, of v] show ?case by (auto split: option.splits)
qed simp

lemma apply_operator_unresolved:
  "apply_operator env ope Unresolved v vs = Inr s \<Longrightarrow> s = TRI_UNKNOWN"
  by (auto simp: apply_operator_def operator_defs split: option.splits match_op.splits)

lemma evaluate_leaf_le:
  assumes le: "view_le v w" "me_le me me'"
    and s: "evaluate_leaf env me v f ope value values = Inr s"
    and t: "evaluate_leaf env me' w f ope value values = Inr t"
  shows "tri_le s t"
proof (cases "map_option (resolve_me_value me) value = Some None
    \<or> map_option (resolve_me_values me) values = Some None")
  case True
  with s show ?thesis by (auto simp: evaluate_leaf_def tri_le_def)
next
  case False
  then have same: "map_option (resolve_me_value me) value = map_option (resolve_me_value me') value"
  proof (cases "value")
    case (Some x)
    with False resolve_me_value_le [OF le(2), of x] show ?thesis by auto
  qed simp
  from False
  have same': "map_option (resolve_me_values me) values = map_option (resolve_me_values me') values"
  proof (cases "values")
    case (Some xs)
    with False resolve_me_values_le [OF le(2), of xs] show ?thesis by auto
  qed simp
  from s t False have op_s: "apply_operator env ope (resolve v f)
      (Option.bind (map_option (resolve_me_value me) value) (\<lambda>x. x))
      (Option.bind (map_option (resolve_me_values me) values) (\<lambda>x. x)) = Inr s"
    and op_t: "apply_operator env ope (resolve w f)
      (Option.bind (map_option (resolve_me_value me) value) (\<lambda>x. x))
      (Option.bind (map_option (resolve_me_values me) values) (\<lambda>x. x)) = Inr t"
    unfolding evaluate_leaf_def Let_def same [symmetric] same' [symmetric] by (simp_all only: if_False)
  from resolve_le [OF le(1), of f] show ?thesis
  proof
    assume "resolve v f = Unresolved"
    with op_s have "s = TRI_UNKNOWN" by (auto dest: apply_operator_unresolved)
    then show ?thesis by (simp add: tri_le_def)
  next
    assume "resolve v f = resolve w f"
    with op_s op_t show ?thesis by (simp add: tri_le_def)
  qed
qed

lemma tri_min_max_le:
  "tri_le a b \<Longrightarrow> tri_le c d \<Longrightarrow> tri_le (min a c) (min b d)"
  "tri_le a b \<Longrightarrow> tri_le c d \<Longrightarrow> tri_le (max a c) (max b d)"
  by (cases a; cases b; cases c; cases d; simp add: tri_le_def min_def max_def less_eq_tri_state_def)+

lemma tri_lists_le:
  assumes "list_all2 tri_le ss ts"
  shows "tri_le (tri_all ss) (tri_all ts)" "tri_le (tri_any ss) (tri_any ts)"
  using assms unfolding tri_all_min tri_any_max
  by (induction rule: list_all2_induct) (simp_all add: tri_min_max_le, simp_all add: tri_le_def)

lemma evaluate_node_le:
  assumes le: "view_le v w" "me_le me me'"
  shows "evaluate_node env me v c = Inr s \<Longrightarrow> evaluate_node env me' w c = Inr t \<Longrightarrow> tri_le s t"
    and "evaluate_nodes env me v cs = Inr ss \<Longrightarrow> evaluate_nodes env me' w cs = Inr ts
      \<Longrightarrow> list_all2 tri_le ss ts"
proof (induction c and cs arbitrary: s t and ss ts rule: validate_condition_validate_conditions.induct)
  case (1 a b n f ope vl vls)
  show ?case
  proof (cases f)
    case (Some f')
    with "1.prems" show ?thesis by (auto intro: evaluate_leaf_le [OF le])
  next
    case None
    show ?thesis
    proof (cases a)
      case (Some xs)
      with None "1.prems" "1.IH"(1) show ?thesis by (auto simp: and_then_Inr intro: tri_lists_le)
    next
      case aNone: None
      show ?thesis
      proof (cases b)
        case (Some xs)
        with None aNone "1.prems" "1.IH"(2) show ?thesis
          by (auto simp: and_then_Inr intro: tri_lists_le)
      next
        case bNone: None
        show ?thesis
        proof (cases n)
          case None
          with \<open>f = None\<close> aNone bNone "1.prems" show ?thesis by simp
        next
          case (Some x)
          with None aNone bNone "1.prems" obtain p q where
            "evaluate_node env me v x = Inr p" "s = tri_not p"
            "evaluate_node env me' w x = Inr q" "t = tri_not q"
            by (auto simp: and_then_Inr)
          moreover from this "1.IH"(3) [OF Some] have "tri_le p q" by blast
          ultimately show ?thesis by (auto simp: tri_le_def)
        qed
      qed
    qed
  qed
next
  case (3 x xs)
  then show ?case by (auto simp: and_then_Inr)
qed simp

lemma traverse_list_all2:
  "traverse f xs = Inr ss \<Longrightarrow> traverse g xs = Inr ts
   \<Longrightarrow> (\<And>x s t. f x = Inr s \<Longrightarrow> g x = Inr t \<Longrightarrow> P s t) \<Longrightarrow> list_all2 P ss ts"
  by (induction xs arbitrary: ss ts) (auto split: sum.splits)

lemma evaluate_anchor_le:
  assumes le: "view_le v w" "me_le me me'"
    and "evaluate_anchor env me v a = Inr s" "evaluate_anchor env me' w a = Inr t"
  shows "tri_le s t"
proof -
  from assms(3,4) obtain cs ss ts where
    ss: "traverse (evaluate_anchor_condition env me v) cs = Inr ss"
    and ts: "traverse (evaluate_anchor_condition env me' w) cs = Inr ts"
    and s: "s = (if ag_any a \<noteq> None then tri_any ss else tri_all ss)"
    and t: "t = (if ag_any a \<noteq> None then tri_any ts else tri_all ts)"
    by (auto simp: evaluate_anchor_def and_then_Inr)
  have "list_all2 tri_le ss ts"
    by (rule traverse_list_all2 [OF ss ts])
      (unfold evaluate_anchor_condition_def, rule evaluate_leaf_le [OF le])
  with s t tri_lists_le show ?thesis by metis
qed

text \<open>
  C27. Resolving more of an email never revises a verdict: when a rule is evaluated on a view
  with unresolved fields, or without knowing the mailbox's own address, and answers matched or
  not matched, then evaluating it on any view that resolves further fields to whatever values,
  or with the address known, gives the same answer. Only \<^verbatim>\<open>INDETERMINATE\<close>, which sends the email to
  manual review, may change.
\<close>

theorem verdict_survives_resolution:
  assumes "view_le v w" "me_le me me'"
    "evaluate_match env me v m = Inr s" "evaluate_match env me' w m = Inr t"
  shows "s = RULE_INDETERMINATE \<or> s = t"
proof -
  from assms(3) obtain a where a: "evaluate_anchor env me v (m_anchor m) = Inr a"
    by (auto simp: evaluate_match_def and_then_Inr)
  from assms(4) obtain b where b: "evaluate_anchor env me' w (m_anchor m) = Inr b"
    by (auto simp: evaluate_match_def and_then_Inr)
  have ab: "tri_le a b" by (rule evaluate_anchor_le [OF assms(1,2) a b])
  show ?thesis
  proof (cases a)
    case TRI_TRUE
    with ab have "b = TRI_TRUE" by (simp add: tri_le_def)
    with TRI_TRUE a b assms(3,4) obtain p q where
      p: "evaluate_condition_node env me v (m_conditions m) = Inr p"
        "s = (case p of TRI_TRUE \<Rightarrow> RULE_MATCHED | TRI_FALSE \<Rightarrow> RULE_NOT_MATCHED | TRI_UNKNOWN \<Rightarrow> RULE_INDETERMINATE)"
      and q: "evaluate_condition_node env me' w (m_conditions m) = Inr q"
        "t = (case q of TRI_TRUE \<Rightarrow> RULE_MATCHED | TRI_FALSE \<Rightarrow> RULE_NOT_MATCHED | TRI_UNKNOWN \<Rightarrow> RULE_INDETERMINATE)"
      by (auto simp: evaluate_match_def and_then_Inr)
    have "tri_le p q"
      using p(1) q(1) evaluate_node_le(1) [OF assms(1,2)]
      by (auto simp: evaluate_condition_node_def tri_le_def split: option.splits)
    with p(2) q(2) show ?thesis by (auto simp: tri_le_def)
  next
    case TRI_FALSE
    with ab have "b = TRI_FALSE" by (simp add: tri_le_def)
    with TRI_FALSE a b assms(3,4) show ?thesis by (auto simp: evaluate_match_def)
  next
    case TRI_UNKNOWN
    with a assms(3) show ?thesis by (auto simp: evaluate_match_def)
  qed
qed

section \<open>Two-valued semantics\<close>

text \<open>
  An email all of whose fields are resolved, and what a condition says of it in classical
  logic, with the mailbox's own address put in place of the placeholder.
\<close>

record plain_email =
  pe_sender :: pystr
  pe_to :: "pystr list"
  pe_cc :: "pystr list"
  pe_subject :: pystr
  pe_current :: pystr
  pe_full :: pystr

definition known_view :: "plain_email \<Rightarrow> email_view" where
  "known_view e = \<lparr>sender_address = Known (pe_sender e), to_addresses = Known (pe_to e),
     cc_addresses = Known (pe_cc e), v_subject = Known (pe_subject e),
     body_current_text = Known (pe_current e), body_full_text = Known (pe_full e)\<rparr>"

fun scalar_text :: "plain_email \<Rightarrow> match_field \<Rightarrow> pystr" where
  "scalar_text e SENDER_ADDRESS = pe_sender e"
| "scalar_text e SUBJECT = pe_subject e"
| "scalar_text e BODY_CURRENT_TEXT = pe_current e"
| "scalar_text e BODY_FULL_TEXT = pe_full e"
| "scalar_text e _ = []"

fun address_list :: "plain_email \<Rightarrow> match_field \<Rightarrow> pystr list" where
  "address_list e TO_ADDRESSES = pe_to e"
| "address_list e CC_ADDRESSES = pe_cc e"
| "address_list e _ = []"

definition subst_me :: "pystr \<Rightarrow> pystr \<Rightarrow> pystr" where
  "subst_me a v = (if v = ME_PLACEHOLDER then a else v)"

fun op_holds :: "router_env \<Rightarrow> pystr \<Rightarrow> pystr list \<Rightarrow> match_op \<Rightarrow> pystr \<Rightarrow> pystr list \<Rightarrow> bool" where
  "op_holds env s items OP_EQ v vs \<longleftrightarrow> normalize_text env s = normalize_text env v"
| "op_holds env s items OP_IN v vs \<longleftrightarrow> (\<exists>w\<in>set vs. normalize_text env s = normalize_text env w)"
| "op_holds env s items OP_CONTAINS v vs \<longleftrightarrow>
     (\<exists>p q. casefold env s = p @ casefold env v @ q)"
| "op_holds env s items OP_CONTAINS_ANY v vs \<longleftrightarrow>
     (\<exists>w\<in>set vs. \<exists>p q. casefold env s = p @ casefold env w @ q)"
| "op_holds env s items OP_REGEX v vs \<longleftrightarrow> re_search env v s"
| "op_holds env s items OP_HAS_ANY v vs \<longleftrightarrow>
     (\<exists>w\<in>set vs. \<exists>i\<in>set items. normalize_text env i = normalize_text env w)"
| "op_holds env s items OP_HAS_ALL v vs \<longleftrightarrow>
     (\<forall>w\<in>set vs. \<exists>i\<in>set items. normalize_text env i = normalize_text env w)"

definition leaf_holds :: "router_env \<Rightarrow> pystr \<Rightarrow> plain_email \<Rightarrow> match_field \<Rightarrow> match_op option
    \<Rightarrow> pystr option \<Rightarrow> pystr list option \<Rightarrow> bool" where
  "leaf_holds env a e f ope value values =
     op_holds env (scalar_text e f) (address_list e f) (the ope) (subst_me a (the value))
       (map (subst_me a) (the values))"

fun node_holds :: "router_env \<Rightarrow> pystr \<Rightarrow> plain_email \<Rightarrow> condition_node \<Rightarrow> bool"
  and nodes_hold :: "router_env \<Rightarrow> pystr \<Rightarrow> plain_email \<Rightarrow> condition_node list \<Rightarrow> bool list" where
  "node_holds env me e (ConditionNode a b n f ope v vs) =
     (case f of
        Some f \<Rightarrow> leaf_holds env me e f ope v vs
      | None \<Rightarrow>
          (case a of Some xs \<Rightarrow> list_all id (nodes_hold env me e xs)
           | None \<Rightarrow>
               (case b of Some xs \<Rightarrow> list_ex id (nodes_hold env me e xs)
                | None \<Rightarrow> (case n of Some x \<Rightarrow> \<not> node_holds env me e x | None \<Rightarrow> False))))"
| "nodes_hold env me e [] = []"
| "nodes_hold env me e (x # xs) = node_holds env me e x # nodes_hold env me e xs"

definition anchor_holds :: "router_env \<Rightarrow> pystr \<Rightarrow> plain_email \<Rightarrow> anchor_group \<Rightarrow> bool" where
  "anchor_holds env me e a =
     (let holds = (\<lambda>c. leaf_holds env me e (ac_field c) (Some (ac_op c)) (ac_value c) (ac_values c))
      in case ag_any a of
           Some cs \<Rightarrow> list_ex holds cs
         | None \<Rightarrow> list_all holds (the (ag_all a)))"

definition match_holds :: "router_env \<Rightarrow> pystr \<Rightarrow> plain_email \<Rightarrow> rule_match \<Rightarrow> bool" where
  "match_holds env me e m =
     (anchor_holds env me e (m_anchor m)
      \<and> (case m_conditions m of None \<Rightarrow> True | Some c \<Rightarrow> node_holds env me e c))"

definition short_texts :: "plain_email \<Rightarrow> bool" where
  "short_texts e = (\<forall>f. length (scalar_text e f) \<le> MAX_REGEX_INPUT_LENGTH)"

lemma short_texts_iff:
  "short_texts e \<longleftrightarrow> length (pe_sender e) \<le> MAX_REGEX_INPUT_LENGTH
     \<and> length (pe_subject e) \<le> MAX_REGEX_INPUT_LENGTH \<and> length (pe_current e) \<le> MAX_REGEX_INPUT_LENGTH
     \<and> length (pe_full e) \<le> MAX_REGEX_INPUT_LENGTH"
  unfolding short_texts_def
proof (intro iffI)
  assume short: "length (pe_sender e) \<le> MAX_REGEX_INPUT_LENGTH
     \<and> length (pe_subject e) \<le> MAX_REGEX_INPUT_LENGTH \<and> length (pe_current e) \<le> MAX_REGEX_INPUT_LENGTH
     \<and> length (pe_full e) \<le> MAX_REGEX_INPUT_LENGTH"
  show "\<forall>f. length (scalar_text e f) \<le> MAX_REGEX_INPUT_LENGTH"
  proof
    fix f show "length (scalar_text e f) \<le> MAX_REGEX_INPUT_LENGTH"
      using short by (cases f) simp_all
  qed
qed (metis scalar_text.simps(1-4))

lemma resolve_known:
  "resolve (known_view e) f =
     (if f \<in> set SET_FIELDS then AddressSet (address_list e f) else Scalar (scalar_text e f))"
  by (cases f) (simp_all add: known_view_def SET_FIELDS_def of_scalar_def of_set_def)

lemma resolve_me_known:
  assumes "a \<noteq> []"
  shows "resolve_me_value (Some a) v = Some (subst_me a v)"
    and "resolve_me_values (Some a) vs = Some (map (subst_me a) vs)"
proof -
  show one: "resolve_me_value (Some a) v = Some (subst_me a v)" for v
    using assms by (simp add: resolve_me_value_def subst_me_def me_known_def)
  show "resolve_me_values (Some a) vs = Some (map (subst_me a) vs)"
    by (induction vs) (simp_all add: one)
qed

lemma image_subset_match: "f ` A \<subseteq> f ` B \<longleftrightarrow> (\<forall>w\<in>A. \<exists>i\<in>B. f i = f w)"
proof
  assume "f ` A \<subseteq> f ` B"
  then show "\<forall>w\<in>A. \<exists>i\<in>B. f i = f w" by (auto simp: image_subset_iff image_iff intro: sym)
next
  assume "\<forall>w\<in>A. \<exists>i\<in>B. f i = f w"
  then show "f ` A \<subseteq> f ` B" by (auto simp: image_subset_iff image_iff) (metis)
qed

lemma image_meet_match: "f ` A \<inter> f ` B \<noteq> {} \<longleftrightarrow> (\<exists>w\<in>A. \<exists>i\<in>B. f i = f w)"
proof
  assume "f ` A \<inter> f ` B \<noteq> {}"
  then obtain w i where "w \<in> A" "i \<in> B" "f w = f i" by auto
  then show "\<exists>w\<in>A. \<exists>i\<in>B. f i = f w" by metis
next
  assume "\<exists>w\<in>A. \<exists>i\<in>B. f i = f w"
  then obtain w i where "w \<in> A" "i \<in> B" "f i = f w" by auto
  then have "f w \<in> f ` A \<inter> f ` B" by (metis Int_iff imageI)
  then show "f ` A \<inter> f ` B \<noteq> {}" by auto
qed

lemma set_ops_known:
  "set_has_any env (AddressSet items) vs =
     Inr (tri (\<exists>w\<in>set vs. \<exists>i\<in>set items. normalize_text env i = normalize_text env w))"
  "set_has_all env (AddressSet items) vs =
     Inr (tri (\<forall>w\<in>set vs. \<exists>i\<in>set items. normalize_text env i = normalize_text env w))"
  unfolding set_has_any_def set_has_all_def set_op_def image_meet_match image_subset_match
  by (simp_all only: resolved.case)

lemma scalar_ops_known:
  "scalar_eq env (Scalar s) v = Inr (tri (normalize_text env s = normalize_text env v))"
  "scalar_in env (Scalar s) vs =
     Inr (tri (\<exists>w\<in>set vs. normalize_text env s = normalize_text env w))"
  "scalar_contains env (Scalar s) v = Inr (tri (\<exists>p q. casefold env s = p @ casefold env v @ q))"
  "scalar_contains_any env (Scalar s) vs =
     Inr (tri (\<exists>w\<in>set vs. \<exists>p q. casefold env s = p @ casefold env w @ q))"
  "length s \<le> MAX_REGEX_INPUT_LENGTH \<Longrightarrow> is_ok (compile_safe_regex env p)
   \<Longrightarrow> scalar_regex env (Scalar s) p = Inr (tri (re_search env p s))"
  by (auto simp: operator_defs py_contains_iff list_ex_iff image_iff elim!: is_okE)

lemma evaluate_leaf_known:
  assumes shape: "shaped f ope value values" and a: "a \<noteq> []" "me_safe env (Some a)"
    and short: "short_texts e"
    and safe: "ope = OP_REGEX \<Longrightarrow> (\<exists>p. value = Some p \<and> is_ok (compile_safe_regex env p))"
  shows "evaluate_leaf env (Some a) (known_view e) f (Some ope) value values =
    Inr (tri (leaf_holds env a e f (Some ope) value values))"
proof -
  have operands: "evaluate_leaf env (Some a) (known_view e) f (Some ope) value values =
      apply_operator env (Some ope) (resolve (known_view e) f) (map_option (subst_me a) value)
        (map_option (map (subst_me a)) values)"
    by (cases "value"; cases "values") (simp_all add: evaluate_leaf_def resolve_me_known [OF a(1)])
  have regex: "is_ok (compile_safe_regex env (subst_me a p))" if "ope = OP_REGEX" "value = Some p" for p
    using safe [OF that(1)] that(2) a(2)
    by (auto simp: subst_me_def me_safe_def me_known_def a(1))
  have len: "length (scalar_text e f) \<le> MAX_REGEX_INPUT_LENGTH"
    using short by (simp add: short_texts_def)
  show ?thesis
    unfolding operands resolve_known
    using shape regex len
    by (cases ope)
      (auto simp: apply_operator_def shaped_def leaf_holds_def SCALAR_SINGLE_VALUE_OPERATORS_def
        SET_ONLY_OPERATORS_def scalar_ops_known set_ops_known)
qed

lemma tri_all_known: "tri_all (map tri bs) = tri (list_all id bs)"
  unfolding tri_all_min by (induction bs) (auto simp: tri_def min_def)

lemma tri_any_known: "tri_any (map tri bs) = tri (list_ex id bs)"
  unfolding tri_any_max by (induction bs) (auto simp: tri_def max_def)

lemma tri_not_known: "tri_not (tri b) = tri (\<not> b)"
  by (simp add: tri_def)

lemma evaluate_node_known:
  assumes a: "a \<noteq> []" "me_safe env (Some a)" and short: "short_texts e"
  shows "validate_condition c = Inr () \<Longrightarrow> list_all (leaf_regex_safe env) (condition_leaves c)
    \<Longrightarrow> evaluate_node env (Some a) (known_view e) c = Inr (tri (node_holds env a e c))"
  and "validate_conditions cs = Inr () \<Longrightarrow> list_all (leaf_regex_safe env) (conditions_leaves cs)
    \<Longrightarrow> evaluate_nodes env (Some a) (known_view e) cs = Inr (map tri (nodes_hold env a e cs))"
proof (induction c and cs rule: validate_condition_validate_conditions.induct)
  case (1 al an n f ope v vs)
  from "1.prems"(1) have shape: "exactly_one_shape (ConditionNode al an n f ope v vs) = Inr ()"
    by (auto simp: and_then_Inr)
  show ?case
  proof (cases f)
    case (Some f')
    from shape Some obtain ope' where "ope = Some ope'" "validate_leaf_shape f' ope' v vs = Inr ()"
      by (auto simp: exactly_one_shape_def split: if_splits option.splits)
    moreover from "1.prems"(2) Some have "leaf_regex_safe env (ConditionNode al an n (Some f') ope v vs)"
      by simp
    ultimately show ?thesis
      using evaluate_leaf_known [OF validate_leaf_shaped a short] Some
      by (auto simp: leaf_regex_safe_def split: option.splits)
  next
    case None
    from group_shape [OF shape [unfolded None]] show ?thesis
    proof (elim disjE exE conjE)
      fix xs assume "al = Some xs" "an = None" "n = None"
      with None "1.prems" "1.IH"(1) show ?thesis by (auto simp: and_then_Inr tri_all_known)
    next
      fix xs assume "al = None" "an = Some xs" "n = None"
      with None "1.prems" "1.IH"(2) show ?thesis by (auto simp: and_then_Inr tri_any_known)
    next
      fix x assume "al = None" "an = None" "n = Some x"
      with None "1.prems" "1.IH"(3) show ?thesis by (auto simp: and_then_Inr tri_not_known)
    qed
  qed
qed (auto simp: and_then_Inr)

lemma traverse_map: "(\<And>x. x \<in> set xs \<Longrightarrow> f x = Inr (g x)) \<Longrightarrow> traverse f xs = Inr (map g xs)"
  by (induction xs) simp_all

lemma evaluate_anchor_known:
  assumes v: "validate_anchor_group g = Inr u" and a: "a \<noteq> []" "me_safe env (Some a)"
    and short: "short_texts e"
  shows "evaluate_anchor env (Some a) (known_view e) g = Inr (tri (anchor_holds env a e g))"
proof -
  let ?holds = "\<lambda>c. leaf_holds env a e (ac_field c) (Some (ac_op c)) (ac_value c) (ac_values c)"
  have leaf: "evaluate_anchor_condition env (Some a) (known_view e) c = Inr (tri (?holds c))"
    if "validate_anchor_condition c = Inr ()" for c
  proof -
    from that have "shaped (ac_field c) (ac_op c) (ac_value c) (ac_values c)" "ac_op c \<noteq> OP_REGEX"
      by (auto simp: validate_anchor_condition_def and_then_Inr ANCHOR_OPS_def
          dest: validate_leaf_shaped)
    then show ?thesis
      unfolding evaluate_anchor_condition_def by (intro evaluate_leaf_known [OF _ a short]) auto
  qed
  have leaves: "traverse (evaluate_anchor_condition env (Some a) (known_view e)) cs
      = Inr (map tri (map ?holds cs))" if "validate_children validate_anchor_condition (Some cs) = Inr ()" for cs
    unfolding map_map comp_def by (rule traverse_map) (rule leaf [OF validate_children_set [OF that]])
  from v consider cs where "ag_any g = Some cs" "ag_all g = None"
      "validate_children validate_anchor_condition (Some cs) = Inr ()"
    | cs where "ag_any g = None" "ag_all g = Some cs"
      "validate_children validate_anchor_condition (Some cs) = Inr ()"
    by (auto simp: validate_anchor_group_def and_then_Inr split: option.splits)
  then show ?thesis
  proof cases
    case 1
    then show ?thesis using leaves [OF 1(3)]
      by (simp add: evaluate_anchor_def anchor_conditions_def anchor_holds_def tri_any_known
          list_ex_iff list.pred_map flip: map_map)
  next
    case 2
    then show ?thesis using leaves [OF 2(3)]
      by (simp add: evaluate_anchor_def anchor_conditions_def anchor_holds_def tri_all_known
          list.pred_map flip: map_map)
  qed
qed


section \<open>A sample rule\<close>

text \<open>An environment that folds ASCII case and knows no pattern, and a rule on sender and subject.\<close>

definition sample_router_env :: router_env where
  "sample_router_env = \<lparr>casefold = ascii_lower, re_compiles = (\<lambda>p. True), re_search = (\<lambda>p s. False),
     r_sha256 = (\<lambda>b. b), r_float_text = (\<lambda>q. []),
     lax_bool = (\<lambda>j. case j of JBool b \<Rightarrow> Some b | _ \<Rightarrow> None), fromisoformat = (\<lambda>s. None)\<rparr>"

definition sample_leaf :: "match_field \<Rightarrow> match_op \<Rightarrow> string \<Rightarrow> condition_node" where
  "sample_leaf f ope v = ConditionNode None None None (Some f) (Some ope) (Some (lit v)) None"

definition sample_match :: rule_match where
  "sample_match = \<lparr>m_anchor = \<lparr>ag_any = Some [\<lparr>ac_field = TO_ADDRESSES, ac_op = OP_HAS_ANY,
       ac_value = None, ac_values = Some [ME_PLACEHOLDER]\<rparr>], ag_all = None\<rparr>,
     m_conditions = Some (ConditionNode None
       (Some [sample_leaf SUBJECT OP_CONTAINS ''Invoice'', sample_leaf BODY_CURRENT_TEXT OP_CONTAINS ''x''])
       None None None None None)\<rparr>"

definition sample_mail :: plain_email where
  "sample_mail = \<lparr>pe_sender = lit ''a@x'', pe_to = [lit ''Me@x''], pe_cc = [],
     pe_subject = lit ''an INVOICE'', pe_current = [], pe_full = []\<rparr>"

definition sample_partial_view :: email_view where
  "sample_partial_view = (known_view sample_mail)\<lparr>body_current_text := Unknown\<rparr>"


theorem verdict_survives_resolution_witness:
  "evaluate_match sample_router_env (Some (lit ''me@x'')) sample_partial_view sample_match
     = Inr RULE_MATCHED
   \<and> evaluate_match sample_router_env None sample_partial_view sample_match = Inr RULE_INDETERMINATE"
proof -
  have le: "view_le sample_partial_view (known_view sample_mail)"
    "me_le (Some (lit ''me@x'')) (Some (lit ''me@x''))"
    by (simp_all add: view_le_def field_le_def sample_partial_view_def me_le_def)
  obtain s where s: "evaluate_match sample_router_env (Some (lit ''me@x'')) sample_partial_view sample_match
      = Inr s" "s \<noteq> RULE_INDETERMINATE"
  proof -
    have "evaluate_match sample_router_env (Some (lit ''me@x'')) sample_partial_view sample_match
      = Inr RULE_MATCHED" by code_simp
    with that show thesis by simp
  qed
  have t: "evaluate_match sample_router_env (Some (lit ''me@x'')) (known_view sample_mail) sample_match
      = Inr RULE_MATCHED" by code_simp
  have "evaluate_match sample_router_env None sample_partial_view sample_match = Inr RULE_INDETERMINATE"
    by code_simp
  with verdict_survives_resolution [OF le s(1) t] s show ?thesis by simp
qed

end
