(* ===== verification/CanonicalJson.thy ===== *)
theory CanonicalJson
  imports PyJson
begin

text \<open>
  The canonical text (\<^verbatim>\<open>json.dumps\<close> with \<^verbatim>\<open>sort_keys=True\<close>) that the digests, fingerprints and
  signatures of the program are computed from determines the value up to the order of the
  fields: two values have the same text exactly when they agree once their fields are sorted.
  Floats are left out (their text is a parameter); lone surrogates are, because the ASCII
  escapes of a pair of them are those of another character.
\<close>

section \<open>Values compared by their canonical text\<close>

definition plain_char :: "nat \<Rightarrow> bool" where
  "plain_char c = (c < 1114112 \<and> \<not> is_surrogate c)"

fun plain :: "json \<Rightarrow> bool" and plain_list :: "json list \<Rightarrow> bool"
  and plain_fields :: "(pystr \<times> json) list \<Rightarrow> bool" where
  "plain (JStr s) = list_all plain_char s"
| "plain (JFloat q) = False"
| "plain (JArr xs) = plain_list xs"
| "plain (JObj l) = plain_fields l"
| "plain _ = True"
| "plain_list [] = True"
| "plain_list (x # xs) = (plain x \<and> plain_list xs)"
| "plain_fields [] = True"
| "plain_fields ((k, v) # l) = (list_all plain_char k \<and> plain v \<and> plain_fields l)"

lemma plain_list_iff: "plain_list xs \<longleftrightarrow> (\<forall>x\<in>set xs. plain x)"
  by (induction xs) simp_all

lemma plain_fields_iff: "plain_fields l \<longleftrightarrow> (\<forall>(k, v)\<in>set l. list_all plain_char k \<and> plain v)"
  by (induction l) auto

text \<open>The fields in the order of their keys.\<close>

fun sort_fields :: "json \<Rightarrow> json" and sort_fields_list :: "json list \<Rightarrow> json list"
  and sort_fields_values :: "(pystr \<times> json) list \<Rightarrow> (pystr \<times> json) list" where
  "sort_fields (JArr xs) = JArr (sort_fields_list xs)"
| "sort_fields (JObj l) = JObj (sort_key fst (sort_fields_values l))"
| "sort_fields j = j"
| "sort_fields_list [] = []"
| "sort_fields_list (x # xs) = sort_fields x # sort_fields_list xs"
| "sort_fields_values [] = []"
| "sort_fields_values ((k, v) # l) = (k, sort_fields v) # sort_fields_values l"

lemma sort_fields_list_map: "sort_fields_list xs = map sort_fields xs"
  by (induction xs) simp_all

lemma sort_fields_values_map: "sort_fields_values l = map (\<lambda>(k, v). (k, sort_fields v)) l"
  by (induction l) auto

lemma insort_key_map: "(\<And>x. g (f x) = h x) \<Longrightarrow> insort_key g (f x) (map f xs) = map f (insort_key h x xs)"
  by (induction xs) simp_all

lemma sort_key_map: "(\<And>x. g (f x) = h x) \<Longrightarrow> sort_key g (map f xs) = map f (sort_key h xs)"
  by (induction xs) (simp_all add: insort_key_map)

lemma json_item_texts_map: "json_item_texts f xs = map (json_dumps f) xs"
  by (induction xs) simp_all

lemma json_field_texts_map: "json_field_texts f l = map (\<lambda>(k, v). (k, json_dumps f v)) l"
  by (induction l) auto

definition field_text :: "json_format \<Rightarrow> pystr \<times> json \<Rightarrow> pystr" where
  "field_text f = (\<lambda>(k, v). json_string (ensure_ascii f) k @ key_separator f @ json_dumps f v)"

lemma json_dumps_obj:
  "json_dumps f (JObj l) = 123 # join (item_separator f) (map (field_text f) (sort_key fst l)) @ [125]"
proof -
  have "sort_key fst (json_field_texts f l) = map (\<lambda>(k, v). (k, json_dumps f v)) (sort_key fst l)"
    unfolding json_field_texts_map by (rule sort_key_map) auto
  then show ?thesis by (simp add: field_text_def comp_def split_def)
qed

lemma json_dumps_arr:
  "json_dumps f (JArr xs) = 91 # join (item_separator f) (map (json_dumps f) xs) @ [93]"
  by (simp add: json_item_texts_map)

lemma sort_fields_obj:
  "sort_fields (JObj l) = JObj (map (\<lambda>(k, v). (k, sort_fields v)) (sort_key fst l))"
proof -
  have "sort_key fst (sort_fields_values l) = map (\<lambda>(k, v). (k, sort_fields v)) (sort_key fst l)"
    unfolding sort_fields_values_map by (rule sort_key_map) auto
  then show ?thesis by simp
qed

section \<open>Strings\<close>

lemma hex_digit_inject: "m < 16 \<Longrightarrow> n < 16 \<Longrightarrow> hex_digit m = hex_digit n \<longleftrightarrow> m = n"
  by (auto simp: hex_digit_def)

lemma digits_16:
  assumes "m < 65536" "n < (65536::nat)"
    "m div 4096 mod 16 = n div 4096 mod 16" "m div 256 mod 16 = n div 256 mod 16"
    "m div 16 mod 16 = n div 16 mod 16" "m mod 16 = n mod 16"
  shows "m = n"
proof -
  have step: "x div 16 = y div 16 \<Longrightarrow> x mod 16 = y mod 16 \<Longrightarrow> x = y" for x y :: nat
    by (metis div_mult_mod_eq)
  have four: "x div 4096 = x div 16 div 16 div 16" "x div 256 = x div 16 div 16" for x :: nat
    by (simp_all add: div_mult2_eq [symmetric])
  have "m div 4096 < 16" "n div 4096 < 16" using assms(1,2) by (simp_all add: less_mult_imp_div_less)
  then have "m div 4096 = n div 4096" using assms(3) by simp
  then have "m div 16 div 16 div 16 = n div 16 div 16 div 16" by (simp only: four)
  then have "m div 16 div 16 = n div 16 div 16"
    by (rule step) (use assms(4) in \<open>simp only: four\<close>)
  then have "m div 16 = n div 16" by (rule step) (rule assms(5))
  then show ?thesis by (rule step) (rule assms(6))
qed

lemma u_escape_append:
  assumes "m < 65536" "n < 65536"
  shows "u_escape m @ x = u_escape n @ y \<longleftrightarrow> m = n \<and> x = y"
  using digits_16 [OF assms] by (auto simp: u_escape_def hex_digit_inject)

text \<open>The escapes are a prefix code: what a character is written as tells where it ends.\<close>

definition escape_kind :: "bool \<Rightarrow> nat \<Rightarrow> nat" where
  "escape_kind a c =
     (if c \<in> {34, 92, 10, 13, 9, 12, 8} then 1
      else if c < 32 then 2
      else if \<not> a \<or> c \<le> 126 then 0
      else if c < 65536 then 2 else 3)"

lemma escape_short:
  "escape_kind a c = 1 \<Longrightarrow> \<exists>d. escape_char a c = [92, d] \<and> d \<noteq> 117"
  by (auto simp: escape_kind_def escape_char_def split: if_splits)

lemma escape_plain: "escape_kind a c = 0 \<Longrightarrow> escape_char a c = [c] \<and> c \<noteq> 92 \<and> c \<noteq> 34"
  by (auto simp: escape_kind_def escape_char_def split: if_splits)

lemma escape_unit:
  "escape_kind a c = 2 \<Longrightarrow> escape_char a c = u_escape c \<and> c < 65536"
  by (auto simp: escape_kind_def escape_char_def split: if_splits)

lemma escape_pair:
  "escape_kind a c = 3 \<Longrightarrow> escape_char a c =
     u_escape (55296 + (c - 65536) div 1024) @ u_escape (56320 + (c - 65536) mod 1024)
   \<and> 65536 \<le> c"
  by (auto simp: escape_kind_def escape_char_def split: if_splits)

lemma escape_kind_range: "escape_kind a c \<in> {0, 1, 2, 3}"
  by (simp add: escape_kind_def)

lemma escape_short_char: "escape_kind a c = 1 \<Longrightarrow> c \<in> {34, 92, 10, 13, 9, 12, 8}"
  by (simp add: escape_kind_def split: if_split_asm)

lemma escape_short_inject:
  assumes "escape_kind a c = 1" "escape_kind a d = 1"
  shows "escape_char a c @ x = escape_char a d @ y \<longleftrightarrow> c = d \<and> x = y"
  using assms [THEN escape_short_char] by (elim insertE emptyE; simp add: escape_char_def)

lemma div_mod_inject:
  fixes p q n :: nat
  assumes "p div n = q div n" "p mod n = q mod n"
  shows "p = q"
  by (metis assms div_mult_mod_eq)

lemma u_escape_head: "u_escape n = 92 # 117 # tl (tl (u_escape n))"
  by (simp add: u_escape_def)

lemma surrogate_halves:
  fixes c :: nat
  assumes "65536 \<le> c" "c < 1114112"
  shows "55296 + (c - 65536) div 1024 < 56320" "56320 + (c - 65536) mod 1024 < 57344"
proof -
  have "c - 65536 < 1024 * 1024" using assms by simp
  then have "(c - 65536) div 1024 < 1024" by (rule less_mult_imp_div_less)
  then show "55296 + (c - 65536) div 1024 < 56320" by simp
  have "(c - 65536) mod 1024 < 1024" by simp
  then show "56320 + (c - 65536) mod 1024 < 57344" by simp
qed

lemma escape_pair_inject:
  fixes c d :: nat
  assumes "65536 \<le> c" "65536 \<le> d"
    "(c - 65536) div 1024 = (d - 65536) div 1024" "(c - 65536) mod 1024 = (d - 65536) mod 1024"
  shows "c = d"
proof -
  have "c - 65536 = d - 65536" by (rule div_mod_inject [OF assms(3,4)])
  with assms(1,2) show ?thesis by simp
qed

lemma escape_pair_append:
  assumes "plain_char c" "plain_char d" "escape_kind a c = 3" "escape_kind a d = 3"
  shows "escape_char a c @ x = escape_char a d @ y \<longleftrightarrow> c = d \<and> x = y"
proof -
  note e = escape_pair [OF assms(3)] escape_pair [OF assms(4)]
  have "c < 1114112" "d < 1114112" using assms(1,2) by (simp_all add: plain_char_def)
  note h = surrogate_halves [OF e(1) [THEN conjunct2] this(1)]
    surrogate_halves [OF e(2) [THEN conjunct2] this(2)]
  from h have small: "55296 + (c - 65536) div 1024 < 65536" "55296 + (d - 65536) div 1024 < 65536"
    "56320 + (c - 65536) mod 1024 < 65536" "56320 + (d - 65536) mod 1024 < 65536" by linarith+
  show ?thesis
    unfolding e [THEN conjunct1] append_assoc u_escape_append [OF small(1,2)]
      u_escape_append [OF small(3,4)]
    using escape_pair_inject [OF e(1) [THEN conjunct2] e(2) [THEN conjunct2]] by auto
qed

lemma escape_long_head:
  assumes "escape_kind a c \<in> {2, 3}"
  obtains s where "escape_char a c = 92 # 117 # s"
proof (cases "escape_kind a c = 2")
  case True
  then have "escape_char a c = u_escape c" by (simp add: escape_unit)
  with u_escape_head [of c] that show ?thesis by metis
next
  case False
  with assms have "escape_kind a c = 3" by simp
  from escape_pair [OF this] u_escape_head that show ?thesis by (metis append_Cons)
qed

lemma escape_unit_pair:
  assumes "plain_char c" "plain_char d" "escape_kind a c = 2" "escape_kind a d = 3"
  shows "escape_char a c @ x \<noteq> escape_char a d @ y"
proof
  assume eq: "escape_char a c @ x = escape_char a d @ y"
  note e = escape_pair [OF assms(4)]
  have "d < 1114112" using assms(2) by (simp add: plain_char_def)
  note h = surrogate_halves [OF e [THEN conjunct2] this]
  have "c = 55296 + (d - 65536) div 1024"
    using eq unfolding e [THEN conjunct1] escape_unit [OF assms(3), THEN conjunct1] append_assoc
    by (subst (asm) u_escape_append) (use escape_unit [OF assms(3)] h in simp_all)
  with assms(1) h show False by (simp add: plain_char_def is_surrogate_def)
qed

lemma escape_kind_less:
  assumes "plain_char c" "plain_char d" "escape_kind a c < escape_kind a d"
  shows "escape_char a c @ x \<noteq> escape_char a d @ y"
proof -
  consider "escape_kind a c = 0" "escape_kind a d \<in> {1, 2, 3}"
    | "escape_kind a c = 1" "escape_kind a d \<in> {2, 3}"
    | "escape_kind a c = 2" "escape_kind a d = 3"
    using assms(3) escape_kind_range [of a c] escape_kind_range [of a d] by fastforce
  then show ?thesis
  proof cases
    case 1
    have "\<exists>s. escape_char a d = 92 # s"
    proof (cases "escape_kind a d = 1")
      case True
      then show ?thesis using escape_short [of a d] by auto
    next
      case False
      with 1(2) have "escape_kind a d \<in> {2, 3}" by simp
      then show ?thesis by (rule escape_long_head) simp
    qed
    with escape_plain [OF 1(1)] show ?thesis by auto
  next
    case 2
    obtain s where "escape_char a d = 92 # 117 # s" using 2(2) by (rule escape_long_head)
    with escape_short [OF 2(1)] show ?thesis by auto
  next
    case 3
    then show ?thesis by (rule escape_unit_pair [OF assms(1,2)])
  qed
qed

lemma escape_char_append:
  assumes c: "plain_char c" and d: "plain_char d"
  shows "escape_char a c @ x = escape_char a d @ y \<longleftrightarrow> c = d \<and> x = y"
proof (cases "escape_kind a c = escape_kind a d")
  case True
  consider "escape_kind a d = 0" | "escape_kind a d = 1" | "escape_kind a d = 2" | "escape_kind a d = 3"
    using escape_kind_range [of a d] by auto
  then show ?thesis
  proof cases
    case 1
    with True escape_plain [of a c] escape_plain [of a d] show ?thesis by simp
  next
    case 2
    with True escape_short_inject show ?thesis by simp
  next
    case 3
    with True escape_unit [of a c] escape_unit [of a d] u_escape_append show ?thesis by simp
  next
    case 4
    with True escape_pair_append [OF c d] show ?thesis by simp
  qed
next
  case False
  then have "escape_kind a c < escape_kind a d \<or> escape_kind a d < escape_kind a c" by auto
  then have "escape_char a c @ x \<noteq> escape_char a d @ y"
    using escape_kind_less [OF c d] escape_kind_less [OF d c] by metis
  with False show ?thesis by auto
qed

lemma escape_char_no_quote:
  assumes "escape_char a c = k # s"
  shows "k \<noteq> 34"
proof -
  consider "escape_kind a c = 0" | "escape_kind a c = 1" | "escape_kind a c \<in> {2, 3}"
    using escape_kind_range [of a c] by auto
  then show ?thesis
  proof cases
    case 1
    with escape_plain [OF this] assms show ?thesis by simp
  next
    case 2
    with escape_short [OF this] assms show ?thesis by auto
  next
    case 3
    then obtain r where "escape_char a c = 92 # 117 # r" by (rule escape_long_head)
    with assms show ?thesis by simp
  qed
qed

lemma escaped_string_append:
  assumes "list_all plain_char s" "list_all plain_char t"
  shows "concat (map (escape_char a) s) @ 34 # x = concat (map (escape_char a) t) @ 34 # y
    \<longleftrightarrow> s = t \<and> x = y"
  using assms
proof (induction s arbitrary: t)
  case Nil
  then show ?case
  proof (cases t)
    case (Cons c t)
    obtain k r where "escape_char a c = k # r" by (cases "escape_char a c") simp_all
    with Cons escape_char_no_quote [OF this] show ?thesis by simp
  qed simp
next
  case (Cons c s)
  show ?case
  proof (cases t)
    case Nil
    obtain k r where "escape_char a c = k # r" by (cases "escape_char a c") simp_all
    with Nil escape_char_no_quote [OF this] show ?thesis by auto
  next
    case (Cons d u)
    have "concat (map (escape_char a) (c # s)) @ 34 # x = concat (map (escape_char a) (d # u)) @ 34 # y
      \<longleftrightarrow> c = d \<and> concat (map (escape_char a) s) @ 34 # x = concat (map (escape_char a) u) @ 34 # y"
      using Cons.prems Cons by (simp add: escape_char_append)
    also have "\<dots> \<longleftrightarrow> c = d \<and> s = u \<and> x = y"
      using Cons.IH [of u] Cons.prems Cons by simp
    finally show ?thesis using Cons by simp
  qed
qed

lemma json_string_append:
  assumes "list_all plain_char s" "list_all plain_char t"
  shows "json_string a s @ x = json_string a t @ y \<longleftrightarrow> s = t \<and> x = y"
  using escaped_string_append [OF assms] by (simp add: json_string_def)

section \<open>Numbers\<close>

definition digit_char :: "nat \<Rightarrow> bool" where
  "digit_char c = (48 \<le> c \<and> c \<le> 57)"

text \<open>What may follow a number.\<close>

definition stops :: "pystr \<Rightarrow> bool" where
  "stops s = (case s of [] \<Rightarrow> True | c # _ \<Rightarrow> \<not> digit_char c)"

lemma stops_Cons [simp]: "stops (c # s) \<longleftrightarrow> \<not> digit_char c" "stops []"
  by (simp_all add: stops_def)

lemma digits_append:
  assumes "list_all digit_char p" "list_all digit_char q" "stops x" "stops y"
  shows "p @ x = q @ y \<longleftrightarrow> p = q \<and> x = y"
  using assms(1,2)
proof (induction p arbitrary: q)
  case Nil
  then show ?case using assms(3,4) by (cases q) auto
next
  case (Cons c p)
  then show ?case using assms(3,4) by (cases q) auto
qed

lemma dec_nat_all_digits: "list_all digit_char (dec_nat n)"
  by (auto simp: list_all_iff digit_char_def dest: dec_nat_digits)

lemma dec_int_head: obtains c s where "dec_int i = c # s" "c = 45 \<or> digit_char c"
proof (cases "dec_int i")
  case Nil
  then show ?thesis by (simp add: dec_int_def split: if_splits)
next
  case (Cons c s)
  have "c = 45 \<or> digit_char c"
    using Cons dec_nat_all_digits [of "nat i"] by (auto simp: dec_int_def split: if_splits)
  with Cons that show ?thesis by blast
qed

lemma dec_int_append:
  assumes "stops x" "stops y"
  shows "dec_int i @ x = dec_int j @ y \<longleftrightarrow> i = j \<and> x = y"
proof -
  have minus: "45 # p \<noteq> dec_nat n @ z" for p n z
    using dec_nat_all_digits [of n] by (cases "dec_nat n") (auto simp: digit_char_def)
  note digits = digits_append [OF dec_nat_all_digits dec_nat_all_digits assms]
  consider "i < 0" "j < 0" | "i < 0" "0 \<le> j" | "0 \<le> i" "j < 0" | "0 \<le> i" "0 \<le> j" by linarith
  then show ?thesis
  proof cases
    case 1
    then show ?thesis by (auto simp: dec_int_def digits)
  next
    case 2
    then show ?thesis using minus by (simp add: dec_int_def)
  next
    case 3
    then show ?thesis using minus [symmetric] by (simp add: dec_int_def)
  next
    case 4
    then show ?thesis by (auto simp: dec_int_def digits)
  qed
qed

section \<open>Sequences\<close>

text \<open>
  A closing bracket ends a sequence of texts joined by a separator: neither begins an item,
  and the separator begins with a comma.
\<close>

definition decodes :: "('a \<Rightarrow> pystr) \<Rightarrow> ('a \<Rightarrow> 'b) \<Rightarrow> ('a \<Rightarrow> bool) \<Rightarrow> 'a \<Rightarrow> bool" where
  "decodes enc value ok a \<longleftrightarrow>
     (\<forall>b x y. ok b \<longrightarrow> stops x \<longrightarrow> stops y \<longrightarrow> enc a @ x = enc b @ y \<longrightarrow> value a = value b \<and> x = y)"

lemma decodesD:
  "decodes enc value ok a \<Longrightarrow> ok b \<Longrightarrow> stops x \<Longrightarrow> stops y \<Longrightarrow> enc a @ x = enc b @ y
   \<Longrightarrow> value a = value b \<and> x = y"
  unfolding decodes_def by blast

lemma join_append:
  assumes sep: "sep = 44 # sep'" and close: "close = 93 \<or> close = 125"
    and items: "\<And>a. a \<in> set as \<Longrightarrow> decodes enc value ok a"
    and heads: "\<And>a. a \<in> set as \<union> set bs \<Longrightarrow> \<exists>c s. enc a = c # s \<and> c \<noteq> close"
    and ok: "\<And>b. b \<in> set bs \<Longrightarrow> ok b"
    and eq: "join sep (map enc as) @ close # x = join sep (map enc bs) @ close # y"
  shows "map value as = map value bs \<and> x = y"
  using items heads ok eq
proof (induction as arbitrary: bs)
  case Nil
  show ?case
  proof (cases bs)
    case (Cons b bs')
    from Nil.prems(2) [of b] Cons obtain c s where b: "enc b = c # s" "c \<noteq> close" by auto
    have "\<exists>r. join sep (map enc bs) = c # r" using Cons b(1) by (cases bs') simp_all
    with Nil.prems(4) b(2) show ?thesis by auto
  qed (use Nil.prems in simp)
next
  case (Cons a as)
  from Cons.prems(2) [of a] obtain ca sa where a: "enc a = ca # sa" "ca \<noteq> close" by auto
  define rest where "rest = (\<lambda>(zs::'a list) z. if zs = [] then close # z
     else sep @ join sep (map enc zs) @ close # z)"
  have join: "join sep (map enc (z # zs)) @ close # u = enc z @ rest zs u" for z zs u
    by (cases zs) (simp_all add: rest_def)
  have stop: "stops (rest zs u)" for zs u
    using close by (auto simp: rest_def sep digit_char_def)
  show ?case
  proof (cases bs)
    case Nil
    have "\<exists>r. join sep (map enc (a # as)) = ca # r" using a(1) by (cases as) simp_all
    with Nil Cons.prems(4) a(2) show ?thesis by auto
  next
    case (Cons b bs')
    have "enc a @ rest as x = enc b @ rest bs' y"
      using Cons.prems(4) unfolding Cons join .
    from decodesD [OF Cons.prems(1) [of a] Cons.prems(3) [of b] stop stop this] Cons
    have v: "value a = value b" and r: "rest as x = rest bs' y" by simp_all
    show ?thesis
    proof (cases "as = [] \<or> bs' = []")
      case True
      have "44 \<noteq> close" using close by auto
      with True r have "as = [] \<and> bs' = [] \<and> x = y" by (auto simp: rest_def sep split: if_splits)
      with v Cons show ?thesis by simp
    next
      case False
      with r have "join sep (map enc as) @ close # x = join sep (map enc bs') @ close # y"
        by (simp add: rest_def)
      then have "map value as = map value bs' \<and> x = y"
        using Cons.IH [of bs'] Cons.prems(1-3) Cons by simp
      with v Cons show ?thesis by simp
    qed
  qed
qed

section \<open>Values\<close>

fun json_head :: "json \<Rightarrow> nat \<Rightarrow> bool" where
  "json_head JNull c = (c = 110)"
| "json_head (JBool b) c = (c = (if b then 116 else 102))"
| "json_head (JInt i) c = (c = 45 \<or> digit_char c)"
| "json_head (JFloat q) c = False"
| "json_head (JStr s) c = (c = 34)"
| "json_head (JArr xs) c = (c = 91)"
| "json_head (JObj l) c = (c = 123)"

lemma lit_literals:
  "lit ''null'' = [110, 117, 108, 108]" "lit ''true'' = [116, 114, 117, 101]"
  "lit ''false'' = [102, 97, 108, 115, 101]"
  by (simp_all add: lit_def)

lemma json_dumps_head:
  assumes "plain j"
  obtains c s where "json_dumps f j = c # s" "json_head j c"
proof (cases j)
  case (JInt i)
  obtain c s where "dec_int i = c # s" "c = 45 \<or> digit_char c" by (rule dec_int_head)
  then show ?thesis using JInt that by simp
next
  case (JBool b)
  then show ?thesis using that by (cases b) (simp_all add: lit_literals)
qed (use assms that in \<open>auto simp: lit_literals json_string_def\<close>)

lemma json_head_apart:
  assumes "plain a" "plain b" "json_dumps f a @ x = json_dumps f b @ y"
  shows "\<exists>c. json_head a c \<and> json_head b c"
proof -
  obtain c s where c: "json_dumps f a = c # s" "json_head a c"
    using assms(1) by (rule json_dumps_head)
  obtain d t where d: "json_dumps f b = d # t" "json_head b d"
    using assms(2) by (rule json_dumps_head)
  from assms(3) c(1) d(1) have "c = d" by simp
  with c(2) d(2) show ?thesis by blast
qed

abbreviation json_decodes :: "json_format \<Rightarrow> json \<Rightarrow> bool" where
  "json_decodes f \<equiv> decodes (json_dumps f) sort_fields plain"

lemma field_decodes:
  assumes "list_all plain_char k" "json_decodes f v"
  shows "decodes (field_text f) (\<lambda>(k, v). (k, sort_fields v)) (\<lambda>(k, v). list_all plain_char k \<and> plain v)
    (k, v)"
  unfolding decodes_def
proof (intro allI impI)
  fix p x y
  assume "case p of (k, v) \<Rightarrow> list_all plain_char k \<and> plain v" and stop: "stops x" "stops y"
    and whole: "field_text f (k, v) @ x = field_text f p @ y"
  obtain l w where p: "p = (l, w)" by (cases p)
  then have ok: "list_all plain_char l" "plain w"
    using \<open>case p of (k, v) \<Rightarrow> list_all plain_char k \<and> plain v\<close> by simp_all
  have eq: "field_text f (k, v) @ x = field_text f (l, w) @ y" using whole p by simp
  from eq have "k = l \<and> json_dumps f v @ x = json_dumps f w @ y"
    by (simp add: field_text_def json_string_append [OF assms(1) ok(1)])
  with decodesD [OF assms(2) ok(2) stop]
  show "(case (k, v) of (k, v) \<Rightarrow> (k, sort_fields v)) = (case p of (k, v) \<Rightarrow> (k, sort_fields v)) \<and> x = y"
    by (simp add: p)
qed

lemma field_text_head: "\<exists>s. field_text f p = 34 # s"
  by (cases p) (simp add: field_text_def json_string_def)

lemma array_decodes:
  assumes sep: "item_separator f = 44 # sep'" and items: "\<And>a. a \<in> set as \<Longrightarrow> json_decodes f a"
    and plain: "plain (JArr as)" "plain (JArr bs)"
    and eq: "json_dumps f (JArr as) @ x = json_dumps f (JArr bs) @ y"
  shows "sort_fields (JArr as) = sort_fields (JArr bs) \<and> x = y"
proof -
  have "map sort_fields as = map sort_fields bs \<and> x = y"
  proof (rule join_append [OF sep])
    show "(93::nat) = 93 \<or> (93::nat) = 125" by simp
    show "\<And>a. a \<in> set as \<Longrightarrow> json_decodes f a" by (rule items)
    show "plain b" if "b \<in> set bs" for b using plain(2) that by (simp add: plain_list_iff)
    show "\<exists>c s. json_dumps f a = c # s \<and> c \<noteq> 93" if "a \<in> set as \<union> set bs" for a
    proof -
      have "plain a" using plain that by (auto simp: plain_list_iff)
      then obtain c s where c: "json_dumps f a = c # s" "json_head a c" by (rule json_dumps_head)
      then have "c \<noteq> 93" by (cases a) (auto simp: digit_char_def split: if_splits)
      with c show ?thesis by blast
    qed
    show "join (item_separator f) (map (json_dumps f) as) @ 93 # x
      = join (item_separator f) (map (json_dumps f) bs) @ 93 # y"
      using eq unfolding json_dumps_arr by simp
  qed
  then show ?thesis by (simp add: sort_fields_list_map)
qed

lemma object_decodes:
  assumes sep: "item_separator f = 44 # sep'"
    and items: "\<And>p. p \<in> set l \<Longrightarrow> json_decodes f (snd p)"
    and plain: "plain (JObj l)" "plain (JObj m)"
    and eq: "json_dumps f (JObj l) @ x = json_dumps f (JObj m) @ y"
  shows "sort_fields (JObj l) = sort_fields (JObj m) \<and> x = y"
proof -
  let ?val = "\<lambda>(k, v). (k, sort_fields v)" and ?ok = "\<lambda>(k, v). list_all plain_char k \<and> plain v"
  have "map ?val (sort_key fst l) = map ?val (sort_key fst m) \<and> x = y"
  proof (rule join_append [where enc = "field_text f" and ok = ?ok, OF sep])
    show "(125::nat) = 93 \<or> (125::nat) = 125" by simp
    show "decodes (field_text f) ?val ?ok p" if "p \<in> set (sort_key fst l)" for p
    proof -
      obtain k v where p: "p = (k, v)" by (cases p)
      have "p \<in> set l" using that by simp
      then have "json_decodes f v" "list_all plain_char k"
        using items [of p] plain(1) by (auto simp: p plain_fields_iff)
      then show ?thesis unfolding p by (intro field_decodes)
    qed
    show "?ok p" if "p \<in> set (sort_key fst m)" for p
      using plain(2) that by (auto simp: plain_fields_iff)
    show "\<exists>c s. field_text f p = c # s \<and> c \<noteq> 125" for p
      using field_text_head [of f p] by auto
    show "join (item_separator f) (map (field_text f) (sort_key fst l)) @ 125 # x
      = join (item_separator f) (map (field_text f) (sort_key fst m)) @ 125 # y"
      using eq unfolding json_dumps_obj by simp
  qed
  then show ?thesis unfolding sort_fields_obj by simp
qed

lemma json_dumps_decodes:
  assumes sep: "item_separator f = 44 # sep'"
  shows "plain a \<Longrightarrow> json_decodes f a"
proof (induction a)
  case JNull
  show ?case
    unfolding decodes_def
  proof (intro allI impI)
    fix b x y assume b: "plain b" "json_dumps f JNull @ x = json_dumps f b @ y"
    with json_head_apart [of JNull b f x y] show "sort_fields JNull = sort_fields b \<and> x = y"
      by (cases b) (auto simp: digit_char_def split: if_splits)
  qed
next
  case (JBool p)
  show ?case
    unfolding decodes_def
  proof (intro allI impI)
    fix b x y assume b: "plain b" "json_dumps f (JBool p) @ x = json_dumps f b @ y"
    with json_head_apart [of "JBool p" b f x y] show "sort_fields (JBool p) = sort_fields b \<and> x = y"
      by (cases b) (auto simp: lit_literals digit_char_def split: if_splits)
  qed
next
  case (JInt i)
  show ?case
    unfolding decodes_def
  proof (intro allI impI)
    fix b x y assume b: "plain b" "json_dumps f (JInt i) @ x = json_dumps f b @ y" "stops x" "stops y"
    with json_head_apart [of "JInt i" b f x y] show "sort_fields (JInt i) = sort_fields b \<and> x = y"
      by (cases b) (auto simp: dec_int_append digit_char_def split: if_splits)
  qed
next
  case (JFloat q)
  then show ?case by simp
next
  case (JStr s)
  show ?case
    unfolding decodes_def
  proof (intro allI impI)
    fix b x y assume b: "plain b" "json_dumps f (JStr s) @ x = json_dumps f b @ y"
    with json_head_apart [of "JStr s" b f x y] JStr show "sort_fields (JStr s) = sort_fields b \<and> x = y"
      by (cases b) (auto simp: json_string_append digit_char_def split: if_splits)
  qed
next
  case (JArr xs)
  show ?case
    unfolding decodes_def
  proof (intro allI impI)
    fix b x y assume b: "plain b" "json_dumps f (JArr xs) @ x = json_dumps f b @ y"
    have items: "json_decodes f a" if "a \<in> set xs" for a
      using JArr that by (simp add: plain_list_iff)
    obtain bs where "b = JArr bs"
      using json_head_apart [OF JArr.prems b] by (cases b) (auto simp: digit_char_def split: if_splits)
    with b array_decodes [OF sep items JArr.prems] show "sort_fields (JArr xs) = sort_fields b \<and> x = y"
      by blast
  qed
next
  case (JObj l)
  show ?case
    unfolding decodes_def
  proof (intro allI impI)
    fix b x y assume b: "plain b" "json_dumps f (JObj l) @ x = json_dumps f b @ y"
    have items: "json_decodes f (snd p)" if "p \<in> set l" for p
      by (rule JObj.IH [OF that]) (use JObj.prems that in \<open>auto simp: plain_fields_iff snds.simps\<close>)
    obtain m where "b = JObj m"
      using json_head_apart [OF JObj.prems b] by (cases b) (auto simp: digit_char_def split: if_splits)
    with b object_decodes [OF sep items JObj.prems] show "sort_fields (JObj l) = sort_fields b \<and> x = y"
      by blast
  qed
qed

lemma json_dumps_sort_fields_eq:
  assumes "item_separator f = 44 # sep'" "plain a" "plain b" "json_dumps f a = json_dumps f b"
  shows "sort_fields a = sort_fields b"
  using decodesD [OF json_dumps_decodes [OF assms(1,2)] assms(3), of "[]" "[]"] assms(4) by simp

lemma sort_key_stable: "sort_key g (sort_key g xs) = sort_key g xs"
  by (rule sort_key_id_if_sorted) simp

lemma sort_key_sorted_map:
  "(\<And>x. g (f x) = g x) \<Longrightarrow> sort_key g (map f (sort_key g xs)) = map f (sort_key g xs)"
  using sort_key_map [of g f g "sort_key g xs"] by (simp add: sort_key_stable)

lemma json_dumps_sort_fields: "json_dumps f (sort_fields j) = json_dumps f j"
proof (induction j)
  case (JArr xs)
  then have "map (json_dumps f \<circ> sort_fields) xs = map (json_dumps f) xs" by simp
  then show ?case unfolding sort_fields.simps sort_fields_list_map json_dumps_arr map_map by (simp only:)
next
  case (JObj l)
  have val: "json_dumps f (sort_fields v) = json_dumps f v" if "(k, v) \<in> set l" for k v
    by (rule JObj.IH [OF that]) (simp add: snds.simps)
  have "field_text f (k, sort_fields v) = field_text f (k, v)" if "(k, v) \<in> set l" for k v
    using val [OF that] by (simp add: field_text_def)
  then have "map (field_text f) (map (\<lambda>(k, v). (k, sort_fields v)) (sort_key fst l))
    = map (field_text f) (sort_key fst l)" by auto
  moreover have "sort_key fst (map (\<lambda>(k, v). (k, sort_fields v)) (sort_key fst l))
    = map (\<lambda>(k, v). (k, sort_fields v)) (sort_key fst l)"
    by (rule sort_key_sorted_map) auto
  ultimately show ?case unfolding sort_fields_obj json_dumps_obj by metis
qed simp_all

lemma compact_separator: "item_separator (compact_format a t) = 44 # []"
  by (simp add: compact_format_def)

section \<open>ASCII text\<close>

lemma isascii_append [simp]: "py_isascii (a @ b) \<longleftrightarrow> py_isascii a \<and> py_isascii b"
  by (simp add: py_isascii_def)

lemma isascii_Cons [simp]: "py_isascii (c # s) \<longleftrightarrow> c < 128 \<and> py_isascii s"
  by (simp add: py_isascii_def)

lemma isascii_Nil [simp]: "py_isascii []"
  by (simp add: py_isascii_def)

lemma hex_digit_ascii: "hex_digit (n mod 16) < 128"
proof -
  have "n mod 16 < 16" by simp
  then show ?thesis unfolding hex_digit_def by (split if_split) linarith
qed

lemma u_escape_ascii: "py_isascii (u_escape n)"
  by (simp add: u_escape_def hex_digit_ascii)

lemma escape_char_ascii: "py_isascii (escape_char True c)"
  by (simp add: escape_char_def u_escape_ascii)

lemma json_string_ascii: "py_isascii (json_string True s)"
  by (induction s) (simp_all add: json_string_def escape_char_ascii)

lemma dec_int_ascii: "py_isascii (dec_int i)"
proof -
  have "py_isascii (dec_nat n)" for n
    using dec_nat_digits [of _ n] by (force simp: py_isascii_def list_all_iff)
  then show ?thesis by (simp add: dec_int_def)
qed

lemma join_ascii: "py_isascii sep \<Longrightarrow> (\<And>x. x \<in> set xs \<Longrightarrow> py_isascii x) \<Longrightarrow> py_isascii (join sep xs)"
  by (induction sep xs rule: join.induct) simp_all

lemma json_dumps_ascii: "plain j \<Longrightarrow> py_isascii (json_dumps (compact_format True t) j)"
proof (induction j)
  case (JArr xs)
  then show ?case unfolding json_dumps_arr
    by (auto simp: compact_format_def plain_list_iff intro!: join_ascii)
next
  case (JObj l)
  have val: "py_isascii (json_dumps (compact_format True t) v)" if "(k, v) \<in> set l" for k v
    by (rule JObj.IH [OF that]) (use JObj.prems that in \<open>auto simp: snds.simps plain_fields_iff\<close>)
  then have "py_isascii (field_text (compact_format True t) p)" if "p \<in> set l" for p
    using that by (cases p) (simp add: field_text_def compact_format_def json_string_ascii)
  then show ?case unfolding json_dumps_obj
    by (auto simp: compact_format_def intro!: join_ascii)
qed (simp_all add: lit_def dec_int_ascii json_string_ascii compact_format_def)



end
