(* ===== verification/RouterAggregation.thy ===== *)
theory RouterAggregation
  imports RouterTier1 RouterMatching CanonicalJson "HOL-Library.Multiset"
begin

text \<open>
  Correctness of the tier-1 decision: the verdict per rule, the groups of equal actions, the
  four outcomes, independence of the order of the rules, and what a fingerprint identifies.
\<close>

section \<open>The verdict of each rule\<close>

definition rule_verdict :: "router_env \<Rightarrow> pystr option \<Rightarrow> email_view \<Rightarrow> int \<Rightarrow> rule_manifest
    \<Rightarrow> tier1_error + rule_eval_status" where
  "rule_verdict env me view now r =
     and_then (lift_error TimeRaised (is_rule_active env r now)) (\<lambda>active.
       if active then lift_error MatchRaised (evaluate_match env me view (rm_match r))
       else Inr RULE_NOT_MATCHED)"

lemma classify_rules_iff:
  "classify_rules env me view now rs = Inr (m, i) \<longleftrightarrow>
     (\<forall>r\<in>set rs. is_ok (rule_verdict env me view now r))
     \<and> m = filter (\<lambda>r. rule_verdict env me view now r = Inr RULE_MATCHED) rs
     \<and> i = filter (\<lambda>r. rule_verdict env me view now r = Inr RULE_INDETERMINATE) rs"
proof (induction rs arbitrary: m i)
  case (Cons r rs)
  show ?case
  proof (cases "rule_verdict env me view now r")
    case (Inl e)
    then show ?thesis by (auto simp: rule_verdict_def and_then_Inl)
  next
    case (Inr s)
    then have step: "classify_rules env me view now (r # rs) =
      and_then (classify_rules env me view now rs) (\<lambda>(matched, indeterminate).
       Inr (if s = RULE_MATCHED then (r # matched, indeterminate)
            else if s = RULE_INDETERMINATE then (matched, r # indeterminate)
            else (matched, indeterminate)))"
      by (auto simp: rule_verdict_def and_then_Inr)
    show ?thesis
    proof (cases "classify_rules env me view now rs")
      case (Inl e)
      then have "\<not> (\<forall>r\<in>set rs. is_ok (rule_verdict env me view now r))"
        using Cons.IH by (metis sum.distinct(1))
      with Inl show ?thesis unfolding step by auto
    next
      case (Inr p)
      obtain m' i' where p: "p = (m', i')" by (cases p)
      from Cons.IH [of m' i'] Inr p \<open>rule_verdict env me view now r = Inr s\<close>
      show ?thesis unfolding step by auto
    qed
  qed
qed auto

section \<open>Groups\<close>

text \<open>The fingerprints in the order of their first use, and the rules of each.\<close>

fun first_keys :: "pystr list \<Rightarrow> pystr list \<Rightarrow> pystr list" where
  "first_keys seen [] = seen"
| "first_keys seen (k # ks) = first_keys (if k \<in> set seen then seen else seen @ [k]) ks"

lemma first_keys_distinct: "distinct seen \<Longrightarrow> distinct (first_keys seen ks)"
  by (induction ks arbitrary: seen) auto

lemma first_keys_set: "set (first_keys seen ks) = set seen \<union> set ks"
  by (induction ks arbitrary: seen) auto

lemma first_keys_snoc:
  "first_keys seen (ks @ [k]) =
     (let s = first_keys seen ks in if k \<in> set s then s else s @ [k])"
  by (induction ks arbitrary: seen) (simp_all add: Let_def)

definition rules_with :: "pystr \<Rightarrow> (pystr \<times> rule_manifest) list \<Rightarrow> rule_manifest list" where
  "rules_with k pairs = map snd (filter (\<lambda>p. fst p = k) pairs)"

lemma group_add_present:
  assumes "distinct ks" "fp \<in> set ks"
  shows "group_add fp r (map (\<lambda>k. (k, g k)) ks) =
    map (\<lambda>k. (k, if k = fp then g k @ [r] else g k)) ks"
  using assms
proof (induction ks)
  case (Cons k ks)
  show ?case
  proof (cases "k = fp")
    case True
    with Cons.prems(1) have "fp \<notin> set ks" by simp
    then have "map (\<lambda>k. (k, if k = fp then g k @ [r] else g k)) ks = map (\<lambda>k. (k, g k)) ks" by auto
    with True show ?thesis by simp
  next
    case False
    with Cons show ?thesis by simp
  qed
qed simp

lemma group_add_absent:
  "fp \<notin> set ks \<Longrightarrow> group_add fp r (map (\<lambda>k. (k, g k)) ks) = map (\<lambda>k. (k, g k)) ks @ [(fp, [r])]"
  by (induction ks) auto

lemma group_rules_map:
  "group_rules pairs = map (\<lambda>k. (k, rules_with k pairs)) (first_keys [] (map fst pairs))"
proof (induction pairs rule: rev_induct)
  case (snoc p pairs)
  obtain fp r where p: "p = (fp, r)" by (cases p)
  let ?ks = "first_keys [] (map fst pairs)"
  have d: "distinct ?ks" by (rule first_keys_distinct) simp
  have "group_rules (pairs @ [p]) = group_add fp r (map (\<lambda>k. (k, rules_with k pairs)) ?ks)"
    using snoc by (simp add: group_rules_def p)
  also have "\<dots> = map (\<lambda>k. (k, rules_with k (pairs @ [p]))) (first_keys [] (map fst (pairs @ [p])))"
  proof (cases "fp \<in> set ?ks")
    case True
    then have "group_add fp r (map (\<lambda>k. (k, rules_with k pairs)) ?ks) =
        map (\<lambda>k. (k, rules_with k (pairs @ [p]))) ?ks"
      by (subst group_add_present [OF d True]) (auto simp: rules_with_def p)
    with True show ?thesis by (simp add: first_keys_snoc Let_def p)
  next
    case False
    then have none: "rules_with fp pairs = []"
      by (auto simp: rules_with_def first_keys_set filter_empty_conv)
    have "rules_with k (pairs @ [p]) = rules_with k pairs" if "k \<in> set ?ks" for k
      using that False by (auto simp: rules_with_def p)
    moreover have "rules_with fp (pairs @ [p]) = [r]"
      using none by (simp add: rules_with_def p)
    ultimately show ?thesis
      using False by (simp add: group_add_absent [OF False] first_keys_snoc Let_def p)
  qed
  finally show ?case .
qed (simp add: group_rules_def)

lemma sort_first_keys: "sort (first_keys [] ks) = sorted_set ks"
  unfolding sorted_set_def
  by (rule sorted_distinct_set_unique) (simp_all add: first_keys_distinct first_keys_set)

text \<open>What a candidate says apart from its route.\<close>

definition candidate_summary :: "candidate_action \<Rightarrow> pystr \<times> pystr list" where
  "candidate_summary c = (ca_fingerprint c, ca_rule_ids c)"

lemma candidate_summaries:
  "map candidate_summary (sort_key ca_fingerprint (map candidate (group_rules pairs))) =
     map (\<lambda>k. (k, sort (map rule_id (rules_with k pairs)))) (sorted_set (map fst pairs))"
proof -
  let ?c = "\<lambda>k. candidate (k, rules_with k pairs)"
  have "sort_key ca_fingerprint (map ?c ks) = map ?c (sort_key (\<lambda>k. k) ks)" for ks
    by (rule sort_key_map) (simp add: candidate_def)
  then show ?thesis
    by (simp add: group_rules_map comp_def sort_first_keys candidate_summary_def candidate_def)
qed

section \<open>The four outcomes\<close>

abbreviation rule_fp :: "router_env \<Rightarrow> rule_manifest \<Rightarrow> fingerprint_error + pystr" where
  "rule_fp env r \<equiv> action_fingerprint env (rm_decision r)"

definition matched_rules :: "router_env \<Rightarrow> pystr option \<Rightarrow> email_view \<Rightarrow> int \<Rightarrow> rule_manifest list
    \<Rightarrow> rule_manifest list" where
  "matched_rules env me view now rs = filter (\<lambda>r. rule_verdict env me view now r = Inr RULE_MATCHED) rs"

definition indeterminate_rules :: "router_env \<Rightarrow> pystr option \<Rightarrow> email_view \<Rightarrow> int
    \<Rightarrow> rule_manifest list \<Rightarrow> rule_manifest list" where
  "indeterminate_rules env me view now rs =
     filter (\<lambda>r. rule_verdict env me view now r = Inr RULE_INDETERMINATE) rs"

lemma fingerprint_pair_Inr:
  "fingerprint_pair env r = Inr p \<longleftrightarrow> rule_fp env r = Inr (fst p) \<and> snd p = r"
  by (cases p) (auto simp: fingerprint_pair_def lift_error_def and_then_Inr split: sum.splits)

lemma fingerprint_pairs:
  "traverse (fingerprint_pair env) rs = Inr pairs \<longleftrightarrow>
     map snd pairs = rs \<and> (\<forall>p\<in>set pairs. rule_fp env (snd p) = Inr (fst p))"
proof (induction rs arbitrary: pairs)
  case (Cons r rs)
  have "traverse (fingerprint_pair env) (r # rs) = Inr pairs \<longleftrightarrow>
    (\<exists>p ps. pairs = p # ps \<and> fingerprint_pair env r = Inr p \<and> traverse (fingerprint_pair env) rs = Inr ps)"
    by (auto split: sum.splits)
  also have "\<dots> \<longleftrightarrow> map snd pairs = r # rs \<and> (\<forall>p\<in>set pairs. rule_fp env (snd p) = Inr (fst p))"
    unfolding Cons.IH fingerprint_pair_Inr by (auto simp: map_eq_Cons_conv)
  finally show ?case .
qed auto

lemma build_tier1_cases:
  assumes "build_tier1_decision env me view now rules = Inr t"
  obtains pairs where
    "t = aggregate (matched_rules env me view now rules) (indeterminate_rules env me view now rules) pairs"
    "\<forall>r\<in>set rules. is_ok (rule_verdict env me view now r)"
    "indeterminate_rules env me view now rules = [] \<Longrightarrow> map snd pairs = matched_rules env me view now rules"
    "\<forall>p\<in>set pairs. rule_fp env (snd p) = Inr (fst p)"
proof -
  let ?m = "matched_rules env me view now rules" and ?i = "indeterminate_rules env me view now rules"
  from assms obtain m i where "classify_rules env me view now rules = Inr (m, i)"
    and rest: "(if i \<noteq> [] \<or> m = [] then Inr (aggregate m i [])
       else and_then (traverse (fingerprint_pair env) m) (\<lambda>pairs. Inr (aggregate m i pairs))) = Inr t"
    by (auto simp: build_tier1_decision_def and_then_Inr)
  then have ok: "\<forall>r\<in>set rules. is_ok (rule_verdict env me view now r)" and mi: "m = ?m" "i = ?i"
    unfolding classify_rules_iff matched_rules_def indeterminate_rules_def by blast+
  show ?thesis
  proof (cases "i \<noteq> [] \<or> m = []")
    case True
    with rest mi that [of "[]"] ok show ?thesis by auto
  next
    case False
    with rest obtain pairs where "traverse (fingerprint_pair env) m = Inr pairs" "t = aggregate m i pairs"
      by (auto simp: and_then_Inr)
    then show ?thesis using that [of pairs] ok mi by (auto simp: fingerprint_pairs)
  qed
qed

lemma first_keys_single: "first_keys [] ks = [k] \<longleftrightarrow> set ks = {k}"
proof
  assume "set ks = {k}"
  then have "set (first_keys [] ks) = {k}" "distinct (first_keys [] ks)"
    by (simp_all add: first_keys_set first_keys_distinct)
  then show "first_keys [] ks = [k]"
    by (metis distinct_card card.empty card_insert_disjoint finite.emptyI empty_iff length_0_conv
        length_Suc_conv list.set_intros(1) singletonD One_nat_def)
next
  assume "first_keys [] ks = [k]"
  then show "set ks = {k}" using first_keys_set [of "[]" ks] by simp
qed

lemma group_rules_single:
  "(\<exists>g. group_rules pairs = [g]) \<longleftrightarrow> (\<exists>k. fst ` set pairs = {k})"
  by (simp add: group_rules_map first_keys_single map_eq_Cons_conv)

text \<open>What the four outcomes mean, in terms of the verdicts and fingerprints of the rules.\<close>

definition tier1_spec :: "router_env \<Rightarrow> pystr option \<Rightarrow> email_view \<Rightarrow> int \<Rightarrow> rule_manifest list
    \<Rightarrow> tier1_decision \<Rightarrow> bool" where
  "tier1_spec env me view now rules t \<longleftrightarrow>
     (let m = matched_rules env me view now rules; i = indeterminate_rules env me view now rules in
      case t_outcome t of
        OUT_ERROR \<Rightarrow> i \<noteq> [] \<and> t_route t = Some ROUTE_MANUAL_REVIEW \<and> t_selected t = None
          \<and> t_matched_rules t = map rule_ref i
      | OUT_ABSTAIN \<Rightarrow> i = [] \<and> m = [] \<and> t_route t = None \<and> t_selected t = None
      | OUT_MATCHED \<Rightarrow> i = [] \<and> m \<noteq> [] \<and> t_matched_rules t = map rule_ref m
          \<and> (\<exists>fp. t_selected t = Some fp \<and> (\<forall>r\<in>set m. rule_fp env r = Inr fp))
          \<and> t_route t = Some (d_route (rm_decision (hd m)))
      | OUT_CONFLICT \<Rightarrow> i = [] \<and> t_matched_rules t = map rule_ref m
          \<and> t_route t = Some ROUTE_MANUAL_REVIEW \<and> t_selected t = None
          \<and> (\<exists>r\<in>set m. \<exists>s\<in>set m. rule_fp env r \<noteq> rule_fp env s)
          \<and> sorted (map ca_fingerprint (t_candidate_actions t))
          \<and> Inr ` ca_fingerprint ` set (t_candidate_actions t) = rule_fp env ` set m)"

lemma aggregate_spec:
  assumes t: "t = aggregate m i pairs" and pairs: "i = [] \<Longrightarrow> map snd pairs = m"
    "\<forall>p\<in>set pairs. rule_fp env (snd p) = Inr (fst p)"
    and m: "m = matched_rules env me view now rules" and i: "i = indeterminate_rules env me view now rules"
  shows "tier1_spec env me view now rules t"
proof (cases "i \<noteq> [] \<or> m = []")
  case True
  then show ?thesis by (auto simp: t tier1_spec_def aggregate_def m [symmetric] i [symmetric] Let_def)
next
  case False
  with pairs have snd: "map snd pairs = m" and ne: "pairs \<noteq> []" by auto
  have fps: "rule_fp env ` set m = Inr ` fst ` set pairs"
    unfolding snd [symmetric] set_map image_image using pairs(2) by (intro image_cong) auto
  show ?thesis
  proof (cases "\<exists>k. fst ` set pairs = {k}")
    case True
    then obtain k where k: "fst ` set pairs = {k}" by blast
    then have "first_keys [] (map fst pairs) = [k]" by (simp add: first_keys_single)
    then have g: "group_rules pairs = [(k, rules_with k pairs)]" by (simp add: group_rules_map)
    have all_k: "fst p = k" if "p \<in> set pairs" for p using k that by auto
    have all: "rules_with k pairs = m"
      unfolding rules_with_def snd [symmetric] using all_k by (auto simp: filter_id_conv)
    have "\<forall>r\<in>set m. rule_fp env r = Inr k" using fps k by auto
    with False g all show ?thesis
      by (simp add: t tier1_spec_def aggregate_def m [symmetric] i [symmetric] Let_def candidate_def)
  next
    case other: False
    then have many: "\<And>g. group_rules pairs \<noteq> [g]" using group_rules_single by blast
    have differ: "\<exists>r\<in>set m. \<exists>s\<in>set m. rule_fp env r \<noteq> rule_fp env s"
    proof (rule ccontr)
      assume "\<not> ?thesis"
      then have same: "rule_fp env r = rule_fp env s" if "r \<in> set m" "s \<in> set m" for r s using that by blast
      obtain p where p: "p \<in> set pairs" using ne by (cases pairs) auto
      have "fst q = fst p" if "q \<in> set pairs" for q
      proof -
        have "snd q \<in> snd ` set pairs" "snd p \<in> snd ` set pairs" using that p by simp_all
        moreover have "snd ` set pairs = set m" unfolding snd [symmetric] by simp
        ultimately have eq: "rule_fp env (snd q) = rule_fp env (snd p)" by (intro same) simp_all
        have "rule_fp env (snd q) = Inr (fst q)" "rule_fp env (snd p) = Inr (fst p)"
          using pairs(2) that p by blast+
        with eq show ?thesis by simp
      qed
      then have "fst ` set pairs \<subseteq> {fst p}" by blast
      then have "fst ` set pairs = {fst p}" using p by blast
      with other show False by blast
    qed
    define cs where "cs = sort_key ca_fingerprint (map candidate (group_rules pairs))"
    have "ca_fingerprint ` set cs = fst ` set pairs"
      unfolding cs_def set_sort group_rules_map
      by (simp add: image_image candidate_def first_keys_set)
    moreover have "sorted (map ca_fingerprint cs)" by (simp add: cs_def)
    moreover have "aggregate m i pairs = \<lparr>t_outcome = OUT_CONFLICT, t_route = Some ROUTE_MANUAL_REVIEW,
              t_origin = Some RUNTIME_CONFLICT, t_matched_rules = map rule_ref m,
              t_candidate_actions = cs, t_selected = None,
              t_business_flow_ids = business_flows m, t_reason_codes = reason_codes m\<rparr>"
      using False many unfolding aggregate_def cs_def by (simp split: list.splits)
    ultimately show ?thesis
      using False differ fps
      by (simp add: t tier1_spec_def m [symmetric] i [symmetric] Let_def)
  qed
qed

lemma build_tier1_spec:
  assumes "build_tier1_decision env me view now rules = Inr t"
  shows "tier1_spec env me view now rules t"
proof -
  from build_tier1_cases [OF assms] obtain pairs where
    "t = aggregate (matched_rules env me view now rules) (indeterminate_rules env me view now rules) pairs"
    "indeterminate_rules env me view now rules = [] \<Longrightarrow> map snd pairs = matched_rules env me view now rules"
    "\<forall>p\<in>set pairs. rule_fp env (snd p) = Inr (fst p)" by metis
  from aggregate_spec [OF this refl refl] show ?thesis .
qed

text \<open>
  C28. The tier-1 decision is exactly the verdict of its active rules: an error sent to manual
  review iff some rule is indeterminate; abstention iff none matches; a match iff every
  matching rule has one and the same action fingerprint, which is the selected one; otherwise a
  conflict sent to manual review that lists the distinct fingerprints of the matching rules in
  order. No rule wins over another.
\<close>

theorem tier1_outcome_exact:
  assumes "build_tier1_decision env me view now rules = Inr t"
  shows "tier1_spec env me view now rules t"
  using assms by (rule build_tier1_spec)

section \<open>The order of the rules\<close>

definition fp_pair :: "router_env \<Rightarrow> rule_manifest \<Rightarrow> pystr \<times> rule_manifest" where
  "fp_pair env r = (projr (rule_fp env r), r)"

lemma fingerprint_pairs_map:
  "traverse (fingerprint_pair env) rs = Inr pairs \<longleftrightarrow>
     (\<forall>r\<in>set rs. is_ok (rule_fp env r)) \<and> pairs = map (fp_pair env) rs"
proof (induction rs arbitrary: pairs)
  case (Cons r rs)
  have "traverse (fingerprint_pair env) (r # rs) = Inr pairs \<longleftrightarrow>
    (\<exists>p ps. pairs = p # ps \<and> fingerprint_pair env r = Inr p \<and> traverse (fingerprint_pair env) rs = Inr ps)"
    by (auto split: sum.splits)
  also have "\<dots> \<longleftrightarrow> (\<forall>r\<in>set (r # rs). is_ok (rule_fp env r)) \<and> pairs = map (fp_pair env) (r # rs)"
    unfolding Cons.IH fingerprint_pair_Inr
    by (cases "rule_fp env r") (auto simp: fp_pair_def)
  finally show ?case .
qed auto

lemma build_tier1_iff:
  "build_tier1_decision env me view now rules = Inr t \<longleftrightarrow>
     (\<forall>r\<in>set rules. is_ok (rule_verdict env me view now r))
     \<and> (let m = matched_rules env me view now rules; i = indeterminate_rules env me view now rules in
        (i = [] \<longrightarrow> (\<forall>r\<in>set m. is_ok (rule_fp env r))) \<and> t = aggregate m i (map (fp_pair env) m))"
proof -
  let ?m = "matched_rules env me view now rules" and ?i = "indeterminate_rules env me view now rules"
  have agg: "aggregate m i p = aggregate m i q" if "i \<noteq> [] \<or> m = []" for m i p q
    using that by (auto simp: aggregate_def)
  have "build_tier1_decision env me view now rules = Inr t \<longleftrightarrow>
    (\<exists>m i. classify_rules env me view now rules = Inr (m, i) \<and>
      (if i \<noteq> [] \<or> m = [] then t = aggregate m i []
       else \<exists>pairs. traverse (fingerprint_pair env) m = Inr pairs \<and> t = aggregate m i pairs))"
  proof (cases "classify_rules env me view now rules")
    case (Inr p)
    then show ?thesis
      by (cases p; cases "traverse (fingerprint_pair env) (fst p)")
        (auto simp: build_tier1_decision_def)
  qed (simp add: build_tier1_decision_def)
  also have "\<dots> \<longleftrightarrow> (\<forall>r\<in>set rules. is_ok (rule_verdict env me view now r)) \<and>
      (if ?i \<noteq> [] \<or> ?m = [] then t = aggregate ?m ?i []
       else (\<forall>r\<in>set ?m. is_ok (rule_fp env r)) \<and> t = aggregate ?m ?i (map (fp_pair env) ?m))"
    unfolding classify_rules_iff fingerprint_pairs_map matched_rules_def indeterminate_rules_def by metis
  also have "\<dots> \<longleftrightarrow> (\<forall>r\<in>set rules. is_ok (rule_verdict env me view now r)) \<and>
      (?i = [] \<longrightarrow> (\<forall>r\<in>set ?m. is_ok (rule_fp env r))) \<and> t = aggregate ?m ?i (map (fp_pair env) ?m)"
    using agg [of ?i ?m "[]" "map (fp_pair env) ?m"] by (cases "?i = []"; cases "?m = []") simp_all
  finally show ?thesis by (simp add: Let_def)
qed

lemma sort_mset_cong: "mset xs = mset ys \<Longrightarrow> sort xs = sort ys"
  by (metis mset_sort properties_for_sort sorted_sort)

lemma candidate_summaries_cong:
  assumes "mset pairs = mset pairs'"
  shows "map candidate_summary (sort_key ca_fingerprint (map candidate (group_rules pairs))) =
    map candidate_summary (sort_key ca_fingerprint (map candidate (group_rules pairs')))"
proof -
  have "sort (map rule_id (rules_with k pairs)) = sort (map rule_id (rules_with k pairs'))" for k
    using assms by (intro sort_mset_cong) (simp add: rules_with_def)
  moreover have "sorted_set (map fst pairs) = sorted_set (map fst pairs')"
    using mset_eq_setD [OF assms] by (intro sorted_set_cong) simp
  ultimately show ?thesis by (simp add: candidate_summaries)
qed

lemma map_filter_set_cong:
  assumes "set xs = set ys"
  shows "set (List.map_filter f xs) = set (List.map_filter f ys)"
  using assms by (auto simp: List.map_filter_def)

text \<open>Decisions equal but for the order of the rules they list and of the route's witness.\<close>

definition same_decision :: "tier1_decision \<Rightarrow> tier1_decision \<Rightarrow> bool" where
  "same_decision t u \<longleftrightarrow>
     t_outcome t = t_outcome u \<and> t_route t = t_route u \<and> t_origin t = t_origin u
     \<and> mset (t_matched_rules t) = mset (t_matched_rules u)
     \<and> map candidate_summary (t_candidate_actions t) = map candidate_summary (t_candidate_actions u)
     \<and> t_selected t = t_selected u \<and> t_business_flow_ids t = t_business_flow_ids u
     \<and> t_reason_codes t = t_reason_codes u"

lemma aggregate_same:
  assumes m: "mset m = mset m'" and i: "mset i = mset i'"
    and routes: "\<And>r s. r \<in> set m \<Longrightarrow> s \<in> set m \<Longrightarrow> rule_fp env r = rule_fp env s
      \<Longrightarrow> d_route (rm_decision r) = d_route (rm_decision s)"
    and ok: "i = [] \<Longrightarrow> \<forall>r\<in>set m. is_ok (rule_fp env r)"
  shows "same_decision (aggregate m i (map (fp_pair env) m)) (aggregate m' i' (map (fp_pair env) m'))"
proof -
  let ?p = "map (fp_pair env) m" and ?p' = "map (fp_pair env) m'"
  have sets: "set m = set m'" "set i = set i'" by (rule mset_eq_setD [OF m], rule mset_eq_setD [OF i])
  have pm: "mset ?p = mset ?p'" using m by simp
  have flows: "business_flows m = business_flows m'" "reason_codes m = reason_codes m'"
    unfolding business_flows_def reason_codes_def
    by (intro sorted_set_cong map_filter_set_cong sets(1))+
  consider "i \<noteq> []" | "i = []" "m = []" | "i = []" "m \<noteq> []" by blast
  then show ?thesis
  proof cases
    case 1
    then have "i' \<noteq> []" using i by auto
    with 1 i show ?thesis by (simp add: aggregate_def same_decision_def)
  next
    case 2
    then have "i' = []" "m' = []" using i m by auto
    with 2 show ?thesis by (simp add: aggregate_def same_decision_def)
  next
    case 3
    then have ne: "i' = []" "m' \<noteq> []" using i m by auto
    note cands = candidate_summaries_cong [OF pm]
    show ?thesis
    proof (cases "\<exists>k. fst ` set ?p = {k}")
      case True
      then obtain k where k: "fst ` set ?p = {k}" by blast
      then have k': "fst ` set ?p' = {k}" using sets by simp
      have g: "group_rules q = [(k, rules_with k q)]" if "fst ` set q = {k}" for q
      proof -
        have "first_keys [] (map fst q) = [k]" unfolding first_keys_single using that by simp
        then show ?thesis by (simp add: group_rules_map)
      qed
      have hd_in: "hd (rules_with k q) \<in> snd ` set q" if "fst ` set q = {k}" for q
      proof -
        from that have "k \<in> fst ` set q" by simp
        then have "rules_with k q \<noteq> []" by (auto simp: rules_with_def filter_empty_conv)
        then have "hd (rules_with k q) \<in> set (rules_with k q)" by simp
        then show ?thesis by (auto simp: rules_with_def)
      qed
      have in_m: "hd (rules_with k ?p) \<in> set m" "hd (rules_with k ?p') \<in> set m"
        using hd_in [OF k] hd_in [OF k'] sets by (auto simp: fp_pair_def)
      have key: "projr (rule_fp env r) = k" if "r \<in> set m" for r
      proof -
        have "projr (rule_fp env r) \<in> fst ` set ?p" using that by (force simp: fp_pair_def)
        with k show ?thesis by simp
      qed
      have "rule_fp env r = Inr k" if "r \<in> set m" for r
      proof -
        from ok [OF 3(1)] that have "is_ok (rule_fp env r)" by blast
        then show ?thesis using key [OF that] by (auto elim!: is_okE)
      qed
      with in_m have "rule_fp env (hd (rules_with k ?p)) = rule_fp env (hd (rules_with k ?p'))" by simp
      with routes in_m have
        "d_route (rm_decision (hd (rules_with k ?p))) = d_route (rm_decision (hd (rules_with k ?p')))"
        by blast
      with 3 ne g [OF k] g [OF k'] cands flows m show ?thesis
        by (simp add: aggregate_def same_decision_def candidate_def)
    next
      case False
      moreover from False have "\<not> (\<exists>k. fst ` set ?p' = {k})" using sets by simp
      ultimately have many: "\<And>g. group_rules ?p \<noteq> [g]" "\<And>g. group_rules ?p' \<noteq> [g]"
        using group_rules_single [of ?p] group_rules_single [of ?p'] by blast+
      have conflict: "aggregate n [] q = \<lparr>t_outcome = OUT_CONFLICT, t_route = Some ROUTE_MANUAL_REVIEW,
          t_origin = Some RUNTIME_CONFLICT, t_matched_rules = map rule_ref n,
          t_candidate_actions = sort_key ca_fingerprint (map candidate (group_rules q)),
          t_selected = None, t_business_flow_ids = business_flows n,
          t_reason_codes = reason_codes n\<rparr>"
        if "n \<noteq> []" "\<And>g. group_rules q \<noteq> [g]" for n q
        using that unfolding aggregate_def by (simp split: list.splits)
      show ?thesis
        unfolding 3(1) ne(1) conflict [OF 3(2) many(1)] conflict [OF ne(2) many(2)] same_decision_def
        using cands flows m by simp
    qed
  qed
qed

text \<open>
  C29. The order in which the rules are listed does not matter: on any permutation of the rules
  the tier-1 decision exists exactly when it does on the original order, and it has the same
  outcome, route, selected action, candidates, business flows and reason codes, and names the
  same matched rules. (Equal fingerprints are assumed to mean equal routes, which holds unless
  the hash collides, see the next property.)
\<close>

theorem tier1_order_irrelevant:
  assumes "mset rules = mset rules'" "build_tier1_decision env me view now rules = Inr t"
    "\<forall>r\<in>set rules. \<forall>s\<in>set rules. rule_fp env r = rule_fp env s \<longrightarrow>
       d_route (rm_decision r) = d_route (rm_decision s)"
  shows "\<exists>t'. build_tier1_decision env me view now rules' = Inr t' \<and> same_decision t t'"
proof -
  let ?m = "matched_rules env me view now" and ?i = "indeterminate_rules env me view now"
  have m: "mset (?m rules) = mset (?m rules')" and i: "mset (?i rules) = mset (?i rules')"
    using assms(1) by (simp_all add: matched_rules_def indeterminate_rules_def)
  have sets: "set rules = set rules'" "set (?m rules) = set (?m rules')" "(?i rules = []) = (?i rules' = [])"
    using mset_eq_setD [OF assms(1)] mset_eq_setD [OF m] i by auto
  from assms(2) have t: "t = aggregate (?m rules) (?i rules) (map (fp_pair env) (?m rules))"
    and ok: "?i rules = [] \<Longrightarrow> \<forall>r\<in>set (?m rules). is_ok (rule_fp env r)"
    and verdicts: "\<forall>r\<in>set rules. is_ok (rule_verdict env me view now r)"
    by (simp_all add: build_tier1_iff Let_def)
  have "build_tier1_decision env me view now rules' =
      Inr (aggregate (?m rules') (?i rules') (map (fp_pair env) (?m rules')))"
    using ok verdicts sets by (simp add: build_tier1_iff Let_def)
  moreover have "same_decision t (aggregate (?m rules') (?i rules') (map (fp_pair env) (?m rules')))"
    unfolding t
  proof (rule aggregate_same [OF m i _ ok])
    fix r s assume "r \<in> set (?m rules)" "s \<in> set (?m rules)" "rule_fp env r = rule_fp env s"
    with assms(3) show "d_route (rm_decision r) = d_route (rm_decision s)"
      by (simp add: matched_rules_def)
  qed
  ultimately show ?thesis by blast
qed

section \<open>What a fingerprint identifies\<close>

lemma lit_v: "lit ''v'' = [118]"
  by (simp add: lit_def)

definition plain_profile :: "pystr option \<Rightarrow> bool" where
  "plain_profile p = (case p of None \<Rightarrow> True | Some s \<Rightarrow> list_all plain_char s)"

lemma action_fingerprint_cases:
  assumes "action_fingerprint env d = Inr fp" "canonicalize_params env (d_route d) (d_typed d) = Inr j"
  shows "fp = fingerprint_text env
      (if truthy (d_handoff_profile_id d) = None then lit ''sha256:'' else lit ''sha256:v2:'')
      (fingerprint_payload (d_route d) j (truthy (d_handoff_profile_id d)))"
  using assms
  by (auto simp: action_fingerprint_def compute_action_fingerprint_def or_text_def Let_def
      truthy_def split: option.splits if_splits)

lemma fingerprint_text_inject:
  assumes "inj (r_sha256 env)" "plain a" "plain b"
  shows "fingerprint_text env p a = fingerprint_text env p b \<longleftrightarrow> sort_fields a = sort_fields b"
proof -
  let ?t = "json_dumps (compact_format True (r_float_text env))"
  have "fingerprint_text env p a = fingerprint_text env p b \<longleftrightarrow> utf8 (?t a) = utf8 (?t b)"
    using assms(1) by (simp add: fingerprint_text_def inj_eq)
  also have "\<dots> \<longleftrightarrow> ?t a = ?t b"
    by (simp only: utf8_ascii [OF json_dumps_ascii [OF assms(2)]] utf8_ascii [OF json_dumps_ascii [OF assms(3)]])
  also have "\<dots> \<longleftrightarrow> sort_fields a = sort_fields b"
    using json_dumps_sort_fields_eq [OF compact_separator assms(2,3)] json_dumps_sort_fields by metis
  finally show ?thesis .
qed

lemma plain_payload:
  "plain (fingerprint_payload route j p) \<longleftrightarrow> plain j \<and> plain_profile p"
proof -
  have "list_all plain_char (canonical_route_value route)"
    by (cases route) (simp_all add: lit_def plain_char_def is_surrogate_def)
  moreover have "list_all plain_char (lit ''route'')" "list_all plain_char (lit ''params'')"
    "list_all plain_char (lit ''handoff_profile_id'')"
    by (simp_all add: lit_def plain_char_def is_surrogate_def)
  ultimately show ?thesis
    by (simp add: fingerprint_payload_def plain_profile_def split: option.split)
qed

lemma sort_fields_payload:
  "sort_fields (fingerprint_payload route j p) = JObj
     ((case p of None \<Rightarrow> [] | Some s \<Rightarrow> [(lit ''handoff_profile_id'', JStr s)])
      @ [(lit ''params'', sort_fields j), (lit ''route'', JStr (canonical_route_value route))])"
  by (cases p) (simp_all add: fingerprint_payload_def lit_def)


section \<open>Sample rules\<close>

definition sample_tier1_env :: router_env where
  "sample_tier1_env = sample_router_env\<lparr>r_sha256 := (\<lambda>b. 48 # b)\<rparr>"

definition sample_rule :: "string \<Rightarrow> canonical_route \<Rightarrow> pystr option \<Rightarrow> typed_params \<Rightarrow> rule_manifest" where
  "sample_rule i route profile typed = \<lparr>rule_id = lit i, rule_version = 1, rm_status = ENABLED,
     rm_owner = None, rm_purpose = None, rm_validity = \<lparr>effective_from = None, expires_at = None\<rparr>,
     rm_match = sample_match,
     rm_decision = \<lparr>d_route = route, d_business_flow_id = Some (lit i), d_handoff_profile_id = profile,
       d_params = [], d_typed = typed\<rparr>,
     rm_governance = \<lparr>g_criticality = None, g_risk_notes = None, g_positive_cases = [],
       g_negative_cases = [], g_external_recipient_acknowledged = False,
       g_full_text_match_acknowledged = False, g_owner_reviewed_at = None\<rparr>\<rparr>"

definition sample_rules :: "rule_manifest list" where
  "sample_rules =
     [sample_rule ''r1'' ROUTE_REPLY (Some (lit ''generic_reply_v1'')) (ReplyParams None),
      sample_rule ''r2'' ROUTE_REPLY (Some (lit ''generic_reply_v1''))
        (ReplyParams (Some SENDER_AND_ORIGINAL_CC)),
      sample_rule ''r3'' ROUTE_READ_ONLY None ReadOnlyParams]"

definition sample_build :: "rule_manifest list \<Rightarrow> tier1_error + tier1_decision" where
  "sample_build = build_tier1_decision sample_tier1_env (Some (lit ''me@x'')) (known_view sample_mail) 0"

theorem tier1_outcome_exact_witness:
  "\<exists>t. sample_build sample_rules = Inr t \<and> t_outcome t = OUT_CONFLICT
     \<and> tier1_spec sample_tier1_env (Some (lit ''me@x'')) (known_view sample_mail) 0 sample_rules t"
proof -
  have "case sample_build sample_rules of Inl e \<Rightarrow> False | Inr t \<Rightarrow> t_outcome t = OUT_CONFLICT" by code_simp
  then obtain t where t: "sample_build sample_rules = Inr t" "t_outcome t = OUT_CONFLICT"
    by (auto split: sum.splits)
  from tier1_outcome_exact [OF t(1) [unfolded sample_build_def]] t show ?thesis by blast
qed

theorem tier1_order_irrelevant_witness:
  "\<exists>t. sample_build (rev sample_rules) = Inr t \<and> t_outcome t = OUT_CONFLICT"
proof -
  have "case sample_build sample_rules of Inl e \<Rightarrow> False | Inr t \<Rightarrow> t_outcome t = OUT_CONFLICT" by code_simp
  then obtain t where t: "sample_build sample_rules = Inr t" "t_outcome t = OUT_CONFLICT"
    by (auto split: sum.splits)
  have perm: "mset sample_rules = mset (rev sample_rules)" by simp
  have routes: "\<forall>r\<in>set sample_rules. \<forall>s\<in>set sample_rules.
      rule_fp sample_tier1_env r = rule_fp sample_tier1_env s \<longrightarrow>
      d_route (rm_decision r) = d_route (rm_decision s)" by code_simp
  from tier1_order_irrelevant [OF perm t(1) [unfolded sample_build_def] routes] t(2)
  show ?thesis unfolding sample_build_def same_decision_def by auto
qed


end
