(* ===== verification/RouterArtifacts.thy ===== *)
theory RouterArtifacts
  imports RouterCompiler RouterAggregation
begin

text \<open>
  Correctness of the registry compiler: what an artifact guarantees of its rules, that no
  enabled rule is dropped, that publishing and loading return the same artifact, that the
  pointer switch is the only step a reader can see, and that an artifact's rules always yield a
  decision.
\<close>

section \<open>Splitting the pipeline\<close>

lemma traverse_map_Inr:
  "traverse f xs = Inr ys \<Longrightarrow> list_all2 (\<lambda>x y. f x = Inr y) xs ys"
  by (induction xs arbitrary: ys) (auto split: sum.splits)

lemma check_rules_clean:
  assumes "check_rules env me domains now rs = Inr ([], ws)" "r \<in> set rs"
  obtains w where "check_rule env me domains now r = Inr ([], w)"
  using assms by (induction rs arbitrary: ws) (auto simp: and_then_Inr)

definition rule_admitted :: "compiler_env \<Rightarrow> pystr option \<Rightarrow> int \<Rightarrow> rule_manifest \<Rightarrow> bool" where
  "rule_admitted env me now r \<longleftrightarrow>
     (\<exists>warnings. check_validity (router env) now r = Inr ([], warnings))
     \<and> list_all (leaf_regex_safe (router env)) (iter_condition_leaves (m_conditions (rm_match r)))
     \<and> list_all (\<lambda>c. fixture_status env me r c = Inr RULE_MATCHED) (g_positive_cases (rm_governance r))
     \<and> list_all (\<lambda>c. fixture_status env me r c = Inr RULE_NOT_MATCHED) (g_negative_cases (rm_governance r))"

lemma regex_safety_clean:
  "check_regex_safety env r = [] \<longleftrightarrow>
     list_all (leaf_regex_safe env) (iter_condition_leaves (m_conditions (rm_match r)))"
  by (auto simp: check_regex_safety_def leaf_regex_safe_def filter_empty_conv list_all_iff)

lemma traverse_all:
  "traverse f xs = Inr ys \<Longrightarrow> filter (\<lambda>y. y \<noteq> v) ys = [] \<Longrightarrow> list_all (\<lambda>x. f x = Inr v) xs"
  by (induction xs arbitrary: ys) (auto split: sum.splits if_splits)

lemma run_fixtures_clean:
  assumes "run_fixtures env me r = Inr []"
  shows "list_all (\<lambda>c. fixture_status env me r c = Inr RULE_MATCHED) (g_positive_cases (rm_governance r))
    \<and> list_all (\<lambda>c. fixture_status env me r c = Inr RULE_NOT_MATCHED) (g_negative_cases (rm_governance r))"
  using assms by (auto simp: run_fixtures_def and_then_Inr intro: traverse_all)

lemma check_rule_clean:
  assumes "check_rule env me domains now r = Inr ([], w)"
  shows "rule_admitted env me now r \<and> check_external_recipients (router env) domains r = []"
proof -
  from assms obtain errors warnings fixtures where
    v: "check_validity (router env) now r = Inr (errors, warnings)" and
    f: "(if check_regex_safety (router env) r \<noteq> [] then Inr [] else run_fixtures env me r) = Inr fixtures" and
    e: "errors @ check_regex_safety (router env) r @ check_external_recipients (router env) domains r
        @ fixtures = []"
    by (auto simp: check_rule_def and_then_Inr Let_def)
  then have "check_regex_safety (router env) r = []" "run_fixtures env me r = Inr []" "errors = []"
    by auto
  with v e run_fixtures_clean regex_safety_clean show ?thesis
    unfolding rule_admitted_def by auto
qed

lemma parse_one_file_valid:
  assumes "parse_one_file env f = Inr (Some r, issues)"
  shows "validate_manifest env r = Inr r"
  using assms
  by (auto simp: parse_one_file_def Let_def split: rule_file.splits option.splits sum.splits
      schema_error.splits dest: validate_manifest_idem)

lemma parse_files_ConsE:
  assumes "parse_files env (f # fs) = Inr (rules, errors, warnings)"
  obtains m is' rs es ws where "parse_one_file env f = Inr (m, is')" "parse_files env fs = Inr (rs, es, ws)"
    "rules = (case m of Some r \<Rightarrow> if rm_status r = ENABLED then r # rs else rs | None \<Rightarrow> rs)"
    "set rs \<subseteq> set rules"
proof -
  from assms obtain m is' rs es ws where *: "parse_one_file env f = Inr (m, is')"
    "parse_files env fs = Inr (rs, es, ws)"
    "rules = (case m of Some r \<Rightarrow> if rm_status r = ENABLED then r # rs else rs | None \<Rightarrow> rs)"
    by (auto simp: and_then_Inr)
  then have "set rs \<subseteq> set rules" by (auto split: option.splits)
  with * that show ?thesis by blast
qed

lemma parse_files_valid:
  "parse_files env fs = Inr (rules, errors, warnings) \<Longrightarrow> r \<in> set rules
   \<Longrightarrow> validate_manifest env r = Inr r \<and> rm_status r = ENABLED"
proof (induction fs arbitrary: rules errors warnings)
  case (Cons f fs)
  obtain m is' rs es ws where f: "parse_one_file env f = Inr (m, is')"
    and rs: "parse_files env fs = Inr (rs, es, ws)"
    and rules: "rules = (case m of Some r \<Rightarrow> if rm_status r = ENABLED then r # rs else rs | None \<Rightarrow> rs)"
    using Cons.prems(1) by (rule parse_files_ConsE)
  show ?case
  proof (cases "r \<in> set rs")
    case True
    with Cons.IH [OF rs] show ?thesis .
  next
    case False
    with rules Cons.prems(2) have "m = Some r" "rm_status r = ENABLED"
      by (auto split: option.splits if_splits)
    with f parse_one_file_valid show ?thesis by blast
  qed
qed simp

lemma parse_files_complete:
  "parse_files env fs = Inr (rules, errors, warnings) \<Longrightarrow> f \<in> set fs
   \<Longrightarrow> parse_one_file env f = Inr (Some r, issues) \<Longrightarrow> rm_status r = ENABLED \<Longrightarrow> r \<in> set rules"
proof (induction fs arbitrary: rules errors warnings)
  case (Cons g fs)
  obtain m is' rs es ws where g: "parse_one_file env g = Inr (m, is')"
    and rs: "parse_files env fs = Inr (rs, es, ws)"
    and rules: "rules = (case m of Some r \<Rightarrow> if rm_status r = ENABLED then r # rs else rs | None \<Rightarrow> rs)"
    and sub: "set rs \<subseteq> set rules"
    using Cons.prems(1) by (rule parse_files_ConsE)
  show ?case
  proof (cases "f = g")
    case True
    with g Cons.prems(3,4) rules show ?thesis by simp
  next
    case False
    with Cons.prems(2) have "f \<in> set fs" by simp
    from Cons.IH [OF rs this Cons.prems(3,4)] sub show ?thesis by blast
  qed
qed simp

lemma duplicate_ids_clean:
  "check_duplicate_ids seen rs = [] \<Longrightarrow> distinct (map rule_id rs) \<and> set (map rule_id rs) \<inter> set seen = {}"
proof (induction rs arbitrary: seen)
  case (Cons r rs)
  from Cons.prems have fresh: "rule_id r \<notin> set seen" and rest: "check_duplicate_ids (rule_id r # seen) rs = []"
    by (simp_all split: if_splits)
  have "distinct (map rule_id rs) \<and> set (map rule_id rs) \<inter> set (rule_id r # seen) = {}"
    by (rule Cons.IH [OF rest])
  with fresh show ?case by auto
qed simp

lemma distinct_firsts_set: "set (distinct_firsts seen xs) = set xs - set seen"
  by (induction xs arbitrary: seen) auto

lemma overlap_clean:
  assumes "overlap_errors env cs = []" "c \<in> set cs" "d \<in> set cs" "signature_of env c = signature_of env d"
  shows "snd c = snd d"
proof (rule ccontr)
  assume ne: "snd c \<noteq> snd d"
  let ?g = "map snd (filter (\<lambda>e. signature_of env e = signature_of env c) cs)"
  have "{snd c, snd d} \<subseteq> set (remdups ?g)" using assms(2-4) by auto
  then have "card {snd c, snd d} \<le> card (set (remdups ?g))" by (rule card_mono [rotated]) simp
  then have "2 \<le> length (remdups ?g)"
    using ne by (simp add: length_remdups_card_conv)
  moreover have "signature_of env c \<in> set (distinct_firsts [] (map (signature_of env) cs))"
    using assms(2) by (simp add: distinct_firsts_set)
  ultimately show False using assms(1) by (auto simp: overlap_errors_def filter_empty_conv)
qed

lemma compile_registry_cases:
  assumes "compile_registry env me domains now files = Inr (Compiled a)"
  obtains enabled warnings ws where
    "parse_files (router env) files = Inr (enabled, [], warnings)"
    "check_rules env me domains now enabled = Inr ([], ws)"
    "check_duplicate_ids [] enabled = []"
    "traverse (compile_rule_fp (router env)) (sort_key rule_id enabled) = Inr (art_rules a)"
    "overlap_errors (router env) (art_rules a) = []"
    "art_schema_version a = SCHEMA_VERSION" "art_fingerprint_version a = FINGERPRINT_VERSION"
    "art_digest a = payload_digest (router env) (executable_payload env a)"
  using assms
  unfolding compile_registry_def and_then_Inr
  by (auto simp: and_then_Inr Let_def executable_payload_def split: if_splits)

section \<open>What an artifact guarantees\<close>

definition artifact_ok :: "compiler_env \<Rightarrow> pystr option \<Rightarrow> pystr list \<Rightarrow> int \<Rightarrow> compiled_artifact \<Rightarrow> bool"
  where
  "artifact_ok env me domains now a \<longleftrightarrow>
     (\<forall>(r, fp)\<in>set (art_rules a).
        rm_status r = ENABLED \<and> validate_manifest (router env) r = Inr r \<and> rule_admitted env me now r
        \<and> check_external_recipients (router env) domains r = []
        \<and> rule_fp (router env) r = Inr fp)
     \<and> distinct (map (rule_id \<circ> fst) (art_rules a)) \<and> sorted (map (rule_id \<circ> fst) (art_rules a))
     \<and> (\<forall>c\<in>set (art_rules a). \<forall>d\<in>set (art_rules a).
          signature_of (router env) c = signature_of (router env) d \<longrightarrow> snd c = snd d)
     \<and> art_digest a = payload_digest (router env) (executable_payload env a)"

lemma compiled_rules:
  assumes "traverse (compile_rule_fp env) rs = Inr cs"
  shows "map fst cs = rs" "\<forall>(r, fp)\<in>set cs. rule_fp env r = Inr fp"
proof -
  from traverse_map_Inr [OF assms]
  have "list_all2 (\<lambda>r c. fst c = r \<and> rule_fp env r = Inr (snd c)) rs cs"
    by (rule list_all2_mono) (auto simp: compile_rule_fp_def and_then_Inr lift_error_def split: sum.splits)
  then show "map fst cs = rs" "\<forall>(r, fp)\<in>set cs. rule_fp env r = Inr fp"
    by (induction rule: list_all2_induct) auto
qed

lemma compiled_artifact_ok:
  assumes "compile_registry env me domains now files = Inr (Compiled a)"
  shows "artifact_ok env me domains now a
    \<and> (\<forall>f\<in>set files. \<forall>r issues. parse_one_file (router env) f = Inr (Some r, issues)
        \<longrightarrow> rm_status r = ENABLED \<longrightarrow> r \<in> fst ` set (art_rules a))"
proof -
  from assms obtain enabled warnings ws where
    files: "parse_files (router env) files = Inr (enabled, [], warnings)" and
    rules: "check_rules env me domains now enabled = Inr ([], ws)" and
    ids: "check_duplicate_ids [] enabled = []" and
    comp: "traverse (compile_rule_fp (router env)) (sort_key rule_id enabled) = Inr (art_rules a)" and
    overlap: "overlap_errors (router env) (art_rules a) = []" and
    digest: "art_digest a = payload_digest (router env) (executable_payload env a)"
    by (rule compile_registry_cases)
  note fsts = compiled_rules(1) [OF comp]
  have mem: "fst ` set (art_rules a) = set enabled"
    using arg_cong [OF fsts, of set] by simp
  have each: "rm_status r = ENABLED \<and> validate_manifest (router env) r = Inr r \<and> rule_admitted env me now r
      \<and> check_external_recipients (router env) domains r = []" if "r \<in> set enabled" for r
  proof -
    note member = that
    obtain w where "check_rule env me domains now r = Inr ([], w)"
      by (rule check_rules_clean [OF rules member])
    from check_rule_clean [OF this] parse_files_valid [OF files that] show ?thesis by blast
  qed
  have "map (rule_id \<circ> fst) (art_rules a) = map rule_id (sort_key rule_id enabled)"
    using fsts by (metis map_map)
  moreover have "distinct (map rule_id (sort_key rule_id enabled))"
    using duplicate_ids_clean [OF ids] by (simp add: distinct_map inj_on_def)
  ultimately have order: "distinct (map (rule_id \<circ> fst) (art_rules a))"
    "sorted (map (rule_id \<circ> fst) (art_rules a))" by simp_all
  have "artifact_ok env me domains now a"
    unfolding artifact_ok_def
  proof (intro conjI order digest)
    show "\<forall>(r, fp)\<in>set (art_rules a). rm_status r = ENABLED \<and> validate_manifest (router env) r = Inr r
        \<and> rule_admitted env me now r \<and> check_external_recipients (router env) domains r = []
        \<and> rule_fp (router env) r = Inr fp"
      using compiled_rules(2) [OF comp] each mem by force
    show "\<forall>c\<in>set (art_rules a). \<forall>d\<in>set (art_rules a).
        signature_of (router env) c = signature_of (router env) d \<longrightarrow> snd c = snd d"
      using overlap_clean [OF overlap] by blast
  qed
  moreover have "\<forall>f\<in>set files. \<forall>r issues. parse_one_file (router env) f = Inr (Some r, issues)
        \<longrightarrow> rm_status r = ENABLED \<longrightarrow> r \<in> fst ` set (art_rules a)"
    unfolding mem using parse_files_complete [OF files] by blast
  ultimately show ?thesis by blast
qed


section \<open>An artifact always decides\<close>

lemma timestamp_issue_Inr:
  "timestamp_issue code x = Inr (Inr t) \<longleftrightarrow> x = Inr t"
  "timestamp_issue code x = Inr (Inl c) \<longleftrightarrow> x = Inl TimestampInvalid \<and> c = code"
  by (auto simp: timestamp_issue_def split: sum.splits timestamp_error.splits)

lemma check_validity_parses:
  assumes "check_validity env now r = Inr ([], w)"
  shows "\<exists>from until. parse_validity_timestamp env (effective_from (rm_validity r)) = Inr from
    \<and> parse_validity_timestamp env (expires_at (rm_validity r)) = Inr until
    \<and> (case until of None \<Rightarrow> True | Some u \<Rightarrow> now < u)"
proof -
  from assms obtain x where x: "timestamp_issue EXPIRES_AT_INVALID
      (parse_validity_timestamp env (expires_at (rm_validity r))) = Inr x"
    "(case x of Inl code \<Rightarrow> Inr ([code], [])
      | Inr until \<Rightarrow> and_then (timestamp_issue EFFECTIVE_FROM_INVALID
              (parse_validity_timestamp env (effective_from (rm_validity r)))) (\<lambda>from.
             case from of
               Inl code \<Rightarrow> Inr ([code], [])
             | Inr from \<Rightarrow> Inr (window_issues from until now))) = Inr ([], w)"
    unfolding check_validity_def by (elim and_thenE)
  then obtain until where u: "x = Inr until" by (cases x) auto
  with x(2) obtain y where y: "timestamp_issue EFFECTIVE_FROM_INVALID
      (parse_validity_timestamp env (effective_from (rm_validity r))) = Inr y"
    "(case y of Inl code \<Rightarrow> Inr ([code], []) | Inr from \<Rightarrow> Inr (window_issues from until now))
      = (Inr ([], w) :: compile_raised + (issue_code list \<times> issue_code list))"
    by (auto simp: and_then_Inr)
  then obtain from' where f: "y = Inr from'" by (cases y) auto
  with y(2) have "window_issues from' until now = ([], w)" by simp
  then have "case until of None \<Rightarrow> True | Some v \<Rightarrow> now < v"
    by (auto simp: window_issues_def split: option.splits if_splits)
  with x(1) y(1) u f show ?thesis by (auto simp: timestamp_issue_Inr)
qed

lemma admitted_rule_decides:
  assumes "validate_manifest (router env) r = Inr r" "rule_admitted env me' now' r"
    "me_safe (router env) me"
  shows "is_ok (rule_verdict (router env) me view now r)"
proof -
  from assms(1) have "validate_match (rm_match r) = Inr ()"
    by (simp add: validate_manifest_def and_then_Inr)
  moreover from assms(2)
  have "list_all (leaf_regex_safe (router env)) (iter_condition_leaves (m_conditions (rm_match r)))"
    by (simp add: rule_admitted_def)
  ultimately have m: "is_ok (evaluate_match (router env) me view (rm_match r))"
    using assms(3) by (rule evaluate_match_total)
  from assms(2) obtain w where "check_validity (router env) now' r = Inr ([], w)"
    by (auto simp: rule_admitted_def)
  from check_validity_parses [OF this] have "is_ok (is_rule_active (router env) r now)"
    by (auto simp: is_rule_active_def)
  with m show ?thesis
    by (auto simp: rule_verdict_def lift_error_def elim!: is_okE)
qed

lemma artifact_decides:
  assumes "compile_registry env me domains now files = Inr (Compiled a)" "me_safe (router env) me'"
  shows "\<exists>t. build_tier1_decision (router env) me' view later (map fst (art_rules a)) = Inr t"
proof -
  have ok: "validate_manifest (router env) r = Inr r" "rule_admitted env me now r"
    "is_ok (rule_fp (router env) r)" if "r \<in> set (map fst (art_rules a))" for r
  proof -
    from compile_registry_cases [OF assms(1)] obtain enabled warnings ws where
      files: "parse_files (router env) files = Inr (enabled, [], warnings)" and
      rules: "check_rules env me domains now enabled = Inr ([], ws)" and
      comp: "traverse (compile_rule_fp (router env)) (sort_key rule_id enabled) = Inr (art_rules a)"
      by metis
    from that have "r \<in> set enabled" unfolding compiled_rules(1) [OF comp] by simp
    then obtain w where "check_rule env me domains now r = Inr ([], w)"
      using check_rules_clean [OF rules] by blast
    then show "rule_admitted env me now r" using check_rule_clean by blast
    show "validate_manifest (router env) r = Inr r" using parse_files_valid [OF files \<open>r \<in> set enabled\<close>] by blast
    show "is_ok (rule_fp (router env) r)" using that compiled_rules(2) [OF comp] by auto
  qed
  have "\<forall>r\<in>set (map fst (art_rules a)). is_ok (rule_verdict (router env) me' view later r)"
    using admitted_rule_decides [OF ok(1,2) assms(2)] by blast
  moreover have "\<forall>r\<in>set (matched_rules (router env) me' view later (map fst (art_rules a))).
      is_ok (rule_fp (router env) r)"
    using ok(3) by (auto simp: matched_rules_def)
  ultimately show ?thesis unfolding build_tier1_iff Let_def by blast
qed

text \<open>
  C32. A compiled artifact always decides: for every email, resolved or not, at every later time
  and for every mailbox address that is itself a safe pattern (or unknown), evaluating the
  artifact's rules returns a tier-1 decision; no exception of the matcher, of a timestamp or of
  a fingerprint can occur.
\<close>

theorem artifact_always_decides:
  assumes "compile_registry env me domains now files = Inr (Compiled a)" "me_safe (router env) me'"
  shows "\<exists>t. build_tier1_decision (router env) me' view later (map fst (art_rules a)) = Inr t"
  using assms by (rule artifact_decides)

section \<open>Publishing and loading\<close>

lemma artifact_name_inject [simp]: "artifact_name a = artifact_name b \<longleftrightarrow> a = b"
  by (simp add: artifact_name_def)

lemma artifact_name_not_pointer: "length d = 64 \<Longrightarrow> artifact_name d \<noteq> POINTER_NAME"
  by (auto simp: artifact_name_def POINTER_NAME_def dest: arg_cong [of _ _ length])

lemma load_rule_json:
  assumes "parse env (dump env r) = Some r" "validate_manifest (router env) r = Inr r"
    "rm_status r = ENABLED" "check_validity (router env) now r = Inr ([], w)"
    "rule_fp (router env) r = Inr fp"
  shows "load_rule env now (rule_json env (r, fp)) = Inr (r, fp)"
  using assms
  by (simp add: load_rule_def rule_json_def has_keys_def compile_rule_fp_def lift_error_def)

lemma traverse_load:
  "(\<And>c. c \<in> set cs \<Longrightarrow> load_rule env now (rule_json env c) = Inr c)
   \<Longrightarrow> traverse (load_rule env now) (map (rule_json env) cs) = Inr cs"
  by (induction cs) simp_all

lemma pointer_json_refl: "json_values_equal (pointer_json d) (pointer_json d)"
  by (rule json_values_equal_refl) (simp add: pointer_json_def)

lemma pointer_json_differs: "a \<noteq> b \<Longrightarrow> \<not> json_values_equal (pointer_json a) (pointer_json b)"
  by (simp add: pointer_json_def)

text \<open>
  C33. Loading what was just published returns the published artifact (its warnings apart, which
  are not stored), whatever the directory held before: with a digest of 64 characters, with
  \<^verbatim>\<open>model_validate\<close> reading back what \<^verbatim>\<open>model_dump\<close> wrote for the artifact's rules, and as long as
  no rule has expired in between.
\<close>

theorem publish_load_roundtrip:
  assumes "compile_registry env me domains now files = Inr (Compiled a)" "length (art_digest a) = 64"
    "\<forall>(r, fp)\<in>set (art_rules a). parse env (dump env r) = Some r
       \<and> (\<exists>w. check_validity (router env) later r = Inr ([], w))"
  shows "load_artifact env later (art_digest a) (write_artifact env a dir) = Inr (a\<lparr>art_warnings := []\<rparr>)"
proof -
  obtain versions: "art_schema_version a = SCHEMA_VERSION" "art_fingerprint_version a = FINGERPRINT_VERSION"
    and digest: "art_digest a = payload_digest (router env) (executable_payload env a)"
    using assms(1) by (rule compile_registry_cases)
  have ok: "\<forall>(r, fp)\<in>set (art_rules a). rm_status r = ENABLED
      \<and> validate_manifest (router env) r = Inr r \<and> rule_fp (router env) r = Inr fp"
    using compiled_artifact_ok [OF assms(1)] unfolding artifact_ok_def by fast
  have rules: "traverse (load_rule env later) (map (rule_json env) (art_rules a)) = Inr (art_rules a)"
  proof (rule traverse_load)
    fix c assume c: "c \<in> set (art_rules a)"
    obtain r fp where rf: "c = (r, fp)" by (cases c)
    with c assms(3) ok obtain w where "parse env (dump env r) = Some r"
      "check_validity (router env) later r = Inr ([], w)" "rm_status r = ENABLED"
      "validate_manifest (router env) r = Inr r" "rule_fp (router env) r = Inr fp" by fast
    with rf show "load_rule env later (rule_json env c) = Inr c" by (simp add: load_rule_json)
  qed
  have distinct: "lit ''digest'' \<noteq> lit ''rules''" by simp
  show ?thesis
    using assms(2) artifact_name_not_pointer [OF assms(2)] versions digest [symmetric] rules
    by (simp add: load_artifact_def write_artifact_def switch_pointer_def write_payload_def
        pointer_json_refl artifact_json_def has_keys_def executable_payload_def executable_json_def
        equals_int_def Let_def insert_commute)
qed

text \<open>
  C34. Publication is atomic for readers: after the artifact file is written and before the
  pointer is switched, loading any other artifact answers exactly as before (whatever that
  answer was); once the pointer is switched, the previous artifact is refused as superseded,
  never half loaded.
\<close>

theorem publish_is_atomic:
  assumes "length (art_digest a) = 64" "length old = 64" "old \<noteq> art_digest a"
  shows "load_artifact env t old (write_payload env a dir) = load_artifact env t old dir
    \<and> load_artifact env t old (write_artifact env a dir) = Inl PointerMismatch"
proof
  show "load_artifact env t old (write_payload env a dir) = load_artifact env t old dir"
    using assms artifact_name_not_pointer [OF assms(1)]
    by (simp add: load_artifact_def write_payload_def)
  show "load_artifact env t old (write_artifact env a dir) = Inl PointerMismatch"
    using assms pointer_json_differs [of "art_digest a" old]
    by (simp add: load_artifact_def write_artifact_def switch_pointer_def ensure_def)
qed

section \<open>A sample registry\<close>

definition sample_mail_json :: "string \<Rightarrow> (pystr \<times> json) list" where
  "sample_mail_json subject = [(lit ''to'', JArr [JStr (lit ''me@x'')]), (lit ''subject'', JStr (lit subject))]"

definition sample_manifest :: rule_manifest where
  "sample_manifest = (sample_rule ''r1'' ROUTE_REPLY (Some (lit ''generic_reply_v1'')) (ReplyParams None))
     \<lparr>rm_governance := \<lparr>g_criticality = None, g_risk_notes = None,
       g_positive_cases = [\<lparr>fc_case_id = lit ''p'', fc_email = sample_mail_json ''Invoice 7''\<rparr>],
       g_negative_cases = [\<lparr>fc_case_id = lit ''n'', fc_email = sample_mail_json ''hello''\<rparr>],
       g_external_recipient_acknowledged = False, g_full_text_match_acknowledged = False,
       g_owner_reviewed_at = None\<rparr>\<rparr>"

definition sample_compiler :: compiler_env where
  "sample_compiler = \<lparr>casefold = ascii_lower, re_compiles = (\<lambda>p. True), re_search = (\<lambda>p s. False),
     r_sha256 = (\<lambda>b. replicate 64 97), r_float_text = (\<lambda>q. []),
     lax_bool = (\<lambda>j. case j of JBool b \<Rightarrow> Some b | _ \<Rightarrow> None), fromisoformat = (\<lambda>s. None),
     dump = (\<lambda>r. JStr (rule_id r)), parse = (\<lambda>j. Some sample_manifest), str_of = (\<lambda>j. [])\<rparr>"

definition sample_files :: "rule_file list" where
  "sample_files = [RuleMapping \<lparr>mf_status = Some (lit ''enabled''), mf_rule_id = Some (lit ''r1''),
     mf_stem = lit ''r1'', mf_manifest = Some sample_manifest\<rparr>]"

definition sample_compilation :: "compile_raised + compilation" where
  "sample_compilation = compile_registry sample_compiler (Some (lit ''me@x'')) [] 0 sample_files"

lemma sample_compiles:
  obtains a where "sample_compilation = Inr (Compiled a)" "length (art_digest a) = 64"
    "map fst (art_rules a) = [sample_manifest]"
proof -
  have "case sample_compilation of Inr (Compiled a) \<Rightarrow> length (art_digest a) = 64
      \<and> map fst (art_rules a) = [sample_manifest] | _ \<Rightarrow> False" by code_simp
  with that show thesis by (auto split: sum.splits compilation.splits)
qed


theorem artifact_always_decides_witness:
  "\<exists>a t. sample_compilation = Inr (Compiled a)
     \<and> build_tier1_decision (router sample_compiler) None sample_partial_view 5 (map fst (art_rules a)) = Inr t"
proof -
  obtain a where a: "sample_compilation = Inr (Compiled a)" by (rule sample_compiles)
  have "me_safe (router sample_compiler) None" by (simp add: me_safe_def me_known_def)
  from artifact_always_decides [OF a [unfolded sample_compilation_def] this] a show ?thesis by blast
qed

theorem publish_load_roundtrip_witness:
  "\<exists>a. sample_compilation = Inr (Compiled a)
     \<and> load_artifact sample_compiler 7 (art_digest a) (write_artifact sample_compiler a (\<lambda>_. None))
         = Inr (a\<lparr>art_warnings := []\<rparr>)"
proof -
  obtain a where a: "sample_compilation = Inr (Compiled a)" "length (art_digest a) = 64"
    "map fst (art_rules a) = [sample_manifest]" by (rule sample_compiles)
  have "check_validity (router sample_compiler) 7 sample_manifest = Inr ([], [])"
    "parse sample_compiler (dump sample_compiler sample_manifest) = Some sample_manifest"
    by (simp_all add: check_validity_def parse_validity_timestamp_def timestamp_issue_def
        window_issues_def sample_manifest_def sample_rule_def sample_compiler_def)
  then have "\<forall>(r, fp)\<in>set (art_rules a). parse sample_compiler (dump sample_compiler r) = Some r
       \<and> (\<exists>w. check_validity (router sample_compiler) 7 r = Inr ([], w))"
    using a(3) by (auto simp: map_eq_Cons_conv)
  from publish_load_roundtrip [OF a(1) [unfolded sample_compilation_def] a(2) this] a(1)
  show ?thesis by blast
qed

theorem publish_is_atomic_witness:
  "\<exists>a. sample_compilation = Inr (Compiled a)
     \<and> load_artifact sample_compiler 0 (replicate 64 98) (write_artifact sample_compiler a (\<lambda>_. None))
         = Inl PointerMismatch"
proof -
  have "case sample_compilation of Inr (Compiled a) \<Rightarrow> art_digest a = replicate 64 97 | _ \<Rightarrow> False" by code_simp
  then obtain a where a: "sample_compilation = Inr (Compiled a)" "art_digest a = replicate 64 97"
    by (auto split: sum.splits compilation.splits)
  have "length (art_digest a) = 64" "length (replicate 64 (98::nat)) = 64" using a(2) by simp_all
  moreover have "replicate 64 (98::nat) \<noteq> art_digest a" unfolding a(2) by simp
  ultimately show ?thesis using publish_is_atomic a(1) by blast
qed

end
