(* ===== verification/RouterCascade.thy ===== *)
theory RouterCascade
  imports RouterEngine RouterConsensus RouterArtifacts
begin

text \<open>
  Correctness of the cascade: what \<open>resolve_route\<close> returns, which tier it comes from, that its
  fingerprint is that of the action it names, and that it returns.
\<close>

section \<open>Parameters and deltas\<close>

lemma typed_dump_round_trip:
  assumes "params_for_route env route l = Some typed" "\<And>b. lax_bool env (JBool b) = Some b"
  shows "params_for_route env route (typed_dump typed) = Some typed"
proof (cases route)
  case ROUTE_REPLY
  with assms(1) obtain mode where t: "typed = ReplyParams mode"
    by (auto simp: reply_params_def split: if_splits)
  show ?thesis
  proof (cases mode)
    case (Some m)
    then show ?thesis
      by (cases m) (simp_all add: ROUTE_REPLY t reply_params_def only_keys_def field_or_def reply_mode_of_def)
  qed (simp add: ROUTE_REPLY t reply_params_def only_keys_def field_or_def)
next
  case ROUTE_FORWARD
  with assms(1) obtain recipients cc edit attachments where
    "typed = ForwardParams recipients cc edit attachments" "recipients \<noteq> []"
    "list_all exact_address (recipients @ cc)"
    by (auto simp: forward_params_def split: if_splits option.splits)
  then show ?thesis
    by (simp add: ROUTE_FORWARD forward_params_def only_keys_def field_or_def assms(2))
next
  case ROUTE_READ_ONLY
  with assms(1) show ?thesis by (auto split: if_splits)
qed (use assms(1) in \<open>auto simp: reason_params_def only_keys_def json_str_def split: if_splits\<close>)

lemma decision_delta_final:
  assumes "final_decision env d"
  obtains delta where "decision_delta d = Some delta" "dl_route_decision delta = dump_decision d"
proof -
  from assms obtain route typed where r: "rd_route d = Some route"
    "params_for_route env route (rd_params d) = Some typed"
    by (rule final_decision_route) blast
  have "\<exists>to cc. need json_str_list ''fixed_recipients'' (rd_params d) = Some to
      \<and> field_or [] json_str_list ''cc'' (rd_params d) = Some cc" if "route = ROUTE_FORWARD"
    using r(2) that by (auto simp: forward_params_def need_def split: if_splits option.splits)
  with r(1) show thesis
    by (intro that [of "the (decision_delta d)"]) (auto simp: decision_delta_def Let_def)
qed

section \<open>Finishing a decision\<close>

lemma with_default_cases:
  "with_default_handoff_profile d =
     (case rd_handoff_profile_id d of
        Some p \<Rightarrow> d
      | None \<Rightarrow> d\<lparr>rd_handoff_profile_id := Option.bind (rd_route d) default_profile\<rparr>)"
  by (cases d) (auto simp: with_default_handoff_profile_def split: option.splits)

lemma default_profile_writing: "default_profile route = None \<longleftrightarrow> \<not> is_writing route"
  by (cases route) (simp_all add: is_writing_def)

lemma with_default_final:
  assumes "final_decision env d"
  shows "final_decision env (with_default_handoff_profile d)"
proof -
  from assms obtain route where route: "rd_route d = Some route" by (rule final_decision_route)
  have "is_writing route" if "default_profile route = Some p" for p
    using that default_profile_writing [of route] by simp
  with assms route show ?thesis
    by (auto simp: with_default_cases final_decision_def RouteDecision_def and_then_Inr
        validate_route_and_params_def split: option.splits if_splits)
qed

text \<open>What the callers of the engine may rely on.\<close>

definition routed :: "router_env \<Rightarrow> route_decision \<Rightarrow> bool" where
  "routed env d \<longleftrightarrow>
     final_decision env d \<and> rd_outcome d \<noteq> DEC_ABSTAIN
     \<and> (\<exists>route typed. rd_route d = Some route \<and> params_for_route env route (rd_params d) = Some typed
          \<and> (rd_handoff_profile_id d \<noteq> None \<longleftrightarrow> is_writing route)
          \<and> (rd_outcome d = DEC_CONFLICT \<or> rd_outcome d = DEC_ERROR \<longrightarrow> route = ROUTE_MANUAL_REVIEW))"

lemma with_default_routed:
  assumes "final_decision env d"
  shows "routed env (with_default_handoff_profile d)"
proof -
  from assms obtain route where r: "rd_route d = Some route" "rd_outcome d \<noteq> DEC_ABSTAIN"
    "\<exists>typed. params_for_route env route (rd_params d) = Some typed"
    "rd_outcome d = DEC_CONFLICT \<or> rd_outcome d = DEC_ERROR \<Longrightarrow> route = ROUTE_MANUAL_REVIEW"
    "\<not> is_writing route \<Longrightarrow> rd_handoff_profile_id d = None"
    by (rule final_decision_route) blast
  show ?thesis
    unfolding routed_def
  proof (intro conjI with_default_final [OF assms])
    let ?w = "with_default_handoff_profile d"
    have same: "rd_route ?w = Some route" "rd_outcome ?w = rd_outcome d" "rd_params ?w = rd_params d"
      by (simp_all add: with_default_cases r(1) split: option.splits)
    have "rd_handoff_profile_id ?w \<noteq> None \<longleftrightarrow> is_writing route"
      using r(5) default_profile_writing [of route] by (auto simp: with_default_cases r(1) split: option.splits)
    then show "\<exists>route typed. rd_route ?w = Some route \<and> params_for_route env route (rd_params ?w) = Some typed
          \<and> (rd_handoff_profile_id ?w \<noteq> None \<longleftrightarrow> is_writing route)
          \<and> (rd_outcome ?w = DEC_CONFLICT \<or> rd_outcome ?w = DEC_ERROR \<longrightarrow> route = ROUTE_MANUAL_REVIEW)"
      using r(3,4) same by auto
    show "rd_outcome ?w \<noteq> DEC_ABSTAIN" using r(2) same by simp
  qed
qed

lemma finish_route_Inr:
  assumes "finish_route env raw = Inr d"
  obtains e where "validated env raw = Inr e" "final_decision (rules_env env) e"
    "d = with_default_handoff_profile e"
  using assms read_decision_final
  by (auto simp: finish_route_def and_then_Inr lift_error_def split: sum.splits)

lemma resolve_route_finishes:
  assumes "resolve_route env a me now s hits = Inr d"
  obtains raw where "finish_route env raw = Inr d"
  using assms by (auto simp: resolve_route_def and_then_Inr split: if_splits option.splits)

text \<open>
  C35. Routing returns one final decision: never an abstention, always with a route whose
  parameters are valid for it; a handoff profile exactly when the route writes mail; and a
  conflict or an error is always sent to manual review. This holds whatever the rules, the
  history, the model's answer and a decision already in the state are.
\<close>

theorem resolved_route_is_final:
  assumes "resolve_route env a me now s hits = Inr d"
  shows "routed (rules_env env) d"
proof -
  from assms obtain raw where "finish_route env raw = Inr d" by (rule resolve_route_finishes)
  then show ?thesis by (rule finish_route_Inr) (simp add: with_default_routed)
qed

section \<open>The tiers\<close>

definition delta_of :: "router_env \<Rightarrow> route_decision \<Rightarrow> route_delta \<Rightarrow> bool" where
  "delta_of env d delta \<longleftrightarrow> final_decision env d \<and> decision_delta d = Some delta
     \<and> dl_route_decision delta = dump_decision d"

lemma finish_delta:
  assumes "delta_of (rules_env env) d delta" "\<And>q. ee_lax_float env (JFloat q) = Some q"
  shows "finish_route env (dl_route_decision delta) = Inr (with_default_handoff_profile d)"
  using assms read_dump_decision [of "rules_env env" d "ee_lax_float env"]
  by (simp add: finish_route_def lift_error_def delta_of_def)

lemma construct_final: "construct env d = Inr e \<Longrightarrow> e = d \<and> final_decision env d"
  by (auto simp: construct_def and_then_Inr final_decision_def dest: RouteProvenance_same RouteDecision_same)

lemma model_failed_final: "construct env model_failed_decision = Inr model_failed_decision"
  by (simp add: construct_def model_failed_decision_def tier3_provenance_def RouteProvenance_def
      RouteDecision_def bounded_text_def utf8_ok_def lit_def is_surrogate_def truthy_def
      validate_route_and_params_def Decision_def reason_params_def only_keys_def json_str_def lift_error_def)

lemma ask_tier3_Some:
  assumes "ask_tier3 env email = Some d"
  shows "final_decision (rules_env env) d \<and> rd_selected d = None"
proof -
  from assms obtain p where "construct (rules_env env) (model_decision p) = Inr d"
    by (auto simp: ask_tier3_def Let_def and_then_Inr split: option.splits sum.splits if_splits)
  from construct_final [OF this] show ?thesis by (auto simp: model_decision_def)
qed

lemma tier3_decides:
  obtains d delta where "apply_tier3_fallback env email = Inr delta" "delta_of (rules_env env) d delta"
    "rd_selected d = None"
proof -
  define d where "d = (case ask_tier3 env email of Some d \<Rightarrow> d | None \<Rightarrow> model_failed_decision)"
  have final: "final_decision (rules_env env) d" "rd_selected d = None"
    using construct_final [OF model_failed_final] ask_tier3_Some
    by (auto simp: d_def model_failed_decision_def split: option.split)
  then obtain delta where delta: "decision_delta d = Some delta" "dl_route_decision delta = dump_decision d"
    using decision_delta_final by blast
  then have "apply_tier3_fallback env email = Inr delta"
    by (simp add: apply_tier3_fallback_def d_def model_failed_final lift_error_def split: option.splits)
  with delta final that show thesis by (simp add: delta_of_def)
qed

lemma tier2_decides:
  assumes "list_all (countable_hit (rules_env env) (ee_lax_float env)) hits"
    and "\<And>b. is_sha256_hex (r_sha256 (rules_env env) b)"
  obtains "apply_tier2_hits env hits = Inr None"
  | d delta where "apply_tier2_hits env hits = Inr (Some delta)" "delta_of (rules_env env) d delta"
proof -
  have "is_ok (decide_history (rules_env env) (ee_lax_float env) TIER2_MIN_HITS TIER2_MIN_RATIO hits)"
    using assms by (simp add: decide_history_ok TIER2_MIN_HITS_def)
  then obtain r where r: "decide_history (rules_env env) (ee_lax_float env) TIER2_MIN_HITS TIER2_MIN_RATIO hits
    = Inr r" by (rule is_okE)
  show thesis
  proof (cases r)
    case None
    with r that(1) show thesis by (simp add: apply_tier2_hits_def lift_error_def)
  next
    case (Some d)
    have "consensus_spec (rules_env env) (ee_lax_float env) TIER2_MIN_HITS TIER2_MIN_RATIO hits r"
      using r assms(2) by (intro decide_history_spec) (simp_all add: TIER2_MIN_HITS_def)
    with Some have final: "final_decision (rules_env env) d" by (simp add: consensus_spec_def)
    then obtain delta where "decision_delta d = Some delta" "dl_route_decision delta = dump_decision d"
      by (rule decision_delta_final)
    with r Some final that(2) show thesis
      by (simp add: apply_tier2_hits_def lift_error_def delta_of_def)
  qed
qed

section \<open>Tier 1 in the cascade\<close>

lemma length_first_keys: "length (first_keys seen ks) \<le> length seen + length ks"
proof (induction ks arbitrary: seen)
  case (Cons k ks)
  show ?case using Cons.IH [of seen] Cons.IH [of "seen @ [k]"] by auto
qed simp

lemma aggregate_bounds:
  assumes "length m \<le> n" "length i \<le> n" "length pairs \<le> n" "1 \<le> n"
  shows "length (t_matched_rules (aggregate m i pairs)) \<le> n"
    "length (t_candidate_actions (aggregate m i pairs)) \<le> n"
proof -
  have "length (group_rules pairs) \<le> n"
    using length_first_keys [of "[]" "map fst pairs"] assms(3) by (simp add: group_rules_map)
  then show "length (t_matched_rules (aggregate m i pairs)) \<le> n"
    "length (t_candidate_actions (aggregate m i pairs)) \<le> n"
    using assms by (auto simp: aggregate_def split: list.splits)
qed

lemma tier1_bounds:
  assumes t: "build_tier1_decision env me view now rules = Inr t" and n: "length rules \<le> n" "1 \<le> n"
  shows "length (t_matched_rules t) \<le> n" "length (t_candidate_actions t) \<le> n"
proof -
  let ?m = "matched_rules env me view now rules" and ?i = "indeterminate_rules env me view now rules"
  from t have agg: "t = aggregate ?m ?i (map (fp_pair env) ?m)"
    unfolding build_tier1_iff Let_def by blast
  have "length ?m \<le> n" "length ?i \<le> n"
    using n(1) by (auto simp: matched_rules_def indeterminate_rules_def intro: le_trans [OF length_filter_le])
  then show "length (t_matched_rules t) \<le> n" "length (t_candidate_actions t) \<le> n"
    unfolding agg using n(2) by (intro aggregate_bounds; simp)+
qed

text \<open>
  What the constructor demands of a rule beyond the schema: a profile only on a route that
  writes, and a reason that fits.
\<close>

definition decidable_rule :: "rule_manifest \<Rightarrow> bool" where
  "decidable_rule r \<longleftrightarrow>
     (is_writing (d_route (rm_decision r)) \<or> d_handoff_profile_id (rm_decision r) = None)
     \<and> (\<forall>x\<in>set_option (reason_code_of (d_typed (rm_decision r)))
          \<union> set_option (d_business_flow_id (rm_decision r)) \<union> {rule_id r}. bounded_text 0 128 x)"

lemma or_text_in: "or_text a b = Some x \<Longrightarrow> a = Some x \<or> b = Some x"
  by (auto simp: or_text_def truthy_def split: option.splits if_splits)

lemma manifest_decision_typed:
  assumes "validate_manifest env r = Inr r"
  shows "params_for_route env (d_route (rm_decision r)) (d_params (rm_decision r)) = Some (d_typed (rm_decision r))"
    "case d_handoff_profile_id (rm_decision r) of None \<Rightarrow> True | Some p \<Rightarrow> is_profile_id p"
proof -
  from assms have "manifest_decision env r = Inr (rm_decision r)"
    by (cases r) (auto simp: validate_manifest_def and_then_Inr)
  then show "params_for_route env (d_route (rm_decision r)) (d_params (rm_decision r))
      = Some (d_typed (rm_decision r))"
    "case d_handoff_profile_id (rm_decision r) of None \<Rightarrow> True | Some p \<Rightarrow> is_profile_id p"
    by (cases "rm_decision r"; auto simp: manifest_decision_def Decision_Inr split: option.splits)+
qed

lemma action_fingerprint_pattern:
  assumes "action_fingerprint env d = Inr fp" "\<And>b. is_sha256_hex (r_sha256 env b)"
  shows "is_fingerprint_text fp"
  using assms fingerprint_text_pattern
  by (auto simp: action_fingerprint_def compute_action_fingerprint_def and_then_Inr Let_def
      fingerprint_text_def split: if_splits option.splits)

lemma matched_decision_ok:
  assumes r: "validate_manifest env r = Inr r" "decidable_rule r"
    and sel: "t_selected t = Some fp" "is_fingerprint_text fp"
    and n: "length (t_candidate_actions t) \<le> 16"
    and lax: "\<And>b. lax_bool env (JBool b) = Some b"
  shows "RouteDecision env (matched_decision digest t r) = Inr (matched_decision digest t r)"
proof -
  let ?d = "matched_decision digest t r"
  note typed = manifest_decision_typed [OF r(1)]
  have "params_for_route env (d_route (rm_decision r)) (rd_params ?d) = Some (d_typed (rm_decision r))"
    using typed_dump_round_trip [OF typed(1) lax] by (simp add: matched_decision_def Let_def)
  then have "is_ok (Decision env (d_route (rm_decision r)) None None (rd_params ?d))"
    by (simp add: is_ok_def Decision_def lift_error_def split: option.split)
      (auto simp: Let_def and_then_def dest: default_profiles(2) split: option.split sum.split)
  then obtain x where "Decision env (d_route (rm_decision r)) None None (rd_params ?d) = Inr x"
    by (rule is_okE)
  moreover have "is_writing (d_route (rm_decision r)) \<or> d_handoff_profile_id (rm_decision r) = None"
    using r(2) by (simp add: decidable_rule_def)
  ultimately have v: "validate_route_and_params env ?d = Inr ()"
    by (simp add: validate_route_and_params_def lift_error_def)
      (simp add: matched_decision_def Let_def lift_error_def)
  have "bounded_text 0 128 x" if "rd_reason_code ?d = Some x" for x
    using that r(2) by (auto simp: matched_decision_def Let_def decidable_rule_def dest!: or_text_in)
  then have "case rd_reason_code ?d of None \<Rightarrow> True | Some x \<Rightarrow> bounded_text 0 128 x"
    by (simp split: option.split)
  moreover have "rd_selected ?d = Some fp" "rd_handoff_profile_id ?d = d_handoff_profile_id (rm_decision r)"
    "length (rd_candidate_actions ?d) \<le> 16"
    using sel n by (simp_all add: matched_decision_def Let_def)
  ultimately show ?thesis
    using sel(2) typed(2) v by (simp add: RouteDecision_def)
qed

lemma review_decision_ok:
  assumes "t_selected t = None" "length (t_candidate_actions t) \<le> 16"
  shows "RouteDecision env (review_decision digest t) = Inr (review_decision digest t)"
  using assms
  by (simp add: RouteDecision_def review_decision_def Let_def bounded_text_def utf8_ok_def lit_def
      is_surrogate_def truthy_def validate_route_and_params_def Decision_def reason_params_def
      only_keys_def json_str_def lift_error_def)

lemma tier1_provenance_ok:
  assumes "is_sha256_hex digest" "length (t_matched_rules t) \<le> 32"
  shows "RouteProvenance (tier1_provenance digest t) = Inr (tier1_provenance digest t)"
  using assms
  by (simp add: RouteProvenance_def tier1_provenance_def bounded_text_def utf8_ok_def lit_def
      is_surrogate_def)

text \<open>An artifact whose rules every tier-1 decision can be built from.\<close>

definition decidable_artifact :: "router_env \<Rightarrow> compiled_artifact \<Rightarrow> bool" where
  "decidable_artifact env a \<longleftrightarrow>
     is_sha256_hex (art_digest a) \<and> length (art_rules a) \<le> 16
     \<and> (\<forall>(r, fp)\<in>set (art_rules a). validate_manifest env r = Inr r \<and> decidable_rule r
          \<and> action_fingerprint env (rm_decision r) = Inr fp)"

lemma tier1_decides:
  assumes art: "decidable_artifact (rules_env env) a"
    and t: "evaluate_rules env a me now (as_email s) = Inr t"
    and hex: "\<And>b. is_sha256_hex (r_sha256 (rules_env env) b)"
    and lax: "\<And>b. lax_bool (rules_env env) (JBool b) = Some b"
  obtains "t_outcome t = OUT_ABSTAIN" "\<exists>rs. execute_router env a me now s = Inr rs
      \<and> rs_route_decision rs = as_route_decision s"
  | d delta rs where "t_outcome t \<noteq> OUT_ABSTAIN" "tier1_route_decision a t = Inr d"
      "delta_of (rules_env env) d delta" "execute_router env a me now s = Inr rs"
      "rs_route_decision rs = dl_route_decision delta"
proof -
  let ?env = "rules_env env" and ?rules = "map fst (art_rules a)"
    and ?view = "email_view_of (ee_compiler env) (as_email s)" and ?me = "truthy (Some me)"
  from t have build: "build_tier1_decision ?env ?me ?view now ?rules = Inr t"
    by (auto simp: evaluate_rules_def lift_error_def split: sum.splits)
  from art have "length ?rules \<le> 16" by (simp add: decidable_artifact_def)
  from tier1_bounds [OF build this] have n: "length (t_matched_rules t) \<le> 32" "length (t_candidate_actions t) \<le> 16"
    by simp_all
  from art n have prov: "RouteProvenance (tier1_provenance (art_digest a) t) = Inr (tier1_provenance (art_digest a) t)"
    by (intro tier1_provenance_ok) (simp_all add: decidable_artifact_def)
  have spec: "tier1_spec ?env ?me ?view now ?rules t" by (rule build_tier1_spec [OF build])
  show thesis
  proof (cases "t_outcome t = OUT_ABSTAIN")
    case True
    with t prov that(1) show thesis by (simp add: execute_router_def lift_error_def)
  next
    case False
    have "\<exists>d. tier1_route_decision a t = Inr d \<and> rd_provenance d = tier1_provenance (art_digest a) t
        \<and> RouteDecision ?env d = Inr d"
    proof (cases "t_outcome t = OUT_MATCHED")
      case True
      with spec obtain fp r where fp: "t_selected t = Some fp" "r \<in> set ?rules" "action_fingerprint ?env (rm_decision r) = Inr fp"
        by (auto simp: tier1_spec_def Let_def matched_rules_def filter_empty_conv)
      from fp(2) obtain g where g: "(r, g) \<in> set (art_rules a)" by auto
      with art have "action_fingerprint ?env (rm_decision r) = Inr g" by (auto simp: decidable_artifact_def)
      with fp have "Some (snd (r, g)) = t_selected t" by simp
      with g have "List.find (\<lambda>c. Some (snd c) = t_selected t) (art_rules a) \<noteq> None"
        unfolding find_None_iff by blast
      then obtain c where c: "List.find (\<lambda>c. Some (snd c) = t_selected t) (art_rules a) = Some c"
        by blast
      then obtain i where "i < length (art_rules a)" "c = art_rules a ! i"
        unfolding find_Some_iff by blast
      then have "c \<in> set (art_rules a)" by simp
      with art have "validate_manifest ?env (fst c) = Inr (fst c)" "decidable_rule (fst c)"
        by (auto simp: decidable_artifact_def)
      then have "RouteDecision ?env (matched_decision (art_digest a) t (fst c))
          = Inr (matched_decision (art_digest a) t (fst c))"
        using fp(1) action_fingerprint_pattern [OF fp(3) hex] n(2) lax by (rule matched_decision_ok)
      with True c show ?thesis by (simp add: tier1_route_decision_def matched_decision_def Let_def)
    next
      case other: False
      with False spec have "t_selected t = None"
        by (cases "t_outcome t") (simp_all add: tier1_spec_def Let_def)
      with other n(2) show ?thesis
        by (simp add: tier1_route_decision_def review_decision_ok) (simp add: review_decision_def Let_def)
    qed
    then obtain d where d: "tier1_route_decision a t = Inr d"
      "rd_provenance d = tier1_provenance (art_digest a) t" "RouteDecision ?env d = Inr d" by blast
    then have "final_decision ?env d" using prov by (simp add: final_decision_def)
    then obtain delta where "decision_delta d = Some delta" "dl_route_decision delta = dump_decision d"
      by (rule decision_delta_final)
    with d False t prov \<open>final_decision ?env d\<close> show thesis
      by (intro that(2)) (auto simp: execute_router_def lift_error_def delta_of_def)
  qed
qed

section \<open>The cascade answers\<close>

lemma compiled_decidable:
  assumes "compile_registry (ee_compiler env) me domains now files = Inr (Compiled a)"
    "list_all decidable_rule (map fst (art_rules a))" "length (art_rules a) \<le> 16"
    "\<And>b. is_sha256_hex (r_sha256 (rules_env env) b)"
  shows "decidable_artifact (rules_env env) a"
proof -
  from compiled_artifact_ok [OF assms(1)] have ok: "artifact_ok (ee_compiler env) me domains now a" by blast
  then have "art_digest a = payload_digest (rules_env env) (executable_payload (ee_compiler env) a)"
    by (simp add: artifact_ok_def rules_env_def)
  with assms(4) have "is_sha256_hex (art_digest a)" by (simp add: payload_digest_def)
  moreover have "validate_manifest (rules_env env) r = Inr r \<and> decidable_rule r
      \<and> action_fingerprint (rules_env env) (rm_decision r) = Inr fp"
    if "(r, fp) \<in> set (art_rules a)" for r fp
    using ok assms(2) that by (auto simp: artifact_ok_def rules_env_def list_all_iff)
  ultimately show ?thesis using assms(3) by (auto simp: decidable_artifact_def)
qed

lemma dump_not_null: "delta_of env d delta \<Longrightarrow> dl_route_decision delta \<noteq> JNull"
  by (simp add: delta_of_def dump_decision_def)

lemma resolve_route_total:
  assumes art: "decidable_artifact (rules_env env) a"
    and t: "evaluate_rules env a me now (as_email s) = Inr t"
    and hits: "list_all (countable_hit (rules_env env) (ee_lax_float env)) hits"
    and hex: "\<And>b. is_sha256_hex (r_sha256 (rules_env env) b)"
    and bools: "\<And>b. lax_bool (rules_env env) (JBool b) = Some b"
    and floats: "\<And>q. ee_lax_float env (JFloat q) = Some q"
    and fresh: "as_route_decision s = JNull"
  shows "is_ok (resolve_route env a me now s hits)"
proof -
  note finish = finish_delta [OF _ floats]
  from art t hex bools show ?thesis
  proof (cases rule: tier1_decides)
    case 1
    then obtain rs where rs: "execute_router env a me now s = Inr rs" "rs_route_decision rs = JNull"
      using fresh by auto
    from hits hex show ?thesis
    proof (cases rule: tier2_decides)
      case 1
      obtain d delta where "apply_tier3_fallback env (as_email s) = Inr delta" "delta_of (rules_env env) d delta"
        by (rule tier3_decides)
      with rs 1 finish show ?thesis by (auto simp: resolve_route_def)
    next
      case (2 d delta)
      with rs finish show ?thesis by (auto simp: resolve_route_def)
    qed
  next
    case (2 d delta rs)
    with finish dump_not_null show ?thesis by (fastforce simp: resolve_route_def)
  qed
qed


section \<open>The rules have the last word\<close>

lemma execute_router_decided:
  assumes "execute_router env a me now s = Inr rs"
    "evaluate_rules env a me now (as_email s) = Inr t" "t_outcome t \<noteq> OUT_ABSTAIN"
  obtains d delta where "tier1_route_decision a t = Inr d" "delta_of (rules_env env) d delta"
    "rs_route_decision rs = dl_route_decision delta"
    "rd_provenance d = tier1_provenance (art_digest a) t"
proof -
  from assms obtain p d e delta where raw: "tier1_route_decision a t = Inr d"
    "RouteDecision (rules_env env) d = Inr e" "decision_delta e = Some delta"
    "rs_route_decision rs = dl_route_decision delta"
    "RouteProvenance (tier1_provenance (art_digest a) t) = Inr p"
    by (auto simp: execute_router_def and_then_Inr lift_error_def split: sum.splits)
  have d: "tier1_route_decision a t = Inr d" "RouteDecision (rules_env env) d = Inr d"
    "decision_delta d = Some delta" "rs_route_decision rs = dl_route_decision delta"
    and prov: "RouteProvenance (tier1_provenance (art_digest a) t) = Inr (tier1_provenance (art_digest a) t)"
    using raw RouteDecision_same [OF raw(2)] RouteProvenance_same [OF raw(5)] by simp_all
  have p: "rd_provenance d = tier1_provenance (art_digest a) t"
    using d(1) by (auto simp: tier1_route_decision_def matched_decision_def review_decision_def Let_def
        split: if_splits option.splits)
  with d(2) prov have "final_decision (rules_env env) d" by (simp add: final_decision_def)
  then have "delta_of (rules_env env) d delta"
    using d(3) by (auto simp: delta_of_def decision_delta_def Let_def)
  with d p that show thesis by blast
qed

lemma resolve_route_tier1:
  assumes res: "resolve_route env a me now s hits = Inr d"
    and t: "evaluate_rules env a me now (as_email s) = Inr t" "t_outcome t \<noteq> OUT_ABSTAIN"
    and floats: "\<And>q. ee_lax_float env (JFloat q) = Some q"
  obtains e rs where "tier1_route_decision a t = Inr e" "d = with_default_handoff_profile e"
    "rd_provenance e = tier1_provenance (art_digest a) t" "final_decision (rules_env env) e"
    "execute_router env a me now s = Inr rs" "rs_route_decision rs \<noteq> JNull"
    "finish_route env (rs_route_decision rs) = Inr d"
proof -
  from res obtain rs where rs: "execute_router env a me now s = Inr rs"
    by (auto simp: resolve_route_def and_then_Inr)
  from rs t obtain e delta where e: "tier1_route_decision a t = Inr e" "delta_of (rules_env env) e delta"
    "rs_route_decision rs = dl_route_decision delta" "rd_provenance e = tier1_provenance (art_digest a) t"
    by (rule execute_router_decided)
  from res rs e(3) dump_not_null [OF e(2)] have "finish_route env (rs_route_decision rs) = Inr d"
    by (simp add: resolve_route_def)
  with finish_delta [OF e(2) floats] e rs dump_not_null [OF e(2)] that show thesis
    by (auto simp: delta_of_def)
qed


section \<open>The fingerprint is that of the action\<close>

text \<open>
  Recomputing the fingerprint from the route, the parameters and the profile a decision carries,
  or without a profile for a label older than profiles, gives \<open>fp\<close>.
\<close>

definition attested :: "router_env \<Rightarrow> route_decision \<Rightarrow> pystr \<Rightarrow> bool" where
  "attested env d fp \<longleftrightarrow>
     (\<exists>route profile version action. rd_route d = Some route
        \<and> (profile = rd_handoff_profile_id d \<or> profile = None)
        \<and> Decision env route None profile (rd_params d) = Inr action
        \<and> compute_action_fingerprint env action profile (Some version) = Inr fp)"

lemma with_default_attested: "attested env d fp \<Longrightarrow> attested env (with_default_handoff_profile d) fp"
  by (auto simp: attested_def with_default_cases split: option.splits)

lemma action_key_attested:
  assumes "action_key env d = Inr k" "rd_route d \<noteq> None"
  shows "attested env d (snd k)"
proof -
  let ?version = "if truthy (rd_handoff_profile_id d) \<noteq> None then 2 else 1 :: int"
  from assms obtain action where
    "Decision env (the (rd_route d)) None (rd_handoff_profile_id d) (rd_params d) = Inr action"
    "compute_action_fingerprint env action (rd_handoff_profile_id d) (Some ?version) = Inr (snd k)"
    unfolding action_key_def Let_def by (auto simp: and_then_Inr lift_error_def split: sum.splits)
  with assms(2) show ?thesis
    unfolding attested_def
    by (intro exI [of _ "the (rd_route d)"] exI [of _ "rd_handoff_profile_id d"] exI [of _ ?version]
        exI [of _ action]) simp
qed

lemma fingerprint_of_profile:
  assumes "action_fingerprint env d = Inr fp" "d_route e = d_route d" "d_typed e = d_typed d"
    "d_handoff_profile_id e = d_handoff_profile_id d" "profile = d_handoff_profile_id d"
  shows "\<exists>version. compute_action_fingerprint env e profile (Some version) = Inr fp"
proof -
  have "truthy (or_text profile (d_handoff_profile_id e)) = truthy (d_handoff_profile_id d)"
    using assms(4,5) by (auto simp: or_text_def truthy_def split: option.splits)
  moreover have "truthy (or_text None (d_handoff_profile_id d)) = truthy (d_handoff_profile_id d)"
    by (simp add: or_text_def truthy_def)
  ultimately show ?thesis
    using assms(1-3)
    by (cases "truthy (d_handoff_profile_id d) = None")
      (intro exI [of _ "if truthy (d_handoff_profile_id d) \<noteq> None then 2 else 1"],
       auto simp: action_fingerprint_def compute_action_fingerprint_def Let_def and_then_Inr)+
qed

lemma matched_decision_attested:
  assumes r: "validate_manifest env r = Inr r" "action_fingerprint env (rm_decision r) = Inr fp"
    and lax: "\<And>b. lax_bool env (JBool b) = Some b"
  shows "attested env (matched_decision digest t r) fp"
proof -
  let ?d = "rm_decision r" and ?m = "matched_decision digest t r"
  have "manifest_decision env r = Inr ?d"
    using r(1) by (cases r) (auto simp: validate_manifest_def and_then_Inr)
  then have profile: "case d_handoff_profile_id ?d of None \<Rightarrow> default_profile (d_route ?d) = None
      | Some p \<Rightarrow> is_profile_id p \<and> p \<in> set PROFILE_REGISTRY"
    by (cases ?d; auto simp: manifest_decision_def Decision_Inr split: option.splits)
  from typed_dump_round_trip [OF manifest_decision_typed(1) [OF r(1)] lax]
  have "params_for_route env (d_route ?d) (rd_params ?m) = Some (d_typed ?d)"
    by (simp add: matched_decision_def Let_def)
  with profile obtain action where a:
    "Decision env (d_route ?d) None (d_handoff_profile_id ?d) (rd_params ?m) = Inr action"
    "d_route action = d_route ?d" "d_typed action = d_typed ?d"
    "d_handoff_profile_id action = d_handoff_profile_id ?d"
    by (auto simp: Decision_Inr split: option.splits)
  obtain version where
    "compute_action_fingerprint env action (d_handoff_profile_id ?d) (Some version) = Inr fp"
    using fingerprint_of_profile [OF r(2) a(2-4) refl] by blast
  with a(1) show ?thesis
    unfolding attested_def by (auto simp: matched_decision_def Let_def)
qed

lemma decide_history_attested:
  assumes "decide_history env lf m q hits = Inr (Some d)" "1 \<le> m" "\<And>b. is_sha256_hex (r_sha256 env b)"
    "rd_selected d = Some fp"
  shows "attested env d fp"
proof -
  have spec: "consensus_spec env lf m q hits (Some d)" using assms(1-3) by (rule decide_history_spec)
  then have "rd_outcome d = DEC_MATCHED" using assms(4) by (auto simp: consensus_spec_def split: if_splits)
  with spec obtain k where k: "action_key env d = Inr k" "rd_selected d = Some (snd k)"
    by (auto simp: consensus_spec_def simp del: split_paired_Ex)
  from spec have "final_decision env d" by (simp add: consensus_spec_def)
  then obtain route where "rd_route d = Some route" by (rule final_decision_route)
  with action_key_attested [OF k(1)] k(2) assms(4) show ?thesis by simp
qed

lemma tier1_route_attested:
  assumes e: "tier1_route_decision a t = Inr e" and sel: "rd_selected e = Some fp"
    and spec: "tier1_spec env me view now rules t" and outcome: "t_outcome t \<noteq> OUT_ABSTAIN"
    and art: "\<forall>(r, f)\<in>set (art_rules a). validate_manifest env r = Inr r
        \<and> action_fingerprint env (rm_decision r) = Inr f"
    and bools: "\<And>b. lax_bool env (JBool b) = Some b"
  shows "attested env e fp"
proof (cases "t_outcome t = OUT_MATCHED")
  case True
  with e obtain c where c: "List.find (\<lambda>c. Some (snd c) = t_selected t) (art_rules a) = Some c"
    "e = matched_decision (art_digest a) t (fst c)"
    by (auto simp: tier1_route_decision_def split: option.splits)
  from c(1) obtain i where i: "i < length (art_rules a)" "Some (snd (art_rules a ! i)) = t_selected t"
    "c = art_rules a ! i"
    unfolding find_Some_iff by blast
  moreover have "rd_selected e = t_selected t" by (simp add: c(2) matched_decision_def Let_def)
  ultimately have "Some (snd c) = Some fp" "c \<in> set (art_rules a)" using sel by (metis, simp)
  with art have "validate_manifest env (fst c) = Inr (fst c)"
    "action_fingerprint env (rm_decision (fst c)) = Inr fp" by auto
  then show ?thesis unfolding c(2) using bools by (rule matched_decision_attested)
next
  case False
  with spec outcome have "t_selected t = None"
    by (cases "t_outcome t") (simp_all add: tier1_spec_def Let_def)
  with e False sel show ?thesis
    by (auto simp: tier1_route_decision_def review_decision_def Let_def)
qed

text \<open>
  The fingerprint of a routed decision is honest: whichever tier decided, a decision that
  carries a selected action fingerprint carries the route, the parameters and the profile that
  fingerprint was computed from, so recomputing it from the decision itself gives the same value.
\<close>

theorem selected_fingerprint_attested:
  assumes res: "resolve_route env a me now s hits = Inr d" and sel: "rd_selected d = Some fp"
    and fresh: "as_route_decision s = JNull"
    and art: "\<forall>(r, f)\<in>set (art_rules a). validate_manifest (rules_env env) r = Inr r
        \<and> action_fingerprint (rules_env env) (rm_decision r) = Inr f"
    and hex: "\<And>b. is_sha256_hex (r_sha256 (rules_env env) b)"
    and bools: "\<And>b. lax_bool (rules_env env) (JBool b) = Some b"
    and floats: "\<And>q. ee_lax_float env (JFloat q) = Some q"
  shows "attested (rules_env env) d fp"
proof -
  let ?env = "rules_env env"
  have finish: "attested ?env d fp"
    if "delta_of ?env e delta" "finish_route env (dl_route_decision delta) = Inr d"
      "rd_selected e = Some fp \<Longrightarrow> attested ?env e fp" for e delta
  proof -
    from finish_delta [OF that(1) floats] that(2) have d: "d = with_default_handoff_profile e" by simp
    then have "rd_selected e = Some fp" using sel by (simp add: with_default_cases split: option.splits)
    with that(3) d show ?thesis by (simp add: with_default_attested)
  qed
  from res obtain rs where rs: "execute_router env a me now s = Inr rs"
    by (auto simp: resolve_route_def and_then_Inr)
  then obtain t where t: "evaluate_rules env a me now (as_email s) = Inr t"
    by (auto simp: execute_router_def and_then_Inr)
  show ?thesis
  proof (cases "t_outcome t = OUT_ABSTAIN")
    case False
    obtain e where e: "tier1_route_decision a t = Inr e" "d = with_default_handoff_profile e"
      by (rule resolve_route_tier1 [OF res t False floats])
    then have "rd_selected e = Some fp" using sel by (simp add: with_default_cases split: option.splits)
    from t have "tier1_spec ?env (truthy (Some me)) (email_view_of (ee_compiler env) (as_email s)) now
        (map fst (art_rules a)) t"
      by (intro build_tier1_spec) (auto simp: evaluate_rules_def lift_error_def split: sum.splits)
    with e(1) \<open>rd_selected e = Some fp\<close> False art bools have "attested ?env e fp"
      by (intro tier1_route_attested)
    with e(2) show ?thesis by (simp add: with_default_attested)
  next
    case True
    with rs t fresh have "rs_route_decision rs = JNull"
      by (auto simp: execute_router_def and_then_Inr)
    with res rs obtain tier2 where two: "apply_tier2_hits env hits = Inr tier2" and
      rest: "(case tier2 of
             Some delta \<Rightarrow> finish_route env (dl_route_decision delta)
           | None \<Rightarrow> and_then (apply_tier3_fallback env (as_email s)) (\<lambda>delta.
                 finish_route env (dl_route_decision delta))) = Inr d"
      by (auto simp: resolve_route_def and_then_Inr)
    show ?thesis
    proof (cases tier2)
      case None
      with rest obtain delta where three: "apply_tier3_fallback env (as_email s) = Inr delta"
        "finish_route env (dl_route_decision delta) = Inr d" by (auto simp: and_then_Inr)
      obtain e where e: "delta_of ?env e delta" "rd_selected e = None"
        using tier3_decides [of env "as_email s"] three(1) by (metis sum.inject(2))
      show ?thesis by (rule finish [OF e(1) three(2)]) (simp add: e(2))
    next
      case (Some delta)
      with two obtain e where e: "decide_history ?env (ee_lax_float env) TIER2_MIN_HITS TIER2_MIN_RATIO hits
          = Inr (Some e)" "decision_delta e = Some delta"
        by (auto simp: apply_tier2_hits_def and_then_Inr lift_error_def split: sum.splits option.splits)
      have "consensus_spec ?env (ee_lax_float env) TIER2_MIN_HITS TIER2_MIN_RATIO hits (Some e)"
        using e(1) hex by (intro decide_history_spec) (simp_all add: TIER2_MIN_HITS_def)
      then have "delta_of ?env e delta"
        using e(2) by (auto simp: delta_of_def consensus_spec_def decision_delta_def Let_def)
      moreover have "attested ?env e fp" if "rd_selected e = Some fp"
        using e(1) _ hex that by (rule decide_history_attested) (simp add: TIER2_MIN_HITS_def)
      ultimately show ?thesis using rest Some by (intro finish) simp_all
    qed
  qed
qed

section \<open>A sample cascade\<close>

definition sample_engine :: engine_env where
  "sample_engine = \<lparr>ee_compiler = sample_compiler,
     ee_lax_float = (\<lambda>j. case j of JFloat q \<Rightarrow> Some q | JInt i \<Rightarrow> Some (of_int i) | _ \<Rightarrow> None),
     ee_settings = (\<lambda>_. None),
     ask_model = (\<lambda>_. Some (JObj [(lit ''route'', JStr (lit ''read_only'')),
       (lit ''confidence'', JInt 1), (lit ''reason_code'', JStr (lit ''newsletter''))]))\<rparr>"

lemma sample_engine_facts:
  "is_sha256_hex (r_sha256 (rules_env sample_engine) b)"
  "lax_bool (rules_env sample_engine) (JBool x) = Some x"
  "ee_lax_float sample_engine (JFloat q) = Some q"
  "router (ee_compiler sample_engine) = rules_env sample_engine"
  by (simp_all add: sample_engine_def sample_compiler_def rules_env_def router_def router_env.truncate_def
      is_sha256_hex_def is_hex_lower_def list_all_iff)

definition sample_state :: "string \<Rightarrow> agent_state" where
  "sample_state subject = \<lparr>as_email = sample_mail_json subject, as_log = [], as_route_decision = JNull\<rparr>"

definition sample_resolve :: "string \<Rightarrow> hit list \<Rightarrow> engine_error + route_decision" where
  "sample_resolve subject hits =
     (case sample_compilation of
        Inr (Compiled a) \<Rightarrow> resolve_route sample_engine a (lit ''me@x'') 0 (sample_state subject) hits
      | _ \<Rightarrow> Inl NoSelectedRule)"

text \<open>Two historical emails that were forwarded to the same address, once labelled twice.\<close>

definition sample_label :: json where
  "sample_label = JObj [(lit ''outcome'', JStr (lit ''matched'')), (lit ''route'', JStr (lit ''forward'')),
     (lit ''params'', JObj [(lit ''fixed_recipients'', JArr [JStr (lit ''a@x'')])]),
     (lit ''provenance'', JObj [(lit ''tier'', JStr (lit ''tier3'')), (lit ''source_version'', JStr (lit ''m''))])]"

definition sample_hits :: "hit list" where
  "sample_hits = [[(lit ''id'', JStr (lit ''e1'')), (lit ''route_decision'', sample_label)],
     [(lit ''id'', JStr (lit ''e1'')), (lit ''route_decision'', sample_label)],
     [(lit ''id'', JStr (lit ''e2'')), (lit ''payload'', JObj [(lit ''route_decision'', sample_label)])],
     [(lit ''score'', JInt 1)]]"

lemma sample_artifact:
  obtains a where "sample_compilation = Inr (Compiled a)" "length (art_rules a) \<le> 16"
    "list_all decidable_rule (map fst (art_rules a))"
    "\<forall>subject hits. sample_resolve subject hits
       = resolve_route sample_engine a (lit ''me@x'') 0 (sample_state subject) hits"
    "\<forall>(r, f)\<in>set (art_rules a). validate_manifest (rules_env sample_engine) r = Inr r
       \<and> action_fingerprint (rules_env sample_engine) (rm_decision r) = Inr f"
proof -
  have "case sample_compilation of Inr (Compiled a) \<Rightarrow> length (art_rules a) \<le> 16
      \<and> list_all decidable_rule (map fst (art_rules a)) | _ \<Rightarrow> False" by code_simp
  then obtain a where a: "sample_compilation = Inr (Compiled a)" "length (art_rules a) \<le> 16"
    "list_all decidable_rule (map fst (art_rules a))"
    by (auto split: sum.splits compilation.splits)
  have "artifact_ok sample_compiler (Some (lit ''me@x'')) [] 0 a"
    using compiled_artifact_ok a(1) unfolding sample_compilation_def by blast
  then have "\<forall>(r, f)\<in>set (art_rules a). validate_manifest (rules_env sample_engine) r = Inr r
       \<and> action_fingerprint (rules_env sample_engine) (rm_decision r) = Inr f"
    by (auto simp: artifact_ok_def rules_env_def sample_engine_def)
  moreover have "\<forall>subject hits. sample_resolve subject hits
       = resolve_route sample_engine a (lit ''me@x'') 0 (sample_state subject) hits"
    unfolding sample_resolve_def a(1) by simp
  ultimately show thesis using a that by blast
qed

theorem decision_dump_roundtrip_witness:
  "read_decision (rules_env sample_engine) (ee_lax_float sample_engine) (dump_decision model_failed_decision)
     = Inr model_failed_decision"
  using construct_final [OF model_failed_final]
  by (intro decision_dump_roundtrip) (simp_all add: sample_engine_facts)

theorem resolved_route_is_final_witness:
  "\<exists>d. sample_resolve ''hello'' [] = Inr d \<and> rd_route d = Some ROUTE_READ_ONLY
     \<and> routed (rules_env sample_engine) d"
proof -
  have "case sample_resolve ''hello'' [] of Inr d \<Rightarrow> rd_route d = Some ROUTE_READ_ONLY | _ \<Rightarrow> False"
    by code_simp
  then obtain d where d: "sample_resolve ''hello'' [] = Inr d" "rd_route d = Some ROUTE_READ_ONLY"
    by (auto split: sum.splits)
  obtain a where "\<forall>subject hits. sample_resolve subject hits
       = resolve_route sample_engine a (lit ''me@x'') 0 (sample_state subject) hits"
    by (rule sample_artifact)
  with d resolved_route_is_final [of sample_engine a] show ?thesis by metis
qed



theorem selected_fingerprint_attested_witness:
  "\<exists>d fp. sample_resolve ''hello'' sample_hits = Inr d \<and> rd_selected d = Some fp
     \<and> rp_confidence (rd_provenance d) = Some (2 / 3) \<and> attested (rules_env sample_engine) d fp"
proof -
  have "case sample_resolve ''hello'' sample_hits of
      Inr d \<Rightarrow> rd_selected d \<noteq> None \<and> rp_confidence (rd_provenance d) = Some (2 / 3) | _ \<Rightarrow> False"
    by code_simp
  then obtain d fp where d: "sample_resolve ''hello'' sample_hits = Inr d" "rd_selected d = Some fp"
    "rp_confidence (rd_provenance d) = Some (2 / 3)"
    by (auto split: sum.splits)
  obtain a where a: "\<forall>subject hits. sample_resolve subject hits
       = resolve_route sample_engine a (lit ''me@x'') 0 (sample_state subject) hits"
    "\<forall>(r, f)\<in>set (art_rules a). validate_manifest (rules_env sample_engine) r = Inr r
       \<and> action_fingerprint (rules_env sample_engine) (rm_decision r) = Inr f"
    by (rule sample_artifact)
  have "as_route_decision (sample_state ''hello'') = JNull" by (simp add: sample_state_def)
  from selected_fingerprint_attested [OF d(1) [unfolded a(1) [rule_format]] d(2) this a(2) sample_engine_facts(1-3)] d
  show ?thesis by blast
qed


theorem history_raises_exactly_witness:
  "\<exists>e. decide_history (rules_env sample_engine) (ee_lax_float sample_engine) 2 (1 / 2)
     [[(lit ''email_id'', JStr [55296])]] = Inl e"
proof -
  have "\<not> countable_hit (rules_env sample_engine) (ee_lax_float sample_engine)
      [(lit ''email_id'', JStr [55296])]" by code_simp
  with history_raises_exactly [of 2 "rules_env sample_engine" "ee_lax_float sample_engine" "1 / 2"
      "[[(lit ''email_id'', JStr [55296])]]", OF _ sample_engine_facts(1)]
  show ?thesis by simp
qed

end
