(* ===== verification/ApprovalEnvelope.thy ===== *)
theory ApprovalEnvelope
  imports RouterDecision
begin

text \<open>
  \<^verbatim>\<open>src/safety/execution_gate.py\<close>: the frozen, human-approved envelope of one send and its
  validation. Pydantic's reading of integers and times is a parameter; a time is the ISO text
  \<^verbatim>\<open>model_dump\<close> gives for it.
\<close>

record gate_env =
  ge_router :: router_env
  ge_float :: "json \<Rightarrow> rat option"
  ge_int :: "json \<Rightarrow> int option"
  ge_datetime :: "json \<Rightarrow> pystr option"

datatype gate_error =
    EnvelopeFields | EnvelopeRoute route_error
  | UnresolvedRecipient | DuplicateRecipient | InvalidAttachmentDigest
  | RequiresWritingRoute | RequiresHandoffProfile | DecisionDigestMismatch | DraftDigestMismatch
  | PayloadEncoding | PayloadDigestMismatch | AttachmentManifestMismatch
  | UnboundForwardAttachments | AcknowledgementMissing | RecipientSetsOverlap
  | EnvelopeDigestMismatch

section \<open>The hashed payload\<close>

text \<open>
  The eleven fields a payload digest covers, as JSON; \<^verbatim>\<open>_digest_json\<close> of the database manager
  and the validator of the envelope hash the same text, which an unencodable character prevents.
\<close>

record frozen_payload =
  fz_decision_digest :: json
  fz_plan_digest :: json
  fz_evidence_digest :: json
  fz_draft_digest :: json
  fz_draft_content :: json
  fz_draft_ref :: json
  fz_to :: json
  fz_cc :: json
  fz_attachment_refs :: json
  fz_attachment_digests :: json
  fz_acknowledged :: json

definition frozen_json :: "frozen_payload \<Rightarrow> json" where
  "frozen_json p = JObj
     [(lit ''decision_digest'', fz_decision_digest p), (lit ''plan_digest'', fz_plan_digest p),
      (lit ''evidence_digest'', fz_evidence_digest p), (lit ''draft_digest'', fz_draft_digest p),
      (lit ''draft_content'', fz_draft_content p), (lit ''draft_ref'', fz_draft_ref p),
      (lit ''to'', fz_to p), (lit ''cc'', fz_cc p), (lit ''attachment_refs'', fz_attachment_refs p),
      (lit ''attachment_digests'', fz_attachment_digests p),
      (lit ''external_recipient_acknowledged'', fz_acknowledged p)]"

definition digest_json :: "router_env \<Rightarrow> json \<Rightarrow> pystr option" where
  "digest_json env j =
     map_option (r_sha256 env) (utf8_encode (json_dumps (compact_format False (r_float_text env)) j))"

section \<open>The envelope\<close>

record envelope =
  en_inbox_id :: pystr
  en_account_id :: int
  en_email_id :: pystr
  en_payload_revision :: int
  en_payload_digest :: pystr
  en_route_decision :: route_decision
  en_decision_digest :: pystr
  en_plan_digest :: pystr
  en_evidence_digest :: pystr
  en_draft_digest :: pystr
  en_draft_content :: pystr
  en_draft_ref :: "(pystr \<times> json) list option"
  en_to :: "pystr list"
  en_cc :: "pystr list"
  en_attachment_refs :: "json list"
  en_attachment_digests :: "pystr list"
  en_acknowledged :: bool
  en_approver :: pystr
  en_approved_at :: pystr

definition envelope_payload :: "envelope \<Rightarrow> frozen_payload" where
  "envelope_payload e =
     \<lparr>fz_decision_digest = JStr (en_decision_digest e), fz_plan_digest = JStr (en_plan_digest e),
      fz_evidence_digest = JStr (en_evidence_digest e), fz_draft_digest = JStr (en_draft_digest e),
      fz_draft_content = JStr (en_draft_content e), fz_draft_ref = json_opt JObj (en_draft_ref e),
      fz_to = json_texts (en_to e), fz_cc = json_texts (en_cc e),
      fz_attachment_refs = JArr (en_attachment_refs e),
      fz_attachment_digests = json_texts (en_attachment_digests e),
      fz_acknowledged = JBool (en_acknowledged e)\<rparr>"

definition dump_envelope :: "envelope \<Rightarrow> json" where
  "dump_envelope e = JObj
     [(lit ''schema_version'', JInt 1), (lit ''inbox_id'', JStr (en_inbox_id e)),
      (lit ''account_id'', JInt (en_account_id e)), (lit ''email_id'', JStr (en_email_id e)),
      (lit ''payload_revision'', JInt (en_payload_revision e)),
      (lit ''payload_digest'', JStr (en_payload_digest e)),
      (lit ''route_decision'', dump_decision (en_route_decision e)),
      (lit ''decision_digest'', JStr (en_decision_digest e)),
      (lit ''plan_digest'', JStr (en_plan_digest e)),
      (lit ''evidence_digest'', JStr (en_evidence_digest e)),
      (lit ''draft_digest'', JStr (en_draft_digest e)),
      (lit ''draft_content'', JStr (en_draft_content e)),
      (lit ''draft_ref'', json_opt JObj (en_draft_ref e)),
      (lit ''to'', json_texts (en_to e)), (lit ''cc'', json_texts (en_cc e)),
      (lit ''attachment_refs'', JArr (en_attachment_refs e)),
      (lit ''attachment_digests'', json_texts (en_attachment_digests e)),
      (lit ''external_recipient_acknowledged'', JBool (en_acknowledged e)),
      (lit ''approver'', JStr (en_approver e)), (lit ''approved_at'', JStr (en_approved_at e))]"

definition envelope_digest :: "router_env \<Rightarrow> envelope \<Rightarrow> pystr" where
  "envelope_digest env e = payload_digest env (dump_envelope e)"

section \<open>Field constraints\<close>

text \<open>The pattern \<^verbatim>\<open>^[0-9a-f-]{36}$\<close>.\<close>

definition is_uuid_text :: "pystr \<Rightarrow> bool" where
  "is_uuid_text s = (length s = 36 \<and> list_all (\<lambda>c. is_hex_lower c \<or> c = 45) s)"

text \<open>
  \<^verbatim>\<open>_EMAIL.fullmatch\<close>: no whitespace, one \<^verbatim>\<open>@\<close>, something before it, and after it a dot with
  something on either side.
\<close>

definition is_address :: "pystr \<Rightarrow> bool" where
  "is_address s =
     (let local = takeWhile (\<lambda>c. c \<noteq> 64) s; domain = drop (length local + 1) s
      in list_all (\<lambda>c. \<not> py_isspace c) s \<and> local \<noteq> [] \<and> length local < length s
         \<and> 64 \<notin> set domain \<and> 46 \<in> set (butlast (tl domain)))"

definition resolved_addresses_only :: "router_env \<Rightarrow> pystr list \<Rightarrow> gate_error + unit" where
  "resolved_addresses_only env xs =
     and_then (ensure (list_all is_address xs) UnresolvedRecipient) (\<lambda>_.
       ensure (distinct (map (casefold env) xs)) DuplicateRecipient)"

definition envelope_fields_ok :: "envelope \<Rightarrow> bool" where
  "envelope_fields_ok e =
     (is_uuid_text (en_inbox_id e) \<and> 0 < en_account_id e \<and> bounded_text 1 1024 (en_email_id e)
      \<and> 0 < en_payload_revision e
      \<and> list_all is_sha256_hex [en_payload_digest e, en_decision_digest e, en_plan_digest e,
           en_evidence_digest e, en_draft_digest e]
      \<and> bounded_text 1 1000000 (en_draft_content e)
      \<and> 1 \<le> length (en_to e) \<and> length (en_to e) \<le> 100 \<and> length (en_cc e) \<le> 100
      \<and> length (en_attachment_refs e) \<le> 100 \<and> length (en_attachment_digests e) \<le> 100
      \<and> bounded_text 1 512 (en_approver e))"

section \<open>The authority check\<close>

definition authority_is_self_consistent :: "router_env \<Rightarrow> envelope \<Rightarrow> gate_error + unit" where
  "authority_is_self_consistent env e =
     (let d = en_route_decision e
      in and_then (ensure (case rd_route d of None \<Rightarrow> False | Some r \<Rightarrow> is_writing r) RequiresWritingRoute) (\<lambda>_.
         and_then (ensure (truthy (rd_handoff_profile_id d) \<noteq> None) RequiresHandoffProfile) (\<lambda>_.
         and_then (ensure (canonical_digest env d = en_decision_digest e) DecisionDigestMismatch) (\<lambda>_.
         and_then (ensure (r_sha256 env (utf8 (en_draft_content e)) = en_draft_digest e)
            DraftDigestMismatch) (\<lambda>_.
         and_then (some_or PayloadEncoding (digest_json env (frozen_json (envelope_payload e)))) (\<lambda>digest.
         and_then (ensure (digest = en_payload_digest e) PayloadDigestMismatch) (\<lambda>_.
         and_then (ensure (length (en_attachment_refs e) = length (en_attachment_digests e))
            AttachmentManifestMismatch) (\<lambda>_.
         and_then (ensure (\<not> json_truthy (get_or (JBool False) ''include_attachments'' (rd_params d)))
            UnboundForwardAttachments) (\<lambda>_.
         and_then (ensure (en_acknowledged e) AcknowledgementMissing) (\<lambda>_.
           ensure (set (map (casefold env) (en_to e)) \<inter> set (map (casefold env) (en_cc e)) = {})
             RecipientSetsOverlap))))))))))"

definition validate_envelope :: "router_env \<Rightarrow> envelope \<Rightarrow> gate_error + envelope" where
  "validate_envelope env e =
     and_then (ensure (envelope_fields_ok e) EnvelopeFields) (\<lambda>_.
     and_then (resolved_addresses_only env (en_to e)) (\<lambda>_.
     and_then (resolved_addresses_only env (en_cc e)) (\<lambda>_.
     and_then (ensure (list_all is_sha256_hex (en_attachment_digests e)) InvalidAttachmentDigest) (\<lambda>_.
     and_then (authority_is_self_consistent env e) (\<lambda>_.
       Inr e)))))"

section \<open>Reading an envelope\<close>

definition ENVELOPE_KEYS :: "string list" where
  "ENVELOPE_KEYS =
     [''schema_version'', ''inbox_id'', ''account_id'', ''email_id'', ''payload_revision'',
      ''payload_digest'', ''route_decision'', ''decision_digest'', ''plan_digest'',
      ''evidence_digest'', ''draft_digest'', ''draft_content'', ''draft_ref'', ''to'', ''cc'',
      ''attachment_refs'', ''attachment_digests'', ''external_recipient_acknowledged'',
      ''approver'', ''approved_at'']"

definition json_arr :: "json \<Rightarrow> json list option" where
  "json_arr j = (case j of JArr xs \<Rightarrow> Some xs | _ \<Rightarrow> None)"

definition literal_one :: "json \<Rightarrow> unit option" where
  "literal_one j = (if j = JInt 1 then Some () else None)"

definition fld :: "'a option \<Rightarrow> gate_error + 'a" where
  "fld x = some_or EnvelopeFields x"

definition read_envelope :: "gate_env \<Rightarrow> json \<Rightarrow> gate_error + envelope" where
  "read_envelope env j =
     and_then (fld (json_obj j)) (\<lambda>l.
         and_then (ensure (only_keys ENVELOPE_KEYS l) EnvelopeFields) (\<lambda>_.
         and_then (fld (field_or () literal_one ''schema_version'' l)) (\<lambda>_.
         and_then (fld (need json_str ''inbox_id'' l)) (\<lambda>inbox_id.
         and_then (fld (need (ge_int env) ''account_id'' l)) (\<lambda>account_id.
         and_then (fld (need json_str ''email_id'' l)) (\<lambda>email_id.
         and_then (fld (need (ge_int env) ''payload_revision'' l)) (\<lambda>revision.
         and_then (fld (need json_str ''payload_digest'' l)) (\<lambda>payload.
         and_then (fld (map_of l (lit ''route_decision''))) (\<lambda>raw_route.
         and_then (lift_error EnvelopeRoute (read_decision (ge_router env) (ge_float env) raw_route)) (\<lambda>route.
         and_then (fld (need json_str ''decision_digest'' l)) (\<lambda>decision.
         and_then (fld (need json_str ''plan_digest'' l)) (\<lambda>plan.
         and_then (fld (need json_str ''evidence_digest'' l)) (\<lambda>evidence.
         and_then (fld (need json_str ''draft_digest'' l)) (\<lambda>draft.
         and_then (fld (need json_str ''draft_content'' l)) (\<lambda>content.
         and_then (fld (field_or None (opt_of json_obj) ''draft_ref'' l)) (\<lambda>draft_ref.
         and_then (fld (need json_str_list ''to'' l)) (\<lambda>to.
         and_then (fld (field_or [] json_str_list ''cc'' l)) (\<lambda>cc.
         and_then (fld (field_or [] json_arr ''attachment_refs'' l)) (\<lambda>refs.
         and_then (fld (field_or [] json_str_list ''attachment_digests'' l)) (\<lambda>digests.
         and_then (fld (need (lax_bool (ge_router env)) ''external_recipient_acknowledged'' l)) (\<lambda>ack.
         and_then (fld (need json_str ''approver'' l)) (\<lambda>approver.
         and_then (fld (need (ge_datetime env) ''approved_at'' l)) (\<lambda>approved_at.
           validate_envelope (ge_router env)
             \<lparr>en_inbox_id = inbox_id, en_account_id = account_id, en_email_id = email_id,
              en_payload_revision = revision, en_payload_digest = payload, en_route_decision = route,
              en_decision_digest = decision, en_plan_digest = plan, en_evidence_digest = evidence,
              en_draft_digest = draft, en_draft_content = content, en_draft_ref = draft_ref,
              en_to = to, en_cc = cc, en_attachment_refs = refs, en_attachment_digests = digests,
              en_acknowledged = ack, en_approver = approver, en_approved_at = approved_at\<rparr>)))))))))))))))))))))))"

text \<open>\<^verbatim>\<open>ExecutionGate.validate\<close>.\<close>

definition execution_gate :: "gate_env \<Rightarrow> json \<Rightarrow> pystr option \<Rightarrow> gate_error + envelope" where
  "execution_gate env raw expected =
     and_then (read_envelope env raw) (\<lambda>e.
     and_then (ensure (case expected of None \<Rightarrow> True
          | Some d \<Rightarrow> envelope_digest (ge_router env) e = d) EnvelopeDigestMismatch) (\<lambda>_.
       Inr e))"

section \<open>What the gate guarantees\<close>

lemma validate_envelope_same: "validate_envelope env e = Inr f \<Longrightarrow> f = e"
  by (auto simp: validate_envelope_def and_then_Inr)

lemma read_envelope_valid:
  assumes "read_envelope env j = Inr e"
  shows "validate_envelope (ge_router env) e = Inr e" "final_decision (ge_router env) (en_route_decision e)"
proof -
  from assms obtain raw route f where
    "read_decision (ge_router env) (ge_float env) raw = Inr route" and
    f: "validate_envelope (ge_router env) f = Inr e" "en_route_decision f = route"
    unfolding read_envelope_def lift_error_def
    by (elim and_thenE) (auto split: sum.splits)
  then show "validate_envelope (ge_router env) e = Inr e" "final_decision (ge_router env) (en_route_decision e)"
    using validate_envelope_same [OF f(1)] read_decision_final by auto
qed

end
