(* ===== verification/HandoffEvidence.thy ===== *)
theory HandoffEvidence
  imports RouterDecision "HOL-Library.Code_Target_Nat"
begin

text \<open>
  \<^verbatim>\<open>src/handoff/models.py\<close>, \<^verbatim>\<open>profiles.py\<close> and \<^verbatim>\<open>evidence.py\<close>: the plan of a writing handoff, the
  registered profiles it is built from, and the evidence collected for it. An adapter is what it
  returns for the request at hand, \<open>None\<close> when it raises.
\<close>

section \<open>Plans\<close>

datatype evidence_source = MAIL_THREAD | SEMANTIC_HISTORY | EXCHANGE_CONTACT

fun evidence_source_value :: "evidence_source \<Rightarrow> pystr" where
  "evidence_source_value MAIL_THREAD = lit ''mail_thread''"
| "evidence_source_value SEMANTIC_HISTORY = lit ''semantic_history''"
| "evidence_source_value EXCHANGE_CONTACT = lit ''exchange_contact''"

datatype writer_mode = WRITE_LLM | WRITE_TEMPLATE_THEN_LLM | WRITE_FIXED

fun writer_mode_value :: "writer_mode \<Rightarrow> pystr" where
  "writer_mode_value WRITE_LLM = lit ''llm''"
| "writer_mode_value WRITE_TEMPLATE_THEN_LLM = lit ''template_then_llm''"
| "writer_mode_value WRITE_FIXED = lit ''fixed''"

record handoff_plan =
  hp_profile_id :: pystr
  hp_required_sources :: "evidence_source list"
  hp_optional_sources :: "evidence_source list"
  hp_max_items_per_source :: int
  hp_writer_mode :: writer_mode
  hp_prompt_modifier :: "pystr option"
  hp_fixed_draft :: "pystr option"

datatype handoff_error =
    PlanFields | SourceTwice | FixedNeedsDraft | OnlyFixedHasDraft
  | AdapterUnregistered evidence_source | RequiredEvidenceMissing evidence_source
  | EvidenceRefused | SourceUnauthorized evidence_source

definition opt_bounded :: "nat \<Rightarrow> pystr option \<Rightarrow> bool" where
  "opt_bounded n x = (case x of None \<Rightarrow> True | Some s \<Rightarrow> bounded_text 0 n s)"

definition HandoffPlan :: "handoff_plan \<Rightarrow> handoff_error + handoff_plan" where
  "HandoffPlan p =
     and_then (ensure (is_profile_id (hp_profile_id p) \<and> 1 \<le> hp_max_items_per_source p
        \<and> hp_max_items_per_source p \<le> 20 \<and> opt_bounded 2048 (hp_prompt_modifier p)
        \<and> opt_bounded 16384 (hp_fixed_draft p)) PlanFields) (\<lambda>_.
     and_then (ensure (set (hp_required_sources p) \<inter> set (hp_optional_sources p) = {}) SourceTwice) (\<lambda>_.
     and_then (ensure (\<not> (hp_writer_mode p = WRITE_FIXED \<and> truthy (hp_fixed_draft p) = None))
        FixedNeedsDraft) (\<lambda>_.
     and_then (ensure (\<not> (hp_writer_mode p \<noteq> WRITE_FIXED \<and> hp_fixed_draft p \<noteq> None))
        OnlyFixedHasDraft) (\<lambda>_.
       Inr p))))"

definition dump_plan :: "handoff_plan \<Rightarrow> json" where
  "dump_plan p = JObj
     [(lit ''schema_version'', JInt 1), (lit ''profile_id'', JStr (hp_profile_id p)),
      (lit ''required_sources'', json_texts (map evidence_source_value (hp_required_sources p))),
      (lit ''optional_sources'', json_texts (map evidence_source_value (hp_optional_sources p))),
      (lit ''max_items_per_source'', JInt (hp_max_items_per_source p)),
      (lit ''writer_mode'', JStr (writer_mode_value (hp_writer_mode p))),
      (lit ''prompt_modifier'', json_opt JStr (hp_prompt_modifier p)),
      (lit ''fixed_draft'', json_opt JStr (hp_fixed_draft p))]"

definition plan_digest :: "router_env \<Rightarrow> handoff_plan \<Rightarrow> pystr" where
  "plan_digest env p = payload_digest env (dump_plan p)"

section \<open>Profiles\<close>

record handoff_profile =
  pf_profile_id :: pystr
  pf_required_sources :: "evidence_source list"
  pf_optional_sources :: "evidence_source list"
  pf_writer_mode :: writer_mode
  pf_prompt_modifier :: "pystr option"
  pf_fixed_draft :: "pystr option"

definition build_plan :: "handoff_profile \<Rightarrow> handoff_error + handoff_plan" where
  "build_plan p = HandoffPlan
     \<lparr>hp_profile_id = pf_profile_id p, hp_required_sources = pf_required_sources p,
      hp_optional_sources = pf_optional_sources p, hp_max_items_per_source = 5,
      hp_writer_mode = pf_writer_mode p, hp_prompt_modifier = pf_prompt_modifier p,
      hp_fixed_draft = pf_fixed_draft p\<rparr>"

definition VIP_PROMPT :: pystr where
  "VIP_PROMPT =
    [12304, 86, 73, 80, 32, 30452, 21457, 20889, 20316, 21512, 21516, 12305, 20808, 26126, 30830, 22238,
     24212, 26412, 36718, 38382, 39064, 25110, 20219, 21153, 65292, 20877, 32473, 20986, 19979, 19968, 27493, 19982,
     26102, 38388, 25215, 35834, 65307, 20449, 24687, 19981, 36275, 26102, 26126, 30830, 21015, 20986, 24453, 30830,
     35748, 39033, 65292, 19981, 24471, 32534, 36896, 26085, 26399, 12289, 29366, 24577, 12289, 37329, 39069, 25110,
     36131, 20219, 20154, 12290]"

definition generic_profile :: "string \<Rightarrow> handoff_profile" where
  "generic_profile name = \<lparr>pf_profile_id = lit name, pf_required_sources = [],
     pf_optional_sources = [MAIL_THREAD, SEMANTIC_HISTORY], pf_writer_mode = WRITE_LLM,
     pf_prompt_modifier = None, pf_fixed_draft = None\<rparr>"

definition PROFILES :: "handoff_profile list" where
  "PROFILES =
     [generic_profile ''generic_reply_v1'', generic_profile ''generic_forward_v1'',
      \<lparr>pf_profile_id = lit ''vip_direct_reply_v1'', pf_required_sources = [],
       pf_optional_sources = [EXCHANGE_CONTACT, MAIL_THREAD, SEMANTIC_HISTORY],
       pf_writer_mode = WRITE_TEMPLATE_THEN_LLM, pf_prompt_modifier = Some VIP_PROMPT,
       pf_fixed_draft = None\<rparr>]"

definition handoff_profile_named :: "pystr \<Rightarrow> handoff_profile option" where
  "handoff_profile_named i = List.find (\<lambda>p. pf_profile_id p = i) PROFILES"

lemma registry_profiles: "map pf_profile_id PROFILES = PROFILE_REGISTRY"
  by (simp add: PROFILES_def PROFILE_REGISTRY_def generic_profile_def)

section \<open>Evidence\<close>

record evidence_item =
  ei_source :: evidence_source
  ei_source_id :: pystr
  ei_content :: pystr
  ei_sender :: pystr
  ei_subject :: pystr

definition EvidenceItem :: "evidence_item \<Rightarrow> handoff_error + evidence_item" where
  "EvidenceItem i =
     and_then (ensure (bounded_text 1 512 (ei_source_id i) \<and> utf8_ok (ei_content i) \<and> ei_content i \<noteq> []
        \<and> bounded_text 0 512 (ei_sender i) \<and> bounded_text 0 1024 (ei_subject i)) EvidenceRefused) (\<lambda>_.
       Inr i)"

record evidence_pack =
  ep_profile_id :: pystr
  ep_items :: "evidence_item list"

definition dump_item :: "evidence_item \<Rightarrow> json" where
  "dump_item i = JObj
     [(lit ''schema_version'', JInt 1), (lit ''source'', JStr (evidence_source_value (ei_source i))),
      (lit ''source_id'', JStr (ei_source_id i)), (lit ''content'', JStr (ei_content i)),
      (lit ''sender'', JStr (ei_sender i)), (lit ''subject'', JStr (ei_subject i))]"

definition dump_pack :: "evidence_pack \<Rightarrow> json" where
  "dump_pack p = JObj
     [(lit ''schema_version'', JInt 1), (lit ''profile_id'', JStr (ep_profile_id p)),
      (lit ''items'', JArr (map dump_item (ep_items p)))]"

definition pack_digest :: "router_env \<Rightarrow> evidence_pack \<Rightarrow> pystr" where
  "pack_digest env p = payload_digest env (dump_pack p)"

section \<open>Collecting evidence\<close>

text \<open>\<^verbatim>\<open>str(a or b or ...)\<close> over the keys of a row.\<close>

fun first_truthy :: "string list \<Rightarrow> (pystr \<times> json) list \<Rightarrow> json" where
  "first_truthy [] row = JStr []"
| "first_truthy (k # ks) row =
     (let v = get_or JNull k row in if json_truthy v then v else first_truthy ks row)"

definition to_item :: "compiler_env \<Rightarrow> evidence_source \<Rightarrow> (pystr \<times> json) list
    \<Rightarrow> handoff_error + evidence_item option" where
  "to_item env source row =
     (let content = strip (py_str env (first_truthy [''content'', ''body'', ''chunk_text''] row));
          source_id = strip (py_str env (first_truthy [''id'', ''email_id''] row))
      in if content = [] \<or> source_id = [] then Inr None
         else and_then (EvidenceItem
            \<lparr>ei_source = source, ei_source_id = source_id, ei_content = content,
             ei_sender = take 512 (py_str env (first_truthy [''sender''] row)),
             ei_subject = take 1024 (py_str env (first_truthy [''subject''] row))\<rparr>) (\<lambda>i. Inr (Some i)))"

type_synonym adapters = "evidence_source \<Rightarrow> (int \<Rightarrow> json list option) option"

text \<open>The items of one source; a failing optional source gives none.\<close>

definition source_items :: "compiler_env \<Rightarrow> adapters \<Rightarrow> handoff_plan \<Rightarrow> evidence_source
    \<Rightarrow> handoff_error + evidence_item list" where
  "source_items env adapters plan source =
     (let required = source \<in> set (hp_required_sources plan)
      in (case Option.bind (adapters source) (\<lambda>f. f (hp_max_items_per_source plan)) of
            None \<Rightarrow> if required then Inl (RequiredEvidenceMissing source) else Inr []
          | Some rows \<Rightarrow>
              and_then (traverse (to_item env source) (List.map_filter json_obj rows)) (\<lambda>found.
                let items = List.map_filter (\<lambda>x. x) found
                in if required \<and> items = [] then Inl (RequiredEvidenceMissing source) else Inr items)))"

text \<open>The authorisation hook of a source runs before its adapter, and may raise.\<close>

definition retrieve :: "compiler_env \<Rightarrow> adapters \<Rightarrow> (evidence_source \<Rightarrow> bool) \<Rightarrow> handoff_plan
    \<Rightarrow> handoff_error + evidence_pack" where
  "retrieve env adapters authorized plan =
     and_then (traverse (\<lambda>source.
         and_then (ensure (authorized source) (SourceUnauthorized source)) (\<lambda>_.
           source_items env adapters plan source))
        (hp_required_sources plan @ hp_optional_sources plan)) (\<lambda>items.
       Inr \<lparr>ep_profile_id = hp_profile_id plan, ep_items = concat items\<rparr>)"

section \<open>Required evidence is never missing\<close>

lemma traverse_all2:
  "traverse f xs = Inr ys \<Longrightarrow> list_all2 (\<lambda>x y. f x = Inr y) xs ys"
  by (induction xs arbitrary: ys) (auto split: sum.splits)

lemma to_item_source: "to_item env source row = Inr (Some i) \<Longrightarrow> ei_source i = source \<and> EvidenceItem i = Inr i"
  by (auto simp: to_item_def Let_def EvidenceItem_def and_then_Inr split: if_splits)

lemma source_items_of:
  assumes "source_items env adapters plan source = Inr items"
  shows "(\<forall>i\<in>set items. ei_source i = source \<and> EvidenceItem i = Inr i)
    \<and> (source \<in> set (hp_required_sources plan) \<longrightarrow> items \<noteq> [])"
proof -
  from assms consider (none) "items = []" "source \<notin> set (hp_required_sources plan)"
    | (rows) rows found where "traverse (to_item env source) rows = Inr found"
        "items = List.map_filter (\<lambda>x. x) found" "source \<in> set (hp_required_sources plan) \<longrightarrow> items \<noteq> []"
    by (auto simp: source_items_def Let_def and_then_Inr split: option.splits if_splits)
  then show ?thesis
  proof cases
    case rows
    then have "Some i \<in> set found" if "i \<in> set items" for i
      using that by (auto simp: List.map_filter_def)
    then have "\<forall>i\<in>set items. ei_source i = source \<and> EvidenceItem i = Inr i"
      using traverse_set [OF rows(1)] to_item_source by blast
    with rows(3) show ?thesis by blast
  qed auto
qed

lemma list_all2_sets:
  assumes "list_all2 P xs ys"
  shows "x \<in> set xs \<Longrightarrow> \<exists>y\<in>set ys. P x y" "y \<in> set ys \<Longrightarrow> \<exists>x\<in>set xs. P x y"
  using assms by (induction rule: list_all2_induct) auto

lemma retrieve_items:
  assumes "retrieve env adapters authorized plan = Inr pack"
  shows "\<forall>i\<in>set (ep_items pack). EvidenceItem i = Inr i
      \<and> ei_source i \<in> set (hp_required_sources plan @ hp_optional_sources plan) \<and> authorized (ei_source i)"
    "\<forall>source\<in>set (hp_required_sources plan). \<exists>i\<in>set (ep_items pack). ei_source i = source"
proof -
  let ?f = "\<lambda>source. and_then (ensure (authorized source) (SourceUnauthorized source)) (\<lambda>_.
           source_items env adapters plan source)"
  let ?sources = "hp_required_sources plan @ hp_optional_sources plan"
  from assms obtain parts where parts: "traverse ?f ?sources = Inr parts" "ep_items pack = concat parts"
    by (auto simp: retrieve_def and_then_Inr)
  from traverse_all2 [OF parts(1)]
  have all: "list_all2 (\<lambda>source items. authorized source \<and> source_items env adapters plan source = Inr items)
      ?sources parts"
    by (rule list_all2_mono) (auto simp: and_then_Inr)
  show "\<forall>i\<in>set (ep_items pack). EvidenceItem i = Inr i \<and> ei_source i \<in> set ?sources \<and> authorized (ei_source i)"
  proof
    fix i
    assume "i \<in> set (ep_items pack)"
    then obtain items where items: "items \<in> set parts" "i \<in> set items" by (auto simp: parts(2))
    from list_all2_sets(2) [OF all items(1)] obtain source where s: "source \<in> set ?sources"
      "authorized source" "source_items env adapters plan source = Inr items" by blast
    from source_items_of [OF s(3)] items(2) have "ei_source i = source" "EvidenceItem i = Inr i" by blast+
    with s show "EvidenceItem i = Inr i \<and> ei_source i \<in> set ?sources \<and> authorized (ei_source i)" by simp
  qed
  show "\<forall>source\<in>set (hp_required_sources plan). \<exists>i\<in>set (ep_items pack). ei_source i = source"
  proof
    fix source
    assume required: "source \<in> set (hp_required_sources plan)"
    then have "source \<in> set ?sources" by simp
    from list_all2_sets(1) [OF all this] obtain items where
      items: "items \<in> set parts" "source_items env adapters plan source = Inr items" by blast
    with source_items_of [OF items(2)] required obtain i where "i \<in> set items" "ei_source i = source"
      by (cases items) auto
    with items(1) show "\<exists>i\<in>set (ep_items pack). ei_source i = source"
      by (auto simp: parts(2))
  qed
qed


section \<open>A sample collection\<close>

definition sample_compiler_text :: compiler_env where
  "sample_compiler_text = \<lparr>casefold = ascii_lower, re_compiles = (\<lambda>p. True), re_search = (\<lambda>p s. False),
     r_sha256 = (\<lambda>b. replicate 64 97), r_float_text = (\<lambda>q. []), lax_bool = (\<lambda>j. None),
     fromisoformat = (\<lambda>s. None), dump = (\<lambda>r. JNull), parse = (\<lambda>j. None), str_of = (\<lambda>j. [])\<rparr>"

definition sample_adapters :: adapters where
  "sample_adapters source =
     (if source = MAIL_THREAD then Some (\<lambda>n. Some [JObj [(lit ''id'', JStr (lit ''e1'')),
        (lit ''body'', JStr (lit '' earlier mail ''))], JNull])
      else if source = SEMANTIC_HISTORY then Some (\<lambda>n. None) else None)"

definition sample_plan :: handoff_plan where
  "sample_plan = \<lparr>hp_profile_id = lit ''p_v1'', hp_required_sources = [MAIL_THREAD],
     hp_optional_sources = [SEMANTIC_HISTORY], hp_max_items_per_source = 5, hp_writer_mode = WRITE_LLM,
     hp_prompt_modifier = None, hp_fixed_draft = None\<rparr>"


end
