(* ===== verification/ApprovalStore.thy ===== *)
theory ApprovalStore
  imports ApprovalEnvelope HandoffEvidence "HOL-Library.AList"
begin

text \<open>
  The durable approval tables of \<^verbatim>\<open>src/utils/db_async.py\<close> and the transactions on them, with the
  status operations of \<^verbatim>\<open>emails_log\<close> and \<^verbatim>\<open>src/safety/approval_claim.py\<close> on top of them. A table
  is the list of its rows; primary keys, the unique index on envelopes and the foreign keys refuse
  an insert by raising. A transaction maps a store to an error or a result and the new store.
\<close>

section \<open>Rows\<close>

datatype handoff_state =
    HS_PLANNED | HS_EVIDENCE_READY | HS_MANUAL_REVIEW | HS_APPROVAL_PENDING | HS_APPROVED
  | HS_REJECTED | HS_DRAFT_SAVING | HS_DRAFT_SAVED | HS_EXECUTING | HS_COMPLETED | HS_FAILED

record log_row =
  lg_id :: pystr
  lg_status :: "pystr option"
  lg_columns :: "(pystr \<times> json) list"

record tier_decision_row =
  td_inbox_id :: pystr
  td_account_id :: int
  td_external_email_id :: pystr
  td_decision_digest :: pystr
  td_decision_json :: json

record run_row =
  h_inbox_id :: pystr
  h_decision_digest :: pystr
  h_plan_json :: json
  h_plan_digest :: pystr
  h_evidence_json :: "json option"
  h_evidence_digest :: "pystr option"
  h_state :: handoff_state
  h_payload_revision :: "int option"
  h_version :: int
  h_execution_claim_id :: "pystr option"

record payload_row =
  p_inbox_id :: pystr
  p_revision :: int
  p_payload_digest :: pystr
  p_decision_digest :: pystr
  p_plan_digest :: pystr
  p_evidence_digest :: pystr
  p_draft_digest :: pystr
  p_draft_content :: "pystr option"
  p_draft_ref :: json
  p_to_recipients :: json
  p_cc_recipients :: json
  p_attachment_refs :: json
  p_attachment_digests :: json
  p_acknowledged :: bool
  p_editor :: pystr

record envelope_row =
  v_inbox_id :: pystr
  v_payload_revision :: int
  v_payload_digest :: pystr
  v_envelope_json :: json
  v_envelope_digest :: pystr
  v_decision_digest :: pystr
  v_plan_digest :: pystr
  v_evidence_digest :: pystr
  v_draft_digest :: pystr
  v_approver :: pystr
  v_approved_at :: pystr

datatype execution_state = XS_PLANNED | XS_EFFECT_COMMITTED | XS_COMPLETED | XS_FAILED

record execution_row =
  x_inbox :: pystr
  x_decision_digest :: pystr
  x_state :: execution_state
  x_error :: "pystr option"
  x_version :: int

record adb =
  a_log :: "log_row list"
  a_decisions :: "tier_decision_row list"
  a_runs :: "run_row list"
  a_payloads :: "payload_row list"
  a_envelopes :: "envelope_row list"
  a_executions :: "execution_row list"

text \<open>
  A \<^verbatim>\<open>DatabaseOperationError\<close> by its message, a \<^verbatim>\<open>ValueError\<close>, a refused pydantic model, and an
  error of the database or its driver.
\<close>

datatype approval_error =
    DbConflict string | ArgumentError string | ModelRefused gate_error | DecisionRefused route_error
  | PlanRefused handoff_error | SqlError

type_synonym 'a tx = "adb \<Rightarrow> approval_error + ('a \<times> adb)"

definition run_of :: "pystr \<Rightarrow> adb \<Rightarrow> run_row option" where
  "run_of x d = select_one (\<lambda>h. h_inbox_id h = x) (a_runs d)"

definition decision_of :: "pystr \<Rightarrow> adb \<Rightarrow> tier_decision_row option" where
  "decision_of x d = select_one (\<lambda>t. td_inbox_id t = x) (a_decisions d)"

definition payload_of :: "pystr \<Rightarrow> int \<Rightarrow> adb \<Rightarrow> payload_row option" where
  "payload_of x n d = select_one (\<lambda>p. p_inbox_id p = x \<and> p_revision p = n) (a_payloads d)"

definition email_of :: "pystr \<Rightarrow> adb \<Rightarrow> log_row option" where
  "email_of x d =
     (case decision_of x d of
        None \<Rightarrow> None
      | Some t \<Rightarrow> select_one (\<lambda>l. lg_id l = td_external_email_id t) (a_log d))"

definition email_has :: "pystr \<Rightarrow> string list \<Rightarrow> adb \<Rightarrow> bool" where
  "email_has x statuses d =
     (case email_of x d of None \<Rightarrow> False | Some l \<Rightarrow> (\<exists>s\<in>set statuses. lg_status l = Some (lit s)))"

text \<open>\<^verbatim>\<open>UPDATE ... WHERE\<close> and its \<^verbatim>\<open>rowcount\<close>.\<close>

definition update_runs :: "(run_row \<Rightarrow> bool) \<Rightarrow> (run_row \<Rightarrow> run_row) \<Rightarrow> adb \<Rightarrow> nat \<times> adb" where
  "update_runs p f d =
     (length (filter p (a_runs d)),
      d\<lparr>a_runs := sql_update p (\<lambda>h. (f h)\<lparr>h_version := h_version h + 1\<rparr>) (a_runs d)\<rparr>)"

definition update_log :: "(log_row \<Rightarrow> bool) \<Rightarrow> (log_row \<Rightarrow> log_row) \<Rightarrow> adb \<Rightarrow> nat \<times> adb" where
  "update_log p f d = (length (filter p (a_log d)), d\<lparr>a_log := sql_update p f (a_log d)\<rparr>)"

definition set_column :: "string \<Rightarrow> json \<Rightarrow> log_row \<Rightarrow> log_row" where
  "set_column k v l = l\<lparr>lg_columns := AList.update (lit k) v (lg_columns l)\<rparr>"

definition set_status :: "string \<Rightarrow> log_row \<Rightarrow> log_row" where
  "set_status s l = l\<lparr>lg_status := Some (lit s)\<rparr>"

text \<open>
  \<^verbatim>\<open>UPDATE emails_log l ... FROM tier1_decisions d WHERE d.inbox_id=%s AND
  d.external_email_id=l.id AND l.status=...\<close>.
\<close>

definition is_email_in :: "pystr \<Rightarrow> string \<Rightarrow> adb \<Rightarrow> log_row \<Rightarrow> bool" where
  "is_email_in x s d l =
     (lg_status l = Some (lit s)
      \<and> (\<exists>t\<in>set (a_decisions d). td_inbox_id t = x \<and> td_external_email_id t = lg_id l))"

section \<open>Plans and evidence\<close>

definition persist_handoff_plan ::
  "router_env \<Rightarrow> pystr \<Rightarrow> pystr \<Rightarrow> handoff_plan \<Rightarrow> run_row tx" where
  "persist_handoff_plan env x decision_digest plan d =
     and_then (lift_error PlanRefused (HandoffPlan plan)) (\<lambda>plan.
       let digest = plan_digest env plan;
           fresh = \<lparr>h_inbox_id = x, h_decision_digest = decision_digest, h_plan_json = dump_plan plan,
             h_plan_digest = digest, h_evidence_json = None, h_evidence_digest = None,
             h_state = HS_PLANNED, h_payload_revision = None, h_version = 0, h_execution_claim_id = None\<rparr>
       in and_then (if run_of x d \<noteq> None then Inr d
                    else if is_sha256_hex decision_digest \<and> is_sha256_hex digest \<and> decision_of x d \<noteq> None
                    then Inr (d\<lparr>a_runs := a_runs d @ [fresh]\<rparr>) else Inl SqlError) (\<lambda>d.
          case run_of x d of
            None \<Rightarrow> Inl (DbConflict ''immutable handoff conflict'')
          | Some h \<Rightarrow>
              if h_decision_digest h \<noteq> decision_digest \<or> h_plan_digest h \<noteq> digest
              then Inl (DbConflict ''immutable handoff conflict'') else Inr (h, d)))"

definition at_version :: "pystr \<Rightarrow> int \<Rightarrow> handoff_state list \<Rightarrow> run_row \<Rightarrow> bool" where
  "at_version x v states h = (h_inbox_id h = x \<and> h_version h = v \<and> h_state h \<in> set states)"

definition persist_handoff_evidence :: "router_env \<Rightarrow> pystr \<Rightarrow> int \<Rightarrow> evidence_pack \<Rightarrow> bool tx" where
  "persist_handoff_evidence env x v pack d =
     (let (n, d') = update_runs (at_version x v [HS_PLANNED])
        (\<lambda>h. h\<lparr>h_evidence_json := Some (dump_pack pack), h_evidence_digest := Some (pack_digest env pack),
             h_state := HS_EVIDENCE_READY\<rparr>) d
      in if n = 1 \<and> \<not> is_sha256_hex (pack_digest env pack) then Inl SqlError else Inr (n = 1, d'))"

definition transition_handoff_manual_review :: "pystr \<Rightarrow> int \<Rightarrow> bool tx" where
  "transition_handoff_manual_review x v d =
     (let (n, d') = update_runs (at_version x v [HS_PLANNED, HS_EVIDENCE_READY, HS_APPROVAL_PENDING,
          HS_APPROVED, HS_DRAFT_SAVING]) (\<lambda>h. h\<lparr>h_state := HS_MANUAL_REVIEW\<rparr>) d
      in Inr (n = 1, d'))"

section \<open>Payload revisions\<close>

definition PAYLOAD_REQUIRED :: "string list" where
  "PAYLOAD_REQUIRED =
     [''decision_digest'', ''plan_digest'', ''evidence_digest'', ''draft_digest'', ''editor'', ''edited_at'']"

definition requested_payload :: "(pystr \<times> json) list \<Rightarrow> frozen_payload" where
  "requested_payload l =
     \<lparr>fz_decision_digest = get_or JNull ''decision_digest'' l, fz_plan_digest = get_or JNull ''plan_digest'' l,
      fz_evidence_digest = get_or JNull ''evidence_digest'' l, fz_draft_digest = get_or JNull ''draft_digest'' l,
      fz_draft_content = get_or JNull ''draft_content'' l, fz_draft_ref = get_or JNull ''draft_ref'' l,
      fz_to = get_or JNull ''to'' l, fz_cc = get_or JNull ''cc'' l,
      fz_attachment_refs = get_or JNull ''attachment_refs'' l,
      fz_attachment_digests = get_or JNull ''attachment_digests'' l,
      fz_acknowledged = get_or JNull ''external_recipient_acknowledged'' l\<rparr>"

definition stored_payload :: "payload_row \<Rightarrow> frozen_payload" where
  "stored_payload p =
     \<lparr>fz_decision_digest = JStr (p_decision_digest p), fz_plan_digest = JStr (p_plan_digest p),
      fz_evidence_digest = JStr (p_evidence_digest p), fz_draft_digest = JStr (p_draft_digest p),
      fz_draft_content = json_opt JStr (p_draft_content p), fz_draft_ref = p_draft_ref p,
      fz_to = p_to_recipients p, fz_cc = p_cc_recipients p, fz_attachment_refs = p_attachment_refs p,
      fz_attachment_digests = p_attachment_digests p, fz_acknowledged = JBool (p_acknowledged p)\<rparr>"

definition digest_payload :: "router_env \<Rightarrow> frozen_payload \<Rightarrow> approval_error + pystr" where
  "digest_payload env p = some_or (ArgumentError ''utf-8'') (digest_json env (frozen_json p))"

definition has_payload :: "pystr \<Rightarrow> int \<Rightarrow> pystr \<Rightarrow> adb \<Rightarrow> bool" where
  "has_payload x n digest d = (case payload_of x n d of None \<Rightarrow> False | Some p \<Rightarrow> p_payload_digest p = digest)"

text \<open>The row an edit appends; texts of the wrong type and digests too long are refused by SQL.\<close>

definition char64 :: "json \<Rightarrow> pystr option" where
  "char64 j = (case j of
     JStr s \<Rightarrow> if length s \<le> 64 then Some (s @ replicate (64 - length s) 32) else None | _ \<Rightarrow> None)"

definition payload_row_of ::
  "pystr \<Rightarrow> int \<Rightarrow> pystr \<Rightarrow> (pystr \<times> json) list \<Rightarrow> payload_row option" where
  "payload_row_of x n digest l =
     (case (char64 (get_or JNull ''decision_digest'' l), char64 (get_or JNull ''plan_digest'' l),
            char64 (get_or JNull ''evidence_digest'' l), char64 (get_or JNull ''draft_digest'' l),
            opt_of json_str (get_or JNull ''draft_content'' l), json_str (get_or JNull ''editor'' l)) of
        (Some dd, Some pd, Some ed, Some fd, Some content, Some editor) \<Rightarrow>
          if is_sha256_hex digest then
            Some \<lparr>p_inbox_id = x, p_revision = n, p_payload_digest = digest, p_decision_digest = dd,
              p_plan_digest = pd, p_evidence_digest = ed, p_draft_digest = fd, p_draft_content = content,
              p_draft_ref = get_or JNull ''draft_ref'' l, p_to_recipients = get_or (JArr []) ''to'' l,
              p_cc_recipients = get_or (JArr []) ''cc'' l,
              p_attachment_refs = get_or (JArr []) ''attachment_refs'' l,
              p_attachment_digests = get_or (JArr []) ''attachment_digests'' l,
              p_acknowledged = json_truthy (get_or (JBool False) ''external_recipient_acknowledged'' l),
              p_editor = editor\<rparr>
          else None
      | _ \<Rightarrow> None)"

text \<open>
  Whether the edit binds to the state it was made on, and the revision an exact replay of the one
  successor of that state recovers.
\<close>

definition edit_binds :: "pystr \<Rightarrow> run_row \<Rightarrow> (int \<times> pystr) option \<Rightarrow> adb \<Rightarrow> bool" where
  "edit_binds x h expected d =
     (case expected of
        None \<Rightarrow> h_state h = HS_EVIDENCE_READY \<and> h_payload_revision h = None
      | Some (n, digest) \<Rightarrow>
          h_state h = HS_APPROVAL_PENDING \<and> h_payload_revision h = Some n \<and> has_payload x n digest d)"

definition replayed_edit :: "router_env \<Rightarrow> pystr \<Rightarrow> run_row \<Rightarrow> (int \<times> pystr) option \<Rightarrow> pystr
    \<Rightarrow> adb \<Rightarrow> approval_error + int option" where
  "replayed_edit env x h expected digest d =
     (case expected of
        None \<Rightarrow> Inr None
      | Some (n, old) \<Rightarrow>
          if \<not> edit_binds x h expected d \<and> h_state h = HS_APPROVAL_PENDING
             \<and> h_payload_revision h = Some (n + 1) \<and> has_payload x n old d
          then (case payload_of x (n + 1) d of
                  None \<Rightarrow> Inr None
                | Some p \<Rightarrow> and_then (digest_payload env (stored_payload p)) (\<lambda>successor.
                    Inr (if successor = digest \<and> successor = p_payload_digest p then Some (n + 1) else None)))
          else Inr None)"

definition append_payload_revision ::
  "pystr \<Rightarrow> int \<Rightarrow> run_row \<Rightarrow> pystr \<Rightarrow> (pystr \<times> json) list \<Rightarrow> int tx" where
  "append_payload_revision x v h digest payload d =
     (let n = (case h_payload_revision h of None \<Rightarrow> 0 | Some n \<Rightarrow> n) + 1
      in and_then (some_or SqlError (payload_row_of x n digest payload)) (\<lambda>row.
         and_then (ensure (payload_of x n d = None \<and> 0 < n) SqlError) (\<lambda>_.
           let (m, d') = update_runs (\<lambda>h. h_inbox_id h = x \<and> h_version h = v)
             (\<lambda>h. h\<lparr>h_payload_revision := Some n, h_state := HS_APPROVAL_PENDING\<rparr>)
             (d\<lparr>a_payloads := a_payloads d @ [row]\<rparr>)
           in if m = 1 then Inr (n, d') else Inl (DbConflict ''handoff CAS conflict''))))"

definition create_payload_revision :: "router_env \<Rightarrow> pystr \<Rightarrow> int \<Rightarrow> int option \<Rightarrow> pystr option
    \<Rightarrow> (pystr \<times> json) list \<Rightarrow> int tx" where
  "create_payload_revision env x v expected_revision expected_digest payload d =
     and_then (ensure (list_all (\<lambda>k. map_of payload (lit k) \<noteq> None) PAYLOAD_REQUIRED)
        (ArgumentError ''incomplete_execution_payload'')) (\<lambda>_.
     and_then (ensure ((expected_revision = None) = (expected_digest = None))
        (ArgumentError ''incomplete_expected_payload_binding'')) (\<lambda>_.
     and_then (some_or (DbConflict ''handoff CAS conflict'')
        (select_one (at_version x v [HS_EVIDENCE_READY, HS_APPROVAL_PENDING]) (a_runs d))) (\<lambda>h.
     and_then (ensure (get_or JNull ''decision_digest'' payload = JStr (h_decision_digest h)
         \<and> get_or JNull ''plan_digest'' payload = JStr (h_plan_digest h)
         \<and> get_or JNull ''evidence_digest'' payload = json_opt JStr (h_evidence_digest h))
        (DbConflict ''payload authority digest conflict'')) (\<lambda>_.
     and_then (digest_payload env (requested_payload payload)) (\<lambda>digest.
       let expected = (case (expected_revision, expected_digest) of
             (Some n, Some g) \<Rightarrow> Some (n, g) | _ \<Rightarrow> None)
       in and_then (replayed_edit env x h expected digest d) (\<lambda>replay.
          case replay of
            Some n \<Rightarrow> Inr (n, d)
          | None \<Rightarrow>
              and_then (ensure (edit_binds x h expected d) (DbConflict ''stale payload edit'')) (\<lambda>_.
                append_payload_revision x v h digest payload d)))))))"

definition is_current_payload_revision :: "pystr \<Rightarrow> int \<Rightarrow> pystr \<Rightarrow> adb \<Rightarrow> bool" where
  "is_current_payload_revision x n digest d =
     (case run_of x d of
        None \<Rightarrow> False
      | Some h \<Rightarrow> h_state h = HS_APPROVAL_PENDING \<and> h_payload_revision h = Some n \<and> has_payload x n digest d)"

definition get_payload_revision_binding :: "pystr \<Rightarrow> int \<Rightarrow> adb \<Rightarrow> pystr option" where
  "get_payload_revision_binding x n d = map_option p_payload_digest (payload_of x n d)"

definition get_payload_revision_snapshot :: "pystr \<Rightarrow> int \<Rightarrow> adb \<Rightarrow> (payload_row \<times> log_row) option" where
  "get_payload_revision_snapshot x n d =
     (case (payload_of x n d, email_of x d) of (Some p, Some l) \<Rightarrow> Some (p, l) | _ \<Rightarrow> None)"

definition get_current_payload_revision_snapshot :: "pystr \<Rightarrow> adb \<Rightarrow> (payload_row \<times> log_row) option" where
  "get_current_payload_revision_snapshot x d =
     (case run_of x d of
        None \<Rightarrow> None
      | Some h \<Rightarrow>
          (case h_payload_revision h of
             None \<Rightarrow> None
           | Some n \<Rightarrow> if h_state h = HS_APPROVAL_PENDING then get_payload_revision_snapshot x n d else None))"

end
