(* ===== verification/ApprovalOps.thy ===== *)
theory ApprovalOps
  imports ApprovalStore
begin

text \<open>
  Approval, rejection, saving as a draft, the claim of the one execution and its completion
  (\<^verbatim>\<open>src/utils/db_async.py\<close>), the status operations on \<^verbatim>\<open>emails_log\<close>, and the two recoveries at a
  restart, with \<^verbatim>\<open>src/safety/approval_claim.py\<close> on top of them.
\<close>

section \<open>Python equality of decoded JSON\<close>

definition number_of_json :: "json \<Rightarrow> rat option" where
  "number_of_json j =
     (case j of JBool b \<Rightarrow> Some (if b then 1 else 0) | JInt i \<Rightarrow> Some (of_int i) | JFloat q \<Rightarrow> Some q
      | _ \<Rightarrow> None)"

fun py_equal :: "json \<Rightarrow> json \<Rightarrow> bool" and py_equal_items :: "json list \<Rightarrow> json list \<Rightarrow> bool"
  and py_equal_fields :: "(pystr \<times> json) list \<Rightarrow> (pystr \<times> json) list \<Rightarrow> bool" where
  "py_equal (JArr xs) j = (case j of JArr ys \<Rightarrow> py_equal_items xs ys | _ \<Rightarrow> False)"
| "py_equal (JObj l) j =
     (case j of JObj m \<Rightarrow> length l = length m \<and> py_equal_fields l m | _ \<Rightarrow> False)"
| "py_equal (JStr s) j = (j = JStr s)"
| "py_equal JNull j = (j = JNull)"
| "py_equal (JBool b) j = (number_of_json j = Some (if b then 1 else 0))"
| "py_equal (JInt i) j = (number_of_json j = Some (of_int i))"
| "py_equal (JFloat q) j = (number_of_json j = Some q)"
| "py_equal_items [] ys = (ys = [])"
| "py_equal_items (x # xs) ys = (case ys of [] \<Rightarrow> False | y # ys' \<Rightarrow> py_equal x y \<and> py_equal_items xs ys')"
| "py_equal_fields [] m = True"
| "py_equal_fields ((k, v) # l) m =
     ((case map_of m k of None \<Rightarrow> False | Some w \<Rightarrow> py_equal v w) \<and> py_equal_fields l m)"

lemma py_equal_refl [simp]:
  "json_wf j \<Longrightarrow> py_equal j j"
  "json_wf_list xs \<Longrightarrow> py_equal_items xs xs"
  "json_wf_fields l \<Longrightarrow> distinct (map fst m) \<Longrightarrow> set l \<subseteq> set m \<Longrightarrow> py_equal_fields l m"
  by (induction j and xs and l arbitrary: and and m rule: json_wf_json_wf_list_json_wf_fields.induct)
    (simp_all add: number_of_json_def del: map_of_eq_Some_iff,
      (metis (mono_tags) map_of_is_SomeI option.simps(5))?)

section \<open>Approving a payload revision\<close>

datatype commit_status = COMMIT_CREATED | ALREADY_APPROVED_EXACT

record commit_result =
  cr_status :: commit_status
  cr_envelope :: json
  cr_digest :: pystr

text \<open>
  The current payload of a run, as the three card actions select it: the run is at the expected
  version, awaits approval of exactly this revision and digest, and so does its email.
\<close>

definition pending_payload ::
  "pystr \<Rightarrow> int \<Rightarrow> pystr \<Rightarrow> int \<Rightarrow> adb \<Rightarrow> (payload_row \<times> tier_decision_row) option" where
  "pending_payload x n digest v d =
     (case (run_of x d, payload_of x n d, decision_of x d, email_of x d) of
        (Some h, Some p, Some t, Some l) \<Rightarrow>
          if h_version h = v \<and> h_state h = HS_APPROVAL_PENDING \<and> h_payload_revision h = Some n
             \<and> p_payload_digest p = digest \<and> lg_status l = Some (lit ''waiting_approval'')
          then Some (p, t) else None
      | _ \<Rightarrow> None)"

definition pending_run :: "pystr \<Rightarrow> int \<Rightarrow> int \<Rightarrow> run_row \<Rightarrow> bool" where
  "pending_run x v n h =
     (at_version x v [HS_APPROVAL_PENDING] h \<and> h_payload_revision h = Some n)"

text \<open>The envelopes of an approval that was already committed, each with the payload it froze.\<close>

definition approved_view ::
  "pystr \<Rightarrow> adb \<Rightarrow> (envelope_row \<times> payload_row \<times> tier_decision_row) list" where
  "approved_view x d =
     (case (run_of x d, decision_of x d) of
        (Some h, Some t) \<Rightarrow>
          if h_state h \<in> {HS_APPROVED, HS_EXECUTING, HS_COMPLETED}
             \<and> email_has x [''approved'', ''sending'', ''sent''] d
          then concat (map (\<lambda>v. case payload_of x (v_payload_revision v) d of
                   None \<Rightarrow> [] | Some p \<Rightarrow> [(v, p, t)])
                 (sort_key v_payload_revision
                   (filter (\<lambda>v. v_inbox_id v = x \<and> h_payload_revision h = Some (v_payload_revision v))
                     (a_envelopes d))))
          else []
      | _ \<Rightarrow> [])"

definition validate_existing_approved_envelope :: "gate_env \<Rightarrow>
    (envelope_row \<times> payload_row \<times> tier_decision_row) list \<Rightarrow> envelope_row \<times> payload_row \<times> tier_decision_row
    \<Rightarrow> pystr \<Rightarrow> int \<Rightarrow> pystr \<Rightarrow> pystr \<Rightarrow> approval_error + commit_result" where
  "validate_existing_approved_envelope env rows row x n digest approver =
     (let (v, p, t) = row; router = ge_router env
      in and_then (ensure (length rows = 1) (DbConflict ''approved envelope cardinality conflict'')) (\<lambda>_.
         case (read_envelope env (v_envelope_json v),
               read_decision router (ge_float env) (td_decision_json t)) of
           (Inr e, Inr decision) \<Rightarrow>
             if en_inbox_id e = x \<and> en_payload_revision e = n \<and> en_approver e = approver
                \<and> envelope_digest router e = v_envelope_digest v \<and> v_inbox_id v = x
                \<and> en_account_id e = td_account_id t \<and> en_email_id e = td_external_email_id t
                \<and> py_equal (dump_decision (en_route_decision e)) (dump_decision decision)
                \<and> v_payload_revision v = n \<and> v_payload_digest v = digest \<and> p_payload_digest p = digest
                \<and> v_approver v = approver \<and> v_decision_digest v = en_decision_digest e
                \<and> v_plan_digest v = en_plan_digest e \<and> v_evidence_digest v = en_evidence_digest e
                \<and> v_draft_digest v = en_draft_digest e \<and> p_decision_digest p = en_decision_digest e
                \<and> p_plan_digest p = en_plan_digest e \<and> p_evidence_digest p = en_evidence_digest e
                \<and> p_draft_digest p = en_draft_digest e
             then Inr \<lparr>cr_status = ALREADY_APPROVED_EXACT, cr_envelope = dump_envelope e,
                    cr_digest = v_envelope_digest v\<rparr>
             else Inl (DbConflict ''approved envelope replay conflict'')
         | _ \<Rightarrow> Inl (DbConflict ''approved envelope validation conflict'')))"

definition proposed_envelope ::
  "pystr \<Rightarrow> int \<Rightarrow> pystr \<Rightarrow> pystr \<Rightarrow> pystr \<Rightarrow> payload_row \<Rightarrow> tier_decision_row \<Rightarrow> json" where
  "proposed_envelope x n digest approver approved_at p t = JObj
     [(lit ''schema_version'', JInt 1), (lit ''inbox_id'', JStr x),
      (lit ''account_id'', JInt (td_account_id t)), (lit ''email_id'', JStr (td_external_email_id t)),
      (lit ''payload_revision'', JInt n), (lit ''payload_digest'', JStr digest),
      (lit ''route_decision'', td_decision_json t),
      (lit ''decision_digest'', JStr (p_decision_digest p)), (lit ''plan_digest'', JStr (p_plan_digest p)),
      (lit ''evidence_digest'', JStr (p_evidence_digest p)), (lit ''draft_digest'', JStr (p_draft_digest p)),
      (lit ''draft_content'', json_opt JStr (p_draft_content p)), (lit ''draft_ref'', p_draft_ref p),
      (lit ''to'', p_to_recipients p), (lit ''cc'', p_cc_recipients p),
      (lit ''attachment_refs'', p_attachment_refs p), (lit ''attachment_digests'', p_attachment_digests p),
      (lit ''external_recipient_acknowledged'', JBool (p_acknowledged p)),
      (lit ''approver'', JStr approver), (lit ''approved_at'', JStr approved_at)]"

definition envelope_row_of :: "router_env \<Rightarrow> envelope \<Rightarrow> payload_row \<Rightarrow> pystr \<Rightarrow> envelope_row" where
  "envelope_row_of env e p approved_at =
     \<lparr>v_inbox_id = en_inbox_id e, v_payload_revision = en_payload_revision e,
      v_payload_digest = en_payload_digest e, v_envelope_json = dump_envelope e,
      v_envelope_digest = envelope_digest env e, v_decision_digest = p_decision_digest p,
      v_plan_digest = p_plan_digest p, v_evidence_digest = p_evidence_digest p,
      v_draft_digest = p_draft_digest p, v_approver = en_approver e, v_approved_at = approved_at\<rparr>"

text \<open>\<^verbatim>\<open>uq_approved_execution_envelopes_inbox\<close>: one envelope per inbox row.\<close>

definition has_envelope :: "pystr \<Rightarrow> adb \<Rightarrow> bool" where
  "has_envelope x d = (\<exists>v\<in>set (a_envelopes d). v_inbox_id v = x)"

definition set_email_approved :: "pystr \<Rightarrow> pystr \<Rightarrow> payload_row \<Rightarrow> log_row \<Rightarrow> log_row" where
  "set_email_approved approver approved_at p =
     set_status ''approved'' \<circ> set_column ''approver_user_id'' (JStr approver)
     \<circ> set_column ''approval_at'' (JStr approved_at)
     \<circ> set_column ''final_draft'' (json_opt JStr (p_draft_content p))"

definition awaiting :: "pystr \<Rightarrow> log_row \<Rightarrow> bool" where
  "awaiting email l = (lg_id l = email \<and> lg_status l = Some (lit ''waiting_approval''))"

definition approve_payload_revision :: "gate_env \<Rightarrow> pystr \<Rightarrow> int \<Rightarrow> int \<Rightarrow> pystr \<Rightarrow> pystr \<Rightarrow> pystr
    \<Rightarrow> commit_result tx" where
  "approve_payload_revision env x n v digest approver approved_at d =
     (case approved_view x d of
        row # rows \<Rightarrow>
          and_then (validate_existing_approved_envelope env (row # rows) row x n digest approver) (\<lambda>r.
            Inr (r, d))
      | [] \<Rightarrow>
          and_then (some_or (DbConflict ''stale payload approval'') (pending_payload x n digest v d)) (\<lambda>(p, t).
          and_then (lift_error ModelRefused
              (read_envelope env (proposed_envelope x n digest approver approved_at p t))) (\<lambda>e.
          and_then (ensure (\<not> has_envelope x d) SqlError) (\<lambda>_.
            let d = d\<lparr>a_envelopes := a_envelopes d @ [envelope_row_of (ge_router env) e p approved_at]\<rparr>;
                (runs, d) = update_runs (pending_run x v n) (\<lambda>h. h\<lparr>h_state := HS_APPROVED\<rparr>) d
            in and_then (ensure (runs = 1) (DbConflict ''approval CAS conflict'')) (\<lambda>_.
               let (emails, d) = update_log (awaiting (td_external_email_id t))
                     (set_email_approved approver approved_at p) d
               in and_then (ensure (emails = 1) (DbConflict ''email approval CAS conflict'')) (\<lambda>_.
                  Inr (\<lparr>cr_status = COMMIT_CREATED, cr_envelope = dump_envelope e,
                       cr_digest = envelope_digest (ge_router env) e\<rparr>, d)))))))"

text \<open>
  The shape of the other card actions: select the pending payload, move the run out of
  \<^verbatim>\<open>approval_pending\<close>, then its email out of \<^verbatim>\<open>waiting_approval\<close>.
\<close>

definition leave_pending :: "pystr \<Rightarrow> int \<Rightarrow> pystr \<Rightarrow> int \<Rightarrow> handoff_state \<Rightarrow> (log_row \<Rightarrow> log_row)
    \<Rightarrow> string \<Rightarrow> string \<Rightarrow> adb \<Rightarrow> approval_error + ((payload_row \<times> tier_decision_row) option \<times> adb)" where
  "leave_pending x n digest v s f run_conflict email_conflict d =
     (case pending_payload x n digest v d of
        None \<Rightarrow> Inr (None, d)
      | Some (p, t) \<Rightarrow>
          let (runs, d) = update_runs (pending_run x v n) (\<lambda>h. h\<lparr>h_state := s\<rparr>) d
          in and_then (ensure (runs = 1) (DbConflict run_conflict)) (\<lambda>_.
             let (emails, d) = update_log (awaiting (td_external_email_id t)) f d
             in and_then (ensure (emails = 1) (DbConflict email_conflict)) (\<lambda>_.
                Inr (Some (p, t), d))))"

definition set_email_rejected :: "pystr \<Rightarrow> pystr \<Rightarrow> log_row \<Rightarrow> log_row" where
  "set_email_rejected approver reason =
     set_status ''rejected'' \<circ> set_column ''approver_user_id'' (JStr approver)
     \<circ> set_column ''rejection_reason'' (if reason = [] then JNull else JStr reason)"

definition reject_payload_revision ::
  "pystr \<Rightarrow> int \<Rightarrow> pystr \<Rightarrow> int \<Rightarrow> pystr \<Rightarrow> pystr \<Rightarrow> bool tx" where
  "reject_payload_revision x n digest v approver reason d =
     and_then (leave_pending x n digest v HS_REJECTED (set_email_rejected approver reason)
        ''handoff rejection CAS conflict'' ''email rejection CAS conflict'' d) (\<lambda>(row, d).
       Inr (row \<noteq> None, d))"

section \<open>Saving as a draft\<close>

definition claim_payload_draft_save ::
  "pystr \<Rightarrow> int \<Rightarrow> pystr \<Rightarrow> int \<Rightarrow> (payload_row \<times> pystr \<times> int) option tx" where
  "claim_payload_draft_save x n digest v d =
     and_then (leave_pending x n digest v HS_DRAFT_SAVING (set_status ''saving_draft'')
        ''handoff draft-save CAS conflict'' ''email draft-save CAS conflict'' d) (\<lambda>(row, d).
       Inr (map_option (\<lambda>(p, t). (p, td_external_email_id t, v + 1)) row, d))"

definition end_draft_save ::
  "pystr \<Rightarrow> int \<Rightarrow> handoff_state \<Rightarrow> (log_row \<Rightarrow> log_row) \<Rightarrow> string \<Rightarrow> bool tx" where
  "end_draft_save x v s f conflict d =
     (let (runs, d) = update_runs (at_version x v [HS_DRAFT_SAVING]) (\<lambda>h. h\<lparr>h_state := s\<rparr>) d
      in if runs = 0 then Inr (False, d)
         else let (emails, d) = update_log (is_email_in x ''saving_draft'' d) f d
              in and_then (ensure (emails = 1) (DbConflict conflict)) (\<lambda>_. Inr (True, d)))"

definition complete_payload_draft_save :: "pystr \<Rightarrow> int \<Rightarrow> bool tx" where
  "complete_payload_draft_save x v d =
     end_draft_save x v HS_DRAFT_SAVED (set_status ''draft_saved'') ''email draft-save completion conflict'' d"

definition fail_payload_draft_save :: "pystr \<Rightarrow> int \<Rightarrow> pystr \<Rightarrow> bool tx" where
  "fail_payload_draft_save x v code d =
     end_draft_save x v HS_MANUAL_REVIEW
       (set_status ''manual_review'' \<circ> set_column ''error_message'' (JStr code))
       ''email draft-save quarantine conflict'' d"

section \<open>The one execution\<close>

definition get_approved_execution_envelope :: "pystr \<Rightarrow> int \<Rightarrow> adb \<Rightarrow> (json \<times> pystr) option" where
  "get_approved_execution_envelope x n d =
     map_option (\<lambda>v. (v_envelope_json v, v_envelope_digest v))
       (select_one (\<lambda>v. v_inbox_id v = x \<and> v_payload_revision v = n) (a_envelopes d))"

definition claimable_run :: "pystr \<Rightarrow> int \<Rightarrow> int \<Rightarrow> adb \<Rightarrow> run_row \<Rightarrow> bool" where
  "claimable_run x n v d h =
     (at_version x v [HS_APPROVED] h \<and> h_payload_revision h = Some n \<and> h_execution_claim_id h = None
      \<and> (\<exists>e\<in>set (a_envelopes d). v_inbox_id e = x \<and> v_payload_revision e = n))"

definition claim_execution :: "pystr \<Rightarrow> int \<Rightarrow> int \<Rightarrow> pystr \<Rightarrow> bool tx" where
  "claim_execution x n v claim_id d =
     (let (emails, d') = update_log (is_email_in x ''approved'' d) (set_status ''sending'') d
      in if emails \<noteq> 1 then Inr (False, d')
         else let (runs, d') = update_runs (claimable_run x n v d')
                    (\<lambda>h. h\<lparr>h_state := HS_EXECUTING, h_execution_claim_id := Some claim_id\<rparr>) d'
              in and_then (ensure (runs = 1) (DbConflict ''execution claim conflict'')) (\<lambda>_. Inr (True, d')))"

definition complete_execution :: "pystr \<Rightarrow> int \<Rightarrow> bool \<Rightarrow> bool tx" where
  "complete_execution x v sent d =
     (let (runs, d') = update_runs (at_version x v [HS_EXECUTING])
            (\<lambda>h. h\<lparr>h_state := if sent then HS_COMPLETED else HS_FAILED\<rparr>) d
      in if runs \<noteq> 1 then Inr (False, d')
         else if \<not> sent then Inr (True, d')
         else let (emails, d') = update_log (is_email_in x ''sending'' d') (set_status ''sent'') d'
              in and_then (ensure (emails = 1) (DbConflict ''send completion conflict'')) (\<lambda>_. Inr (True, d')))"

end
