(* ===== verification/ApprovalStatus.thy ===== *)
theory ApprovalStatus
  imports ApprovalOps
begin

text \<open>
  The operations of \<^verbatim>\<open>src/utils/db_async.py\<close> on the status of one email, the two recoveries that
  run at a restart, the secondary state machine \<^verbatim>\<open>handoff_executions\<close>, and the functions of
  \<^verbatim>\<open>src/safety/approval_claim.py\<close> and \<^verbatim>\<open>src/safety/manual_review.py\<close> that use them.
\<close>

section \<open>First record and drafts\<close>

text \<open>
  \<^verbatim>\<open>log_initial_email\<close>: \<^verbatim>\<open>INSERT ... ON CONFLICT (id) DO NOTHING\<close>; the result says whether the row
  is new. A missing id is refused by the primary key.
\<close>

definition normalize_timestamp_input :: "json \<Rightarrow> json" where
  "normalize_timestamp_input j =
     (case j of JStr s \<Rightarrow> if strip s = [] then JNull else JStr (strip s) | _ \<Rightarrow> j)"

definition log_initial_email :: "pystr option \<Rightarrow> json \<Rightarrow> pystr \<Rightarrow> json \<Rightarrow> bool tx" where
  "log_initial_email i subject sender received d =
     (case i of
        None \<Rightarrow> Inl SqlError
      | Some i \<Rightarrow>
          if select_one (\<lambda>l. lg_id l = i) (a_log d) \<noteq> None then Inr (False, d)
          else Inr (True, d\<lparr>a_log := a_log d @
                 [\<lparr>lg_id = i, lg_status = Some (lit ''pending''),
                   lg_columns = [(lit ''subject'', subject), (lit ''sender'', JStr sender),
                     (lit ''received_at'', normalize_timestamp_input received)]\<rparr>]\<rparr>))"

definition get_email_status :: "pystr \<Rightarrow> adb \<Rightarrow> pystr option" where
  "get_email_status i d = Option.bind (select_one (\<lambda>l. lg_id l = i) (a_log d)) lg_status"

definition save_draft :: "pystr \<Rightarrow> pystr \<Rightarrow> pystr tx" where
  "save_draft i content d =
     and_then (ensure (i \<noteq> []) (DbConflict ''invalid draft input'')) (\<lambda>_.
       let (n, d) = update_log (\<lambda>l. lg_id l = i) (set_column ''draft_content'' (JStr content)) d
       in and_then (ensure (n = 1) (DbConflict ''email row missing'')) (\<lambda>_. Inr (i, d)))"

definition save_draft_if_status :: "pystr \<Rightarrow> pystr \<Rightarrow> bool tx" where
  "save_draft_if_status i content d =
     and_then (ensure (strip i \<noteq> [] \<and> strip content \<noteq> []) (ArgumentError ''invalid_draft_edit'')) (\<lambda>_.
       let (n, d) = update_log (awaiting i) (set_column ''draft_content'' (JStr content)) d
       in Inr (n = 1, d))"

definition load_draft :: "pystr \<Rightarrow> adb \<Rightarrow> approval_error + pystr" where
  "load_draft i d =
     and_then (ensure (i \<noteq> []) (DbConflict ''invalid draft identifier'')) (\<lambda>_.
       some_or (DbConflict ''draft not found'')
         (Option.bind (select_one (\<lambda>l. lg_id l = i) (a_log d)) (\<lambda>l.
            Option.bind (map_of (lg_columns l) (lit ''draft_content'')) json_str)))"

section \<open>The general status update\<close>

definition CAS_ONLY_EMAIL_STATUSES :: "string list" where
  "CAS_ONLY_EMAIL_STATUSES = [''approved'', ''sending'', ''send_unknown'', ''sent'']"

definition ALLOWED_COLUMNS :: "string list" where
  "ALLOWED_COLUMNS =
     [''classification'', ''summary'', ''priority'', ''need_reply'', ''card_type'', ''draft'', ''draft_content'',
      ''message_id'', ''intent'', ''reasoning'', ''error_message'', ''routing_log'', ''original_draft'',
      ''final_draft'', ''draft_diff'', ''approver_user_id'', ''rejection_reason'']"

definition JSONB_COLUMNS :: "string list" where
  "JSONB_COLUMNS = [''classification'', ''routing_log'']"

text \<open>The columns \<^verbatim>\<open>emails_log\<close> has of those; naming another one makes the statement fail.\<close>

definition TEXT_COLUMNS :: "string list" where
  "TEXT_COLUMNS =
     [''draft_content'', ''error_message'', ''original_draft'', ''final_draft'', ''draft_diff'',
      ''approver_user_id'', ''rejection_reason'']"

text \<open>What a column stores: JSON text is parsed by the database, a text column takes a text or NULL.\<close>

definition column_value :: "(pystr \<Rightarrow> json option) \<Rightarrow> pystr \<Rightarrow> json \<Rightarrow> json option" where
  "column_value from_text k j =
     (if k \<in> lit ` set JSONB_COLUMNS then (case j of JStr s \<Rightarrow> from_text s | _ \<Rightarrow> Some j)
      else if k \<in> lit ` set TEXT_COLUMNS then (case j of JStr s \<Rightarrow> Some j | JNull \<Rightarrow> Some j | _ \<Rightarrow> None)
      else None)"

definition column_updates ::
  "(pystr \<Rightarrow> json option) \<Rightarrow> (pystr \<times> json) list \<Rightarrow> (pystr \<times> json) list option" where
  "column_updates from_text kwargs =
     those (map (\<lambda>(k, j). map_option (Pair k) (column_value from_text k j))
       (filter (\<lambda>(k, _). k \<in> lit ` set ALLOWED_COLUMNS) kwargs))"

definition set_columns :: "(pystr \<times> json) list \<Rightarrow> log_row \<Rightarrow> log_row" where
  "set_columns kvs l = l\<lparr>lg_columns := fold (\<lambda>(k, v). AList.update k v) kvs (lg_columns l)\<rparr>"

definition valid_new_status :: "pystr \<Rightarrow> bool" where
  "valid_new_status s =
     (strip s \<noteq> [] \<and> (case utf8_encode s of None \<Rightarrow> False | Some b \<Rightarrow> length b \<le> 64))"

definition update_status ::
  "(pystr \<Rightarrow> json option) \<Rightarrow> pystr \<Rightarrow> pystr option \<Rightarrow> (pystr \<times> json) list \<Rightarrow> unit tx" where
  "update_status from_text i status kwargs d =
     and_then (ensure (case status of None \<Rightarrow> True | Some s \<Rightarrow> valid_new_status s)
        (ArgumentError ''invalid_email_status'')) (\<lambda>_.
     and_then (ensure (case status of None \<Rightarrow> True | Some s \<Rightarrow> s \<notin> lit ` set CAS_ONLY_EMAIL_STATUSES)
        (ArgumentError ''status_requires_compare_and_set'')) (\<lambda>_.
     and_then (some_or SqlError (column_updates from_text kwargs)) (\<lambda>kvs.
       let (n, d) = (case status of
             None \<Rightarrow> update_log (\<lambda>l. lg_id l = i) (set_columns kvs) d
           | Some s \<Rightarrow>
               update_log (\<lambda>l. lg_id l = i \<and> (case lg_status l of None \<Rightarrow> False
                   | Some old \<Rightarrow> old \<notin> lit ` set CAS_ONLY_EMAIL_STATUSES))
                 (\<lambda>l. (set_columns kvs l)\<lparr>lg_status := Some s\<rparr>) d)
       in and_then (ensure (n = 1) (DbConflict ''email was not updated'')) (\<lambda>_. Inr ((), d)))))"

definition mark_as_processed :: "pystr \<Rightarrow> unit tx" where
  "mark_as_processed i d = update_status (\<lambda>_. None) i (Some (lit ''ingested'')) [] d"

section \<open>Compare and set\<close>

definition EMAIL_STATUS_CAS_TRANSITIONS :: "(string \<times> string) list" where
  "EMAIL_STATUS_CAS_TRANSITIONS =
     [(''waiting_approval'', ''approved''), (''waiting_approval'', ''rejected''),
      (''waiting_approval'', ''saving_draft''), (''approved'', ''sending''), (''sending'', ''sent''),
      (''saving_draft'', ''draft_saved'')]"

text \<open>\<^verbatim>\<open>expected\<close> is the one element of the frozenset the code requires.\<close>

definition compare_and_set_status :: "pystr \<Rightarrow> string \<Rightarrow> string \<Rightarrow> bool tx" where
  "compare_and_set_status i expected target d =
     and_then (ensure (strip i \<noteq> [] \<and> target \<noteq> []) (ArgumentError ''invalid_email_status_transition'')) (\<lambda>_.
     and_then (ensure ((expected, target) \<in> set EMAIL_STATUS_CAS_TRANSITIONS)
        (ArgumentError ''email_status_transition_not_allowed'')) (\<lambda>_.
       let (n, d) = update_log (\<lambda>l. lg_id l = i \<and> lg_status l = Some (lit expected)) (set_status target) d
       in Inr (n = 1, d)))"

definition bounded_code :: "nat \<Rightarrow> pystr \<Rightarrow> bool" where
  "bounded_code n code =
     (code \<noteq> [] \<and> (case utf8_encode code of None \<Rightarrow> False | Some b \<Rightarrow> length b \<le> n))"

definition set_failure :: "string \<Rightarrow> pystr \<Rightarrow> log_row \<Rightarrow> log_row" where
  "set_failure s code = set_status s \<circ> set_column ''error_message'' (JStr code)"

definition compare_and_set_manual_review :: "pystr \<Rightarrow> pystr list \<Rightarrow> pystr \<Rightarrow> bool tx" where
  "compare_and_set_manual_review i expected code d =
     and_then (ensure (strip i \<noteq> [] \<and> bounded_code 256 code)
        (ArgumentError ''invalid_manual_review_transition'')) (\<lambda>_.
       let (n, d) = update_log (\<lambda>l. lg_id l = i \<and> (case lg_status l of None \<Rightarrow> False
               | Some s \<Rightarrow> s \<in> set expected)) (set_failure ''manual_review'' code) d
       in Inr (n = 1, d))"

definition compare_and_set_send_unknown :: "pystr \<Rightarrow> pystr \<Rightarrow> bool tx" where
  "compare_and_set_send_unknown i code d =
     and_then (ensure (strip i \<noteq> [] \<and> bounded_code 256 code)
        (ArgumentError ''invalid_send_unknown_transition'')) (\<lambda>_.
       let (n, d) = update_log (\<lambda>l. lg_id l = i \<and> lg_status l = Some (lit ''sending''))
             (set_failure ''send_unknown'' code) d
       in Inr (n = 1, d))"

section \<open>\<^verbatim>\<open>approval_claim.py\<close>\<close>

definition MANUAL_REVIEW_CODES :: "string list" where
  "MANUAL_REVIEW_CODES =
     [''approval_handoff_failed'', ''approval_handoff_incomplete'', ''categorizer_input_too_large'',
      ''categorizer_model_failed'', ''content_guard_failed'', ''content_guard_rejected'',
      ''drafter_empty_response'', ''drafter_input_too_large'', ''drafter_model_failed'',
      ''draft_save_outcome_unknown'', ''durable_approval_required'', ''empty_draft'',
      ''feishu_delivery_outcome_unknown'', ''graph_rewrite_limit'', ''handoff_evidence_failed'',
      ''handoff_profile_failed'', ''invalid_classification'', ''recipient_resolution_failed'',
      ''reviewer_input_too_large'', ''reviewer_model_failed'', ''reviewer_rewrite_limit'',
      ''reviewer_schema_invalid'', ''router_input_too_large'', ''router_execution_failed'',
      ''router_model_failed'', ''router_skill_failed'', ''send_completion_unconfirmed'',
      ''send_outcome_unknown'', ''self_healing_interrupted'', ''startup_ambiguous_send'',
      ''startup_incomplete_approval'', ''summary_input_too_large'', ''summary_model_failed'']"

definition normalize_manual_review_code :: "json \<Rightarrow> pystr" where
  "normalize_manual_review_code j =
     (case j of
        JStr s \<Rightarrow> if s \<in> lit ` set MANUAL_REVIEW_CODES then s else lit ''invalid_classification''
      | _ \<Rightarrow> lit ''invalid_classification'')"

definition bounded_action_id :: "string \<Rightarrow> pystr \<Rightarrow> approval_error + pystr" where
  "bounded_action_id field s =
     and_then (ensure (strip s \<noteq> [] \<and> (case utf8_encode s of None \<Rightarrow> False | Some b \<Rightarrow> length b \<le> 512))
        (ArgumentError (''invalid_'' @ field))) (\<lambda>_. Inr s)"

definition cas_claim :: "pystr \<Rightarrow> string \<Rightarrow> string \<Rightarrow> bool tx" where
  "cas_claim i expected target d =
     and_then (bounded_action_id ''email_id'' i) (\<lambda>i. compare_and_set_status i expected target d)"

definition claim_approval :: "pystr \<Rightarrow> pystr \<Rightarrow> bool tx" where
  "claim_approval i user d =
     and_then (bounded_action_id ''email_id'' i) (\<lambda>i.
     and_then (bounded_action_id ''user_id'' user) (\<lambda>_.
       compare_and_set_status i ''waiting_approval'' ''approved'' d))"

definition claim_rejection :: "pystr \<Rightarrow> pystr \<Rightarrow> bool tx" where
  "claim_rejection i user d =
     and_then (bounded_action_id ''email_id'' i) (\<lambda>i.
     and_then (bounded_action_id ''user_id'' user) (\<lambda>_.
       compare_and_set_status i ''waiting_approval'' ''rejected'' d))"

definition claim_send :: "pystr \<Rightarrow> bool tx" where
  "claim_send i = cas_claim i ''approved'' ''sending''"

definition claim_draft_save :: "pystr \<Rightarrow> bool tx" where
  "claim_draft_save i = cas_claim i ''waiting_approval'' ''saving_draft''"

definition complete_send :: "pystr \<Rightarrow> bool tx" where
  "complete_send i = cas_claim i ''sending'' ''sent''"

definition complete_draft_save :: "pystr \<Rightarrow> bool tx" where
  "complete_draft_save i = cas_claim i ''saving_draft'' ''draft_saved''"

definition move_to_manual_review :: "pystr \<Rightarrow> pystr list \<Rightarrow> json \<Rightarrow> bool tx" where
  "move_to_manual_review i expected code d =
     and_then (bounded_action_id ''email_id'' i) (\<lambda>i.
       compare_and_set_manual_review i expected (normalize_manual_review_code code) d)"

definition mark_send_unknown :: "pystr \<Rightarrow> json \<Rightarrow> bool tx" where
  "mark_send_unknown i code d =
     and_then (bounded_action_id ''email_id'' i) (\<lambda>i.
       compare_and_set_send_unknown i (normalize_manual_review_code code) d)"

section \<open>Recovery at a restart\<close>

text \<open>Whether a durable approval stands behind an email in \<^verbatim>\<open>approved\<close>.\<close>

definition durably_approved :: "adb \<Rightarrow> log_row \<Rightarrow> bool" where
  "durably_approved d l =
     (\<exists>t\<in>set (a_decisions d). td_external_email_id t = lg_id l \<and>
        (\<exists>h\<in>set (a_runs d). h_inbox_id h = td_inbox_id t \<and> h_state h = HS_APPROVED \<and>
           (\<exists>v\<in>set (a_envelopes d). v_inbox_id v = h_inbox_id h
              \<and> h_payload_revision h = Some (v_payload_revision v))))"

definition incomplete_email :: "adb \<Rightarrow> log_row \<Rightarrow> bool" where
  "incomplete_email d l =
     (case lg_status l of
        None \<Rightarrow> False
      | Some s \<Rightarrow> s \<in> lit ` {''approved'', ''sending'', ''saving_draft'', ''recovering''}
          \<and> (s \<noteq> lit ''approved'' \<or> \<not> durably_approved d l))"

definition recovery_code :: "pystr \<Rightarrow> string" where
  "recovery_code s =
     (if s = lit ''approved'' then ''approval_handoff_incomplete''
      else if s = lit ''sending'' then ''send_outcome_unknown''
      else if s = lit ''saving_draft'' then ''draft_save_outcome_unknown'' else ''self_healing_interrupted'')"

definition close_incomplete :: "log_row \<Rightarrow> log_row" where
  "close_incomplete l =
     (case lg_status l of
        None \<Rightarrow> l
      | Some s \<Rightarrow> set_failure (if s = lit ''sending'' then ''send_unknown'' else ''manual_review'')
          (lit (recovery_code s)) l)"

definition recover_incomplete_approval_states :: "nat tx" where
  "recover_incomplete_approval_states d = Inr (update_log (incomplete_email d) close_incomplete d)"

text \<open>
  \<^verbatim>\<open>recover_durable_handoff_states\<close>: the inconsistent runs of the snapshot, each with its email id;
  both updates read that list. When several runs share one email the row that wins the
  \<^verbatim>\<open>UPDATE ... FROM\<close> is the database's choice: \<open>order\<close> is the order in which it joins them.
\<close>

definition inconsistent_run :: "adb \<Rightarrow> run_row \<Rightarrow> bool" where
  "inconsistent_run d h =
     (case email_of (h_inbox_id h) d of
        None \<Rightarrow> False
      | Some l \<Rightarrow>
          (h_state h = HS_APPROVED
             \<and> ((\<forall>v\<in>set (a_envelopes d). v_inbox_id v = h_inbox_id h
                   \<longrightarrow> h_payload_revision h \<noteq> Some (v_payload_revision v))
                \<or> (lg_status l \<noteq> None \<and> lg_status l \<noteq> Some (lit ''approved''))))
          \<or> h_state h = HS_EXECUTING \<or> h_state h = HS_DRAFT_SAVING
          \<or> lg_status l = Some (lit ''sending'') \<or> lg_status l = Some (lit ''saving_draft''))"

definition close_run :: "run_row \<Rightarrow> run_row" where
  "close_run h = h\<lparr>h_state := if h_state h = HS_EXECUTING then HS_FAILED else HS_MANUAL_REVIEW\<rparr>"

definition close_email :: "handoff_state \<Rightarrow> log_row \<Rightarrow> log_row" where
  "close_email s l =
     (let sending = s = HS_EXECUTING \<or> lg_status l = Some (lit ''sending'')
      in set_failure (if sending then ''send_unknown'' else ''manual_review'')
           (lit (if sending then ''send_outcome_unknown''
                 else if s = HS_DRAFT_SAVING \<or> lg_status l = Some (lit ''saving_draft'')
                 then ''draft_save_outcome_unknown'' else ''approval_handoff_incomplete'')) l)"

definition run_email_is :: "adb \<Rightarrow> log_row \<Rightarrow> run_row \<Rightarrow> bool" where
  "run_email_is d l h =
     (case decision_of (h_inbox_id h) d of None \<Rightarrow> False | Some t \<Rightarrow> td_external_email_id t = lg_id l)"

definition winning_run :: "(run_row list \<Rightarrow> run_row list) \<Rightarrow> adb \<Rightarrow> log_row \<Rightarrow> run_row option" where
  "winning_run order d l = select_one (run_email_is d l) (order (filter (inconsistent_run d) (a_runs d)))"

definition recover_durable_handoff_states :: "(run_row list \<Rightarrow> run_row list) \<Rightarrow> nat tx" where
  "recover_durable_handoff_states order d =
     (let (_, d') = update_runs (inconsistent_run d) close_run d
      in Inr (update_log (\<lambda>l. winning_run order d l \<noteq> None)
               (\<lambda>l. case winning_run order d l of None \<Rightarrow> l | Some h \<Rightarrow> close_email (h_state h) l) d'))"

section \<open>\<^verbatim>\<open>handoff_executions\<close>\<close>

definition HANDOFF_TRANSITIONS :: "(execution_state \<times> execution_state) list" where
  "HANDOFF_TRANSITIONS =
     [(XS_PLANNED, XS_EFFECT_COMMITTED), (XS_PLANNED, XS_COMPLETED), (XS_PLANNED, XS_FAILED),
      (XS_EFFECT_COMMITTED, XS_COMPLETED), (XS_EFFECT_COMMITTED, XS_FAILED)]"

definition advance_handoff_execution ::
  "pystr \<Rightarrow> execution_state \<Rightarrow> execution_state \<Rightarrow> pystr option \<Rightarrow> unit tx" where
  "advance_handoff_execution x expected target code d =
     and_then (ensure ((expected, target) \<in> set HANDOFF_TRANSITIONS)
        (ArgumentError ''invalid_handoff_transition'')) (\<lambda>_.
     and_then (ensure (case code of None \<Rightarrow> True | Some c \<Rightarrow> bounded_code 128 c)
        (ArgumentError ''invalid_handoff_error_code'')) (\<lambda>_.
     and_then (ensure (case code of None \<Rightarrow> True | Some c \<Rightarrow> \<exists>ch\<in>set c. ch \<noteq> 32) SqlError) (\<lambda>_.
       let hit = (\<lambda>r. x_inbox r = x \<and> x_state r = expected)
       in and_then (ensure (length (filter hit (a_executions d)) = 1)
            (DbConflict ''handoff state conflict'')) (\<lambda>_.
            Inr ((), d\<lparr>a_executions := sql_update hit
              (\<lambda>r. r\<lparr>x_state := target, x_error := code, x_version := x_version r + 1\<rparr>)
              (a_executions d)\<rparr>)))))"

end
