(* ===== verification/ApprovalMachine.thy ===== *)
theory ApprovalMachine
  imports ApprovalStatus "HOL-Library.Sublist"
begin

text \<open>
  The durable approval as a transition system: every transaction of the database manager, called
  with any arguments, is one step. A run of a handoff moves along the edges of one state machine
  and its version counts its changes; payload revisions and envelopes are only appended.
\<close>

section \<open>Recording the route decision\<close>

text \<open>
  The part of \<^verbatim>\<open>persist_route_decision\<close> on these tables; \<open>authority\<close> is whether the fenced query for
  the processing attempt found its row, \<open>fits\<close> whether the stored JSON stays within the size the
  table allows.
\<close>

definition decision_row_ok :: "(json \<Rightarrow> bool) \<Rightarrow> tier_decision_row \<Rightarrow> bool" where
  "decision_row_ok fits t =
     (0 < td_account_id t \<and> is_sha256_hex (td_decision_digest t)
      \<and> (\<exists>c\<in>set (td_external_email_id t). c \<noteq> 32) \<and> length (td_external_email_id t) \<le> 1024
      \<and> fits (td_decision_json t))"

definition insert_decision :: "tier_decision_row \<Rightarrow> adb \<Rightarrow> adb" where
  "insert_decision t d =
     (if decision_of (td_inbox_id t) d = None then d\<lparr>a_decisions := a_decisions d @ [t]\<rparr> else d)"

definition execution_of :: "pystr \<Rightarrow> adb \<Rightarrow> execution_row option" where
  "execution_of x d = select_one (\<lambda>r. x_inbox r = x) (a_executions d)"

definition insert_execution :: "pystr \<Rightarrow> pystr \<Rightarrow> adb \<Rightarrow> adb" where
  "insert_execution x digest d =
     (if execution_of x d = None
      then d\<lparr>a_executions := a_executions d @ [\<lparr>x_inbox = x, x_decision_digest = digest,
             x_state = XS_PLANNED, x_error = None, x_version = 0\<rparr>]\<rparr>
      else d)"

definition persist_route_decision :: "gate_env \<Rightarrow> (json \<Rightarrow> bool) \<Rightarrow> bool \<Rightarrow> pystr \<Rightarrow> int \<Rightarrow> pystr \<Rightarrow> json
    \<Rightarrow> route_decision tx" where
  "persist_route_decision env fits authority x account email raw d =
     (case read_decision (ge_router env) (ge_float env) raw of
        Inl _ \<Rightarrow> Inl (DbConflict ''route decision is invalid'')
      | Inr decision \<Rightarrow>
          let digest = canonical_digest (ge_router env) decision;
              row = \<lparr>td_inbox_id = x, td_account_id = account, td_external_email_id = email,
                td_decision_digest = digest, td_decision_json = dump_decision decision\<rparr>
          in and_then (ensure authority (DbConflict ''route authority is stale'')) (\<lambda>_.
             and_then (ensure (decision_row_ok fits row)
                (DbConflict ''route decision persistence failed'')) (\<lambda>_.
               let d = insert_decision row d
               in and_then (ensure (case decision_of x d of None \<Rightarrow> False
                     | Some t \<Rightarrow> td_decision_digest t = digest
                         \<and> py_equal (td_decision_json t) (dump_decision decision))
                     (DbConflict ''immutable route decision conflict'')) (\<lambda>_.
                  let d = insert_execution x digest d
                  in and_then (ensure (map_option x_decision_digest (execution_of x d) = Some digest)
                        (DbConflict ''handoff decision conflict'')) (\<lambda>_.
                     Inr (decision, d))))))"

definition get_route_decision_diagnostic ::
  "gate_env \<Rightarrow> pystr \<Rightarrow> adb \<Rightarrow> approval_error + route_decision option" where
  "get_route_decision_diagnostic env x d =
     (case decision_of x d of
        None \<Rightarrow> Inr None
      | Some t \<Rightarrow> and_then (lift_error DecisionRefused
          (read_decision (ge_router env) (ge_float env) (td_decision_json t))) (\<lambda>r. Inr (Some r)))"

section \<open>The handoff state machine\<close>

text \<open>The abstract machine of one run. A recovery may close any run as \<^verbatim>\<open>manual_review\<close>.\<close>

fun handoff_edge :: "handoff_state \<Rightarrow> handoff_state \<Rightarrow> bool" where
  "handoff_edge _ HS_MANUAL_REVIEW = True"
| "handoff_edge HS_PLANNED t = (t = HS_EVIDENCE_READY)"
| "handoff_edge HS_EVIDENCE_READY t = (t = HS_APPROVAL_PENDING)"
| "handoff_edge HS_APPROVAL_PENDING t =
     (t \<in> {HS_APPROVAL_PENDING, HS_APPROVED, HS_REJECTED, HS_DRAFT_SAVING})"
| "handoff_edge HS_APPROVED t = (t = HS_EXECUTING)"
| "handoff_edge HS_DRAFT_SAVING t = (t = HS_DRAFT_SAVED)"
| "handoff_edge HS_EXECUTING t = (t \<in> {HS_COMPLETED, HS_FAILED})"
| "handoff_edge _ _ = False"

text \<open>
  One change of a run: one version up, along an edge. The digests of decision and plan never
  change, the evidence only with the step that supplies it, the payload revision only by one and
  only towards \<^verbatim>\<open>approval_pending\<close>, and the claim id is written once, by the step into
  \<^verbatim>\<open>executing\<close>.
\<close>

definition run_change :: "run_row \<Rightarrow> run_row \<Rightarrow> bool" where
  "run_change h h' =
     (h_inbox_id h' = h_inbox_id h \<and> h_version h' = h_version h + 1
      \<and> handoff_edge (h_state h) (h_state h')
      \<and> h_decision_digest h' = h_decision_digest h \<and> h_plan_digest h' = h_plan_digest h
      \<and> h_plan_json h' = h_plan_json h
      \<and> (h_state h' = HS_EVIDENCE_READY
         \<or> h_evidence_json h' = h_evidence_json h \<and> h_evidence_digest h' = h_evidence_digest h)
      \<and> (h_payload_revision h' = h_payload_revision h
         \<or> h_state h' = HS_APPROVAL_PENDING
           \<and> h_payload_revision h' = Some ((case h_payload_revision h of None \<Rightarrow> 0 | Some n \<Rightarrow> n) + 1))
      \<and> (h_execution_claim_id h' = h_execution_claim_id h
         \<or> h_state h = HS_APPROVED \<and> h_state h' = HS_EXECUTING
           \<and> h_execution_claim_id h = None \<and> h_execution_claim_id h' \<noteq> None))"

fun handoff_step :: "run_row option \<Rightarrow> run_row option \<Rightarrow> bool" where
  "handoff_step None None = True"
| "handoff_step None (Some h) =
     (h_state h = HS_PLANNED \<and> h_version h = 0 \<and> h_payload_revision h = None \<and> h_execution_claim_id h = None)"
| "handoff_step (Some h) None = False"
| "handoff_step (Some h) (Some h') = (h' = h \<or> run_change h h')"

lemma handoff_step_same [simp]: "handoff_step r r"
  by (cases r) simp_all

section \<open>Steps\<close>

inductive adb_step :: "gate_env \<Rightarrow> adb \<Rightarrow> adb \<Rightarrow> bool" for env where
  "persist_route_decision env fits authority x account email raw d = Inr (r, d') \<Longrightarrow> adb_step env d d'"
| "persist_handoff_plan (ge_router env) x digest plan d = Inr (h, d') \<Longrightarrow> adb_step env d d'"
| "persist_handoff_evidence (ge_router env) x v pack d = Inr (b, d') \<Longrightarrow> adb_step env d d'"
| "transition_handoff_manual_review x v d = Inr (b, d') \<Longrightarrow> adb_step env d d'"
| "create_payload_revision (ge_router env) x v shown shown_digest payload d = Inr (n, d') \<Longrightarrow> adb_step env d d'"
| "approve_payload_revision env x n v digest approver approved_at d = Inr (c, d') \<Longrightarrow> adb_step env d d'"
| "reject_payload_revision x n digest v approver reason d = Inr (b, d') \<Longrightarrow> adb_step env d d'"
| "claim_payload_draft_save x n digest v d = Inr (p, d') \<Longrightarrow> adb_step env d d'"
| "complete_payload_draft_save x v d = Inr (b, d') \<Longrightarrow> adb_step env d d'"
| "fail_payload_draft_save x v code d = Inr (b, d') \<Longrightarrow> adb_step env d d'"
| "claim_execution x n v claim_id d = Inr (b, d') \<Longrightarrow> adb_step env d d'"
| "complete_execution x v sent d = Inr (b, d') \<Longrightarrow> adb_step env d d'"
| "advance_handoff_execution x s t code d = Inr (u, d') \<Longrightarrow> adb_step env d d'"
| "log_initial_email i subject sender received d = Inr (b, d') \<Longrightarrow> adb_step env d d'"
| "save_draft y content d = Inr (z, d') \<Longrightarrow> adb_step env d d'"
| "save_draft_if_status y content d = Inr (b, d') \<Longrightarrow> adb_step env d d'"
| "update_status from_text y status kwargs d = Inr (u, d') \<Longrightarrow> adb_step env d d'"
| "compare_and_set_status y expected target d = Inr (b, d') \<Longrightarrow> adb_step env d d'"
| "compare_and_set_manual_review y expecteds code d = Inr (b, d') \<Longrightarrow> adb_step env d d'"
| "compare_and_set_send_unknown y code d = Inr (b, d') \<Longrightarrow> adb_step env d d'"
| "recover_incomplete_approval_states d = Inr (m, d') \<Longrightarrow> adb_step env d d'"
| "recover_durable_handoff_states order d = Inr (m, d') \<Longrightarrow> adb_step env d d'"

section \<open>What an update keeps\<close>

lemma update_runs_simps [simp]:
  "a_log (snd (update_runs p f d)) = a_log d"
  "a_decisions (snd (update_runs p f d)) = a_decisions d"
  "a_payloads (snd (update_runs p f d)) = a_payloads d"
  "a_envelopes (snd (update_runs p f d)) = a_envelopes d"
  "fst (update_runs p f d) = length (filter p (a_runs d))"
  by (simp_all add: update_runs_def)

lemma update_log_simps [simp]:
  "a_runs (snd (update_log p f d)) = a_runs d"
  "a_decisions (snd (update_log p f d)) = a_decisions d"
  "a_payloads (snd (update_log p f d)) = a_payloads d"
  "a_envelopes (snd (update_log p f d)) = a_envelopes d"
  "fst (update_log p f d) = length (filter p (a_log d))"
  by (simp_all add: update_log_def)

lemma run_of_same: "a_runs d' = a_runs d \<Longrightarrow> run_of x d' = run_of x d"
  by (simp add: run_of_def)

lemma update_runs_rows:
  "a_runs (snd (update_runs p f d)) = sql_update p (\<lambda>h. (f h)\<lparr>h_version := h_version h + 1\<rparr>) (a_runs d)"
  by (simp add: update_runs_def)

text \<open>A run after an update that changes each run it selects along the machine.\<close>

lemma run_of_update:
  assumes "\<And>h. h_inbox_id (f h) = h_inbox_id h"
  shows "run_of x (snd (update_runs p f d)) =
    map_option (\<lambda>h. if p h then (f h)\<lparr>h_version := h_version h + 1\<rparr> else h) (run_of x d)"
proof -
  let ?f = "\<lambda>h. (f h)\<lparr>h_version := h_version h + 1\<rparr>"
  have "select_one (\<lambda>h. h_inbox_id h = x) (sql_update p ?f (a_runs d)) =
      map_option (\<lambda>h. if p h then ?f h else h) (select_one (\<lambda>h. h_inbox_id h = x) (a_runs d))"
    by (rule select_one_sql_update) (simp add: assms)
  then show ?thesis by (simp only: run_of_def update_runs_rows)
qed

definition advances :: "(run_row \<Rightarrow> bool) \<Rightarrow> (run_row \<Rightarrow> run_row) \<Rightarrow> bool" where
  "advances p f \<longleftrightarrow>
     (\<forall>h. h_inbox_id (f h) = h_inbox_id h \<and> (p h \<longrightarrow> run_change h ((f h)\<lparr>h_version := h_version h + 1\<rparr>)))"

lemma update_runs_handoff:
  assumes "advances p f"
  shows "handoff_step (run_of x d) (run_of x (snd (update_runs p f d)))"
proof -
  have inbox: "\<And>h. h_inbox_id (f h) = h_inbox_id h"
    and change: "\<And>h. p h \<Longrightarrow> run_change h ((f h)\<lparr>h_version := h_version h + 1\<rparr>)"
    using assms by (simp_all only: advances_def)
  show ?thesis
    by (cases "run_of x d"; simp only: run_of_update [of f, OF inbox] option.map handoff_step.simps
        split: if_split; blast intro: change)
qed

text \<open>A change of state alone advances a run when the state has the edge.\<close>

lemma advances_state:
  assumes "\<And>h. p h \<Longrightarrow> handoff_edge (h_state h) (s h)"
    and "\<And>h. p h \<Longrightarrow> h_state h = HS_PLANNED \<Longrightarrow> s h \<noteq> HS_EVIDENCE_READY"
  shows "advances p (\<lambda>h. h\<lparr>h_state := s h\<rparr>)"
  using assms by (simp add: advances_def run_change_def)

lemmas advances_at = advances_state [where s = "\<lambda>_. s" for s]

text \<open>
  \<open>quiet\<close>: a change that leaves every run alone and only appends to the immutable tables.
  \<open>moves\<close>: at most one change of each run, along the machine.
\<close>

definition appends :: "adb \<Rightarrow> adb \<Rightarrow> bool" where
  "appends d d' \<longleftrightarrow>
     prefix (a_payloads d) (a_payloads d') \<and> prefix (a_envelopes d) (a_envelopes d')
     \<and> prefix (a_decisions d) (a_decisions d')"

definition quiet :: "adb \<Rightarrow> adb \<Rightarrow> bool" where
  "quiet d d' \<longleftrightarrow> a_runs d' = a_runs d \<and> appends d d'"

definition run_keys_distinct :: "adb \<Rightarrow> bool" where
  "run_keys_distinct d = distinct (map h_inbox_id (a_runs d))"

definition moves :: "adb \<Rightarrow> adb \<Rightarrow> bool" where
  "moves d d' \<longleftrightarrow>
     (\<forall>x. handoff_step (run_of x d) (run_of x d')) \<and> appends d d'
     \<and> (run_keys_distinct d \<longrightarrow> run_keys_distinct d')"

lemma quiet_refl [simp]: "quiet d d"
  by (simp add: quiet_def appends_def)

lemma quiet_log [simp]: "quiet d (snd (update_log p f d))"
  by (simp add: quiet_def appends_def)

lemma quiet_appends [simp]:
  "quiet d (d\<lparr>a_envelopes := a_envelopes d @ vs\<rparr>)"
  "quiet d (d\<lparr>a_payloads := a_payloads d @ ps\<rparr>)"
  "quiet d (d\<lparr>a_decisions := a_decisions d @ ts\<rparr>)"
  "quiet d (d\<lparr>a_log := ls\<rparr>)"
  "quiet d (d\<lparr>a_executions := es\<rparr>)"
  by (simp_all add: quiet_def appends_def)

lemma appends_trans: "appends d e \<Longrightarrow> appends e f \<Longrightarrow> appends d f"
  by (auto simp: appends_def intro: prefix_order.trans)

lemma quiet_trans: "quiet d e \<Longrightarrow> quiet e f \<Longrightarrow> quiet d f"
  by (auto simp: quiet_def intro: appends_trans)

lemma moves_quiet: "quiet d d' \<Longrightarrow> moves d d'"
  by (simp add: moves_def quiet_def run_keys_distinct_def run_of_def)

lemma quiet_moves_quiet:
  assumes "quiet d e" "moves e f" "quiet f g"
  shows "moves d g"
proof -
  have "appends d g" using assms by (auto simp: quiet_def moves_def intro: appends_trans)
  with assms show ?thesis by (simp add: moves_def quiet_def run_keys_distinct_def run_of_def)
qed

lemma moves_update:
  assumes "advances p f"
  shows "moves d (snd (update_runs p f d))"
proof -
  have "map h_inbox_id (a_runs (snd (update_runs p f d))) = map h_inbox_id (a_runs d)"
    unfolding update_runs_rows
    by (rule sql_update_keeps_key) (use assms in \<open>simp add: advances_def\<close>)
  then show ?thesis
    using update_runs_handoff [OF assms] by (simp add: moves_def appends_def run_keys_distinct_def)
qed

section \<open>Every transaction moves runs along the machine\<close>

lemmas tx_unfold = Let_def case_prod_beta

lemma insert_decision_quiet [simp]: "quiet d (insert_decision t d)"
  by (simp add: insert_decision_def)

lemma insert_execution_quiet [simp]: "quiet d (insert_execution x digest d)"
  by (simp add: insert_execution_def)

lemma persist_route_decision_quiet:
  "persist_route_decision env fits authority x account email raw d = Inr (r, d') \<Longrightarrow> quiet d d'"
  unfolding persist_route_decision_def tx_unfold
  by (auto simp: and_then_Inr split: sum.splits
      intro: quiet_trans [OF insert_decision_quiet insert_execution_quiet])

lemma persist_handoff_evidence_moves:
  "persist_handoff_evidence env x v pack d = Inr (b, d') \<Longrightarrow> moves d d'"
  unfolding persist_handoff_evidence_def tx_unfold
  by (auto split: if_splits intro!: moves_update simp: advances_def run_change_def at_version_def)

lemma transition_handoff_manual_review_moves:
  "transition_handoff_manual_review x v d = Inr (b, d') \<Longrightarrow> moves d d'"
  unfolding transition_handoff_manual_review_def tx_unfold
  by (auto intro!: moves_update advances_at)

lemma leave_pending_moves:
  assumes "leave_pending x n digest v s f c1 c2 d = Inr (row, d')" "handoff_edge HS_APPROVAL_PENDING s"
    "s \<noteq> HS_EVIDENCE_READY"
  shows "moves d d'"
proof -
  have "advances (pending_run x v n) (\<lambda>h. h\<lparr>h_state := s\<rparr>)"
    by (rule advances_at) (use assms(2,3) in \<open>simp_all add: pending_run_def at_version_def\<close>)
  then show ?thesis
    using assms(1) unfolding leave_pending_def tx_unfold
    by (auto simp: and_then_Inr moves_quiet split: option.splits
        intro: quiet_moves_quiet [OF quiet_refl moves_update quiet_log])
qed

lemma reject_payload_revision_moves:
  "reject_payload_revision x n digest v approver reason d = Inr (b, d') \<Longrightarrow> moves d d'"
  unfolding reject_payload_revision_def by (auto simp: and_then_Inr dest: leave_pending_moves)

lemma claim_payload_draft_save_moves:
  "claim_payload_draft_save x n digest v d = Inr (b, d') \<Longrightarrow> moves d d'"
  unfolding claim_payload_draft_save_def by (auto simp: and_then_Inr dest: leave_pending_moves)

lemma end_draft_save_moves:
  assumes "end_draft_save x v s f c d = Inr (b, d')" "s \<in> {HS_DRAFT_SAVED, HS_MANUAL_REVIEW}"
  shows "moves d d'"
proof -
  have "advances (at_version x v [HS_DRAFT_SAVING]) (\<lambda>h. h\<lparr>h_state := s\<rparr>)"
    by (rule advances_at) (use assms(2) in \<open>auto simp: at_version_def\<close>)
  then show ?thesis
    using assms(1) unfolding end_draft_save_def tx_unfold
    by (auto simp: and_then_Inr intro: quiet_moves_quiet [OF quiet_refl moves_update quiet_log]
        moves_update split: if_splits)
qed

lemma draft_save_moves:
  "complete_payload_draft_save x v d = Inr (b, d') \<Longrightarrow> moves d d'"
  "fail_payload_draft_save x v code d = Inr (b, d') \<Longrightarrow> moves d d'"
  unfolding complete_payload_draft_save_def fail_payload_draft_save_def
  by (auto dest: end_draft_save_moves)

lemma complete_execution_moves:
  assumes "complete_execution x v sent d = Inr (b, d')"
  shows "moves d d'"
proof -
  have "advances (at_version x v [HS_EXECUTING]) (\<lambda>h. h\<lparr>h_state := if sent then HS_COMPLETED else HS_FAILED\<rparr>)"
    by (rule advances_at) (auto simp: at_version_def)
  then show ?thesis
    using assms unfolding complete_execution_def tx_unfold
    by (auto simp: and_then_Inr intro: quiet_moves_quiet [OF quiet_refl moves_update quiet_log]
        moves_update split: if_splits)
qed

lemma claim_execution_moves:
  assumes "claim_execution x n v claim_id d = Inr (b, d')"
  shows "moves d d'"
proof -
  have "advances (claimable_run x n v e) (\<lambda>h. h\<lparr>h_state := HS_EXECUTING, h_execution_claim_id := Some claim_id\<rparr>)" for e
    by (simp add: advances_def run_change_def claimable_run_def at_version_def)
  then show ?thesis
    using assms unfolding claim_execution_def tx_unfold
    by (auto simp: and_then_Inr moves_quiet
        intro: quiet_moves_quiet [OF quiet_log moves_update quiet_refl] split: if_splits)
qed

lemma one_match:
  "length (filter p xs) = 1 \<Longrightarrow> y \<in> set xs \<Longrightarrow> p y \<Longrightarrow> z \<in> set xs \<Longrightarrow> p z \<Longrightarrow> z = y"
proof -
  assume "length (filter p xs) = 1" "y \<in> set xs" "p y" "z \<in> set xs" "p z"
  moreover from this obtain w where w: "filter p xs = [w]" by (cases "filter p xs") auto
  ultimately have "y \<in> set [w]" "z \<in> set [w]" unfolding w [symmetric] by simp_all
  then show "z = y" by simp
qed

lemma update_runs_cong:
  assumes "\<And>r. r \<in> set (a_runs d) \<Longrightarrow> p r \<longleftrightarrow> q r"
  shows "update_runs p f d = update_runs q f d"
proof -
  have "filter p (a_runs d) = filter q (a_runs d)" by (rule filter_cong) (simp_all add: assms)
  moreover have "sql_update p g (a_runs d) = sql_update q g (a_runs d)" for g
    unfolding sql_update_def by (rule map_cong) (simp_all add: assms)
  ultimately show ?thesis by (simp add: update_runs_def)
qed

lemma create_payload_revision_moves:
  assumes "create_payload_revision env x v shown shown_digest payload d = Inr (n, d')"
  shows "moves d d'"
proof -
  from assms obtain h expected digest replay where
    h: "select_one (at_version x v [HS_EVIDENCE_READY, HS_APPROVAL_PENDING]) (a_runs d) = Some h" and
    body: "(case replay of Some m \<Rightarrow> Inr (m, d)
      | None \<Rightarrow> and_then (ensure (edit_binds x h expected d) (DbConflict ''stale payload edit'')) (\<lambda>_.
          append_payload_revision x v h digest payload d)) = Inr (n, d')"
    unfolding create_payload_revision_def Let_def
    by (elim and_thenE) (drule some_or_Inr [THEN iffD1], rule that, assumption, assumption)
  show ?thesis
  proof (cases replay)
    case (Some m)
    then show ?thesis using body by (simp add: moves_quiet)
  next
    case None
    let ?m = "(case h_payload_revision h of None \<Rightarrow> 0 | Some n \<Rightarrow> n) + 1"
    let ?p = "\<lambda>h. h_inbox_id h = x \<and> h_version h = v"
    let ?f = "\<lambda>h. h\<lparr>h_payload_revision := Some ?m, h_state := HS_APPROVAL_PENDING\<rparr>"
    from body None obtain row where
      one: "length (filter ?p (a_runs d)) = 1" and
      d': "d' = snd (update_runs ?p ?f (d\<lparr>a_payloads := a_payloads d @ [row]\<rparr>))"
      unfolding append_payload_revision_def tx_unfold by (auto simp: and_then_Inr split: if_splits)
    have here: "h \<in> set (a_runs d)" "?p h" and state: "h_state h \<in> {HS_EVIDENCE_READY, HS_APPROVAL_PENDING}"
      using select_one_SomeD [OF h] by (simp_all add: at_version_def)
    have q: "?p r \<longleftrightarrow> r = h" if "r \<in> set (a_runs d)" for r
      using one_match [OF one here that] here(2) by blast
    have "d' = snd (update_runs (\<lambda>r. r = h) ?f (d\<lparr>a_payloads := a_payloads d @ [row]\<rparr>))"
      unfolding d' by (rule arg_cong [OF update_runs_cong]) (simp add: q)
    moreover have "advances (\<lambda>r. r = h) ?f"
      using state by (auto simp: advances_def run_change_def)
    ultimately show ?thesis
      by (auto intro: quiet_moves_quiet [OF quiet_appends(2) moves_update quiet_refl])
  qed
qed


lemma persist_handoff_plan_moves:
  assumes "persist_handoff_plan env x digest plan d = Inr (h, d')"
  shows "moves d d'"
proof (cases "run_of x d")
  case (Some g)
  then show ?thesis
    using assms by (auto simp: persist_handoff_plan_def Let_def and_then_Inr moves_quiet split: if_splits)
next
  case None
  from assms None obtain fresh where
    d': "d' = d\<lparr>a_runs := a_runs d @ [fresh]\<rparr>" and fresh: "h_inbox_id fresh = x" "h_state fresh = HS_PLANNED"
      "h_version fresh = 0" "h_payload_revision fresh = None" "h_execution_claim_id fresh = None"
    unfolding persist_handoff_plan_def Let_def
    by (auto simp: and_then_Inr split: if_splits option.splits)
  have x: "x \<notin> h_inbox_id ` set (a_runs d)"
    using None by (auto simp: run_of_def select_one_None)
  have "handoff_step (run_of y d) (run_of y d')" for y
    using fresh by (auto simp: d' run_of_def select_one_append split: option.split)
  with x fresh show ?thesis
    by (simp add: moves_def d' appends_def run_keys_distinct_def)
qed

lemma approve_payload_revision_cases:
  assumes "approve_payload_revision env x n v digest approver approved_at d = Inr (c, d')"
  obtains "d' = d" "approved_view x d \<noteq> []"
  | p t e where "approved_view x d = []" "pending_payload x n digest v d = Some (p, t)"
      "read_envelope env (proposed_envelope x n digest approver approved_at p t) = Inr e"
      "\<not> has_envelope x d"
      "c = \<lparr>cr_status = COMMIT_CREATED, cr_envelope = dump_envelope e,
            cr_digest = envelope_digest (ge_router env) e\<rparr>"
      "d' = snd (update_log (awaiting (td_external_email_id t)) (set_email_approved approver approved_at p)
              (snd (update_runs (pending_run x v n) (\<lambda>h. h\<lparr>h_state := HS_APPROVED\<rparr>)
                (d\<lparr>a_envelopes := a_envelopes d @ [envelope_row_of (ge_router env) e p approved_at]\<rparr>))))"
      "length (filter (pending_run x v n) (a_runs d)) = 1"
      "length (filter (awaiting (td_external_email_id t)) (a_log d)) = 1"
proof (cases "approved_view x d")
  case (Cons a l)
  then show ?thesis
    using assms that(1) by (auto simp: approve_payload_revision_def and_then_Inr)
next
  case Nil
  from assms Nil obtain p t e where
    "pending_payload x n digest v d = Some (p, t)"
    "lift_error ModelRefused (read_envelope env (proposed_envelope x n digest approver approved_at p t)) = Inr e"
    "\<not> has_envelope x d" and
    rest: "c = \<lparr>cr_status = COMMIT_CREATED, cr_envelope = dump_envelope e,
            cr_digest = envelope_digest (ge_router env) e\<rparr>"
      "d' = snd (update_log (awaiting (td_external_email_id t)) (set_email_approved approver approved_at p)
              (snd (update_runs (pending_run x v n) (\<lambda>h. h\<lparr>h_state := HS_APPROVED\<rparr>)
                (d\<lparr>a_envelopes := a_envelopes d @ [envelope_row_of (ge_router env) e p approved_at]\<rparr>))))"
      "length (filter (pending_run x v n) (a_runs d)) = 1"
      "length (filter (awaiting (td_external_email_id t)) (a_log d)) = 1"
    unfolding approve_payload_revision_def Nil tx_unfold list.case
    by (elim and_thenE) (auto elim!: and_thenE)
  moreover from this(2) have
    "read_envelope env (proposed_envelope x n digest approver approved_at p t) = Inr e"
    by (auto simp: lift_error_def split: sum.splits)
  ultimately show ?thesis using that(2) Nil by blast
qed

lemma approve_payload_revision_moves:
  assumes "approve_payload_revision env x n v digest approver approved_at d = Inr (c, d')"
  shows "moves d d'"
proof -
  have a: "advances (pending_run x v n) (\<lambda>h. h\<lparr>h_state := HS_APPROVED\<rparr>)"
    by (rule advances_at) (simp_all add: pending_run_def at_version_def)
  show ?thesis
    by (rule approve_payload_revision_cases [OF assms])
      (auto simp: moves_quiet intro: quiet_moves_quiet [OF quiet_appends(1) moves_update [OF a] quiet_log])
qed

lemma update_log_moves [simp]: "moves d (snd (update_log p f d))"
  by (simp add: moves_quiet)

lemma status_moves:
  "log_initial_email i subject sender received d = Inr (b, d') \<Longrightarrow> moves d d'"
  "save_draft y content d = Inr (z, d') \<Longrightarrow> moves d d'"
  "save_draft_if_status y content d = Inr (b, d') \<Longrightarrow> moves d d'"
  "compare_and_set_status y expected target d = Inr (b, d') \<Longrightarrow> moves d d'"
  "compare_and_set_manual_review y expecteds code d = Inr (b, d') \<Longrightarrow> moves d d'"
  "compare_and_set_send_unknown y code d = Inr (b, d') \<Longrightarrow> moves d d'"
  "recover_incomplete_approval_states d = Inr (m, d') \<Longrightarrow> moves d d'"
  "advance_handoff_execution x s t failure d = Inr (u, d') \<Longrightarrow> moves d d'"
  unfolding log_initial_email_def save_draft_def save_draft_if_status_def compare_and_set_status_def
    compare_and_set_manual_review_def compare_and_set_send_unknown_def
    recover_incomplete_approval_states_def advance_handoff_execution_def tx_unfold
  by (auto simp: and_then_Inr moves_quiet split: option.splits if_splits) (metis snd_conv update_log_moves)

lemma update_status_moves:
  "update_status from_text y status kwargs d = Inr (u, d') \<Longrightarrow> moves d d'"
  unfolding update_status_def tx_unfold
  by (auto simp: and_then_Inr split: option.splits)

lemma recover_durable_handoff_states_moves:
  "recover_durable_handoff_states order d = Inr (m, d') \<Longrightarrow> moves d d'"
proof -
  have a: "advances (inconsistent_run d) close_run"
    by (simp add: advances_def run_change_def close_run_def)
  assume "recover_durable_handoff_states order d = Inr (m, d')"
  then have "d' = snd (update_log (\<lambda>l. winning_run order d l \<noteq> None)
      (\<lambda>l. case winning_run order d l of None \<Rightarrow> l | Some h \<Rightarrow> close_email (h_state h) l)
      (snd (update_runs (inconsistent_run d) close_run d)))"
    unfolding recover_durable_handoff_states_def tx_unfold by (simp only: sum.inject snd_conv)
  then show "moves d d'" using quiet_moves_quiet [OF quiet_refl moves_update [OF a] quiet_log] by simp
qed

lemma adb_step_moves: "adb_step env d d' \<Longrightarrow> moves d d'"
  by (induction rule: adb_step.induct)
    (simp_all add: moves_quiet persist_route_decision_quiet persist_handoff_evidence_moves
      transition_handoff_manual_review_moves reject_payload_revision_moves claim_payload_draft_save_moves
      draft_save_moves complete_execution_moves claim_execution_moves create_payload_revision_moves
      persist_handoff_plan_moves approve_payload_revision_moves status_moves update_status_moves
      recover_durable_handoff_states_moves)

end
