(* ===== verification/ApprovalFreeze.thy ===== *)
theory ApprovalFreeze
  imports ApprovalMachine
begin

text \<open>
  What a committed approval froze: an envelope row is the dump of a valid envelope whose fields are
  those of the payload revision the approver confirmed, there is at most one for an inbox row, and
  reading it back gives the same envelope.
\<close>

section \<open>Reading back what was dumped\<close>

text \<open>Pydantic reads the values it dumps itself: booleans, integers, floats and its own ISO times.\<close>

definition gate_reads_back :: "gate_env \<Rightarrow> bool" where
  "gate_reads_back env \<longleftrightarrow>
     (\<forall>b. lax_bool (ge_router env) (JBool b) = Some b) \<and> (\<forall>q. ge_float env (JFloat q) = Some q)
     \<and> (\<forall>n. ge_int env (JInt n) = Some n)
     \<and> (\<forall>j s. ge_datetime env j = Some s \<longrightarrow> ge_datetime env (JStr s) = Some s)"

lemma opt_of_json_obj [simp]: "opt_of json_obj (json_opt JObj r) = Some r"
  by (cases r) (simp_all add: opt_of_def json_opt_def json_obj_def)

lemma json_arr_JArr [simp]: "json_arr (JArr xs) = Some xs"
  by (simp add: json_arr_def)

lemma literal_one_JInt [simp]: "literal_one (JInt 1) = Some ()"
  by (simp add: literal_one_def)

lemma fld_Some [simp]: "fld (Some x) = Inr x"
  by (simp add: fld_def)

lemma fld_Inr [simp]: "fld x = Inr y \<longleftrightarrow> x = Some y"
  by (simp add: fld_def)

lemma json_strs_SomeD: "json_strs js = Some xs \<Longrightarrow> js = map JStr xs"
  by (induction js arbitrary: xs rule: json_strs.induct) auto

lemma json_str_list_SomeD: "json_str_list j = Some xs \<Longrightarrow> j = json_texts xs"
  by (cases j) (auto simp: json_str_list_def json_texts_def dest: json_strs_SomeD)

lemma json_readers_SomeD:
  "json_str j = Some s \<Longrightarrow> j = JStr s"
  "json_arr j = Some xs \<Longrightarrow> j = JArr xs"
  "json_obj j = Some l \<Longrightarrow> j = JObj l"
  by (cases j; simp add: json_str_def json_arr_def json_obj_def)+

lemma opt_of_json_obj_SomeD: "opt_of json_obj j = Some r \<Longrightarrow> j = json_opt JObj r"
  by (auto simp: opt_of_def json_opt_def dest: json_readers_SomeD split: if_splits)

lemma json_opt_JStr_SomeD: "json_str (json_opt JStr x) = Some s \<Longrightarrow> x = Some s"
  by (cases x) (simp_all add: json_opt_def json_str_def)

text \<open>The keys of an envelope are read by position from its dump.\<close>

lemma read_dump_envelope:
  assumes "gate_reads_back env" "final_decision (ge_router env) (en_route_decision e)"
    and "ge_datetime env (JStr (en_approved_at e)) = Some (en_approved_at e)"
  shows "read_envelope env (dump_envelope e) = validate_envelope (ge_router env) e"
proof -
  have r: "read_decision (ge_router env) (ge_float env) (dump_decision (en_route_decision e))
      = Inr (en_route_decision e)"
    using assms(1) by (intro read_dump_decision assms(2)) (simp add: gate_reads_back_def)
  have p: "ge_int env (JInt n) = Some n" "lax_bool (ge_router env) (JBool b) = Some b" for n b
    using assms(1) by (simp_all add: gate_reads_back_def)
  show ?thesis
    unfolding read_envelope_def dump_envelope_def
    by (simp add: json_obj_def only_keys_def ENVELOPE_KEYS_def need_def field_or_def json_str_def
        lift_error_def r p assms(3)) (cases e, simp)
qed

text \<open>The envelope an approval proposes, read: its fields are those of the payload row.\<close>

definition freezes :: "envelope \<Rightarrow> payload_row \<Rightarrow> bool" where
  "freezes e p \<longleftrightarrow>
     en_payload_digest e = p_payload_digest p \<and> en_decision_digest e = p_decision_digest p
     \<and> en_plan_digest e = p_plan_digest p \<and> en_evidence_digest e = p_evidence_digest p
     \<and> en_draft_digest e = p_draft_digest p \<and> p_draft_content p = Some (en_draft_content e)
     \<and> p_draft_ref p = json_opt JObj (en_draft_ref e) \<and> p_to_recipients p = json_texts (en_to e)
     \<and> p_cc_recipients p = json_texts (en_cc e) \<and> p_attachment_refs p = JArr (en_attachment_refs e)
     \<and> p_attachment_digests p = json_texts (en_attachment_digests e)
     \<and> p_acknowledged p = en_acknowledged e"

lemma read_proposed_envelope:
  assumes "gate_reads_back env" "p_payload_digest p = digest"
    and "read_envelope env (proposed_envelope x n digest approver approved_at p t) = Inr e"
  shows "freezes e p" "en_inbox_id e = x" "en_payload_revision e = n" "en_approver e = approver"
    "en_account_id e = td_account_id t" "en_email_id e = td_external_email_id t"
    "read_decision (ge_router env) (ge_float env) (td_decision_json t) = Inr (en_route_decision e)"
    "ge_datetime env (JStr (en_approved_at e)) = Some (en_approved_at e)"
proof -
  have v: "validate_envelope env' f = Inr e \<Longrightarrow> f = e" for env' f
    using validate_envelope_same by blast
  have p: "ge_int env (JInt m) = Some m" "lax_bool (ge_router env) (JBool b) = Some b" for m b
    using assms(1) by (simp_all add: gate_reads_back_def)
  have all: "freezes e p \<and> en_inbox_id e = x \<and> en_payload_revision e = n \<and> en_approver e = approver
    \<and> en_account_id e = td_account_id t \<and> en_email_id e = td_external_email_id t
    \<and> read_decision (ge_router env) (ge_float env) (td_decision_json t) = Inr (en_route_decision e)
    \<and> ge_datetime env (JStr approved_at) = Some (en_approved_at e)"
    using assms(3) unfolding read_envelope_def proposed_envelope_def
    by (simp add: json_obj_def only_keys_def ENVELOPE_KEYS_def need_def field_or_def p and_then_Inr lift_error_def)
      (auto dest!: v json_readers_SomeD json_str_list_SomeD opt_of_json_obj_SomeD json_opt_JStr_SomeD
        simp: freezes_def assms(2))
  then show "freezes e p" "en_inbox_id e = x" "en_payload_revision e = n" "en_approver e = approver"
    "en_account_id e = td_account_id t" "en_email_id e = td_external_email_id t"
    "read_decision (ge_router env) (ge_float env) (td_decision_json t) = Inr (en_route_decision e)"
    "ge_datetime env (JStr (en_approved_at e)) = Some (en_approved_at e)"
    using assms(1) by (auto simp: gate_reads_back_def)
qed

section \<open>The frozen artifacts\<close>

definition artifacts :: "adb \<Rightarrow> payload_row list \<times> envelope_row list" where
  "artifacts d = (a_payloads d, a_envelopes d)"

lemma artifacts_updates [simp]:
  "artifacts (snd (update_runs p f d)) = artifacts d"
  "artifacts (snd (update_log q g d)) = artifacts d"
  "artifacts (insert_decision t d) = artifacts d"
  "artifacts (insert_execution x digest d) = artifacts d"
  "artifacts (d\<lparr>a_runs := rs\<rparr>) = artifacts d"
  "artifacts (d\<lparr>a_log := ls\<rparr>) = artifacts d"
  "artifacts (d\<lparr>a_executions := es\<rparr>) = artifacts d"
  by (simp_all add: artifacts_def insert_decision_def insert_execution_def)

lemma artifacts_plan:
  "persist_route_decision env fits authority x account email raw d = Inr (r, d') \<Longrightarrow> artifacts d' = artifacts d"
  "persist_handoff_plan R x digest plan d = Inr (h, d') \<Longrightarrow> artifacts d' = artifacts d"
  "persist_handoff_evidence R x v pack d = Inr (b, d') \<Longrightarrow> artifacts d' = artifacts d"
  "transition_handoff_manual_review x v d = Inr (b, d') \<Longrightarrow> artifacts d' = artifacts d"
proof -
  show "persist_route_decision env fits authority x account email raw d = Inr (r, d') \<Longrightarrow> artifacts d' = artifacts d"
    unfolding persist_route_decision_def tx_unfold by (auto simp: and_then_Inr split: sum.splits)
  show "artifacts d' = artifacts d" if "persist_handoff_plan R x digest plan d = Inr (h, d')"
  proof (cases "run_of x d")
    case (Some g)
    then show ?thesis using that
      by (auto simp: persist_handoff_plan_def Let_def and_then_Inr split: if_splits)
  next
    case None
    from that None obtain fresh where "d' = d\<lparr>a_runs := a_runs d @ [fresh]\<rparr>"
      unfolding persist_handoff_plan_def Let_def by (auto simp: and_then_Inr split: if_splits option.splits)
    then show ?thesis by simp
  qed
  show "persist_handoff_evidence R x v pack d = Inr (b, d') \<Longrightarrow> artifacts d' = artifacts d"
    unfolding persist_handoff_evidence_def tx_unfold by (auto split: if_splits)
  show "transition_handoff_manual_review x v d = Inr (b, d') \<Longrightarrow> artifacts d' = artifacts d"
    unfolding transition_handoff_manual_review_def tx_unfold by auto
qed

lemma leave_pending_artifacts:
  "leave_pending x n digest v s f c1 c2 d = Inr (row, d') \<Longrightarrow> artifacts d' = artifacts d"
  unfolding leave_pending_def tx_unfold by (auto simp: and_then_Inr split: option.splits)

lemma end_draft_save_artifacts: "end_draft_save x v s f c d = Inr (b, d') \<Longrightarrow> artifacts d' = artifacts d"
  unfolding end_draft_save_def tx_unfold by (auto simp: and_then_Inr split: if_splits)

lemma artifacts_cards:
  "reject_payload_revision x n digest v approver reason d = Inr (b, d') \<Longrightarrow> artifacts d' = artifacts d"
  "claim_payload_draft_save x n digest v d = Inr (p, d') \<Longrightarrow> artifacts d' = artifacts d"
  "complete_payload_draft_save x v d = Inr (b, d') \<Longrightarrow> artifacts d' = artifacts d"
  "fail_payload_draft_save x v failure d = Inr (b, d') \<Longrightarrow> artifacts d' = artifacts d"
  unfolding reject_payload_revision_def claim_payload_draft_save_def complete_payload_draft_save_def
    fail_payload_draft_save_def
  by (auto simp: and_then_Inr dest: leave_pending_artifacts end_draft_save_artifacts)

lemma artifacts_execution:
  "claim_execution x n v claim_id d = Inr (b, d') \<Longrightarrow> artifacts d' = artifacts d"
  "complete_execution x v sent d = Inr (b, d') \<Longrightarrow> artifacts d' = artifacts d"
  "advance_handoff_execution x s t failure d = Inr (u, d') \<Longrightarrow> artifacts d' = artifacts d"
  unfolding claim_execution_def complete_execution_def advance_handoff_execution_def tx_unfold
  by (auto simp: and_then_Inr split: if_splits)

lemma artifacts_status:
  "log_initial_email i subject sender received d = Inr (b, d') \<Longrightarrow> artifacts d' = artifacts d"
  "save_draft y content d = Inr (z, d') \<Longrightarrow> artifacts d' = artifacts d"
  "save_draft_if_status y content d = Inr (b, d') \<Longrightarrow> artifacts d' = artifacts d"
  "update_status from_text y status kwargs d = Inr (u, d') \<Longrightarrow> artifacts d' = artifacts d"
  "compare_and_set_status y expected target d = Inr (b, d') \<Longrightarrow> artifacts d' = artifacts d"
  "compare_and_set_manual_review y expecteds failure d = Inr (b, d') \<Longrightarrow> artifacts d' = artifacts d"
  "compare_and_set_send_unknown y failure d = Inr (b, d') \<Longrightarrow> artifacts d' = artifacts d"
  unfolding log_initial_email_def save_draft_def save_draft_if_status_def update_status_def
    compare_and_set_status_def compare_and_set_manual_review_def compare_and_set_send_unknown_def tx_unfold
  by (auto simp: and_then_Inr split: option.splits if_splits)

lemma artifacts_recovery:
  "recover_incomplete_approval_states d = Inr (m, d') \<Longrightarrow> artifacts d' = artifacts d"
  "recover_durable_handoff_states order d = Inr (m, d') \<Longrightarrow> artifacts d' = artifacts d"
  unfolding recover_incomplete_approval_states_def recover_durable_handoff_states_def tx_unfold
    update_log_def update_runs_def artifacts_def
  by (simp_all only: sum.inject Pair_inject) auto

text \<open>The two operations that append.\<close>

lemma create_payload_revision_artifacts:
  assumes "create_payload_revision env x v shown shown_digest payload d = Inr (n, d')"
  obtains "artifacts d' = artifacts d" | row where "a_payloads d' = a_payloads d @ [row]"
    "a_envelopes d' = a_envelopes d" "payload_of (p_inbox_id row) (p_revision row) d = None"
proof -
  from assms obtain h expected digest replay where
    body: "(case replay of Some m \<Rightarrow> Inr (m, d)
      | None \<Rightarrow> and_then (ensure (edit_binds x h expected d) (DbConflict ''stale payload edit'')) (\<lambda>_.
          append_payload_revision x v h digest payload d)) = Inr (n, d')"
    unfolding create_payload_revision_def Let_def
    by (elim and_thenE) (drule some_or_Inr [THEN iffD1], rule that, assumption)
  show ?thesis
  proof (cases replay)
    case (Some m)
    then show ?thesis using body that(1) by simp
  next
    case None
    with body obtain m row where
      row: "payload_row_of x m digest payload = Some row" "payload_of x m d = None" and
      d': "a_payloads d' = a_payloads d @ [row]" "a_envelopes d' = a_envelopes d"
      unfolding append_payload_revision_def tx_unfold by (auto simp: and_then_Inr split: if_splits)
    have "p_inbox_id row = x" "p_revision row = m"
      using row(1) by (auto simp: payload_row_of_def split: option.splits if_splits)
    with row(2) d' that(2) show ?thesis by simp
  qed
qed

section \<open>The store stays sound\<close>

definition stored_envelope :: "gate_env \<Rightarrow> envelope \<Rightarrow> bool" where
  "stored_envelope env e \<longleftrightarrow>
     validate_envelope (ge_router env) e = Inr e \<and> final_decision (ge_router env) (en_route_decision e)
     \<and> ge_datetime env (JStr (en_approved_at e)) = Some (en_approved_at e)"

definition backed :: "gate_env \<Rightarrow> payload_row list \<Rightarrow> envelope_row \<Rightarrow> bool" where
  "backed env ps v \<longleftrightarrow>
     (\<exists>e p approved_at. v = envelope_row_of (ge_router env) e p approved_at \<and> stored_envelope env e
        \<and> p \<in> set ps \<and> p_inbox_id p = en_inbox_id e \<and> p_revision p = en_payload_revision e \<and> freezes e p)"

definition artifacts_ok :: "gate_env \<Rightarrow> payload_row list \<times> envelope_row list \<Rightarrow> bool" where
  "artifacts_ok env = (\<lambda>(ps, vs).
     distinct (map (\<lambda>p. (p_inbox_id p, p_revision p)) ps) \<and> distinct (map v_inbox_id vs)
     \<and> (\<forall>v\<in>set vs. backed env ps v))"

definition adb_ok :: "gate_env \<Rightarrow> adb \<Rightarrow> bool" where
  "adb_ok env d \<longleftrightarrow> run_keys_distinct d \<and> artifacts_ok env (artifacts d)"

definition empty_store :: "adb \<Rightarrow> bool" where
  "empty_store d \<longleftrightarrow> a_runs d = [] \<and> a_payloads d = [] \<and> a_envelopes d = []"

lemma artifacts_ok_payload:
  assumes "artifacts_ok env (artifacts d)" "a_payloads d' = a_payloads d @ [row]"
    "a_envelopes d' = a_envelopes d" "payload_of (p_inbox_id row) (p_revision row) d = None"
  shows "artifacts_ok env (artifacts d')"
proof -
  have "(p_inbox_id row, p_revision row) \<notin> (\<lambda>p. (p_inbox_id p, p_revision p)) ` set (a_payloads d)"
    using assms(4) by (auto simp: payload_of_def select_one_None)
  moreover have "backed env (a_payloads d) v \<Longrightarrow> backed env (a_payloads d @ [row]) v" for v
    unfolding backed_def by fastforce
  ultimately show ?thesis using assms(1-3) by (auto simp: artifacts_ok_def artifacts_def)
qed

lemma pending_payload_SomeD:
  assumes "pending_payload x n digest v d = Some (p, t)"
  shows "payload_of x n d = Some p" "decision_of x d = Some t" "p_payload_digest p = digest"
    "\<exists>h. run_of x d = Some h \<and> h_version h = v \<and> h_state h = HS_APPROVAL_PENDING
       \<and> h_payload_revision h = Some n"
    "\<exists>l. email_of x d = Some l \<and> lg_status l = Some (lit ''waiting_approval'')"
  using assms by (auto simp: pending_payload_def split: option.splits if_splits)

lemma approve_payload_revision_artifacts:
  assumes "gate_reads_back env" "artifacts_ok env (artifacts d)"
    and "approve_payload_revision env x n v digest approver approved_at d = Inr (c, d')"
  shows "artifacts_ok env (artifacts d')"
  using assms(3)
proof (rule approve_payload_revision_cases)
  fix p t e
  assume p: "pending_payload x n digest v d = Some (p, t)"
    and e: "read_envelope env (proposed_envelope x n digest approver approved_at p t) = Inr e"
    and none: "\<not> has_envelope x d"
    and d': "d' = snd (update_log (awaiting (td_external_email_id t)) (set_email_approved approver approved_at p)
              (snd (update_runs (pending_run x v n) (\<lambda>h. h\<lparr>h_state := HS_APPROVED\<rparr>)
                (d\<lparr>a_envelopes := a_envelopes d @ [envelope_row_of (ge_router env) e p approved_at]\<rparr>))))"
  note read = read_proposed_envelope [OF assms(1) pending_payload_SomeD(3) [OF p] e]
  have row: "p \<in> set (a_payloads d)" "p_inbox_id p = x" "p_revision p = n"
    using select_one_SomeD [OF pending_payload_SomeD(1) [OF p, unfolded payload_of_def]] by auto
  have "backed env (a_payloads d) (envelope_row_of (ge_router env) e p approved_at)"
    unfolding backed_def stored_envelope_def
    using read row read_envelope_valid [OF e] by blast
  moreover have "x \<notin> v_inbox_id ` set (a_envelopes d)"
    using none by (auto simp: has_envelope_def)
  moreover have "v_inbox_id (envelope_row_of (ge_router env) e p approved_at) = x"
    by (simp add: envelope_row_of_def read(2))
  moreover have "artifacts d' = (a_payloads d, a_envelopes d @ [envelope_row_of (ge_router env) e p approved_at])"
    unfolding d' artifacts_updates by (simp add: artifacts_def)
  ultimately show ?thesis
    using assms(2) by (simp add: artifacts_ok_def artifacts_def)
qed (use assms(2) in simp)

lemma adb_step_ok:
  assumes "gate_reads_back env" "adb_ok env d" "adb_step env d d'"
  shows "adb_ok env d'"
proof -
  have "artifacts_ok env (artifacts d')"
    using assms(3)
  proof cases
    case (5 x v shown shown_digest payload n)
    then show ?thesis
      using assms(2) artifacts_ok_payload
      by (elim create_payload_revision_artifacts) (simp_all add: adb_ok_def, blast)
  next
    case (6 x n v digest approver approved_at c)
    then show ?thesis
      using assms(1,2) approve_payload_revision_artifacts by (auto simp: adb_ok_def)
  qed (use assms(2) in \<open>simp_all add: adb_ok_def artifacts_plan artifacts_cards artifacts_execution
      artifacts_status artifacts_recovery\<close>)
  moreover have "run_keys_distinct d'"
    using adb_step_moves [OF assms(3)] assms(2) by (simp add: moves_def adb_ok_def)
  ultimately show ?thesis by (simp add: adb_ok_def)
qed

end
