(* ===== verification/ApprovalSender.thy ===== *)
theory ApprovalSender
  imports ApprovalFreeze
begin

text \<open>
  \<^verbatim>\<open>src/nodes/sender.py\<close>: one invocation of \<^verbatim>\<open>send_final_email\<close> as a program counter between its
  awaits, the mail server's outbox, and the world in which any number of invocations run
  interleaved with every transaction of the database manager, crash at any await and lose any
  answer of the database or of the mail server.
\<close>

section \<open>One invocation\<close>

record invocation =
  iv_email_id :: pystr
  iv_inbox_id :: "pystr option"
  iv_approved :: bool

record mail =
  m_inbox :: pystr
  m_email :: pystr
  m_forward :: bool
  m_to :: "pystr list"
  m_cc :: "pystr list"
  m_body :: pystr
  m_attachments :: bool

datatype next_step = STEP_APPROVAL | STEP_END | STEP_MANUAL_REVIEW string

text \<open>
  The awaits of \<^verbatim>\<open>send_final_email\<close>: read the run, read the envelope, claim, send, complete, and the
  two failure paths. \<open>SP_RAISED\<close> is an exception that leaves the function.
\<close>

datatype sender_phase =
    SP_BEGIN
  | SP_HAVE_RUN run_row
  | SP_READY run_row envelope
  | SP_CLAIMED run_row envelope
  | SP_SENT run_row envelope
  | SP_FAIL_BEFORE "run_row option" string
  | SP_MOVE string
  | SP_FAIL_AFTER run_row
  | SP_MARK
  | SP_DONE next_step
  | SP_RAISED

definition replayed_states :: "handoff_state list" where
  "replayed_states =
     [HS_EXECUTING, HS_COMPLETED, HS_FAILED, HS_MANUAL_REVIEW, HS_REJECTED, HS_DRAFT_SAVED]"

text \<open>What the invocation does with the run it read.\<close>

definition after_run :: "run_row option \<Rightarrow> sender_phase" where
  "after_run r =
     (case r of
        None \<Rightarrow> SP_FAIL_BEFORE None ''approval_handoff_failed''
      | Some h \<Rightarrow>
          if h_state h \<in> set replayed_states then SP_DONE STEP_END
          else if h_state h \<noteq> HS_APPROVED \<or> h_payload_revision h \<in> {None, Some 0}
          then SP_FAIL_BEFORE (Some h) ''approval_handoff_failed''
          else SP_HAVE_RUN h)"

definition envelope_fits :: "invocation \<Rightarrow> run_row \<Rightarrow> envelope \<Rightarrow> bool" where
  "envelope_fits i h e =
     (iv_inbox_id i = Some (en_inbox_id e) \<and> en_email_id e = iv_email_id i
      \<and> h_payload_revision h = Some (en_payload_revision e)
      \<and> en_decision_digest e = h_decision_digest h \<and> en_plan_digest e = h_plan_digest h
      \<and> h_evidence_digest h = Some (en_evidence_digest e))"

text \<open>What it does with the stored envelope: the gate, then the comparison with the run.\<close>

definition after_envelope :: "gate_env \<Rightarrow> invocation \<Rightarrow> run_row \<Rightarrow> (json \<times> pystr) option \<Rightarrow> sender_phase" where
  "after_envelope env i h raw =
     (case raw of
        None \<Rightarrow> SP_FAIL_BEFORE (Some h) ''approval_handoff_failed''
      | Some (j, digest) \<Rightarrow>
          (case execution_gate env j (Some digest) of
             Inl _ \<Rightarrow> SP_FAIL_BEFORE (Some h) ''approval_handoff_failed''
           | Inr e \<Rightarrow> if envelope_fits i h e then SP_READY h e
                      else SP_FAIL_BEFORE (Some h) ''approval_handoff_failed''))"

text \<open>\<^verbatim>\<open>_deduplicate\<close>: the first occurrence of each address, in order.\<close>

definition deduplicate :: "pystr list \<Rightarrow> pystr list" where
  "deduplicate xs = rev (remdups (rev xs))"

text \<open>The call of the Exchange client.\<close>

definition mail_of :: "envelope \<Rightarrow> mail" where
  "mail_of e =
     (let forward = rd_route (en_route_decision e) = Some ROUTE_FORWARD
      in \<lparr>m_inbox = en_inbox_id e, m_email = en_email_id e, m_forward = forward,
          m_to = (if forward then deduplicate (en_to e @ en_cc e) else en_to e),
          m_cc = (if forward then [] else en_cc e), m_body = en_draft_content e,
          m_attachments = (forward \<and> json_truthy (get_or (JBool False) ''include_attachments''
             (rd_params (en_route_decision e))))\<rparr>)"

text \<open>A database call that returned, or raised with or without having committed.\<close>

datatype 'a answer = Returned 'a | Raised

inductive db_call :: "'a tx \<Rightarrow> adb \<Rightarrow> 'a answer \<Rightarrow> adb \<Rightarrow> bool" where
  call_returned: "f d = Inr (r, d') \<Longrightarrow> db_call f d (Returned r) d'"
| call_refused: "f d = Inl e \<Longrightarrow> db_call f d Raised d"
| call_lost: "db_call f d Raised d"
| call_ambiguous: "f d = Inr (r, d') \<Longrightarrow> db_call f d Raised d'"

text \<open>The answer of the mail server: the outcome reported, and whether a mail went out.\<close>

datatype send_report = REPORTED_SENT | NOT_CONFIRMED

definition revision_of :: "run_row \<Rightarrow> int" where
  "revision_of h = (case h_payload_revision h of None \<Rightarrow> 0 | Some n \<Rightarrow> n)"

inductive sender_step :: "gate_env \<Rightarrow> invocation \<Rightarrow> sender_phase \<Rightarrow> adb \<Rightarrow> sender_phase \<Rightarrow> adb \<Rightarrow> mail list \<Rightarrow> bool"
  for env i where
  not_approved: "\<not> iv_approved i \<Longrightarrow> sender_step env i SP_BEGIN d (SP_DONE STEP_APPROVAL) d []"
| not_durable: "iv_approved i \<Longrightarrow> iv_inbox_id i = None
    \<Longrightarrow> sender_step env i SP_BEGIN d (SP_FAIL_BEFORE None ''durable_approval_required'') d []"
| read_run: "iv_approved i \<Longrightarrow> iv_inbox_id i = Some x
    \<Longrightarrow> sender_step env i SP_BEGIN d (after_run (run_of x d)) d []"
| read_run_raised: "iv_approved i \<Longrightarrow> iv_inbox_id i = Some x
    \<Longrightarrow> sender_step env i SP_BEGIN d (SP_FAIL_BEFORE None ''approval_handoff_failed'') d []"
| fetch_envelope: "iv_inbox_id i = Some x
    \<Longrightarrow> sender_step env i (SP_HAVE_RUN h) d
          (after_envelope env i h (get_approved_execution_envelope x (revision_of h) d)) d []"
| fetch_envelope_raised: "sender_step env i (SP_HAVE_RUN h) d
    (SP_FAIL_BEFORE (Some h) ''approval_handoff_failed'') d []"
| claim: "iv_inbox_id i = Some x
    \<Longrightarrow> db_call (claim_execution x (revision_of h) (h_version h) claim_id) d a d'
    \<Longrightarrow> sender_step env i (SP_READY h e) d (if a = Returned True then SP_CLAIMED h e else SP_DONE STEP_END) d' []"
| send: "sent = [] \<or> sent = [mail_of e] \<Longrightarrow> (report = REPORTED_SENT \<Longrightarrow> sent = [mail_of e])
    \<Longrightarrow> sender_step env i (SP_CLAIMED h e) d
          (if report = REPORTED_SENT then SP_SENT h e else SP_FAIL_AFTER h) d sent"
| complete: "iv_inbox_id i = Some x
    \<Longrightarrow> db_call (complete_execution x (h_version h + 1) True) d a d'
    \<Longrightarrow> completed = (case a of Returned b \<Rightarrow> b
          | Raised \<Rightarrow> readable \<and> get_email_status (iv_email_id i) d' = Some (lit ''sent''))
    \<Longrightarrow> sender_step env i (SP_SENT h e) d (if completed then SP_DONE STEP_END else SP_FAIL_AFTER h) d' []"
| fail_before_none: "sender_step env i (SP_FAIL_BEFORE None failure) d (SP_MOVE failure) d []"
| fail_before: "iv_inbox_id i = Some x
    \<Longrightarrow> db_call (transition_handoff_manual_review x (h_version h)) d a d'
    \<Longrightarrow> sender_step env i (SP_FAIL_BEFORE (Some h) failure) d (SP_MOVE failure) d' []"
| move: "db_call (move_to_manual_review (iv_email_id i) [lit ''approved''] (JStr (lit failure))) d a d'
    \<Longrightarrow> sender_step env i (SP_MOVE failure) d
          (case a of Returned b \<Rightarrow> SP_DONE (if b then STEP_MANUAL_REVIEW failure else STEP_END)
           | Raised \<Rightarrow> SP_RAISED) d' []"
| fail_after: "iv_inbox_id i = Some x
    \<Longrightarrow> db_call (complete_execution x (h_version h + 1) False) d a d'
    \<Longrightarrow> sender_step env i (SP_FAIL_AFTER h) d SP_MARK d' []"
| mark: "db_call (mark_send_unknown (iv_email_id i) (JStr (lit ''send_outcome_unknown''))) d a d'
    \<Longrightarrow> sender_step env i SP_MARK d (SP_DONE (STEP_MANUAL_REVIEW ''send_outcome_unknown'')) d' []"
| crash: "sender_step env i p d SP_RAISED d []"

section \<open>The world\<close>

record world =
  w_db :: adb
  w_outbox :: "mail list"
  w_phase :: "nat \<Rightarrow> sender_phase"

inductive world_step :: "gate_env \<Rightarrow> (nat \<Rightarrow> invocation) \<Rightarrow> world \<Rightarrow> world \<Rightarrow> bool" for env calls where
  database: "adb_step env (w_db w) d' \<Longrightarrow> world_step env calls w (w\<lparr>w_db := d'\<rparr>)"
| sender: "sender_step env (calls s) (w_phase w s) (w_db w) p' d' sent
    \<Longrightarrow> world_step env calls w
          (w\<lparr>w_db := d', w_outbox := w_outbox w @ sent, w_phase := (w_phase w)(s := p')\<rparr>)"

definition world_start :: "world \<Rightarrow> bool" where
  "world_start w \<longleftrightarrow> empty_store (w_db w) \<and> w_outbox w = [] \<and> (\<forall>s. w_phase w s = SP_BEGIN)"

section \<open>A sender's database calls are transactions of the manager\<close>

lemma db_call_adb_step:
  assumes "db_call f d a d'" "\<And>r. f d = Inr (r, d') \<Longrightarrow> adb_step env d d'"
  shows "d' = d \<or> adb_step env d d'"
  using assms by (cases rule: db_call.cases) auto

lemma move_to_manual_review_steps:
  "move_to_manual_review y expecteds failure d = Inr (b, d') \<Longrightarrow> adb_step env d d'"
  by (auto simp: move_to_manual_review_def and_then_Inr intro: adb_step.intros(19))

lemma mark_send_unknown_steps: "mark_send_unknown y failure d = Inr (b, d') \<Longrightarrow> adb_step env d d'"
  by (auto simp: mark_send_unknown_def and_then_Inr intro: adb_step.intros(20))

lemma sender_step_db:
  assumes "sender_step env i p d p' d' sent"
  shows "d' = d \<or> adb_step env d d'"
  using assms
proof cases
  case claim
  show ?thesis by (rule db_call_adb_step [OF claim(5)]) (rule adb_step.intros(11))
next
  case complete
  show ?thesis by (rule db_call_adb_step [OF complete(5)]) (rule adb_step.intros(12))
next
  case fail_before
  show ?thesis by (rule db_call_adb_step [OF fail_before(5)]) (rule adb_step.intros(4))
next
  case move
  show ?thesis by (rule db_call_adb_step [OF move(4)]) (rule move_to_manual_review_steps)
next
  case fail_after
  show ?thesis by (rule db_call_adb_step [OF fail_after(5)]) (rule adb_step.intros(12))
next
  case mark
  show ?thesis by (rule db_call_adb_step [OF mark(4)]) (rule mark_send_unknown_steps)
qed simp_all

lemma world_step_db:
  assumes "world_step env calls w w'"
  shows "w_db w' = w_db w \<or> adb_step env (w_db w) (w_db w')"
  using assms by cases (auto dest: sender_step_db)

section \<open>Spent approvals\<close>

text \<open>A run that has left \<^verbatim>\<open>approved\<close> for the execution can never be claimed again.\<close>

definition spent_states :: "handoff_state set" where
  "spent_states = {HS_EXECUTING, HS_COMPLETED, HS_FAILED, HS_MANUAL_REVIEW}"

definition spent :: "pystr \<Rightarrow> adb \<Rightarrow> bool" where
  "spent x d \<longleftrightarrow> (\<exists>h. run_of x d = Some h \<and> h_state h \<in> spent_states)"

lemma spent_edge: "handoff_edge s t \<Longrightarrow> s \<in> spent_states \<Longrightarrow> t \<in> spent_states"
  by (cases s; cases t) (simp_all add: spent_states_def)

lemma moves_spent:
  assumes "moves d d'" "spent x d"
  shows "spent x d'"
proof -
  from assms(2) obtain h where h: "run_of x d = Some h" "h_state h \<in> spent_states" by (auto simp: spent_def)
  have "handoff_step (run_of x d) (run_of x d')" using assms(1) by (simp add: moves_def)
  with h obtain h' where "run_of x d' = Some h'" "h' = h \<or> run_change h h'"
    by (cases "run_of x d'") auto
  with h spent_edge show ?thesis by (auto simp: spent_def run_change_def)
qed

text \<open>
  An envelope in the store, which its payload revision backs.
\<close>

definition released :: "gate_env \<Rightarrow> adb \<Rightarrow> envelope \<Rightarrow> bool" where
  "released env d e \<longleftrightarrow>
     (\<exists>p approved_at. envelope_row_of (ge_router env) e p approved_at \<in> set (a_envelopes d)
        \<and> stored_envelope env e \<and> p \<in> set (a_payloads d) \<and> p_inbox_id p = en_inbox_id e
        \<and> p_revision p = en_payload_revision e \<and> freezes e p)"

lemma appends_released: "appends d d' \<Longrightarrow> released env d e \<Longrightarrow> released env d' e"
  unfolding released_def appends_def by (blast dest: set_mono_prefix)

lemma gate_releases:
  assumes "gate_reads_back env" "adb_ok env d"
    and "get_approved_execution_envelope x n d = Some (j, digest)"
    and "execution_gate env j (Some digest) = Inr e"
  shows "released env d e" "en_inbox_id e = x"
proof -
  from assms(3) obtain v where v: "v \<in> set (a_envelopes d)" "v_inbox_id v = x" "j = v_envelope_json v"
    by (auto simp: get_approved_execution_envelope_def dest: select_one_SomeD)
  from assms(2) v(1) have "backed env (a_payloads d) v"
    by (simp add: adb_ok_def artifacts_ok_def artifacts_def)
  then obtain f p approved_at where
    row: "v = envelope_row_of (ge_router env) f p approved_at" and
    f: "stored_envelope env f" "p \<in> set (a_payloads d)" "p_inbox_id p = en_inbox_id f"
      "p_revision p = en_payload_revision f" "freezes f p"
    unfolding backed_def by blast
  have "read_envelope env (dump_envelope f) = Inr f"
    using f(1) read_dump_envelope [OF assms(1)] by (simp add: stored_envelope_def)
  then have "e = f"
    using assms(4) v(3) by (auto simp: execution_gate_def row envelope_row_of_def and_then_Inr)
  with row f v show "released env d e" "en_inbox_id e = x"
    by (auto simp: released_def envelope_row_of_def)
qed

lemma claim_execution_True:
  assumes "claim_execution x n v claim_id d = Inr (True, d')" "run_keys_distinct d"
  shows "\<not> spent x d" "spent x d'"
proof -
  define d1 where "d1 = snd (update_log (is_email_in x ''approved'' d) (set_status ''sending'') d)"
  let ?p = "claimable_run x n v d1"
  let ?f = "\<lambda>h. h\<lparr>h_state := HS_EXECUTING, h_execution_claim_id := Some claim_id\<rparr>"
  have d': "length (filter ?p (a_runs d1)) = 1" "d' = snd (update_runs ?p ?f d1)"
    using assms(1) unfolding claim_execution_def tx_unfold d1_def
    by (auto simp: and_then_Inr split: if_splits)
  have runs: "a_runs d1 = a_runs d" by (simp add: d1_def)
  from d'(1) have "filter ?p (a_runs d1) \<noteq> []" by auto
  then obtain h where h: "h \<in> set (a_runs d1)" "?p h" by (auto simp: filter_empty_conv)
  have "run_of x d1 = Some h"
    unfolding run_of_def
    by (rule select_one_unique [where k = h_inbox_id])
      (use assms(2) h in \<open>simp_all add: runs run_keys_distinct_def claimable_run_def at_version_def\<close>)
  moreover have "run_of x d' = map_option (\<lambda>h. if ?p h then (?f h)\<lparr>h_version := h_version h + 1\<rparr> else h) (run_of x d1)"
    unfolding d'(2) by (rule run_of_update) simp
  moreover have "run_of x d1 = run_of x d" by (simp add: run_of_def runs)
  ultimately show "\<not> spent x d" "spent x d'"
    using h(2) by (auto simp: spent_def claimable_run_def at_version_def spent_states_def)
qed

section \<open>What one step of a sender can do\<close>

lemma sender_reaches_ready:
  assumes "gate_reads_back env" "adb_ok env d" "sender_step env i p d p' d' sent" "p' = SP_READY h e"
  shows "iv_inbox_id i = Some (en_inbox_id e) \<and> released env d e \<and> d' = d \<and> sent = []"
  using assms(3,4)
proof cases
  case (fetch_envelope x g)
  then obtain j digest where raw: "get_approved_execution_envelope x (revision_of g) d = Some (j, digest)"
    "execution_gate env j (Some digest) = Inr e" and fits: "envelope_fits i g e"
    using assms(4) by (auto simp: after_envelope_def split: option.splits sum.splits if_splits)
  from gate_releases [OF assms(1,2) raw] fetch_envelope show ?thesis by simp
qed (auto simp: after_run_def split: option.splits if_splits answer.splits)

lemma sender_reaches_claimed:
  assumes "sender_step env i p d p' d' sent" "p' = SP_CLAIMED h e"
  shows "p = SP_READY h e \<and> sent = [] \<and> (\<exists>x claim_id. iv_inbox_id i = Some x
    \<and> claim_execution x (revision_of h) (h_version h) claim_id d = Inr (True, d'))"
  using assms
proof cases
  case (claim x g claim_id a f)
  then have "a = Returned True" "g = h" "f = e" using assms(2) by (auto split: if_splits)
  with claim(5) have "claim_execution x (revision_of h) (h_version h) claim_id d = Inr (True, d')"
    by (auto elim: db_call.cases)
  with claim \<open>g = h\<close> \<open>f = e\<close> show ?thesis by blast
qed (auto simp: after_run_def after_envelope_def split: option.splits sum.splits if_splits answer.splits)

lemma sender_sends:
  assumes "sender_step env i p d p' d' sent" "sent \<noteq> []"
  shows "\<exists>h e. p = SP_CLAIMED h e \<and> sent = [mail_of e] \<and> d' = d \<and> (\<forall>g f. p' \<noteq> SP_CLAIMED g f)"
  using assms by cases auto

lemma mail_of_inbox [simp]: "m_inbox (mail_of e) = en_inbox_id e"
  by (simp add: mail_of_def Let_def)

section \<open>The invariant of the world\<close>

text \<open>Who holds the permission to send for an inbox row: a claimed invocation, or a mail that went out.\<close>

definition holds :: "world \<Rightarrow> nat \<Rightarrow> pystr \<Rightarrow> bool" where
  "holds w s x \<longleftrightarrow> (\<exists>h e. w_phase w s = SP_CLAIMED h e \<and> en_inbox_id e = x)"

definition phase_ok :: "gate_env \<Rightarrow> adb \<Rightarrow> invocation \<Rightarrow> sender_phase \<Rightarrow> bool" where
  "phase_ok env d i p =
     (case p of
        SP_READY h e \<Rightarrow> iv_inbox_id i = Some (en_inbox_id e) \<and> released env d e
      | SP_CLAIMED h e \<Rightarrow> released env d e \<and> spent (en_inbox_id e) d
      | _ \<Rightarrow> True)"

definition world_ok :: "gate_env \<Rightarrow> (nat \<Rightarrow> invocation) \<Rightarrow> world \<Rightarrow> bool" where
  "world_ok env calls w \<longleftrightarrow>
     adb_ok env (w_db w)
     \<and> (\<forall>s. phase_ok env (w_db w) (calls s) (w_phase w s))
     \<and> (\<forall>m\<in>set (w_outbox w). spent (m_inbox m) (w_db w) \<and> (\<exists>e. m = mail_of e \<and> released env (w_db w) e))
     \<and> distinct (map m_inbox (w_outbox w))
     \<and> (\<forall>s t x. holds w s x \<longrightarrow> holds w t x \<longrightarrow> s = t)
     \<and> (\<forall>s m. m \<in> set (w_outbox w) \<longrightarrow> \<not> holds w s (m_inbox m))"

lemma world_okD:
  assumes "world_ok env calls w"
  shows "adb_ok env (w_db w)" "phase_ok env (w_db w) (calls s) (w_phase w s)"
    "m \<in> set (w_outbox w) \<Longrightarrow> spent (m_inbox m) (w_db w)"
    "m \<in> set (w_outbox w) \<Longrightarrow> \<exists>e. m = mail_of e \<and> released env (w_db w) e"
    "distinct (map m_inbox (w_outbox w))" "holds w s x \<Longrightarrow> holds w t x \<Longrightarrow> s = t"
    "m \<in> set (w_outbox w) \<Longrightarrow> \<not> holds w s (m_inbox m)"
  using assms unfolding world_ok_def by blast+

lemma holds_spent: "world_ok env calls w \<Longrightarrow> holds w s x \<Longrightarrow> spent x (w_db w) \<and> (\<exists>h e. w_phase w s = SP_CLAIMED h e \<and> en_inbox_id e = x \<and> released env (w_db w) e)"
  using world_okD(2) [of env calls w s] by (auto simp: holds_def phase_ok_def)

lemma phase_ok_later:
  assumes "moves d d'" "phase_ok env d i p"
  shows "phase_ok env d' i p"
proof -
  have "appends d d'" using assms(1) by (simp add: moves_def)
  then show ?thesis
    using assms moves_spent appends_released by (auto simp: phase_ok_def split: sender_phase.splits)
qed

lemma world_ok_database:
  assumes "gate_reads_back env" "world_ok env calls w" "adb_step env (w_db w) d'"
  shows "world_ok env calls (w\<lparr>w_db := d'\<rparr>)"
proof -
  have moves: "moves (w_db w) d'" by (rule adb_step_moves [OF assms(3)])
  then have app: "appends (w_db w) d'" by (simp add: moves_def)
  have holds: "holds (w\<lparr>w_db := d'\<rparr>) s x = holds w s x" for s x by (simp add: holds_def)
  note ok = world_okD [OF assms(2)]
  show ?thesis
    unfolding world_ok_def holds
    using adb_step_ok [OF assms(1) ok(1) assms(3)] phase_ok_later [OF moves ok(2)] ok(3-7)
      moves_spent [OF moves] appends_released [OF app]
    by (simp, blast)
qed

text \<open>A step of a sender, split into what it does to the store and what it does to itself.\<close>

lemma world_ok_sender:
  assumes env: "gate_reads_back env" and ok: "world_ok env calls w"
    and step: "sender_step env (calls s) (w_phase w s) (w_db w) p' d' sent"
  shows "world_ok env calls (w\<lparr>w_db := d', w_outbox := w_outbox w @ sent, w_phase := (w_phase w)(s := p')\<rparr>)"
    (is "world_ok env calls ?w")
proof -
  have ok': "world_ok env calls (w\<lparr>w_db := d'\<rparr>)"
    using sender_step_db [OF step] world_ok_database [OF env ok] ok by auto
  note o = world_okD [OF ok] and o' = world_okD [OF ok']
  have keys: "run_keys_distinct (w_db w)" using o(1) by (simp add: adb_ok_def)
  have phase: "phase_ok env d' (calls s) p'"
  proof (cases "(\<exists>h e. p' = SP_READY h e) \<or> (\<exists>h e. p' = SP_CLAIMED h e)")
    case False
    then show ?thesis by (cases p') (auto simp: phase_ok_def)
  next
    case True
    then show ?thesis
    proof (elim disjE exE)
      fix h e assume p': "p' = SP_READY h e"
      from sender_reaches_ready [OF env o(1) step p'] show ?thesis by (simp add: p' phase_ok_def)
    next
      fix h e assume p': "p' = SP_CLAIMED h e"
      from sender_reaches_claimed [OF step p'] obtain x claim_id where
        ready: "w_phase w s = SP_READY h e" "iv_inbox_id (calls s) = Some x" and
        claim: "claim_execution x (revision_of h) (h_version h) claim_id (w_db w) = Inr (True, d')"
        by blast
      have "phase_ok env d' (calls s) (SP_READY h e)" using o'(2) [of s] ready by simp
      with ready claim_execution_True(2) [OF claim keys] show ?thesis by (simp add: p' phase_ok_def)
    qed
  qed
  have new: "\<not> spent x (w_db w)" if "holds ?w s x" "\<not> holds w s x" for x
  proof -
    from that(1) obtain h e where p': "p' = SP_CLAIMED h e" "en_inbox_id e = x" by (auto simp: holds_def)
    from sender_reaches_claimed [OF step p'(1)] obtain y claim_id where
      ready: "w_phase w s = SP_READY h e" "iv_inbox_id (calls s) = Some y" and
      claim: "claim_execution y (revision_of h) (h_version h) claim_id (w_db w) = Inr (True, d')"
      by blast
    have "y = x" using o(2) [of s] ready p'(2) by (simp add: phase_ok_def)
    with claim_execution_True(1) [OF claim keys] show ?thesis by simp
  qed
  have others: "holds ?w t x = holds w t x" if "t \<noteq> s" for t x using that by (simp add: holds_def)
  have unique: "t = u" if "holds ?w t x" "holds ?w u x" for t u x
  proof (rule ccontr)
    assume "t \<noteq> u"
    have clash: False if "holds ?w s x" "holds ?w r x" "r \<noteq> s" for r
    proof -
      have "holds w r x" using that others [of r x] by simp
      moreover from this holds_spent [OF ok] have "spent x (w_db w)" by blast
      with that(1) new [of x] have "holds w s x" by blast
      ultimately show False using o(6) that(3) by blast
    qed
    show False
    proof (cases "t = s \<or> u = s")
      case True
      with that \<open>t \<noteq> u\<close> clash [of u] clash [of t] show False by auto
    next
      case False
      with that others [of t x] others [of u x] o(6) [of t x u] \<open>t \<noteq> u\<close> show False by simp
    qed
  qed
  have sends: "holds w s (m_inbox m) \<and> \<not> holds ?w s x" if "m \<in> set sent" for m x
  proof -
    from that have "sent \<noteq> []" by auto
    from sender_sends [OF step this] that show ?thesis by (auto simp: holds_def)
  qed
  have outbox: "\<not> holds ?w t (m_inbox m)" if "m \<in> set (w_outbox ?w)" for t m
  proof
    assume h: "holds ?w t (m_inbox m)"
    from that consider "m \<in> set (w_outbox w)" | "m \<in> set sent" by auto
    then show False
    proof cases
      case 1
      have no: "\<not> holds w r (m_inbox m)" for r by (rule o(7) [OF 1])
      with h others [of t "m_inbox m"] have "t = s" by auto
      with h new [of "m_inbox m"] no o(3) [OF 1] show False by simp
    next
      case 2
      from sends [OF 2] have held: "holds w s (m_inbox m)" and "\<not> holds ?w s (m_inbox m)" by blast+
      with h others [of t "m_inbox m"] have "t \<noteq> s" "holds w t (m_inbox m)" by auto
      with o(6) [OF held] show False by blast
    qed
  qed
  have mails: "spent (m_inbox m) d' \<and> (\<exists>e. m = mail_of e \<and> released env d' e)" if "m \<in> set (w_outbox ?w)" for m
  proof -
    from that consider "m \<in> set (w_outbox w)" | "m \<in> set sent" by auto
    then show ?thesis
    proof cases
      case 1
      then show ?thesis using o'(3,4) [of m] by simp
    next
      case 2
      with sender_sends [OF step] obtain h e where
        "w_phase w s = SP_CLAIMED h e" "m = mail_of e" "d' = w_db w" by force
      then show ?thesis using o(2) [of s] by (auto simp: phase_ok_def)
    qed
  qed
  have "distinct (map m_inbox (w_outbox w @ sent))"
  proof (cases "sent = []")
    case False
    with sender_sends [OF step] obtain e where e: "sent = [mail_of e]" by blast
    have "holds w s (en_inbox_id e)" using sends [of "mail_of e"] e by simp
    with o(5) o(7) e show ?thesis by auto
  qed (use o(5) in simp)
  moreover have "phase_ok env d' (calls t) (((w_phase w)(s := p')) t)" for t
    using phase o'(2) [of t] by simp
  ultimately show ?thesis
    unfolding world_ok_def using o'(1) mails unique outbox by simp
qed

section \<open>The machine\<close>

lemma world_start_ok: "world_start w \<Longrightarrow> world_ok env calls w"
  by (auto simp: world_start_def world_ok_def empty_store_def adb_ok_def run_keys_distinct_def artifacts_ok_def
      artifacts_def phase_ok_def holds_def)

lemma world_step_ok:
  assumes "gate_reads_back env" "world_ok env calls w" "world_step env calls w w'"
  shows "world_ok env calls w'"
  using assms(3)
proof cases
  case (database d')
  then show ?thesis using world_ok_database [OF assms(1,2)] by simp
next
  case (sender s p' d' sent)
  then show ?thesis using world_ok_sender [OF assms(1,2)] by simp
qed

end
