(* ===== verification/ApprovalSafety.thy ===== *)
theory ApprovalSafety
  imports ApprovalSender "HOL-Library.Code_Target_Nat"
begin

text \<open>
  The guarantees of the durable approval: one mail at most for an inbox row, exactly the payload
  that was approved, the state machine of a run and its version, exact replays, and recovery.
\<close>

section \<open>The two transition systems\<close>

definition store_grows :: "adb \<Rightarrow> adb \<Rightarrow> bool" where
  "store_grows d d' \<longleftrightarrow> (\<forall>x. handoff_step\<^sup>*\<^sup>* (run_of x d) (run_of x d')) \<and> appends d d'"

interpretation store: monotone_system "\<lambda>d. gate_reads_back env \<and> empty_store d" "adb_step env"
  "\<lambda>d. gate_reads_back env \<and> adb_ok env d" store_grows for env
proof unfold_locales
  fix s t u :: adb
  show "gate_reads_back env \<and> empty_store s \<Longrightarrow> gate_reads_back env \<and> adb_ok env s"
    by (simp add: empty_store_def adb_ok_def run_keys_distinct_def artifacts_ok_def artifacts_def)
  show "gate_reads_back env \<and> adb_ok env s \<Longrightarrow> adb_step env s t \<Longrightarrow> gate_reads_back env \<and> adb_ok env t"
    using adb_step_ok by blast
  show "store_grows s s" by (simp add: store_grows_def appends_def)
  show "store_grows s t \<Longrightarrow> store_grows t u \<Longrightarrow> store_grows s u"
    by (auto simp: store_grows_def intro: appends_trans rtranclp_trans)
  show "gate_reads_back env \<and> adb_ok env s \<Longrightarrow> adb_step env s t \<Longrightarrow> store_grows s t"
    using adb_step_moves [of env s t] by (auto simp: store_grows_def moves_def)
qed

interpretation senders: invariant_system "\<lambda>w. gate_reads_back env \<and> world_start w" "world_step env calls"
  "\<lambda>w. gate_reads_back env \<and> world_ok env calls w" for env calls
  by unfold_locales (use world_start_ok world_step_ok in blast)+

section \<open>At most one mail, and the right one\<close>

lemma reachable_world_ok:
  assumes "gate_reads_back env" "world_start w" "run (world_step env calls) w w'"
  shows "world_ok env calls w'"
  using senders.reachable_invar [of env w calls w'] assms by blast

text \<open>
  C7. A mail is sent at most once for an inbox row: whatever invocations of \<^verbatim>\<open>send_final_email\<close> run
  concurrently, replayed or crashed at any await, whatever other transactions of the database
  manager, recoveries and edits run between their steps, and whichever answers of the database or
  the mail server are lost, no two mails in the outbox belong to the same inbox row.
\<close>

theorem mail_sent_at_most_once:
  assumes "gate_reads_back env" "world_start w" "run (world_step env calls) w w'"
  shows "distinct (map m_inbox (w_outbox w'))"
  using reachable_world_ok [OF assms] by (simp add: world_ok_def)

text \<open>What the mail of a valid envelope looks like.\<close>

lemma stored_envelope_facts:
  assumes "stored_envelope env e"
  shows "digest_json (ge_router env) (frozen_json (envelope_payload e)) = Some (en_payload_digest e)"
    "en_acknowledged e" "list_all is_address (en_to e)" "list_all is_address (en_cc e)" "en_to e \<noteq> []"
    "r_sha256 (ge_router env) (utf8 (en_draft_content e)) = en_draft_digest e"
    "\<exists>r. rd_route (en_route_decision e) = Some r \<and> is_writing r"
    "\<not> json_truthy (get_or (JBool False) ''include_attachments'' (rd_params (en_route_decision e)))"
proof -
  from assms have "validate_envelope (ge_router env) e = Inr e" by (simp add: stored_envelope_def)
  then have fields: "envelope_fields_ok e"
    and addresses: "resolved_addresses_only (ge_router env) (en_to e) = Inr ()"
      "resolved_addresses_only (ge_router env) (en_cc e) = Inr ()"
    and auth: "authority_is_self_consistent (ge_router env) e = Inr ()"
    by (auto simp: validate_envelope_def and_then_Inr)
  from auth show "digest_json (ge_router env) (frozen_json (envelope_payload e)) = Some (en_payload_digest e)"
    "en_acknowledged e" "r_sha256 (ge_router env) (utf8 (en_draft_content e)) = en_draft_digest e"
    "\<exists>r. rd_route (en_route_decision e) = Some r \<and> is_writing r"
    "\<not> json_truthy (get_or (JBool False) ''include_attachments'' (rd_params (en_route_decision e)))"
    by (auto simp: authority_is_self_consistent_def Let_def and_then_Inr split: option.splits)
  from addresses show "list_all is_address (en_to e)" "list_all is_address (en_cc e)"
    by (auto simp: resolved_addresses_only_def and_then_Inr)
  from fields show "en_to e \<noteq> []" by (auto simp: envelope_fields_ok_def)
qed

lemma set_deduplicate [simp]: "set (deduplicate xs) = set xs"
  by (simp add: deduplicate_def)

text \<open>The mail says what the payload revision says.\<close>

definition mail_of_payload :: "mail \<Rightarrow> payload_row \<Rightarrow> bool" where
  "mail_of_payload m p \<longleftrightarrow>
     p_inbox_id p = m_inbox m \<and> p_draft_content p = Some (m_body m) \<and> p_acknowledged p
     \<and> (\<exists>to cc. p_to_recipients p = json_texts to \<and> p_cc_recipients p = json_texts cc \<and> to \<noteq> []
          \<and> list_all is_address (to @ cc)
          \<and> (if m_forward m then m_to m = deduplicate (to @ cc) \<and> m_cc m = [] else m_to m = to \<and> m_cc m = cc))
     \<and> \<not> m_attachments m"

lemma mail_of_payload:
  assumes "stored_envelope env e" "freezes e p" "p_inbox_id p = en_inbox_id e"
  shows "mail_of_payload (mail_of e) p"
  using stored_envelope_facts [OF assms(1)] assms(2,3)
  by (simp add: mail_of_payload_def mail_of_def freezes_def Let_def) blast

lemma released_mail:
  assumes "adb_ok env d" "released env d e"
  shows "\<exists>v\<in>set (a_envelopes d). \<exists>p\<in>set (a_payloads d).
     v_inbox_id v = en_inbox_id e \<and> (\<forall>u\<in>set (a_envelopes d). v_inbox_id u = en_inbox_id e \<longrightarrow> u = v)
     \<and> p_inbox_id p = v_inbox_id v \<and> p_revision p = v_payload_revision v
     \<and> v_payload_digest v = p_payload_digest p
     \<and> digest_json (ge_router env) (frozen_json (stored_payload p)) = Some (p_payload_digest p)
     \<and> mail_of_payload (mail_of e) p"
proof -
  from assms(2) obtain p approved_at where
    v: "envelope_row_of (ge_router env) e p approved_at \<in> set (a_envelopes d)" and
    e: "stored_envelope env e" "p \<in> set (a_payloads d)" "p_inbox_id p = en_inbox_id e"
      "p_revision p = en_payload_revision e" "freezes e p"
    unfolding released_def by blast
  let ?v = "envelope_row_of (ge_router env) e p approved_at"
  have keys: "v_inbox_id ?v = en_inbox_id e" "v_payload_revision ?v = en_payload_revision e"
    "v_payload_digest ?v = p_payload_digest p"
    using e(5) by (simp_all add: envelope_row_of_def freezes_def)
  have "distinct (map v_inbox_id (a_envelopes d))"
    using assms(1) by (simp add: adb_ok_def artifacts_ok_def artifacts_def)
  then have "u = ?v" if "u \<in> set (a_envelopes d)" "v_inbox_id u = en_inbox_id e" for u
    using that v keys(1) by (metis distinct_map inj_on_eq_iff)
  moreover have "stored_payload p = envelope_payload e"
    using e(5) by (simp add: stored_payload_def envelope_payload_def freezes_def json_opt_def)
  then have "digest_json (ge_router env) (frozen_json (stored_payload p)) = Some (p_payload_digest p)"
    using stored_envelope_facts(1) [OF e(1)] e(5) by (simp add: freezes_def)
  ultimately show ?thesis
    using v e keys mail_of_payload [OF e(1,5,3)] by (metis (no_types, lifting))
qed

text \<open>
  C8. Only the approved payload is sent: in every reachable state of that world a mail in the
  outbox has exactly one envelope in the store, committed by an approval of one payload revision
  whose digest the approver confirmed; that digest is the hash of the stored revision, and body,
  recipients and copies of the mail are those of the revision, all of them resolved addresses,
  acknowledged, and without attachments.
\<close>

theorem only_approved_payload_sent:
  assumes "gate_reads_back env" "world_start w" "run (world_step env calls) w w'"
    and "m \<in> set (w_outbox w')"
  shows "\<exists>v\<in>set (a_envelopes (w_db w')). \<exists>p\<in>set (a_payloads (w_db w')).
     v_inbox_id v = m_inbox m \<and> (\<forall>u\<in>set (a_envelopes (w_db w')). v_inbox_id u = m_inbox m \<longrightarrow> u = v)
     \<and> p_inbox_id p = v_inbox_id v \<and> p_revision p = v_payload_revision v
     \<and> v_payload_digest v = p_payload_digest p
     \<and> digest_json (ge_router env) (frozen_json (stored_payload p)) = Some (p_payload_digest p)
     \<and> mail_of_payload m p"
proof -
  note ok = world_okD [OF reachable_world_ok [OF assms(1-3)]]
  from ok(4) [OF assms(4)] obtain e where e: "m = mail_of e" "released env (w_db w') e" by blast
  from released_mail [OF ok(1) e(2)] show ?thesis by (simp only: e(1) mail_of_inbox)
qed

section \<open>The machine of a run\<close>

text \<open>
  C10. Refinement: every transaction of the database manager, called with any arguments, moves each
  handoff run by at most one edge of the abstract machine. It creates a run only as \<^verbatim>\<open>planned\<close> at
  version 0, adds one to the version whenever it changes the run, never changes the digests of
  decision and plan, the evidence only with \<^verbatim>\<open>evidence_ready\<close>, the payload revision only by one
  towards \<^verbatim>\<open>approval_pending\<close>, and sets the claim id once, from \<^verbatim>\<open>approved\<close> to \<^verbatim>\<open>executing\<close>.
\<close>

theorem handoff_machine_refined:
  assumes "adb_step env d d'"
  shows "handoff_step (run_of x d) (run_of x d')"
  using adb_step_moves [OF assms] by (simp add: moves_def)

lemma handoff_steps_version:
  assumes "handoff_step\<^sup>*\<^sup>* (Some h) r"
  shows "\<exists>h'. r = Some h' \<and> (h' = h \<or> h_version h < h_version h')"
  using assms
proof (induction rule: rtranclp_induct)
  case (step r s)
  then obtain h' where h': "r = Some h'" "h' = h \<or> h_version h < h_version h'" by blast
  with step.hyps(2) obtain g where g: "s = Some g" "g = h' \<or> run_change h' g" by (cases s) auto
  with h' show ?case by (auto simp: run_change_def)
qed simp

text \<open>
  C11. The version of a run identifies its content: over any sequence of transactions a run that
  exists keeps existing, its version never falls, and if the version is still the one that was
  read, nothing of the run has changed in between. Comparing the version in a transaction is
  therefore as good as comparing the whole row.
\<close>

theorem version_identifies_run:
  assumes "gate_reads_back env" "empty_store s" "run (adb_step env) s d" "run (adb_step env) d d'"
    and "run_of x d = Some h"
  shows "\<exists>h'. run_of x d' = Some h' \<and> h_version h \<le> h_version h' \<and> (h_version h' = h_version h \<longrightarrow> h' = h)"
proof -
  have "gate_reads_back env \<and> adb_ok env d"
    using store.reachable_invar [of env s d] assms(1-3) by blast
  then have "store_grows d d'" using store.run_grows [of env d d'] assms(4) by blast
  then have "handoff_step\<^sup>*\<^sup>* (run_of x d) (run_of x d')" by (simp add: store_grows_def)
  then have "handoff_step\<^sup>*\<^sup>* (Some h) (run_of x d')" by (simp only: assms(5))
  then show ?thesis using handoff_steps_version by fastforce
qed

section \<open>Replayed approvals\<close>

lemma email_of_update:
  assumes "\<And>l. lg_id (f l) = lg_id l"
  shows "email_of x (snd (update_log p f d)) = map_option (\<lambda>l. if p l then f l else l) (email_of x d)"
proof (cases "decision_of x d")
  case (Some t)
  have "select_one (\<lambda>l. lg_id l = td_external_email_id t) (sql_update p f (a_log d))
      = map_option (\<lambda>l. if p l then f l else l) (select_one (\<lambda>l. lg_id l = td_external_email_id t) (a_log d))"
    by (rule select_one_sql_update) (simp add: assms)
  moreover have "decision_of x (snd (update_log p f d)) = Some t"
    using Some by (simp add: decision_of_def)
  moreover have "a_log (snd (update_log p f d)) = sql_update p f (a_log d)"
    by (simp add: update_log_def)
  ultimately show ?thesis using Some by (simp add: email_of_def)
qed (simp add: email_of_def decision_of_def)

lemma email_of_update_runs [simp]: "email_of x (snd (update_runs p f d)) = email_of x d"
  by (simp add: email_of_def decision_of_def split: option.split)

text \<open>What a created approval read and what it leaves behind.\<close>

lemma created_approval:
  assumes "approve_payload_revision env x n v digest approver approved_at d = Inr (c, d')"
    and "cr_status c = COMMIT_CREATED"
  obtains p t e h l where
    "read_envelope env (proposed_envelope x n digest approver approved_at p t) = Inr e"
    "payload_of x n d = Some p" "p_payload_digest p = digest" "p_inbox_id p = x" "p_revision p = n"
    "run_of x d = Some h" "h_payload_revision h = Some n"
    "run_of x d' = Some (h\<lparr>h_state := HS_APPROVED, h_version := h_version h + 1\<rparr>)"
    "decision_of x d' = Some t" "payload_of x n d' = Some p" "lg_id l = td_external_email_id t"
    "email_of x d' = Some (set_email_approved approver approved_at p l)" "\<not> has_envelope x d"
    "a_envelopes d' = a_envelopes d @ [envelope_row_of (ge_router env) e p approved_at]"
    "cr_envelope c = dump_envelope e" "cr_digest c = envelope_digest (ge_router env) e"
    "map h_inbox_id (a_runs d') = map h_inbox_id (a_runs d)" "map lg_id (a_log d') = map lg_id (a_log d)"
    "a_decisions d' = a_decisions d"
  using assms(1)
proof (rule approve_payload_revision_cases)
  assume "d' = d" "approved_view x d \<noteq> []"
  then show ?thesis
    using assms(1,2) by (auto simp: approve_payload_revision_def validate_existing_approved_envelope_def Let_def
        and_then_Inr split: list.splits sum.splits if_splits)
next
  fix p t e
  assume p: "pending_payload x n digest v d = Some (p, t)"
    and e: "read_envelope env (proposed_envelope x n digest approver approved_at p t) = Inr e"
    and none: "\<not> has_envelope x d"
    and c: "c = \<lparr>cr_status = COMMIT_CREATED, cr_envelope = dump_envelope e,
            cr_digest = envelope_digest (ge_router env) e\<rparr>"
    and d': "d' = snd (update_log (awaiting (td_external_email_id t)) (set_email_approved approver approved_at p)
              (snd (update_runs (pending_run x v n) (\<lambda>h. h\<lparr>h_state := HS_APPROVED\<rparr>)
                (d\<lparr>a_envelopes := a_envelopes d @ [envelope_row_of (ge_router env) e p approved_at]\<rparr>))))"
  note pend = pending_payload_SomeD [OF p]
  let ?d1 = "d\<lparr>a_envelopes := a_envelopes d @ [envelope_row_of (ge_router env) e p approved_at]\<rparr>"
  let ?d2 = "snd (update_runs (pending_run x v n) (\<lambda>h. h\<lparr>h_state := HS_APPROVED\<rparr>) ?d1)"
  have row: "p_inbox_id p = x" "p_revision p = n"
    using select_one_SomeD [OF pend(1) [unfolded payload_of_def]] by auto
  obtain h where h: "run_of x d = Some h" "h_version h = v" "h_state h = HS_APPROVAL_PENDING"
    "h_payload_revision h = Some n" using pend(4) by blast
  then have "pending_run x v n h"
    by (auto simp: pending_run_def at_version_def run_of_def dest: select_one_SomeD)
  moreover have "run_of x ?d1 = run_of x d" by (simp add: run_of_def)
  moreover have "run_of x d' = run_of x ?d2" unfolding d' by (rule run_of_same) simp
  ultimately have run: "run_of x d' = Some (h\<lparr>h_state := HS_APPROVED, h_version := h_version h + 1\<rparr>)"
    using h(1) by (simp add: run_of_update)
  obtain l where l: "email_of x d = Some l" "lg_status l = Some (lit ''waiting_approval'')" using pend(5) by blast
  then have id: "lg_id l = td_external_email_id t"
    using pend(2) by (auto simp: email_of_def dest: select_one_SomeD)
  have keep: "lg_id (set_email_approved approver approved_at p g) = lg_id g" for g
    by (simp add: set_email_approved_def set_status_def set_column_def)
  have "email_of x ?d1 = email_of x d" by (simp add: email_of_def decision_of_def split: option.split)
  then have email: "email_of x d' = Some (set_email_approved approver approved_at p l)"
    unfolding d' using l id by (simp add: email_of_update keep awaiting_def)
  have logs: "map lg_id (a_log d') = map lg_id (a_log d)"
    unfolding d' by (simp add: update_log_def sql_update_keeps_key keep)
  have runs: "map h_inbox_id (a_runs d') = map h_inbox_id (a_runs d)"
    unfolding d' update_log_simps update_runs_rows by (subst sql_update_keeps_key) simp_all
  have same: "decision_of x d' = Some t" "payload_of x n d' = Some p"
    "a_envelopes d' = a_envelopes d @ [envelope_row_of (ge_router env) e p approved_at]"
    "a_decisions d' = a_decisions d"
    unfolding d' using pend(1,2) by (simp_all add: decision_of_def payload_of_def)
  show ?thesis
    by (rule that [OF e pend(1,3) row h(1,4) run same(1,2) id email none same(3) _ _ runs logs same(4)])
      (simp_all add: c)
qed

text \<open>Its replay finds exactly that approval.\<close>

lemma created_approval_view:
  assumes "approve_payload_revision env x n v digest approver approved_at d = Inr (c, d')"
    and "cr_status c = COMMIT_CREATED" and "gate_reads_back env"
  obtains p t e where "approved_view x d' = [(envelope_row_of (ge_router env) e p approved_at, p, t)]"
    "read_envelope env (proposed_envelope x n digest approver approved_at p t) = Inr e"
    "p_payload_digest p = digest" "p_inbox_id p = x" "p_revision p = n"
    "cr_envelope c = dump_envelope e" "cr_digest c = envelope_digest (ge_router env) e"
proof (rule created_approval [OF assms(1,2)])
  fix p t e h l
  assume e: "read_envelope env (proposed_envelope x n digest approver approved_at p t) = Inr e"
    and p: "p_payload_digest p = digest" "p_inbox_id p = x" "p_revision p = n"
    and h: "h_payload_revision h = Some n"
      "run_of x d' = Some (h\<lparr>h_state := HS_APPROVED, h_version := h_version h + 1\<rparr>)"
    and same: "decision_of x d' = Some t" "payload_of x n d' = Some p"
    and email: "email_of x d' = Some (set_email_approved approver approved_at p l)"
    and none: "\<not> has_envelope x d"
    and envelopes: "a_envelopes d' = a_envelopes d @ [envelope_row_of (ge_router env) e p approved_at]"
    and c: "cr_envelope c = dump_envelope e" "cr_digest c = envelope_digest (ge_router env) e"
  let ?row = "envelope_row_of (ge_router env) e p approved_at"
  have keys: "v_inbox_id ?row = x" "v_payload_revision ?row = n"
    using read_proposed_envelope(2,3) [OF assms(3) p(1) e] by (simp_all add: envelope_row_of_def)
  have "filter (\<lambda>u. v_inbox_id u = x \<and> Some n = Some (v_payload_revision u)) (a_envelopes d) = []"
    using none by (auto simp: has_envelope_def filter_empty_conv)
  then have "approved_view x d' = [(?row, p, t)]"
    using h keys same email
    by (simp add: approved_view_def envelopes email_has_def set_email_approved_def set_status_def)
  then show ?thesis using that e p c by simp
qed


section \<open>Recovery\<close>

definition one_run_per_email :: "adb \<Rightarrow> bool" where
  "one_run_per_email d \<longleftrightarrow>
     (\<forall>h\<in>set (a_runs d). \<forall>g\<in>set (a_runs d). \<forall>l.
        email_of (h_inbox_id h) d = Some l \<longrightarrow> run_email_is d l g \<longrightarrow> g = h)"

lemma run_email_is_email_of: "email_of (h_inbox_id h) d = Some l \<Longrightarrow> run_email_is d l h"
  by (auto simp: email_of_def run_email_is_def dest: select_one_SomeD split: option.splits)

lemma winning_run:
  assumes "one_run_per_email d" "\<And>xs. set (order xs) = set xs" "h \<in> set (a_runs d)"
    and "email_of (h_inbox_id h) d = Some l"
  shows "winning_run order d l = (if inconsistent_run d h then Some h else None)"
proof (cases "inconsistent_run d h")
  case True
  then have "\<exists>g\<in>set (order (filter (inconsistent_run d) (a_runs d))). run_email_is d l g"
    using assms(3) run_email_is_email_of [OF assms(4)] by (auto simp: assms(2))
  then obtain g where g: "winning_run order d l = Some g"
    unfolding winning_run_def by (cases "select_one (run_email_is d l) (order (filter (inconsistent_run d) (a_runs d)))")
      (auto simp: select_one_None)
  then have "g \<in> set (a_runs d)" "run_email_is d l g"
    unfolding winning_run_def using assms(2) by (auto dest!: select_one_SomeD)
  with assms(1,3,4) have "g = h" unfolding one_run_per_email_def by blast
  with g True show ?thesis by simp
next
  case False
  have "\<not> run_email_is d l g" if "g \<in> set (a_runs d)" "inconsistent_run d g" for g
    using that False assms(1,3,4) unfolding one_run_per_email_def by blast
  then show ?thesis using False by (auto simp: winning_run_def select_one_None assms(2))
qed

lemma recover_durable_result:
  assumes "recover_durable_handoff_states order d = Inr (m, d')"
  shows "d' = snd (update_log (\<lambda>l. winning_run order d l \<noteq> None)
      (\<lambda>l. case winning_run order d l of None \<Rightarrow> l | Some h \<Rightarrow> close_email (h_state h) l)
      (snd (update_runs (inconsistent_run d) close_run d)))"
  using assms unfolding recover_durable_handoff_states_def tx_unfold by (simp only: sum.inject snd_conv)

lemma recovered_email:
  assumes "one_run_per_email d" "\<And>xs. set (order xs) = set xs" "h \<in> set (a_runs d)"
    and "recover_durable_handoff_states order d = Inr (m, d')"
  shows "email_of (h_inbox_id h) d' =
    map_option (\<lambda>l. if inconsistent_run d h then close_email (h_state h) l else l) (email_of (h_inbox_id h) d)"
proof -
  have "email_of (h_inbox_id h) d' = map_option (\<lambda>l. if winning_run order d l \<noteq> None
      then (case winning_run order d l of None \<Rightarrow> l | Some h \<Rightarrow> close_email (h_state h) l) else l)
      (email_of (h_inbox_id h) d)"
    unfolding recover_durable_result [OF assms(4)]
    by (subst email_of_update)
      (auto simp: close_email_def set_failure_def set_status_def set_column_def Let_def split: option.split)
  then show ?thesis
    using winning_run [OF assms(1-3)] by (cases "email_of (h_inbox_id h) d") simp_all
qed

lemma recovered_run:
  assumes "recover_durable_handoff_states order d = Inr (m, d')" "h' \<in> set (a_runs d')"
  obtains h where "h \<in> set (a_runs d)" "h_inbox_id h' = h_inbox_id h"
    "inconsistent_run d h \<Longrightarrow> h_state h' = (if h_state h = HS_EXECUTING then HS_FAILED else HS_MANUAL_REVIEW)"
    "\<not> inconsistent_run d h \<Longrightarrow> h' = h"
proof -
  from assms(2) have "h' \<in> set (sql_update (inconsistent_run d)
      (\<lambda>h. (close_run h)\<lparr>h_version := h_version h + 1\<rparr>) (a_runs d))"
    by (simp only: recover_durable_result [OF assms(1)] update_log_simps update_runs_rows)
  then obtain h where "h \<in> set (a_runs d)"
    "h' = (if inconsistent_run d h then (close_run h)\<lparr>h_version := h_version h + 1\<rparr> else h)"
    unfolding sql_update_in_set by blast
  then show ?thesis by (intro that [of h]) (simp_all add: close_run_def)
qed

lemma closed_statuses:
  "lg_status (close_email s l) \<in> {Some (lit ''send_unknown''), Some (lit ''manual_review'')}"
  by (simp add: close_email_def set_failure_def set_status_def set_column_def Let_def)

lemma recovery_leaves_consistent:
  assumes "one_run_per_email d" "\<And>xs. set (order xs) = set xs"
    and "recover_durable_handoff_states order d = Inr (m, d')" "h' \<in> set (a_runs d')"
  shows "\<not> inconsistent_run d' h'"
proof -
  obtain h where h: "h \<in> set (a_runs d)" "h_inbox_id h' = h_inbox_id h"
    "inconsistent_run d h \<Longrightarrow> h_state h' = (if h_state h = HS_EXECUTING then HS_FAILED else HS_MANUAL_REVIEW)"
    "\<not> inconsistent_run d h \<Longrightarrow> h' = h"
    using recovered_run [OF assms(3,4)] by metis
  note email = recovered_email [OF assms(1,2) h(1) assms(3)]
  have envelopes: "a_envelopes d' = a_envelopes d" by (simp add: recover_durable_result [OF assms(3)])
  show ?thesis
  proof (cases "inconsistent_run d h")
    case True
    then obtain l where "email_of (h_inbox_id h) d = Some l"
      by (auto simp: inconsistent_run_def split: option.splits)
    then have "email_of (h_inbox_id h') d' = Some (close_email (h_state h) l)"
      using email True h(2) by simp
    moreover have "h_state h' \<in> {HS_FAILED, HS_MANUAL_REVIEW}" using h(3) [OF True] by simp
    ultimately show ?thesis
      using closed_statuses [of "h_state h" l] by (auto simp: inconsistent_run_def)
  next
    case False
    then have "email_of (h_inbox_id h) d' = email_of (h_inbox_id h) d"
      using email by (cases "email_of (h_inbox_id h) d") simp_all
    then have "inconsistent_run d' h = inconsistent_run d h"
      by (simp only: inconsistent_run_def envelopes)
    with h(4) [OF False] False show ?thesis by simp
  qed
qed

lemma recovery_idle:
  assumes "\<And>xs. set (order xs) = set xs" "\<forall>h\<in>set (a_runs d). \<not> inconsistent_run d h"
  shows "recover_durable_handoff_states order d = Inr (0, d)"
proof -
  have none: "filter (inconsistent_run d) (a_runs d) = []" using assms(2) by (simp add: filter_empty_conv)
  have runs: "snd (update_runs (inconsistent_run d) close_run d) = d"
    by (simp add: update_runs_def sql_update_no_match [OF none])
  have "set (order []) = {}" using assms(1) [of "[]"] by simp
  then have "winning_run order d l = None" for l
    by (simp add: winning_run_def none select_one_None)
  then have "update_log (\<lambda>l. winning_run order d l \<noteq> None) g d = (0, d)" for g
    by (simp add: update_log_def sql_update_def)
  with runs show ?thesis unfolding recover_durable_handoff_states_def tx_unfold by simp
qed


end
