(* ===== verification/ApprovalDelivery.thy ===== *)
theory ApprovalDelivery
  imports ApprovalSafety
begin

text \<open>
  An approval that was created is deliverable: an undisturbed invocation of \<^verbatim>\<open>send_final_email\<close> passes
  the gate, wins the claim, sends the mail and completes the run.
\<close>

section \<open>One row matches\<close>

lemma filter_one:
  assumes "distinct (map k xs)" "y \<in> set xs" "p y" "\<And>z. z \<in> set xs \<Longrightarrow> p z \<Longrightarrow> k z = k y"
  shows "filter p xs = [y]"
proof -
  have inj: "inj_on k (set xs)" using assms(1) by (simp add: distinct_map)
  have "z = y" if "z \<in> set xs" "p z" for z
    by (rule inj_onD [OF inj assms(4) [OF that] that(1) assms(2)])
  then have eq: "set (filter p xs) = {y}" unfolding set_filter using assms(2,3) by blast
  have "distinct (filter p xs)" using assms(1) by (simp add: distinct_map)
  from distinct_card [OF this] have "length (filter p xs) = 1" by (simp only: eq) simp
  then obtain z where z: "filter p xs = [z]" by (cases "filter p xs") auto
  from eq have "z = y" by (simp only: z) simp
  with z show ?thesis by simp
qed

text \<open>The primary keys of the tables the delivery writes.\<close>

definition delivery_keys :: "adb \<Rightarrow> bool" where
  "delivery_keys d \<longleftrightarrow>
     run_keys_distinct d \<and> distinct (map lg_id (a_log d)) \<and> distinct (map td_inbox_id (a_decisions d))"

lemma is_email_in_one:
  assumes "delivery_keys d" "email_of x d = Some l" "lg_status l = Some (lit s)"
  shows "filter (is_email_in x s d) (a_log d) = [l]"
proof (rule filter_one [where k = lg_id])
  show "distinct (map lg_id (a_log d))" using assms(1) by (simp add: delivery_keys_def)
  from assms(2) obtain t where t: "decision_of x d = Some t" "l \<in> set (a_log d)" "lg_id l = td_external_email_id t"
    by (auto simp: email_of_def dest: select_one_SomeD split: option.splits)
  then have t': "t \<in> set (a_decisions d)" "td_inbox_id t = x"
    by (auto simp: decision_of_def dest: select_one_SomeD)
  show "l \<in> set (a_log d)" "is_email_in x s d l"
    using t t' assms(3) by (auto simp: is_email_in_def)
  have "u = t" if "u \<in> set (a_decisions d)" "td_inbox_id u = x" for u
    using assms(1) t' that unfolding delivery_keys_def by (metis distinct_map inj_on_eq_iff)
  then show "lg_id z = lg_id l" if "is_email_in x s d z" for z
    using that t(3) by (auto simp: is_email_in_def)
qed

lemma update_email:
  assumes "delivery_keys d" "email_of x d = Some l" "lg_status l = Some (lit s)" "\<And>l. lg_id (f l) = lg_id l"
  shows "fst (update_log (is_email_in x s d) f d) = 1"
    "email_of x (snd (update_log (is_email_in x s d) f d)) = Some (f l)"
    "delivery_keys (snd (update_log (is_email_in x s d) f d))"
proof -
  note one = is_email_in_one [OF assms(1-3)]
  then show "fst (update_log (is_email_in x s d) f d) = 1" by simp
  have "is_email_in x s d l" using one by (metis filter_eq_ConsD)
  then show "email_of x (snd (update_log (is_email_in x s d) f d)) = Some (f l)"
    by (simp add: email_of_update assms(2,4))
  have "map lg_id (a_log (snd (update_log (is_email_in x s d) f d))) = map lg_id (a_log d)"
    by (simp add: update_log_def sql_update_keeps_key assms(4))
  then show "delivery_keys (snd (update_log (is_email_in x s d) f d))"
    using assms(1) by (simp add: delivery_keys_def run_keys_distinct_def)
qed

lemma update_run:
  assumes "delivery_keys d" "run_of x d = Some h" "p h" "\<And>g. p g \<Longrightarrow> h_inbox_id g = x"
    and "\<And>g. h_inbox_id (f g) = h_inbox_id g"
  shows "fst (update_runs p f d) = 1"
    "run_of x (snd (update_runs p f d)) = Some ((f h)\<lparr>h_version := h_version h + 1\<rparr>)"
    "delivery_keys (snd (update_runs p f d))"
proof -
  have h: "h \<in> set (a_runs d)" "h_inbox_id h = x" using assms(2) by (auto simp: run_of_def dest: select_one_SomeD)
  have "filter p (a_runs d) = [h]"
    by (rule filter_one [where k = h_inbox_id])
      (use assms(1,3,4) h in \<open>simp_all add: delivery_keys_def run_keys_distinct_def\<close>)
  then show "fst (update_runs p f d) = 1" by simp
  show "run_of x (snd (update_runs p f d)) = Some ((f h)\<lparr>h_version := h_version h + 1\<rparr>)"
    by (simp add: run_of_update assms(2,3,5))
  have "map h_inbox_id (a_runs (snd (update_runs p f d))) = map h_inbox_id (a_runs d)"
    unfolding update_runs_rows by (rule sql_update_keeps_key) (simp add: assms(5))
  then show "delivery_keys (snd (update_runs p f d))"
    using assms(1) by (simp add: delivery_keys_def run_keys_distinct_def)
qed

section \<open>Claim and completion of an undisturbed delivery\<close>

lemma claim_execution_succeeds:
  assumes "delivery_keys d" "run_of x d = Some h" "h_state h = HS_APPROVED" "h_execution_claim_id h = None"
    and "h_payload_revision h = Some n" "v \<in> set (a_envelopes d)" "v_inbox_id v = x" "v_payload_revision v = n"
    and "email_of x d = Some l" "lg_status l = Some (lit ''approved'')"
  obtains d' where "claim_execution x n (h_version h) claim_id d = Inr (True, d')" "delivery_keys d'"
    "run_of x d' = Some (h\<lparr>h_state := HS_EXECUTING, h_execution_claim_id := Some claim_id,
       h_version := h_version h + 1\<rparr>)"
    "email_of x d' = Some (set_status ''sending'' l)"
proof -
  define d1 where "d1 = snd (update_log (is_email_in x ''approved'' d) (set_status ''sending'') d)"
  note email = update_email [OF assms(1,9,10), of "set_status ''sending''"]
  have d1: "fst (update_log (is_email_in x ''approved'' d) (set_status ''sending'') d) = 1"
    "email_of x d1 = Some (set_status ''sending'' l)" "delivery_keys d1"
    unfolding d1_def using email by (simp_all add: set_status_def)
  have runs: "run_of x d1 = Some h" "a_envelopes d1 = a_envelopes d"
    using assms(2) by (simp_all add: d1_def run_of_def)
  let ?p = "claimable_run x n (h_version h) d1"
  let ?f = "\<lambda>h. h\<lparr>h_state := HS_EXECUTING, h_execution_claim_id := Some claim_id\<rparr>"
  have "h_inbox_id h = x" using assms(2) by (auto simp: run_of_def dest: select_one_SomeD)
  then have hit: "?p h"
    using assms(3-8) by (auto simp: claimable_run_def at_version_def runs)
  note run = update_run [where p = ?p and f = ?f, OF d1(3) runs(1) hit]
  have run': "fst (update_runs ?p ?f d1) = 1" "delivery_keys (snd (update_runs ?p ?f d1))"
    "run_of x (snd (update_runs ?p ?f d1)) = Some (h\<lparr>h_state := HS_EXECUTING,
       h_execution_claim_id := Some claim_id, h_version := h_version h + 1\<rparr>)"
    using run by (simp_all add: claimable_run_def at_version_def)
  show ?thesis
  proof (rule that [of "snd (update_runs ?p ?f d1)"])
    show "claim_execution x n (h_version h) claim_id d = Inr (True, snd (update_runs ?p ?f d1))"
      unfolding claim_execution_def tx_unfold d1_def [symmetric] using d1(1) run'(1) by simp
    show "email_of x (snd (update_runs ?p ?f d1)) = Some (set_status ''sending'' l)" using d1(2) by simp
  qed (use run' in simp_all)
qed

lemma complete_execution_succeeds:
  assumes "delivery_keys d" "run_of x d = Some h" "h_state h = HS_EXECUTING"
    and "email_of x d = Some l" "lg_status l = Some (lit ''sending'')"
  obtains d' where "complete_execution x (h_version h) True d = Inr (True, d')"
    "run_of x d' = Some (h\<lparr>h_state := HS_COMPLETED, h_version := h_version h + 1\<rparr>)"
    "email_of x d' = Some (set_status ''sent'' l)"
proof -
  let ?p = "at_version x (h_version h) [HS_EXECUTING]"
  let ?f = "\<lambda>h. h\<lparr>h_state := if True then HS_COMPLETED else HS_FAILED\<rparr>"
  define d1 where "d1 = snd (update_runs ?p ?f d)"
  have "h_inbox_id h = x" using assms(2) by (auto simp: run_of_def dest: select_one_SomeD)
  then have hit: "?p h" using assms(3) by (simp add: at_version_def)
  note run = update_run [where p = ?p and f = ?f, OF assms(1,2) hit]
  have d1: "fst (update_runs ?p ?f d) = 1" "delivery_keys d1"
    "run_of x d1 = Some (h\<lparr>h_state := HS_COMPLETED, h_version := h_version h + 1\<rparr>)"
    unfolding d1_def using run by (simp_all add: at_version_def)
  have mail: "email_of x d1 = Some l" using assms(4) by (simp add: d1_def)
  note email = update_email [OF d1(2) mail assms(5), of "set_status ''sent''"]
  let ?d2 = "snd (update_log (is_email_in x ''sending'' d1) (set_status ''sent'') d1)"
  show ?thesis
  proof (rule that [of ?d2])
    show "complete_execution x (h_version h) True d = Inr (True, ?d2)"
      unfolding complete_execution_def tx_unfold d1_def [symmetric] using d1(1) email(1)
      by (simp add: set_status_def)
    show "run_of x ?d2 = Some (h\<lparr>h_state := HS_COMPLETED, h_version := h_version h + 1\<rparr>)"
      using d1(3) by (simp add: run_of_def)
    show "email_of x ?d2 = Some (set_status ''sent'' l)" using email(2) by (simp add: set_status_def)
  qed
qed

section \<open>Passing the gate\<close>

text \<open>What the sender finds after an approval was created.\<close>

lemma created_approval_store:
  assumes "approve_payload_revision env x n v digest approver approved_at d = Inr (c, d')"
    and "cr_status c = COMMIT_CREATED" "gate_reads_back env" "delivery_keys d" "run_of x d = Some h"
    and "h_execution_claim_id h = None"
    and "\<And>p. payload_of x n d = Some p \<Longrightarrow> p_decision_digest p = h_decision_digest h
           \<and> p_plan_digest p = h_plan_digest h \<and> Some (p_evidence_digest p) = h_evidence_digest h"
  obtains e l p where "run_of x d' = Some (h\<lparr>h_state := HS_APPROVED, h_version := h_version h + 1\<rparr>)"
    "h_payload_revision h = Some n"
    "email_of x d' = Some l" "lg_status l = Some (lit ''approved'')" "lg_id l = en_email_id e" "delivery_keys d'"
    "envelope_row_of (ge_router env) e p approved_at \<in> set (a_envelopes d')"
    "get_approved_execution_envelope x n d' = Some (dump_envelope e, envelope_digest (ge_router env) e)"
    "execution_gate env (dump_envelope e) (Some (envelope_digest (ge_router env) e)) = Inr e"
    "en_inbox_id e = x" "en_payload_revision e = n" "en_decision_digest e = h_decision_digest h"
    "en_plan_digest e = h_plan_digest h" "h_evidence_digest h = Some (en_evidence_digest e)"
    "cr_envelope c = dump_envelope e"
proof (rule created_approval [OF assms(1,2)])
  fix p t e g l
  assume e: "read_envelope env (proposed_envelope x n digest approver approved_at p t) = Inr e"
    and p: "payload_of x n d = Some p" "p_payload_digest p = digest"
    and g: "run_of x d = Some g" "h_payload_revision g = Some n"
      "run_of x d' = Some (g\<lparr>h_state := HS_APPROVED, h_version := h_version g + 1\<rparr>)"
    and l: "lg_id l = td_external_email_id t" "email_of x d' = Some (set_email_approved approver approved_at p l)"
    and none: "\<not> has_envelope x d"
    and envelopes: "a_envelopes d' = a_envelopes d @ [envelope_row_of (ge_router env) e p approved_at]"
    and c: "cr_envelope c = dump_envelope e"
    and keys: "map h_inbox_id (a_runs d') = map h_inbox_id (a_runs d)" "map lg_id (a_log d') = map lg_id (a_log d)"
      "a_decisions d' = a_decisions d"
  note read = read_proposed_envelope [OF assms(3) p(2) e]
  let ?row = "envelope_row_of (ge_router env) e p approved_at"
  have "g = h" using g(1) assms(5) by simp
  have valid: "validate_envelope (ge_router env) e = Inr e" "final_decision (ge_router env) (en_route_decision e)"
    using read_envelope_valid [OF e] by simp_all
  have stored: "read_envelope env (dump_envelope e) = Inr e"
    using read_dump_envelope [OF assms(3) valid(2) read(8)] valid(1) by simp
  have "select_one (\<lambda>v. v_inbox_id v = x \<and> v_payload_revision v = n) (a_envelopes d) = None"
    using none by (auto simp: select_one_None has_envelope_def)
  then have fetch: "get_approved_execution_envelope x n d' = Some (dump_envelope e, envelope_digest (ge_router env) e)"
    using read(2,3) by (simp add: get_approved_execution_envelope_def envelopes select_one_append envelope_row_of_def)
  have "execution_gate env (dump_envelope e) (Some (envelope_digest (ge_router env) e)) = Inr e"
    by (simp add: execution_gate_def stored)
  moreover have "delivery_keys d'"
    using assms(4) keys by (simp add: delivery_keys_def run_keys_distinct_def)
  ultimately show ?thesis
    using that [of "set_email_approved approver approved_at p l" e p] g l \<open>g = h\<close> envelopes fetch read(1-3,6) c
      assms(7) [OF p(1)]
    by (simp add: freezes_def set_email_approved_def set_status_def set_column_def)
qed

section \<open>The delivery\<close>

text \<open>An invocation running alone: its phase, the store and the mails it has sent.\<close>

definition alone :: "gate_env \<Rightarrow> invocation \<Rightarrow> sender_phase \<times> adb \<times> mail list \<Rightarrow> sender_phase \<times> adb \<times> mail list \<Rightarrow> bool" where
  "alone env i = (\<lambda>(p, d, ms) (p', d', ms'). \<exists>sent. sender_step env i p d p' d' sent \<and> ms' = ms @ sent)"

text \<open>Reading the approved run and its envelope.\<close>

lemma delivery_ready:
  assumes "iv_approved i" "iv_inbox_id i = Some x" "run_of x d = Some g" "h_state g = HS_APPROVED"
    and "h_payload_revision g = Some n" "0 < n"
    and "get_approved_execution_envelope x n d = Some (j, digest)" "execution_gate env j (Some digest) = Inr e"
    and "envelope_fits i g e"
  shows "run (alone env i) (SP_BEGIN, d, []) (SP_READY g e, d, [])"
proof (rule run_step, rule run_step, rule run_refl)
  have "after_run (run_of x d) = SP_HAVE_RUN g"
    using assms(3-6) by (simp add: after_run_def replayed_states_def)
  with sender_step.read_run [OF assms(1,2), of env d]
  show "alone env i (SP_BEGIN, d, []) (SP_HAVE_RUN g, d, [])" by (auto simp: alone_def)
  have "after_envelope env i g (get_approved_execution_envelope x (revision_of g) d) = SP_READY g e"
    using assms(5,7-9) by (simp add: after_envelope_def revision_of_def)
  with sender_step.fetch_envelope [OF assms(2), of env g d]
  show "alone env i (SP_HAVE_RUN g, d, []) (SP_READY g e, d, [])" by (auto simp: alone_def)
qed

lemma delivery_done:
  assumes "iv_inbox_id i = Some x"
    and "claim_execution x (revision_of g) (h_version g) claim_id d = Inr (True, d1)"
    and "complete_execution x (h_version g + 1) True d1 = Inr (True, d2)"
  shows "run (alone env i) (SP_READY g e, d, []) (SP_DONE STEP_END, d2, [mail_of e])"
proof (rule run_step, rule run_step, rule run_step, rule run_refl)
  have claim: "db_call (claim_execution x (revision_of g) (h_version g) claim_id) d (Returned True) d1"
    and complete: "db_call (complete_execution x (h_version g + 1) True) d1 (Returned True) d2"
    by (rule call_returned, rule assms)+
  show "alone env i (SP_READY g e, d, []) (SP_CLAIMED g e, d1, [])"
    using sender_step.claim [OF assms(1) claim, of env e]
    by (auto simp: alone_def)
  show "alone env i (SP_CLAIMED g e, d1, []) (SP_SENT g e, d1, [mail_of e])"
    using sender_step.send [of "[mail_of e]" e REPORTED_SENT env i g d1] by (auto simp: alone_def)
  show "alone env i (SP_SENT g e, d1, [mail_of e]) (SP_DONE STEP_END, d2, [mail_of e])"
    using sender_step.complete [OF assms(1) complete, of True False env e]
    by (auto simp: alone_def)
qed

lemma delivery_of_created:
  assumes "gate_reads_back env" "delivery_keys d" "run_of x d = Some h" "h_execution_claim_id h = None"
    and "\<And>p. payload_of x n d = Some p \<Longrightarrow> p_decision_digest p = h_decision_digest h
           \<and> p_plan_digest p = h_plan_digest h \<and> Some (p_evidence_digest p) = h_evidence_digest h"
    and "approve_payload_revision env x n v digest approver approved_at d = Inr (c, d')"
    and "cr_status c = COMMIT_CREATED" "iv_approved i" "iv_inbox_id i = Some x"
    and "\<And>l. email_of x d' = Some l \<Longrightarrow> lg_id l = iv_email_id i"
  shows "\<exists>e d2 g l. cr_envelope c = dump_envelope e \<and> en_inbox_id e = x
    \<and> run (alone env i) (SP_BEGIN, d', []) (SP_DONE STEP_END, d2, [mail_of e])
    \<and> run_of x d2 = Some g \<and> h_state g = HS_COMPLETED
    \<and> email_of x d2 = Some l \<and> lg_status l = Some (lit ''sent'')"
proof (rule created_approval_store [OF assms(6,7,1-5)])
  fix e l p
  let ?g = "h\<lparr>h_state := HS_APPROVED, h_version := h_version h + 1\<rparr>"
  let ?row = "envelope_row_of (ge_router env) e p approved_at"
  assume run: "run_of x d' = Some ?g" "h_payload_revision h = Some n"
    and l: "email_of x d' = Some l" "lg_status l = Some (lit ''approved'')" "lg_id l = en_email_id e"
    and keys: "delivery_keys d'" and row: "?row \<in> set (a_envelopes d')"
    and gate: "get_approved_execution_envelope x n d' = Some (dump_envelope e, envelope_digest (ge_router env) e)"
      "execution_gate env (dump_envelope e) (Some (envelope_digest (ge_router env) e)) = Inr e"
    and e: "en_inbox_id e = x" "en_payload_revision e = n" "en_decision_digest e = h_decision_digest h"
      "en_plan_digest e = h_plan_digest h" "h_evidence_digest h = Some (en_evidence_digest e)"
    and c: "cr_envelope c = dump_envelope e"
  from gate(2) have "validate_envelope (ge_router env) e = Inr e"
    using read_envelope_valid by (auto simp: execution_gate_def and_then_Inr)
  then have "0 < n" using e(2) by (auto simp: validate_envelope_def envelope_fields_ok_def and_then_Inr)
  moreover have "envelope_fits i ?g e"
    using e run(2) assms(9) assms(10) [OF l(1)] l(3) by (simp add: envelope_fits_def)
  ultimately have ready: "run (alone env i) (SP_BEGIN, d', []) (SP_READY ?g e, d', [])"
    using delivery_ready [OF assms(8,9) run(1) _ _ _ gate] run(2) by simp
  obtain d1 where d1: "claim_execution x n (h_version ?g) (lit ''c'') d' = Inr (True, d1)" "delivery_keys d1"
    "run_of x d1 = Some (?g\<lparr>h_state := HS_EXECUTING, h_execution_claim_id := Some (lit ''c''),
       h_version := h_version ?g + 1\<rparr>)" "email_of x d1 = Some (set_status ''sending'' l)"
    using claim_execution_succeeds [OF keys run(1) _ _ _ row _ _ l(1,2)] assms(4) run(2) e(1,2)
    by (auto simp: envelope_row_of_def)
  let ?x = "?g\<lparr>h_state := HS_EXECUTING, h_execution_claim_id := Some (lit ''c''), h_version := h_version ?g + 1\<rparr>"
  obtain d2 where d2: "complete_execution x (h_version ?x) True d1 = Inr (True, d2)"
    "run_of x d2 = Some (?x\<lparr>h_state := HS_COMPLETED, h_version := h_version ?x + 1\<rparr>)"
    "email_of x d2 = Some (set_status ''sent'' (set_status ''sending'' l))"
    by (rule complete_execution_succeeds [OF d1(2,3) _ d1(4)]) (simp_all add: set_status_def)
  then have ended: "\<exists>g. run_of x d2 = Some g \<and> h_state g = HS_COMPLETED"
    "\<exists>l. email_of x d2 = Some l \<and> lg_status l = Some (lit ''sent'')"
    by (simp_all add: set_status_def)
  have "run (alone env i) (SP_READY ?g e, d', []) (SP_DONE STEP_END, d2, [mail_of e])"
    by (rule delivery_done [OF assms(9)]) (use d1(1) d2(1) run(2) in \<open>simp_all add: revision_of_def\<close>)
  from run_trans [OF this ready] ended c e(1) show ?thesis by blast
qed

text \<open>
  C9. An approval is deliverable: when approving a payload revision created the envelope, an
  invocation of \<^verbatim>\<open>send_final_email\<close> for that email that runs undisturbed and is served by the mail
  server passes the gate, wins the claim and sends the mail of exactly the returned envelope, and
  ends with the run \<^verbatim>\<open>completed\<close> and the email \<^verbatim>\<open>sent\<close>.
\<close>

theorem approved_mail_goes_out:
  assumes "gate_reads_back env" "delivery_keys d" "run_of x d = Some h" "h_execution_claim_id h = None"
    and "\<And>p. payload_of x n d = Some p \<Longrightarrow> p_decision_digest p = h_decision_digest h
           \<and> p_plan_digest p = h_plan_digest h \<and> Some (p_evidence_digest p) = h_evidence_digest h"
    and "approve_payload_revision env x n v digest approver approved_at d = Inr (c, d')"
    and "cr_status c = COMMIT_CREATED" "iv_approved i" "iv_inbox_id i = Some x"
    and "\<And>l. email_of x d' = Some l \<Longrightarrow> lg_id l = iv_email_id i"
  shows "\<exists>e d2 g l. cr_envelope c = dump_envelope e
    \<and> run (alone env i) (SP_BEGIN, d', []) (SP_DONE STEP_END, d2, [mail_of e])
    \<and> run_of x d2 = Some g \<and> h_state g = HS_COMPLETED
    \<and> email_of x d2 = Some l \<and> lg_status l = Some (lit ''sent'')"
  using delivery_of_created [OF assms] by blast

end
