(* ===== verification/ApprovalScenario.thy ===== *)
theory ApprovalScenario
  imports ApprovalDelivery
begin

text \<open>
  One email from its plan to the sent mail, evaluated, and the properties of the durable approval
  applied to it. The hash is a constant text of the right form, which satisfies what the
  properties ask of it.
\<close>

definition sample_gate :: gate_env where
  "sample_gate = \<lparr>ge_router = \<lparr>casefold = ascii_lower, re_compiles = (\<lambda>p. True), re_search = (\<lambda>p s. False),
       r_sha256 = (\<lambda>b. replicate 64 97), r_float_text = (\<lambda>q. []),
       lax_bool = (\<lambda>j. case j of JBool b \<Rightarrow> Some b | _ \<Rightarrow> None), fromisoformat = (\<lambda>s. None)\<rparr>,
     ge_float = (\<lambda>j. case j of JFloat q \<Rightarrow> Some q | _ \<Rightarrow> None),
     ge_int = (\<lambda>j. case j of JInt n \<Rightarrow> Some n | _ \<Rightarrow> None),
     ge_datetime = (\<lambda>j. case j of JStr s \<Rightarrow> Some s | _ \<Rightarrow> None)\<rparr>"

definition hash_a :: pystr where "hash_a = replicate 64 97"

definition sample_inbox :: pystr where "sample_inbox = replicate 36 48"

definition sample_decision_json :: json where
  "sample_decision_json = JObj [(lit ''outcome'', JStr (lit ''matched'')), (lit ''route'', JStr (lit ''reply'')),
     (lit ''params'', JObj []),
     (lit ''provenance'', JObj [(lit ''tier'', JStr (lit ''tier3'')), (lit ''source_version'', JStr (lit ''m''))]),
     (lit ''handoff_profile_id'', JStr (lit ''generic_reply_v1''))]"

definition sample_start :: adb where
  "sample_start = \<lparr>a_log = [\<lparr>lg_id = lit ''mail-1'', lg_status = Some (lit ''waiting_approval''), lg_columns = []\<rparr>],
     a_decisions = [\<lparr>td_inbox_id = sample_inbox, td_account_id = 1, td_external_email_id = lit ''mail-1'',
       td_decision_digest = hash_a, td_decision_json = sample_decision_json\<rparr>], a_runs = [], a_payloads = [], a_envelopes = [], a_executions = []\<rparr>"

definition sample_payload :: "(pystr \<times> json) list" where
  "sample_payload = [(lit ''decision_digest'', JStr hash_a), (lit ''plan_digest'', JStr hash_a),
     (lit ''evidence_digest'', JStr hash_a), (lit ''draft_digest'', JStr hash_a),
     (lit ''editor'', JStr (lit ''u1'')), (lit ''edited_at'', JStr (lit ''2026-01-01'')),
     (lit ''draft_content'', JStr (lit ''Dear all'')), (lit ''to'', JArr [JStr (lit ''a@x.org'')]),
     (lit ''cc'', JArr []), (lit ''attachment_refs'', JArr []), (lit ''attachment_digests'', JArr []),
     (lit ''external_recipient_acknowledged'', JBool True)]"

definition after :: "'a tx \<Rightarrow> adb \<Rightarrow> adb" where
  "after f d = (case f d of Inl _ \<Rightarrow> d | Inr (_, d') \<Rightarrow> d')"

definition succeeds :: "'a tx \<Rightarrow> adb \<Rightarrow> bool" where
  "succeeds f d = (case f d of Inl _ \<Rightarrow> False | Inr _ \<Rightarrow> True)"

definition sample_plan_v1 :: handoff_plan where
  "sample_plan_v1 = \<lparr>hp_profile_id = lit ''generic_reply_v1'', hp_required_sources = [],
     hp_optional_sources = [], hp_max_items_per_source = 5, hp_writer_mode = WRITE_LLM,
     hp_prompt_modifier = None, hp_fixed_draft = None\<rparr>"

definition sample_planned :: adb where
  "sample_planned = after (persist_handoff_plan (ge_router sample_gate) sample_inbox hash_a sample_plan_v1) sample_start"

definition sample_evidenced :: adb where
  "sample_evidenced = after (persist_handoff_evidence (ge_router sample_gate) sample_inbox 0 \<lparr>ep_profile_id = lit ''generic_reply_v1'', ep_items = []\<rparr>) sample_planned"

definition sample_pending :: adb where
  "sample_pending = after (create_payload_revision (ge_router sample_gate) sample_inbox 1 None None sample_payload)
     sample_evidenced"

definition sample_approved :: adb where
  "sample_approved = after (approve_payload_revision sample_gate sample_inbox 1 2 hash_a (lit ''boss'') (lit ''t''))
     sample_pending"

lemma succeedsD: "succeeds f d \<Longrightarrow> \<exists>r. f d = Inr (r, after f d)"
  by (auto simp: succeeds_def after_def split: sum.splits)

lemma sample_plan_succeeds:
  "succeeds (persist_handoff_plan (ge_router sample_gate) sample_inbox hash_a sample_plan_v1) sample_start"
  by code_simp

lemma sample_evidence_succeeds:
  "succeeds (persist_handoff_evidence (ge_router sample_gate) sample_inbox 0
     \<lparr>ep_profile_id = lit ''generic_reply_v1'', ep_items = []\<rparr>) sample_planned"
  by code_simp

lemma sample_payload_succeeds:
  "succeeds (create_payload_revision (ge_router sample_gate) sample_inbox 1 None None sample_payload) sample_evidenced"
  by code_simp

lemma sample_approval_created:
  "case approve_payload_revision sample_gate sample_inbox 1 2 hash_a (lit ''boss'') (lit ''t'') sample_pending of
     Inl _ \<Rightarrow> False | Inr (c, _) \<Rightarrow> cr_status c = COMMIT_CREATED \<and> json_wf (cr_envelope c)"
  by code_simp

definition sample_call :: invocation where
  "sample_call = \<lparr>iv_email_id = lit ''mail-1'', iv_inbox_id = Some sample_inbox, iv_approved = True\<rparr>"

text \<open>What the delivery asks of the store it starts from.\<close>

lemma sample_pending_facts:
  "case (run_of sample_inbox sample_pending, payload_of sample_inbox 1 sample_pending) of
     (Some h, Some p) \<Rightarrow> h_execution_claim_id h = None \<and> p_decision_digest p = h_decision_digest h
        \<and> p_plan_digest p = h_plan_digest h \<and> Some (p_evidence_digest p) = h_evidence_digest h
   | _ \<Rightarrow> False"
  "map h_inbox_id (a_runs sample_pending) = [sample_inbox] \<and> map lg_id (a_log sample_pending) = [lit ''mail-1'']
   \<and> map td_inbox_id (a_decisions sample_pending) = [sample_inbox]"
  by code_simp+

lemma sample_approved_email: "map_option lg_id (email_of sample_inbox sample_approved) = Some (lit ''mail-1'')"
  by code_simp

lemma sample_gate_reads_back: "gate_reads_back sample_gate"
  by (auto simp: gate_reads_back_def sample_gate_def split: json.splits)

lemma sample_approval:
  obtains c where "approve_payload_revision sample_gate sample_inbox 1 2 hash_a (lit ''boss'') (lit ''t'') sample_pending
      = Inr (c, sample_approved)" "cr_status c = COMMIT_CREATED" "json_wf (cr_envelope c)"
  using sample_approval_created unfolding sample_approved_def after_def
  by (auto split: sum.splits prod.splits)

lemma sample_steps:
  "adb_step sample_gate sample_start sample_planned" "adb_step sample_gate sample_planned sample_evidenced"
  "adb_step sample_gate sample_evidenced sample_pending" "adb_step sample_gate sample_pending sample_approved"
proof -
  show "adb_step sample_gate sample_start sample_planned"
    using succeedsD [OF sample_plan_succeeds] adb_step.intros(2) unfolding sample_planned_def by blast
  show "adb_step sample_gate sample_planned sample_evidenced"
    using succeedsD [OF sample_evidence_succeeds] adb_step.intros(3) unfolding sample_evidenced_def by blast
  show "adb_step sample_gate sample_evidenced sample_pending"
    using succeedsD [OF sample_payload_succeeds] adb_step.intros(5) unfolding sample_pending_def by blast
  obtain c where "approve_payload_revision sample_gate sample_inbox 1 2 hash_a (lit ''boss'') (lit ''t'') sample_pending
      = Inr (c, sample_approved)" by (rule sample_approval)
  then show "adb_step sample_gate sample_pending sample_approved" by (rule adb_step.intros(6))
qed

lemma sample_delivery:
  obtains c h where "approve_payload_revision sample_gate sample_inbox 1 2 hash_a (lit ''boss'') (lit ''t'') sample_pending
      = Inr (c, sample_approved)" "cr_status c = COMMIT_CREATED" "run_of sample_inbox sample_pending = Some h"
    "h_execution_claim_id h = None" "delivery_keys sample_pending"
    "\<forall>p. payload_of sample_inbox 1 sample_pending = Some p \<longrightarrow> p_decision_digest p = h_decision_digest h
           \<and> p_plan_digest p = h_plan_digest h \<and> Some (p_evidence_digest p) = h_evidence_digest h"
    "\<forall>l. email_of sample_inbox sample_approved = Some l \<longrightarrow> lg_id l = iv_email_id sample_call"
proof -
  obtain c where c: "approve_payload_revision sample_gate sample_inbox 1 2 hash_a (lit ''boss'') (lit ''t'') sample_pending
      = Inr (c, sample_approved)" "cr_status c = COMMIT_CREATED" by (rule sample_approval)
  obtain h where h: "run_of sample_inbox sample_pending = Some h" "h_execution_claim_id h = None"
    "\<forall>p. payload_of sample_inbox 1 sample_pending = Some p \<longrightarrow> p_decision_digest p = h_decision_digest h
           \<and> p_plan_digest p = h_plan_digest h \<and> Some (p_evidence_digest p) = h_evidence_digest h"
    using sample_pending_facts(1) by (auto split: option.splits)
  have "delivery_keys sample_pending"
    using sample_pending_facts(2) by (simp add: delivery_keys_def run_keys_distinct_def)
  moreover have "\<forall>l. email_of sample_inbox sample_approved = Some l \<longrightarrow> lg_id l = iv_email_id sample_call"
    using sample_approved_email by (auto simp: sample_call_def)
  ultimately show thesis using that c h by blast
qed

section \<open>The scenario in the world\<close>

definition sample_world :: world where
  "sample_world = \<lparr>w_db = sample_start, w_outbox = [], w_phase = (\<lambda>_. SP_BEGIN)\<rparr>"

lemma run_database:
  assumes "run (adb_step env) d d'" "w_db w = d"
  shows "run (world_step env calls) w (w\<lparr>w_db := d'\<rparr>)"
  using assms
proof (induction rule: run.induct)
  case (run_step s t u)
  have "world_step env calls (w\<lparr>w_db := t\<rparr>) ((w\<lparr>w_db := t\<rparr>)\<lparr>w_db := u\<rparr>)"
    by (rule world_step.database) (simp add: run_step.hyps(2))
  with run_step.IH run_step.prems show ?case using run.run_step by fastforce
qed simp

lemma run_alone:
  assumes "run (alone env (calls n)) a b" "a = (w_phase w n, w_db w, w_outbox w)"
  shows "\<exists>w'. run (world_step env calls) w w' \<and> b = (w_phase w' n, w_db w', w_outbox w')"
  using assms
proof (induction rule: run.induct)
  case (run_step s t u)
  then obtain w1 where w1: "run (world_step env calls) w w1" "t = (w_phase w1 n, w_db w1, w_outbox w1)" by blast
  with run_step.hyps(2) obtain p d sent where
    "sender_step env (calls n) (w_phase w1 n) (w_db w1) p d sent" "u = (p, d, w_outbox w1 @ sent)"
    by (cases u) (auto simp: alone_def)
  then have step: "world_step env calls w1
      (w1\<lparr>w_db := d, w_outbox := w_outbox w1 @ sent, w_phase := (w_phase w1)(n := p)\<rparr>)"
    and u: "u = (p, d, w_outbox w1 @ sent)"
    by (blast intro: world_step.sender)+
  show ?case
    by (rule exI, rule conjI, rule run.run_step [OF w1(1) step]) (simp add: u)
qed blast

lemma sample_database_run: "run (adb_step sample_gate) sample_start sample_approved"
  by (rule run_step [OF run_step [OF run_step [OF run_step [OF run_refl]]]]) (rule sample_steps)+

lemma sample_sends:
  obtains w e where "run (world_step sample_gate (\<lambda>_. sample_call)) sample_world w"
    "w_outbox w = [mail_of e]" "en_inbox_id e = sample_inbox"
proof (rule sample_delivery)
  fix c h
  assume c: "approve_payload_revision sample_gate sample_inbox 1 2 hash_a (lit ''boss'') (lit ''t'') sample_pending
      = Inr (c, sample_approved)" "cr_status c = COMMIT_CREATED"
    and h: "run_of sample_inbox sample_pending = Some h" "h_execution_claim_id h = None" "delivery_keys sample_pending"
    "\<forall>p. payload_of sample_inbox 1 sample_pending = Some p \<longrightarrow> p_decision_digest p = h_decision_digest h
           \<and> p_plan_digest p = h_plan_digest h \<and> Some (p_evidence_digest p) = h_evidence_digest h"
    "\<forall>l. email_of sample_inbox sample_approved = Some l \<longrightarrow> lg_id l = iv_email_id sample_call"
  have call: "iv_approved sample_call" "iv_inbox_id sample_call = Some sample_inbox" by (simp_all add: sample_call_def)
  from delivery_of_created [OF sample_gate_reads_back h(3,1,2) _ c call] h(4,5) obtain e d2 where
    e: "en_inbox_id e = sample_inbox" and
    sends: "run (alone sample_gate sample_call) (SP_BEGIN, sample_approved, []) (SP_DONE STEP_END, d2, [mail_of e])"
    by blast
  let ?w = "sample_world\<lparr>w_db := sample_approved\<rparr>"
  have first: "run (world_step sample_gate (\<lambda>_. sample_call)) sample_world ?w"
    by (rule run_database [OF sample_database_run]) (simp add: sample_world_def)
  have "(SP_BEGIN, sample_approved, []) = (w_phase ?w 0, w_db ?w, w_outbox ?w)" by (simp add: sample_world_def)
  from run_alone [where calls = "\<lambda>_. sample_call" and n = 0, OF sends this] obtain w' where
    "run (world_step sample_gate (\<lambda>_. sample_call)) ?w w'" "w_outbox w' = [mail_of e]" by auto
  with run_trans [OF _ first] e show thesis by (blast intro: that)
qed

lemma sample_world_start: "world_start sample_world"
  by (simp add: world_start_def sample_world_def empty_store_def sample_start_def)

section \<open>Witnesses\<close>

theorem mail_sent_at_most_once_witness:
  "\<exists>w. run (world_step sample_gate (\<lambda>_. sample_call)) sample_world w \<and> length (w_outbox w) = 1
     \<and> distinct (map m_inbox (w_outbox w))"
proof -
  obtain w e where w: "run (world_step sample_gate (\<lambda>_. sample_call)) sample_world w" "w_outbox w = [mail_of e]"
    by (rule sample_sends)
  from mail_sent_at_most_once [OF sample_gate_reads_back sample_world_start w(1)] w
  show ?thesis by (intro exI [of _ w]) simp
qed

theorem only_approved_payload_sent_witness:
  "\<exists>w m p. run (world_step sample_gate (\<lambda>_. sample_call)) sample_world w \<and> m \<in> set (w_outbox w)
     \<and> m_inbox m = sample_inbox \<and> p \<in> set (a_payloads (w_db w)) \<and> mail_of_payload m p"
proof -
  obtain w e where w: "run (world_step sample_gate (\<lambda>_. sample_call)) sample_world w" "w_outbox w = [mail_of e]"
    "en_inbox_id e = sample_inbox"
    by (rule sample_sends)
  have "mail_of e \<in> set (w_outbox w)" by (simp add: w(2))
  from only_approved_payload_sent [OF sample_gate_reads_back sample_world_start w(1) this] this w(1,3)
  show ?thesis by (metis mail_of_inbox)
qed

theorem handoff_machine_refined_witness:
  "handoff_step (run_of sample_inbox sample_pending) (run_of sample_inbox sample_approved)"
  by (rule handoff_machine_refined [OF sample_steps(4)])

theorem version_identifies_run_witness:
  "\<exists>h h'. run_of sample_inbox sample_pending = Some h \<and> run_of sample_inbox sample_approved = Some h'
     \<and> h_version h \<le> h_version h'"
proof -
  have first: "run (adb_step sample_gate) sample_start sample_pending"
    by (rule run_step [OF run_step [OF run_step [OF run_refl]]]) (rule sample_steps)+
  have last: "run (adb_step sample_gate) sample_pending sample_approved"
    by (rule run_step [OF run_refl]) (rule sample_steps)
  obtain h where h: "run_of sample_inbox sample_pending = Some h" by (rule sample_delivery)
  have "empty_store sample_start" by (simp add: empty_store_def sample_start_def)
  from version_identifies_run [OF sample_gate_reads_back this first last h] h show ?thesis by blast
qed


text \<open>A crash between the claim and the answer of the mail server.\<close>

definition sample_crashed :: adb where
  "sample_crashed = \<lparr>a_log = [\<lparr>lg_id = lit ''mail-1'', lg_status = Some (lit ''sending''), lg_columns = []\<rparr>],
     a_decisions = a_decisions sample_start,
     a_runs = [\<lparr>h_inbox_id = sample_inbox, h_decision_digest = hash_a, h_plan_json = JNull, h_plan_digest = hash_a,
       h_evidence_json = None, h_evidence_digest = None, h_state = HS_EXECUTING, h_payload_revision = Some 1,
       h_version = 4, h_execution_claim_id = Some (lit ''c'')\<rparr>],
     a_payloads = [], a_envelopes = [], a_executions = []\<rparr>"


theorem approved_mail_goes_out_witness:
  "\<exists>e d2 g l. run (alone sample_gate sample_call) (SP_BEGIN, sample_approved, [])
       (SP_DONE STEP_END, d2, [mail_of e])
     \<and> run_of sample_inbox d2 = Some g \<and> h_state g = HS_COMPLETED
     \<and> email_of sample_inbox d2 = Some l \<and> lg_status l = Some (lit ''sent'')"
proof (rule sample_delivery)
  fix c h
  assume c: "approve_payload_revision sample_gate sample_inbox 1 2 hash_a (lit ''boss'') (lit ''t'') sample_pending
      = Inr (c, sample_approved)" "cr_status c = COMMIT_CREATED"
    and h: "run_of sample_inbox sample_pending = Some h" "h_execution_claim_id h = None" "delivery_keys sample_pending"
    "\<forall>p. payload_of sample_inbox 1 sample_pending = Some p \<longrightarrow> p_decision_digest p = h_decision_digest h
           \<and> p_plan_digest p = h_plan_digest h \<and> Some (p_evidence_digest p) = h_evidence_digest h"
    "\<forall>l. email_of sample_inbox sample_approved = Some l \<longrightarrow> lg_id l = iv_email_id sample_call"
  have "iv_approved sample_call" "iv_inbox_id sample_call = Some sample_inbox" by (simp_all add: sample_call_def)
  from approved_mail_goes_out [OF sample_gate_reads_back h(3,1,2) _ c this] h(4,5) show ?thesis by blast
qed

end
