(* ===== verification/PlainJson.thy ===== *)
theory PlainJson
  imports InboxModels
begin

text \<open>
  \<^verbatim>\<open>_plain_json\<close> of \<^verbatim>\<open>src/ingestion/normalization.py\<close>: the copy of an untrusted Python value to
  plain JSON. Python containers are shared and may be cyclic, so a value is a scalar or the
  address of a container in a heap, and the function carries the set of the containers it is
  inside of. The first argument is the recursion depth Python has left; using it up is
  \<open>Deep\<close> (\<^verbatim>\<open>RecursionError\<close>), a rejected value is \<open>Rejected\<close> (\<^verbatim>\<open>_InvalidJson\<close>).
\<close>

datatype pyval =
    VNone
  | VBool bool
  | VInt int
  | VFloat rat
  | VNonFinite
  | VStr pystr
  | VRef nat
  | VOther

text \<open>A mapping with its items, or a sequence that is no text and no bytes.\<close>

datatype cell = MapCell "(pyval \<times> pyval) list" | SeqCell "pyval list"

type_synonym heap = "(nat \<times> cell) list"

datatype 'a outcome = Deep | Rejected | Plain 'a

fun plain_seq :: "(pyval \<Rightarrow> json outcome) \<Rightarrow> pyval list \<Rightarrow> json list outcome" where
  "plain_seq f [] = Plain []"
| "plain_seq f (v # vs) =
     (case f v of
        Deep \<Rightarrow> Deep
      | Rejected \<Rightarrow> Rejected
      | Plain j \<Rightarrow> (case plain_seq f vs of
          Deep \<Rightarrow> Deep | Rejected \<Rightarrow> Rejected | Plain js \<Rightarrow> Plain (j # js)))"

definition plain_text :: "pystr \<Rightarrow> bool" where
  "plain_text s = (0 \<notin> set s \<and> utf8_ok s)"

text \<open>The loop over the items, with the keys already in the result.\<close>

fun plain_items ::
  "(pyval \<Rightarrow> json outcome) \<Rightarrow> (pyval \<times> pyval) list \<Rightarrow> pystr list \<Rightarrow> (pystr \<times> json) list outcome" where
  "plain_items f [] keys = Plain []"
| "plain_items f ((k, v) # items) keys =
     (case k of
        VStr key \<Rightarrow>
          if 0 \<in> set key \<or> key \<in> set keys then Rejected
          else if \<not> utf8_ok key then Rejected
          else (case f v of
            Deep \<Rightarrow> Deep
          | Rejected \<Rightarrow> Rejected
          | Plain j \<Rightarrow> (case plain_items f items (key # keys) of
              Deep \<Rightarrow> Deep | Rejected \<Rightarrow> Rejected | Plain l \<Rightarrow> Plain ((key, j) # l)))
      | _ \<Rightarrow> Rejected)"

primrec plain_json :: "nat \<Rightarrow> heap \<Rightarrow> nat list \<Rightarrow> pyval \<Rightarrow> json outcome" where
  "plain_json 0 h active v = Deep"
| "plain_json (Suc depth) h active v =
     (case v of
        VNone \<Rightarrow> Plain JNull
      | VBool b \<Rightarrow> Plain (JBool b)
      | VInt i \<Rightarrow> Plain (JInt i)
      | VStr s \<Rightarrow> if 0 \<in> set s then Rejected else if \<not> utf8_ok s then Rejected else Plain (JStr s)
      | VFloat q \<Rightarrow> Plain (JFloat q)
      | VNonFinite \<Rightarrow> Rejected
      | VRef a \<Rightarrow>
          (case map_of h a of
             Some (MapCell items) \<Rightarrow>
               if a \<in> set active then Rejected
               else (case plain_items (plain_json depth h (a # active)) items [] of
                 Deep \<Rightarrow> Deep | Rejected \<Rightarrow> Rejected | Plain l \<Rightarrow> Plain (JObj l))
           | Some (SeqCell vs) \<Rightarrow>
               if a \<in> set active then Rejected
               else (case plain_seq (plain_json depth h (a # active)) vs of
                 Deep \<Rightarrow> Deep | Rejected \<Rightarrow> Rejected | Plain js \<Rightarrow> Plain (JArr js))
           | None \<Rightarrow> Rejected)
      | VOther \<Rightarrow> Rejected)"

section \<open>What the copy means\<close>

text \<open>
  The JSON tree a value denotes. A value with a reachable cycle denotes none, as a derivation
  is finite.
\<close>

inductive denotes :: "heap \<Rightarrow> pyval \<Rightarrow> json \<Rightarrow> bool" for h :: heap where
  none: "denotes h VNone JNull"
| boolean: "denotes h (VBool b) (JBool b)"
| integer: "denotes h (VInt i) (JInt i)"
| float: "denotes h (VFloat q) (JFloat q)"
| string: "plain_text s \<Longrightarrow> denotes h (VStr s) (JStr s)"
| mapping: "map_of h a = Some (MapCell items) \<Longrightarrow> distinct (map fst l) \<Longrightarrow>
     list_all2 (\<lambda>kv f. fst kv = VStr (fst f) \<and> plain_text (fst f) \<and> denotes h (snd kv) (snd f)) items l
     \<Longrightarrow> denotes h (VRef a) (JObj l)"
| sequence: "map_of h a = Some (SeqCell vs) \<Longrightarrow> list_all2 (denotes h) vs js
     \<Longrightarrow> denotes h (VRef a) (JArr js)"

section \<open>Termination\<close>

lemma plain_seq_deep: "plain_seq f vs = Deep \<Longrightarrow> \<exists>v\<in>set vs. f v = Deep"
  by (induction vs) (auto split: outcome.splits)

lemma plain_items_deep: "plain_items f items keys = Deep \<Longrightarrow> \<exists>(k, v)\<in>set items. f v = Deep"
  by (induction f items keys rule: plain_items.induct)
    (auto split: outcome.splits pyval.splits if_splits)

text \<open>Every container entered leaves one container fewer to enter, so cycles are cut.\<close>

lemma plain_json_not_deep:
  "card (fst ` set h - set active) + 1 < depth \<Longrightarrow> plain_json depth h active v \<noteq> Deep"
proof (induction depth arbitrary: active v)
  case (Suc depth)
  have inner: "plain_json depth h (a # active) w \<noteq> Deep"
    if "map_of h a = Some c" "a \<notin> set active" for a c w
  proof (rule Suc.IH)
    let ?R = "fst ` set h - set active"
    have "a \<in> ?R" using that map_of_SomeD by force
    then have "card (?R - {a}) < card ?R" by (intro card_Diff1_less) simp_all
    moreover have "fst ` set h - set (a # active) = ?R - {a}" by auto
    ultimately show "card (fst ` set h - set (a # active)) + 1 < depth"
      using Suc.prems by simp
  qed
  show ?case
  proof
    assume deep: "plain_json (Suc depth) h active v = Deep"
    then obtain a c where v: "v = VRef a" and c: "map_of h a = Some c" and a: "a \<notin> set active"
      by (auto split: pyval.splits option.splits cell.splits if_splits)
    note no = inner [OF c a]
    show False
    proof (cases c)
      case (MapCell items)
      with deep v c a have "plain_items (plain_json depth h (a # active)) items [] = Deep"
        by (auto split: outcome.splits)
      with no show False by (blast dest: plain_items_deep)
    next
      case (SeqCell vs)
      with deep v c a have "plain_seq (plain_json depth h (a # active)) vs = Deep"
        by (auto split: outcome.splits)
      with no show False by (blast dest: plain_seq_deep)
    qed
  qed
qed simp

section \<open>Soundness\<close>

lemma plain_seq_sound:
  "plain_seq f vs = Plain js \<Longrightarrow> list_all2 (\<lambda>v j. f v = Plain j) vs js"
  by (induction vs arbitrary: js) (auto split: outcome.splits)

lemma plain_items_sound:
  "plain_items f items keys = Plain l \<Longrightarrow>
     list_all2 (\<lambda>kv e. fst kv = VStr (fst e) \<and> plain_text (fst e) \<and> f (snd kv) = Plain (snd e)) items l
     \<and> distinct (map fst l) \<and> (\<forall>(k, x)\<in>set l. k \<notin> set keys)"
  by (induction f items keys arbitrary: l rule: plain_items.induct)
    (auto simp: plain_text_def split: outcome.splits pyval.splits if_splits, force+)

lemma plain_json_sound: "plain_json depth h active v = Plain j \<Longrightarrow> denotes h v j"
proof (induction depth arbitrary: active v j)
  case (Suc depth)
  show ?case
  proof (cases v)
    case (VRef a)
    with Suc.prems obtain c where c: "map_of h a = Some c" by (auto split: option.splits)
    show ?thesis
    proof (cases c)
      case (MapCell items)
      with Suc.prems VRef c obtain l where l: "plain_items (plain_json depth h (a # active)) items [] = Plain l"
        and j: "j = JObj l" by (auto split: outcome.splits if_splits)
      from plain_items_sound [OF l] have "list_all2 (\<lambda>kv f. fst kv = VStr (fst f) \<and> plain_text (fst f)
          \<and> denotes h (snd kv) (snd f)) items l" "distinct (map fst l)"
        by (auto elim!: list_all2_mono intro: Suc.IH)
      with c MapCell j VRef show ?thesis by (auto intro: denotes.mapping)
    next
      case (SeqCell vs)
      with Suc.prems VRef c obtain js where js: "plain_seq (plain_json depth h (a # active)) vs = Plain js"
        and j: "j = JArr js" by (auto split: outcome.splits if_splits)
      from plain_seq_sound [OF js] have "list_all2 (denotes h) vs js"
        by (auto elim!: list_all2_mono intro: Suc.IH)
      with c SeqCell j VRef show ?thesis by (auto intro: denotes.sequence)
    qed
  qed (use Suc.prems in \<open>auto simp: plain_text_def intro: denotes.intros split: if_splits\<close>)
qed simp

section \<open>Completeness\<close>

inductive_simps denotes_none [simp]: "denotes h VNone j"
inductive_simps denotes_bool [simp]: "denotes h (VBool b) j"
inductive_simps denotes_int [simp]: "denotes h (VInt i) j"
inductive_simps denotes_float [simp]: "denotes h (VFloat q) j"
inductive_simps denotes_str [simp]: "denotes h (VStr s) j"
inductive_cases denotes_refE: "denotes h (VRef a) j"

lemma denotes_functional:
  "denotes h v j \<Longrightarrow> denotes h v k \<Longrightarrow> j = k"
proof (induction arbitrary: k rule: denotes.induct)
  case (mapping a items l)
  obtain m where k: "k = JObj m"
    and m: "list_all2 (\<lambda>kv f. fst kv = VStr (fst f) \<and> plain_text (fst f) \<and> denotes h (snd kv) (snd f)) items m"
    using mapping.prems by (rule denotes_refE) (use mapping.hyps(1) in simp_all)
  have "l = m"
  proof (rule nth_equalityI)
    show len: "length l = length m" using list_all2_lengthD [OF mapping.IH] list_all2_lengthD [OF m] by simp
    fix i assume i: "i < length l"
    then have "i < length items" using list_all2_lengthD [OF mapping.IH] by simp
    note here = list_all2_nthD [OF mapping.IH this] list_all2_nthD [OF m this]
    then have "fst (l ! i) = fst (m ! i)" by simp
    moreover from here have "snd (l ! i) = snd (m ! i)" by blast
    ultimately show "l ! i = m ! i" by (simp add: prod_eq_iff)
  qed
  with k show ?case by simp
next
  case (sequence a vs js)
  obtain ks where k: "k = JArr ks" and ks: "list_all2 (denotes h) vs ks"
    using sequence.prems by (rule denotes_refE) (use sequence.hyps(1) in simp_all)
  have "js = ks"
  proof (rule nth_equalityI)
    show "length js = length ks" using list_all2_lengthD [OF sequence.IH] list_all2_lengthD [OF ks] by simp
    fix i assume "i < length js"
    then have "i < length vs" using list_all2_lengthD [OF sequence.IH] by simp
    note here = list_all2_nthD [OF sequence.IH this] list_all2_nthD [OF ks this]
    then show "js ! i = ks ! i" by blast
  qed
  with k show ?case by simp
qed simp_all

text \<open>The containers the copy is inside of denote larger trees than the value it looks at.\<close>

definition outer :: "heap \<Rightarrow> nat list \<Rightarrow> json \<Rightarrow> bool" where
  "outer h active j \<longleftrightarrow> (\<forall>a\<in>set active. \<forall>k. denotes h (VRef a) k \<longrightarrow> size j < size k)"

lemma outer_not_active: "outer h active j \<Longrightarrow> denotes h (VRef a) j \<Longrightarrow> a \<notin> set active"
  unfolding outer_def by blast

lemma outer_inner:
  "outer h active j \<Longrightarrow> denotes h (VRef a) j \<Longrightarrow> size i < size j \<Longrightarrow> outer h (a # active) i"
  unfolding outer_def by (auto dest: denotes_functional) (blast intro: less_trans)

lemma plain_seq_complete:
  "list_all2 (\<lambda>v j. f v = Plain j \<or> f v = Deep) vs js \<Longrightarrow> plain_seq f vs = Plain js \<or> plain_seq f vs = Deep"
  by (induction vs js rule: list_all2_induct) auto

lemma plain_items_complete:
  "list_all2 (\<lambda>kv e. fst kv = VStr (fst e) \<and> plain_text (fst e)
       \<and> (f (snd kv) = Plain (snd e) \<or> f (snd kv) = Deep)) items l \<Longrightarrow>
     distinct (map fst l) \<Longrightarrow> (\<forall>(k, x)\<in>set l. k \<notin> set keys) \<Longrightarrow>
     plain_items f items keys = Plain l \<or> plain_items f items keys = Deep"
proof (induction items l arbitrary: keys rule: list_all2_induct)
  case (Cons kv items e l)
  have "plain_items f items (fst e # keys) = Plain l \<or> plain_items f items (fst e # keys) = Deep"
    by (rule Cons.IH) (use Cons.prems in \<open>force+\<close>)
  with Cons.hyps(1) Cons.prems show ?case
    by (cases kv, cases e) (auto simp: plain_text_def)
qed simp

lemma size_field: "e \<in> set l \<Longrightarrow> size (snd e) < size (JObj l)"
  by (induction l) auto

lemma size_item: "j \<in> set js \<Longrightarrow> size j < size (JArr js)"
  by (induction js) auto

lemma plain_json_complete:
  "denotes h v j \<Longrightarrow> outer h active j \<Longrightarrow>
     plain_json depth h active v = Plain j \<or> plain_json depth h active v = Deep"
proof (induction depth arbitrary: active v j)
  case (Suc depth)
  from Suc.prems(1) show ?case
  proof (cases rule: denotes.cases)
    case (mapping a items l)
    have "list_all2 (\<lambda>kv e. fst kv = VStr (fst e) \<and> plain_text (fst e)
       \<and> (plain_json depth h (a # active) (snd kv) = Plain (snd e)
          \<or> plain_json depth h (a # active) (snd kv) = Deep)) items l"
    proof (rule list.rel_mono_strong [OF mapping(5)])
      fix kv e
      assume "kv \<in> set items" "e \<in> set l" and e: "fst kv = VStr (fst e) \<and> plain_text (fst e) \<and> denotes h (snd kv) (snd e)"
      then have "outer h (a # active) (snd e)"
        using outer_inner [OF Suc.prems(2)] Suc.prems(1) mapping(1,2) size_field by metis
      with e Suc.IH show "fst kv = VStr (fst e) \<and> plain_text (fst e)
       \<and> (plain_json depth h (a # active) (snd kv) = Plain (snd e)
          \<or> plain_json depth h (a # active) (snd kv) = Deep)" by blast
    qed
    from plain_items_complete [OF this mapping(4), of "[]"]
    show ?thesis using mapping(1,2,3) outer_not_active [OF Suc.prems(2)] Suc.prems(1) by auto
  next
    case (sequence a vs js)
    have "list_all2 (\<lambda>v j. plain_json depth h (a # active) v = Plain j
          \<or> plain_json depth h (a # active) v = Deep) vs js"
    proof (rule list.rel_mono_strong [OF sequence(4)])
      fix v' j'
      assume "v' \<in> set vs" "j' \<in> set js" and j': "denotes h v' j'"
      then have "outer h (a # active) j'"
        using outer_inner [OF Suc.prems(2)] Suc.prems(1) sequence(1,2) size_item by metis
      with j' Suc.IH show "plain_json depth h (a # active) v' = Plain j'
          \<or> plain_json depth h (a # active) v' = Deep" by blast
    qed
    from plain_seq_complete [OF this]
    show ?thesis using sequence(1,2,3) outer_not_active [OF Suc.prems(2)] Suc.prems(1) by auto
  qed (auto simp: plain_text_def)
qed simp

text \<open>
  C19. Copying an untrusted value ends, whatever its containers look like: on any heap, cyclic
  or not, a recursion depth of two more than the number of containers is never used up, and
  the copy is then exact. It returns a tree precisely when the value denotes that tree (every
  reachable scalar is finite, encodable and free of NUL, every key is such text and occurs
  once, and no container contains itself), and otherwise it rejects the value.
\<close>

theorem plain_json_terminates:
  "plain_json (length h + 2 + extra) h [] v \<noteq> Deep
   \<and> (plain_json (length h + 2 + extra) h [] v = Plain j \<longleftrightarrow> denotes h v j)"
proof -
  have "card (fst ` set h) \<le> length (map fst h)"
    using card_length [of "map fst h"] by simp
  then have no: "plain_json (length h + 2 + extra) h [] v \<noteq> Deep"
    by (intro plain_json_not_deep) simp
  have "outer h [] j" for j by (simp add: outer_def)
  with no show ?thesis using plain_json_complete plain_json_sound by blast
qed

lemma plain_json_cycle: "plain_json 3 [(0, SeqCell [VRef 0])] [] (VRef 0) = Rejected"
  by (simp add: numeral_eq_Suc)

end
