(* ===== verification/FolderIdentity.thy ===== *)
theory FolderIdentity
  imports InboxModels
begin

text \<open>
  \<^verbatim>\<open>src/ingestion/folder_identity.py\<close>: the one canonical name of a mail folder. A folder name
  is text (\<^verbatim>\<open>type(value) is str\<close> is carried by the type).
\<close>

definition MAX_FOLDER_IDENTITY_LENGTH :: nat where
  "MAX_FOLDER_IDENTITY_LENGTH = 512"

definition STANDARD_FOLDER_CANONICAL :: "(pystr \<times> pystr) list" where
  "STANDARD_FOLDER_CANONICAL =
    [(lit ''archive'', lit ''ARCHIVE''),
     (lit ''deleted'', lit ''TRASH''),
     (lit ''deleted items'', lit ''TRASH''),
     (lit ''deleteditems'', lit ''TRASH''),
     (lit ''draft'', lit ''DRAFTS''),
     (lit ''drafts'', lit ''DRAFTS''),
     (lit ''inbox'', lit ''INBOX''),
     (lit ''junk'', lit ''JUNK''),
     (lit ''junk email'', lit ''JUNK''),
     (lit ''junkemail'', lit ''JUNK''),
     (lit ''outbox'', lit ''OUTBOX''),
     (lit ''sent'', lit ''SENT''),
     (lit ''sent items'', lit ''SENT''),
     (lit ''sentitems'', lit ''SENT''),
     (lit ''spam'', lit ''JUNK''),
     (lit ''trash'', lit ''TRASH''),
     ([24050, 21457, 36865], lit ''SENT''),
     ([24050, 21457, 36865, 37038, 20214], lit ''SENT''),
     ([33609, 31295], lit ''DRAFTS'')]"

text \<open>
  The shape every intake text must have: non-empty, without surrounding white space, bounded,
  free of control characters and encodable. \<^verbatim>\<open>_require_exact_identity\<close>, \<^verbatim>\<open>_require_exact_text\<close>
  and \<^verbatim>\<open>_valid_exact_text\<close> are this check.
\<close>

definition exact_text :: "nat \<Rightarrow> pystr \<Rightarrow> bool" where
  "exact_text max_length s =
     (s \<noteq> [] \<and> s = strip s \<and> length s \<le> max_length \<and> \<not> list_ex is_control s \<and> utf8_ok s)"

definition require_exact_identity :: "pystr \<Rightarrow> unit + pystr" where
  "require_exact_identity v = (if exact_text MAX_FOLDER_IDENTITY_LENGTH v then Inr v else Inl ())"

definition canonical_name :: "pystr \<Rightarrow> pystr" where
  "canonical_name identity =
     (case map_of STANDARD_FOLDER_CANONICAL
             (if py_isascii identity then ascii_lower identity else identity) of
        None \<Rightarrow> identity | Some canonical \<Rightarrow> canonical)"

definition canonicalize_folder_identity :: "pystr \<Rightarrow> unit + pystr" where
  "canonicalize_folder_identity v =
     and_then (require_exact_identity v) (\<lambda>identity. Inr (canonical_name identity))"

definition require_canonical_folder_identity :: "pystr \<Rightarrow> unit + pystr" where
  "require_canonical_folder_identity v =
     and_then (require_exact_identity v) (\<lambda>identity.
     and_then (canonicalize_folder_identity identity) (\<lambda>canonical.
     and_then (ensure (canonical = identity) ()) (\<lambda>_. Inr identity)))"

section \<open>Canonical names are fixed points\<close>

definition STANDARD_NAMES :: "pystr list" where
  "STANDARD_NAMES = map lit [''ARCHIVE'', ''TRASH'', ''DRAFTS'', ''INBOX'', ''JUNK'', ''OUTBOX'', ''SENT'']"

lemma standard_values: "list_all (\<lambda>(k, c). c \<in> set STANDARD_NAMES) STANDARD_FOLDER_CANONICAL"
  by (simp add: STANDARD_FOLDER_CANONICAL_def STANDARD_NAMES_def)

lemma standard_ran: "map_of STANDARD_FOLDER_CANONICAL k = Some c \<Longrightarrow> c \<in> set STANDARD_NAMES"
  using standard_values by (auto simp: list_all_iff dest: map_of_SomeD)

lemma standard_exact: "list_all (\<lambda>n. exact_text 16 n \<and> py_isascii n) STANDARD_NAMES"
  by (simp add: STANDARD_NAMES_def exact_text_def strip_def lstrip_def py_isspace_def is_control_def
      utf8_ok_def is_surrogate_def py_isascii_def lit_def)

lemma standard_lower:
  "map ascii_lower STANDARD_NAMES =
     map lit [''archive'', ''trash'', ''drafts'', ''inbox'', ''junk'', ''outbox'', ''sent'']"
  by (simp add: STANDARD_NAMES_def ascii_lower_def ascii_lower1_def lit_def)

lemma standard_fixed: "list_all (\<lambda>n. canonical_name n = n \<and> exact_text 16 n) STANDARD_NAMES"
  using standard_exact standard_lower
  by (simp add: STANDARD_NAMES_def canonical_name_def STANDARD_FOLDER_CANONICAL_def)

lemma canonical_name_cases: "canonical_name s = s \<or> canonical_name s \<in> set STANDARD_NAMES"
  using standard_ran by (auto simp: canonical_name_def split: option.splits)

lemma canonical_name_idem [simp]: "canonical_name (canonical_name s) = canonical_name s"
proof (cases "canonical_name s \<in> set STANDARD_NAMES")
  case True
  with standard_fixed show ?thesis by (simp add: list_all_iff)
next
  case False
  with canonical_name_cases [of s] show ?thesis by simp
qed

lemma exact_text_mono: "exact_text m s \<Longrightarrow> m \<le> n \<Longrightarrow> exact_text n s"
  by (simp add: exact_text_def)

lemma canonical_name_exact: "exact_text 512 s \<Longrightarrow> exact_text 512 (canonical_name s)"
proof (cases "canonical_name s \<in> set STANDARD_NAMES")
  case True
  with standard_fixed have "exact_text 16 (canonical_name s)" by (simp add: list_all_iff)
  then show ?thesis by (rule exact_text_mono) simp
next
  case False
  assume "exact_text 512 s"
  with False canonical_name_cases [of s] show ?thesis by simp
qed

lemma canonicalize_Inr:
  "canonicalize_folder_identity v = Inr c \<longleftrightarrow> exact_text 512 v \<and> c = canonical_name v"
  by (auto simp: canonicalize_folder_identity_def require_exact_identity_def and_then_Inr
      MAX_FOLDER_IDENTITY_LENGTH_def split: if_splits)

lemma require_canonical_Inr:
  "require_canonical_folder_identity v = Inr c \<longleftrightarrow> exact_text 512 v \<and> canonical_name v = v \<and> c = v"
  by (auto simp: require_canonical_folder_identity_def and_then_Inr canonicalize_Inr
      require_exact_identity_def MAX_FOLDER_IDENTITY_LENGTH_def split: if_splits)

text \<open>What \<^verbatim>\<open>canonicalize_folder_identity\<close> returns is accepted as canonical, unchanged.\<close>

lemma canonicalize_then_require:
  "canonicalize_folder_identity v = Inr c \<Longrightarrow> require_canonical_folder_identity c = Inr c"
  by (auto simp: canonicalize_Inr require_canonical_Inr canonical_name_exact)

text \<open>An exact text is a valid text of the value models.\<close>

lemma control_not_in: "\<not> list_ex is_control s \<Longrightarrow> 0 \<notin> set s \<and> 13 \<notin> set s \<and> 10 \<notin> set s"
  by (auto simp: list_ex_iff is_control_def)

lemma exact_text_valid: "exact_text n s \<Longrightarrow> valid_text n s"
  using control_not_in [of s] by (auto simp: exact_text_def valid_text_def)

end
