(* ===== verification/PollingPolicy.thy ===== *)
theory PollingPolicy
  imports FolderIdentity InboxStore "HOL-Library.Product_Lexorder"
begin

text \<open>
  \<^verbatim>\<open>src/ingestion/policy.py\<close>: folder scopes, the policy snapshot and the resolver that decides
  what a polled change is processed as. The arguments of the public functions are untyped in
  the code; the objects it tells apart are the constructors of \<open>py_object\<close> (a member of a
  \<^verbatim>\<open>StrEnum\<close> is not exact text). SHA-256 is a parameter.
\<close>

datatype py_object =
  PyText pystr | PySource ingress_source | PyKind change_kind | PyPolicy processing_policy | PyOther

datatype policy_error = PolicyValueError string | PolicySnapshotUnavailableError

type_synonym matrix_key = "ingress_source \<times> pystr \<times> change_kind"
type_synonym policy_matrix = "(matrix_key \<times> processing_policy) list"

definition MAX_EVENT_TYPE_LENGTH :: nat where "MAX_EVENT_TYPE_LENGTH = 128"

definition RESOLVABLE_POLICIES :: "processing_policy list" where
  "RESOLVABLE_POLICIES = [FULL, ARCHIVE, METADATA_ONLY, IGNORED]"

definition SYNC_CREATE_KEY :: matrix_key where "SYNC_CREATE_KEY = (SYNC, lit ''create'', CREATE)"
definition SYNC_UPDATE_KEY :: matrix_key where "SYNC_UPDATE_KEY = (SYNC, lit ''update'', UPDATE)"
definition SYNC_DELETE_KEY :: matrix_key where "SYNC_DELETE_KEY = (SYNC, lit ''delete'', DELETE)"

definition REQUIRED_POLICY_MATRIX_KEYS :: "matrix_key list" where
  "REQUIRED_POLICY_MATRIX_KEYS = [SYNC_CREATE_KEY, SYNC_UPDATE_KEY, SYNC_DELETE_KEY]"

definition METADATA_POLICY_KEYS :: "matrix_key list" where
  "METADATA_POLICY_KEYS = [SYNC_UPDATE_KEY, SYNC_DELETE_KEY]"

definition CREATE_POLICIES :: "processing_policy list" where
  "CREATE_POLICIES = [FULL, ARCHIVE, IGNORED]"

fun ingress_source_value :: "ingress_source \<Rightarrow> pystr" where
  "ingress_source_value SYNC = lit ''sync''"

section \<open>Arguments\<close>

text \<open>The constructor of a \<^verbatim>\<open>StrEnum\<close> applied to text.\<close>

definition ingress_source_of :: "pystr \<Rightarrow> ingress_source option" where
  "ingress_source_of t = (if t = ingress_source_value SYNC then Some SYNC else None)"

definition change_kind_of :: "pystr \<Rightarrow> change_kind option" where
  "change_kind_of t = List.find (\<lambda>k. change_kind_value k = t) [CREATE, UPDATE, READ, DELETE]"

definition processing_policy_of :: "pystr \<Rightarrow> processing_policy option" where
  "processing_policy_of t =
     List.find (\<lambda>p. processing_policy_value p = t) [FULL, ARCHIVE, METADATA_ONLY, IGNORED]"

definition require_exact_text :: "string \<Rightarrow> nat \<Rightarrow> py_object \<Rightarrow> policy_error + pystr" where
  "require_exact_text name max_length v =
     (case v of
        PyText t \<Rightarrow> if exact_text max_length t then Inr t else Inl (PolicyValueError name)
      | _ \<Rightarrow> Inl (PolicyValueError name))"

definition require_canonical_folder_key :: "py_object \<Rightarrow> policy_error + pystr" where
  "require_canonical_folder_key v =
     (case v of
        PyText t \<Rightarrow> (case require_canonical_folder_identity t of
            Inl _ \<Rightarrow> Inl (PolicyValueError ''canonical_key'') | Inr k \<Rightarrow> Inr k)
      | _ \<Rightarrow> Inl (PolicyValueError ''canonical_key''))"

definition require_source :: "py_object \<Rightarrow> policy_error + ingress_source" where
  "require_source v =
     and_then (case v of
         PySource s \<Rightarrow> Inr s
       | PyText t \<Rightarrow> some_or (PolicyValueError ''source'') (ingress_source_of t)
       | _ \<Rightarrow> Inl (PolicyValueError ''source'')) (\<lambda>source.
     and_then (ensure (source = SYNC) (PolicyValueError ''only sync'')) (\<lambda>_. Inr source))"

definition require_kind :: "py_object \<Rightarrow> policy_error + change_kind" where
  "require_kind v =
     (case v of
        PyKind k \<Rightarrow> Inr k
      | PyText t \<Rightarrow> some_or (PolicyValueError ''change_kind'') (change_kind_of t)
      | _ \<Rightarrow> Inl (PolicyValueError ''change_kind''))"

definition require_policy :: "py_object \<Rightarrow> policy_error + processing_policy" where
  "require_policy v =
     and_then (case v of
         PyPolicy p \<Rightarrow> Inr p
       | PyText t \<Rightarrow> some_or (PolicyValueError ''event policy'') (processing_policy_of t)
       | _ \<Rightarrow> Inl (PolicyValueError ''event policy'')) (\<lambda>policy.
     and_then (ensure (policy \<in> set RESOLVABLE_POLICIES)
         (PolicyValueError ''not resolvable'')) (\<lambda>_. Inr policy))"

section \<open>The matrix of a folder\<close>

text \<open>
  \<^verbatim>\<open>_freeze_policy_matrix\<close>. The argument is the items of a mapping (\<open>None\<close>: no mapping); a
  key that is no tuple is a list of another length than three. \<open>freeze_entries\<close> is the loop.
\<close>

type_synonym raw_matrix = "(py_object list \<times> py_object) list"

fun freeze_entries :: "raw_matrix \<Rightarrow> policy_matrix \<Rightarrow> policy_error + policy_matrix" where
  "freeze_entries [] frozen = Inr frozen"
| "freeze_entries ((raw_key, raw_policy) # items) frozen =
     (case raw_key of
        [source, raw_event_type, change_kind] \<Rightarrow>
          and_then (require_exact_text ''raw_event_type'' MAX_EVENT_TYPE_LENGTH raw_event_type) (\<lambda>t.
          and_then (require_source source) (\<lambda>s.
          and_then (require_kind change_kind) (\<lambda>k.
          and_then (ensure ((s, t, k) \<notin> set (map fst frozen)) (PolicyValueError ''unique'')) (\<lambda>_.
          and_then (require_policy raw_policy) (\<lambda>p.
            freeze_entries items (frozen @ [((s, t, k), p)]))))))
      | _ \<Rightarrow> Inl (PolicyValueError ''three fields''))"

definition freeze_policy_matrix :: "raw_matrix option \<Rightarrow> policy_error + policy_matrix" where
  "freeze_policy_matrix v =
     and_then (some_or (PolicyValueError ''mapping'') v) (\<lambda>items.
     and_then (freeze_entries items []) (\<lambda>frozen.
     and_then (ensure (set (map fst frozen) = set REQUIRED_POLICY_MATRIX_KEYS)
         (PolicyValueError ''exact sync keys'')) (\<lambda>_.
     and_then (ensure (list_all (\<lambda>key. map_of frozen key = Some METADATA_ONLY) METADATA_POLICY_KEYS)
         (PolicyValueError ''METADATA_ONLY'')) (\<lambda>_.
     and_then (ensure (map_of frozen SYNC_CREATE_KEY \<in> Some ` set CREATE_POLICIES)
         (PolicyValueError ''create policy'')) (\<lambda>_. Inr frozen)))))"

text \<open>A frozen matrix handed to a constructor again.\<close>

definition raw_of_matrix :: "policy_matrix \<Rightarrow> raw_matrix" where
  "raw_of_matrix m = map (\<lambda>((s, t, k), p). ([PySource s, PyText t, PyKind k], PyPolicy p)) m"

definition folder_scope_config_hash ::
  "(pybytes \<Rightarrow> pystr) \<Rightarrow> pystr \<Rightarrow> pystr \<Rightarrow> policy_matrix \<Rightarrow> pystr" where
  "folder_scope_config_hash sha canonical_key sync_folder matrix =
     sha (utf8 (json_dumps (compact_format False (\<lambda>_. [])) (JObj
       [(lit ''schema_version'', JInt 2),
        (lit ''canonical_key'', JStr canonical_key),
        (lit ''sync_folder'', JStr sync_folder),
        (lit ''event_policy_matrix'', JArr (map (\<lambda>((s, t, k), p). JObj
           [(lit ''source'', JStr (ingress_source_value s)),
            (lit ''raw_event_type'', JStr t),
            (lit ''change_kind'', JStr (change_kind_value k)),
            (lit ''processing_policy'', JStr (processing_policy_value p))])
          (sort_key (\<lambda>((s, t, k), p). (ingress_source_value s, t, change_kind_value k)) matrix)))])))"

section \<open>Folder scopes\<close>

record folder_scope =
  fs_canonical_key :: pystr
  fs_sync_folder :: pystr
  fs_event_policy_matrix :: policy_matrix
  fs_config_hash :: pystr

text \<open>\<^verbatim>\<open>FolderScope.__post_init__\<close>.\<close>

definition FolderScope ::
  "(pybytes \<Rightarrow> pystr) \<Rightarrow> py_object \<Rightarrow> py_object \<Rightarrow> raw_matrix option \<Rightarrow> py_object
    \<Rightarrow> policy_error + folder_scope" where
  "FolderScope sha canonical_key sync_folder event_policy_matrix config_hash =
     and_then (require_canonical_folder_key canonical_key) (\<lambda>key.
     and_then (require_exact_text ''sync_folder'' MAX_FOLDER_IDENTITY_LENGTH sync_folder) (\<lambda>folder.
     and_then (freeze_policy_matrix event_policy_matrix) (\<lambda>matrix.
     and_then (case config_hash of
         PyText h \<Rightarrow> if is_sha256_hex h then Inr h else Inl (PolicyValueError ''config_hash'')
       | _ \<Rightarrow> Inl (PolicyValueError ''config_hash'')) (\<lambda>h.
     and_then (ensure (h = folder_scope_config_hash sha key folder matrix)
         (PolicyValueError ''config_hash does not match'')) (\<lambda>_.
       Inr \<lparr>fs_canonical_key = key, fs_sync_folder = folder, fs_event_policy_matrix = matrix,
         fs_config_hash = h\<rparr>)))))"

definition configured_scope ::
  "(pybytes \<Rightarrow> pystr) \<Rightarrow> py_object \<Rightarrow> py_object \<Rightarrow> raw_matrix option \<Rightarrow> policy_error + folder_scope" where
  "configured_scope sha canonical_key sync_folder event_policy_matrix =
     and_then (require_canonical_folder_key canonical_key) (\<lambda>key.
     and_then (require_exact_text ''sync_folder'' MAX_FOLDER_IDENTITY_LENGTH sync_folder) (\<lambda>folder.
     and_then (freeze_policy_matrix event_policy_matrix) (\<lambda>matrix.
       FolderScope sha (PyText key) (PyText folder) (Some (raw_of_matrix matrix))
         (PyText (folder_scope_config_hash sha key folder matrix)))))"

section \<open>Snapshots and their resolution\<close>

record policy_snapshot =
  ps_scopes :: "folder_scope list"
  ps_refreshed :: bool
  ps_refresh_failed :: bool

definition failed_snapshot :: policy_snapshot where
  "failed_snapshot = \<lparr>ps_scopes = [], ps_refreshed = False, ps_refresh_failed = True\<rparr>"

text \<open>The loop of \<^verbatim>\<open>ready\<close>, with the two sets it fills.\<close>

fun scopes_distinct :: "folder_scope list \<Rightarrow> pystr list \<Rightarrow> pystr list \<Rightarrow> bool" where
  "scopes_distinct [] canonical_keys sync_folders = True"
| "scopes_distinct (scope # scopes) canonical_keys sync_folders =
     (if fs_canonical_key scope \<in> set canonical_keys \<or> fs_sync_folder scope \<in> set sync_folders
      then False
      else scopes_distinct scopes (fs_canonical_key scope # canonical_keys)
             (fs_sync_folder scope # sync_folders))"

definition snapshot_ready :: "policy_snapshot \<Rightarrow> bool" where
  "snapshot_ready s =
     (if \<not> ps_refreshed s \<or> ps_refresh_failed s then False else scopes_distinct (ps_scopes s) [] [])"

definition require_snapshot :: "policy_snapshot option \<Rightarrow> policy_error + policy_snapshot" where
  "require_snapshot snapshot =
     (case snapshot of
        None \<Rightarrow> Inl PolicySnapshotUnavailableError
      | Some s \<Rightarrow> if snapshot_ready s then Inr s else Inl PolicySnapshotUnavailableError)"

definition configured_scopes :: "policy_snapshot option \<Rightarrow> policy_error + folder_scope list" where
  "configured_scopes snapshot =
     and_then (require_snapshot snapshot) (\<lambda>s. Inr (sort_key fs_canonical_key (ps_scopes s)))"

definition resolve_policy ::
  "py_object \<Rightarrow> py_object \<Rightarrow> py_object \<Rightarrow> py_object \<Rightarrow> policy_snapshot option
    \<Rightarrow> policy_error + processing_policy" where
  "resolve_policy source raw_event_type change_kind exact_folder_identity snapshot =
     and_then (require_snapshot snapshot) (\<lambda>available.
     and_then (require_source source) (\<lambda>s.
     and_then (require_exact_text ''raw_event_type'' MAX_EVENT_TYPE_LENGTH raw_event_type) (\<lambda>t.
     and_then (require_kind change_kind) (\<lambda>k.
     and_then (require_exact_text ''exact_folder_identity'' MAX_FOLDER_IDENTITY_LENGTH
         exact_folder_identity) (\<lambda>folder.
       case List.find (\<lambda>candidate. folder = fs_sync_folder candidate) (ps_scopes available) of
         None \<Rightarrow> Inr IGNORED
       | Some scope \<Rightarrow>
           Inr (case map_of (fs_event_policy_matrix scope) (s, t, k) of
                  None \<Rightarrow> IGNORED | Some p \<Rightarrow> p))))))"

section \<open>What the constructors guarantee\<close>

lemma freeze_entries_keys:
  "freeze_entries items frozen = Inr m \<Longrightarrow> distinct (map fst frozen) \<Longrightarrow> distinct (map fst m)"
proof (induction items frozen rule: freeze_entries.induct)
  case (2 raw_key raw_policy items frozen)
  from "2.prems" obtain a b c s t k p where key: "raw_key = [a, b, c]"
    and new: "(s, t, k) \<notin> set (map fst frozen)"
    and rest: "freeze_entries items (frozen @ [((s, t, k), p)]) = Inr m"
    by (auto simp: and_then_Inr split: list.splits)
  show ?case
    by (rule "2.IH" [OF key refl refl refl rest]) (use new "2.prems"(2) in simp)
qed simp

lemma freeze_distinct: "freeze_policy_matrix v = Inr m \<Longrightarrow> distinct (map fst m)"
  by (auto simp: freeze_policy_matrix_def and_then_Inr dest: freeze_entries_keys)

text \<open>A frozen matrix is the three polling rules, and only the one for new mail can lead to processing.\<close>

lemma freeze_policy_cases:
  assumes "freeze_policy_matrix v = Inr m" "map_of m (s, t, k) = Some p"
  shows "t = change_kind_value k \<and>
    (k = CREATE \<and> p \<in> set CREATE_POLICIES \<or> k \<in> {UPDATE, DELETE} \<and> p = METADATA_ONLY)"
proof -
  have "(s, t, k) \<in> set (map fst m)" using map_of_SomeD [OF assms(2)] by force
  moreover have keys: "set (map fst m) = set REQUIRED_POLICY_MATRIX_KEYS"
    and meta: "map_of m SYNC_UPDATE_KEY = Some METADATA_ONLY" "map_of m SYNC_DELETE_KEY = Some METADATA_ONLY"
    and create: "map_of m SYNC_CREATE_KEY \<in> Some ` set CREATE_POLICIES"
    using assms(1) by (auto simp: freeze_policy_matrix_def and_then_Inr METADATA_POLICY_KEYS_def)
  ultimately have "(s, t, k) \<in> {SYNC_CREATE_KEY, SYNC_UPDATE_KEY, SYNC_DELETE_KEY}"
    by (simp add: REQUIRED_POLICY_MATRIX_KEYS_def)
  then show ?thesis
    using assms(2) meta create
    by (auto simp: SYNC_CREATE_KEY_def SYNC_UPDATE_KEY_def SYNC_DELETE_KEY_def)
qed

lemma freeze_policy_total:
  assumes "freeze_policy_matrix v = Inr m" "k \<in> {CREATE, UPDATE, DELETE}"
  obtains p where "map_of m (SYNC, change_kind_value k, k) = Some p"
proof -
  have "set (map fst m) = set REQUIRED_POLICY_MATRIX_KEYS"
    using assms(1) by (auto simp: freeze_policy_matrix_def and_then_Inr)
  then have "(SYNC, change_kind_value k, k) \<in> fst ` set m"
    using assms(2) by (auto simp: REQUIRED_POLICY_MATRIX_KEYS_def SYNC_CREATE_KEY_def
        SYNC_UPDATE_KEY_def SYNC_DELETE_KEY_def)
  then show ?thesis using that by (metis map_of_eq_None_iff not_None_eq)
qed

lemma FolderScope_fields:
  assumes "FolderScope sha key folder matrix h = Inr sc"
  shows "exact_text 512 (fs_canonical_key sc)" "canonical_name (fs_canonical_key sc) = fs_canonical_key sc"
    "exact_text 512 (fs_sync_folder sc)" "freeze_policy_matrix matrix = Inr (fs_event_policy_matrix sc)"
    "fs_config_hash sc = folder_scope_config_hash sha (fs_canonical_key sc) (fs_sync_folder sc)
       (fs_event_policy_matrix sc)"
  using assms
  by (auto simp: FolderScope_def and_then_Inr require_canonical_folder_key_def require_canonical_Inr
      require_exact_text_def MAX_FOLDER_IDENTITY_LENGTH_def
      split: py_object.splits if_splits sum.splits)

text \<open>Freezing again what was frozen changes nothing.\<close>

lemma kind_value_exact: "exact_text 128 (change_kind_value k)"
  by (cases k; simp add: exact_text_def strip_def lstrip_def py_isspace_def is_control_def
      utf8_ok_def is_surrogate_def lit_def)

lemma freeze_entries_raw:
  assumes "\<forall>((s, t, k), p)\<in>set m. t = change_kind_value k" "distinct (map fst (frozen @ m))"
  shows "freeze_entries (raw_of_matrix m) frozen = Inr (frozen @ m)"
  using assms
proof (induction m arbitrary: frozen)
  case (Cons e m)
  obtain s t k p where e: "e = ((s, t, k), p)" by (metis prod.exhaust)
  have "freeze_entries (raw_of_matrix m) (frozen @ [e]) = Inr ((frozen @ [e]) @ m)"
    by (rule Cons.IH) (use Cons.prems in auto)
  moreover have "exact_text MAX_EVENT_TYPE_LENGTH t"
    using Cons.prems(1) kind_value_exact by (simp add: e MAX_EVENT_TYPE_LENGTH_def)
  moreover have "s = SYNC" by (cases s) simp
  moreover have "p \<in> set RESOLVABLE_POLICIES" by (cases p) (simp_all add: RESOLVABLE_POLICIES_def)
  ultimately show ?case
    using Cons.prems(2)
    by (simp add: e raw_of_matrix_def require_exact_text_def require_source_def require_kind_def
        require_policy_def)
qed (simp add: raw_of_matrix_def)

lemma refreeze:
  assumes "freeze_policy_matrix v = Inr m"
  shows "freeze_policy_matrix (Some (raw_of_matrix m)) = Inr m"
proof -
  have d: "distinct (map fst m)" by (rule freeze_distinct) (rule assms)
  have "\<forall>((s, t, k), p)\<in>set m. t = change_kind_value k"
    using freeze_policy_cases [OF assms] map_of_is_SomeI [OF d] by fastforce
  with d have "freeze_entries (raw_of_matrix m) [] = Inr m" by (simp add: freeze_entries_raw)
  with assms show ?thesis by (auto simp: freeze_policy_matrix_def and_then_Inr)
qed

lemma configured_scope_accepted:
  assumes "require_canonical_folder_key key = Inr a" "require_exact_text ''sync_folder'' MAX_FOLDER_IDENTITY_LENGTH folder = Inr b"
    and "freeze_policy_matrix matrix = Inr m" and "is_sha256_hex (folder_scope_config_hash sha a b m)"
  shows "configured_scope sha key folder matrix =
    Inr \<lparr>fs_canonical_key = a, fs_sync_folder = b, fs_event_policy_matrix = m,
      fs_config_hash = folder_scope_config_hash sha a b m\<rparr>"
proof -
  have "require_canonical_folder_key (PyText a) = Inr a"
    using assms(1) by (auto simp: require_canonical_folder_key_def require_canonical_Inr
        split: py_object.splits sum.splits)
  moreover have "require_exact_text ''sync_folder'' MAX_FOLDER_IDENTITY_LENGTH (PyText b) = Inr b"
    using assms(2) by (auto simp: require_exact_text_def split: py_object.splits if_splits)
  ultimately show ?thesis
    using assms refreeze [OF assms(3)] by (simp add: configured_scope_def FolderScope_def)
qed

section \<open>Resolution\<close>

definition built_scope :: "(pybytes \<Rightarrow> pystr) \<Rightarrow> folder_scope \<Rightarrow> bool" where
  "built_scope sha sc \<longleftrightarrow> (\<exists>key folder matrix h. FolderScope sha key folder matrix h = Inr sc)"

lemma built_scope_matrix:
  "built_scope sha sc \<Longrightarrow> \<exists>v. freeze_policy_matrix v = Inr (fs_event_policy_matrix sc)"
  unfolding built_scope_def using FolderScope_fields(4) by blast

lemma scopes_distinct_iff:
  "scopes_distinct scopes ks fs \<longleftrightarrow>
     distinct (map fs_canonical_key scopes) \<and> distinct (map fs_sync_folder scopes)
     \<and> fs_canonical_key ` set scopes \<inter> set ks = {} \<and> fs_sync_folder ` set scopes \<inter> set fs = {}"
  by (induction scopes ks fs rule: scopes_distinct.induct) auto

lemma find_scope:
  assumes "snapshot_ready snap" "sc \<in> set (ps_scopes snap)"
  shows "List.find (\<lambda>candidate. fs_sync_folder sc = fs_sync_folder candidate) (ps_scopes snap) = Some sc"
proof -
  have "distinct (map fs_sync_folder (ps_scopes snap))"
    using assms(1) by (auto simp: snapshot_ready_def scopes_distinct_iff split: if_splits)
  then show ?thesis
    using assms(2) by (induction "ps_scopes snap" arbitrary: snap rule: list.induct)
      (auto simp: find_Some_iff in_set_conv_nth distinct_conv_nth)
qed

definition policy_in :: "folder_scope \<Rightarrow> change_kind \<Rightarrow> processing_policy" where
  "policy_in sc k =
     (case map_of (fs_event_policy_matrix sc) (SYNC, change_kind_value k, k) of
        None \<Rightarrow> IGNORED | Some p \<Rightarrow> p)"

lemma resolve_polled:
  assumes "snapshot_ready snap" "sc \<in> set (ps_scopes snap)" "exact_text 512 (fs_sync_folder sc)"
  shows "resolve_policy (PySource SYNC) (PyText (change_kind_value k)) (PyKind k)
      (PyText (fs_sync_folder sc)) (Some snap) = Inr (policy_in sc k)"
  using assms kind_value_exact [of k] find_scope [OF assms(1,2)]
  by (simp add: resolve_policy_def require_snapshot_def require_source_def require_kind_def
      require_exact_text_def MAX_EVENT_TYPE_LENGTH_def MAX_FOLDER_IDENTITY_LENGTH_def policy_in_def)

lemma resolve_cases:
  assumes "resolve_policy source raw kind folder (Some snap) = Inr p" "p \<noteq> IGNORED"
  obtains s t k f sc where "snapshot_ready snap" "raw = PyText t" "require_kind kind = Inr k"
    "folder = PyText f" "sc \<in> set (ps_scopes snap)" "fs_sync_folder sc = f"
    "map_of (fs_event_policy_matrix sc) (s, t, k) = Some p"
proof -
  have exact: "require_exact_text n m v = Inr t \<longleftrightarrow> v = PyText t \<and> exact_text m t" for n m v t
    by (auto simp: require_exact_text_def split: py_object.splits if_splits)
  from assms obtain s t k f where *: "snapshot_ready snap" "raw = PyText t"
    "require_kind kind = Inr k" "folder = PyText f"
    and found: "(case List.find (\<lambda>candidate. f = fs_sync_folder candidate) (ps_scopes snap) of
         None \<Rightarrow> Inr IGNORED
       | Some scope \<Rightarrow> Inr (case map_of (fs_event_policy_matrix scope) (s, t, k) of
           None \<Rightarrow> IGNORED | Some p \<Rightarrow> p)) = (Inr p :: policy_error + processing_policy)"
    by (auto simp: resolve_policy_def and_then_Inr require_snapshot_def exact split: if_splits)
  from found assms(2) obtain sc where sc: "List.find (\<lambda>candidate. f = fs_sync_folder candidate) (ps_scopes snap) = Some sc"
    and m: "map_of (fs_event_policy_matrix sc) (s, t, k) = Some p"
    by (auto split: option.splits)
  from sc have "sc \<in> set (ps_scopes snap)" "fs_sync_folder sc = f"
    by (auto simp: find_Some_iff)
  then show ?thesis using m by (rule that [OF *])
qed

text \<open>
  C17. Polling never escalates: with scopes the constructor accepted, a change is processed (in
  full or archived) only when the snapshot is ready, its folder is configured, it is a
  \<^verbatim>\<open>create\<close> announced as \<^verbatim>\<open>create\<close>, and the folder's own matrix says so; updates and deletes
  are at most recorded as metadata, and everything else is ignored. There is no fallback to
  full processing.
\<close>

theorem policy_never_escalates:
  assumes "list_all (built_scope sha) (ps_scopes snap)"
    and "resolve_policy source raw kind folder (Some snap) = Inr p"
  shows "snapshot_ready snap \<and>
    (p \<noteq> IGNORED \<longrightarrow>
      (\<exists>sc\<in>set (ps_scopes snap). \<exists>k. folder = PyText (fs_sync_folder sc)
        \<and> require_kind kind = Inr k \<and> raw = PyText (change_kind_value k)
        \<and> p = policy_in sc k
        \<and> (k = CREATE \<and> p \<in> {FULL, ARCHIVE} \<or> k \<in> {UPDATE, DELETE} \<and> p = METADATA_ONLY)))"
proof (intro conjI impI)
  show "snapshot_ready snap"
    using assms(2) by (auto simp: resolve_policy_def and_then_Inr require_snapshot_def split: if_splits)
  assume p: "p \<noteq> IGNORED"
  from assms(2) p show "\<exists>sc\<in>set (ps_scopes snap). \<exists>k. folder = PyText (fs_sync_folder sc)
        \<and> require_kind kind = Inr k \<and> raw = PyText (change_kind_value k)
        \<and> p = policy_in sc k
        \<and> (k = CREATE \<and> p \<in> {FULL, ARCHIVE} \<or> k \<in> {UPDATE, DELETE} \<and> p = METADATA_ONLY)"
  proof (rule resolve_cases)
    fix s t k f sc
    assume *: "raw = PyText t" "require_kind kind = Inr k" "folder = PyText f"
      "sc \<in> set (ps_scopes snap)" "fs_sync_folder sc = f"
      and m: "map_of (fs_event_policy_matrix sc) (s, t, k) = Some p"
    from assms(1) *(4) have "built_scope sha sc" by (simp add: list_all_iff)
    then obtain v where "freeze_policy_matrix v = Inr (fs_event_policy_matrix sc)"
      using built_scope_matrix by blast
    from freeze_policy_cases [OF this m] have t: "t = change_kind_value k"
      and pk: "k = CREATE \<and> p \<in> set CREATE_POLICIES \<or> k \<in> {UPDATE, DELETE} \<and> p = METADATA_ONLY"
      by simp_all
    have "s = SYNC" by (cases s) simp
    then have "p = policy_in sc k" using m t by (simp add: policy_in_def)
    with * t pk p show ?thesis by (auto simp: CREATE_POLICIES_def)
  qed
qed

definition sample_matrix :: raw_matrix where
  "sample_matrix =
     [([PyText (lit ''sync''), PyText (lit ''create''), PyKind CREATE], PyPolicy FULL),
      ([PySource SYNC, PyText (lit ''update''), PyText (lit ''update'')], PyText (lit ''metadata_only'')),
      ([PySource SYNC, PyText (lit ''delete''), PyKind DELETE], PyPolicy METADATA_ONLY)]"

definition sample_sha :: "pybytes \<Rightarrow> pystr" where
  "sample_sha b = replicate 64 48"

definition sample_scope :: folder_scope where
  "sample_scope = \<lparr>fs_canonical_key = lit ''INBOX'', fs_sync_folder = lit ''INBOX'',
     fs_event_policy_matrix = [(SYNC_CREATE_KEY, FULL), (SYNC_UPDATE_KEY, METADATA_ONLY),
       (SYNC_DELETE_KEY, METADATA_ONLY)],
     fs_config_hash = replicate 64 48\<rparr>"

lemma sample_frozen: "freeze_policy_matrix (Some sample_matrix) = Inr (fs_event_policy_matrix sample_scope)"
  using kind_value_exact [of CREATE] kind_value_exact [of UPDATE] kind_value_exact [of DELETE]
  by (simp add: freeze_policy_matrix_def sample_matrix_def sample_scope_def require_exact_text_def
      require_source_def require_kind_def require_policy_def ingress_source_of_def change_kind_of_def
      processing_policy_of_def MAX_EVENT_TYPE_LENGTH_def RESOLVABLE_POLICIES_def SYNC_CREATE_KEY_def
      SYNC_UPDATE_KEY_def SYNC_DELETE_KEY_def REQUIRED_POLICY_MATRIX_KEYS_def METADATA_POLICY_KEYS_def
      CREATE_POLICIES_def insert_commute)

lemma inbox_key: "exact_text 512 (lit ''INBOX'')" "canonical_name (lit ''INBOX'') = lit ''INBOX''"
  using standard_fixed exact_text_mono [of 16 _ 512] by (simp_all add: STANDARD_NAMES_def)

lemma sample_built: "built_scope sample_sha sample_scope"
  unfolding built_scope_def
  by (rule exI [of _ "PyText (lit ''INBOX'')"], rule exI [of _ "PyText (lit ''INBOX'')"],
      rule exI [of _ "Some sample_matrix"], rule exI [of _ "PyText (replicate 64 48)"])
    (simp add: FolderScope_def require_canonical_folder_key_def require_canonical_Inr inbox_key
      require_exact_text_def MAX_FOLDER_IDENTITY_LENGTH_def sample_frozen is_sha256_hex_def
      is_hex_lower_def list_all_iff folder_scope_config_hash_def sample_sha_def sample_scope_def
      require_canonical_folder_identity_def canonicalize_folder_identity_def require_exact_identity_def)

definition sample_snapshot :: policy_snapshot where
  "sample_snapshot = \<lparr>ps_scopes = [sample_scope], ps_refreshed = True, ps_refresh_failed = False\<rparr>"

lemma sample_ready: "snapshot_ready sample_snapshot"
  by (simp add: sample_snapshot_def snapshot_ready_def)

lemma sample_resolved:
  "resolve_policy (PySource SYNC) (PyText (change_kind_value CREATE)) (PyKind CREATE)
     (PyText (fs_sync_folder sample_scope)) (Some sample_snapshot) = Inr FULL"
  by (subst resolve_polled)
    (simp_all add: sample_ready [unfolded sample_snapshot_def] sample_snapshot_def
      sample_scope_def [THEN arg_cong [where f = fs_sync_folder]]
      sample_scope_def [THEN arg_cong [where f = fs_event_policy_matrix]] inbox_key policy_in_def
      SYNC_CREATE_KEY_def)

theorem policy_never_escalates_witness:
  "\<exists>sc\<in>set (ps_scopes sample_snapshot). FULL = policy_in sc CREATE"
  using policy_never_escalates [OF _ sample_resolved, of sample_sha]
  by (auto simp: sample_snapshot_def sample_built require_kind_def)

end
