(* ===== verification/PyCalendar.thy ===== *)
theory PyCalendar
  imports PyText
begin

text \<open>
  The proleptic Gregorian calendar of Python's \<^verbatim>\<open>datetime\<close>: month lengths, ordinals, weekdays,
  and the reading of fixed-width ASCII decimals. A time is its microseconds since the start of
  0001-01-01 UTC.
\<close>

definition is_leap :: "nat \<Rightarrow> bool" where
  "is_leap y = (y mod 4 = 0 \<and> (y mod 100 \<noteq> 0 \<or> y mod 400 = 0))"

definition days_in_month :: "nat \<Rightarrow> nat \<Rightarrow> nat" where
  "days_in_month y m =
     (if m = 2 then (if is_leap y then 29 else 28) else if m \<in> {4, 6, 9, 11} then 30 else 31)"

text \<open>The arguments the \<^verbatim>\<open>datetime\<close> constructor accepts.\<close>

definition valid_date :: "nat \<Rightarrow> nat \<Rightarrow> nat \<Rightarrow> bool" where
  "valid_date y m d = (1 \<le> y \<and> y \<le> 9999 \<and> 1 \<le> m \<and> m \<le> 12 \<and> 1 \<le> d \<and> d \<le> days_in_month y m)"

definition valid_clock :: "nat \<Rightarrow> nat \<Rightarrow> nat \<Rightarrow> bool" where
  "valid_clock h mi s = (h \<le> 23 \<and> mi \<le> 59 \<and> s \<le> 59)"

definition days_before_year :: "nat \<Rightarrow> nat" where
  "days_before_year y = (let z = y - 1 in z * 365 + z div 4 - z div 100 + z div 400)"

definition days_before_month :: "nat \<Rightarrow> nat \<Rightarrow> nat" where
  "days_before_month y m = sum_list (map (days_in_month y) [1..<m])"

definition ymd2ord :: "nat \<Rightarrow> nat \<Rightarrow> nat \<Rightarrow> nat" where
  "ymd2ord y m d = days_before_year y + days_before_month y m + d"

definition weekday :: "nat \<Rightarrow> nat \<Rightarrow> nat \<Rightarrow> nat" where
  "weekday y m d = (ymd2ord y m d + 6) mod 7"

definition time_of :: "nat \<Rightarrow> nat \<Rightarrow> nat \<Rightarrow> nat \<Rightarrow> nat \<Rightarrow> nat \<Rightarrow> int" where
  "time_of y m d h mi s =
     int (((ymd2ord y m d - 1) * 86400 + h * 3600 + mi * 60 + s) * 1000000)"

definition date_digit :: "nat \<Rightarrow> bool" where
  "date_digit c = (48 \<le> c \<and> c \<le> 57)"

definition all_digits :: "pystr \<Rightarrow> bool" where
  "all_digits s = list_all date_digit s"

definition number :: "pystr \<Rightarrow> nat" where
  "number s = dec_value 0 s"

text \<open>\<^verbatim>\<open>YYYY-MM-DDTHH:MM:SS\<close> accepted by \<^verbatim>\<open>datetime.fromisoformat\<close>.\<close>

definition slice :: "nat \<Rightarrow> nat \<Rightarrow> 'a list \<Rightarrow> 'a list" where
  "slice i n s = take n (drop i s)"

definition iso_seconds_shape :: "pystr \<Rightarrow> bool" where
  "iso_seconds_shape s =
     (length s = 19 \<and> all_digits (slice 0 4 s) \<and> s ! 4 = 45 \<and> all_digits (slice 5 2 s)
      \<and> s ! 7 = 45 \<and> all_digits (slice 8 2 s) \<and> s ! 10 = 84 \<and> all_digits (slice 11 2 s)
      \<and> s ! 13 = 58 \<and> all_digits (slice 14 2 s) \<and> s ! 16 = 58 \<and> all_digits (slice 17 2 s))"

definition iso_seconds_valid :: "pystr \<Rightarrow> bool" where
  "iso_seconds_valid s =
     (valid_date (number (slice 0 4 s)) (number (slice 5 2 s)) (number (slice 8 2 s))
      \<and> valid_clock (number (slice 11 2 s)) (number (slice 14 2 s)) (number (slice 17 2 s)))"

lemma weekday_samples: "weekday 1994 11 6 = 6" "weekday 2000 2 29 = 1" "weekday 1 1 1 = 0"
  by (simp_all add: weekday_def ymd2ord_def days_before_year_def days_before_month_def
      days_in_month_def is_leap_def upt_rec)

end
