(* ===== verification/IngressNormalization.thy ===== *)
theory IngressNormalization
  imports PlainJson PollingPolicy PyCalendar CanonicalJson
begin

text \<open>
  \<^verbatim>\<open>src/ingestion/normalization.py\<close>: the checks that turn one change of the mailbox into a
  durable event, and the key its deliveries are deduplicated by. A raised
  \<^verbatim>\<open>IngressValidationError\<close> is the left injection of its code.
\<close>

datatype ingress_code =
    ACCOUNT_INVALID | EMAIL_ID_INVALID | FOLDER_INVALID | VERSION_INVALID | POLICY_INVALID
  | SYNC_CHANGE_INVALID | SYNC_ITEM_INVALID | SYNC_ITEM_ID_CONFLICT | CURSOR_INVALID
  | NORMALIZED_EVENT_INVALID | CANONICALIZATION_INVALID

section \<open>Plain JSON trees\<close>

text \<open>\<open>plain_json\<close> on a value without sharing, such as the frozen item of a \<^verbatim>\<open>SyncChange\<close>.\<close>

fun plain_tree_ok :: "json \<Rightarrow> bool" and plain_tree_ok_list :: "json list \<Rightarrow> bool"
  and plain_tree_ok_fields :: "(pystr \<times> json) list \<Rightarrow> bool" where
  "plain_tree_ok (JStr s) = plain_text s"
| "plain_tree_ok (JArr xs) = plain_tree_ok_list xs"
| "plain_tree_ok (JObj l) = (distinct (map fst l) \<and> plain_tree_ok_fields l)"
| "plain_tree_ok _ = True"
| "plain_tree_ok_list [] = True"
| "plain_tree_ok_list (x # xs) = (plain_tree_ok x \<and> plain_tree_ok_list xs)"
| "plain_tree_ok_fields [] = True"
| "plain_tree_ok_fields ((k, v) # l) = (plain_text k \<and> plain_tree_ok v \<and> plain_tree_ok_fields l)"

definition plain_tree :: "ingress_code \<Rightarrow> json \<Rightarrow> ingress_code + json" where
  "plain_tree code j = (if plain_tree_ok j then Inr j else Inl code)"

definition canonical_json_bytes :: "json_texts \<Rightarrow> json \<Rightarrow> ingress_code + pybytes" where
  "canonical_json_bytes t j =
     and_then (plain_tree CANONICALIZATION_INVALID j) (\<lambda>p.
       some_or CANONICALIZATION_INVALID
         (utf8_encode (json_dumps (compact_format False (python_float t)) p)))"

section \<open>Fields\<close>

definition require_account_id :: "int \<Rightarrow> ingress_code + int" where
  "require_account_id v =
     and_then (ensure (1 \<le> v \<and> v \<le> POSTGRES_BIGINT_MAX) ACCOUNT_INVALID) (\<lambda>_. Inr v)"

definition require_ingress_text ::
  "ingress_code \<Rightarrow> nat \<Rightarrow> bool \<Rightarrow> json \<Rightarrow> ingress_code + pystr" where
  "require_ingress_text code max_length trim v =
     (case v of
        JStr s \<Rightarrow>
          (let candidate = (if trim then strip s else s)
           in if candidate = [] \<or> (\<not> trim \<and> candidate \<noteq> strip candidate)
                 \<or> length candidate > max_length \<or> list_ex is_control candidate
              then Inl code
              else if \<not> utf8_ok candidate then Inl code else Inr candidate)
      | _ \<Rightarrow> Inl code)"

definition optional_ingress_text ::
  "ingress_code \<Rightarrow> nat \<Rightarrow> json \<Rightarrow> ingress_code + pystr option" where
  "optional_ingress_text code max_length v =
     (if v = JNull then Inr None
      else and_then (require_ingress_text code max_length False v) (\<lambda>t. Inr (Some t)))"

definition normalize_folder :: "pystr \<Rightarrow> ingress_code + pystr" where
  "normalize_folder v =
     and_then (require_ingress_text FOLDER_INVALID 512 True (JStr v)) (\<lambda>folder.
       case canonicalize_folder_identity folder of
         Inl _ \<Rightarrow> Inl FOLDER_INVALID | Inr c \<Rightarrow> Inr c)"

section \<open>The contract of a change\<close>

definition SYNC_TRANSPORT_KEYS :: "pystr list" where
  "SYNC_TRANSPORT_KEYS = [lit ''change_type'', lit ''id'', lit ''item'']"

definition SYNC_ITEM_ALLOWED_KEYS :: "pystr list" where
  "SYNC_ITEM_ALLOWED_KEYS = [lit ''id'', lit ''subject'', lit ''sender'', lit ''received_time'',
     lit ''is_read'', lit ''has_attachments'']"

definition SUPPORTED_SYNC_KINDS :: "change_kind list" where
  "SUPPORTED_SYNC_KINDS = [CREATE, UPDATE, DELETE]"

definition validate_sync_item_text :: "(pystr \<times> json) list \<Rightarrow> string \<Rightarrow> nat \<Rightarrow> ingress_code + unit" where
  "validate_sync_item_text item key max_length =
     (case map_of item (lit key) of
        None \<Rightarrow> Inr ()
      | Some JNull \<Rightarrow> Inr ()
      | Some (JStr s) \<Rightarrow>
          and_then (ensure (\<not> (length s > max_length \<or> 0 \<in> set s)) SYNC_ITEM_INVALID)
            (\<lambda>_. ensure (utf8_ok s) SYNC_ITEM_INVALID)
      | Some _ \<Rightarrow> Inl SYNC_ITEM_INVALID)"

definition validate_sync_item ::
  "bool \<Rightarrow> pystr \<Rightarrow> (pystr \<times> json) list \<Rightarrow> ingress_code + unit" where
  "validate_sync_item is_transport external_email_id item =
     and_then (ensure (if is_transport then set (map fst item) = set SYNC_ITEM_ALLOWED_KEYS
         else set (map fst item) \<subseteq> set SYNC_ITEM_ALLOWED_KEYS) SYNC_ITEM_INVALID) (\<lambda>_.
     and_then (case map_of item (lit ''id'') of
         None \<Rightarrow> Inr ()
       | Some v \<Rightarrow> and_then (require_ingress_text SYNC_ITEM_INVALID 1024 False v) (\<lambda>item_id.
           ensure (item_id = external_email_id) SYNC_ITEM_ID_CONFLICT)) (\<lambda>_.
     and_then (validate_sync_item_text item ''subject'' 32768) (\<lambda>_.
     and_then (validate_sync_item_text item ''sender'' 2048) (\<lambda>_.
     and_then (validate_sync_item_text item ''received_time'' 128) (\<lambda>_.
     and_then (case map_of item (lit ''received_time'') of
         None \<Rightarrow> Inr ()
       | Some JNull \<Rightarrow> Inr ()
       | Some (JStr s) \<Rightarrow>
           and_then (ensure (iso_seconds_shape s) SYNC_ITEM_INVALID)
             (\<lambda>_. ensure (iso_seconds_valid s) SYNC_ITEM_INVALID)
       | Some _ \<Rightarrow> Inl SYNC_ITEM_INVALID) (\<lambda>_.
     ensure (list_all (\<lambda>key. case map_of item (lit key) of
         None \<Rightarrow> True | Some (JBool _) \<Rightarrow> True | Some _ \<Rightarrow> False) [''is_read'', ''has_attachments''])
       SYNC_ITEM_INVALID))))))"

text \<open>
  The argument of \<^verbatim>\<open>validate_sync_change_contract\<close>: a typed change, the raw mapping of the
  transport (a value in a heap, with the recursion depth left), or anything else.
\<close>

datatype change_argument =
  TypedChange sync_change | TransportChange nat heap pyval | OtherChange

definition read_transport :: "nat \<Rightarrow> heap \<Rightarrow> pyval \<Rightarrow> ingress_code + (change_kind \<times> json \<times> json)" where
  "read_transport depth h v =
     (case plain_json depth h [] v of
        Plain (JObj l) \<Rightarrow>
          and_then (ensure (set (map fst l) = set SYNC_TRANSPORT_KEYS) SYNC_CHANGE_INVALID) (\<lambda>_.
            case (map_of l (lit ''change_type''), map_of l (lit ''id''), map_of l (lit ''item'')) of
              (Some (JStr k), Some i, Some item) \<Rightarrow>
                and_then (some_or SYNC_CHANGE_INVALID (change_kind_of k)) (\<lambda>kind. Inr (kind, i, item))
            | _ \<Rightarrow> Inl SYNC_CHANGE_INVALID)
      | _ \<Rightarrow> Inl SYNC_CHANGE_INVALID)"

text \<open>The kind, the raw identifier, the raw item (\<open>JNull\<close>: none) and the raw version.\<close>

definition change_fields ::
  "change_argument \<Rightarrow> ingress_code + (bool \<times> change_kind \<times> json \<times> json \<times> json)" where
  "change_fields change =
     (case change of
        TypedChange c \<Rightarrow> Inr (False, ch_kind c, JStr (ch_external_email_id c),
          (case ch_item c of None \<Rightarrow> JNull | Some j \<Rightarrow> j), json_text (ch_source_version c))
      | TransportChange depth h v \<Rightarrow>
          and_then (read_transport depth h v) (\<lambda>(kind, i, item). Inr (True, kind, i, item, JNull))
      | OtherChange \<Rightarrow> Inl SYNC_CHANGE_INVALID)"

definition normalized_item ::
  "bool \<Rightarrow> pystr \<Rightarrow> json \<Rightarrow> ingress_code + json option" where
  "normalized_item is_transport external_email_id item =
     (case item of
        JNull \<Rightarrow> Inr None
      | _ \<Rightarrow> and_then (plain_tree SYNC_ITEM_INVALID item) (\<lambda>p.
          case p of
            JObj l \<Rightarrow> and_then (validate_sync_item is_transport external_email_id l) (\<lambda>_. Inr (Some p))
          | _ \<Rightarrow> Inl SYNC_ITEM_INVALID))"

definition is_object :: "json \<Rightarrow> bool" where
  "is_object j = (case j of JObj _ \<Rightarrow> True | _ \<Rightarrow> False)"

definition validate_sync_change_contract ::
  "json_texts \<Rightarrow> change_argument \<Rightarrow> ingress_code + sync_change" where
  "validate_sync_change_contract t change =
     and_then (change_fields change) (\<lambda>(is_transport, kind, raw_id, item, raw_version).
     and_then (ensure (kind \<in> set SUPPORTED_SYNC_KINDS) SYNC_CHANGE_INVALID) (\<lambda>_.
     and_then (require_ingress_text EMAIL_ID_INVALID 1024 False raw_id) (\<lambda>external_email_id.
     and_then (optional_ingress_text VERSION_INVALID 512 raw_version) (\<lambda>source_version.
     and_then (ensure (item = JNull \<or> is_object item) SYNC_ITEM_INVALID) (\<lambda>_.
     and_then (ensure (if kind \<in> {CREATE, UPDATE} then item \<noteq> JNull else item = JNull)
         SYNC_ITEM_INVALID) (\<lambda>_.
     and_then (normalized_item is_transport external_email_id item) (\<lambda>normalized.
       case SyncChange t \<lparr>ch_kind = kind, ch_external_email_id = external_email_id,
           ch_item = normalized, ch_source_version = source_version\<rparr> of
         Inl _ \<Rightarrow> Inl SYNC_ITEM_INVALID
       | Inr c \<Rightarrow> Inr c)))))))"

section \<open>The event\<close>

definition dedupe_identity ::
  "int \<Rightarrow> pystr \<Rightarrow> change_kind \<Rightarrow> pystr \<Rightarrow> pystr \<Rightarrow> pystr option \<Rightarrow> pystr \<Rightarrow> json" where
  "dedupe_identity account_id raw_event_type kind external_email_id folder source_version cursor =
     JObj [(lit ''schema_version'', JInt 2),
           (lit ''account_id'', JInt account_id),
           (lit ''source'', JStr (ingress_source_value SYNC)),
           (lit ''raw_event_type'', JStr raw_event_type),
           (lit ''kind'', JStr (change_kind_value kind)),
           (lit ''external_email_id'', JStr external_email_id),
           (lit ''folder'', JStr folder),
           (lit ''source_version'', json_text source_version),
           (lit ''cursor'', JStr cursor)]"

definition dedupe_key ::
  "(pybytes \<Rightarrow> pystr) \<Rightarrow> json_texts \<Rightarrow> int \<Rightarrow> pystr \<Rightarrow> change_kind \<Rightarrow> pystr \<Rightarrow> pystr
    \<Rightarrow> pystr option \<Rightarrow> pystr \<Rightarrow> ingress_code + pystr" where
  "dedupe_key sha t account_id raw_event_type kind external_email_id folder source_version cursor =
     and_then (canonical_json_bytes t (dedupe_identity account_id raw_event_type kind
         external_email_id folder source_version cursor)) (\<lambda>b. Inr (sha b))"

definition event_payload :: "pystr \<Rightarrow> sync_change \<Rightarrow> json" where
  "event_payload cursor c =
     JObj [(lit ''cursor'', JStr cursor),
           (lit ''change_type'', JStr (change_kind_value (ch_kind c))),
           (lit ''id'', JStr (ch_external_email_id c)),
           (lit ''item'', case ch_item c of None \<Rightarrow> JNull | Some j \<Rightarrow> j),
           (lit ''source_version'', json_text (ch_source_version c))]"

definition normalize_sync_change ::
  "(pybytes \<Rightarrow> pystr) \<Rightarrow> json_texts \<Rightarrow> int \<Rightarrow> pystr \<Rightarrow> pystr \<Rightarrow> change_argument
    \<Rightarrow> processing_policy \<Rightarrow> ingress_code + ingress_event" where
  "normalize_sync_change sha t account_id folder cursor change policy =
     and_then (require_account_id account_id) (\<lambda>account.
     and_then (normalize_folder folder) (\<lambda>normal_folder.
     and_then (require_ingress_text CURSOR_INVALID 8192 False (JStr cursor)) (\<lambda>normal_cursor.
     and_then (validate_sync_change_contract t change) (\<lambda>c.
       case dedupe_key sha t account (change_kind_value (ch_kind c)) (ch_kind c)
           (ch_external_email_id c) normal_folder (ch_source_version c) normal_cursor of
         Inl _ \<Rightarrow> Inl NORMALIZED_EVENT_INVALID
       | Inr key \<Rightarrow>
           (case NormalizedIngressEvent t
              \<lparr>ev_account_id = account, ev_source = SYNC,
               ev_raw_event_type = change_kind_value (ch_kind c), ev_kind = ch_kind c,
               ev_external_email_id = ch_external_email_id c, ev_folder = normal_folder,
               ev_source_version = ch_source_version c, ev_dedupe_key = key,
               ev_payload = event_payload normal_cursor c, ev_processing_policy = policy,
               ev_source_event_at = None\<rparr> of
              Inl _ \<Rightarrow> Inl NORMALIZED_EVENT_INVALID
            | Inr e \<Rightarrow> Inr e)))))"

section \<open>Accepted values\<close>

lemma lstrip_head: "lstrip s = c # r \<Longrightarrow> \<not> py_isspace c"
  by (induction s) (auto simp: lstrip_def split: if_splits)

lemma lstrip_id: "s = [] \<or> \<not> py_isspace (hd s) \<Longrightarrow> lstrip s = s"
  by (cases s) (auto simp: lstrip_def)

lemma lstrip_suffix: "\<exists>p. s = p @ lstrip s"
  by (metis lstrip_def takeWhile_dropWhile_id)

lemma strip_idem [simp]: "strip (strip s) = strip s"
proof -
  let ?m = "lstrip (rev (lstrip s))"
  have head: "?m = [] \<or> \<not> py_isspace (hd ?m)" by (cases ?m) (auto dest: lstrip_head)
  have "lstrip (rev ?m) = rev ?m"
  proof (rule lstrip_id)
    obtain p where "rev (lstrip s) = p @ ?m" using lstrip_suffix by blast
    then have "lstrip s = rev ?m @ rev p" by (metis rev_append rev_rev_ident)
    then show "rev ?m = [] \<or> \<not> py_isspace (hd (rev ?m))"
      by (cases "rev ?m") (auto dest: lstrip_head)
  qed
  then show ?thesis using lstrip_id [OF head] by (simp add: strip_def)
qed

lemma require_text_Inr:
  "require_ingress_text code n False (JStr s) = Inr r \<longleftrightarrow> exact_text n s \<and> r = s"
  "require_ingress_text code n True (JStr s) = Inr r \<longleftrightarrow> exact_text n (strip s) \<and> r = strip s"
  by (auto simp: require_ingress_text_def exact_text_def Let_def)

lemma require_text_JStr:
  "require_ingress_text code n b v = Inr r \<Longrightarrow> \<exists>s. v = JStr s"
  by (cases v) (simp_all add: require_ingress_text_def)

lemma optional_text_Inr:
  "optional_ingress_text code n v = Inr r \<Longrightarrow>
     v = json_text r \<and> (case r of None \<Rightarrow> True | Some s \<Rightarrow> exact_text n s)"
  by (cases v) (auto simp: optional_ingress_text_def and_then_Inr json_text_def require_text_Inr
      dest: require_text_JStr split: if_splits)

lemma normalize_folder_Inr:
  "normalize_folder f = Inr r \<longleftrightarrow> exact_text 512 (strip f) \<and> r = canonical_name (strip f)"
  by (auto simp: normalize_folder_def and_then_Inr require_text_Inr canonicalize_folder_identity_def
      require_exact_identity_def MAX_FOLDER_IDENTITY_LENGTH_def)

text \<open>What a change that passed its contract looks like.\<close>

definition change_ok :: "sync_change \<Rightarrow> bool" where
  "change_ok c =
     (ch_kind c \<in> {CREATE, UPDATE, DELETE} \<and> exact_text 1024 (ch_external_email_id c)
      \<and> (case ch_source_version c of None \<Rightarrow> True | Some v \<Rightarrow> exact_text 512 v)
      \<and> (case ch_item c of
           None \<Rightarrow> ch_kind c = DELETE
         | Some j \<Rightarrow> ch_kind c \<noteq> DELETE \<and> is_object j \<and> plain_tree_ok j))"

lemma normalized_item_Inr:
  "normalized_item b i item = Inr r \<Longrightarrow>
     r = (if item = JNull then None else Some item)
     \<and> (item \<noteq> JNull \<longrightarrow> is_object item \<and> plain_tree_ok item)"
  by (cases item) (auto simp: normalized_item_def and_then_Inr plain_tree_def is_object_def
      split: if_splits)

lemma contract_ok:
  assumes "validate_sync_change_contract t change = Inr c"
  shows "change_ok c" "SyncChange t c = Inr c"
proof -
  from assms obtain is_transport kind raw_id item raw_version i v n where
    kind: "kind \<in> set SUPPORTED_SYNC_KINDS"
    and i: "require_ingress_text EMAIL_ID_INVALID 1024 False raw_id = Inr i"
    and v: "optional_ingress_text VERSION_INVALID 512 raw_version = Inr v"
    and item: "if kind \<in> {CREATE, UPDATE} then item \<noteq> JNull else item = JNull"
    and n: "normalized_item is_transport i item = Inr n"
    and c: "SyncChange t \<lparr>ch_kind = kind, ch_external_email_id = i, ch_item = n,
        ch_source_version = v\<rparr> = Inr c"
    by (auto simp: validate_sync_change_contract_def and_then_Inr split: prod.splits sum.splits)
  from c have c_eq: "c = \<lparr>ch_kind = kind, ch_external_email_id = i, ch_item = n, ch_source_version = v\<rparr>"
    by (simp add: SyncChange_def require_Inr_iff del: require.simps)
  with c show "SyncChange t c = Inr c" by simp
  from i obtain s where "raw_id = JStr s" using require_text_JStr by blast
  with i have "exact_text 1024 i" by (simp add: require_text_Inr)
  with c_eq kind item optional_text_Inr [OF v] normalized_item_Inr [OF n] show "change_ok c"
    by (cases kind) (simp_all add: change_ok_def SUPPORTED_SYNC_KINDS_def split: option.splits)
qed

lemma contract_typed:
  assumes "validate_sync_change_contract t (TypedChange c) = Inr c'"
  shows "ch_kind c' = ch_kind c" "ch_external_email_id c' = ch_external_email_id c"
    "ch_source_version c' = ch_source_version c"
proof -
  from assms obtain v n where
    v: "optional_ingress_text VERSION_INVALID 512 (json_text (ch_source_version c)) = Inr v"
    and c: "SyncChange t \<lparr>ch_kind = ch_kind c, ch_external_email_id = ch_external_email_id c,
        ch_item = n, ch_source_version = v\<rparr> = Inr c'"
    by (auto simp: validate_sync_change_contract_def change_fields_def and_then_Inr require_text_Inr
        split: sum.splits)
  from c have "c' = \<lparr>ch_kind = ch_kind c, ch_external_email_id = ch_external_email_id c,
      ch_item = n, ch_source_version = v\<rparr>"
    by (simp add: SyncChange_def require_Inr_iff del: require.simps)
  moreover have "v = ch_source_version c"
    using optional_text_Inr [OF v] by (auto simp: json_text_def split: option.splits)
  ultimately show "ch_kind c' = ch_kind c" "ch_external_email_id c' = ch_external_email_id c"
    "ch_source_version c' = ch_source_version c" by simp_all
qed

section \<open>The text that is hashed\<close>

lemma change_kind_plain: "plain_text (change_kind_value k)"
  by (cases k) (simp_all add: plain_text_def utf8_ok_def is_surrogate_def lit_def)

lemma exact_text_plain: "exact_text n s \<Longrightarrow> plain_text s"
  using control_not_in by (auto simp: exact_text_def plain_text_def)

lemma plain_text_lit: "list_all (\<lambda>c. of_char c \<noteq> (0::nat) \<and> of_char c < (128::nat)) s \<Longrightarrow> plain_text (lit s)"
  by (induction s) (auto simp: plain_text_def utf8_ok_def lit_def is_surrogate_def)

definition version_plain :: "pystr option \<Rightarrow> bool" where
  "version_plain v = (case v of None \<Rightarrow> True | Some s \<Rightarrow> plain_text s)"

lemma dedupe_identity_plain_tree:
  assumes "plain_text raw" "plain_text i" "plain_text f" "version_plain v" "plain_text cu"
  shows "plain_tree_ok (dedupe_identity a raw k i f v cu)"
  using assms change_kind_plain [of k]
  by (cases v) (auto simp: dedupe_identity_def json_text_def version_plain_def plain_text_lit)

end
