(* ===== verification/IngressIdentity.thy ===== *)
theory IngressIdentity
  imports IngressNormalization
begin

text \<open>
  What a normalized event is known to satisfy, and that its deduplication key identifies one
  delivery of one change: the hashed text determines account, change, folder, version and
  cursor, as UTF-8 and canonical JSON are injective.
\<close>

section \<open>UTF-8 is injective\<close>

text \<open>A Python string holds code points below 1114112.\<close>

definition code_points :: "pystr \<Rightarrow> bool" where
  "code_points s = list_all (\<lambda>c. c < 1114112) s"

lemma utf8_width:
  "c < 128 \<Longrightarrow> utf8_char c = [c]"
  "128 \<le> c \<Longrightarrow> c < 2048 \<Longrightarrow> utf8_char c = [192 + c div 64, 128 + c mod 64]"
  "2048 \<le> c \<Longrightarrow> c < 65536 \<Longrightarrow>
     utf8_char c = [224 + c div 4096, 128 + c div 64 mod 64, 128 + c mod 64]"
  "65536 \<le> c \<Longrightarrow>
     utf8_char c = [240 + c div 262144, 128 + c div 4096 mod 64, 128 + c div 64 mod 64, 128 + c mod 64]"
  by (simp_all add: utf8_char_def)

text \<open>The first byte tells how many follow.\<close>

lemma utf8_first:
  fixes c :: nat
  assumes "c < 1114112"
  shows "c < 128 \<and> hd (utf8_char c) < 128
    \<or> 128 \<le> c \<and> c < 2048 \<and> 192 \<le> hd (utf8_char c) \<and> hd (utf8_char c) < 224
    \<or> 2048 \<le> c \<and> c < 65536 \<and> 224 \<le> hd (utf8_char c) \<and> hd (utf8_char c) < 240
    \<or> 65536 \<le> c \<and> 240 \<le> hd (utf8_char c)"
proof -
  consider "c < 128" | "128 \<le> c" "c < 2048" | "2048 \<le> c" "c < 65536" | "65536 \<le> c" by linarith
  then show ?thesis
  proof cases
    case 2
    then have "c div 64 < 32" by (simp add: less_mult_imp_div_less)
    with 2 show ?thesis by (simp add: utf8_width)
  next
    case 3
    then have "c div 4096 < 16" by (simp add: less_mult_imp_div_less)
    with 3 show ?thesis by (simp add: utf8_width)
  qed (simp_all add: utf8_width)
qed

lemma utf8_char_nonempty [simp]: "utf8_char c \<noteq> []"
  by (simp add: utf8_char_def)

lemma div_64_steps:
  fixes c d :: nat
  assumes "c mod 64 = d mod 64" "c div 64 mod 64 = d div 64 mod 64"
  shows "c div 4096 = d div 4096 \<Longrightarrow> c = d"
    "c div 4096 mod 64 = d div 4096 mod 64 \<Longrightarrow> c div 262144 = d div 262144 \<Longrightarrow> c = d"
proof -
  have d: "x div 4096 = x div 64 div 64" "x div 262144 = x div 4096 div 64" for x :: nat
    by (simp_all add: div_mult2_eq [symmetric])
  show *: "c = d" if "c div 4096 = d div 4096"
    by (rule div_mod_inject [OF div_mod_inject [OF _ assms(2)] assms(1)]) (use that d in simp)
  show "c = d" if "c div 4096 mod 64 = d div 4096 mod 64" "c div 262144 = d div 262144"
    by (rule *) (rule div_mod_inject [of _ 64], use that d in simp_all)
qed

lemma utf8_char_append:
  assumes "c < 1114112" "d < 1114112"
  shows "utf8_char c @ x = utf8_char d @ y \<longleftrightarrow> c = d \<and> x = y"
proof
  assume eq: "utf8_char c @ x = utf8_char d @ y"
  then have h: "hd (utf8_char c) = hd (utf8_char d)"
    by (metis hd_append2 utf8_char_nonempty)
  consider "c < 128" "d < 128" | "128 \<le> c" "c < 2048" "128 \<le> d" "d < 2048"
    | "2048 \<le> c" "c < 65536" "2048 \<le> d" "d < 65536" | "65536 \<le> c" "65536 \<le> d"
    using utf8_first [OF assms(1)] utf8_first [OF assms(2)] h by linarith
  then show "c = d \<and> x = y"
  proof cases
    case 2
    with eq show ?thesis using div_mod_inject [of c 64 d] by (simp add: utf8_width)
  next
    case 3
    with eq show ?thesis using div_64_steps(1) [of c d] by (simp add: utf8_width)
  next
    case 4
    with eq show ?thesis using div_64_steps(2) [of c d] by (simp add: utf8_width)
  qed (use eq in \<open>simp add: utf8_width\<close>)
qed simp

lemma utf8_inject:
  "code_points s \<Longrightarrow> code_points t \<Longrightarrow> utf8 s = utf8 t \<longleftrightarrow> s = t"
proof (induction s arbitrary: t)
  case Nil
  then show ?case by (cases t) (auto simp: utf8_def)
next
  case (Cons c s)
  show ?case
  proof (cases t)
    case (Cons d u)
    with Cons.prems Cons.IH [of u] show ?thesis
      by (simp add: utf8_def code_points_def utf8_char_append)
  qed (simp add: utf8_def)
qed

section \<open>Canonical text has the code points of its value\<close>

lemma hex_digit_small: "hex_digit (n mod 16) < 1114112"
  using hex_digit_ascii [of n] by simp

lemma code_points_simps [simp]:
  "code_points []" "code_points (c # s) \<longleftrightarrow> c < 1114112 \<and> code_points s"
  "code_points (s @ t) \<longleftrightarrow> code_points s \<and> code_points t"
  by (simp_all add: code_points_def)

lemma code_points_ascii: "py_isascii s \<Longrightarrow> code_points s"
  by (auto simp: py_isascii_def code_points_def list_all_iff)

lemma code_points_escape: "c < 1114112 \<Longrightarrow> code_points (escape_char False c)"
  by (simp add: escape_char_def code_points_ascii [OF u_escape_ascii])

lemma code_points_string: "code_points s \<Longrightarrow> code_points (json_string False s)"
  by (induction s) (auto simp: json_string_def code_points_escape)

lemma code_points_join:
  "code_points sep \<Longrightarrow> (\<And>x. x \<in> set xs \<Longrightarrow> code_points x) \<Longrightarrow> code_points (join sep xs)"
  by (induction sep xs rule: join.induct) simp_all

lemma plain_chars_code_points: "list_all plain_char s \<Longrightarrow> code_points s"
  by (induction s) (simp_all add: plain_char_def)

lemma code_points_dumps: "plain j \<Longrightarrow> code_points (json_dumps (compact_format False t) j)"
proof (induction j)
  case (JArr xs)
  then show ?case unfolding json_dumps_arr
    by (auto simp: compact_format_def plain_list_iff intro!: code_points_join)
next
  case (JObj l)
  have val: "code_points (json_dumps (compact_format False t) v)" if "(k, v) \<in> set l" for k v
    by (rule JObj.IH [OF that]) (use JObj.prems that in \<open>auto simp: snds.simps plain_fields_iff\<close>)
  have key: "code_points (json_string False k)" if "(k, v) \<in> set l" for k v
    using JObj.prems that by (auto simp: plain_fields_iff plain_chars_code_points code_points_string)
  have "code_points (field_text (compact_format False t) p)" if "p \<in> set l" for p
  proof -
    obtain k v where p: "p = (k, v)" by (cases p)
    with that have "(k, v) \<in> set l" by simp
    from val [OF this] key [OF this] show ?thesis
      by (simp add: p field_text_def compact_format_def)
  qed
  then show ?case unfolding json_dumps_obj
    by (auto simp: compact_format_def intro!: code_points_join)
qed (simp_all add: lit_def code_points_ascii [OF dec_int_ascii] code_points_string
    plain_chars_code_points compact_format_def)

lemma canonical_bytes_inject:
  assumes "plain a" "plain b"
  shows "utf8 (json_dumps (compact_format False t) a) = utf8 (json_dumps (compact_format False t) b)
    \<longleftrightarrow> json_dumps (compact_format False t) a = json_dumps (compact_format False t) b"
  using assms by (simp add: utf8_inject code_points_dumps)

section \<open>Normalized events\<close>

text \<open>The cursor a normalized event was delivered with.\<close>

definition event_cursor :: "ingress_event \<Rightarrow> json option" where
  "event_cursor e = json_get (ev_payload e) (lit ''cursor'')"

definition identity_text :: "json_texts \<Rightarrow> int \<Rightarrow> change_kind \<Rightarrow> pystr \<Rightarrow> pystr \<Rightarrow> pystr option \<Rightarrow> pystr \<Rightarrow> pystr" where
  "identity_text t a k i f v cu = json_dumps (compact_format False (python_float t))
     (dedupe_identity a (change_kind_value k) k i f v cu)"

lemma plain_text_char: "plain_text s \<Longrightarrow> code_points s \<Longrightarrow> list_all plain_char s"
  by (auto simp: plain_text_def utf8_ok_def code_points_def plain_char_def list_all_iff)

lemma code_points_kind: "code_points (change_kind_value k)"
  by (cases k) (simp_all add: lit_def)

definition version_points :: "pystr option \<Rightarrow> bool" where
  "version_points v = (case v of None \<Rightarrow> True | Some s \<Rightarrow> code_points s)"

lemma plain_lit: "list_all (\<lambda>c. of_char c < (128::nat)) s \<Longrightarrow> list_all plain_char (lit s)"
  by (induction s) (auto simp: plain_char_def is_surrogate_def lit_def)

lemma dedupe_identity_plain:
  assumes "plain_text i" "plain_text f" "version_plain v" "plain_text cu"
    and "code_points i" "code_points f" "version_points v" "code_points cu"
  shows "plain (dedupe_identity a (change_kind_value k) k i f v cu)"
  using assms plain_text_char [OF change_kind_plain code_points_kind, of k]
  by (cases v) (simp_all add: dedupe_identity_def json_text_def version_plain_def version_points_def
      plain_text_char plain_lit)

lemma json_text_inject [simp]: "json_text v = json_text w \<longleftrightarrow> v = w"
  by (auto simp: json_text_def split: option.splits)

lemma sort_json_text [simp]: "sort_fields (json_text v) = json_text v"
  by (cases v) (simp_all add: json_text_def)

lemma change_kind_value_inject [simp]: "change_kind_value k = change_kind_value l \<longleftrightarrow> k = l"
  by (cases k; cases l) simp_all

text \<open>The sorted fields are compared through a map: the keys are distinct.\<close>

lemma sort_fields_lookup:
  assumes "sort_fields (JObj l) = sort_fields (JObj m)" "distinct (map fst l)" "distinct (map fst m)"
  shows "map_option sort_fields (map_of l k) = map_option sort_fields (map_of m k)"
proof -
  have sorted: "map_of (map (\<lambda>(k, v). (k, sort_fields v)) (sort_key fst n)) k
      = map_option sort_fields (map_of n k)" if "distinct (map fst n)" for n :: "(pystr \<times> json) list"
  proof -
    have "distinct (map fst (sort_key fst n))" using that by (simp add: distinct_map)
    from map_of_inject_set [OF this that] have "map_of (sort_key fst n) k = map_of n k" by simp
    then show ?thesis by (simp add: map_of_map)
  qed
  from assms(1) have "map (\<lambda>(k, v). (k, sort_fields v)) (sort_key fst l)
    = map (\<lambda>(k, v). (k, sort_fields v)) (sort_key fst m)" by (simp only: sort_fields_obj json.inject)
  with sorted [OF assms(2)] sorted [OF assms(3)] show ?thesis by metis
qed

lemma identity_fields:
  assumes "sort_fields (dedupe_identity a r k i f v cu) = sort_fields (dedupe_identity a' r' k' i' f' v' cu')"
  shows "a = a' \<and> k = k' \<and> i = i' \<and> f = f' \<and> v = v' \<and> cu = cu'"
proof -
  note look = sort_fields_lookup [OF assms [unfolded dedupe_identity_def]]
  have d: "distinct (map fst [(lit ''schema_version'', JInt 2),
           (lit ''account_id'', JInt a),
           (lit ''source'', JStr (ingress_source_value SYNC)),
           (lit ''raw_event_type'', JStr r),
           (lit ''kind'', JStr (change_kind_value k)),
           (lit ''external_email_id'', JStr i),
           (lit ''folder'', JStr f),
           (lit ''source_version'', json_text v),
           (lit ''cursor'', JStr cu)])" for a r k i f v cu by simp
  note look = look [OF d d]
  show ?thesis
    using look [of "lit ''account_id''"] look [of "lit ''kind''"] look [of "lit ''external_email_id''"]
      look [of "lit ''folder''"] look [of "lit ''source_version''"] look [of "lit ''cursor''"]
    by simp
qed

lemma identity_text_inject:
  assumes "plain_text i" "plain_text f" "version_plain v" "plain_text cu"
    "code_points i" "code_points f" "version_points v" "code_points cu"
    and "plain_text i'" "plain_text f'" "version_plain v'" "plain_text cu'"
    "code_points i'" "code_points f'" "version_points v'" "code_points cu'"
  shows "utf8 (identity_text t a k i f v cu) = utf8 (identity_text t a' k' i' f' v' cu')
    \<longleftrightarrow> a = a' \<and> k = k' \<and> i = i' \<and> f = f' \<and> v = v' \<and> cu = cu'"
proof -
  note p = dedupe_identity_plain [OF assms(1-8), of a k] dedupe_identity_plain [OF assms(9-16), of a' k']
  show ?thesis
    unfolding identity_text_def canonical_bytes_inject [OF p]
    using json_dumps_sort_fields_eq [OF compact_separator p] json_dumps_sort_fields identity_fields
    by metis
qed

definition polled_event ::
  "(pybytes \<Rightarrow> pystr) \<Rightarrow> json_texts \<Rightarrow> int \<Rightarrow> pystr \<Rightarrow> pystr \<Rightarrow> sync_change \<Rightarrow> processing_policy
    \<Rightarrow> ingress_event" where
  "polled_event sha t a f cu c p =
     \<lparr>ev_account_id = a, ev_source = SYNC, ev_raw_event_type = change_kind_value (ch_kind c),
      ev_kind = ch_kind c, ev_external_email_id = ch_external_email_id c, ev_folder = f,
      ev_source_version = ch_source_version c,
      ev_dedupe_key = sha (utf8 (identity_text t a (ch_kind c) (ch_external_email_id c) f
        (ch_source_version c) cu)),
      ev_payload = event_payload cu c, ev_processing_policy = p, ev_source_event_at = None\<rparr>"

lemma dedupe_key_Inr:
  "dedupe_key sha t a (change_kind_value k) k i f v cu = Inr key \<Longrightarrow>
     key = sha (utf8 (identity_text t a k i f v cu))"
  by (auto simp: dedupe_key_def canonical_json_bytes_def plain_tree_def and_then_Inr utf8_encode_def
      identity_text_def split: if_splits)

lemma normalized_event:
  assumes "normalize_sync_change sha t a f cu ch p = Inr e"
  obtains c where "validate_sync_change_contract t ch = Inr c" "change_ok c"
    "1 \<le> a" "a \<le> POSTGRES_BIGINT_MAX" "exact_text 512 (strip f)" "exact_text 8192 cu"
    "e = polled_event sha t a (canonical_name (strip f)) cu c p"
    "NormalizedIngressEvent t e = Inr e"
proof -
  let ?key = "\<lambda>c. dedupe_key sha t a (change_kind_value (ch_kind c)) (ch_kind c)
      (ch_external_email_id c) (canonical_name (strip f)) (ch_source_version c) cu"
  let ?event = "\<lambda>c key. \<lparr>ev_account_id = a, ev_source = SYNC,
         ev_raw_event_type = change_kind_value (ch_kind c),
         ev_kind = ch_kind c, ev_external_email_id = ch_external_email_id c,
         ev_folder = canonical_name (strip f), ev_source_version = ch_source_version c,
         ev_dedupe_key = key, ev_payload = event_payload cu c, ev_processing_policy = p,
         ev_source_event_at = None\<rparr>"
  from assms obtain c where c: "validate_sync_change_contract t ch = Inr c"
    and acc: "1 \<le> a" "a \<le> POSTGRES_BIGINT_MAX"
    and f: "exact_text 512 (strip f)" and cu: "exact_text 8192 cu"
    and last: "(case ?key c of Inl _ \<Rightarrow> Inl NORMALIZED_EVENT_INVALID
       | Inr key \<Rightarrow> (case NormalizedIngressEvent t (?event c key) of
           Inl _ \<Rightarrow> Inl NORMALIZED_EVENT_INVALID | Inr e \<Rightarrow> Inr e)) = Inr e"
    by (auto simp: normalize_sync_change_def and_then_Inr require_account_id_def
        normalize_folder_Inr require_text_Inr)
  from last obtain key where key: "?key c = Inr key"
    and "(case NormalizedIngressEvent t (?event c key) of
           Inl _ \<Rightarrow> Inl NORMALIZED_EVENT_INVALID | Inr e \<Rightarrow> Inr e) = Inr e"
    by (cases "?key c") simp_all
  then have e: "NormalizedIngressEvent t (?event c key) = Inr e"
    by (cases "NormalizedIngressEvent t (?event c key)") simp_all
  note eq = NormalizedIngressEvent_id [OF e]
  have "e = polled_event sha t a (canonical_name (strip f)) cu c p"
    by (simp add: eq polled_event_def dedupe_key_Inr [OF key])
  moreover have "NormalizedIngressEvent t e = Inr e" using e by (simp only: eq)
  ultimately show ?thesis using that c contract_ok(1) [OF c] acc f cu by blast
qed

lemma event_cursor_polled [simp]: "event_cursor (polled_event sha t a f cu c p) = Some (JStr cu)"
  by (simp add: event_cursor_def polled_event_def event_payload_def json_get_def)

definition stored_payload_bytes :: "json_texts \<Rightarrow> json \<Rightarrow> nat" where
  "stored_payload_bytes t j = length (utf8 (json_dumps (storage_format t) j))
     + numeric_expansion (python_float t) (postgres_float t) j"

text \<open>
  C18. A normalized event is bounded and canonical, whatever the gateway sent: its account is a
  positive bigint, its identifier, folder, version and cursor are exact texts of at most 1024,
  512, 512 and 8192 characters, its folder is the canonical name, its kind is create, update or
  delete and spelled so in the raw type, its item is missing exactly for a delete, its key is a
  SHA-256 digest, and its payload takes at most 256 KiB once stored, floats expanded.
\<close>

theorem normalized_event_bounds:
  assumes "normalize_sync_change sha t account folder cursor change policy = Inr e"
  shows "1 \<le> ev_account_id e \<and> ev_account_id e \<le> POSTGRES_BIGINT_MAX
    \<and> ev_account_id e = account \<and> ev_processing_policy e = policy
    \<and> exact_text 1024 (ev_external_email_id e)
    \<and> exact_text 512 (ev_folder e) \<and> canonicalize_folder_identity (ev_folder e) = Inr (ev_folder e)
    \<and> (case ev_source_version e of None \<Rightarrow> True | Some v \<Rightarrow> exact_text 512 v)
    \<and> exact_text 8192 cursor \<and> event_cursor e = Some (JStr cursor)
    \<and> ev_kind e \<in> {CREATE, UPDATE, DELETE} \<and> ev_raw_event_type e = change_kind_value (ev_kind e)
    \<and> (json_get (ev_payload e) (lit ''item'') = Some JNull \<longleftrightarrow> ev_kind e = DELETE)
    \<and> is_sha256_hex (ev_dedupe_key e) \<and> ev_source_event_at e = None
    \<and> stored_payload_bytes t (ev_payload e) \<le> 262144"
proof -
  from assms obtain c where c: "change_ok c" and a: "1 \<le> account" "account \<le> POSTGRES_BIGINT_MAX"
    and f: "exact_text 512 (strip folder)" and cu: "exact_text 8192 cursor"
    and e: "e = polled_event sha t account (canonical_name (strip folder)) cursor c policy"
    and ok: "NormalizedIngressEvent t e = Inr e" by (rule normalized_event)
  from ok have digest: "is_sha256_hex (ev_dedupe_key e)"
    and size: "freeze_json_object t MAX_INBOX_PAYLOAD_BYTES (ev_payload e)"
    by (simp_all add: NormalizedIngressEvent_def require_Inr_iff del: require.simps)
  from size have "stored_payload_bytes t (ev_payload e) \<le> 262144"
    by (auto simp: freeze_json_object_def stored_payload_bytes_def utf8_encode_def
        MAX_INBOX_PAYLOAD_BYTES_def split: json.splits option.splits if_splits)
  moreover have "json_get (ev_payload e) (lit ''item'') = Some JNull \<longleftrightarrow> ev_kind e = DELETE"
    using c by (auto simp: e polled_event_def event_payload_def json_get_def change_ok_def
        is_object_def split: option.splits json.splits)
  ultimately show ?thesis
    using c a f cu digest canonical_name_exact [OF f]
    by (simp add: e canonicalize_Inr change_ok_def) (simp add: polled_event_def split: option.splits)
qed

text \<open>What identifies a delivery.\<close>

definition delivery ::
  "ingress_event \<Rightarrow> int \<times> change_kind \<times> pystr \<times> pystr \<times> pystr option \<times> json option" where
  "delivery e = (ev_account_id e, ev_kind e, ev_external_email_id e, ev_folder e,
     ev_source_version e, event_cursor e)"

definition hashed_text :: "json_texts \<Rightarrow> ingress_event \<Rightarrow> pystr \<Rightarrow> pybytes" where
  "hashed_text t e cursor = utf8 (identity_text t (ev_account_id e) (ev_kind e)
     (ev_external_email_id e) (ev_folder e) (ev_source_version e) cursor)"

definition event_points :: "ingress_event \<Rightarrow> bool" where
  "event_points e = (code_points (ev_external_email_id e) \<and> code_points (ev_folder e)
     \<and> version_points (ev_source_version e))"

text \<open>
  C16. The deduplication key identifies one delivery of one change: unless SHA-256 collides on
  the two texts that are hashed, two normalized events have the same key exactly when they
  agree on account, kind, email, folder, version and cursor, whatever their items and policies
  are. So a repeated page is recognised change by change, and two different changes are never
  taken for one.
\<close>

theorem dedupe_key_identifies_delivery:
  assumes "normalize_sync_change sha t a f cu ch p = Inr e"
    and "normalize_sync_change sha t a' f' cu' ch' p' = Inr e'"
    and "list_all event_points [e, e']" and "list_all code_points [cu, cu']"
    and "inj_on sha {hashed_text t e cu, hashed_text t e' cu'}"
  shows "ev_dedupe_key e = ev_dedupe_key e' \<longleftrightarrow> delivery e = delivery e'"
proof -
  from assms(1) obtain c where c: "change_ok c" "exact_text 512 (strip f)" "exact_text 8192 cu"
    "e = polled_event sha t a (canonical_name (strip f)) cu c p" by (rule normalized_event)
  from assms(2) obtain c' where c': "change_ok c'" "exact_text 512 (strip f')" "exact_text 8192 cu'"
    "e' = polled_event sha t a' (canonical_name (strip f')) cu' c' p'" by (rule normalized_event)
  have plain: "plain_text (ev_external_email_id e)" "plain_text (ev_folder e)"
    "version_plain (ev_source_version e)" "plain_text cu"
    if "change_ok c" "exact_text 512 (strip f)" "exact_text 8192 cu"
      "e = polled_event sha t a (canonical_name (strip f)) cu c p" for e a f cu c p
    using that canonical_name_exact [of "strip f"]
    by (auto simp: change_ok_def polled_event_def version_plain_def intro: exact_text_plain
        split: option.splits)
  note pl = plain [OF c] plain [OF c']
  from assms(3,4) have pts: "code_points (ev_external_email_id e)" "code_points (ev_folder e)"
    "version_points (ev_source_version e)" "code_points cu"
    "code_points (ev_external_email_id e')" "code_points (ev_folder e')"
    "version_points (ev_source_version e')" "code_points cu'" by (simp_all add: event_points_def)
  have keys: "ev_dedupe_key e = sha (hashed_text t e cu)" "ev_dedupe_key e' = sha (hashed_text t e' cu')"
    by (simp_all add: c(4) c'(4) hashed_text_def) (simp_all add: polled_event_def)
  have "ev_dedupe_key e = ev_dedupe_key e' \<longleftrightarrow> hashed_text t e cu = hashed_text t e' cu'"
    unfolding keys using assms(5) by (auto dest: inj_onD)
  also have "\<dots> \<longleftrightarrow> delivery e = delivery e'"
    unfolding hashed_text_def
      identity_text_inject [OF pl(1-4) pts(1-4) pl(5-8) pts(5-8)]
    by (auto simp: delivery_def c(4) c'(4))
  finally show ?thesis .
qed

end
