(* ===== verification/SyncPage.thy ===== *)
theory SyncPage
  imports IngressIdentity
begin

text \<open>
  The gateway boundary of polling: the bounded reading of a response body
  (\<^verbatim>\<open>src/safety/http_response.py\<close>), the retry hint of a response and the reading of a page
  (\<^verbatim>\<open>src/utils/exchange_api.py\<close>). The network and \<^verbatim>\<open>json.loads\<close> with its hooks are parameters:
  a response is what \<^verbatim>\<open>httpx\<close> delivers of it.
\<close>

section \<open>Bounded bodies\<close>

datatype read_error = InputLimitExceeded string | InvalidJsonResponse

text \<open>The scanner of the byte loop: inside a string, after a backslash, structure tokens so far.\<close>

record scanner =
  sc_in_string :: bool
  sc_escaped :: bool
  sc_tokens :: nat

definition scan_start :: scanner where
  "scan_start = \<lparr>sc_in_string = False, sc_escaped = False, sc_tokens = 0\<rparr>"

definition JSON_STRUCTURE_BYTES :: "nat list" where
  "JSON_STRUCTURE_BYTES = [123, 125, 91, 93, 44, 58]"

definition scan_byte :: "scanner \<Rightarrow> nat \<Rightarrow> scanner" where
  "scan_byte s byte =
     (if sc_in_string s then
        (if sc_escaped s then s\<lparr>sc_escaped := False\<rparr>
         else if byte = 92 then s\<lparr>sc_escaped := True\<rparr>
         else if byte = 34 then s\<lparr>sc_in_string := False\<rparr> else s)
      else if byte = 34 then s\<lparr>sc_in_string := True\<rparr>
      else if byte \<in> set JSON_STRUCTURE_BYTES then s\<lparr>sc_tokens := sc_tokens s + 1\<rparr> else s)"

fun scan_bytes :: "nat \<Rightarrow> pybytes \<Rightarrow> scanner \<Rightarrow> read_error + scanner" where
  "scan_bytes max_tokens [] s = Inr s"
| "scan_bytes max_tokens (b # bs) s =
     (let s' = scan_byte s b
      in if sc_tokens s' > max_tokens then Inl InvalidJsonResponse else scan_bytes max_tokens bs s')"

fun read_chunks ::
  "nat \<Rightarrow> nat \<Rightarrow> pybytes list \<Rightarrow> pybytes \<Rightarrow> scanner \<Rightarrow> read_error + pybytes" where
  "read_chunks max_bytes max_tokens [] body s = Inr body"
| "read_chunks max_bytes max_tokens (chunk # chunks) body s =
     (if length body + length chunk > max_bytes
      then Inl (InputLimitExceeded ''exchange_response_bytes'')
      else and_then (scan_bytes max_tokens chunk s) (\<lambda>s'.
        read_chunks max_bytes max_tokens chunks (body @ chunk) s'))"

text \<open>\<^verbatim>\<open>_content_length\<close>: the declared length is compared as decimal text.\<close>

definition strip_zeros :: "pystr \<Rightarrow> pystr" where
  "strip_zeros s = (case dropWhile (\<lambda>c. c = 48) s of [] \<Rightarrow> [48] | t \<Rightarrow> t)"

definition ascii_decimal :: "pystr \<Rightarrow> bool" where
  "ascii_decimal s = (s \<noteq> [] \<and> all_digits s)"

definition content_length :: "pystr list \<Rightarrow> nat \<Rightarrow> read_error + unit" where
  "content_length values max_bytes =
     (case values of
        [] \<Rightarrow> Inr ()
      | [v] \<Rightarrow>
          if \<not> ascii_decimal v then Inl InvalidJsonResponse
          else (let significant = strip_zeros v; maximum = dec_nat max_bytes
            in if length significant > length maximum
                 \<or> length significant = length maximum \<and> significant > maximum
               then Inl (InputLimitExceeded ''exchange_response_bytes'') else Inr ())
      | _ \<Rightarrow> Inl InvalidJsonResponse)"

text \<open>\<^verbatim>\<open>_validate_unicode_scalars\<close>: encodable text, at most 64 nested containers.\<close>

fun scalars_ok :: "nat \<Rightarrow> json \<Rightarrow> bool" and scalars_ok_list :: "nat \<Rightarrow> json list \<Rightarrow> bool"
  and scalars_ok_fields :: "nat \<Rightarrow> (pystr \<times> json) list \<Rightarrow> bool" where
  "scalars_ok depth (JStr s) = utf8_ok s"
| "scalars_ok depth (JObj l) = (depth + 1 \<le> 64 \<and> scalars_ok_fields (depth + 1) l)"
| "scalars_ok depth (JArr xs) = (depth + 1 \<le> 64 \<and> scalars_ok_list (depth + 1) xs)"
| "scalars_ok depth JNull = True"
| "scalars_ok depth (JBool b) = True"
| "scalars_ok depth (JInt i) = True"
| "scalars_ok depth (JFloat q) = True"
| "scalars_ok_list depth [] = True"
| "scalars_ok_list depth (x # xs) = (scalars_ok depth x \<and> scalars_ok_list depth xs)"
| "scalars_ok_fields depth [] = True"
| "scalars_ok_fields depth ((k, v) # l) =
     (utf8_ok k \<and> scalars_ok depth v \<and> scalars_ok_fields depth l)"

definition read_json_limited ::
  "(pybytes \<Rightarrow> json option) \<Rightarrow> pystr list \<Rightarrow> pybytes list \<Rightarrow> nat \<Rightarrow> nat \<Rightarrow> read_error + json" where
  "read_json_limited loads lengths chunks max_bytes max_structure_tokens =
     and_then (ensure (1 \<le> max_structure_tokens) InvalidJsonResponse) (\<lambda>_.
     and_then (content_length lengths max_bytes) (\<lambda>_.
     and_then (read_chunks max_bytes max_structure_tokens chunks [] scan_start) (\<lambda>body.
     and_then (some_or InvalidJsonResponse (loads body)) (\<lambda>v.
     and_then (ensure (scalars_ok 0 v) InvalidJsonResponse) (\<lambda>_.
     and_then (ensure (is_object v) InvalidJsonResponse) (\<lambda>_. Inr v))))))"

section \<open>The retry hint\<close>

text \<open>\<^verbatim>\<open>_utc_now\<close> with its calendar fields.\<close>

record utc_now =
  un_year :: nat
  un_month :: nat
  un_day :: nat
  un_hour :: nat
  un_minute :: nat
  un_second :: nat
  un_micro :: nat

definition now_time :: "utc_now \<Rightarrow> int" where
  "now_time n = time_of (un_year n) (un_month n) (un_day n) (un_hour n) (un_minute n) (un_second n)
     + int (un_micro n)"

definition HTTP_MONTHS :: "pystr list" where
  "HTTP_MONTHS = map lit [''Jan'', ''Feb'', ''Mar'', ''Apr'', ''May'', ''Jun'', ''Jul'', ''Aug'',
     ''Sep'', ''Oct'', ''Nov'', ''Dec'']"

definition HTTP_WEEKDAYS :: "pystr list" where
  "HTTP_WEEKDAYS = map lit [''Mon'', ''Tue'', ''Wed'', ''Thu'', ''Fri'', ''Sat'', ''Sun'']"

definition HTTP_WEEKDAYS_LONG :: "pystr list" where
  "HTTP_WEEKDAYS_LONG = map lit [''Monday'', ''Tuesday'', ''Wednesday'', ''Thursday'', ''Friday'',
     ''Saturday'', ''Sunday'']"

fun index_of :: "'a \<Rightarrow> 'a list \<Rightarrow> nat option" where
  "index_of x [] = None"
| "index_of x (y # ys) = (if x = y then Some 0 else map_option Suc (index_of x ys))"

record http_date =
  hd_weekday :: nat
  hd_day :: nat
  hd_month :: nat
  hd_year :: nat
  hd_hour :: nat
  hd_minute :: nat
  hd_second :: nat

text \<open>\<^verbatim>\<open>HH:MM:SS\<close> at a position, and the three shapes, matched in full.\<close>

definition clock_shape :: "nat \<Rightarrow> pystr \<Rightarrow> bool" where
  "clock_shape i s = (all_digits (slice i 2 s) \<and> slice (i + 2) 1 s = [58]
     \<and> all_digits (slice (i + 3) 2 s) \<and> slice (i + 5) 1 s = [58] \<and> all_digits (slice (i + 6) 2 s))"

definition http_date_of :: "nat \<Rightarrow> pystr \<Rightarrow> pystr \<Rightarrow> pystr \<Rightarrow> nat \<Rightarrow> pystr \<Rightarrow> http_date option" where
  "http_date_of weekday_index day month year clock_at s =
     map_option (\<lambda>m. \<lparr>hd_weekday = weekday_index, hd_day = number day, hd_month = Suc m,
         hd_year = number year, hd_hour = number (slice clock_at 2 s),
         hd_minute = number (slice (clock_at + 3) 2 s),
         hd_second = number (slice (clock_at + 6) 2 s)\<rparr>)
       (index_of month HTTP_MONTHS)"

definition imf_fixdate :: "pystr \<Rightarrow> http_date option" where
  "imf_fixdate s =
     (case index_of (slice 0 3 s) HTTP_WEEKDAYS of
        None \<Rightarrow> None
      | Some w \<Rightarrow>
          if length s = 29 \<and> slice 3 2 s = lit '', '' \<and> all_digits (slice 5 2 s)
             \<and> slice 7 1 s = lit '' '' \<and> slice 11 1 s = lit '' '' \<and> all_digits (slice 12 4 s)
             \<and> slice 16 1 s = lit '' '' \<and> clock_shape 17 s \<and> slice 25 4 s = lit '' GMT''
          then http_date_of w (slice 5 2 s) (slice 8 3 s) (slice 12 4 s) 17 s else None)"

definition rfc850_rest :: "nat \<Rightarrow> pystr \<Rightarrow> http_date option" where
  "rfc850_rest w s =
     (if length s = 24 \<and> slice 0 2 s = lit '', '' \<and> all_digits (slice 2 2 s)
         \<and> slice 4 1 s = lit ''-'' \<and> slice 8 1 s = lit ''-'' \<and> all_digits (slice 9 2 s)
         \<and> slice 11 1 s = lit '' '' \<and> clock_shape 12 s \<and> slice 20 4 s = lit '' GMT''
      then http_date_of w (slice 2 2 s) (slice 5 3 s) (slice 9 2 s) 12 s else None)"

definition rfc850_date :: "pystr \<Rightarrow> http_date option" where
  "rfc850_date s =
     (case List.find (py_startswith s) HTTP_WEEKDAYS_LONG of
        None \<Rightarrow> None
      | Some name \<Rightarrow> (case index_of name HTTP_WEEKDAYS_LONG of
          None \<Rightarrow> None | Some w \<Rightarrow> rfc850_rest w (drop (length name) s)))"

definition asctime_date :: "pystr \<Rightarrow> http_date option" where
  "asctime_date s =
     (case index_of (slice 0 3 s) HTTP_WEEKDAYS of
        None \<Rightarrow> None
      | Some w \<Rightarrow>
          if length s = 24 \<and> slice 3 1 s = lit '' '' \<and> slice 7 1 s = lit '' ''
             \<and> (slice 8 1 s = lit '' '' \<and> all_digits (slice 9 1 s) \<or> all_digits (slice 8 2 s))
             \<and> slice 10 1 s = lit '' '' \<and> clock_shape 11 s \<and> slice 19 1 s = lit '' ''
             \<and> all_digits (slice 20 4 s)
          then http_date_of w (dropWhile (\<lambda>c. c = 32) (slice 8 2 s)) (slice 4 3 s) (slice 20 4 s) 11 s
          else None)"

text \<open>The century of a two-digit year: within fifty years of now.\<close>

definition full_year :: "utc_now \<Rightarrow> http_date \<Rightarrow> int" where
  "full_year n h =
     (let current = int (un_year n); year = int (hd_year h) + current - current mod 100;
          candidate_clock = [hd_month h, hd_day h, hd_hour h, hd_minute h, hd_second h, 0];
          current_clock = [un_month n, un_day n, un_hour n, un_minute n, un_second n, un_micro n]
      in if year < current - 50 \<or> year = current - 50 \<and> candidate_clock < current_clock
         then year + 100
         else if year > current + 50 \<or> year = current + 50 \<and> candidate_clock > current_clock
         then year - 100 else year)"

definition parse_exact_http_date :: "pystr \<Rightarrow> utc_now \<Rightarrow> int option" where
  "parse_exact_http_date raw now =
     (case (case imf_fixdate raw of
              Some h \<Rightarrow> Some (h, int (hd_year h))
            | None \<Rightarrow> (case rfc850_date raw of
                Some h \<Rightarrow> Some (h, full_year now h)
              | None \<Rightarrow> map_option (\<lambda>h. (h, int (hd_year h))) (asctime_date raw))) of
        None \<Rightarrow> None
      | Some (h, year) \<Rightarrow>
          if hd_second h > 60 then None
          else if \<not> (0 < year \<and> valid_date (nat year) (hd_month h) (hd_day h)
                     \<and> valid_clock (hd_hour h) (hd_minute h) (min (hd_second h) 59)) then None
          else if hd_weekday h \<noteq> weekday (nat year) (hd_month h) (hd_day h) then None
          else (let parsed = time_of (nat year) (hd_month h) (hd_day h) (hd_hour h) (hd_minute h)
                      (min (hd_second h) 59);
                    moment = (if hd_second h = 60 then parsed + 1000000 else parsed)
                in if moment < time_of 9999 12 32 0 0 0 then Some moment else None))"

text \<open>\<^verbatim>\<open>math.ceil\<close> of a number of microseconds in seconds.\<close>

definition ceil_seconds :: "int \<Rightarrow> int" where
  "ceil_seconds us = (us + 999999) div 1000000"

definition retry_after_seconds :: "pystr list \<Rightarrow> utc_now \<Rightarrow> int option" where
  "retry_after_seconds values now =
     (case values of
        [raw] \<Rightarrow>
          if ascii_decimal raw then
            (let significant = strip_zeros raw
             in if length significant > 4 then Some 3600 else Some (min (int (number significant)) 3600))
          else (case parse_exact_http_date raw now of
              None \<Rightarrow> None
            | Some retry_at \<Rightarrow> Some (min (ceil_seconds (max 0 (retry_at - now_time now))) 3600))
      | _ \<Rightarrow> None)"

section \<open>Pages\<close>

datatype sync_error =
  SyncAuthorizationError | SyncContractError | SyncTransientError "int option"

definition polling_kinds_ignored :: "pystr list" where
  "polling_kinds_ignored = [lit ''read_flag_change'']"

text \<open>
  \<^verbatim>\<open>_polling_sync_change_from_payload\<close>; every exception it raises is a contract error of the
  caller. The identifier of a change is kept, its other fields are dropped.
\<close>

definition polling_sync_change_from_payload :: "json_texts \<Rightarrow> json \<Rightarrow> unit + sync_change option" where
  "polling_sync_change_from_payload t v =
     (case (json_get v (lit ''change_type''), json_get v (lit ''id'')) of
        (Some (JStr kind), Some i) \<Rightarrow>
          if kind \<in> set polling_kinds_ignored then
            (case i of JStr s \<Rightarrow> if exact_text 1024 s then Inr None else Inl () | _ \<Rightarrow> Inl ())
          else
            (case (change_kind_of kind, i) of
               (Some k, JStr s) \<Rightarrow>
                 (let c = \<lparr>ch_kind = k, ch_external_email_id = s,
                        ch_item = (if kind \<in> {lit ''create'', lit ''update''} then Some (JObj []) else None),
                        ch_source_version = None\<rparr>
                  in case SyncChange t c of
                       Inl _ \<Rightarrow> Inl ()
                     | Inr c \<Rightarrow> (case validate_sync_change_contract t (TypedChange c) of
                         Inl _ \<Rightarrow> Inl () | Inr c \<Rightarrow> Inr (Some c)))
             | _ \<Rightarrow> Inl ())
      | _ \<Rightarrow> Inl ())"

fun project_items :: "json_texts \<Rightarrow> json list \<Rightarrow> unit + sync_change list" where
  "project_items t [] = Inr []"
| "project_items t (v # vs) =
     and_then (polling_sync_change_from_payload t v) (\<lambda>c.
     and_then (project_items t vs) (\<lambda>cs.
       Inr (case c of None \<Rightarrow> cs | Some c \<Rightarrow> c # cs)))"

definition object_keys :: "json \<Rightarrow> pystr set" where
  "object_keys j = (case j of JObj l \<Rightarrow> set (map fst l) | _ \<Rightarrow> {})"

definition polling_sync_batch_from_payload ::
  "json_texts \<Rightarrow> json \<Rightarrow> int \<Rightarrow> bool \<Rightarrow> unit + sync_batch" where
  "polling_sync_batch_from_payload t payload limit discard_items =
     and_then (ensure (object_keys payload = {lit ''code'', lit ''msg'', lit ''data''}) ()) (\<lambda>_.
     and_then (ensure (json_get payload (lit ''code'') = Some (JInt 200)) ()) (\<lambda>_.
     and_then (ensure (json_get payload (lit ''msg'') = Some (JStr (lit ''OK''))) ()) (\<lambda>_.
     and_then (some_or () (json_get payload (lit ''data''))) (\<lambda>data.
     and_then (ensure (object_keys data = {lit ''sync_state'', lit ''items''}) ()) (\<lambda>_.
       case (json_get data (lit ''items''), json_get data (lit ''sync_state'')) of
         (Some (JArr items), Some cursor) \<Rightarrow>
           and_then (ensure (int (length items) \<le> limit) ()) (\<lambda>_.
           and_then (if discard_items then Inr [] else project_items t items) (\<lambda>changes.
             case cursor of
               JStr s \<Rightarrow>
                 (case SyncBatch \<lparr>sb_contract_version = lit ''exchange_sync_contract_v2'',
                     sb_cursor = s, sb_changes = changes, sb_includes_last = True\<rparr> of
                    Inl _ \<Rightarrow> Inl () | Inr b \<Rightarrow> Inr b)
             | _ \<Rightarrow> Inl ()))
       | _ \<Rightarrow> Inl ())))))"

text \<open>What \<^verbatim>\<open>httpx\<close> makes of one POST, and of the body of its response.\<close>

datatype 'a transport =
  Delivered 'a | DecodingFailure | TimeoutFailure | TransportFailure | OtherFailure

record http_response =
  hr_status :: nat
  hr_content_encoding :: "pystr list"
  hr_content_length :: "pystr list"
  hr_retry_after :: "pystr list"
  hr_now :: utc_now
  hr_chunks :: "pybytes list transport"

definition content_encoding_is_safe :: "http_response \<Rightarrow> bool" where
  "content_encoding_is_safe r = (hr_content_encoding r = [] \<or> hr_content_encoding r = [lit ''identity''])"

text \<open>The constructor of \<^verbatim>\<open>SyncTransientError\<close>: a bad hint is a \<^verbatim>\<open>TypeError\<close>, caught by the caller.\<close>

definition transient_error :: "int option \<Rightarrow> sync_error" where
  "transient_error hint =
     (case hint of
        None \<Rightarrow> SyncTransientError None
      | Some n \<Rightarrow> if 0 \<le> n \<and> n \<le> 3600 then SyncTransientError (Some n) else SyncContractError)"

definition response_hint :: "http_response \<Rightarrow> int option" where
  "response_hint r = retry_after_seconds (hr_retry_after r) (hr_now r)"

definition read_page ::
  "(pybytes \<Rightarrow> json option) \<Rightarrow> json_texts \<Rightarrow> nat \<Rightarrow> int \<Rightarrow> bool \<Rightarrow> http_response \<Rightarrow> sync_error + sync_batch" where
  "read_page loads t max_bytes limit discard r =
     (case hr_chunks r of
        DecodingFailure \<Rightarrow> Inl SyncContractError
      | TimeoutFailure \<Rightarrow> Inl (transient_error (response_hint r))
      | TransportFailure \<Rightarrow> Inl (transient_error (response_hint r))
      | OtherFailure \<Rightarrow> Inl SyncContractError
      | Delivered chunks \<Rightarrow>
          (case read_json_limited loads (hr_content_length r) chunks max_bytes (nat (32 + 21 * limit)) of
             Inl _ \<Rightarrow> Inl SyncContractError
           | Inr payload \<Rightarrow> (case polling_sync_batch_from_payload t payload limit discard of
               Inl _ \<Rightarrow> Inl SyncContractError | Inr b \<Rightarrow> Inr b)))"

definition read_response ::
  "(pybytes \<Rightarrow> json option) \<Rightarrow> json_texts \<Rightarrow> nat \<Rightarrow> int \<Rightarrow> bool \<Rightarrow> http_response \<Rightarrow> sync_error + sync_batch" where
  "read_response loads t max_bytes limit discard r =
     (if hr_status r \<in> {401, 403} then Inl SyncAuthorizationError
      else if hr_status r \<in> {400, 404, 422} then Inl SyncContractError
      else if hr_status r \<in> {408, 429} \<or> 500 \<le> hr_status r \<and> hr_status r \<le> 599
      then Inl (transient_error (response_hint r))
      else if hr_status r \<noteq> 200 \<or> \<not> content_encoding_is_safe r then Inl SyncContractError
      else read_page loads t max_bytes limit discard r)"

definition sync_polling ::
  "(pybytes \<Rightarrow> json option) \<Rightarrow> json_texts \<Rightarrow> nat \<Rightarrow> bool \<Rightarrow> http_response transport
    \<Rightarrow> int \<Rightarrow> pystr \<Rightarrow> pystr option \<Rightarrow> int \<Rightarrow> bool \<Rightarrow> sync_error + sync_batch" where
  "sync_polling loads t max_bytes endpoint_ok exchange account_id folder sync_state limit discard_items =
     and_then (ensure (1 \<le> account_id \<and> account_id \<le> POSTGRES_BIGINT_MAX \<and> exact_text 512 folder
         \<and> (case sync_state of None \<Rightarrow> True | Some s \<Rightarrow> exact_text 8192 s)
         \<and> 1 \<le> limit \<and> limit \<le> int MAX_SYNC_CHANGES_PER_BATCH \<and> endpoint_ok) SyncContractError) (\<lambda>_.
       case exchange of
         DecodingFailure \<Rightarrow> Inl SyncContractError
       | TimeoutFailure \<Rightarrow> Inl (SyncTransientError None)
       | TransportFailure \<Rightarrow> Inl (SyncTransientError None)
       | OtherFailure \<Rightarrow> Inl SyncContractError
       | Delivered r \<Rightarrow> read_response loads t max_bytes limit (discard_items \<or> sync_state = None) r)"

end
