(* ===== verification/PollingStore.thy ===== *)
theory PollingStore
  imports SyncPage InboxLeases
begin

text \<open>
  The durable side of polling: the SQL function \<^verbatim>\<open>greenfield_commit_sync_page\<close> of the baseline
  schema, which is the only writer of new inbox rows and of the cursor, and the Python that
  calls it (\<^verbatim>\<open>GreenfieldSyncPageWriter\<close>, \<^verbatim>\<open>_SessionBoundPollingCommitter\<close>,
  \<^verbatim>\<open>PostgresPollingCursorStore\<close>). The store is the inbox store of the repository with the
  tables the function reads besides; a raised SQL exception rolls the transaction back, so it
  returns no store.
\<close>

section \<open>Rows\<close>

record authority_row =
  pa_account_id :: int
  pa_state :: pystr
  pa_capability_stage_ordinal :: int
  pa_schema_revision :: pystr
  pa_generation :: int
  pa_fencing_token :: int
  pa_pipeline_name :: pystr
  pa_authority_epoch :: int
  pa_capability_hash :: pystr
  pa_initialization_id :: uuid

text \<open>A row of \<^verbatim>\<open>pipeline_runtime_instances\<close> with the column the repository does not read.\<close>

record instance_row = runtime_row +
  ri_lease_version :: int

text \<open>\<open>sc_matrix\<close> is the jsonb object read with \<^verbatim>\<open>->>\<close>: an absent key is NULL.\<close>

record scope_row =
  sc_account_id :: int
  sc_initialization_id :: uuid
  sc_canonical_key :: pystr
  sc_sync_folder :: pystr
  sc_matrix :: "(pystr \<times> pystr) list"

record cursor_row =
  cu_account_id :: int
  cu_folder_key :: pystr
  cu_cursor :: "pystr option"
  cu_status :: pystr
  cu_blocked_reason_code :: "pystr option"
  cu_contract_fingerprint :: "pystr option"
  cu_blocked_at :: "time option"
  cu_version :: int
  cu_last_success_at :: "time option"
  cu_last_attempt_at :: "time option"
  cu_updated_at :: time

record sync_db =
  sd_db :: db
  sd_authorities :: "authority_row list"
  sd_instances :: "instance_row list"
  sd_scopes :: "scope_row list"
  sd_cursors :: "cursor_row list"

text \<open>One element of \<^verbatim>\<open>p_events\<close>: the object of exactly these four keys the writer builds.\<close>

record page_event =
  pe_external_email_id :: pystr
  pe_change_kind :: pystr
  pe_dedupe_key :: pystr
  pe_source_version :: "pystr option"

record commit_args =
  ca_account_id :: int
  ca_session_id :: uuid
  ca_expected_lease_version :: int
  ca_folder_key :: pystr
  ca_expected_cursor :: "pystr option"
  ca_expected_cursor_version :: int
  ca_next_cursor :: pystr
  ca_events :: "page_event list"
  ca_activation :: bool

record commit_row =
  cr_committed_cursor :: pystr
  cr_committed_version :: int
  cr_inserted_count :: int
  cr_duplicate_count :: int

datatype sync_failure = SyncRaise string | SyncConstraint

text \<open>The classes of PostgreSQL's regular expressions depend on the locale of the database.\<close>

record pg_text =
  pg_space :: "nat \<Rightarrow> bool"
  pg_cntrl :: "nat \<Rightarrow> bool"

section \<open>Arguments\<close>

definition UNICODE_EDGE_SPACES :: "nat list" where
  "UNICODE_EDGE_SPACES = [133, 160, 5760, 8192, 8193, 8194, 8195, 8196, 8197, 8198, 8199, 8200,
     8201, 8202, 8232, 8233, 8239, 8287, 12288]"

text \<open>\<^verbatim>\<open>btrim(s, set) = s\<close>.\<close>

definition trimmed :: "(nat \<Rightarrow> bool) \<Rightarrow> pystr \<Rightarrow> bool" where
  "trimmed p s = (s = [] \<or> \<not> p (hd s) \<and> \<not> p (last s))"

definition sql_exact_text :: "pg_text \<Rightarrow> nat \<Rightarrow> pystr \<Rightarrow> bool" where
  "sql_exact_text pg max_length s =
     (trimmed (\<lambda>c. c = 32) s \<and> trimmed (\<lambda>c. c \<in> set UNICODE_EDGE_SPACES) s
      \<and> trimmed (pg_space pg) s \<and> \<not> list_ex (pg_cntrl pg) s
      \<and> 1 \<le> length s \<and> length s \<le> max_length)"

definition session_is_v4 :: "uuid \<Rightarrow> bool" where
  "session_is_v4 s = (slice 14 1 s = [52] \<and> (\<exists>c\<in>{56, 57, 97, 98}. slice 19 1 s = [c]))"

definition event_json :: "page_event \<Rightarrow> json" where
  "event_json e = JObj [(lit ''external_email_id'', JStr (pe_external_email_id e)),
     (lit ''change_kind'', JStr (pe_change_kind e)), (lit ''dedupe_key'', JStr (pe_dedupe_key e)),
     (lit ''source_version'', json_text (pe_source_version e))]"

definition events_text_length :: "page_event list \<Rightarrow> nat" where
  "events_text_length es = length (utf8 (json_dumps
     \<lparr>ensure_ascii = False, item_separator = [44, 32], key_separator = [58, 32], float_text = (\<lambda>_. [])\<rparr>
     (JArr (map event_json es))))"

definition commit_input_ok :: "pg_text \<Rightarrow> commit_args \<Rightarrow> bool" where
  "commit_input_ok pg a =
     (0 < ca_account_id a \<and> session_is_v4 (ca_session_id a)
      \<and> 0 < ca_expected_lease_version a \<and> ca_expected_lease_version a < POSTGRES_BIGINT_MAX
      \<and> ca_folder_key a = lit ''INBOX'' \<and> 0 \<le> ca_expected_cursor_version a
      \<and> sql_exact_text pg 8192 (ca_next_cursor a)
      \<and> length (ca_events a) \<le> 500 \<and> events_text_length (ca_events a) \<le> 1048576
      \<and> (if ca_activation a then ca_expected_cursor a = None \<and> ca_events a = []
         else (case ca_expected_cursor a of None \<Rightarrow> False | Some c \<Rightarrow> sql_exact_text pg 8192 c)
              \<and> 0 < ca_expected_cursor_version a))"

definition input_invalid :: sync_failure where
  "input_invalid = SyncRaise ''greenfield_sync_input_invalid''"

section \<open>The rows the function works with\<close>

definition authority_available :: "authority_row \<Rightarrow> bool" where
  "authority_available a = (pa_state a = lit ''ingest_only'' \<and> pa_capability_stage_ordinal a = 1
     \<and> pa_schema_revision a = lit ''polling-v1'')"

definition live_instance :: "time \<Rightarrow> commit_args \<Rightarrow> authority_row \<Rightarrow> instance_row \<Rightarrow> bool" where
  "live_instance now a au i =
     (r_account_id i = ca_account_id a \<and> r_session_id i = ca_session_id a
      \<and> r_workload i = lit ''web'' \<and> r_lifecycle i = lit ''active''
      \<and> ri_lease_version i = ca_expected_lease_version a
      \<and> r_generation i = pa_generation au \<and> r_fencing_token i = pa_fencing_token au
      \<and> r_authority_epoch i = pa_authority_epoch au
      \<and> r_capability_hash i = pa_capability_hash au \<and> now < r_lease_until i)"

definition commit_scope :: "commit_args \<Rightarrow> authority_row \<Rightarrow> scope_row \<Rightarrow> bool" where
  "commit_scope a au s =
     (sc_account_id s = ca_account_id a \<and> sc_initialization_id s = pa_initialization_id au
      \<and> sc_canonical_key s = ca_folder_key a \<and> sc_sync_folder s = ca_folder_key a)"

definition cursor_key :: "commit_args \<Rightarrow> cursor_row \<Rightarrow> bool" where
  "cursor_key a c = (cu_account_id c = ca_account_id a \<and> cu_folder_key c = ca_folder_key a)"

text \<open>The INSERT of an activation, ON CONFLICT DO NOTHING; other columns take their defaults.\<close>

definition baseline_cursor :: "time \<Rightarrow> commit_args \<Rightarrow> cursor_row" where
  "baseline_cursor now a = \<lparr>cu_account_id = ca_account_id a, cu_folder_key = ca_folder_key a,
     cu_cursor = None, cu_status = lit ''baselining'',
     cu_blocked_reason_code = Some (lit ''sync.baseline_required''),
     cu_contract_fingerprint = None, cu_blocked_at = None, cu_version = 0,
     cu_last_success_at = None, cu_last_attempt_at = None, cu_updated_at = now\<rparr>"

definition ensure_baseline :: "time \<Rightarrow> commit_args \<Rightarrow> cursor_row list \<Rightarrow> cursor_row list" where
  "ensure_baseline now a cs =
     (if ca_activation a \<and> \<not> list_ex (cursor_key a) cs then cs @ [baseline_cursor now a] else cs)"

definition cursor_verdict :: "commit_args \<Rightarrow> cursor_row \<Rightarrow> sync_failure + unit" where
  "cursor_verdict a c =
     (if ca_activation a then
        (if cu_status c \<noteq> lit ''baselining'' \<or> cu_cursor c \<noteq> None
            \<or> cu_version c \<noteq> ca_expected_cursor_version a
         then Inl (SyncRaise ''greenfield_sync_cursor_conflict'') else Inr ())
      else if cu_status c \<noteq> lit ''active'' \<or> cu_cursor c \<noteq> ca_expected_cursor a
              \<or> cu_version c \<noteq> ca_expected_cursor_version a
      then (if cu_status c = lit ''active'' then Inl (SyncRaise ''greenfield_sync_cursor_conflict'')
            else Inl (SyncRaise ''greenfield_sync_cursor_unavailable''))
      else Inr ())"

section \<open>One event of the page\<close>

definition event_shape_ok :: "pg_text \<Rightarrow> pystr list \<Rightarrow> pystr list \<Rightarrow> page_event \<Rightarrow> bool" where
  "event_shape_ok pg seen_keys seen_identities e =
     (sql_exact_text pg 1024 (pe_external_email_id e)
      \<and> pe_change_kind e \<in> {lit ''create'', lit ''update'', lit ''delete''}
      \<and> is_sha256_hex (pe_dedupe_key e)
      \<and> (case pe_source_version e of None \<Rightarrow> True | Some v \<Rightarrow> sql_exact_text pg 512 v)
      \<and> pe_dedupe_key e \<notin> set seen_keys
      \<and> pe_change_kind e @ 58 # pe_external_email_id e \<notin> set seen_identities)"

text \<open>\<open>None\<close> is NULL, which passes the test of the function.\<close>

definition event_policy :: "scope_row \<Rightarrow> page_event \<Rightarrow> sync_failure + processing_policy option" where
  "event_policy s e =
     (case map_of (sc_matrix s) (lit ''sync:'' @ pe_change_kind e @ 58 # pe_change_kind e) of
        None \<Rightarrow> Inr None
      | Some t \<Rightarrow> (case processing_policy_of t of
          None \<Rightarrow> Inl (SyncRaise ''greenfield_sync_policy_unavailable'') | Some p \<Rightarrow> Inr (Some p)))"

definition page_payload :: "commit_args \<Rightarrow> page_event \<Rightarrow> json" where
  "page_payload a e =
     JObj [(lit ''cursor'', JStr (ca_next_cursor a)),
           (lit ''change_type'', JStr (pe_change_kind e)),
           (lit ''id'', JStr (pe_external_email_id e)),
           (lit ''item'', if pe_change_kind e \<in> {lit ''create'', lit ''update''} then JObj [] else JNull),
           (lit ''source_version'', json_text (pe_source_version e))]"

definition same_identity ::
  "commit_args \<Rightarrow> authority_row \<Rightarrow> page_event \<Rightarrow> processing_policy option \<Rightarrow> inbox_row \<Rightarrow> bool" where
  "same_identity a au e policy r =
     (i_account_id r = ca_account_id a \<and> i_external_email_id r = pe_external_email_id e
      \<and> i_folder_key r = ca_folder_key a \<and> i_source r = SYNC
      \<and> i_raw_event_type r = pe_change_kind e \<and> change_kind_value (i_change_kind r) = pe_change_kind e
      \<and> i_source_version r = pe_source_version e \<and> i_source_event_at r = None
      \<and> json_values_equal (i_payload r) (page_payload a e)
      \<and> (case policy of None \<Rightarrow> True | Some p \<Rightarrow> i_processing_policy r = p)
      \<and> i_pipeline_name r = pa_pipeline_name au \<and> i_generation r = pa_generation au
      \<and> i_fencing_token r = pa_fencing_token au \<and> i_authority_epoch r = pa_authority_epoch au
      \<and> i_capability_hash r = pa_capability_hash au)"

definition page_row ::
  "env \<Rightarrow> nat \<Rightarrow> commit_args \<Rightarrow> authority_row \<Rightarrow> page_event \<Rightarrow> change_kind \<Rightarrow> processing_policy \<Rightarrow> inbox_row" where
  "page_row env k a au e kind policy =
     \<lparr>i_id = uuid4 env k, i_account_id = ca_account_id a,
      i_external_email_id = pe_external_email_id e, i_folder_key = ca_folder_key a,
      i_source = SYNC, i_raw_event_type = pe_change_kind e, i_change_kind = kind,
      i_dedupe_key = pe_dedupe_key e, i_source_version = pe_source_version e,
      i_source_event_at = None, i_payload = page_payload a e, i_processing_policy = policy,
      i_pipeline_name = pa_pipeline_name au, i_generation = pa_generation au,
      i_fencing_token = pa_fencing_token au, i_execution_epoch = 0,
      i_authority_epoch = pa_authority_epoch au, i_capability_hash = pa_capability_hash au,
      i_lease_session_id = None, i_lease_owner = None, i_lease_until = None, i_attempts = 0,
      i_received_at = clk env 0,
      i_status = (if policy = IGNORED then IS_COMPLETED else IS_PENDING),
      i_available_at = clk env 0, i_processing_started_at = None, i_effect_started_at = None,
      i_safe_error_code = None, i_safe_error_summary = None, i_updated_at = clk env 0\<rparr>"

definition page_audit :: "env \<Rightarrow> nat \<Rightarrow> inbox_row \<Rightarrow> audit_row" where
  "page_audit env k r =
     \<lparr>a_id = uuid4 env (k + 1),
      a_event_key = sha256 env (lit ''ai-exchange-greenfield-sync-audit-v1'' @ 0 # i_id r),
      a_account_id = i_account_id r, a_email_id = None, a_object_type = lit ''event_inbox'',
      a_object_fingerprint = i_dedupe_key r, a_action = lit ''ingress.sync_accepted'',
      a_result = inbox_status_value (i_status r), a_actor = lit ''greenfield_sync'',
      a_reason = lit ''sync_state_page_persisted'',
      a_safe_metadata = JObj [(lit ''authority_epoch'', JInt (i_authority_epoch r)),
        (lit ''capability_hash'', JStr (i_capability_hash r)), (lit ''inbox_id'', JStr (i_id r)),
        (lit ''processing_policy'', JStr (processing_policy_value (i_processing_policy r))),
        (lit ''status'', JStr (inbox_status_value (i_status r)))]\<rparr>"

text \<open>
  The loop variables: the two arrays of what was seen and the two counters. The \<open>k\<close>-th
  inserted row takes the fresh identifiers \<open>2 k\<close> and \<open>2 k + 1\<close>.
\<close>

record page_loop =
  pl_db :: db
  pl_seen_keys :: "pystr list"
  pl_seen_identities :: "pystr list"
  pl_inserted :: nat
  pl_duplicates :: nat

definition insert_page_row ::
  "env \<Rightarrow> commit_args \<Rightarrow> authority_row \<Rightarrow> page_event \<Rightarrow> processing_policy option \<Rightarrow> page_loop
    \<Rightarrow> sync_failure + page_loop" where
  "insert_page_row env a au e policy st =
     (case (policy, change_kind_of (pe_change_kind e)) of
        (Some p, Some kind) \<Rightarrow>
          (let r = page_row env (2 * pl_inserted st) a au e kind p;
               audit = page_audit env (2 * pl_inserted st) r
           in if audit_with_key (a_event_key audit) (pl_db st) \<noteq> None then Inl SyncConstraint
              else Inr (st\<lparr>pl_db := (pl_db st)\<lparr>inbox := inbox (pl_db st) @ [r],
                     audits := audits (pl_db st) @ [audit]\<rparr>,
                     pl_inserted := pl_inserted st + 1\<rparr>))
      | _ \<Rightarrow> Inl SyncConstraint)"

definition commit_event ::
  "pg_text \<Rightarrow> env \<Rightarrow> commit_args \<Rightarrow> authority_row \<Rightarrow> scope_row \<Rightarrow> page_event \<Rightarrow> page_loop
    \<Rightarrow> sync_failure + page_loop" where
  "commit_event pg env a au s e st =
     and_then (ensure (event_shape_ok pg (pl_seen_keys st) (pl_seen_identities st) e) input_invalid) (\<lambda>_.
     and_then (event_policy s e) (\<lambda>policy.
       let st = st\<lparr>pl_seen_keys := pl_seen_keys st @ [pe_dedupe_key e],
                   pl_seen_identities := pl_seen_identities st
                     @ [pe_change_kind e @ 58 # pe_external_email_id e]\<rparr>
       in case select_one (\<lambda>r. i_dedupe_key r = pe_dedupe_key e) (inbox (pl_db st)) of
            Some r \<Rightarrow>
              if same_identity a au e policy r
              then Inr (st\<lparr>pl_duplicates := pl_duplicates st + 1\<rparr>)
              else Inl (SyncRaise ''greenfield_sync_dedupe_identity_conflict'')
          | None \<Rightarrow> insert_page_row env a au e policy st))"

fun commit_events ::
  "pg_text \<Rightarrow> env \<Rightarrow> commit_args \<Rightarrow> authority_row \<Rightarrow> scope_row \<Rightarrow> page_event list \<Rightarrow> page_loop
    \<Rightarrow> sync_failure + page_loop" where
  "commit_events pg env a au s [] st = Inr st"
| "commit_events pg env a au s (e # es) st =
     and_then (commit_event pg env a au s e st) (commit_events pg env a au s es)"

section \<open>The function\<close>

definition advance_cursor :: "time \<Rightarrow> commit_args \<Rightarrow> cursor_row \<Rightarrow> cursor_row" where
  "advance_cursor now a c = c\<lparr>cu_cursor := Some (ca_next_cursor a), cu_status := lit ''active'',
     cu_blocked_reason_code := None, cu_contract_fingerprint := None, cu_blocked_at := None,
     cu_version := cu_version c + 1, cu_last_success_at := Some now,
     cu_last_attempt_at := Some now, cu_updated_at := now\<rparr>"

definition cursor_cas :: "commit_args \<Rightarrow> cursor_row \<Rightarrow> bool" where
  "cursor_cas a c = (cursor_key a c
     \<and> cu_status c = (if ca_activation a then lit ''baselining'' else lit ''active'')
     \<and> cu_cursor c = ca_expected_cursor a \<and> cu_version c = ca_expected_cursor_version a)"

definition move_cursor ::
  "time \<Rightarrow> commit_args \<Rightarrow> cursor_row list \<Rightarrow> sync_failure + (pystr \<times> int \<times> cursor_row list)" where
  "move_cursor now a cs =
     and_then (some_or (SyncRaise ''greenfield_sync_cursor_conflict'') (select_one (cursor_cas a) cs)) (\<lambda>c.
     and_then (ensure (cu_version c < POSTGRES_BIGINT_MAX) SyncConstraint) (\<lambda>_.
       Inr (ca_next_cursor a, cu_version c + 1, sql_update (cursor_cas a) (advance_cursor now a) cs)))"

definition greenfield_commit_sync_page ::
  "pg_text \<Rightarrow> env \<Rightarrow> commit_args \<Rightarrow> sync_db \<Rightarrow> sync_failure + (commit_row \<times> sync_db)" where
  "greenfield_commit_sync_page pg env a d =
     (let now = clk env 0
      in and_then (ensure (commit_input_ok pg a) input_invalid) (\<lambda>_.
      and_then (some_or (SyncRaise ''greenfield_sync_authority_unavailable'')
          (select_one (\<lambda>p. pa_account_id p = ca_account_id a) (sd_authorities d))) (\<lambda>au.
      and_then (ensure (authority_available au) (SyncRaise ''greenfield_sync_authority_unavailable'')) (\<lambda>_.
      and_then (some_or (SyncRaise ''greenfield_sync_lease_conflict'')
          (select_one (live_instance now a au) (sd_instances d))) (\<lambda>_.
      and_then (some_or (SyncRaise ''greenfield_sync_scope_unavailable'')
          (select_one (commit_scope a au) (sd_scopes d))) (\<lambda>s.
      let cs = ensure_baseline now a (sd_cursors d)
      in and_then (some_or (SyncRaise ''greenfield_sync_cursor_unavailable'')
          (select_one (cursor_key a) cs)) (\<lambda>c.
      and_then (cursor_verdict a c) (\<lambda>_.
      and_then (commit_events pg env a au s (sort_key pe_dedupe_key (ca_events a))
          \<lparr>pl_db = sd_db d, pl_seen_keys = [], pl_seen_identities = [], pl_inserted = 0,
           pl_duplicates = 0\<rparr>) (\<lambda>st.
      and_then (move_cursor now a cs) (\<lambda>(cursor, version, cs').
        Inr (\<lparr>cr_committed_cursor = cursor, cr_committed_version = version,
               cr_inserted_count = int (pl_inserted st), cr_duplicate_count = int (pl_duplicates st)\<rparr>,
             d\<lparr>sd_db := pl_db st, sd_cursors := cs'\<rparr>)))))))))))"

end
