(* ===== verification/PollingIngress.thy ===== *)
theory PollingIngress
  imports PollingStore
begin

text \<open>
  \<^verbatim>\<open>src/ingestion/polling.py\<close> and the session-bound committer of \<^verbatim>\<open>src/ingestion/runtime.py\<close>:
  checkpoints, the page writer with its checks before and after the SQL function, the cursor
  store and the poll itself. The connection to the database is a parameter: a call arrives, or
  is lost before or after the transaction committed.
\<close>

datatype poll_error =
    PollingCursorConflict
  | PollingCursorUnavailable
  | PollSync sync_error
  | PollIngress ingress_code
  | PollPolicy policy_error
  | PollValueError string
  | PollRuntimeError string

section \<open>Checkpoints and results\<close>

record checkpoint =
  cp_cursor :: "pystr option"
  cp_version :: int

definition PollingCursorCheckpoint :: "pystr option \<Rightarrow> int \<Rightarrow> poll_error + checkpoint" where
  "PollingCursorCheckpoint cursor version =
     and_then (ensure (case cursor of None \<Rightarrow> True
         | Some c \<Rightarrow> c \<noteq> [] \<and> c = strip c \<and> length c \<le> 8192) (PollValueError ''cursor'')) (\<lambda>_.
     and_then (ensure (0 \<le> version \<and> version \<le> POSTGRES_BIGINT_MAX) (PollValueError ''version'')) (\<lambda>_.
       Inr \<lparr>cp_cursor = cursor, cp_version = version\<rparr>))"

definition checkpoint_from_row :: "cursor_row \<Rightarrow> poll_error + checkpoint" where
  "checkpoint_from_row c =
     (case PollingCursorCheckpoint (cu_cursor c) (cu_version c) of
        Inl _ \<Rightarrow> Inl PollingCursorUnavailable
      | Inr p \<Rightarrow>
          if cu_status c = lit ''active'' \<and> cp_cursor p \<noteq> None then Inr p
          else if cu_status c = lit ''baselining'' \<and> cp_cursor p = None then Inr p
          else Inl PollingCursorUnavailable)"

definition PollingPageCommitResult :: "commit_row \<Rightarrow> poll_error + commit_row" where
  "PollingPageCommitResult r =
     and_then (PollingCursorCheckpoint (Some (cr_committed_cursor r)) (cr_committed_version r)) (\<lambda>_.
     and_then (ensure (1 \<le> cr_committed_version r) (PollValueError ''version'')) (\<lambda>_.
     and_then (ensure (0 \<le> cr_inserted_count r \<and> cr_inserted_count r \<le> 500) (PollValueError ''inserted_count'')) (\<lambda>_.
     and_then (ensure (0 \<le> cr_duplicate_count r \<and> cr_duplicate_count r \<le> 500) (PollValueError ''duplicate_count''))
       (\<lambda>_. Inr r))))"

section \<open>The page writer\<close>

text \<open>\<^verbatim>\<open>RuntimeInstanceLease\<close>; its workload is always web, its lifecycle active or draining.\<close>

record runtime_lease =
  rl_account_id :: int
  rl_instance_id :: pystr
  rl_session_id :: uuid
  rl_generation :: int
  rl_fencing_token :: int
  rl_authority_epoch :: int
  rl_capability_hash :: pystr
  rl_schema_revision :: pystr
  rl_protocol_version :: int
  rl_build_id :: pystr
  rl_config_hash :: pystr
  rl_active :: bool
  rl_lease_version :: int
  rl_accepted_count :: int
  rl_rejected_count :: int
  rl_heartbeat_at :: time
  rl_lease_until :: time

definition event_envelope_ok :: "runtime_lease \<Rightarrow> pystr \<Rightarrow> ingress_event \<Rightarrow> bool" where
  "event_envelope_ok lease next_cursor e =
     (ev_account_id e = rl_account_id lease \<and> ev_folder e = lit ''INBOX'' \<and> ev_source e = SYNC
      \<and> ev_raw_event_type e = change_kind_value (ev_kind e) \<and> ev_source_event_at e = None
      \<and> json_get (ev_payload e) (lit ''cursor'') = Some (JStr next_cursor)
      \<and> json_get (ev_payload e) (lit ''change_type'') = Some (JStr (change_kind_value (ev_kind e)))
      \<and> json_get (ev_payload e) (lit ''id'') = Some (JStr (ev_external_email_id e))
      \<and> (case json_get (ev_payload e) (lit ''source_version'') of
           None \<Rightarrow> ev_source_version e = None | Some v \<Rightarrow> v = json_text (ev_source_version e))
      \<and> json_get (ev_payload e) (lit ''item'') \<in> {None, Some JNull, Some (JObj [])})"

definition event_envelope :: "ingress_event \<Rightarrow> page_event" where
  "event_envelope e = \<lparr>pe_external_email_id = ev_external_email_id e,
     pe_change_kind = change_kind_value (ev_kind e), pe_dedupe_key = ev_dedupe_key e,
     pe_source_version = ev_source_version e\<rparr>"

definition event_envelopes :: "runtime_lease \<Rightarrow> pystr \<Rightarrow> ingress_event list \<Rightarrow> poll_error + page_event list" where
  "event_envelopes lease next_cursor events =
     and_then (ensure (list_all (event_envelope_ok lease next_cursor) events) PollingCursorUnavailable)
       (\<lambda>_. Inr (sort_key pe_dedupe_key (map event_envelope events)))"

definition page_commit_result ::
  "commit_row \<Rightarrow> checkpoint \<Rightarrow> pystr \<Rightarrow> nat \<Rightarrow> poll_error + commit_row" where
  "page_commit_result row cp next_cursor event_count =
     (case PollingPageCommitResult row of
        Inl _ \<Rightarrow> Inl PollingCursorUnavailable
      | Inr r \<Rightarrow>
          if cr_committed_cursor r \<noteq> next_cursor \<or> cr_committed_version r \<noteq> cp_version cp + 1
             \<or> cr_inserted_count r + cr_duplicate_count r \<noteq> int event_count
          then Inl PollingCursorUnavailable else Inr r)"

definition SYNC_PAGE_CURSOR_CONFLICTS :: "string list" where
  "SYNC_PAGE_CURSOR_CONFLICTS = [''greenfield_sync_cursor_conflict'', ''greenfield_sync_lease_conflict'']"

definition failure_error :: "sync_failure \<Rightarrow> poll_error" where
  "failure_error f =
     (case f of
        SyncRaise m \<Rightarrow> if m \<in> set SYNC_PAGE_CURSOR_CONFLICTS then PollingCursorConflict
          else PollingCursorUnavailable
      | SyncConstraint \<Rightarrow> PollingCursorUnavailable)"

datatype link_failure = LinkTimeout | LinkTransient | LinkOther

text \<open>\<open>Lost committed why\<close>: no reply; the transaction ran when \<open>committed\<close>.\<close>

datatype link = Arrives | Lost bool link_failure

fun link_error :: "link_failure \<Rightarrow> poll_error" where
  "link_error LinkTimeout = PollSync (SyncTransientError None)"
| "link_error LinkTransient = PollSync (SyncTransientError None)"
| "link_error LinkOther = PollingCursorUnavailable"

definition call_commit ::
  "pg_text \<Rightarrow> env \<Rightarrow> link \<Rightarrow> commit_args \<Rightarrow> checkpoint \<Rightarrow> sync_db \<Rightarrow> (poll_error + commit_row) \<times> sync_db" where
  "call_commit pg env link args cp d =
     (case link of
        Lost False why \<Rightarrow> (Inl (link_error why), d)
      | Lost True why \<Rightarrow> (case greenfield_commit_sync_page pg env args d of
            Inl _ \<Rightarrow> (Inl (link_error why), d)
          | Inr (_, d') \<Rightarrow> (Inl (link_error why), d'))
      | Arrives \<Rightarrow> (case greenfield_commit_sync_page pg env args d of
            Inl f \<Rightarrow> (Inl (failure_error f), d)
          | Inr (row, d') \<Rightarrow>
              (page_commit_result row cp (ca_next_cursor args) (length (ca_events args)), d')))"

definition commit_arguments ::
  "runtime_lease \<Rightarrow> checkpoint \<Rightarrow> pystr \<Rightarrow> page_event list \<Rightarrow> bool \<Rightarrow> commit_args" where
  "commit_arguments lease cp next_cursor es activation =
     \<lparr>ca_account_id = rl_account_id lease, ca_session_id = rl_session_id lease,
      ca_expected_lease_version = rl_lease_version lease, ca_folder_key = lit ''INBOX'',
      ca_expected_cursor = cp_cursor cp, ca_expected_cursor_version = cp_version cp,
      ca_next_cursor = next_cursor, ca_events = es, ca_activation = activation\<rparr>"

definition writer_commit_page ::
  "pg_text \<Rightarrow> env \<Rightarrow> time \<Rightarrow> link \<Rightarrow> runtime_lease \<Rightarrow> checkpoint \<Rightarrow> pystr \<Rightarrow> ingress_event list \<Rightarrow> bool
    \<Rightarrow> sync_db \<Rightarrow> (poll_error + commit_row) \<times> sync_db" where
  "writer_commit_page pg env now link lease cp next_cursor events activation d =
     (case and_then (ensure (rl_active lease) PollingCursorUnavailable) (\<lambda>_.
       and_then (ensure (activation = (cp_cursor cp = None)) PollingCursorUnavailable) (\<lambda>_.
       and_then (ensure (\<not> (activation \<and> events \<noteq> [])) PollingCursorUnavailable) (\<lambda>_.
       and_then (event_envelopes lease next_cursor events) (\<lambda>es.
       and_then (ensure (rl_lease_until lease - now > seconds 1) PollingCursorConflict) (\<lambda>_. Inr es)))))
     of
       Inl e \<Rightarrow> (Inl e, d)
     | Inr es \<Rightarrow> call_commit pg env link (commit_arguments lease cp next_cursor es activation) cp d)"

section \<open>The session-bound committer\<close>

record session_state =
  ss_lease :: "runtime_lease option"
  ss_accepting :: bool
  ss_accepted_count :: int
  ss_rejected_count :: int

text \<open>
  \<^verbatim>\<open>RuntimeInstanceRepository.heartbeat\<close> (\<^verbatim>\<open>src/ingestion/runtime_authority.py\<close>): the row its
  statement returned is a parameter (\<open>None\<close>: no row, or an exception); it must be the
  previous lease one version later.
\<close>

definition updated_lease_matches ::
  "runtime_lease \<Rightarrow> runtime_lease \<Rightarrow> bool \<Rightarrow> int \<Rightarrow> int \<Rightarrow> int option \<Rightarrow> bool" where
  "updated_lease_matches current previous active accepted rejected lease_seconds =
     (rl_active current = active \<and> rl_lease_version current = rl_lease_version previous + 1
      \<and> rl_accepted_count current = accepted \<and> rl_rejected_count current = rejected
      \<and> rl_heartbeat_at previous \<le> rl_heartbeat_at current
      \<and> (case lease_seconds of None \<Rightarrow> True
         | Some n \<Rightarrow> rl_lease_until current = rl_heartbeat_at current + seconds n)
      \<and> rl_account_id current = rl_account_id previous
      \<and> rl_instance_id current = rl_instance_id previous
      \<and> rl_session_id current = rl_session_id previous
      \<and> rl_generation current = rl_generation previous
      \<and> rl_fencing_token current = rl_fencing_token previous
      \<and> rl_authority_epoch current = rl_authority_epoch previous
      \<and> rl_capability_hash current = rl_capability_hash previous
      \<and> rl_schema_revision current = rl_schema_revision previous
      \<and> rl_protocol_version current = rl_protocol_version previous
      \<and> rl_build_id current = rl_build_id previous
      \<and> rl_config_hash current = rl_config_hash previous)"

definition heartbeat ::
  "runtime_lease option \<Rightarrow> int \<Rightarrow> runtime_lease \<Rightarrow> int \<Rightarrow> int \<Rightarrow> runtime_lease option" where
  "heartbeat reply lease_seconds lease accepted rejected =
     (if rl_active lease \<and> rl_lease_version lease < POSTGRES_BIGINT_MAX - 1
         \<and> 0 \<le> accepted \<and> accepted < POSTGRES_BIGINT_MAX
         \<and> 0 \<le> rejected \<and> rejected < POSTGRES_BIGINT_MAX
         \<and> rl_accepted_count lease \<le> accepted \<and> rl_rejected_count lease \<le> rejected
         \<and> 1 \<le> lease_seconds \<and> lease_seconds \<le> 3600
      then (case reply of
          None \<Rightarrow> None
        | Some current \<Rightarrow>
            if updated_lease_matches current lease True accepted rejected (Some lease_seconds)
            then Some current else None)
      else None)"

definition renewed_lease_ok :: "session_state \<Rightarrow> runtime_lease \<Rightarrow> runtime_lease \<Rightarrow> bool" where
  "renewed_lease_ok s lease current =
     (rl_active current \<and> rl_session_id current = rl_session_id lease
      \<and> rl_generation current = rl_generation lease \<and> rl_fencing_token current = rl_fencing_token lease
      \<and> rl_authority_epoch current = rl_authority_epoch lease
      \<and> rl_capability_hash current = rl_capability_hash lease
      \<and> rl_lease_version current = rl_lease_version lease + 1
      \<and> rl_accepted_count current = ss_accepted_count s
      \<and> rl_rejected_count current = ss_rejected_count s)"

definition reject_events :: "nat \<Rightarrow> session_state \<Rightarrow> session_state" where
  "reject_events n s = s\<lparr>ss_rejected_count := ss_rejected_count s + int n\<rparr>"

definition session_commit_page ::
  "pg_text \<Rightarrow> env \<Rightarrow> time \<Rightarrow> link \<Rightarrow> runtime_lease option \<Rightarrow> int \<Rightarrow> checkpoint \<Rightarrow> pystr
    \<Rightarrow> ingress_event list \<Rightarrow> bool \<Rightarrow> session_state \<times> sync_db
    \<Rightarrow> (poll_error + commit_row) \<times> session_state \<times> sync_db" where
  "session_commit_page pg env now link reply lease_seconds cp next_cursor events activation = (\<lambda>(s, d).
     case ss_lease s of
       None \<Rightarrow> (Inl PollingCursorUnavailable, s, d)
     | Some lease \<Rightarrow>
         if \<not> ss_accepting s \<or> \<not> rl_active lease then (Inl PollingCursorUnavailable, s, d)
         else (case heartbeat reply lease_seconds lease (ss_accepted_count s) (ss_rejected_count s) of
             None \<Rightarrow> (Inl PollingCursorUnavailable,
               reject_events (length events) (s\<lparr>ss_accepting := False\<rparr>), d)
           | Some current \<Rightarrow>
               if \<not> renewed_lease_ok s lease current
               then (Inl PollingCursorUnavailable, reject_events (length events) s, d)
               else (let s = s\<lparr>ss_lease := Some current\<rparr>
                 in case writer_commit_page pg env now link current cp next_cursor events activation d of
                      (Inl e, d') \<Rightarrow> (Inl e, reject_events (length events) s, d')
                    | (Inr r, d') \<Rightarrow>
                        if cr_inserted_count r < 0 \<or> cr_duplicate_count r < 0
                           \<or> cr_inserted_count r + cr_duplicate_count r \<noteq> int (length events)
                        then (Inl PollingCursorUnavailable, reject_events (length events) s, d')
                        else (Inr r, s\<lparr>ss_accepted_count := ss_accepted_count s
                               + int (length events)\<rparr>, d'))))"

section \<open>The cursor store\<close>

definition load_cursor :: "int \<Rightarrow> pystr \<Rightarrow> sync_db \<Rightarrow> poll_error + checkpoint" where
  "load_cursor account folder d =
     (case select_one (\<lambda>c. cu_account_id c = account \<and> cu_folder_key c = folder) (sd_cursors d) of
        None \<Rightarrow> PollingCursorCheckpoint None 0
      | Some c \<Rightarrow> checkpoint_from_row c)"

type_synonym committer =
  "checkpoint \<Rightarrow> pystr \<Rightarrow> ingress_event list \<Rightarrow> bool \<Rightarrow> session_state \<times> sync_db
    \<Rightarrow> (poll_error + commit_row) \<times> session_state \<times> sync_db"

definition check_commit :: "checkpoint \<Rightarrow> pystr \<Rightarrow> int \<Rightarrow> bool \<Rightarrow> commit_row \<Rightarrow> poll_error + unit" where
  "check_commit cp next_cursor count activation r =
     ensure (\<not> (cr_committed_cursor r \<noteq> next_cursor \<or> cr_committed_version r \<noteq> cp_version cp + 1
        \<or> (if activation then cr_inserted_count r \<noteq> 0 \<or> cr_duplicate_count r \<noteq> 0
           else cr_inserted_count r + cr_duplicate_count r \<noteq> count))) PollingCursorUnavailable"

definition commit_activation_boundary ::
  "committer \<Rightarrow> checkpoint \<Rightarrow> pystr \<Rightarrow> session_state \<times> sync_db \<Rightarrow> (poll_error + unit) \<times> session_state \<times> sync_db" where
  "commit_activation_boundary commit cp next_cursor sd =
     (if cp_cursor cp \<noteq> None then (Inl (PollValueError ''activation''), sd)
      else (case PollingCursorCheckpoint (Some next_cursor) 0 of
          Inl e \<Rightarrow> (Inl e, sd)
        | Inr _ \<Rightarrow> (case commit cp next_cursor [] True sd of
            (r, sd') \<Rightarrow> (and_then r (check_commit cp next_cursor 0 True), sd'))))"

definition commit_delta ::
  "committer \<Rightarrow> int \<Rightarrow> pystr \<Rightarrow> checkpoint \<Rightarrow> pystr \<Rightarrow> ingress_event list \<Rightarrow> session_state \<times> sync_db
    \<Rightarrow> (poll_error + unit) \<times> session_state \<times> sync_db" where
  "commit_delta commit account folder cp next_cursor events sd =
     (if cp_cursor cp = None then (Inl (PollValueError ''delta''), sd)
      else (case PollingCursorCheckpoint (Some next_cursor) 0 of
          Inl e \<Rightarrow> (Inl e, sd)
        | Inr _ \<Rightarrow>
            if \<not> list_all (\<lambda>e. ev_account_id e = account \<and> ev_folder e = folder) events
            then (Inl (PollValueError ''events''), sd)
            else (case commit cp next_cursor events False sd of
              (r, sd') \<Rightarrow> (and_then r (check_commit cp next_cursor (int (length events)) False), sd'))))"

section \<open>One poll\<close>

datatype poll_outcome = BASELINED | COMMITTED

record polling_ingress =
  pn_account_id :: int
  pn_scope :: folder_scope
  pn_snapshot :: policy_snapshot
  pn_page_limit :: int

definition PollingIngress ::
  "int \<Rightarrow> folder_scope \<Rightarrow> policy_snapshot \<Rightarrow> int \<Rightarrow> poll_error + polling_ingress" where
  "PollingIngress account scope snapshot page_limit =
     and_then (ensure (1 \<le> account \<and> account \<le> POSTGRES_BIGINT_MAX) (PollValueError ''account_id'')) (\<lambda>_.
     and_then (ensure (fs_canonical_key scope = lit ''INBOX'' \<and> fs_sync_folder scope = lit ''INBOX'')
         (PollValueError ''scope'')) (\<lambda>_.
     and_then (ensure (snapshot_ready snapshot) (PollValueError ''snapshot'')) (\<lambda>_.
     and_then (ensure (scope \<in> set (ps_scopes snapshot)) (PollValueError ''scope'')) (\<lambda>_.
     and_then (ensure (1 \<le> page_limit \<and> page_limit \<le> int MAX_SYNC_CHANGES_PER_BATCH)
         (PollValueError ''page_limit'')) (\<lambda>_.
       Inr \<lparr>pn_account_id = account, pn_scope = scope, pn_snapshot = snapshot,
         pn_page_limit = page_limit\<rparr>)))))"

text \<open>The gateway adapter: \<open>sync_polling\<close> with an exchange, or any other implementation of the port.\<close>

type_synonym page_client = "int \<Rightarrow> pystr \<Rightarrow> pystr option \<Rightarrow> int \<Rightarrow> bool \<Rightarrow> sync_error + sync_batch"

definition fetch_page ::
  "page_client \<Rightarrow> polling_ingress \<Rightarrow> pystr option \<Rightarrow> bool \<Rightarrow> poll_error + sync_batch" where
  "fetch_page client p cursor discard_items =
     (case client (pn_account_id p) (fs_sync_folder (pn_scope p)) cursor (pn_page_limit p) discard_items of
        Inl e \<Rightarrow> Inl (PollSync e)
      | Inr page \<Rightarrow>
          if sb_includes_last page then Inr page
          else Inl (PollRuntimeError ''polling_sync_response_incomplete''))"

definition polled_policy :: "polling_ingress \<Rightarrow> sync_change \<Rightarrow> policy_error + processing_policy" where
  "polled_policy p c =
     resolve_policy (PySource SYNC) (PyText (change_kind_value (ch_kind c))) (PyKind (ch_kind c))
       (PyText (fs_sync_folder (pn_scope p))) (Some (pn_snapshot p))"

definition normalize_change ::
  "(pybytes \<Rightarrow> pystr) \<Rightarrow> json_texts \<Rightarrow> polling_ingress \<Rightarrow> pystr \<Rightarrow> sync_change \<Rightarrow> poll_error + ingress_event" where
  "normalize_change sha t p cursor c =
     (case polled_policy p c of
        Inl e \<Rightarrow> Inl (PollPolicy e)
      | Inr policy \<Rightarrow>
          (case normalize_sync_change sha t (pn_account_id p) (fs_canonical_key (pn_scope p)) cursor
              (TypedChange c) policy of
             Inl e \<Rightarrow> Inl (PollIngress e) | Inr ev \<Rightarrow> Inr ev))"

fun normalize_events ::
  "(pybytes \<Rightarrow> pystr) \<Rightarrow> json_texts \<Rightarrow> polling_ingress \<Rightarrow> pystr \<Rightarrow> sync_change list
    \<Rightarrow> poll_error + ingress_event list" where
  "normalize_events sha t p cursor [] = Inr []"
| "normalize_events sha t p cursor (c # cs) =
     and_then (normalize_change sha t p cursor c) (\<lambda>e.
     and_then (normalize_events sha t p cursor cs) (\<lambda>es. Inr (e # es)))"

text \<open>
  \<^verbatim>\<open>sync_once\<close> in its two halves: what is fetched for a loaded checkpoint (pages with their
  normalized events), and the commit. Other transactions may run between the load, the fetch
  and the commit.
\<close>

datatype fetched = Boundary pystr | Delta pystr "ingress_event list"

definition fetch_for ::
  "(pybytes \<Rightarrow> pystr) \<Rightarrow> json_texts \<Rightarrow> page_client \<Rightarrow> polling_ingress \<Rightarrow> checkpoint \<Rightarrow> poll_error + fetched" where
  "fetch_for sha t client p cp =
     (case cp_cursor cp of
        None \<Rightarrow> and_then (fetch_page client p None True) (\<lambda>page. Inr (Boundary (sb_cursor page)))
      | Some c \<Rightarrow>
          and_then (fetch_page client p (Some c) False) (\<lambda>page.
          and_then (normalize_events sha t p (sb_cursor page) (sb_changes page)) (\<lambda>events.
            Inr (Delta (sb_cursor page) events))))"

definition commit_fetched ::
  "committer \<Rightarrow> polling_ingress \<Rightarrow> checkpoint \<Rightarrow> fetched \<Rightarrow> session_state \<times> sync_db
    \<Rightarrow> (poll_error + poll_outcome) \<times> session_state \<times> sync_db" where
  "commit_fetched commit p cp f sd =
     (case f of
        Boundary next_cursor \<Rightarrow> (case commit_activation_boundary commit cp next_cursor sd of
            (r, sd') \<Rightarrow> (and_then r (\<lambda>_. Inr BASELINED), sd'))
      | Delta next_cursor events \<Rightarrow>
          (case commit_delta commit (pn_account_id p) (fs_canonical_key (pn_scope p)) cp next_cursor events sd of
             (r, sd') \<Rightarrow> (and_then r (\<lambda>_. Inr COMMITTED), sd')))"

definition sync_once ::
  "(pybytes \<Rightarrow> pystr) \<Rightarrow> json_texts \<Rightarrow> page_client \<Rightarrow> committer \<Rightarrow> polling_ingress \<Rightarrow> session_state \<times> sync_db
    \<Rightarrow> (poll_error + poll_outcome) \<times> session_state \<times> sync_db" where
  "sync_once sha t client commit p = (\<lambda>(s, d).
     case load_cursor (pn_account_id p) (fs_canonical_key (pn_scope p)) d of
       Inl e \<Rightarrow> (Inl e, s, d)
     | Inr cp \<Rightarrow> (case fetch_for sha t client p cp of
         Inl e \<Rightarrow> (Inl e, s, d)
       | Inr f \<Rightarrow> commit_fetched commit p cp f (s, d)))"

section \<open>The scheduler\<close>

text \<open>
  One turn of \<^verbatim>\<open>PollingRuntime._run\<close>: the delay before the next turn in microseconds, and
  whether the runtime counts as activated, from what the cycle returned or raised.
\<close>

definition transient_delay :: "int \<Rightarrow> int option \<Rightarrow> int" where
  "transient_delay interval hint =
     (case hint of Some n \<Rightarrow> if n > 0 then seconds n else interval | None \<Rightarrow> interval)"

definition after_cycle :: "int \<Rightarrow> bool \<Rightarrow> poll_error + poll_outcome list \<Rightarrow> int \<times> bool" where
  "after_cycle interval activated result =
     (case result of
        Inl (PollSync (SyncTransientError hint)) \<Rightarrow> (transient_delay interval hint, activated)
      | Inl PollingCursorConflict \<Rightarrow> (interval, activated)
      | Inl _ \<Rightarrow> (interval, False)
      | Inr _ \<Rightarrow> (interval, True))"

fun cycle_once ::
  "('s \<Rightarrow> (poll_error + poll_outcome) \<times> 's) list \<Rightarrow> 's \<Rightarrow> (poll_error + poll_outcome list) \<times> 's" where
  "cycle_once [] s = (Inr [], s)"
| "cycle_once (poll # polls) s =
     (case poll s of
        (Inl e, s') \<Rightarrow> (Inl e, s')
      | (Inr o1, s') \<Rightarrow> (case cycle_once polls s' of
          (Inl e, s'') \<Rightarrow> (Inl e, s'') | (Inr os, s'') \<Rightarrow> (Inr (o1 # os), s'')))"

end
