(* ===== verification/PageCommit.thy ===== *)
theory PageCommit
  imports PollingIngress InboxMachine
begin

text \<open>
  What one page commit does: the rows it appends, the counters it returns, and that it keeps
  the invariant of the inbox. Then the contract of a committer, as the poll relies on it, and
  the proof that the session-bound writer keeps that contract.
\<close>

section \<open>One event\<close>

definition landed :: "commit_args \<Rightarrow> authority_row \<Rightarrow> scope_row \<Rightarrow> page_event \<Rightarrow> inbox_row \<Rightarrow> bool" where
  "landed a au s e r \<longleftrightarrow> i_dedupe_key r = pe_dedupe_key e
     \<and> (\<exists>policy. event_policy s e = Inr policy \<and> same_identity a au e policy r)"

lemma change_kind_of_value: "change_kind_of t = Some k \<Longrightarrow> change_kind_value k = t"
  by (auto simp: change_kind_of_def split: if_splits)

lemma page_payload_wf: "json_wf (page_payload a e)"
  by (cases "pe_source_version e") (simp_all add: page_payload_def json_text_def)

lemma page_row_landed:
  assumes "event_policy s e = Inr (Some p)" "change_kind_of (pe_change_kind e) = Some k"
  shows "landed a au s e (page_row env n a au e k p)"
  using assms change_kind_of_value [OF assms(2)]
  by (auto simp: landed_def same_identity_def page_row_def page_payload_wf)

lemma commit_event_cases:
  assumes "commit_event pg env a au s e st = Inr st'"
  obtains (duplicate) r where "r \<in> set (inbox (pl_db st))" "landed a au s e r"
      "pl_db st' = pl_db st" "pl_inserted st' = pl_inserted st" "pl_duplicates st' = pl_duplicates st + 1"
  | (fresh) p k where "pe_dedupe_key e \<notin> set (map i_dedupe_key (inbox (pl_db st)))"
      "event_policy s e = Inr (Some p)" "change_kind_of (pe_change_kind e) = Some k"
      "pl_db st' = (pl_db st)\<lparr>inbox := inbox (pl_db st) @ [page_row env (2 * pl_inserted st) a au e k p],
         audits := audits (pl_db st) @ [page_audit env (2 * pl_inserted st)
           (page_row env (2 * pl_inserted st) a au e k p)]\<rparr>"
      "pl_inserted st' = pl_inserted st + 1" "pl_duplicates st' = pl_duplicates st"
proof -
  let ?st = "st\<lparr>pl_seen_keys := pl_seen_keys st @ [pe_dedupe_key e],
      pl_seen_identities := pl_seen_identities st @ [pe_change_kind e @ 58 # pe_external_email_id e]\<rparr>"
  from assms obtain policy where policy: "event_policy s e = Inr policy"
    and rest: "(case select_one (\<lambda>r. i_dedupe_key r = pe_dedupe_key e) (inbox (pl_db ?st)) of
            Some r \<Rightarrow> if same_identity a au e policy r
              then Inr (?st\<lparr>pl_duplicates := pl_duplicates ?st + 1\<rparr>)
              else Inl (SyncRaise ''greenfield_sync_dedupe_identity_conflict'')
          | None \<Rightarrow> insert_page_row env a au e policy ?st) = Inr st'"
    unfolding commit_event_def Let_def by (elim and_thenE) (erule (1) that)
  show ?thesis
  proof (cases "select_one (\<lambda>r. i_dedupe_key r = pe_dedupe_key e) (inbox (pl_db st))")
    case (Some r)
    from select_one_SomeD [OF Some] have r: "r \<in> set (inbox (pl_db st))" "i_dedupe_key r = pe_dedupe_key e"
      by simp_all
    from rest Some have same: "same_identity a au e policy r"
      and st': "st' = ?st\<lparr>pl_duplicates := pl_duplicates st + 1\<rparr>" by (simp_all split: if_splits)
    show ?thesis by (rule duplicate [of r]) (use r same policy st' in \<open>auto simp: landed_def\<close>)
  next
    case None
    with rest have ins: "insert_page_row env a au e policy ?st = Inr st'" by simp
    then obtain p k where pk: "policy = Some p" "change_kind_of (pe_change_kind e) = Some k"
      by (auto simp: insert_page_row_def split: option.splits)
    show ?thesis
      by (rule fresh [of p k]) (use None pk policy ins in
          \<open>auto simp: insert_page_row_def select_one_None Let_def split: if_splits\<close>)
  qed
qed

section \<open>The page\<close>

lemma commit_event_seen:
  assumes "commit_event pg env a au s e st = Inr st'"
  shows "pe_dedupe_key e \<notin> set (pl_seen_keys st)" "pl_seen_keys st' = pl_seen_keys st @ [pe_dedupe_key e]"
  using assms
  by (auto simp: commit_event_def and_then_Inr Let_def event_shape_ok_def insert_page_row_def
      split: option.splits if_splits)

lemma commit_events_seen:
  "commit_events pg env a au s es st = Inr st' \<Longrightarrow>
     distinct (map pe_dedupe_key es) \<and> set (map pe_dedupe_key es) \<inter> set (pl_seen_keys st) = {}"
proof (induction es arbitrary: st)
  case (Cons e es)
  then obtain st1 where e: "commit_event pg env a au s e st = Inr st1"
    and es: "commit_events pg env a au s es st1 = Inr st'" by (auto simp: and_then_Inr)
  from Cons.IH [OF es] commit_event_seen [OF e] show ?case by auto
qed simp

text \<open>A row the page wrote, for one of its events.\<close>

definition written_row ::
  "env \<Rightarrow> commit_args \<Rightarrow> authority_row \<Rightarrow> scope_row \<Rightarrow> page_event set \<Rightarrow> nat \<Rightarrow> inbox_row \<Rightarrow> bool" where
  "written_row env a au s E n r \<longleftrightarrow>
     (\<exists>e\<in>E. \<exists>p k. r = page_row env (2 * n) a au e k p \<and> event_policy s e = Inr (Some p)
        \<and> change_kind_of (pe_change_kind e) = Some k)"

lemma written_row_mono: "written_row env a au s E n r \<Longrightarrow> E \<subseteq> F \<Longrightarrow> written_row env a au s F n r"
  unfolding written_row_def by blast

lemma commit_events_rows:
  assumes "commit_events pg env a au s es st = Inr st'"
  obtains rows auds where
    "pl_db st' = (pl_db st)\<lparr>inbox := inbox (pl_db st) @ rows, audits := audits (pl_db st) @ auds\<rparr>"
    "pl_inserted st' = pl_inserted st + length rows"
    "pl_inserted st' + pl_duplicates st' = pl_inserted st + pl_duplicates st + length es"
    "\<And>e. e \<in> set es \<Longrightarrow> \<exists>r\<in>set (inbox (pl_db st) @ rows). landed a au s e r"
    "\<And>i. i < length rows \<Longrightarrow> written_row env a au s (set es) (pl_inserted st + i) (rows ! i)"
    "map i_dedupe_key rows =
       filter (\<lambda>k. k \<notin> set (map i_dedupe_key (inbox (pl_db st)))) (map pe_dedupe_key es)"
  using assms
proof (induction es arbitrary: st thesis)
  case Nil
  then show ?case by (auto intro!: Nil.prems(1) [where rows = "[]" and auds = "[]"])
next
  case (Cons e es)
  from Cons.prems(2) obtain st1 where e: "commit_event pg env a au s e st = Inr st1"
    and es: "commit_events pg env a au s es st1 = Inr st'" by (auto simp: and_then_Inr)
  from commit_events_seen [OF Cons.prems(2)] have new: "pe_dedupe_key e \<notin> set (map pe_dedupe_key es)" by simp
  obtain rows auds where rest:
    "pl_db st' = (pl_db st1)\<lparr>inbox := inbox (pl_db st1) @ rows, audits := audits (pl_db st1) @ auds\<rparr>"
    "pl_inserted st' = pl_inserted st1 + length rows"
    "pl_inserted st' + pl_duplicates st' = pl_inserted st1 + pl_duplicates st1 + length es"
    "\<And>e. e \<in> set es \<Longrightarrow> \<exists>r\<in>set (inbox (pl_db st1) @ rows). landed a au s e r"
    "\<And>i. i < length rows \<Longrightarrow> written_row env a au s (set es) (pl_inserted st1 + i) (rows ! i)"
    "map i_dedupe_key rows =
       filter (\<lambda>k. k \<notin> set (map i_dedupe_key (inbox (pl_db st1)))) (map pe_dedupe_key es)"
    using Cons.IH [OF _ es] by blast
  from e show ?case
  proof (cases rule: commit_event_cases)
    case (duplicate r)
    then have "pe_dedupe_key e \<in> set (map i_dedupe_key (inbox (pl_db st)))"
      by (metis image_eqI landed_def list.set_map)
    show ?thesis
    proof (rule Cons.prems(1) [where rows = rows and auds = auds])
      show "\<exists>r\<in>set (inbox (pl_db st) @ rows). landed a au s x r" if "x \<in> set (e # es)" for x
        using that duplicate rest(4) by auto
      show "written_row env a au s (set (e # es)) (pl_inserted st + i) (rows ! i)" if "i < length rows" for i
        using rest(5) [OF that] duplicate(4) by (auto intro: written_row_mono)
      show "map i_dedupe_key rows =
         filter (\<lambda>k. k \<notin> set (map i_dedupe_key (inbox (pl_db st)))) (map pe_dedupe_key (e # es))"
        using rest(6) duplicate(3) \<open>pe_dedupe_key e \<in> _\<close> by simp
    qed (use rest(1-3) duplicate in simp_all)
  next
    case (fresh p k)
    let ?r = "page_row env (2 * pl_inserted st) a au e k p"
    let ?a = "page_audit env (2 * pl_inserted st) ?r"
    have key: "i_dedupe_key ?r = pe_dedupe_key e" by (simp add: page_row_def)
    show ?thesis
    proof (rule Cons.prems(1) [where rows = "?r # rows" and auds = "?a # auds"])
      show "\<exists>r\<in>set (inbox (pl_db st) @ ?r # rows). landed a au s x r" if "x \<in> set (e # es)" for x
        using that fresh(4) rest(4) page_row_landed [OF fresh(2,3)] by auto
      show "written_row env a au s (set (e # es)) (pl_inserted st + i) ((?r # rows) ! i)"
        if "i < length (?r # rows)" for i
      proof (cases i)
        case 0
        then show ?thesis using fresh(2,3) by (auto simp: written_row_def)
      next
        case (Suc j)
        with that rest(5) [of j] fresh(5) show ?thesis by (auto intro: written_row_mono)
      qed
      have "filter (\<lambda>k. k \<notin> set (map i_dedupe_key (inbox (pl_db st1)))) (map pe_dedupe_key es)
        = filter (\<lambda>k. k \<notin> set (map i_dedupe_key (inbox (pl_db st)))) (map pe_dedupe_key es)"
        by (rule filter_cong) (use new fresh(4) key in \<open>auto simp: image_iff\<close>)
      then show "map i_dedupe_key (?r # rows) =
         filter (\<lambda>k. k \<notin> set (map i_dedupe_key (inbox (pl_db st)))) (map pe_dedupe_key (e # es))"
        using rest(6) fresh(1) key by simp
    qed (use rest(1-3) fresh in simp_all)
  qed
qed

section \<open>The function keeps the inbox\<close>

definition page_env_ok :: "time \<Rightarrow> env \<Rightarrow> time \<Rightarrow> db \<Rightarrow> bool" where
  "page_env_ok now env now' d \<longleftrightarrow> env_ok now env now' d \<and> inj (uuid4 env)"

lemma kept_append_rows:
  assumes "store_ok now d" "now \<le> now'" "list_all (row_ok now') rows"
    "distinct (map i_id rows)" "set (map i_id rows) \<inter> set (map i_id (inbox d)) = {}"
    "distinct (map i_dedupe_key rows)"
    "set (map i_dedupe_key rows) \<inter> set (map i_dedupe_key (inbox d)) = {}"
  shows "kept now' d (d\<lparr>inbox := inbox d @ rows\<rparr>)"
proof -
  have "owner_is_create (d\<lparr>inbox := inbox d @ rows\<rparr>) e" if "e \<in> set (emails d)" for e
    using store_okD(3) [OF assms(1) that] by (rule owner_is_create_grow) auto
  with assms have "store_ok now' (d\<lparr>inbox := inbox d @ rows\<rparr>)"
    by (auto simp: store_ok_def list_all_iff intro: row_ok_mono)
  then show ?thesis by (auto simp: kept_def guarded_def intro: rows_step_extend)
qed

lemma page_row_ok: "row_ok now (page_row env n a au e k p)"
  by (simp add: row_defs page_row_def MAX_RETRIES_def)

lemma written_rows_kept:
  assumes "store_ok now d" "page_env_ok now env now' d"
    and rows: "\<And>i. i < length rows \<Longrightarrow> written_row env a au s E i (rows ! i)"
    and keys: "map i_dedupe_key rows = filter (\<lambda>k. k \<notin> set (map i_dedupe_key (inbox d))) ks" "distinct ks"
  shows "kept now' d (d\<lparr>inbox := inbox d @ rows\<rparr>)"
proof (rule kept_append_rows [OF assms(1)])
  have id: "i_id (rows ! i) = uuid4 env (2 * i)" if "i < length rows" for i
    using rows [OF that] by (auto simp: written_row_def page_row_def)
  have inj: "inj (uuid4 env)" and fresh: "uuid4 env n \<notin> set (map i_id (inbox d))" for n
    using assms(2) by (auto simp: page_env_ok_def env_ok_def)
  show "now \<le> now'" using assms(2) by (auto simp: page_env_ok_def intro: env_okD)
  show "list_all (row_ok now') rows"
    unfolding list_all_length using rows page_row_ok by (metis written_row_def)
  show "distinct (map i_id rows)"
    by (auto simp: distinct_conv_nth id dest!: injD [OF inj])
  show "set (map i_id rows) \<inter> set (map i_id (inbox d)) = {}"
    using id fresh by (auto simp: in_set_conv_nth) (metis image_eqI nth_mem)
  show "distinct (map i_dedupe_key rows)" using keys by (metis distinct_filter)
  show "set (map i_dedupe_key rows) \<inter> set (map i_dedupe_key (inbox d)) = {}"
    unfolding keys(1) by auto
qed

section \<open>The contract of a page commit\<close>

definition cursor_at :: "int \<Rightarrow> sync_db \<Rightarrow> cursor_row option" where
  "cursor_at account d =
     select_one (\<lambda>c. cu_account_id c = account \<and> cu_folder_key c = lit ''INBOX'') (sd_cursors d)"

definition stored_cursor :: "int \<Rightarrow> sync_db \<Rightarrow> pystr option" where
  "stored_cursor account d = (case cursor_at account d of None \<Rightarrow> None | Some c \<Rightarrow> cu_cursor c)"

definition stored_version :: "int \<Rightarrow> sync_db \<Rightarrow> int" where
  "stored_version account d = (case cursor_at account d of None \<Rightarrow> 0 | Some c \<Rightarrow> cu_version c)"

text \<open>The primary key of \<^verbatim>\<open>sync_cursors\<close>.\<close>

definition cursors_ok :: "sync_db \<Rightarrow> bool" where
  "cursors_ok d = distinct (map (\<lambda>c. (cu_account_id c, cu_folder_key c)) (sd_cursors d))"

text \<open>The row of an event: everything that identifies the delivery.\<close>

definition row_of_event :: "int \<Rightarrow> pystr \<Rightarrow> page_event \<Rightarrow> inbox_row \<Rightarrow> bool" where
  "row_of_event account cursor e r \<longleftrightarrow>
     i_dedupe_key r = pe_dedupe_key e \<and> i_account_id r = account
     \<and> i_external_email_id r = pe_external_email_id e \<and> i_folder_key r = lit ''INBOX''
     \<and> i_source r = SYNC \<and> i_raw_event_type r = pe_change_kind e
     \<and> change_kind_value (i_change_kind r) = pe_change_kind e
     \<and> i_source_version r = pe_source_version e
     \<and> json_get (i_payload r) (lit ''cursor'') = Some (JStr cursor)"

text \<open>A row as it is admitted: waiting, or completed at once when the folder ignores it.\<close>

definition fresh_row :: "scope_row \<Rightarrow> page_event \<Rightarrow> inbox_row \<Rightarrow> bool" where
  "fresh_row s e r \<longleftrightarrow> event_policy s e = Inr (Some (i_processing_policy r))
     \<and> i_status r = (if i_processing_policy r = IGNORED then IS_COMPLETED else IS_PENDING)
     \<and> i_attempts r = 0 \<and> i_execution_epoch r = 0 \<and> i_lease_session_id r = None"

definition new_keys :: "page_event list \<Rightarrow> sync_db \<Rightarrow> pystr list" where
  "new_keys es d = filter (\<lambda>k. k \<notin> set (map i_dedupe_key (inbox (sd_db d))))
     (map pe_dedupe_key (sort_key pe_dedupe_key es))"

text \<open>
  The rows are exactly one per event whose key is new, in the order of the keys, and every
  event has its row; nothing else changes but the log and this folder's cursor, which moves
  from the checkpoint to the next cursor in the same transaction.
\<close>

definition page_committed ::
  "int \<Rightarrow> checkpoint \<Rightarrow> pystr \<Rightarrow> page_event list \<Rightarrow> sync_db \<Rightarrow> sync_db \<Rightarrow> bool" where
  "page_committed account cp cursor es d d' \<longleftrightarrow>
     stored_cursor account d = cp_cursor cp \<and> stored_version account d = cp_version cp
     \<and> stored_cursor account d' = Some cursor \<and> stored_version account d' = cp_version cp + 1
     \<and> (\<exists>rows auds s. sd_db d' = (sd_db d)\<lparr>inbox := inbox (sd_db d) @ rows, audits := audits (sd_db d) @ auds\<rparr>
          \<and> map i_dedupe_key rows = new_keys es d
          \<and> list_all (\<lambda>r. \<exists>e\<in>set es. row_of_event account cursor e r \<and> fresh_row s e r) rows
          \<and> s \<in> set (sd_scopes d))
     \<and> (\<forall>e\<in>set es. \<exists>r\<in>set (inbox (sd_db d')). row_of_event account cursor e r)
     \<and> sd_authorities d' = sd_authorities d \<and> sd_instances d' = sd_instances d
     \<and> sd_scopes d' = sd_scopes d"

lemma json_equal_field:
  assumes "json_values_equal j (JObj m)" "map_of m k = Some (JStr t)"
  shows "json_get j k = Some (JStr t)"
proof -
  from assms(1) obtain l where j: "j = JObj l" and keys: "set (map fst l) = set (map fst m)"
    and fields: "json_fields_equal l m" by (cases j) (auto split: json.splits)
  have "k \<in> set (map fst m)" using map_of_SomeD [OF assms(2)] by force
  then obtain v where v: "map_of l k = Some v"
    unfolding keys [symmetric] by (metis map_of_eq_None_iff not_None_eq list.set_map)
  then have "(k, v) \<in> set l" by (rule map_of_SomeD)
  with fields assms(2) have "json_values_equal v (JStr t)" by (auto simp: json_fields_equal_iff)
  then have "v = JStr t" by (cases v) auto
  with v j show ?thesis by (simp add: json_get_def)
qed

lemma landed_row:
  assumes "landed a au s e r" "ca_folder_key a = lit ''INBOX''"
  shows "row_of_event (ca_account_id a) (ca_next_cursor a) e r"
proof -
  from assms(1) have "json_values_equal (i_payload r) (page_payload a e)"
    by (auto simp: landed_def same_identity_def)
  then have "json_get (i_payload r) (lit ''cursor'') = Some (JStr (ca_next_cursor a))"
    unfolding page_payload_def by (rule json_equal_field) simp
  with assms show ?thesis by (auto simp: row_of_event_def landed_def same_identity_def)
qed

lemma written_row_fresh:
  assumes "written_row env a au s E n r" "ca_folder_key a = lit ''INBOX''"
  shows "\<exists>e\<in>E. row_of_event (ca_account_id a) (ca_next_cursor a) e r \<and> fresh_row s e r"
proof -
  from assms(1) obtain e p k where e: "e \<in> E" "r = page_row env (2 * n) a au e k p"
    "event_policy s e = Inr (Some p)" "change_kind_of (pe_change_kind e) = Some k"
    by (auto simp: written_row_def)
  have "row_of_event (ca_account_id a) (ca_next_cursor a) e r"
    unfolding e(2) by (rule landed_row [OF page_row_landed [OF e(3,4)] assms(2)])
  moreover have "fresh_row s e r" unfolding e(2) by (simp add: fresh_row_def page_row_def e(3))
  ultimately show ?thesis using e(1) by blast
qed

lemma cursor_key_at: "ca_folder_key a = lit ''INBOX'' \<Longrightarrow>
    select_one (cursor_key a) (sd_cursors d) = cursor_at (ca_account_id a) d"
  by (simp add: cursor_at_def cursor_key_def [abs_def])

lemma baseline_at:
  assumes "ca_folder_key a = lit ''INBOX''" "select_one (cursor_key a) (ensure_baseline now a (sd_cursors d)) = Some c"
  shows "stored_cursor (ca_account_id a) d = cu_cursor c" "stored_version (ca_account_id a) d = cu_version c"
proof -
  have "cursor_at (ca_account_id a) d = Some c \<or> cursor_at (ca_account_id a) d = None \<and> c = baseline_cursor now a"
  proof (cases "ca_activation a \<and> \<not> list_ex (cursor_key a) (sd_cursors d)")
    case True
    then have "select_one (cursor_key a) (sd_cursors d) = None" by (auto simp: select_one_None list_ex_iff)
    with True assms show ?thesis
      by (auto simp: ensure_baseline_def select_one_append cursor_key_at split: if_splits)
  next
    case False
    with assms show ?thesis by (auto simp: ensure_baseline_def cursor_key_at split: if_splits)
  qed
  then show "stored_cursor (ca_account_id a) d = cu_cursor c" "stored_version (ca_account_id a) d = cu_version c"
    by (auto simp: stored_cursor_def stored_version_def baseline_cursor_def)
qed

lemma cursors_ok_baseline:
  "cursors_ok d \<Longrightarrow> distinct (map (\<lambda>c. (cu_account_id c, cu_folder_key c)) (ensure_baseline now a (sd_cursors d)))"
  by (auto simp: cursors_ok_def ensure_baseline_def list_ex_iff baseline_cursor_def cursor_key_def)

lemma map_key_update:
  "map (\<lambda>c. (cu_account_id c, cu_folder_key c)) (sql_update p (advance_cursor now a) cs)
   = map (\<lambda>c. (cu_account_id c, cu_folder_key c)) cs"
  by (simp add: sql_update_def advance_cursor_def)

text \<open>Only the row of the folder moves.\<close>

lemma move_cursor_effect:
  assumes "move_cursor now a cs = Inr (cursor, version, cs')" "select_one (cursor_key a) cs = Some c"
    "cursor_verdict a c = Inr ()"
    "distinct (map (\<lambda>c. (cu_account_id c, cu_folder_key c)) cs)"
  shows "cursor = ca_next_cursor a" "version = ca_expected_cursor_version a + 1"
    "select_one (cursor_key a) cs' = Some (advance_cursor now a c)"
    "map (\<lambda>c. (cu_account_id c, cu_folder_key c)) cs' = map (\<lambda>c. (cu_account_id c, cu_folder_key c)) cs"
proof -
  from assms(1) obtain c1 where c1: "select_one (cursor_cas a) cs = Some c1"
    and out: "cursor = ca_next_cursor a" "version = cu_version c1 + 1"
      "cs' = sql_update (cursor_cas a) (advance_cursor now a) cs"
    by (auto simp: move_cursor_def and_then_Inr)
  have c: "c \<in> set cs" "cursor_key a c" using select_one_SomeD [OF assms(2)] by simp_all
  have c1': "c1 \<in> set cs" "cursor_cas a c1" using select_one_SomeD [OF c1] by simp_all
  have same: "c1 = c"
    using distinct_key_unique [OF assms(4) c1'(1) c(1)] c(2) c1'(2)
    by (simp add: cursor_cas_def cursor_key_def)
  then have "cu_version c = ca_expected_cursor_version a" using c1'(2) by (simp add: cursor_cas_def)
  with out same show "cursor = ca_next_cursor a" "version = ca_expected_cursor_version a + 1" by simp_all
  have "select_one (cursor_key a) cs' = map_option (\<lambda>r. if cursor_cas a r then advance_cursor now a r else r)
      (select_one (cursor_key a) cs)"
    unfolding out(3) by (rule select_one_sql_update) (simp add: cursor_key_def advance_cursor_def)
  then show "select_one (cursor_key a) cs' = Some (advance_cursor now a c)"
    using assms(2) c1' same by simp
  show "map (\<lambda>c. (cu_account_id c, cu_folder_key c)) cs' = map (\<lambda>c. (cu_account_id c, cu_folder_key c)) cs"
    unfolding out(3) by (rule map_key_update)
qed

lemma cursor_verdict_Inr:
  "cursor_verdict a c = Inr u \<Longrightarrow> (ca_activation a \<longrightarrow> ca_expected_cursor a = None) \<Longrightarrow>
     cu_cursor c = ca_expected_cursor a \<and> cu_version c = ca_expected_cursor_version a"
  by (auto simp: cursor_verdict_def split: if_splits)

lemma commit_page_contract:
  assumes "greenfield_commit_sync_page pg env a d = Inr (row, d')" "cursors_ok d"
    and "page_env_ok now env now' (sd_db d)" "store_ok now (sd_db d)"
  shows "page_committed (ca_account_id a)
      \<lparr>cp_cursor = ca_expected_cursor a, cp_version = ca_expected_cursor_version a\<rparr>
      (ca_next_cursor a) (ca_events a) d d'"
    and "kept now' (sd_db d) (sd_db d')" "cursors_ok d'" "log_grows (sd_db d) (sd_db d')"
    and "cr_committed_cursor row = ca_next_cursor a"
      "cr_committed_version row = ca_expected_cursor_version a + 1"
      "cr_inserted_count row = int (length (new_keys (ca_events a) d))"
      "cr_inserted_count row + cr_duplicate_count row = int (length (ca_events a))"
proof -
  let ?st0 = "\<lparr>pl_db = sd_db d, pl_seen_keys = [], pl_seen_identities = [], pl_inserted = 0, pl_duplicates = 0\<rparr>"
  let ?es = "sort_key pe_dedupe_key (ca_events a)"
  let ?now = "clk env 0"
  from assms(1) obtain au s c st cursor version cs' where input: "commit_input_ok pg a"
    and s: "select_one (commit_scope a au) (sd_scopes d) = Some s"
    and c: "select_one (cursor_key a) (ensure_baseline ?now a (sd_cursors d)) = Some c"
    and verdict: "cursor_verdict a c = Inr ()"
    and st: "commit_events pg env a au s ?es ?st0 = Inr st"
    and move: "move_cursor ?now a (ensure_baseline ?now a (sd_cursors d)) = Inr (cursor, version, cs')"
    and row: "row = \<lparr>cr_committed_cursor = cursor, cr_committed_version = version,
        cr_inserted_count = int (pl_inserted st), cr_duplicate_count = int (pl_duplicates st)\<rparr>"
    and d': "d' = d\<lparr>sd_db := pl_db st, sd_cursors := cs'\<rparr>"
    unfolding greenfield_commit_sync_page_def Let_def
    by (auto simp: and_then_Inr split: prod.splits)
  from input have folder: "ca_folder_key a = lit ''INBOX''"
    and act: "ca_activation a \<longrightarrow> ca_expected_cursor a = None" by (auto simp: commit_input_ok_def)
  obtain rows auds where db: "pl_db st = (sd_db d)\<lparr>inbox := inbox (sd_db d) @ rows, audits := audits (sd_db d) @ auds\<rparr>"
    and n: "pl_inserted st = length rows" "pl_inserted st + pl_duplicates st = length ?es"
    and land: "\<And>e. e \<in> set ?es \<Longrightarrow> \<exists>r\<in>set (inbox (sd_db d) @ rows). landed a au s e r"
    and written: "\<And>i. i < length rows \<Longrightarrow> written_row env a au s (set ?es) i (rows ! i)"
    and keys: "map i_dedupe_key rows = new_keys (ca_events a) d"
  proof (rule commit_events_rows [OF st])
    fix rows auds
    assume "pl_db st = (pl_db ?st0)\<lparr>inbox := inbox (pl_db ?st0) @ rows, audits := audits (pl_db ?st0) @ auds\<rparr>"
      "pl_inserted st = pl_inserted ?st0 + length rows"
      "pl_inserted st + pl_duplicates st = pl_inserted ?st0 + pl_duplicates ?st0 + length ?es"
      "\<And>e. e \<in> set ?es \<Longrightarrow> \<exists>r\<in>set (inbox (pl_db ?st0) @ rows). landed a au s e r"
      "\<And>i. i < length rows \<Longrightarrow> written_row env a au s (set ?es) (pl_inserted ?st0 + i) (rows ! i)"
      "map i_dedupe_key rows =
         filter (\<lambda>k. k \<notin> set (map i_dedupe_key (inbox (pl_db ?st0)))) (map pe_dedupe_key ?es)"
    then show thesis by (intro that [where rows = rows and auds = auds]) (simp_all add: new_keys_def)
  qed
  note effect = move_cursor_effect [OF move c verdict cursors_ok_baseline [OF assms(2)]]
  note at_c = cursor_verdict_Inr [OF verdict act]
  have at_d': "cursor_at (ca_account_id a) d' = Some (advance_cursor ?now a c)"
    using effect(3) cursor_key_at [OF folder, of d'] by (simp add: d')
  have fresh: "list_all (\<lambda>r. \<exists>e\<in>set (ca_events a). row_of_event (ca_account_id a) (ca_next_cursor a) e r
      \<and> fresh_row s e r) rows"
    unfolding list_all_length using written_row_fresh [OF written folder] by simp
  have events: "\<exists>r\<in>set (inbox (sd_db d')). row_of_event (ca_account_id a) (ca_next_cursor a) e r"
    if "e \<in> set (ca_events a)" for e
  proof -
    from land [of e] that obtain r where r: "r \<in> set (inbox (sd_db d) @ rows)" "landed a au s e r" by auto
    from landed_row [OF r(2) folder] r(1) show ?thesis by (intro bexI [of _ r]) (simp_all add: d' db)
  qed
  have s_in: "s \<in> set (sd_scopes d)" using select_one_SomeD [OF s] by simp
  show "page_committed (ca_account_id a)
      \<lparr>cp_cursor = ca_expected_cursor a, cp_version = ca_expected_cursor_version a\<rparr>
      (ca_next_cursor a) (ca_events a) d d'"
    unfolding page_committed_def
  proof (intro conjI ballI)
    show "\<exists>rows auds s. sd_db d' = (sd_db d)\<lparr>inbox := inbox (sd_db d) @ rows, audits := audits (sd_db d) @ auds\<rparr>
          \<and> map i_dedupe_key rows = new_keys (ca_events a) d
          \<and> list_all (\<lambda>r. \<exists>e\<in>set (ca_events a). row_of_event (ca_account_id a) (ca_next_cursor a) e r
               \<and> fresh_row s e r) rows
          \<and> s \<in> set (sd_scopes d)"
      using db keys fresh s_in by (intro exI conjI) (auto simp: d')
  qed (use events baseline_at [OF folder c] at_c at_d' in
      \<open>auto simp: stored_cursor_def stored_version_def advance_cursor_def d'\<close>)
  have "distinct (map pe_dedupe_key ?es)" using commit_events_seen [OF st] by simp
  then have kept: "kept now' (sd_db d) ((sd_db d)\<lparr>inbox := inbox (sd_db d) @ rows\<rparr>)"
    using written_rows_kept [OF assms(4,3) written keys [unfolded new_keys_def]] by blast
  then show "kept now' (sd_db d) (sd_db d')" by (rule kept_cong) (simp_all add: d' db)
  show "cursors_ok d'"
    using effect(4) cursors_ok_baseline [OF assms(2), of ?now a] by (simp add: cursors_ok_def d')
  show "log_grows (sd_db d) (sd_db d')" by (simp add: log_grows_def d' db)
  show "cr_committed_cursor row = ca_next_cursor a"
    "cr_committed_version row = ca_expected_cursor_version a + 1"
    "cr_inserted_count row = int (length (new_keys (ca_events a) d))"
    "cr_inserted_count row + cr_duplicate_count row = int (length (ca_events a))"
    using effect(1,2) n keys [THEN arg_cong [where f = length]] by (simp_all add: row)
qed

end
