(* ===== verification/PageCommitter.thy ===== *)
theory PageCommitter
  imports PageCommit IngressIdentity
begin

text \<open>
  The interface between the poll and the committer: what a committer promises, what the poll
  gains from it, and the proof that the session-bound writer of
  \<^verbatim>\<open>src/ingestion/runtime.py\<close> keeps the promise in every transaction.
\<close>

section \<open>The writer\<close>

lemma page_committed_sorted:
  "page_committed account cp cursor (sort_key pe_dedupe_key es) d d' = page_committed account cp cursor es d d'"
  by (simp add: page_committed_def new_keys_def sort_key_id_if_sorted [OF sorted_sort_key])

lemma commit_page_numbers:
  assumes "greenfield_commit_sync_page pg env a d = Inr (row, d')"
  shows "length (ca_events a) \<le> 500" "0 \<le> ca_expected_cursor_version a"
    "cr_committed_version row \<le> POSTGRES_BIGINT_MAX"
  using assms
  by (auto simp: greenfield_commit_sync_page_def Let_def and_then_Inr commit_input_ok_def
      move_cursor_def split: prod.splits)

definition cursor_text_ok :: "pystr \<Rightarrow> bool" where
  "cursor_text_ok c = (c \<noteq> [] \<and> c = strip c \<and> length c \<le> 8192)"

lemma PollingCursorCheckpoint_Some:
  "PollingCursorCheckpoint (Some c) v = Inr p \<Longrightarrow> cursor_text_ok c"
  by (auto simp: PollingCursorCheckpoint_def and_then_Inr cursor_text_ok_def)

lemma PollingCursorCheckpoint_ok:
  "cursor_text_ok c \<Longrightarrow> 0 \<le> v \<Longrightarrow> v \<le> POSTGRES_BIGINT_MAX \<Longrightarrow>
     PollingCursorCheckpoint (Some c) v = Inr \<lparr>cp_cursor = Some c, cp_version = v\<rparr>"
  by (simp add: PollingCursorCheckpoint_def cursor_text_ok_def)

text \<open>What the writer needs of the store and how a commit moves it.\<close>

definition store_ready :: "time \<Rightarrow> env \<Rightarrow> time \<Rightarrow> sync_db \<Rightarrow> bool" where
  "store_ready now env now' d \<longleftrightarrow>
     cursors_ok d \<and> page_env_ok now env now' (sd_db d) \<and> store_ok now (sd_db d)"

definition store_moves :: "time \<Rightarrow> sync_db \<Rightarrow> sync_db \<Rightarrow> bool" where
  "store_moves now' d d' \<longleftrightarrow>
     kept now' (sd_db d) (sd_db d') \<and> cursors_ok d' \<and> log_grows (sd_db d) (sd_db d')"

definition inbox_event :: "int \<Rightarrow> pystr \<Rightarrow> ingress_event \<Rightarrow> bool" where
  "inbox_event account cursor e \<longleftrightarrow> ev_account_id e = account \<and> ev_folder e = lit ''INBOX''
     \<and> event_cursor e = Some (JStr cursor)"

text \<open>A whole page was committed: exactly these events, from exactly this checkpoint.\<close>

definition exactly_committed ::
  "int \<Rightarrow> checkpoint \<Rightarrow> pystr \<Rightarrow> ingress_event list \<Rightarrow> bool \<Rightarrow> sync_db \<Rightarrow> sync_db \<Rightarrow> bool" where
  "exactly_committed account cp cursor events activation d d' \<longleftrightarrow>
     activation = (cp_cursor cp = None) \<and> (activation \<longrightarrow> events = [])
     \<and> list_all (inbox_event account cursor) events
     \<and> page_committed account cp cursor (map event_envelope events) d d'"

lemma checkpoint_eta: "\<lparr>cp_cursor = cp_cursor cp, cp_version = cp_version cp\<rparr> = cp"
  by (cases cp) simp

lemma event_envelope_ok_inbox:
  "event_envelope_ok lease cursor e \<Longrightarrow> inbox_event (rl_account_id lease) cursor e"
  by (simp add: event_envelope_ok_def inbox_event_def event_cursor_def)

lemma page_commit_result_Inr:
  assumes "greenfield_commit_sync_page pg env (commit_arguments lease cp cursor es act) d = Inr (row, d')"
    and "store_ready now env now' d" "cursor_text_ok cursor"
  shows "page_commit_result row cp cursor (length es) = Inr row"
proof -
  note contract = commit_page_contract [OF assms(1) assms(2) [unfolded store_ready_def, THEN conjunct1]
      assms(2) [unfolded store_ready_def, THEN conjunct2, THEN conjunct1]
      assms(2) [unfolded store_ready_def, THEN conjunct2, THEN conjunct2]]
  note n = commit_page_numbers [OF assms(1)]
  have "0 \<le> cr_inserted_count row" using contract(7) by simp
  moreover have "0 \<le> cr_duplicate_count row"
    using assms(1) by (auto simp: greenfield_commit_sync_page_def Let_def and_then_Inr split: prod.splits)
  ultimately show ?thesis
    using contract(5,6,8) n assms(3)
    by (simp add: page_commit_result_def PollingPageCommitResult_def PollingCursorCheckpoint_ok
        commit_arguments_def)
qed

lemma writer_commits:
  assumes "writer_commit_page pg env t link lease cp cursor events act d = (res, d')"
    and "store_ready now env now' d"
  shows "d' = d \<and> (\<exists>e. res = Inl e)
      \<or> exactly_committed (rl_account_id lease) cp cursor events act d d' \<and> store_moves now' d d'"
    and "link = Arrives \<Longrightarrow> cursor_text_ok cursor \<Longrightarrow> res = Inl e \<Longrightarrow> d' = d"
proof -
  let ?es = "sort_key pe_dedupe_key (map event_envelope events)"
  let ?a = "commit_arguments lease cp cursor ?es act"
  from assms(1) have cases: "(\<exists>e. res = Inl e) \<and> d' = d
      \<or> act = (cp_cursor cp = None) \<and> \<not> (act \<and> events \<noteq> [])
         \<and> list_all (event_envelope_ok lease cursor) events
         \<and> call_commit pg env link ?a cp d = (res, d')"
    by (auto simp: writer_commit_page_def event_envelopes_def and_then_Inr and_then_def
        split: sum.splits if_splits)
  have committed: "exactly_committed (rl_account_id lease) cp cursor events act d d'"
    "store_moves now' d d'" if "greenfield_commit_sync_page pg env ?a d = Inr (row, d')"
      "act = (cp_cursor cp = None)" "\<not> (act \<and> events \<noteq> [])"
      "list_all (event_envelope_ok lease cursor) events" for row
  proof -
    note contract = commit_page_contract [OF that(1) assms(2) [unfolded store_ready_def, THEN conjunct1]
        assms(2) [unfolded store_ready_def, THEN conjunct2, THEN conjunct1]
        assms(2) [unfolded store_ready_def, THEN conjunct2, THEN conjunct2]]
    have "page_committed (rl_account_id lease) cp cursor (map event_envelope events) d d'"
      using contract(1) by (simp add: commit_arguments_def page_committed_sorted checkpoint_eta)
    moreover have "list_all (inbox_event (rl_account_id lease) cursor) events"
      using that(4) by (rule list.pred_mono_strong) (rule event_envelope_ok_inbox)
    ultimately show "exactly_committed (rl_account_id lease) cp cursor events act d d'"
      using that(2,3) by (auto simp: exactly_committed_def)
    show "store_moves now' d d'" using contract(2,3,4) by (simp add: store_moves_def)
  qed
  show "d' = d \<and> (\<exists>e. res = Inl e)
      \<or> exactly_committed (rl_account_id lease) cp cursor events act d d' \<and> store_moves now' d d'"
    using cases
  proof (elim disjE)
    assume call: "act = (cp_cursor cp = None) \<and> \<not> (act \<and> events \<noteq> [])
         \<and> list_all (event_envelope_ok lease cursor) events
         \<and> call_commit pg env link ?a cp d = (res, d')"
    show ?thesis
    proof (cases "greenfield_commit_sync_page pg env ?a d")
      case (Inl f)
      with call have "d' = d \<and> (\<exists>e. res = Inl e)"
        by (auto simp: call_commit_def split: link.splits bool.splits)
      then show ?thesis ..
    next
      case (Inr p)
      then obtain row d1 where p: "greenfield_commit_sync_page pg env ?a d = Inr (row, d1)"
        by (cases p) auto
      with call have "d' = d1 \<or> d' = d \<and> (\<exists>e. res = Inl e)"
        by (auto simp: call_commit_def split: link.splits bool.splits)
      with committed p call show ?thesis by blast
    qed
  qed simp
  show "d' = d" if "link = Arrives" "cursor_text_ok cursor" "res = Inl e"
    using cases
  proof (elim disjE)
    assume call: "act = (cp_cursor cp = None) \<and> \<not> (act \<and> events \<noteq> [])
         \<and> list_all (event_envelope_ok lease cursor) events
         \<and> call_commit pg env link ?a cp d = (res, d')"
    show ?thesis
    proof (cases "greenfield_commit_sync_page pg env ?a d")
      case (Inr p)
      then obtain row d1 where p: "greenfield_commit_sync_page pg env ?a d = Inr (row, d1)"
        by (cases p) auto
      from page_commit_result_Inr [OF p assms(2) that(2)] call p that
      show ?thesis by (auto simp: call_commit_def commit_arguments_def)
    qed (use call that in \<open>auto simp: call_commit_def\<close>)
  qed simp
qed

section \<open>The committer\<close>

definition session_of :: "int \<Rightarrow> session_state \<Rightarrow> bool" where
  "session_of account s \<longleftrightarrow> (\<forall>lease. ss_lease s = Some lease \<longrightarrow> rl_account_id lease = account)"

lemma heartbeat_account: "heartbeat reply secs lease a r = Some current \<Longrightarrow>
    rl_account_id current = rl_account_id lease"
  by (auto simp: heartbeat_def updated_lease_matches_def split: if_splits option.splits)

lemma session_of_reject [simp]: "session_of account (reject_events n s) = session_of account s"
  by (simp add: session_of_def reject_events_def)

lemma session_of_update [simp]:
  "session_of account (s\<lparr>ss_accepting := b\<rparr>) = session_of account s"
  "session_of account (s\<lparr>ss_accepted_count := n\<rparr>) = session_of account s"
  "session_of account (s\<lparr>ss_lease := Some l\<rparr>) = (rl_account_id l = account)"
  by (simp_all add: session_of_def)

text \<open>A page whose counters do not add up never leaves the writer.\<close>

lemma writer_numbers:
  assumes "writer_commit_page pg env t link lease cp cursor events act d = (Inr r, d')"
  shows "0 \<le> cr_inserted_count r \<and> 0 \<le> cr_duplicate_count r
    \<and> cr_inserted_count r + cr_duplicate_count r = int (length events)"
proof -
  have "page_commit_result row cp n k = Inr r \<Longrightarrow> 0 \<le> cr_inserted_count r \<and> 0 \<le> cr_duplicate_count r
      \<and> cr_inserted_count r + cr_duplicate_count r = int k" for row n k
    by (auto simp: page_commit_result_def PollingPageCommitResult_def and_then_Inr and_then_def
        split: sum.splits if_splits)
  with assms show ?thesis
    by (auto simp: writer_commit_page_def call_commit_def event_envelopes_def and_then_def
        commit_arguments_def split: sum.splits if_splits link.splits bool.splits)
qed

text \<open>
  Either the session refuses before it reaches the writer, or its answer is the writer's for
  the renewed lease.
\<close>

lemma session_commit_cases:
  assumes "session_commit_page pg env t link reply secs cp cursor events act (s, d) = (res, s', d')"
    and "session_of account s"
  obtains (refused) e where "res = Inl e" "d' = d" "session_of account s'"
  | (called) lease where "rl_account_id lease = account" "session_of account s'"
      "writer_commit_page pg env t link lease cp cursor events act d = (res, d')"
proof (cases "ss_lease s")
  case None
  with assms refused show thesis by (auto simp: session_commit_page_def)
next
  case (Some lease)
  with assms(2) have lease: "rl_account_id lease = account" by (simp add: session_of_def)
  show thesis
  proof (cases "\<not> ss_accepting s \<or> \<not> rl_active lease")
    case True
    with assms Some refused show thesis by (auto simp: session_commit_page_def)
  next
    case open_session: False
    show thesis
    proof (cases "heartbeat reply secs lease (ss_accepted_count s) (ss_rejected_count s)")
      case None
      with open_session assms \<open>ss_lease s = Some lease\<close> refused show thesis
        by (auto simp: session_commit_page_def)
    next
      case (Some current)
      note beat = this
      from heartbeat_account [OF beat] lease have current: "rl_account_id current = account" by simp
      show thesis
      proof (cases "renewed_lease_ok s lease current")
        case False
        with open_session assms \<open>ss_lease s = Some lease\<close> beat refused show thesis
          by (auto simp: session_commit_page_def)
      next
        case True
        obtain out d1 where
          out: "writer_commit_page pg env t link current cp cursor events act d = (out, d1)"
          by (cases "writer_commit_page pg env t link current cp cursor events act d")
        show thesis
        proof (cases out)
          case (Inl e)
          with True open_session assms(1) \<open>ss_lease s = Some lease\<close> beat out current show thesis
            by (intro called [of current]) (auto simp: session_commit_page_def Let_def)
        next
          case (Inr r)
          with writer_numbers out have "0 \<le> cr_inserted_count r \<and> 0 \<le> cr_duplicate_count r
            \<and> cr_inserted_count r + cr_duplicate_count r = int (length events)" by blast
          with Inr True open_session assms(1) \<open>ss_lease s = Some lease\<close> beat out current show thesis
            by (intro called [of current]) (auto simp: session_commit_page_def Let_def)
        qed
      qed
    qed
  qed
qed

section \<open>The interface\<close>

lemma boundary_cases:
  assumes "commit_activation_boundary commit cp cursor sd = (res, sd')"
  obtains (refused) e where "res = Inl e" "sd' = sd"
  | (asked) out where "commit cp cursor [] True sd = (out, sd')" "cursor_text_ok cursor"
      "res = and_then out (check_commit cp cursor 0 True)"
proof (cases "cp_cursor cp \<noteq> None")
  case True
  with assms refused show thesis by (auto simp: commit_activation_boundary_def)
next
  case False
  show thesis
  proof (cases "PollingCursorCheckpoint (Some cursor) 0")
    case (Inl e)
    with False assms refused show thesis by (auto simp: commit_activation_boundary_def)
  next
    case (Inr q)
    from PollingCursorCheckpoint_Some [OF Inr] Inr False assms asked show thesis
      by (auto simp: commit_activation_boundary_def split: prod.splits)
  qed
qed

lemma delta_cases:
  assumes "commit_delta commit a folder cp cursor events sd = (res, sd')"
  obtains (refused) e where "res = Inl e" "sd' = sd"
  | (asked) out where "commit cp cursor events False sd = (out, sd')" "cursor_text_ok cursor"
      "res = and_then out (check_commit cp cursor (int (length events)) False)"
proof (cases "cp_cursor cp = None \<or>
    \<not> list_all (\<lambda>e. ev_account_id e = a \<and> ev_folder e = folder) events")
  case True
  with assms refused show thesis by (auto simp: commit_delta_def split: sum.splits if_splits)
next
  case False
  show thesis
  proof (cases "PollingCursorCheckpoint (Some cursor) 0")
    case (Inl e)
    with False assms refused show thesis by (auto simp: commit_delta_def)
  next
    case (Inr q)
    from PollingCursorCheckpoint_Some [OF Inr] Inr False assms asked show thesis
      by (auto simp: commit_delta_def split: prod.splits)
  qed
qed

text \<open>
  What a poll relies on: on a store that is ready, a committer keeps the account of its
  session, and either leaves the store and raises, or commits exactly the page it was given;
  when its reply is not lost, it raises only if it left the store.
\<close>

locale page_committer =
  fixes commit :: committer
    and account :: int
    and ready :: "sync_db \<Rightarrow> bool"
    and moves :: "sync_db \<Rightarrow> sync_db \<Rightarrow> bool"
    and heard :: bool
  assumes exact: "ready d \<Longrightarrow> session_of account s \<Longrightarrow>
      commit cp cursor events act (s, d) = (res, s', d') \<Longrightarrow>
      session_of account s' \<and> (d' = d \<and> (\<exists>e. res = Inl e)
        \<or> exactly_committed account cp cursor events act d d' \<and> moves d d')"
    and certain: "ready d \<Longrightarrow> session_of account s \<Longrightarrow> heard \<Longrightarrow> cursor_text_ok cursor \<Longrightarrow>
      commit cp cursor events act (s, d) = (Inl e, s', d') \<Longrightarrow> d' = d"
    and numbers: "commit cp cursor events act (s, d) = (Inr r, s', d') \<Longrightarrow>
      check_commit cp cursor (int (length events)) False r = Inr ()
        \<and> (events = [] \<longrightarrow> check_commit cp cursor 0 True r = Inr ())"
begin

definition delivered :: "checkpoint \<Rightarrow> fetched \<Rightarrow> sync_db \<Rightarrow> sync_db \<Rightarrow> bool" where
  "delivered cp f d d' \<longleftrightarrow>
     (case f of Boundary cursor \<Rightarrow> exactly_committed account cp cursor [] True d d'
      | Delta cursor events \<Rightarrow> exactly_committed account cp cursor events False d d')"

definition outcome_of :: "fetched \<Rightarrow> poll_outcome" where
  "outcome_of f = (case f of Boundary _ \<Rightarrow> BASELINED | Delta _ _ \<Rightarrow> COMMITTED)"

lemma boundary_exact:
  assumes "commit_activation_boundary commit cp cursor (s, d) = (res, s', d')" "ready d" "session_of account s"
  shows "session_of account s'
    \<and> (d' = d \<and> (\<exists>e. res = Inl e) \<or> exactly_committed account cp cursor [] True d d' \<and> moves d d')
    \<and> (heard \<longrightarrow> (\<exists>e. res = Inl e) \<longrightarrow> d' = d)"
  using assms(1)
proof (cases rule: boundary_cases)
  case (asked out)
  note e = exact [OF assms(2,3) asked(1)]
  from e asked(3) have "d' = d \<and> (\<exists>e. res = Inl e)
      \<or> exactly_committed account cp cursor [] True d d' \<and> moves d d'" by auto
  moreover have "d' = d" if "heard" "\<exists>e. res = Inl e"
  proof (cases out)
    case (Inl e')
    with certain [OF assms(2,3) that(1) asked(2)] asked(1) show ?thesis by blast
  next
    case (Inr r)
    with numbers [of cp cursor "[]" True s d r s' d'] asked that show ?thesis by simp
  qed
  ultimately show ?thesis using e by blast
qed (use assms(3) in auto)

lemma delta_exact:
  assumes "commit_delta commit a folder cp cursor events (s, d) = (res, s', d')" "ready d" "session_of account s"
  shows "session_of account s'
    \<and> (d' = d \<and> (\<exists>e. res = Inl e) \<or> exactly_committed account cp cursor events False d d' \<and> moves d d')
    \<and> (heard \<longrightarrow> (\<exists>e. res = Inl e) \<longrightarrow> d' = d)"
  using assms(1)
proof (cases rule: delta_cases)
  case (asked out)
  note e = exact [OF assms(2,3) asked(1)]
  from e asked(3) have "d' = d \<and> (\<exists>e. res = Inl e)
      \<or> exactly_committed account cp cursor events False d d' \<and> moves d d'" by auto
  moreover have "d' = d" if "heard" "\<exists>e. res = Inl e"
  proof (cases out)
    case (Inl e')
    with certain [OF assms(2,3) that(1) asked(2)] asked(1) show ?thesis by blast
  next
    case (Inr r)
    with numbers [of cp cursor events False s d r s' d'] asked that show ?thesis by simp
  qed
  ultimately show ?thesis using e by blast
qed (use assms(3) in auto)

lemma commit_fetched_exact:
  assumes "commit_fetched commit p cp f (s, d) = (res, s', d')" "ready d" "session_of account s"
  shows "session_of account s'"
    and "d' = d \<and> (\<exists>e. res = Inl e) \<or> delivered cp f d d' \<and> moves d d'"
    and "heard \<Longrightarrow> res = Inl e \<Longrightarrow> d' = d"
    and "res = Inr x \<Longrightarrow> x = outcome_of f"
proof -
  have "session_of account s'
    \<and> (d' = d \<and> (\<exists>e. res = Inl e) \<or> delivered cp f d d' \<and> moves d d')
    \<and> (heard \<longrightarrow> res = Inl e \<longrightarrow> d' = d) \<and> (res = Inr x \<longrightarrow> x = outcome_of f)"
  proof (cases f)
    case (Boundary cursor)
    obtain r where r: "commit_activation_boundary commit cp cursor (s, d) = (r, s', d')"
      and res: "res = and_then r (\<lambda>_. Inr BASELINED)"
      using assms(1) Boundary by (auto simp: commit_fetched_def split: prod.splits)
    note b = boundary_exact [OF r assms(2,3)]
    show ?thesis
      using b by (cases r) (auto simp: res Boundary delivered_def outcome_of_def)
  next
    case (Delta cursor events)
    obtain r where r: "commit_delta commit (pn_account_id p) (fs_canonical_key (pn_scope p)) cp cursor
        events (s, d) = (r, s', d')"
      and res: "res = and_then r (\<lambda>_. Inr COMMITTED)"
      using assms(1) Delta by (auto simp: commit_fetched_def split: prod.splits)
    note b = delta_exact [OF r assms(2,3)]
    show ?thesis
      using b by (cases r) (auto simp: res Delta delivered_def outcome_of_def)
  qed
  then show "session_of account s'"
    and "d' = d \<and> (\<exists>e. res = Inl e) \<or> delivered cp f d d' \<and> moves d d'"
    and "heard \<Longrightarrow> res = Inl e \<Longrightarrow> d' = d" and "res = Inr x \<Longrightarrow> x = outcome_of f" by blast+
qed

lemma sync_once_exact:
  assumes "sync_once sha t client commit p (s, d) = (res, s', d')" "ready d" "session_of account s"
  shows "d' = d \<and> (\<exists>e. res = Inl e)
      \<or> (\<exists>cp f. load_cursor (pn_account_id p) (fs_canonical_key (pn_scope p)) d = Inr cp
           \<and> fetch_for sha t client p cp = Inr f \<and> delivered cp f d d' \<and> moves d d'
           \<and> (\<forall>x. res = Inr x \<longrightarrow> x = outcome_of f))"
    and "heard \<Longrightarrow> res = Inl e \<Longrightarrow> d' = d"
proof -
  from assms(1) have "d' = d \<and> (\<exists>e. res = Inl e)
      \<or> (\<exists>cp f. load_cursor (pn_account_id p) (fs_canonical_key (pn_scope p)) d = Inr cp
           \<and> fetch_for sha t client p cp = Inr f \<and> commit_fetched commit p cp f (s, d) = (res, s', d'))"
    by (auto simp: sync_once_def split: sum.splits)
  then consider "d' = d" "\<exists>e. res = Inl e"
    | cp f where "load_cursor (pn_account_id p) (fs_canonical_key (pn_scope p)) d = Inr cp"
        "fetch_for sha t client p cp = Inr f" "commit_fetched commit p cp f (s, d) = (res, s', d')"
    by blast
  then have "(d' = d \<and> (\<exists>e. res = Inl e)
      \<or> (\<exists>cp f. load_cursor (pn_account_id p) (fs_canonical_key (pn_scope p)) d = Inr cp
           \<and> fetch_for sha t client p cp = Inr f \<and> delivered cp f d d' \<and> moves d d'
           \<and> (\<forall>x. res = Inr x \<longrightarrow> x = outcome_of f))) \<and> (heard \<longrightarrow> res = Inl e \<longrightarrow> d' = d)"
  proof cases
    case (2 cp f)
    note c = commit_fetched_exact [OF 2(3) assms(2,3)]
    from c(2) 2(1,2) c(4) have "d' = d \<and> (\<exists>e. res = Inl e)
      \<or> (\<exists>cp f. load_cursor (pn_account_id p) (fs_canonical_key (pn_scope p)) d = Inr cp
           \<and> fetch_for sha t client p cp = Inr f \<and> delivered cp f d d' \<and> moves d d'
           \<and> (\<forall>x. res = Inr x \<longrightarrow> x = outcome_of f))" by blast
    with c(3) show ?thesis by simp
  qed simp
  then show "d' = d \<and> (\<exists>e. res = Inl e)
      \<or> (\<exists>cp f. load_cursor (pn_account_id p) (fs_canonical_key (pn_scope p)) d = Inr cp
           \<and> fetch_for sha t client p cp = Inr f \<and> delivered cp f d d' \<and> moves d d'
           \<and> (\<forall>x. res = Inr x \<longrightarrow> x = outcome_of f))"
    and "heard \<Longrightarrow> res = Inl e \<Longrightarrow> d' = d"
    by simp_all
qed

end

text \<open>The session-bound writer of the program provides it, in every transaction.\<close>

lemma writer_certain_number:
  assumes "writer_commit_page pg env t link lease cp cursor events act d = (Inr r, d')"
  shows "check_commit cp cursor (int (length events)) False r = Inr ()
    \<and> (events = [] \<longrightarrow> check_commit cp cursor 0 True r = Inr ())"
proof -
  have "page_commit_result row cp cursor k = Inr r \<Longrightarrow> cr_committed_cursor r = cursor
      \<and> cr_committed_version r = cp_version cp + 1" for row k
    by (auto simp: page_commit_result_def split: sum.splits if_splits)
  with assms have "cr_committed_cursor r = cursor \<and> cr_committed_version r = cp_version cp + 1"
    by (auto simp: writer_commit_page_def call_commit_def event_envelopes_def and_then_def
        commit_arguments_def split: sum.splits if_splits link.splits bool.splits)
  with writer_numbers [OF assms] show ?thesis by (auto simp: check_commit_def)
qed

interpretation session: page_committer "session_commit_page pg env t link reply secs" account
    "store_ready now env now'" "store_moves now'" "link = Arrives"
  for pg env t link reply secs account now now'
proof
  fix d s cp cursor events act res s' d'
  assume ready: "store_ready now env now' d" and s: "session_of account s"
    and out: "session_commit_page pg env t link reply secs cp cursor events act (s, d) = (res, s', d')"
  from out s show "session_of account s' \<and> (d' = d \<and> (\<exists>e. res = Inl e)
        \<or> exactly_committed account cp cursor events act d d' \<and> store_moves now' d d')"
  proof (cases rule: session_commit_cases)
    case (called lease)
    from writer_commits(1) [OF called(3) ready] called(1,2) show ?thesis by blast
  qed blast
next
  fix d s cp cursor events act e s' d'
  assume ready: "store_ready now env now' d" and s: "session_of account s" and "link = Arrives"
    and "cursor_text_ok cursor"
    and out: "session_commit_page pg env t link reply secs cp cursor events act (s, d) = (Inl e, s', d')"
  from out s show "d' = d"
  proof (cases rule: session_commit_cases)
    case (called lease)
    from writer_commits(2) [OF called(3) ready \<open>link = Arrives\<close> \<open>cursor_text_ok cursor\<close>]
    show ?thesis by blast
  qed blast
next
  fix cp cursor events act s d r s' d'
  assume out: "session_commit_page pg env t link reply secs cp cursor events act (s, d) = (Inr r, s', d')"
  obtain account where "session_of account s" by (cases "ss_lease s") (auto simp: session_of_def)
  with out show "check_commit cp cursor (int (length events)) False r = Inr ()
        \<and> (events = [] \<longrightarrow> check_commit cp cursor 0 True r = Inr ())"
  proof (cases rule: session_commit_cases)
    case (called lease)
    from writer_certain_number [OF called(3)] show ?thesis .
  qed blast
qed

end
