(* ===== verification/PollingSafety.thy ===== *)
theory PollingSafety
  imports PageCommitter
begin

text \<open>
  Polling is exact: the properties of one poll, and of the poll as a transition system in which
  any number of pollers of an account and every other transaction of the inbox interleave.
\<close>

section \<open>One poll\<close>

lemma committed_cases:
  assumes "fetch_for sha t client p cp = Inr f" "session.delivered account cp f d d'"
  obtains (baseline) page where "fetch_page client p None True = Inr page"
      "session.outcome_of f = BASELINED"
      "exactly_committed account cp (sb_cursor page) [] True d d'"
  | (delta) c page events where "cp_cursor cp = Some c" "fetch_page client p (Some c) False = Inr page"
      "normalize_events sha t p (sb_cursor page) (sb_changes page) = Inr events"
      "session.outcome_of f = COMMITTED"
      "exactly_committed account cp (sb_cursor page) events False d d'"
proof (cases "cp_cursor cp")
  case None
  with assms baseline show thesis
    by (auto simp: fetch_for_def and_then_Inr session.delivered_def session.outcome_of_def)
next
  case (Some c)
  with assms delta show thesis
    by (auto simp: fetch_for_def and_then_Inr session.delivered_def session.outcome_of_def)
qed

text \<open>What a poll that reports an outcome did to the store.\<close>

fun page_stored ::
  "int \<Rightarrow> (pybytes \<Rightarrow> pystr) \<Rightarrow> json_texts \<Rightarrow> page_client \<Rightarrow> polling_ingress \<Rightarrow> poll_outcome
    \<Rightarrow> sync_db \<Rightarrow> sync_db \<Rightarrow> bool" where
  "page_stored account sha t client p BASELINED d d' \<longleftrightarrow>
     stored_cursor account d = None
     \<and> (\<exists>page. fetch_page client p None True = Inr page
          \<and> page_committed account \<lparr>cp_cursor = None, cp_version = stored_version account d\<rparr>
              (sb_cursor page) [] d d')"
| "page_stored account sha t client p COMMITTED d d' \<longleftrightarrow>
     (\<exists>c page events. stored_cursor account d = Some c
        \<and> fetch_page client p (Some c) False = Inr page
        \<and> normalize_events sha t p (sb_cursor page) (sb_changes page) = Inr events
        \<and> page_committed account \<lparr>cp_cursor = Some c, cp_version = stored_version account d\<rparr>
            (sb_cursor page) (map event_envelope events) d d')"

lemma exactly_committed_stored:
  assumes "fetch_for sha t client p cp = Inr f" "session.delivered account cp f d d'"
  shows "page_stored account sha t client p (session.outcome_of f) d d'"
proof -
  have at: "cp = \<lparr>cp_cursor = stored_cursor account d, cp_version = stored_version account d\<rparr>"
    if "exactly_committed account cp cursor events act d d'" for cursor events act
    using that by (cases cp) (simp add: exactly_committed_def page_committed_def)
  show ?thesis
    using assms
  proof (cases rule: committed_cases)
    case (baseline page)
    from at [OF baseline(3)] baseline show ?thesis by (auto simp: exactly_committed_def)
  next
    case (delta c page events)
    from at [OF delta(5)] delta(1) have "cp = \<lparr>cp_cursor = Some c, cp_version = stored_version account d\<rparr>"
      "stored_cursor account d = Some c" by simp_all
    with delta show ?thesis by (auto simp: exactly_committed_def)
  qed
qed

lemma PollingIngress_Inr:
  "PollingIngress account scope snapshot limit = Inr p \<Longrightarrow>
     pn_account_id p = account \<and> fs_canonical_key (pn_scope p) = lit ''INBOX''
     \<and> fs_sync_folder (pn_scope p) = lit ''INBOX''"
  by (auto simp: PollingIngress_def and_then_Inr)


section \<open>Pollers in the world\<close>

text \<open>
  A poller is between two polls, has loaded its checkpoint, or has fetched a page for it; the
  world keeps the pages whose commit moved the cursor, with the cursor they were fetched for.
\<close>

datatype poll_phase = Idle | Loaded checkpoint | Fetched checkpoint sync_batch fetched

record poller =
  po_config :: polling_ingress
  po_session :: session_state
  po_phase :: poll_phase

record poll_world =
  pw_now :: time
  pw_db :: sync_db
  pw_pollers :: "nat \<Rightarrow> poller"
  pw_pages :: "(pystr option \<times> sync_batch) list"

definition record_page ::
  "int \<Rightarrow> checkpoint \<Rightarrow> sync_batch \<Rightarrow> sync_db \<Rightarrow> sync_db \<Rightarrow> (pystr option \<times> sync_batch) list
    \<Rightarrow> (pystr option \<times> sync_batch) list" where
  "record_page account cp page d d' pages =
     (if stored_version account d' = stored_version account d then pages
      else pages @ [(cp_cursor cp, page)])"

text \<open>
  \<open>work\<close> is any transaction of the inbox, \<open>elsewhere\<close> a change of the tables the commit only
  reads; a poller starts (again) at any moment, whatever it was doing, and its session is
  replaced or closed by its owner; the halves of a poll are steps of their own, and the client,
  the clocks, the heartbeat and the database link answer anything.
\<close>

inductive poll_step :: "(pybytes \<Rightarrow> pystr) \<Rightarrow> json_texts \<Rightarrow> int \<Rightarrow> poll_world \<Rightarrow> poll_world \<Rightarrow> bool"
  for sha t account where
  work: "inbox_step (pw_now w, sd_db (pw_db w)) (now', db') \<Longrightarrow>
    poll_step sha t account w (w\<lparr>pw_now := now', pw_db := (pw_db w)\<lparr>sd_db := db'\<rparr>\<rparr>)"
| elsewhere: "poll_step sha t account w (w\<lparr>pw_db := (pw_db w)\<lparr>sd_authorities := aus,
    sd_instances := ins, sd_scopes := scs\<rparr>\<rparr>)"
| start: "PollingIngress account scope snapshot limit = Inr p \<Longrightarrow> session_of account s \<Longrightarrow>
    poll_step sha t account w (w\<lparr>pw_pollers := (pw_pollers w)
      (i := \<lparr>po_config = p, po_session = s, po_phase = Idle\<rparr>)\<rparr>)"
| session: "session_of account s \<Longrightarrow>
    poll_step sha t account w (w\<lparr>pw_pollers := (pw_pollers w)(i := (pw_pollers w i)\<lparr>po_session := s\<rparr>)\<rparr>)"
| load: "load_cursor (pn_account_id (po_config (pw_pollers w i)))
      (fs_canonical_key (pn_scope (po_config (pw_pollers w i)))) (pw_db w) = Inr cp \<Longrightarrow>
    poll_step sha t account w
      (w\<lparr>pw_pollers := (pw_pollers w)(i := (pw_pollers w i)\<lparr>po_phase := Loaded cp\<rparr>)\<rparr>)"
| fetch: "po_phase (pw_pollers w i) = Loaded cp \<Longrightarrow> p = po_config (pw_pollers w i) \<Longrightarrow>
    fetch_page client p (cp_cursor cp) (cp_cursor cp = None) = Inr page \<Longrightarrow>
    fetch_for sha t client p cp = Inr f \<Longrightarrow>
    poll_step sha t account w
      (w\<lparr>pw_pollers := (pw_pollers w)(i := (pw_pollers w i)\<lparr>po_phase := Fetched cp page f\<rparr>)\<rparr>)"
| commit: "po_phase (pw_pollers w i) = Fetched cp page f \<Longrightarrow> p = po_config (pw_pollers w i) \<Longrightarrow>
    page_env_ok (pw_now w) env now' (sd_db (pw_db w)) \<Longrightarrow>
    commit_fetched (session_commit_page pg env clock link reply secs) p cp f
      (po_session (pw_pollers w i), pw_db w) = (res, s', d') \<Longrightarrow>
    poll_step sha t account w
      \<lparr>pw_now = now', pw_db = d',
       pw_pollers = (pw_pollers w)(i := \<lparr>po_config = p, po_session = s', po_phase = Idle\<rparr>),
       pw_pages = record_page account cp page (pw_db w) d' (pw_pages w)\<rparr>"

definition poll_start :: "int \<Rightarrow> poll_world \<Rightarrow> bool" where
  "poll_start account w \<longleftrightarrow> inbox_start (pw_now w, sd_db (pw_db w)) \<and> sd_cursors (pw_db w) = []
     \<and> pw_pages w = [] \<and> (\<forall>i. po_phase (pw_pollers w i) = Idle
          \<and> pn_account_id (po_config (pw_pollers w i)) = account
          \<and> session_of account (po_session (pw_pollers w i)))"

section \<open>What every step keeps\<close>

text \<open>The pages follow each other from the start to the stored cursor.\<close>

fun page_chain :: "pystr option \<Rightarrow> (pystr option \<times> sync_batch) list \<Rightarrow> pystr option \<Rightarrow> bool" where
  "page_chain c [] e = (c = e)"
| "page_chain c ((from, page) # pages) e = (from = c \<and> page_chain (Some (sb_cursor page)) pages e)"

lemma page_chain_snoc: "page_chain c pages e \<Longrightarrow> page_chain c (pages @ [(e, page)]) (Some (sb_cursor page))"
  by (induction pages arbitrary: c) auto

text \<open>The row of a change of a page, up to what the inbox does with it afterwards.\<close>

definition stored_change ::
  "(pybytes \<Rightarrow> pystr) \<Rightarrow> json_texts \<Rightarrow> int \<Rightarrow> pystr \<Rightarrow> sync_change \<Rightarrow> inbox_row \<Rightarrow> bool" where
  "stored_change sha t account cursor c r \<longleftrightarrow>
     i_dedupe_key r = sha (utf8 (identity_text t account (ch_kind c) (ch_external_email_id c)
       (lit ''INBOX'') (ch_source_version c) cursor))
     \<and> i_account_id r = account \<and> i_folder_key r = lit ''INBOX'' \<and> i_source r = SYNC
     \<and> i_change_kind r = ch_kind c \<and> i_external_email_id r = ch_external_email_id c
     \<and> i_source_version r = ch_source_version c
     \<and> json_get (i_payload r) (lit ''cursor'') = Some (JStr cursor)"

definition page_kept ::
  "(pybytes \<Rightarrow> pystr) \<Rightarrow> json_texts \<Rightarrow> int \<Rightarrow> db \<Rightarrow> pystr option \<times> sync_batch \<Rightarrow> bool" where
  "page_kept sha t account d = (\<lambda>(from, page). from = None
     \<or> list_all (\<lambda>c. \<exists>r\<in>set (inbox d). stored_change sha t account (sb_cursor page) c r) (sb_changes page))"

definition phase_ok ::
  "(pybytes \<Rightarrow> pystr) \<Rightarrow> json_texts \<Rightarrow> polling_ingress \<Rightarrow> poll_phase \<Rightarrow> bool" where
  "phase_ok sha t p ph \<longleftrightarrow> (case ph of
       Fetched cp page f \<Rightarrow> (case f of
           Boundary cursor \<Rightarrow> cp_cursor cp = None \<and> cursor = sb_cursor page
         | Delta cursor events \<Rightarrow> cp_cursor cp \<noteq> None \<and> cursor = sb_cursor page
             \<and> normalize_events sha t p cursor (sb_changes page) = Inr events)
     | _ \<Rightarrow> True)"

definition poller_ok :: "(pybytes \<Rightarrow> pystr) \<Rightarrow> json_texts \<Rightarrow> int \<Rightarrow> poller \<Rightarrow> bool" where
  "poller_ok sha t account x \<longleftrightarrow> pn_account_id (po_config x) = account
     \<and> session_of account (po_session x) \<and> phase_ok sha t (po_config x) (po_phase x)"

definition world_ok :: "(pybytes \<Rightarrow> pystr) \<Rightarrow> json_texts \<Rightarrow> int \<Rightarrow> poll_world \<Rightarrow> bool" where
  "world_ok sha t account w \<longleftrightarrow>
     store_ok (pw_now w) (sd_db (pw_db w)) \<and> cursors_ok (pw_db w)
     \<and> page_chain None (pw_pages w) (stored_cursor account (pw_db w))
     \<and> stored_version account (pw_db w) = int (length (pw_pages w))
     \<and> list_all (page_kept sha t account (sd_db (pw_db w))) (pw_pages w)
     \<and> (\<forall>i. poller_ok sha t account (pw_pollers w i))"

lemma stored_change_identity:
  "stored_change sha t account cursor c r \<Longrightarrow> inbox_identity r s \<Longrightarrow> stored_change sha t account cursor c s"
  by (simp add: stored_change_def inbox_identity_def)

lemma kept_row:
  assumes "kept now' d d'" "r \<in> set (inbox d)"
  shows "\<exists>s\<in>set (inbox d'). inbox_identity r s"
proof -
  have "rows_step inbox_move (inbox d) (inbox d')"
    using assms(1) unfolding kept_def guarded_def by (elim conjE)
  from rows_step_in [OF this assms(2)] obtain s where s: "s \<in> set (inbox d')" "inbox_move r s" by (rule bexE)
  from inbox_growsD(1) [OF inbox_move_grows [OF s(2)]] s(1) show ?thesis by (rule bexI)
qed

lemma page_kept_kept:
  assumes "page_kept sha t account d x" "kept now' d d'"
  shows "page_kept sha t account d' x"
proof -
  obtain from_cursor page where x: "x = (from_cursor, page)" by (rule prod.exhaust)
  have "\<exists>s\<in>set (inbox d'). stored_change sha t account cursor c s"
    if "\<exists>r\<in>set (inbox d). stored_change sha t account cursor c r" for cursor c
    using that kept_row [OF assms(2)] stored_change_identity by blast
  then show ?thesis
    using assms(1) unfolding x page_kept_def list_all_iff prod.case by blast
qed

text \<open>A change that was normalized and committed has its row.\<close>

lemma normalize_events_all:
  "normalize_events sha t p cursor cs = Inr es \<Longrightarrow> c \<in> set cs \<Longrightarrow>
     \<exists>e\<in>set es. normalize_change sha t p cursor c = Inr e"
  by (induction cs arbitrary: es) (auto simp: and_then_Inr)

lemma normalized_change:
  assumes "normalize_change sha t p cursor c = Inr e" "inbox_event (pn_account_id p) cursor e"
    and "row_of_event (pn_account_id p) cursor (event_envelope e) r"
  shows "stored_change sha t (pn_account_id p) cursor c r"
proof -
  from assms(1) obtain policy where n: "normalize_sync_change sha t (pn_account_id p)
      (fs_canonical_key (pn_scope p)) cursor (TypedChange c) policy = Inr e"
    by (auto simp: normalize_change_def split: sum.splits)
  from n obtain c' where c': "validate_sync_change_contract t (TypedChange c) = Inr c'"
    and e: "e = polled_event sha t (pn_account_id p) (canonical_name (strip (fs_canonical_key (pn_scope p))))
        cursor c' policy" by (rule normalized_event)
  note same = contract_typed [OF c']
  from assms(2) have folder: "canonical_name (strip (fs_canonical_key (pn_scope p))) = lit ''INBOX''"
    by (simp add: inbox_event_def e polled_event_def)
  have key: "ev_dedupe_key e = sha (utf8 (identity_text t (pn_account_id p) (ch_kind c)
      (ch_external_email_id c) (lit ''INBOX'') (ch_source_version c) cursor))"
    and kind: "ev_kind e = ch_kind c" "ev_external_email_id e = ch_external_email_id c"
      "ev_source_version e = ch_source_version c"
    by (simp_all add: e polled_event_def same folder)
  show ?thesis
    using assms(3)
    by (simp add: stored_change_def row_of_event_def event_envelope_def key kind)
qed

lemma committed_page_kept:
  assumes "exactly_committed (pn_account_id p) cp cursor events False d d'"
    and "normalize_events sha t p cursor (sb_changes page) = Inr events" "cursor = sb_cursor page"
  shows "page_kept sha t (pn_account_id p) (sd_db d') (from, page)"
proof -
  have "\<exists>r\<in>set (inbox (sd_db d')). stored_change sha t (pn_account_id p) cursor c r"
    if "c \<in> set (sb_changes page)" for c
  proof -
    from normalize_events_all [OF assms(2) that] obtain e where e: "e \<in> set events"
      "normalize_change sha t p cursor c = Inr e" by blast
    from assms(1) e(1) obtain r where "r \<in> set (inbox (sd_db d'))"
      "row_of_event (pn_account_id p) cursor (event_envelope e) r"
      by (auto simp: exactly_committed_def page_committed_def)
    moreover from assms(1) e(1) have "inbox_event (pn_account_id p) cursor e"
      by (auto simp: exactly_committed_def list_all_iff)
    ultimately show ?thesis using normalized_change [OF e(2)] by blast
  qed
  with assms(3) show ?thesis by (auto simp: page_kept_def list_all_iff)
qed

text \<open>Steps that leave the cursor, or the store, or the pollers.\<close>

lemma stored_cong:
  "sd_cursors d' = sd_cursors d \<Longrightarrow> stored_cursor account d' = stored_cursor account d"
  "sd_cursors d' = sd_cursors d \<Longrightarrow> stored_version account d' = stored_version account d"
  "sd_cursors d' = sd_cursors d \<Longrightarrow> cursors_ok d' = cursors_ok d"
  by (simp_all add: stored_cursor_def stored_version_def cursor_at_def cursors_ok_def)

lemma world_pollers:
  "world_ok sha t account w \<Longrightarrow> poller_ok sha t account x \<Longrightarrow>
     world_ok sha t account (w\<lparr>pw_pollers := (pw_pollers w)(i := x)\<rparr>)"
  by (simp add: world_ok_def)

lemma world_poller: "world_ok sha t account w \<Longrightarrow> poller_ok sha t account (pw_pollers w i)"
  by (simp add: world_ok_def)

lemma world_store:
  assumes "world_ok sha t account w" "kept now' (sd_db (pw_db w)) (sd_db d')" "cursors_ok d'"
    "page_chain None pages (stored_cursor account d')" "stored_version account d' = int (length pages)"
    "list_all (page_kept sha t account (sd_db d')) pages" "\<forall>i. poller_ok sha t account (ps i)"
  shows "world_ok sha t account \<lparr>pw_now = now', pw_db = d', pw_pollers = ps, pw_pages = pages\<rparr>"
  using assms(2-) by (simp add: world_ok_def kept_def)

lemma pages_kept:
  assumes "world_ok sha t account w" "kept now' (sd_db (pw_db w)) db'"
  shows "list_all (page_kept sha t account db') (pw_pages w)"
proof -
  have "list_all (page_kept sha t account (sd_db (pw_db w))) (pw_pages w)"
    using assms(1) by (simp add: world_ok_def)
  then show ?thesis by (rule list.pred_mono_strong) (rule page_kept_kept [OF _ assms(2)])
qed

lemma work_keeps:
  assumes "world_ok sha t account w" "inbox_step (pw_now w, sd_db (pw_db w)) (now', db')"
  shows "world_ok sha t account (w\<lparr>pw_now := now', pw_db := (pw_db w)\<lparr>sd_db := db'\<rparr>\<rparr>)"
proof -
  let ?d = "(pw_db w)\<lparr>sd_db := db'\<rparr>"
  have kept: "kept now' (sd_db (pw_db w)) db'"
    using inbox_step_kept [OF assms(2)] assms(1) by (simp add: state_ok_def world_ok_def)
  have same: "sd_cursors ?d = sd_cursors (pw_db w)" by simp
  show ?thesis
    using assms(1) kept pages_kept [OF assms(1) kept] stored_cong [OF same]
    by (simp add: world_ok_def kept_def)
qed

lemma fetched_phase:
  assumes "fetch_page client p (cp_cursor cp) (cp_cursor cp = None) = Inr page"
    "fetch_for sha t client p cp = Inr f"
  shows "phase_ok sha t p (Fetched cp page f)"
  using assms by (cases "cp_cursor cp") (auto simp: fetch_for_def phase_ok_def and_then_Inr)

lemma commit_keeps:
  assumes "world_ok sha t account w"
    and phase: "po_phase (pw_pollers w i) = Fetched cp page f" and p: "p = po_config (pw_pollers w i)"
    and env: "page_env_ok (pw_now w) env now' (sd_db (pw_db w))"
    and out: "commit_fetched (session_commit_page pg env clock link reply secs) p cp f
      (po_session (pw_pollers w i), pw_db w) = (res, s', d')"
  shows "world_ok sha t account \<lparr>pw_now = now', pw_db = d',
       pw_pollers = (pw_pollers w)(i := \<lparr>po_config = p, po_session = s', po_phase = Idle\<rparr>),
       pw_pages = record_page account cp page (pw_db w) d' (pw_pages w)\<rparr>"
proof -
  let ?d = "pw_db w"
  have store: "store_ok (pw_now w) (sd_db ?d)" "cursors_ok ?d" using assms(1) by (simp_all add: world_ok_def)
  with env have ready: "store_ready (pw_now w) env now' ?d" by (simp add: store_ready_def)
  note poller = world_poller [OF assms(1), of i]
  then have account: "pn_account_id p = account" and s: "session_of account (po_session (pw_pollers w i))"
    and fetched: "phase_ok sha t p (Fetched cp page f)" by (simp_all add: poller_ok_def p phase [symmetric])
  note c = session.commit_fetched_exact [OF out ready s]
  have pollers: "\<forall>j. poller_ok sha t account (((pw_pollers w)
      (i := \<lparr>po_config = p, po_session = s', po_phase = Idle\<rparr>)) j)"
    using world_poller [OF assms(1)] c(1) account by (simp add: poller_ok_def phase_ok_def)
  from c(2) show ?thesis
  proof (elim disjE conjE)
    assume same: "d' = ?d"
    have kept: "kept now' (sd_db ?d) (sd_db d')"
      unfolding same using store(1) env by (intro kept_refl) (auto simp: page_env_ok_def env_ok_def)
    have pages: "record_page account cp page ?d ?d (pw_pages w) = pw_pages w"
      by (simp add: record_page_def)
    show ?thesis
      by (rule world_store [OF assms(1) kept _ _ _ _ pollers])
        (use assms(1) in \<open>simp_all add: pages same world_ok_def\<close>)
  next
    assume delivered: "session.delivered account cp f ?d d'" and "store_moves now' ?d d'"
    then have kept: "kept now' (sd_db ?d) (sd_db d')" and cursors: "cursors_ok d'"
      by (simp_all add: store_moves_def)
    obtain events act where e: "exactly_committed account cp (sb_cursor page) events act ?d d'"
      and kept_page: "page_kept sha t account (sd_db d') (cp_cursor cp, page)"
    proof (cases f)
      case (Boundary cursor)
      with delivered fetched that [of "[]" True] show thesis
        by (simp add: session.delivered_def phase_ok_def page_kept_def)
    next
      case (Delta cursor events)
      with delivered fetched have d: "exactly_committed account cp cursor events False ?d d'"
        "normalize_events sha t p cursor (sb_changes page) = Inr events" "cursor = sb_cursor page"
        by (auto simp: session.delivered_def phase_ok_def)
      with that [of events False] committed_page_kept [OF d(1) [folded account] d(2,3)] account
      show thesis by simp
    qed
    have at: "stored_cursor account ?d = cp_cursor cp" "stored_version account ?d = cp_version cp"
      "stored_cursor account d' = Some (sb_cursor page)" "stored_version account d' = cp_version cp + 1"
      using e by (simp_all add: exactly_committed_def page_committed_def)
    have chain: "page_chain None (pw_pages w) (cp_cursor cp)"
      "cp_version cp = int (length (pw_pages w))"
      using assms(1) at by (simp_all add: world_ok_def)
    have pages: "record_page account cp page ?d d' (pw_pages w) = pw_pages w @ [(cp_cursor cp, page)]"
      by (simp add: record_page_def at)
    show ?thesis
      by (rule world_store [OF assms(1) kept cursors _ _ _ pollers])
        (use pages_kept [OF assms(1) kept] kept_page page_chain_snoc [OF chain(1)] in
          \<open>simp_all add: pages at chain(2)\<close>)
  qed
qed

interpretation poll_machine: invariant_system "poll_start account" "poll_step sha t account"
    "world_ok sha t account" for sha t account
proof
  show "world_ok sha t account w" if "poll_start account w" for w
    using that by (simp add: poll_start_def inbox_start_def world_ok_def store_ok_def cursors_ok_def
        stored_cursor_def stored_version_def cursor_at_def poller_ok_def phase_ok_def)
  show "world_ok sha t account v" if "world_ok sha t account w" "poll_step sha t account w v" for w v
    using that(2,1)
  proof cases
    case (work now' db')
    with that(1) show ?thesis using work_keeps by blast
  next
    case (elsewhere aus ins scs)
    then show ?thesis using that(1) stored_cong [of "pw_db v" "pw_db w"] by (simp add: world_ok_def)
  next
    case (start scope snapshot limit p s i)
    with that(1) show ?thesis
      by (auto intro!: world_pollers simp: poller_ok_def phase_ok_def dest: PollingIngress_Inr)
  next
    case (session s i)
    with that(1) world_poller [OF that(1)] show ?thesis
      by (auto intro!: world_pollers simp: poller_ok_def)
  next
    case (load i cp)
    with that(1) world_poller [OF that(1)] show ?thesis
      by (auto intro!: world_pollers simp: poller_ok_def phase_ok_def)
  next
    case (fetch i cp p client page f)
    with that(1) world_poller [OF that(1)] fetched_phase show ?thesis
      by (auto intro!: world_pollers simp: poller_ok_def)
  next
    case (commit i cp page f p env now' pg clock link reply secs res s' d')
    with commit_keeps [OF that(1)] show ?thesis by blast
  qed
qed

lemma stored_change_unique:
  assumes "store_ok now d" "r \<in> set (inbox d)" "s \<in> set (inbox d)"
    "stored_change sha t account cursor c r" "stored_change sha t account cursor c s"
  shows "r = s"
proof -
  have "distinct (map i_dedupe_key (inbox d))" using assms(1) by (simp add: store_ok_def)
  from distinct_key_unique [OF this assms(2,3)] assms(4,5) show ?thesis by (simp add: stored_change_def)
qed

text \<open>
  C14. Polling loses nothing and repeats nothing. Whatever the pollers of an account, their
  crashes, lost replies, changed sessions, concurrent polls and all other transactions of the
  inbox do, in any interleaving: the pages whose commit moved the cursor form a chain without a
  gap from the first baseline to the stored cursor, the stored version counts them, and every
  change of every page fetched for a cursor has exactly one row in the inbox, under the key of
  its delivery.
\<close>

theorem polling_loses_nothing:
  assumes "poll_start account w" "run (poll_step sha t account) w v"
  shows "page_chain None (pw_pages v) (stored_cursor account (pw_db v))
    \<and> stored_version account (pw_db v) = int (length (pw_pages v))
    \<and> list_all (\<lambda>(from, page). from = None \<or> list_all (\<lambda>c. \<exists>!r. r \<in> set (inbox (sd_db (pw_db v)))
           \<and> stored_change sha t account (sb_cursor page) c r) (sb_changes page)) (pw_pages v)"
proof -
  have ok: "world_ok sha t account v" by (rule poll_machine.reachable_invar [OF assms])
  then have kept: "list_all (page_kept sha t account (sd_db (pw_db v))) (pw_pages v)"
    and store: "store_ok (pw_now v) (sd_db (pw_db v))" by (simp_all add: world_ok_def)
  have once: "\<exists>!r. r \<in> set (inbox (sd_db (pw_db v))) \<and> stored_change sha t account cursor c r"
    if "\<exists>r\<in>set (inbox (sd_db (pw_db v))). stored_change sha t account cursor c r" for cursor c
    using that stored_change_unique [OF store] by blast
  from kept have "list_all (\<lambda>(from, page). from = None \<or> list_all (\<lambda>c. \<exists>!r. r \<in> set (inbox (sd_db (pw_db v)))
           \<and> stored_change sha t account (sb_cursor page) c r) (sb_changes page)) (pw_pages v)"
  proof (rule list.pred_mono_strong)
    fix x :: "pystr option \<times> sync_batch"
    assume "page_kept sha t account (sd_db (pw_db v)) x"
    then show "case x of (from, page) \<Rightarrow> from = None
        \<or> list_all (\<lambda>c. \<exists>!r. r \<in> set (inbox (sd_db (pw_db v)))
             \<and> stored_change sha t account (sb_cursor page) c r) (sb_changes page)"
      unfolding page_kept_def list_all_iff using once by (cases x) (simp only: prod.case, blast)
  qed
  with ok show ?thesis by (simp add: world_ok_def)
qed

end
