(* ===== verification/PollingScenario.thy ===== *)
theory PollingScenario
  imports PollingSafety "HOL-Library.Code_Target_Nat"
begin

text \<open>
  Two polls of one account, evaluated: the first takes the cursor of an empty baseline, the
  second stores a page with one new mail. The properties of the polling theories are
  instantiated along this run. The hash is constant, a uuid of the database a pair of code
  points, and transaction \<open>n\<close> runs at one instant.
\<close>

definition poll_env :: "nat \<Rightarrow> time \<Rightarrow> env" where
  "poll_env n now = \<lparr>sha256 = (\<lambda>b. b), clk = (\<lambda>k. now), uuid4 = (\<lambda>k. [n, 65 + k]),
     isoformat = dec_int, texts = \<lparr>python_float = (\<lambda>q. [48]), postgres_float = (\<lambda>q. [48])\<rparr>,
     inbox_locked = (\<lambda>i. False), email_locked = (\<lambda>i. False), runtime_columns = None\<rparr>"

definition poll_texts :: json_texts where
  "poll_texts = \<lparr>python_float = (\<lambda>q. [48]), postgres_float = (\<lambda>q. [48])\<rparr>"

definition poll_sha :: "pybytes \<Rightarrow> pystr" where "poll_sha b = replicate 64 97"

definition poll_pg :: pg_text where
  "poll_pg = \<lparr>pg_space = (\<lambda>c. c = 32), pg_cntrl = (\<lambda>c. c < 32)\<rparr>"

definition poll_session_id :: uuid where
  "poll_session_id = lit ''00000000-0000-4000-8000-000000000000''"

definition new_mail :: sync_change where
  "new_mail = \<lparr>ch_kind = CREATE, ch_external_email_id = lit ''m1'', ch_item = Some (JObj []),
     ch_source_version = None\<rparr>"

definition first_page :: sync_batch where
  "first_page = \<lparr>sb_contract_version = lit ''exchange_sync_contract_v2'', sb_cursor = lit ''c1'',
     sb_changes = [], sb_includes_last = True\<rparr>"

definition second_page :: sync_batch where
  "second_page = first_page\<lparr>sb_cursor := lit ''c2'', sb_changes := [new_mail]\<rparr>"

definition poll_client :: page_client where
  "poll_client account folder cursor limit discard =
     Inr (if cursor = None then first_page else second_page)"

definition poll_config :: polling_ingress where
  "poll_config = \<lparr>pn_account_id = 7, pn_scope = sample_scope, pn_snapshot = sample_snapshot,
     pn_page_limit = 100\<rparr>"

definition poll_lease :: "int \<Rightarrow> runtime_lease" where
  "poll_lease v = \<lparr>rl_account_id = 7, rl_instance_id = lit ''w1'', rl_session_id = poll_session_id,
     rl_generation = 1, rl_fencing_token = 1, rl_authority_epoch = 1,
     rl_capability_hash = replicate 64 98, rl_schema_revision = lit ''polling-v1'',
     rl_protocol_version = 1, rl_build_id = lit ''b1'', rl_config_hash = replicate 64 99,
     rl_active = True, rl_lease_version = v, rl_accepted_count = 0, rl_rejected_count = 0,
     rl_heartbeat_at = seconds v, rl_lease_until = seconds v + seconds 60\<rparr>"

definition poll_session :: "int \<Rightarrow> session_state" where
  "poll_session v = \<lparr>ss_lease = Some (poll_lease v), ss_accepting = True, ss_accepted_count = 0,
     ss_rejected_count = 0\<rparr>"

definition poll_instance :: "int \<Rightarrow> instance_row" where
  "poll_instance v = \<lparr>r_session_id = poll_session_id, r_account_id = 7, r_generation = 1,
     r_fencing_token = 1, r_authority_epoch = 1, r_capability_hash = replicate 64 98,
     r_instance_id = lit ''w1'', r_workload = lit ''web'', r_lifecycle = lit ''active'',
     r_lease_until = seconds v + seconds 60, ri_lease_version = v\<rparr>"

definition poll_store :: sync_db where
  "poll_store = \<lparr>sd_db = \<lparr>inbox = [], emails = [], ownership = [], runtimes = [], audits = [],
       intake_decisions = [], intake_releases = []\<rparr>,
     sd_authorities = [\<lparr>pa_account_id = 7, pa_state = lit ''ingest_only'',
       pa_capability_stage_ordinal = 1, pa_schema_revision = lit ''polling-v1'', pa_generation = 1,
       pa_fencing_token = 1, pa_pipeline_name = GREENFIELD_PIPELINE_NAME, pa_authority_epoch = 1,
       pa_capability_hash = replicate 64 98, pa_initialization_id = lit ''i1''\<rparr>],
     sd_instances = [poll_instance 2],
     sd_scopes = [\<lparr>sc_account_id = 7, sc_initialization_id = lit ''i1'',
       sc_canonical_key = lit ''INBOX'', sc_sync_folder = lit ''INBOX'',
       sc_matrix = [(lit ''sync:create:create'', lit ''full'')]\<rparr>],
     sd_cursors = []\<rparr>"

definition first_commit :: "session_state \<times> sync_db \<Rightarrow> (poll_error + poll_outcome) \<times> session_state \<times> sync_db" where
  "first_commit = commit_fetched (session_commit_page poll_pg (poll_env 1 (seconds 10)) (seconds 9)
     Arrives (Some (poll_lease 2)) 60) poll_config \<lparr>cp_cursor = None, cp_version = 0\<rparr> (Boundary (lit ''c1''))"

lemma first_committed: "fst (first_commit (poll_session 1, poll_store)) = Inr BASELINED"
  by code_simp

definition new_event :: ingress_event where
  "new_event = polled_event poll_sha poll_texts 7 (lit ''INBOX'') (lit ''c2'') new_mail FULL"

lemma new_normalized:
  "normalize_sync_change poll_sha poll_texts 7 (lit ''INBOX'') (lit ''c2'') (TypedChange new_mail) FULL
     = Inr new_event"
  by code_simp

definition baseline_store :: sync_db where
  "baseline_store = poll_store\<lparr>sd_instances := [poll_instance 3], sd_cursors :=
     [advance_cursor (seconds 10)
        (commit_arguments (poll_lease 2) \<lparr>cp_cursor = None, cp_version = 0\<rparr> (lit ''c1'') [] True)
        (baseline_cursor (seconds 10)
          (commit_arguments (poll_lease 2) \<lparr>cp_cursor = None, cp_version = 0\<rparr> (lit ''c1'') [] True))]\<rparr>"

lemma first_result:
  "first_commit (poll_session 1, poll_store)
     = (Inr BASELINED, poll_session 2, baseline_store\<lparr>sd_instances := [poll_instance 2]\<rparr>)"
  by code_simp

definition second_commit :: "session_state \<times> sync_db \<Rightarrow> (poll_error + poll_outcome) \<times> session_state \<times> sync_db" where
  "second_commit = commit_fetched (session_commit_page poll_pg (poll_env 2 (seconds 20)) (seconds 19)
     Arrives (Some (poll_lease 3)) 60) poll_config \<lparr>cp_cursor = Some (lit ''c1''), cp_version = 1\<rparr>
     (Delta (lit ''c2'') [new_event])"

definition new_row :: inbox_row where
  "new_row = page_row (poll_env 2 (seconds 20)) 0
     (commit_arguments (poll_lease 3) \<lparr>cp_cursor = Some (lit ''c1''), cp_version = 1\<rparr> (lit ''c2'')
       [event_envelope new_event] False)
     (hd (sd_authorities poll_store)) (event_envelope new_event) CREATE FULL"

definition final_store :: sync_db where
  "final_store = baseline_store\<lparr>
     sd_db := (sd_db baseline_store)\<lparr>inbox := [new_row], audits := [page_audit (poll_env 2 (seconds 20)) 0 new_row]\<rparr>,
     sd_cursors := map (advance_cursor (seconds 20)
       (commit_arguments (poll_lease 3) \<lparr>cp_cursor = Some (lit ''c1''), cp_version = 1\<rparr> (lit ''c2'')
         [event_envelope new_event] False)) (sd_cursors baseline_store)\<rparr>"

lemma second_result:
  "second_commit (poll_session 2, baseline_store)
     = (Inr COMMITTED, (poll_session 3)\<lparr>ss_accepted_count := 1\<rparr>, final_store)"
  by code_simp

section \<open>The run\<close>

definition polled ::
  "time \<Rightarrow> sync_db \<Rightarrow> session_state \<Rightarrow> poll_phase \<Rightarrow> (pystr option \<times> sync_batch) list \<Rightarrow> poll_world" where
  "polled now d s ph pages = \<lparr>pw_now = now, pw_db = d,
     pw_pollers = (\<lambda>i. \<lparr>po_config = poll_config, po_session = poll_session 1, po_phase = Idle\<rparr>)
       (0 := \<lparr>po_config = poll_config, po_session = s, po_phase = ph\<rparr>), pw_pages = pages\<rparr>"

lemma config_scope [simp]:
  "pn_account_id poll_config = 7" "pn_scope poll_config = sample_scope"
  "fs_canonical_key sample_scope = lit ''INBOX''" "fs_sync_folder sample_scope = lit ''INBOX''"
  by (simp_all add: poll_config_def sample_scope_def)

lemma load_step:
  "load_cursor 7 (lit ''INBOX'') d = Inr cp \<Longrightarrow>
     poll_step sha t 7 (polled now d s ph pages) (polled now d s (Loaded cp) pages)"
  using poll_step.load [of "polled now d s ph pages" 0 cp sha t 7] by (simp add: polled_def)

lemma fetch_step:
  "fetch_page client poll_config (cp_cursor cp) (cp_cursor cp = None) = Inr page \<Longrightarrow>
     fetch_for sha t client poll_config cp = Inr f \<Longrightarrow>
     poll_step sha t 7 (polled now d s (Loaded cp) pages) (polled now d s (Fetched cp page f) pages)"
  using poll_step.fetch [of "polled now d s (Loaded cp) pages" 0 cp poll_config client page sha t f 7]
  by (simp add: polled_def)

lemma instance_step:
  "poll_step sha t 7 (polled now d s ph pages) (polled now (d\<lparr>sd_instances := ins\<rparr>) s ph pages)"
  using poll_step.elsewhere [where w = "polled now d s ph pages" and account = 7 and sha = sha and t = t
      and aus = "sd_authorities d" and ins = ins and scs = "sd_scopes d"]
  by (simp add: polled_def)

lemma commit_step:
  assumes "page_env_ok now env now' (sd_db d)"
    "commit_fetched (session_commit_page pg env clock link reply secs) poll_config cp f (s, d) = (res, s', d')"
  shows "poll_step sha t 7 (polled now d s (Fetched cp page f) pages)
    (polled now' d' s' Idle (record_page 7 cp page d d' pages))"
  using poll_step.commit [of "polled now d s (Fetched cp page f) pages" 0 cp page f poll_config env now'
      pg clock link reply secs res s' d' sha t 7] assms
  by (simp add: polled_def)

lemma poll_env_ok:
  "now \<le> t \<Longrightarrow> inbox d = [] \<Longrightarrow> emails d = [] \<Longrightarrow> page_env_ok now (poll_env n t) t d"
  by (simp add: page_env_ok_def env_ok_def poll_env_def inj_def)

lemma loaded:
  "load_cursor 7 (lit ''INBOX'') poll_store = Inr \<lparr>cp_cursor = None, cp_version = 0\<rparr>"
  "load_cursor 7 (lit ''INBOX'') baseline_store = Inr \<lparr>cp_cursor = Some (lit ''c1''), cp_version = 1\<rparr>"
  by code_simp+

lemma fetched:
  "fetch_page poll_client poll_config None True = Inr first_page"
  "fetch_page poll_client poll_config (Some c) False = Inr second_page"
  by (simp_all add: fetch_page_def poll_client_def first_page_def second_page_def)

lemma new_policy: "polled_policy poll_config new_mail = Inr FULL"
  using sample_resolved by (simp add: polled_policy_def poll_config_def new_mail_def)

lemma fetched_delta:
  "fetch_for poll_sha poll_texts poll_client poll_config \<lparr>cp_cursor = None, cp_version = 0\<rparr>
     = Inr (Boundary (lit ''c1''))"
  "fetch_for poll_sha poll_texts poll_client poll_config \<lparr>cp_cursor = Some (lit ''c1''), cp_version = 1\<rparr>
     = Inr (Delta (lit ''c2'') [new_event])"
  using fetched(1) fetched(2) [of "lit ''c1''"] new_policy new_normalized
  by (simp_all add: fetch_for_def normalize_change_def first_page_def second_page_def)

lemma recorded:
  "record_page 7 \<lparr>cp_cursor = None, cp_version = 0\<rparr> first_page poll_store
     (baseline_store\<lparr>sd_instances := [poll_instance 2]\<rparr>) [] = [(None, first_page)]"
  "record_page 7 \<lparr>cp_cursor = Some (lit ''c1''), cp_version = 1\<rparr> second_page baseline_store final_store
     [(None, first_page)] = [(None, first_page), (Some (lit ''c1''), second_page)]"
  by code_simp+

lemma poll_started: "poll_start 7 (polled 0 poll_store (poll_session 1) Idle [])"
  by (simp add: poll_start_def polled_def inbox_start_def poll_store_def session_of_def
      poll_session_def poll_lease_def poll_config_def)

lemma two_polls:
  "run (poll_step poll_sha poll_texts 7) (polled 0 poll_store (poll_session 1) Idle [])
     (polled (seconds 20) final_store ((poll_session 3)\<lparr>ss_accepted_count := 1\<rparr>) Idle
       [(None, first_page), (Some (lit ''c1''), second_page)])"
proof -
  let ?cp0 = "\<lparr>cp_cursor = None, cp_version = 0\<rparr>" and ?cp1 = "\<lparr>cp_cursor = Some (lit ''c1''), cp_version = 1\<rparr>"
  let ?d1 = "baseline_store\<lparr>sd_instances := [poll_instance 2]\<rparr>"
  let ?s = "poll_step poll_sha poll_texts 7" and ?pages = "[(None, first_page)]"
  have d1: "?d1\<lparr>sd_instances := [poll_instance 3]\<rparr> = baseline_store" by (simp add: baseline_store_def)
  have empty: "inbox (sd_db poll_store) = []" "emails (sd_db poll_store) = []"
    "inbox (sd_db baseline_store) = []" "emails (sd_db baseline_store) = []"
    by (simp_all add: poll_store_def baseline_store_def)
  have s1: "?s (polled 0 poll_store (poll_session 1) Idle []) (polled 0 poll_store (poll_session 1) (Loaded ?cp0) [])"
    by (rule load_step [OF loaded(1)])
  have s2: "?s (polled 0 poll_store (poll_session 1) (Loaded ?cp0) [])
      (polled 0 poll_store (poll_session 1) (Fetched ?cp0 first_page (Boundary (lit ''c1''))) [])"
    by (rule fetch_step [where client = poll_client]) (simp_all add: fetched fetched_delta)
  have s3: "?s (polled 0 poll_store (poll_session 1) (Fetched ?cp0 first_page (Boundary (lit ''c1''))) [])
      (polled (seconds 10) ?d1 (poll_session 2) Idle ?pages)"
    unfolding recorded(1) [symmetric]
    by (rule commit_step [OF poll_env_ok first_result [unfolded first_commit_def]])
      (simp_all add: empty seconds_def)
  have s4: "?s (polled (seconds 10) ?d1 (poll_session 2) Idle ?pages)
      (polled (seconds 10) baseline_store (poll_session 2) Idle ?pages)"
    by (rule instance_step [of _ _ _ ?d1 _ _ _ "[poll_instance 3]", unfolded d1])
  have s5: "?s (polled (seconds 10) baseline_store (poll_session 2) Idle ?pages)
      (polled (seconds 10) baseline_store (poll_session 2) (Loaded ?cp1) ?pages)"
    by (rule load_step [OF loaded(2)])
  have s6: "?s (polled (seconds 10) baseline_store (poll_session 2) (Loaded ?cp1) ?pages)
      (polled (seconds 10) baseline_store (poll_session 2)
        (Fetched ?cp1 second_page (Delta (lit ''c2'') [new_event])) ?pages)"
    by (rule fetch_step [where client = poll_client]) (simp_all add: fetched fetched_delta)
  have s7: "?s (polled (seconds 10) baseline_store (poll_session 2)
        (Fetched ?cp1 second_page (Delta (lit ''c2'') [new_event])) ?pages)
      (polled (seconds 20) final_store ((poll_session 3)\<lparr>ss_accepted_count := 1\<rparr>) Idle
        [(None, first_page), (Some (lit ''c1''), second_page)])"
    unfolding recorded(2) [symmetric]
    by (rule commit_step [OF poll_env_ok second_result [unfolded second_commit_def]])
      (simp_all add: empty seconds_def)
  note then_step = run_step [where step = ?s]
  show ?thesis
    by (rule then_step [OF then_step [OF then_step [OF then_step [OF then_step [OF then_step [OF then_step
          [OF run_refl s1] s2] s3] s4] s5] s6] s7])
qed

theorem polling_loses_nothing_witness:
  "page_chain None [(None, first_page), (Some (lit ''c1''), second_page)] (stored_cursor 7 final_store)
    \<and> stored_version 7 final_store = 2
    \<and> (\<exists>!r. r \<in> set (inbox (sd_db final_store))
          \<and> stored_change poll_sha poll_texts 7 (lit ''c2'') new_mail r)"
  using polling_loses_nothing [OF poll_started two_polls]
  by (simp add: polled_def second_page_def first_page_def)


theorem normalized_event_bounds_witness:
  "is_sha256_hex (ev_dedupe_key new_event) \<and> exact_text 8192 (lit ''c2'')
    \<and> event_cursor new_event = Some (JStr (lit ''c2''))
    \<and> stored_payload_bytes poll_texts (ev_payload new_event) \<le> 262144"
  using normalized_event_bounds [OF new_normalized] by blast

text \<open>The same mail under two cursors, with a hash that tells the two texts apart.\<close>

definition two_keys :: "pybytes \<Rightarrow> pystr" where
  "two_keys b = replicate 64 (if b = utf8 (identity_text poll_texts 7 CREATE (lit ''m1'') (lit ''INBOX'')
     None (lit ''c2'')) then 97 else 98)"

definition delivered_under :: "pystr \<Rightarrow> ingress_event" where
  "delivered_under cursor = polled_event two_keys poll_texts 7 (lit ''INBOX'') cursor new_mail FULL"

lemma two_normalized:
  "normalize_sync_change two_keys poll_texts 7 (lit ''INBOX'') (lit ''c2'') (TypedChange new_mail) FULL
     = Inr (delivered_under (lit ''c2''))"
  "normalize_sync_change two_keys poll_texts 7 (lit ''INBOX'') (lit ''c3'') (TypedChange new_mail) FULL
     = Inr (delivered_under (lit ''c3''))"
  by code_simp+

theorem dedupe_key_identifies_delivery_witness:
  "ev_dedupe_key (delivered_under (lit ''c2'')) \<noteq> ev_dedupe_key (delivered_under (lit ''c3''))"
proof -
  have points: "list_all event_points [delivered_under (lit ''c2''), delivered_under (lit ''c3'')]"
    "list_all code_points [lit ''c2'', lit ''c3'']" by code_simp+
  have inj: "inj_on two_keys {hashed_text poll_texts (delivered_under (lit ''c2'')) (lit ''c2''),
      hashed_text poll_texts (delivered_under (lit ''c3'')) (lit ''c3'')}"
    by (simp add: inj_on_def two_keys_def hashed_text_def delivered_under_def polled_event_def
        new_mail_def)
  have "delivery (delivered_under (lit ''c2'')) \<noteq> delivery (delivered_under (lit ''c3''))"
    by (simp add: delivery_def delivered_under_def lit_inject)
  then show ?thesis
    using dedupe_key_identifies_delivery [OF two_normalized points inj] by simp
qed

end
