(* ===== verification/Spec2Isabelle.thy ===== *)
theory Spec2Isabelle
  imports InboxSafety RouterCascade ApprovalScenario PollingScenario
begin

text \<open>
  A verification development for the durable email intake of AI-Exchange: the code under
  \<^verbatim>\<open>src/src\<close> that turns polled mailbox changes into exactly-once processing of emails.

  \<^bold>\<open>The program.\<close> Polled changes are normalised into events (\<^verbatim>\<open>ingestion/models.py\<close>) and
  admitted into the table \<^verbatim>\<open>event_inbox\<close>. Workers claim rows under a lease, apply the event to
  the email aggregate (\<^verbatim>\<open>emails\<close>), authorise external effects, and end the attempt with a
  completion or a failure; expired leases are recovered and quarantined work is released by an
  operator. All of this is \<^verbatim>\<open>ingestion/repository.py\<close>, which decides through the pure functions
  of \<^verbatim>\<open>ingestion/email_events.py\<close>, \<^verbatim>\<open>ingestion/processing.py\<close> and \<^verbatim>\<open>intake_guard/policy.py\<close>, and
  writes under the row triggers and CHECK constraints of the baseline schema in
  \<^verbatim>\<open>alembic/versions\<close>.

  \<^bold>\<open>The theories.\<close>
  \<^item> \<open>Prelude\<close>: results, the SQL statement shapes on tables as lists of rows, and the two
    transition-system locales. \<open>PyText\<close>, \<open>PyJson\<close>: Python text, UTF-8, JSON values and the
    canonical \<^verbatim>\<open>json.dumps\<close>.
  \<^item> \<open>EmailEvents\<close> (\<^verbatim>\<open>email_events.py\<close>), \<open>InboxModels\<close> (\<^verbatim>\<open>models.py\<close>), \<open>Processing\<close>
    (\<^verbatim>\<open>processing.py\<close>), \<open>IntakeGuard\<close> (\<^verbatim>\<open>intake_guard/policy.py\<close>): the pure parts. A validating
    constructor is a function into \<open>invalid_value + 'a\<close>.
  \<^item> \<open>InboxStore\<close>: the rows, the store \<open>db\<close>, what a transaction reads from outside (\<open>env\<close>), the row
    readers, receipt keys, failure table and lease fence of \<^verbatim>\<open>repository.py\<close>. \<open>InboxLeases\<close>,
    \<open>InboxProcessing\<close>, \<open>InboxFinish\<close>, \<open>InboxRecovery\<close>: its operations, one function
    \<open>db \<Rightarrow> repo_error + ('a \<times> db)\<close> per transaction, composed as the code composes them.
  \<^item> \<open>InboxGuards\<close>: the triggers and constraints of the schema as predicates, and the status
    machines of the two tables. They are not built into the operations; they are proved.
  \<^item> \<open>InboxInvariants\<close>, \<open>InboxSteps\<close>: the store invariant and one preservation lemma per
    operation. \<open>InboxReceipts\<close>: the two logs only grow, and receipt keys are injective.
  \<^item> \<open>InboxMachine\<close>: the transition system of all operations, interleaved with the passing of
    time and the other writers, as an interpretation of \<open>monotone_system\<close>.
  \<^item> \<open>InboxScenario\<close>, \<open>InboxTombstone\<close>: two evaluated runs the witnesses use.
  \<^item> \<open>InboxClaims\<close>, \<open>InboxFencing\<close>, \<open>InboxSafety\<close>: the properties.

  \<^bold>\<open>Conventions.\<close> A raised exception is the left injection of a sum; a transaction that raises
  returns no store, as its rollback leaves none. Python integers are HOL integers and the bounds
  the code checks are written out (\<open>POSTGRES_BIGINT_MAX\<close>). Text is the list of its code points,
  a time a number of microseconds. Row locks order transactions, which are atomic here; rows
  skipped by \<^verbatim>\<open>SKIP LOCKED\<close> are a predicate of \<open>env\<close>. SHA-256, the text of floats and times,
  \<^verbatim>\<open>str.lower\<close> and case folding are parameters.

  \<^bold>\<open>Bounds and fuel.\<close> No definition uses fuel: every loop of the modelled code runs over a list
  it has fetched, and is structural recursion.

  \<^bold>\<open>Not modelled.\<close> Connection handling, timeouts and the translation of driver exceptions
  (\<^verbatim>\<open>_database_error\<close>) are outside the store. The SQL functions of the baseline schema, which
  production admission goes through, the ownership and runtime tables' own writers, and the
  Exchange, Feishu, graph and maintenance code are not modelled yet.
\<close>

end
